(* ===== verification/Prelude.thy ===== *)
theory Prelude
  imports Main "HOL-Library.List_Lexorder" "HOL-Library.Char_ord" "HOL-Library.Sublist"
begin

text \<open>
  Shared vocabulary of the development.

  Python exceptions are values: \<open>Exc c msg\<close> is an exception of class \<open>c\<close> whose message
  starts with \<open>msg\<close> (interpolated details of the messages are left out).
  A pure function that may raise returns \<open>py_error + 'a\<close>; a method that also changes state
  is a function \<open>'s \<Rightarrow> (py_error + 'a) \<times> 's\<close>, so that the state changes made before
  a raise are kept, as they are in the program.

  A Python \<open>str\<close> is the \<open>string\<close> of its UTF-8 bytes: \<open>length\<close> is
  \<open>len(s.encode("utf-8"))\<close>, \<open>py_len\<close> is \<open>len(s)\<close>, and the byte-wise lexicographic
  order is Python's order by code points.
\<close>

named_theorems monad_simps \<open>evaluation of the exception and state combinators\<close>
named_theorems result_iff \<open>when a combinator returns normally\<close>

section \<open>Exceptions\<close>

datatype exc_class =
    ValueError | TypeError | KeyError | RuntimeError | ZeroDivisionError | OverflowError
  | OSError | FileNotFoundError | IntegrityError
  | StoreError | StoreConfigurationError | ConflictError | NotFoundError
  | LeaseUnavailableError | BudgetExceededError
  | ReceiptError | InvalidEnvelopeError | UnknownKeyError | InvalidSignatureError
  | ExpiredReceiptError | NotYetValidReceiptError | ReplayDetectedError
  | HiddenBenchmarkError | BenchmarkSecurityError | BenchmarkSchemaError | BenchmarkProtocolError
  | EvidenceError | PolicyViolation | ProcessRegistryClosed
  | PermissionError | ProcessLookupError | TimeoutExpired
  | FileExistsError | ConfigurationError | BackupError

datatype py_error = Exc (exc_of: exc_class) (msg_of: string)

text \<open>The class hierarchy the handlers rely on (\<open>except C\<close> catches subclasses of \<open>C\<close>).\<close>

definition direct_base :: "exc_class \<Rightarrow> exc_class option" where
  "direct_base c = (case c of
     FileNotFoundError \<Rightarrow> Some OSError
   | PermissionError \<Rightarrow> Some OSError
   | ProcessLookupError \<Rightarrow> Some OSError
   | FileExistsError \<Rightarrow> Some OSError
   | ConfigurationError \<Rightarrow> Some ValueError
   | BackupError \<Rightarrow> Some RuntimeError
   | StoreError \<Rightarrow> Some RuntimeError
   | StoreConfigurationError \<Rightarrow> Some StoreError
   | ConflictError \<Rightarrow> Some StoreError
   | NotFoundError \<Rightarrow> Some StoreError
   | LeaseUnavailableError \<Rightarrow> Some ConflictError
   | BudgetExceededError \<Rightarrow> Some ConflictError
   | ReceiptError \<Rightarrow> Some ValueError
   | InvalidEnvelopeError \<Rightarrow> Some ReceiptError
   | UnknownKeyError \<Rightarrow> Some ReceiptError
   | InvalidSignatureError \<Rightarrow> Some ReceiptError
   | ExpiredReceiptError \<Rightarrow> Some ReceiptError
   | NotYetValidReceiptError \<Rightarrow> Some ReceiptError
   | ReplayDetectedError \<Rightarrow> Some ReceiptError
   | HiddenBenchmarkError \<Rightarrow> Some RuntimeError
   | BenchmarkSecurityError \<Rightarrow> Some HiddenBenchmarkError
   | BenchmarkSchemaError \<Rightarrow> Some HiddenBenchmarkError
   | BenchmarkProtocolError \<Rightarrow> Some HiddenBenchmarkError
   | EvidenceError \<Rightarrow> Some RuntimeError
   | PolicyViolation \<Rightarrow> Some EvidenceError
   | ProcessRegistryClosed \<Rightarrow> Some RuntimeError
   | _ \<Rightarrow> None)"

definition isinstance_exc :: "py_error \<Rightarrow> exc_class \<Rightarrow> bool" where
  "isinstance_exc e c \<longleftrightarrow>
     exc_of e = c
   \<or> direct_base (exc_of e) = Some c
   \<or> Option.bind (direct_base (exc_of e)) direct_base = Some c
   \<or> Option.bind (Option.bind (direct_base (exc_of e)) direct_base) direct_base = Some c"

lemma pred_option_code [code]: "pred_option P None = True" "pred_option P (Some x) = P x"
  by simp_all

section \<open>Functions that may raise\<close>

type_synonym 'a result = "py_error + 'a"

definition bindR :: "'a result \<Rightarrow> ('a \<Rightarrow> 'b result) \<Rightarrow> 'b result" where
  "bindR r f = (case r of Inl e \<Rightarrow> Inl e | Inr x \<Rightarrow> f x)"

definition raiseR :: "exc_class \<Rightarrow> string \<Rightarrow> 'a result" where
  "raiseR c msg = Inl (Exc c msg)"

definition guardR :: "bool \<Rightarrow> exc_class \<Rightarrow> string \<Rightarrow> unit result" where
  \<comment> \<open>\<open>if not b: raise c(msg)\<close>\<close>
  "guardR b c msg = (if b then Inr () else raiseR c msg)"

lemma bindR_simps [simp, monad_simps]:
  "bindR (Inr x) f = f x" "bindR (Inl e) f = Inl e"
  by (simp_all add: bindR_def)

lemma guardR_simps [simp, monad_simps]:
  "guardR True c msg = Inr ()" "guardR False c msg = raiseR c msg"
  by (simp_all add: guardR_def)

lemma bindR_Inr_iff [result_iff]: "bindR r f = Inr y \<longleftrightarrow> (\<exists>x. r = Inr x \<and> f x = Inr y)"
  by (cases r) auto

lemma guardR_Inr_iff [simp, result_iff]: "guardR b c msg = Inr u \<longleftrightarrow> b"
  by (simp add: guardR_def raiseR_def)

lemma raiseR_neq_Inr [simp, result_iff]: "raiseR c msg \<noteq> Inr x"
  by (simp add: raiseR_def)

lemma bindR_cong [fundef_cong]:
  "r = r' \<Longrightarrow> (\<And>x. r' = Inr x \<Longrightarrow> f x = g x) \<Longrightarrow> bindR r f = bindR r' g"
  by (cases r') auto

primrec mapR :: "('a \<Rightarrow> 'b result) \<Rightarrow> 'a list \<Rightarrow> 'b list result" where
  "mapR f [] = Inr []"
| "mapR f (x # xs) = bindR (f x) (\<lambda>y. bindR (mapR f xs) (\<lambda>ys. Inr (y # ys)))"

primrec foldR :: "('a \<Rightarrow> 's \<Rightarrow> 's result) \<Rightarrow> 'a list \<Rightarrow> 's \<Rightarrow> 's result" where
  "foldR f [] s = Inr s"
| "foldR f (x # xs) s = bindR (f x s) (foldR f xs)"

lemma mapR_Inr_iff:
  "mapR f xs = Inr ys \<longleftrightarrow> list_all2 (\<lambda>x y. f x = Inr y) xs ys"
  by (induction xs arbitrary: ys) (auto simp: bindR_Inr_iff list_all2_Cons1)

lemma foldR_append: "foldR f (xs @ ys) s = bindR (foldR f xs s) (foldR f ys)"
proof (induction xs arbitrary: s)
  case (Cons x xs)
  then show ?case by (cases "f x s") auto
qed simp

lemma foldR_invariant:
  assumes "foldR f xs s = Inr s'" and "I s"
    and "\<And>x t t'. x \<in> set xs \<Longrightarrow> I t \<Longrightarrow> f x t = Inr t' \<Longrightarrow> I t'"
  shows "I s'"
  using assms
proof (induction xs arbitrary: s)
  case (Cons x xs)
  then obtain t where "f x s = Inr t" "foldR f xs t = Inr s'"
    by (auto simp: bindR_Inr_iff)
  with Cons show ?case by (metis list.set_intros(1) list.set_intros(2))
qed simp

section \<open>Methods: exceptions and state\<close>

type_synonym ('s, 'a) action = "'s \<Rightarrow> 'a result \<times> 's"

definition ret :: "'a \<Rightarrow> ('s, 'a) action" where
  "ret x s = (Inr x, s)"

definition throw :: "py_error \<Rightarrow> ('s, 'a) action" where
  "throw e s = (Inl e, s)"

definition raise :: "exc_class \<Rightarrow> string \<Rightarrow> ('s, 'a) action" where
  "raise c msg = throw (Exc c msg)"

definition bind :: "('s, 'a) action \<Rightarrow> ('a \<Rightarrow> ('s, 'b) action) \<Rightarrow> ('s, 'b) action" where
  "bind m f s = (case m s of (Inl e, s') \<Rightarrow> (Inl e, s') | (Inr x, s') \<Rightarrow> f x s')"

definition andthen :: "('s, 'a) action \<Rightarrow> ('s, 'b) action \<Rightarrow> ('s, 'b) action" where
  "andthen m k = bind m (\<lambda>_. k)"

definition lift :: "'a result \<Rightarrow> ('s, 'a) action" where
  "lift r s = (r, s)"

definition require :: "bool \<Rightarrow> exc_class \<Rightarrow> string \<Rightarrow> ('s, unit) action" where
  "require b c msg = (if b then ret () else raise c msg)"

definition get :: "('s \<Rightarrow> 'a) \<Rightarrow> ('s, 'a) action" where
  "get f s = (Inr (f s), s)"

definition modify :: "('s \<Rightarrow> 's) \<Rightarrow> ('s, unit) action" where
  "modify f s = (Inr (), f s)"

definition catch :: "('s, 'a) action \<Rightarrow> (py_error \<Rightarrow> ('s, 'a) action) \<Rightarrow> ('s, 'a) action" where
  \<comment> \<open>\<open>try: m  except Exception as e: h(e)\<close>\<close>
  "catch m h s = (case m s of (Inl e, s') \<Rightarrow> h e s' | (Inr x, s') \<Rightarrow> (Inr x, s'))"

definition finally_do :: "('s, 'a) action \<Rightarrow> ('s, unit) action \<Rightarrow> ('s, 'a) action" where
  \<comment> \<open>\<open>try: m  finally: k\<close>: an exception of \<open>k\<close> replaces the outcome of \<open>m\<close>\<close>
  "finally_do m k s = (case m s of (r, s') \<Rightarrow>
     (case k s' of (Inl e, s'') \<Rightarrow> (Inl e, s'') | (Inr _, s'') \<Rightarrow> (r, s'')))"

lemma action_simps [simp, monad_simps]:
  "ret x s = (Inr x, s)"
  "throw e s = (Inl e, s)"
  "raise c msg s = (Inl (Exc c msg), s)"
  "lift r s = (r, s)"
  "get g s = (Inr (g s), s)"
  "modify h s = (Inr (), h s)"
  by (simp_all add: ret_def throw_def raise_def lift_def get_def modify_def)

lemma require_apply [monad_simps]:
  "require b c msg s = (if b then (Inr (), s) else (Inl (Exc c msg), s))"
  by (simp add: require_def)

lemma bind_apply [monad_simps]:
  "bind m f s = (case m s of (Inl e, s') \<Rightarrow> (Inl e, s') | (Inr x, s') \<Rightarrow> f x s')"
  by (fact bind_def)

lemma andthen_apply [monad_simps]:
  "andthen m k s = (case m s of (Inl e, s') \<Rightarrow> (Inl e, s') | (Inr x, s') \<Rightarrow> k s')"
  by (simp add: andthen_def bind_def)

lemma bind_Inr_iff [result_iff]:
  "bind m f s = (Inr y, t) \<longleftrightarrow> (\<exists>x s'. m s = (Inr x, s') \<and> f x s' = (Inr y, t))"
  by (auto simp: bind_def split: prod.splits sum.splits)

lemma andthen_Inr_iff [result_iff]:
  "andthen m k s = (Inr y, t) \<longleftrightarrow> (\<exists>x s'. m s = (Inr x, s') \<and> k s' = (Inr y, t))"
  by (simp add: andthen_def bind_Inr_iff)

lemma bind_Inl_iff:
  "bind m f s = (Inl e, t) \<longleftrightarrow>
     m s = (Inl e, t) \<or> (\<exists>x s'. m s = (Inr x, s') \<and> f x s' = (Inl e, t))"
  by (auto simp: bind_def split: prod.splits sum.splits)

lemma catch_Inr_iff [result_iff]:
  "catch m h s = (Inr y, t) \<longleftrightarrow>
     m s = (Inr y, t) \<or> (\<exists>e s'. m s = (Inl e, s') \<and> h e s' = (Inr y, t))"
  by (auto simp: catch_def split: prod.splits sum.splits)

lemma require_Inr_iff [simp, result_iff]:
  "require b c msg s = (Inr u, t) \<longleftrightarrow> b \<and> t = s"
  by (auto simp: require_apply)

primrec for_each :: "('a \<Rightarrow> ('s, unit) action) \<Rightarrow> 'a list \<Rightarrow> ('s, unit) action" where
  "for_each f [] = ret ()"
| "for_each f (x # xs) = andthen (f x) (for_each f xs)"

subsection \<open>Preservation of a predicate by an action\<close>

text \<open>\<open>keeps I m\<close>: \<open>m\<close> keeps \<open>I\<close> however it ends, normally or with an exception.\<close>

definition keeps :: "('s \<Rightarrow> bool) \<Rightarrow> ('s, 'a) action \<Rightarrow> bool" where
  "keeps I m \<longleftrightarrow> (\<forall>s r t. I s \<longrightarrow> m s = (r, t) \<longrightarrow> I t)"

named_theorems keeps_intros \<open>preservation rules for the combinators\<close>

lemma keepsI: "(\<And>s r t. I s \<Longrightarrow> m s = (r, t) \<Longrightarrow> I t) \<Longrightarrow> keeps I m"
  by (auto simp: keeps_def)

lemma keepsD: "keeps I m \<Longrightarrow> I s \<Longrightarrow> m s = (r, t) \<Longrightarrow> I t"
  by (auto simp: keeps_def)

lemma keeps_pure [keeps_intros]:
  "keeps I (ret x)" "keeps I (throw e)" "keeps I (raise c msg)" "keeps I (lift r)"
  "keeps I (get g)" "keeps I (require b c msg)"
  by (auto simp: keeps_def require_apply split: if_splits)

lemma keeps_modify: "(\<And>s. I s \<Longrightarrow> I (h s)) \<Longrightarrow> keeps I (modify h)"
  by (auto simp: keeps_def)

lemma keeps_bind [keeps_intros]:
  assumes "keeps I m" and "\<And>x. keeps I (f x)"
  shows "keeps I (bind m f)"
proof (rule keepsI)
  fix s r t assume "I s" and run: "bind m f s = (r, t)"
  obtain r' s' where m: "m s = (r', s')" by fastforce
  with assms(1) \<open>I s\<close> have "I s'" by (auto dest: keepsD)
  with m run assms(2) show "I t"
    by (cases r') (auto simp: bind_def dest: keepsD)
qed

lemma keeps_andthen [keeps_intros]:
  "keeps I m \<Longrightarrow> keeps I k \<Longrightarrow> keeps I (andthen m k)"
  by (simp add: andthen_def keeps_bind)

lemma keeps_require: "(b \<Longrightarrow> keeps I k) \<Longrightarrow> keeps I (andthen (require b c msg) k)"
  by (cases b) (auto simp: keeps_def andthen_apply require_apply)

lemma keeps_if [keeps_intros]:
  "keeps I m \<Longrightarrow> keeps I k \<Longrightarrow> keeps I (if b then m else k)"
  by simp

lemma keeps_option [keeps_intros]:
  "keeps I m \<Longrightarrow> (\<And>x. keeps I (k x)) \<Longrightarrow>
   keeps I (case p of None \<Rightarrow> m | Some x \<Rightarrow> k x)"
  by (simp split: option.split)

lemma keeps_catch [keeps_intros]:
  assumes "keeps I m" and "\<And>e. keeps I (h e)"
  shows "keeps I (catch m h)"
proof (rule keepsI)
  fix s r t assume "I s" and run: "catch m h s = (r, t)"
  obtain r' s' where m: "m s = (r', s')" by fastforce
  with assms(1) \<open>I s\<close> have "I s'" by (auto dest: keepsD)
  with m run assms(2) show "I t"
    by (cases r') (auto simp: catch_def dest: keepsD)
qed

lemma keeps_finally [keeps_intros]:
  assumes "keeps I m" and "keeps I k"
  shows "keeps I (finally_do m k)"
proof (rule keepsI)
  fix s r t assume "I s" and run: "finally_do m k s = (r, t)"
  obtain r' s' where m: "m s = (r', s')" by fastforce
  with assms(1) \<open>I s\<close> have I': "I s'" by (auto dest: keepsD)
  obtain r'' s'' where k: "k s' = (r'', s'')" by fastforce
  with assms(2) I' have "I s''" by (auto dest: keepsD)
  with m k run show "I t"
    by (cases r'') (auto simp: finally_do_def)
qed

lemma keeps_for_each [keeps_intros]: "(\<And>x. keeps I (f x)) \<Longrightarrow> keeps I (for_each f xs)"
proof (induction xs)
  case Nil
  show ?case unfolding for_each.simps by (intro keeps_intros)
next
  case (Cons x xs)
  show ?case unfolding for_each.simps by (intro keeps_andthen Cons.prems Cons.IH)
qed

subsection \<open>Transition systems\<close>

locale invariant_system =
  fixes step :: "'s \<Rightarrow> 's \<Rightarrow> bool" and inv :: "'s \<Rightarrow> bool"
  assumes inv_step: "inv s \<Longrightarrow> step s s' \<Longrightarrow> inv s'"
begin

lemma inv_steps: "step\<^sup>*\<^sup>* s s' \<Longrightarrow> inv s \<Longrightarrow> inv s'"
  by (induction rule: rtranclp_induct) (auto intro: inv_step)

end

section \<open>Strings\<close>

definition continuation_byte :: "char \<Rightarrow> bool" where
  "continuation_byte c \<longleftrightarrow> 128 \<le> (of_char c :: nat) \<and> (of_char c :: nat) < 192"

lemma int_of_char: "(of_char c :: int) = int (of_char c)"
  by (rule of_nat_of_char [symmetric])

lemma continuation_byte_code [code]:
  "continuation_byte c \<longleftrightarrow> 128 \<le> (of_char c :: int) \<and> (of_char c :: int) < 192"
  unfolding continuation_byte_def int_of_char by simp

definition py_len :: "string \<Rightarrow> nat" where
  \<comment> \<open>\<open>len(s)\<close>: the code points of \<open>s\<close>\<close>
  "py_len s = length (filter (\<lambda>c. \<not> continuation_byte c) s)"

definition startswith :: "string \<Rightarrow> string \<Rightarrow> bool" where
  "startswith s p \<longleftrightarrow> prefix p s"

definition lower_hex :: "char \<Rightarrow> bool" where
  "lower_hex c \<longleftrightarrow> c \<in> set ''0123456789abcdef''"

definition is_sha256 :: "string \<Rightarrow> bool" where
  \<comment> \<open>\<open>^[0-9a-f]{64}$\<close>, full match\<close>
  "is_sha256 s \<longleftrightarrow> length s = 64 \<and> list_all lower_hex s"

fun digits_of_nat :: "nat \<Rightarrow> string" where
  "digits_of_nat n =
     (if n < 10 then [char_of (48 + n)]
      else digits_of_nat (n div 10) @ [char_of (48 + n mod 10)])"

declare digits_of_nat.simps [simp del]

definition str_of_int :: "int \<Rightarrow> string" where
  \<comment> \<open>\<open>str(n)\<close>\<close>
  "str_of_int n = (if n < 0 then CHR ''-'' # digits_of_nat (nat (- n)) else digits_of_nat (nat n))"

text \<open>The same digits computed on integers, for evaluation.\<close>

function int_digits :: "int \<Rightarrow> string" where
  "int_digits n =
     (if n < 10 then [char_of (48 + n)] else int_digits (n div 10) @ [char_of (48 + n mod 10)])"
  by auto
termination by (relation "measure nat") auto

declare int_digits.simps [simp del]

lemma char_of_int: "0 \<le> k \<Longrightarrow> char_of (48 + k) = (char_of (48 + nat k) :: char)"
  using char_of_nat [where 'a = int, of "48 + nat k"] by simp

lemma int_digits_nat: "int_digits (int n) = digits_of_nat n"
proof (induction n rule: digits_of_nat.induct)
  case (1 n)
  show ?case
    using 1 by (subst int_digits.simps, subst digits_of_nat.simps) (simp add: char_of_int nat_mod_distrib zdiv_int)
qed

lemma str_of_int_code [code]:
  "str_of_int n = (if n < 0 then CHR ''-'' # int_digits (- n) else int_digits n)"
  using int_digits_nat [of "nat n"] int_digits_nat [of "nat (- n)"] by (auto simp: str_of_int_def)

section \<open>Python containers\<close>

text \<open>A \<open>dict\<close> is an association list in insertion order, with one entry per key.\<close>

type_synonym 'v dict = "(string \<times> 'v) list"

fun dict_set :: "'k \<Rightarrow> 'v \<Rightarrow> ('k \<times> 'v) list \<Rightarrow> ('k \<times> 'v) list" where
  \<comment> \<open>\<open>d[k] = v\<close>: an existing key keeps its place\<close>
  "dict_set k v [] = [(k, v)]"
| "dict_set k v ((k', v') # d) = (if k' = k then (k, v) # d else (k', v') # dict_set k v d)"

definition dict_get :: "('k \<times> 'v) list \<Rightarrow> 'k \<Rightarrow> 'v \<Rightarrow> 'v" where
  \<comment> \<open>\<open>d.get(k, default)\<close>\<close>
  "dict_get d k v = (case map_of d k of None \<Rightarrow> v | Some x \<Rightarrow> x)"

definition dict_of :: "('k \<times> 'v) list \<Rightarrow> ('k \<times> 'v) list" where
  \<comment> \<open>a dict comprehension or display: later entries win, first positions stay\<close>
  "dict_of kvs = fold (\<lambda>(k, v). dict_set k v) kvs []"

lemma map_of_dict_set [simp]: "map_of (dict_set k v d) = (map_of d)(k \<mapsto> v)"
  by (induction k v d rule: dict_set.induct) (auto simp: fun_eq_iff)

lemma keys_dict_set: "fst ` set (dict_set k v d) = insert k (fst ` set d)"
  by (induction k v d rule: dict_set.induct) auto

lemma distinct_dict_set: "distinct (map fst d) \<Longrightarrow> distinct (map fst (dict_set k v d))"
proof (induction k v d rule: dict_set.induct)
  case (2 k v k' v' d)
  have "fst ` set (dict_set k v d) = insert k (fst ` set d)" by (rule keys_dict_set)
  with 2 show ?case by auto
qed simp

lemma dict_set_values: "snd ` set (dict_set k v d) \<subseteq> insert v (snd ` set d)"
  by (induction k v d rule: dict_set.induct) auto

primrec dedup_from :: "'a list \<Rightarrow> 'a list \<Rightarrow> 'a list" where
  "dedup_from seen [] = []"
| "dedup_from seen (x # xs) =
     (if x \<in> set seen then dedup_from seen xs else x # dedup_from (x # seen) xs)"

definition dict_fromkeys :: "'a list \<Rightarrow> 'a list" where
  \<comment> \<open>\<open>tuple(dict.fromkeys(xs))\<close>: first occurrences, in order\<close>
  "dict_fromkeys xs = dedup_from [] xs"

lemma set_dedup_from: "set (dedup_from seen xs) = set xs - set seen"
  by (induction xs arbitrary: seen) auto

lemma distinct_dedup_from: "distinct (dedup_from seen xs)"
  by (induction xs arbitrary: seen) (auto simp: set_dedup_from)

lemma set_dict_fromkeys [simp]: "set (dict_fromkeys xs) = set xs"
  by (simp add: dict_fromkeys_def set_dedup_from)

lemma distinct_dict_fromkeys [simp]: "distinct (dict_fromkeys xs)"
  by (simp add: dict_fromkeys_def distinct_dedup_from)

lemma dict_fromkeys_Nil [simp]: "dict_fromkeys xs = [] \<longleftrightarrow> xs = []"
  by (metis set_dict_fromkeys set_empty)

text \<open>\<open>max(xs, key=...)\<close>: the first element that no later one strictly exceeds.\<close>

primrec max_from :: "('a \<Rightarrow> 'a \<Rightarrow> bool) \<Rightarrow> 'a \<Rightarrow> 'a list \<Rightarrow> 'a" where
  "max_from gt m [] = m"
| "max_from gt m (x # xs) = (if gt x m then max_from gt x xs else max_from gt m xs)"

definition py_max :: "('a \<Rightarrow> 'a \<Rightarrow> bool) \<Rightarrow> 'a list \<Rightarrow> 'a result" where
  "py_max gt xs = (case xs of [] \<Rightarrow> raiseR ValueError ''max() arg is an empty sequence''
                            | x # xs' \<Rightarrow> Inr (max_from gt x xs'))"

lemma max_from_in: "max_from gt m xs \<in> insert m (set xs)"
  by (induction xs arbitrary: m) (auto split: if_splits)

lemma py_max_in: "py_max gt xs = Inr x \<Longrightarrow> x \<in> set xs"
  using max_from_in by (fastforce simp: py_max_def split: list.splits)

lemma py_max_nonempty: "xs \<noteq> [] \<Longrightarrow> \<exists>x. py_max gt xs = Inr x"
  by (cases xs) (auto simp: py_max_def)

text \<open>
  \<open>sorted(xs, key=...)\<close>: stable insertion by the strict order on the keys. On keys that are
  totally ordered every stable sort returns this list.
\<close>

fun insert_sorted :: "('a \<Rightarrow> 'a \<Rightarrow> bool) \<Rightarrow> 'a \<Rightarrow> 'a list \<Rightarrow> 'a list" where
  "insert_sorted lt x [] = [x]"
| "insert_sorted lt x (y # ys) = (if lt y x then y # insert_sorted lt x ys else x # y # ys)"

definition py_sorted :: "('a \<Rightarrow> 'a \<Rightarrow> bool) \<Rightarrow> 'a list \<Rightarrow> 'a list" where
  "py_sorted lt xs = foldr (insert_sorted lt) xs []"

lemma set_insert_sorted [simp]: "set (insert_sorted lt x ys) = insert x (set ys)"
  by (induction lt x ys rule: insert_sorted.induct) auto

lemma distinct_insert_sorted [simp]:
  "distinct (insert_sorted lt x ys) \<longleftrightarrow> x \<notin> set ys \<and> distinct ys"
  by (induction lt x ys rule: insert_sorted.induct) auto

lemma set_py_sorted [simp]: "set (py_sorted lt xs) = set xs"
  by (induction xs) (auto simp: py_sorted_def)

lemma py_sorted_Cons: "py_sorted lt (x # xs) = insert_sorted lt x (py_sorted lt xs)"
  by (simp add: py_sorted_def)

lemma distinct_py_sorted [simp]: "distinct (py_sorted lt xs) = distinct xs"
  by (induction xs) (simp_all add: py_sorted_Cons, simp add: py_sorted_def)

lemma length_insert_sorted [simp]: "length (insert_sorted lt x ys) = Suc (length ys)"
  by (induction lt x ys rule: insert_sorted.induct) auto

lemma length_py_sorted [simp]: "length (py_sorted lt xs) = length xs"
  by (induction xs) (auto simp: py_sorted_def)

lemma find_Some_iff_in:
  "find P xs = Some x \<Longrightarrow> x \<in> set xs \<and> P x"
  by (auto simp: find_Some_iff)

end
