(* ===== verification/PyFloat.thy ===== *)
theory PyFloat
  imports Prelude Complex_Main
begin

text \<open>
  Python's \<open>float\<close>: IEEE 754 binary64. A finite float is the rational it denotes, every
  arithmetic operation is the exact operation followed by rounding to the nearest double, ties to
  even, with gradual underflow and overflow to an infinity. The two zeros are identified.
  Operations that CPython leaves to the C library or changed between 3.11 and 3.12 (\<open>log\<close>,
  \<open>exp\<close>, \<open>tanh\<close>, \<open>sqrt\<close>, \<open>**\<close> and the summation algorithm of \<open>sum\<close>)
  are the fields of a record \<open>pymath\<close> that the definitions using them take as an argument.
\<close>

named_theorems float_ord \<open>order facts on floats\<close>

datatype pyfloat = Fin rat | PInf | NInf | NaN

section \<open>Rounding\<close>

function ilog2 :: "int \<Rightarrow> int" where
  "ilog2 n = (if n \<le> 1 then 0 else 1 + ilog2 (n div 2))"
  by pat_completeness auto
termination
  by (relation "measure nat") auto

declare ilog2.simps [simp del]

definition pow2 :: "int \<Rightarrow> rat" where
  "pow2 k = (if 0 \<le> k then of_int (2 ^ nat k) else 1 / of_int (2 ^ nat (- k)))"

definition bexp :: "rat \<Rightarrow> int" where
  \<comment> \<open>the binary exponent of a positive rational\<close>
  "bexp x = (let (p, q) = quotient_of x;
                 k = ilog2 p - ilog2 q
             in if x < pow2 k then k - 1 else k)"

definition quantum_exp :: "rat \<Rightarrow> int" where
  "quantum_exp x = max (bexp \<bar>x\<bar> - 52) (- 1074)"

definition round_half_even :: "rat \<Rightarrow> int" where
  "round_half_even x =
     (let f = \<lfloor>x\<rfloor>; d = x - of_int f
      in if d < 1/2 then f else if 1/2 < d then f + 1 else if even f then f else f + 1)"

definition round64 :: "rat \<Rightarrow> pyfloat" where
  "round64 x =
     (if x = 0 then Fin 0
      else let q = pow2 (quantum_exp x); y = of_int (round_half_even (x / q)) * q
           in if y \<noteq> 0 \<and> 1024 \<le> bexp \<bar>y\<bar> then (if 0 < x then PInf else NInf) else Fin y)"

definition fl :: "rat \<Rightarrow> pyfloat" where
  \<comment> \<open>a decimal literal of the source\<close>
  "fl x = round64 x"

section \<open>Arithmetic\<close>

fun isfinite :: "pyfloat \<Rightarrow> bool" where
  "isfinite (Fin _) = True" | "isfinite _ = False"

fun fneg :: "pyfloat \<Rightarrow> pyfloat" where
  "fneg (Fin a) = Fin (- a)" | "fneg PInf = NInf" | "fneg NInf = PInf" | "fneg NaN = NaN"

fun fadd :: "pyfloat \<Rightarrow> pyfloat \<Rightarrow> pyfloat" where
  "fadd (Fin a) (Fin b) = round64 (a + b)"
| "fadd NaN _ = NaN" | "fadd _ NaN = NaN"
| "fadd PInf NInf = NaN" | "fadd NInf PInf = NaN"
| "fadd PInf _ = PInf" | "fadd NInf _ = NInf"
| "fadd _ PInf = PInf" | "fadd _ NInf = NInf"

definition fsub :: "pyfloat \<Rightarrow> pyfloat \<Rightarrow> pyfloat" where
  "fsub x y = fadd x (fneg y)"

definition finf_sign :: "rat \<Rightarrow> pyfloat \<Rightarrow> pyfloat" where
  \<comment> \<open>a finite factor times an infinity\<close>
  "finf_sign a x = (if a = 0 then NaN else if 0 < a then x else fneg x)"

fun fmul :: "pyfloat \<Rightarrow> pyfloat \<Rightarrow> pyfloat" where
  "fmul (Fin a) (Fin b) = round64 (a * b)"
| "fmul NaN _ = NaN" | "fmul _ NaN = NaN"
| "fmul (Fin a) x = finf_sign a x" | "fmul x (Fin a) = finf_sign a x"
| "fmul PInf x = x" | "fmul NInf x = fneg x"

fun fdiv :: "pyfloat \<Rightarrow> pyfloat \<Rightarrow> pyfloat result" where
  \<comment> \<open>\<open>x / y\<close>: a zero divisor raises, whatever the dividend\<close>
  "fdiv x (Fin b) =
     (if b = 0 then raiseR ZeroDivisionError ''float division by zero''
      else Inr (case x of Fin a \<Rightarrow> round64 (a / b) | NaN \<Rightarrow> NaN
                        | PInf \<Rightarrow> (if 0 < b then PInf else NInf)
                        | NInf \<Rightarrow> (if 0 < b then NInf else PInf)))"
| "fdiv x NaN = Inr NaN"
| "fdiv (Fin a) PInf = Inr (Fin 0)" | "fdiv (Fin a) NInf = Inr (Fin 0)"
| "fdiv _ PInf = Inr NaN" | "fdiv _ NInf = Inr NaN"

definition float_of_int :: "int \<Rightarrow> pyfloat" where
  "float_of_int n = round64 (of_int n)"

definition int_truediv :: "int \<Rightarrow> int \<Rightarrow> pyfloat result" where
  \<comment> \<open>\<open>m / n\<close> on integers: the correctly rounded quotient\<close>
  "int_truediv m n = (if n = 0 then raiseR ZeroDivisionError ''division by zero''
                      else Inr (round64 (of_int m / of_int n)))"

section \<open>Comparisons, \<open>min\<close>, \<open>max\<close>, \<open>abs\<close>\<close>

fun flt :: "pyfloat \<Rightarrow> pyfloat \<Rightarrow> bool" where
  "flt (Fin a) (Fin b) = (a < b)"
| "flt (Fin a) PInf = True" | "flt NInf (Fin b) = True" | "flt NInf PInf = True"
| "flt _ _ = False"

definition feq :: "pyfloat \<Rightarrow> pyfloat \<Rightarrow> bool" where
  "feq x y \<longleftrightarrow> x \<noteq> NaN \<and> x = y"

definition fle :: "pyfloat \<Rightarrow> pyfloat \<Rightarrow> bool" where
  "fle x y \<longleftrightarrow> flt x y \<or> feq x y"

definition fmax :: "pyfloat \<Rightarrow> pyfloat \<Rightarrow> pyfloat" where
  \<comment> \<open>\<open>max(x, y)\<close> keeps \<open>x\<close> unless \<open>y\<close> compares greater\<close>
  "fmax x y = (if flt x y then y else x)"

definition fmin :: "pyfloat \<Rightarrow> pyfloat \<Rightarrow> pyfloat" where
  "fmin x y = (if flt y x then y else x)"

fun fabs :: "pyfloat \<Rightarrow> pyfloat" where
  "fabs (Fin a) = Fin \<bar>a\<bar>" | "fabs PInf = PInf" | "fabs NInf = PInf" | "fabs NaN = NaN"

definition fin_between :: "rat \<Rightarrow> pyfloat \<Rightarrow> rat \<Rightarrow> bool" where
  "fin_between lo x hi \<longleftrightarrow> (\<exists>a. x = Fin a \<and> lo \<le> a \<and> a \<le> hi)"

definition isclose :: "pyfloat \<Rightarrow> pyfloat \<Rightarrow> pyfloat \<Rightarrow> bool" where
  \<comment> \<open>\<open>math.isclose(a, b, abs_tol=t)\<close> with the default \<open>rel_tol=1e-09\<close>\<close>
  "isclose a b t =
     (feq a b \<or>
      (a \<notin> {PInf, NInf} \<and> b \<notin> {PInf, NInf} \<and>
       (let diff = fabs (fsub b a)
        in fle diff (fabs (fmul (fl (1 / 10 ^ 9)) b))
           \<or> fle diff (fabs (fmul (fl (1 / 10 ^ 9)) a)) \<or> fle diff t)))"

text \<open>What the C library and the interpreter version decide.\<close>

record pymath =
  m_log :: "pyfloat \<Rightarrow> pyfloat"
  m_exp :: "pyfloat \<Rightarrow> pyfloat"
  m_tanh :: "pyfloat \<Rightarrow> pyfloat"
  m_sqrt :: "pyfloat \<Rightarrow> pyfloat"
  m_pow :: "pyfloat \<Rightarrow> pyfloat \<Rightarrow> pyfloat result"
  m_sum :: "pyfloat list \<Rightarrow> pyfloat"

definition sum_left :: "pyfloat list \<Rightarrow> pyfloat" where
  \<comment> \<open>\<open>sum\<close> as CPython 3.11 computes it\<close>
  "sum_left xs = foldl fadd (Fin 0) xs"

section \<open>Order facts that need no rounding\<close>

lemma flt_simps [simp]:
  "\<not> flt NaN x" "\<not> flt x NaN" "\<not> flt x NInf" "\<not> flt PInf x" "flt (Fin a) PInf" "flt NInf (Fin a)"
  by (cases x; simp)+

lemma flt_irrefl [simp]: "\<not> flt x x"
  by (cases x) auto

lemma flt_trans [trans]: "flt x y \<Longrightarrow> flt y z \<Longrightarrow> flt x z"
  by (cases x; cases y; cases z) auto

lemma flt_Fin_iff: "flt (Fin a) x \<longleftrightarrow> x = PInf \<or> (\<exists>b. x = Fin b \<and> a < b)"
  by (cases x) auto

lemma fle_Fin [simp]: "fle (Fin a) (Fin b) \<longleftrightarrow> a \<le> b"
  by (auto simp: fle_def feq_def)

lemma fle_NaN [simp]: "\<not> fle NaN x" "\<not> fle x NaN"
  by (auto simp: fle_def feq_def)

lemma fle_Inf [simp]: "\<not> fle PInf (Fin a)" "\<not> fle (Fin a) NInf" "fle (Fin a) PInf" "fle NInf (Fin a)"
  by (auto simp: fle_def feq_def)

lemma not_flt_fle: "x \<noteq> NaN \<Longrightarrow> y \<noteq> NaN \<Longrightarrow> \<not> flt x y \<longleftrightarrow> fle y x"
  by (cases x; cases y) (auto simp: fle_def feq_def)

text \<open>
  The clamping idiom \<open>max(lo, min(hi, x))\<close> returns a finite value inside the bounds for every
  \<open>x\<close>, the not-a-number and the infinities included.
\<close>

lemma clamp_bounds:
  assumes "lo \<le> hi"
  shows "fin_between lo (fmax (Fin lo) (fmin (Fin hi) x)) hi"
  using assms by (cases x) (auto simp: fin_between_def fmax_def fmin_def)

lemma clamp_low_bounds:
  assumes "\<And>a. x = Fin a \<Longrightarrow> a \<le> hi" and "x \<noteq> PInf" and "lo \<le> hi"
  shows "fin_between lo (fmax (Fin lo) x) hi"
  using assms by (cases x) (auto simp: fin_between_def fmax_def)

lemma clamp_id: "lo \<le> a \<Longrightarrow> a \<le> hi \<Longrightarrow> fmax (Fin lo) (fmin (Fin hi) (Fin a)) = Fin a"
  by (auto simp: fmax_def fmin_def)

lemma fin_betweenD: "fin_between lo x hi \<Longrightarrow> isfinite x"
  by (auto simp: fin_between_def)

lemma fin_between_iff: "fin_between lo x hi \<longleftrightarrow> fle (Fin lo) x \<and> fle x (Fin hi)"
  by (cases x) (auto simp: fin_between_def)

section \<open>Rounding facts\<close>

lemma pow2_powi: "pow2 k = 2 powi k"
  by (simp add: pow2_def power_int_def inverse_eq_divide power_one_over)

lemma ilog2_nonneg: "0 \<le> ilog2 n"
proof (induction n rule: ilog2.induct)
  case (1 n)
  then show ?case by (subst ilog2.simps) auto
qed

lemma ilog2_bounds: "0 < n \<Longrightarrow> 2 ^ nat (ilog2 n) \<le> n \<and> n < 2 * 2 ^ nat (ilog2 n)"
proof (induction n rule: ilog2.induct)
  case (1 n)
  show ?case
  proof (cases "n \<le> 1")
    case True
    with 1 show ?thesis by (simp add: ilog2.simps)
  next
    case False
    with 1 have IH: "2 ^ nat (ilog2 (n div 2)) \<le> n div 2 \<and> n div 2 < 2 * 2 ^ nat (ilog2 (n div 2))"
      by simp
    have "nat (ilog2 n) = Suc (nat (ilog2 (n div 2)))"
      using False ilog2_nonneg [of "n div 2"] by (subst ilog2.simps) simp
    then have "2 ^ nat (ilog2 n) = 2 * (2::int) ^ nat (ilog2 (n div 2))" by simp
    with IH show ?thesis by linarith
  qed
qed

lemma bexp_bounds:
  assumes "0 < x"
  shows "2 powi bexp x \<le> x \<and> x < 2 powi (bexp x + 1)"
proof -
  obtain p q where pq: "quotient_of x = (p, q)" by fastforce
  have q: "0 < q" and x: "x = of_int p / of_int q"
    using pq quotient_of_denom_pos quotient_of_div by auto
  with assms have p: "0 < p" by (simp add: zero_less_divide_iff)
  define a b where "a = nat (ilog2 p)" and "b = nat (ilog2 q)"
  define P Q where "P = (of_int p :: rat)" and "Q = (of_int q :: rat)"
  have "(2::int) ^ a \<le> p" "p < 2 * 2 ^ a" "2 ^ b \<le> q" "q < 2 * 2 ^ b"
    using p q ilog2_bounds unfolding a_def b_def by simp_all
  then have "of_int (2 ^ a) \<le> P" "P < of_int (2 * 2 ^ a)" "of_int (2 ^ b) \<le> Q" "Q < of_int (2 * 2 ^ b)"
    unfolding P_def Q_def of_int_le_iff of_int_less_iff by simp_all
  then have P: "2 ^ a \<le> P" "P < 2 * 2 ^ a" and Q: "2 ^ b \<le> Q" "Q < 2 * 2 ^ b" by simp_all
  have Q0: "0 < Q" using q by (simp add: Q_def)
  have xPQ: "x = P / Q" by (simp add: x P_def Q_def)
  define k where "k = int a - int b"
  have pk: "(2::rat) powi k = 2 ^ a / 2 ^ b"
    unfolding k_def by (simp add: power_int_diff)
  have low: "2 powi k / 2 < x"
  proof -
    have "2 ^ a * Q < P * (2 * 2 ^ b)"
    proof -
      have "2 ^ a * Q < 2 ^ a * (2 * 2 ^ b)" using Q by simp
      also have "\<dots> \<le> P * (2 * 2 ^ b)" using P by simp
      finally show ?thesis .
    qed
    then show ?thesis using Q0 unfolding pk xPQ by (simp add: field_simps)
  qed
  have high: "x < 2 * 2 powi k"
  proof -
    have "P * 2 ^ b < 2 * 2 ^ a * Q"
    proof -
      have "P * 2 ^ b < (2 * 2 ^ a) * 2 ^ b" using P by simp
      also have "\<dots> \<le> (2 * 2 ^ a) * Q" using Q by simp
      finally show ?thesis .
    qed
    then show ?thesis using Q0 unfolding pk xPQ by (simp add: field_simps)
  qed
  have be: "bexp x = (if x < 2 powi k then k - 1 else k)"
    using ilog2_nonneg by (simp add: bexp_def pq a_def b_def k_def pow2_powi)
  have "(2::rat) powi (k - 1) = 2 powi k / 2" "(2::rat) powi (k + 1) = 2 * 2 powi k"
    by (simp_all add: power_int_diff power_int_add)
  with be low high show ?thesis by auto
qed

lemma round_half_even_err: "\<bar>of_int (round_half_even x) - x\<bar> \<le> (1/2 :: rat)"
proof -
  have "of_int \<lfloor>x\<rfloor> \<le> x" "x < of_int \<lfloor>x\<rfloor> + 1" by linarith+
  then show ?thesis
    unfolding round_half_even_def Let_def by (auto simp: abs_le_iff field_simps)
qed

lemma round_half_even_of_int [simp]: "round_half_even (of_int n) = n"
  by (simp add: round_half_even_def)

lemma round_half_even_mono:
  assumes "x \<le> y" shows "round_half_even x \<le> round_half_even y"
proof (cases "\<lfloor>x\<rfloor> = \<lfloor>y\<rfloor>")
  case True
  with assms show ?thesis by (auto simp: round_half_even_def Let_def)
next
  case False
  with assms have "\<lfloor>x\<rfloor> + 1 \<le> \<lfloor>y\<rfloor>" by (metis floor_mono order_le_less zless_imp_add1_zle)
  moreover have "round_half_even x \<le> \<lfloor>x\<rfloor> + 1" "\<lfloor>y\<rfloor> \<le> round_half_even y"
    by (simp_all add: round_half_even_def Let_def)
  ultimately show ?thesis by linarith
qed

lemma round_half_even_le: "x \<le> of_int n \<Longrightarrow> round_half_even x \<le> n"
  using round_half_even_mono [of x "of_int n"] by simp

lemma round_half_even_ge: "of_int n \<le> x \<Longrightarrow> n \<le> round_half_even x"
  using round_half_even_mono [of "of_int n" x] by simp

lemma round_half_even_nonneg: "0 \<le> x \<Longrightarrow> 0 \<le> round_half_even x"
  using round_half_even_ge [of 0 x] by simp

lemma round64_0 [simp]: "round64 0 = Fin 0"
  by (simp add: round64_def)

lemma round64_not_NaN [simp]: "round64 x \<noteq> NaN"
  by (simp add: round64_def Let_def)

lemma round64_nonneg:
  assumes "0 \<le> x" shows "fle (Fin 0) (round64 x)"
proof -
  have "0 \<le> x / pow2 (quantum_exp x)" using assms by (simp add: pow2_powi)
  then have "0 \<le> round_half_even (x / pow2 (quantum_exp x))" by (rule round_half_even_nonneg)
  with assms show ?thesis by (auto simp: round64_def Let_def pow2_powi)
qed

text \<open>The relative error of a rounding that neither overflows nor underflows.\<close>

lemma round64_err:
  assumes "round64 x = Fin y"
  shows "\<bar>y - x\<bar> \<le> max (\<bar>x\<bar> * 2 powi (-53)) (2 powi (-1075))"
proof (cases "x = 0")
  case True with assms show ?thesis by simp
next
  case False
  define q :: rat where "q = pow2 (quantum_exp x)"
  have q0: "0 < q" by (simp add: q_def pow2_powi)
  have y: "y = of_int (round_half_even (x / q)) * q"
    using assms False by (auto simp: round64_def q_def Let_def split: if_splits)
  have "\<bar>y - x\<bar> = \<bar>of_int (round_half_even (x / q)) - x / q\<bar> * q"
    using q0 by (simp add: y abs_mult [symmetric] field_simps abs_of_pos)
  also have "\<dots> \<le> 1/2 * q"
    using round_half_even_err q0 by (intro mult_right_mono) auto
  finally have e: "\<bar>y - x\<bar> \<le> q / 2" by simp
  have pow: "q / 2 = 2 powi (quantum_exp x - 1)"
    by (simp add: q_def pow2_powi power_int_diff)
  have ax: "0 < \<bar>x\<bar>" using False by simp
  show ?thesis
  proof (cases "bexp \<bar>x\<bar> - 52 \<ge> - 1074")
    case True
    then have "q / 2 = 2 powi (bexp \<bar>x\<bar> + (-53))" unfolding pow by (simp add: quantum_exp_def)
    also have "\<dots> = 2 powi bexp \<bar>x\<bar> * 2 powi (-53)" by (rule power_int_add) simp
    also have "\<dots> \<le> \<bar>x\<bar> * 2 powi (-53)"
      using bexp_bounds [OF ax] by (intro mult_right_mono) auto
    finally show ?thesis using e by linarith
  next
    case False
    then have "q / 2 = 2 powi (-1075)" unfolding pow by (simp add: quantum_exp_def)
    then show ?thesis using e by linarith
  qed
qed

lemma bexp_le:
  assumes "0 < x" "x \<le> 2 powi e" shows "bexp x \<le> e"
proof -
  have "(2::rat) powi bexp x \<le> 2 powi e" using bexp_bounds [OF assms(1)] assms(2) by linarith
  then show ?thesis using power_int_strict_increasing [of e "bexp x" "2::rat"] by fastforce
qed

lemma round64_finite:
  assumes x: "\<bar>x\<bar> \<le> 2 powi e" and e: "- 1074 \<le> e" "e < 1024"
  shows "isfinite (round64 x)"
proof (cases "x = 0")
  case False
  define k where "k = quantum_exp x"
  have ax: "0 < \<bar>x\<bar>" using False by simp
  have k: "k \<le> e" using bexp_le [OF ax x] e(1) by (simp add: k_def quantum_exp_def)
  define n :: int where "n = 2 ^ nat (e - k)"
  have n: "of_int n = (2::rat) powi (e - k)" using k by (simp add: n_def power_int_def)
  have q: "(0::rat) < 2 powi k" by simp
  have split: "(2::rat) powi e = of_int n * 2 powi k"
    by (simp add: n power_int_add [symmetric])
  have "x / 2 powi k \<le> of_int n" "of_int (- n) \<le> x / 2 powi k"
    using x q by (auto simp: split pos_divide_le_eq pos_le_divide_eq abs_le_iff)
  then have "round_half_even (x / 2 powi k) \<le> n" "- n \<le> round_half_even (x / 2 powi k)"
    using round_half_even_le round_half_even_ge by blast+
  then have "\<bar>round_half_even (x / 2 powi k)\<bar> \<le> n" by linarith
  then have "\<bar>of_int (round_half_even (x / 2 powi k)) :: rat\<bar> \<le> of_int n"
    unfolding of_int_abs [symmetric] of_int_le_iff .
  then have y: "\<bar>of_int (round_half_even (x / 2 powi k)) * 2 powi k\<bar> \<le> (2::rat) powi e"
    unfolding split abs_mult using q by (simp add: mult_right_mono)
  have "bexp \<bar>z\<bar> < 1024" if "z \<noteq> 0" "\<bar>z\<bar> \<le> 2 powi e" for z :: rat
    using bexp_le [of "\<bar>z\<bar>" e] that e(2) by simp
  from this [OF _ y] show ?thesis
    using False by (auto simp: round64_def Let_def pow2_powi k_def [symmetric])
qed simp

lemma round_half_even_small: "0 < z \<Longrightarrow> z < 1 / 2 \<Longrightarrow> round_half_even z = 0"
proof -
  assume z: "0 < z" "z < 1 / 2"
  then have "\<lfloor>z\<rfloor> = 0" by (simp add: floor_eq_iff)
  with z show ?thesis by (simp add: round_half_even_def)
qed

lemma round64_underflow:
  assumes "0 \<le> x" "x < 2 powi (- 1075)" shows "round64 x = Fin 0"
proof (cases "x = 0")
  case False
  with assms(1) have "0 < x" by simp
  from bexp_le [OF this less_imp_le [OF assms(2)]] have "quantum_exp x = - 1074"
    using \<open>0 < x\<close> by (simp add: quantum_exp_def)
  moreover have "round_half_even (x / 2 powi (- 1074)) = 0"
  proof -
    have split: "(2::rat) powi (- 1075) = 1 / 2 * 2 powi (- 1074)"
    proof -
      have "(2::rat) powi (- 1 + - 1074) = 2 powi (- 1) * 2 powi (- 1074)" by (rule power_int_add) simp
      then show ?thesis by (simp add: power_int_minus)
    qed
    have "0 < x / 2 powi (- 1074)" "x / 2 powi (- 1074) < 1 / 2"
      using \<open>0 < x\<close> assms(2) unfolding split by (simp_all only: pos_divide_less_eq zero_less_divide_iff zero_less_power_int zero_less_numeral simp_thms)
    then show ?thesis by (rule round_half_even_small)
  qed
  ultimately show ?thesis by (simp only: round64_def Let_def pow2_powi) (simp add: False)
qed simp

end
