(* ===== verification/Json.thy ===== *)
theory Json
  imports PyFloat
begin

text \<open>
  JSON values and their canonical text (\<open>src/agent_tree_rl/crypto.py\<close>, \<open>canonical_json_bytes\<close>,
  \<open>sha256_hex\<close>, \<open>_validate_json\<close>; \<open>src/agent_tree_rl/engine.py\<close>, \<open>_digest\<close>).
  The JSON texts the program stores or compares are all produced by \<open>canonical_json_bytes\<close>,
  so a JSON text is represented by the value with sorted keys it is the text of;
  \<open>dumps_inject\<close> shows that the text determines that value.

  \<open>pyenv\<close> holds what the interpreter supplies: SHA-256, HMAC-SHA-256 and the shortest
  round-trip notation of floats. \<open>float_repr_ok\<close> states what Python documents of the latter.
\<close>

datatype json =
    JNull | JBool bool | JInt int | JFloat pyfloat | JStr string
  | JList "json list" | JObj "(string \<times> json) list"

record pyenv =
  sha256 :: "string \<Rightarrow> string"
  hmac256 :: "string \<Rightarrow> string \<Rightarrow> string"
  float_repr :: "pyfloat \<Rightarrow> string"

definition sha256_ok :: "pyenv \<Rightarrow> bool" where
  \<comment> \<open>a hexadecimal SHA-256 digest has 64 digits\<close>
  "sha256_ok E \<longleftrightarrow> (\<forall>m. is_sha256 (sha256 E m))"

section \<open>The text of a JSON value\<close>

definition hex_digit :: "nat \<Rightarrow> char" where
  "hex_digit n = ''0123456789abcdef'' ! (n mod 16)"

definition u_escape :: "nat \<Rightarrow> string" where
  "u_escape n = CHR 0x5C # CHR ''u'' #
     map hex_digit [n div 4096, n div 256, n div 16, n]"

definition escape_char :: "char \<Rightarrow> string" where
  "escape_char c =
     (if c = CHR 0x22 then [CHR 0x5C, CHR 0x22]
      else if c = CHR 0x5C then [CHR 0x5C, CHR 0x5C]
      else if c = CHR 0x08 then [CHR 0x5C, CHR ''b'']
      else if c = CHR 0x0C then [CHR 0x5C, CHR ''f'']
      else if c = CHR 0x0A then [CHR 0x5C, CHR ''n'']
      else if c = CHR 0x0D then [CHR 0x5C, CHR ''r'']
      else if c = CHR 0x09 then [CHR 0x5C, CHR ''t'']
      else if (of_char c :: nat) < 32 then u_escape (of_char c)
      else [c])"

lemma escape_char_code [code]:
  "escape_char c =
     (let n = (of_char c :: int) in
      if n = 34 then [CHR 0x5C, CHR 0x22] else if n = 92 then [CHR 0x5C, CHR 0x5C]
      else if n = 8 then [CHR 0x5C, CHR ''b''] else if n = 12 then [CHR 0x5C, CHR ''f'']
      else if n = 10 then [CHR 0x5C, CHR ''n''] else if n = 13 then [CHR 0x5C, CHR ''r'']
      else if n = 9 then [CHR 0x5C, CHR ''t''] else if n < 32 then u_escape (of_char c) else [c])"
proof -
  have eq: "(of_char c :: int) = of_char d \<longleftrightarrow> c = d" for d by simp
  have lt: "(of_char c :: int) < 32 \<longleftrightarrow> (of_char c :: nat) < 32"
    unfolding int_of_char by simp
  show ?thesis
    using eq [of "CHR 0x22"] eq [of "CHR 0x5C"] eq [of "CHR 0x08"] eq [of "CHR 0x0C"] eq [of "CHR 0x0A"]
      eq [of "CHR 0x0D"] eq [of "CHR 0x09"]
    unfolding escape_char_def Let_def lt by simp
qed

definition quote :: "string \<Rightarrow> string" where
  "quote s = CHR 0x22 # concat (map escape_char s) @ [CHR 0x22]"

fun code_points :: "string \<Rightarrow> nat list" where
  "code_points [] = []"
| "code_points (a # cs) =
     (let n = of_char a in
      if n < 128 then n # code_points cs
      else case cs of [] \<Rightarrow> [] | b # cs1 \<Rightarrow>
        if n < 224 then ((n mod 32) * 64 + of_char b mod 64) # code_points cs1
        else case cs1 of [] \<Rightarrow> [] | c # cs2 \<Rightarrow>
          if n < 240 then ((n mod 16) * 4096 + (of_char b mod 64) * 64 + of_char c mod 64) # code_points cs2
          else case cs2 of [] \<Rightarrow> [] | d # cs3 \<Rightarrow>
            ((n mod 8) * 262144 + (of_char b mod 64) * 4096 + (of_char c mod 64) * 64 + of_char d mod 64)
            # code_points cs3)"

definition escape_point :: "nat \<Rightarrow> string" where
  "escape_point n =
     (if 32 \<le> n \<and> n < 127 \<or> n < 32 \<and> n \<in> {8, 9, 10, 12, 13} then escape_char (char_of n)
      else if n < 65536 then u_escape n
      else u_escape (55296 + (n - 65536) div 1024) @ u_escape (56320 + (n - 65536) mod 1024))"

definition quote_ascii :: "string \<Rightarrow> string" where
  \<comment> \<open>a string under \<open>ensure_ascii=True\<close>\<close>
  "quote_ascii s = CHR 0x22 # concat (map escape_point (code_points s)) @ [CHR 0x22]"

primrec join :: "char \<Rightarrow> string list \<Rightarrow> string" where
  "join c [] = []"
| "join c (x # xs) = x @ concat (map (\<lambda>y. c # y) xs)"

fun dumps_with :: "(string \<Rightarrow> string) \<Rightarrow> pyenv \<Rightarrow> json \<Rightarrow> string" where
  "dumps_with q E JNull = ''null''"
| "dumps_with q E (JBool b) = (if b then ''true'' else ''false'')"
| "dumps_with q E (JInt n) = str_of_int n"
| "dumps_with q E (JFloat x) = float_repr E x"
| "dumps_with q E (JStr s) = q s"
| "dumps_with q E (JList vs) = CHR ''['' # join CHR '','' (map (dumps_with q E) vs) @ [CHR '']'']"
| "dumps_with q E (JObj kvs) =
     CHR ''{'' # join CHR '','' (map (\<lambda>(k, v). q k @ CHR '':'' # dumps_with q E v) kvs) @ [CHR ''}'']"

abbreviation dumps :: "pyenv \<Rightarrow> json \<Rightarrow> string" where
  "dumps \<equiv> dumps_with quote"

section \<open>Canonical values\<close>

fun canon :: "json \<Rightarrow> json" where
  \<comment> \<open>\<open>sort_keys=True\<close>\<close>
  "canon (JList vs) = JList (map canon vs)"
| "canon (JObj kvs) = JObj (sort_key fst (map (\<lambda>(k, v). (k, canon v)) kvs))"
| "canon v = v"

fun json_finite :: "json \<Rightarrow> bool" where
  "json_finite (JFloat x) = isfinite x"
| "json_finite (JList vs) = list_all json_finite vs"
| "json_finite (JObj kvs) = list_all (\<lambda>(_, v). json_finite v) kvs"
| "json_finite v = True"

definition validate_json :: "json \<Rightarrow> unit result" where
  \<comment> \<open>\<open>_validate_json\<close>: the values of the other Python types are not \<open>json\<close> values\<close>
  "validate_json v = guardR (json_finite v) InvalidEnvelopeError ''non-finite floats are forbidden''"

definition canonical_json_bytes :: "pyenv \<Rightarrow> json \<Rightarrow> string result" where
  "canonical_json_bytes E v = bindR (validate_json v) (\<lambda>_. Inr (dumps E (canon v)))"

definition sha256_hex :: "pyenv \<Rightarrow> json \<Rightarrow> string result" where
  "sha256_hex E v = bindR (canonical_json_bytes E v) (\<lambda>b. Inr (sha256 E b))"

definition json_text :: "json \<Rightarrow> json result" where
  \<comment> \<open>\<open>_json_text\<close> of the store; the text stands for the value it is the text of\<close>
  "json_text v = bindR (validate_json v) (\<lambda>_. Inr (canon v))"

definition digest :: "pyenv \<Rightarrow> json \<Rightarrow> string" where
  \<comment> \<open>\<open>_digest\<close> of the engine (\<open>ensure_ascii=True\<close>, non-finite floats allowed)\<close>
  "digest E v = sha256 E (dumps_with quote_ascii E (canon v))"

section \<open>Access to objects\<close>

fun obj_get :: "json \<Rightarrow> string \<Rightarrow> json option" where
  "obj_get (JObj kvs) k = map_of kvs k"
| "obj_get _ k = None"

fun is_obj :: "json \<Rightarrow> bool" where
  "is_obj (JObj _) = True" | "is_obj _ = False"

fun str_of :: "json \<Rightarrow> string option" where
  "str_of (JStr s) = Some s" | "str_of _ = None"

fun int_of :: "json \<Rightarrow> int option" where
  \<comment> \<open>\<open>isinstance(v, int) and not isinstance(v, bool)\<close>\<close>
  "int_of (JInt n) = Some n" | "int_of _ = None"

fun py_eq_int :: "json \<Rightarrow> int \<Rightarrow> bool" where
  \<comment> \<open>\<open>v == n\<close>: booleans and floats compare with integers by value\<close>
  "py_eq_int (JInt m) n = (m = n)"
| "py_eq_int (JBool b) n = ((if b then 1 else 0) = n)"
| "py_eq_int (JFloat x) n = (x = Fin (of_int n))"
| "py_eq_int _ n = False"

section \<open>The text determines the value\<close>

definition is_digit :: "char \<Rightarrow> bool" where
  "is_digit c \<longleftrightarrow> 48 \<le> (of_char c :: nat) \<and> (of_char c :: nat) < 58"

definition number_char :: "char \<Rightarrow> bool" where
  "number_char c \<longleftrightarrow> is_digit c \<or> c = CHR ''+'' \<or> c = CHR ''-'' \<or> c = CHR ''.'' \<or> c = CHR ''e''"

definition float_char :: "char \<Rightarrow> bool" where
  "float_char c \<longleftrightarrow> c = CHR ''.'' \<or> c = CHR ''e''"

definition float_repr_ok :: "pyenv \<Rightarrow> bool" where
  \<comment> \<open>\<open>repr(x)\<close> of a finite float reads back as \<open>x\<close>, is written with digits, sign, point
      and exponent only, and is not the text of an integer\<close>
  "float_repr_ok E \<longleftrightarrow>
     (\<forall>a b. float_repr E (Fin a) = float_repr E (Fin b) \<longrightarrow> a = b) \<and>
     (\<forall>a. list_all number_char (float_repr E (Fin a)) \<and> list_ex float_char (float_repr E (Fin a)))"

text \<open>Escaped strings are a prefix code.\<close>

definition hex_val :: "char \<Rightarrow> nat" where
  "hex_val c = length (takeWhile (\<lambda>d. d \<noteq> c) ''0123456789abcdef'')"

fun unescape :: "string \<Rightarrow> (char \<times> string) option" where
  "unescape (a # b # cs) =
     (if a \<noteq> CHR 0x5C then Some (a, b # cs)
      else if b = CHR ''b'' then Some (CHR 0x08, cs)
      else if b = CHR ''f'' then Some (CHR 0x0C, cs)
      else if b = CHR ''n'' then Some (CHR 0x0A, cs)
      else if b = CHR ''r'' then Some (CHR 0x0D, cs)
      else if b = CHR ''t'' then Some (CHR 0x09, cs)
      else if b = CHR ''u'' then
        (case cs of _ # _ # h # l # ds \<Rightarrow> Some (char_of (hex_val h * 16 + hex_val l), ds) | _ \<Rightarrow> None)
      else Some (b, cs))"
| "unescape [a] = Some (a, [])"
| "unescape [] = None"

lemma hex_val_hex_digit: "hex_val (hex_digit n) = n mod 16"
proof -
  have "\<forall>m < 16. hex_val (''0123456789abcdef'' ! m) = m" by code_simp
  then show ?thesis by (simp add: hex_digit_def)
qed

lemma unescape_escape: "unescape (escape_char c @ x) = Some (c, x)"
proof (cases "(of_char c :: nat) < 32")
  case True
  then have "hex_val (hex_digit (of_char c div 16)) * 16 + hex_val (hex_digit (of_char c)) = of_char c"
    by (simp add: hex_val_hex_digit)
  with True show ?thesis by (auto simp: escape_char_def u_escape_def)
next
  case False
  then show ?thesis by (cases x) (auto simp: escape_char_def)
qed

lemma escape_char_head: "\<exists>a as. escape_char c = a # as \<and> a \<noteq> CHR 0x22"
  by (auto simp: escape_char_def u_escape_def)

lemma escaped_inject:
  "concat (map escape_char s) @ CHR 0x22 # x = concat (map escape_char t) @ CHR 0x22 # y
   \<Longrightarrow> s = t \<and> x = y"
proof (induction s arbitrary: t)
  case Nil
  then show ?case
  proof (cases t)
    case (Cons d t') with Nil show ?thesis using escape_char_head [of d] by auto
  qed simp
next
  case (Cons c s)
  show ?case
  proof (cases t)
    case Nil with Cons.prems show ?thesis using escape_char_head [of c] by auto
  next
    case t: (Cons d t')
    let ?r = "concat (map escape_char s) @ CHR 0x22 # x"
    let ?r' = "concat (map escape_char t') @ CHR 0x22 # y"
    from Cons.prems t have "unescape (escape_char c @ ?r) = unescape (escape_char d @ ?r')" by simp
    then have "c = d" and "?r = ?r'" by (simp_all add: unescape_escape)
    with Cons.IH t show ?thesis by blast
  qed
qed

lemma quote_inject: "quote s @ x = quote t @ y \<Longrightarrow> s = t \<and> x = y"
  by (rule escaped_inject) (simp add: quote_def)

text \<open>Integers and floats.\<close>

definition digits_val :: "string \<Rightarrow> nat" where
  "digits_val s = foldl (\<lambda>a c. a * 10 + (of_char c - 48)) 0 s"

lemma digit_code: "k < 10 \<Longrightarrow> of_char (char_of (48 + k) :: char) = (48 + k :: nat)"
  by simp

lemma digits_val_digits: "digits_val (digits_of_nat n) = n"
proof (induction n rule: digits_of_nat.induct)
  case (1 n)
  have "of_char (char_of (48 + n mod 10) :: char) = (48 + n mod 10 :: nat)" by (rule digit_code) simp
  with 1 show ?case
    by (subst digits_of_nat.simps) (auto simp: digits_val_def digit_code)
qed

lemma digits_chars: "list_all is_digit (digits_of_nat n) \<and> digits_of_nat n \<noteq> []"
proof (induction n rule: digits_of_nat.induct)
  case (1 n)
  have "of_char (char_of (48 + n mod 10) :: char) = (48 + n mod 10 :: nat)" by (rule digit_code) simp
  with 1 show ?case
    by (subst (1 2) digits_of_nat.simps) (auto simp: is_digit_def [abs_def] digit_code)
qed

lemma digits_Cons: "digits_of_nat n = c # cs \<Longrightarrow> is_digit c"
  using digits_chars [of n] by simp

lemma minus_no_digit [simp]: "\<not> is_digit CHR ''-''"
  by (simp add: is_digit_def)

lemma str_of_int_inject:
  assumes "str_of_int m = str_of_int n" shows "m = n"
proof -
  have inj: "digits_of_nat a = digits_of_nat b \<Longrightarrow> a = b" for a b
    by (metis digits_val_digits)
  have no: "CHR ''-'' # xs \<noteq> digits_of_nat a" for xs a
    by (metis digits_Cons minus_no_digit)
  show ?thesis
    using assms no by (auto simp: str_of_int_def dest!: inj split: if_splits dest: sym)
qed

lemma digit_number: "is_digit c \<Longrightarrow> number_char c \<and> \<not> float_char c"
  by (auto simp: number_char_def float_char_def is_digit_def)

lemma str_of_int_chars:
  "list_all number_char (str_of_int n) \<and> \<not> list_ex float_char (str_of_int n) \<and> str_of_int n \<noteq> []"
proof -
  have d: "list_all number_char (digits_of_nat k) \<and> \<not> list_ex float_char (digits_of_nat k)
      \<and> digits_of_nat k \<noteq> []" for k
    using digits_chars [of k] by (auto simp: list_all_iff list_ex_iff dest: digit_number)
  have m: "number_char CHR ''-''" "\<not> float_char CHR ''-''"
    by (simp_all add: number_char_def float_char_def)
  show ?thesis using d m by (simp add: str_of_int_def)
qed

definition delimited :: "string \<Rightarrow> bool" where
  "delimited s \<longleftrightarrow> (case s of [] \<Rightarrow> True | c # _ \<Rightarrow> c = CHR '','' \<or> c = CHR '']'' \<or> c = CHR ''}'')"

lemma delimited_Cons [simp]:
  "delimited (c # s) \<longleftrightarrow> c = CHR '','' \<or> c = CHR '']'' \<or> c = CHR ''}''"
  by (simp add: delimited_def)

lemma number_not_delimiter: "number_char c \<Longrightarrow> \<not> (c = CHR '','' \<or> c = CHR '']'' \<or> c = CHR ''}'')"
  by (auto simp: number_char_def is_digit_def)

lemma number_token:
  assumes "list_all number_char a" "list_all number_char b"
    and "delimited s" "delimited t" "a @ s = b @ t"
  shows "a = b \<and> s = t"
proof -
  have tok: "takeWhile number_char (c @ r) = c" if "list_all number_char c" "delimited r" for c r
  proof -
    have "takeWhile number_char r = []"
      using that(2) number_not_delimiter by (cases r) auto
    moreover have "takeWhile number_char (c @ r) = c @ takeWhile number_char r"
      using that(1) by (intro takeWhile_append2) (simp add: list_all_iff)
    ultimately show ?thesis by simp
  qed
  have "a = b" using tok [OF assms(1,3)] tok [OF assms(2,4)] assms(5) by simp
  with assms(5) show ?thesis by simp
qed

lemma float_repr_chars:
  assumes "float_repr_ok E" "isfinite x"
  shows "list_all number_char (float_repr E x)" "list_ex float_char (float_repr E x)"
  using assms by (cases x; simp add: float_repr_ok_def)+

lemma float_repr_inject:
  "float_repr_ok E \<Longrightarrow> isfinite x \<Longrightarrow> isfinite y \<Longrightarrow> float_repr E x = float_repr E y \<Longrightarrow> x = y"
  by (cases x; cases y) (auto simp: float_repr_ok_def)

lemma int_neq_float:
  assumes "float_repr_ok E" "isfinite x" shows "str_of_int n \<noteq> float_repr E x"
  using str_of_int_chars [of n] float_repr_chars(2) [OF assms] by auto

text \<open>Sequences: if the items can be told apart, so can the bracketed lists.\<close>

lemma items_inject:
  assumes items: "\<And>x y s t. x \<in> set xs \<Longrightarrow> y \<in> set ys \<Longrightarrow> delimited s \<Longrightarrow> delimited t \<Longrightarrow>
      f x @ s = f y @ t \<Longrightarrow> x = y \<and> s = t"
    and z: "z = CHR '']'' \<or> z = CHR ''}''"
    and eq: "concat (map (\<lambda>x. CHR '','' # f x) xs) @ z # s = concat (map (\<lambda>y. CHR '','' # f y) ys) @ z # t"
  shows "xs = ys \<and> s = t"
  using items eq
proof (induction xs arbitrary: ys)
  case Nil
  with z show ?case by (cases ys) auto
next
  case (Cons x xs)
  show ?case
  proof (cases ys)
    case Nil with Cons.prems(2) z show ?thesis by auto
  next
    case ys: (Cons y ys')
    let ?r = "concat (map (\<lambda>x. CHR '','' # f x) xs) @ z # s"
    let ?r' = "concat (map (\<lambda>x. CHR '','' # f x) ys') @ z # t"
    have "delimited ?r" "delimited ?r'"
      using z by (cases xs; cases ys'; auto)+
    moreover from Cons.prems(2) ys have "f x @ ?r = f y @ ?r'" by simp
    ultimately have "x = y" "?r = ?r'" using Cons.prems(1) ys by (metis list.set_intros(1))+
    moreover have "xs = ys' \<and> s = t"
      using Cons.prems(1) ys by (intro Cons.IH \<open>?r = ?r'\<close>) auto
    ultimately show ?thesis using ys by simp
  qed
qed

lemma join_inject:
  assumes items: "\<And>x y s t. x \<in> set xs \<Longrightarrow> y \<in> set ys \<Longrightarrow> delimited s \<Longrightarrow> delimited t \<Longrightarrow>
      f x @ s = f y @ t \<Longrightarrow> x = y \<and> s = t"
    and open_item: "\<And>x s. x \<in> set xs \<union> set ys \<Longrightarrow> \<not> delimited (f x @ s)"
    and z: "z = CHR '']'' \<or> z = CHR ''}''"
    and eq: "join CHR '','' (map f xs) @ z # s = join CHR '','' (map f ys) @ z # t"
  shows "xs = ys \<and> s = t"
proof (cases xs; cases ys)
  assume "xs = []" "ys = []" with eq show ?thesis by simp
next
  fix y ys' assume e: "xs = []" "ys = y # ys'"
  have "delimited (z # s)" using z by auto
  with eq e open_item [of y "concat (map (\<lambda>y. CHR '','' # f y) ys') @ z # t"]
  show ?thesis by (simp add: comp_def)
next
  fix x xs' assume e: "xs = x # xs'" "ys = []"
  have "delimited (z # t)" using z by auto
  with eq e open_item [of x "concat (map (\<lambda>y. CHR '','' # f y) xs') @ z # s"]
  show ?thesis by (simp add: comp_def)
next
  fix x xs' y ys' assume e: "xs = x # xs'" "ys = y # ys'"
  have "concat (map (\<lambda>x. CHR '','' # f x) xs) @ z # s = concat (map (\<lambda>y. CHR '','' # f y) ys) @ z # t"
    using eq e by (simp add: comp_def)
  from items_inject [OF items z this] show ?thesis by blast
qed

lemma dumps_not_delimited:
  assumes "float_repr_ok E" "json_finite v" shows "\<not> delimited (dumps E v @ s)"
proof (cases v)
  case (JInt n)
  show ?thesis using str_of_int_chars [of n] number_not_delimiter
    by (cases "str_of_int n") (auto simp: JInt)
next
  case (JFloat x)
  with assms have "isfinite x" by simp
  from float_repr_chars [OF assms(1) this] show ?thesis using number_not_delimiter
    by (cases "float_repr E x") (auto simp: JFloat)
qed (auto simp: quote_def)

lemma non_number_chars [simp]:
  "\<not> number_char CHR ''n''" "\<not> number_char CHR ''t''" "\<not> number_char CHR ''f''"
  "\<not> number_char CHR 0x22" "\<not> number_char CHR ''[''" "\<not> number_char CHR ''{''"
  by (simp_all add: number_char_def is_digit_def)

text \<open>The first character of a text tells the kind of the value.\<close>

fun starts_as :: "json \<Rightarrow> char \<Rightarrow> bool" where
  "starts_as JNull c = (c = CHR ''n'')"
| "starts_as (JBool b) c = (c = (if b then CHR ''t'' else CHR ''f''))"
| "starts_as (JInt n) c = number_char c"
| "starts_as (JFloat x) c = number_char c"
| "starts_as (JStr s) c = (c = CHR 0x22)"
| "starts_as (JList vs) c = (c = CHR ''['')"
| "starts_as (JObj kvs) c = (c = CHR ''{'')"

lemma dumps_head:
  assumes "float_repr_ok E" "json_finite v"
  shows "\<exists>c cs. dumps E v = c # cs \<and> starts_as v c"
proof (cases v)
  case (JInt n)
  then show ?thesis using str_of_int_chars [of n] by (cases "str_of_int n") auto
next
  case (JFloat x)
  with assms have "isfinite x" by simp
  from float_repr_chars [OF assms(1) this] show ?thesis
    by (cases "float_repr E x") (auto simp: JFloat)
qed (auto simp: quote_def)

lemma starts_as_number: "starts_as v c \<Longrightarrow> number_char c \<Longrightarrow> (\<exists>n. v = JInt n) \<or> (\<exists>x. v = JFloat x)"
  by (cases v) (auto split: if_splits)

lemma dumps_heads:
  assumes "float_repr_ok E" "json_finite v" "json_finite w" "dumps E v @ s = dumps E w @ t"
  shows "\<exists>c. starts_as v c \<and> starts_as w c"
  using dumps_head [OF assms(1,2)] dumps_head [OF assms(1,3)] assms(4) by auto

lemma dumps_numbers:
  assumes E: "float_repr_ok E" and v: "json_finite v" and w: "json_finite w"
    and num: "starts_as v c" "number_char c"
    and d: "delimited s" "delimited t" and eq: "dumps E v @ s = dumps E w @ t"
  shows "v = w \<and> s = t"
proof -
  have "\<exists>c. starts_as w c \<and> number_char c"
    using dumps_heads [OF E v w eq] starts_as_number [OF num] by auto
  then have w_num: "(\<exists>n. w = JInt n) \<or> (\<exists>x. w = JFloat x)" using starts_as_number by blast
  have v_num: "(\<exists>n. v = JInt n) \<or> (\<exists>x. v = JFloat x)" using starts_as_number [OF num] .
  have chars: "list_all number_char (dumps E u)"
    if "(\<exists>n. u = JInt n) \<or> (\<exists>x. u = JFloat x)" "json_finite u" for u
    using that str_of_int_chars float_repr_chars(1) [OF E] by auto
  have "dumps E v = dumps E w \<and> s = t"
    using number_token [OF chars [OF v_num v] chars [OF w_num w] d eq] .
  then show ?thesis
    using v_num w_num v w E str_of_int_inject float_repr_inject int_neq_float
    by (elim disjE) (fastforce+)
qed

lemma dumps_inject_prefix:
  assumes E: "float_repr_ok E"
  shows "json_finite v \<Longrightarrow> json_finite w \<Longrightarrow> delimited s \<Longrightarrow> delimited t \<Longrightarrow>
    dumps E v @ s = dumps E w @ t \<Longrightarrow> v = w \<and> s = t"
proof (induction v arbitrary: w s t)
  case (JInt n)
  obtain c where "starts_as (JInt n) c" using dumps_head [OF E JInt.prems(1)] by blast
  with dumps_numbers [OF E JInt.prems(1,2) _ _ JInt.prems(3-5)] show ?case by simp
next
  case (JFloat x)
  obtain c where "starts_as (JFloat x) c" using dumps_head [OF E JFloat.prems(1)] by blast
  with dumps_numbers [OF E JFloat.prems(1,2) _ _ JFloat.prems(3-5)] show ?case by simp
next
  case (JStr x)
  from dumps_heads [OF E JStr.prems(1,2,5)] obtain y where w: "w = JStr y"
    by (cases w) (auto split: if_splits)
  with JStr.prems(5) show ?case by (auto dest: quote_inject)
next
  case (JList vs)
  from dumps_heads [OF E JList.prems(1,2,5)] obtain ws where w: "w = JList ws"
    by (cases w) (auto split: if_splits)
  have "vs = ws \<and> s = t"
  proof (rule join_inject [where f = "dumps E" and z = "CHR '']''"])
    fix x y s t
    assume "x \<in> set vs" "y \<in> set ws" "delimited s" "delimited t" "dumps E x @ s = dumps E y @ t"
    with JList show "x = y \<and> s = t" by (auto simp: w list_all_iff)
  next
    fix x s assume "x \<in> set vs \<union> set ws"
    with JList.prems w have "json_finite x" by (auto simp: list_all_iff)
    with E show "\<not> delimited (dumps E x @ s)" by (rule dumps_not_delimited)
  qed (use JList.prems(5) w in auto)
  with w show ?case by simp
next
  case (JObj kvs)
  from dumps_heads [OF E JObj.prems(1,2,5)] obtain kws where w: "w = JObj kws"
    by (cases w) (auto split: if_splits)
  have "kvs = kws \<and> s = t"
  proof (rule join_inject [where f = "\<lambda>(k, v). quote k @ CHR '':'' # dumps E v" and z = "CHR ''}''"])
    fix x y s t
    assume x: "x \<in> set kvs" and y: "y \<in> set kws" and d: "delimited s" "delimited t"
      and eq: "(case x of (k, v) \<Rightarrow> quote k @ CHR '':'' # dumps E v) @ s =
               (case y of (k, v) \<Rightarrow> quote k @ CHR '':'' # dumps E v) @ t"
    obtain k v l u where xy: "x = (k, v)" "y = (l, u)" by (cases x; cases y)
    from eq xy have "k = l" "dumps E v @ s = dumps E u @ t" by (auto dest: quote_inject)
    moreover have "json_finite v" "json_finite u"
      using JObj.prems x y xy w by (auto simp: list_all_iff)
    moreover have "v \<in> snd ` set kvs" using x xy by force
    ultimately show "x = y \<and> s = t" using JObj.IH [of x v u s t] x xy d by auto
  next
    fix x s assume "x \<in> set kvs \<union> set kws"
    show "\<not> delimited ((case x of (k, v) \<Rightarrow> quote k @ CHR '':'' # dumps E v) @ s)"
      by (cases x) (simp add: quote_def)
  qed (use JObj.prems(5) w in auto)
  with w show ?case by simp
next
  case JNull
  from dumps_heads [OF E JNull.prems(1,2,5)] have "w = JNull"
    by (cases w) (auto split: if_splits)
  with JNull.prems(5) show ?case by simp
next
  case (JBool b)
  from dumps_heads [OF E JBool.prems(1,2,5)] have "w = JBool b"
    by (cases w) (auto split: if_splits)
  with JBool.prems(5) show ?case by simp
qed

lemma canon_finite [simp]: "json_finite (canon v) = json_finite v"
proof (induction v rule: canon.induct)
  case (2 kvs)
  then show ?case by (fastforce simp: list_all_iff)
qed (auto simp: list_all_iff)

lemma canonical_bytes_inject:
  assumes "float_repr_ok E"
    and "canonical_json_bytes E v = Inr b" "canonical_json_bytes E w = Inr b"
  shows "canon v = canon w"
proof -
  have "json_finite v" "json_finite w" "dumps E (canon v) = b" "dumps E (canon w) = b"
    using assms(2,3) by (auto simp: canonical_json_bytes_def validate_json_def bindR_Inr_iff)
  then show ?thesis
    using dumps_inject_prefix [OF assms(1), of "canon v" "canon w" "[]" "[]"]
    by (simp add: delimited_def)
qed

text \<open>The canonical form does not depend on the insertion order of the keys.\<close>

lemma sort_key_unique:
  fixes f :: "'a \<Rightarrow> 'b::linorder"
  assumes "distinct (map f xs)" "distinct (map f ys)" "set xs = set ys"
  shows "sort_key f xs = sort_key f ys"
proof (rule map_sorted_distinct_set_unique)
  show "inj_on f (set (sort_key f xs) \<union> set (sort_key f ys))"
    using assms by (simp add: distinct_map)
  have d: "distinct (map f (sort_key f zs))" if "distinct (map f zs)" for zs
    using that by (simp add: distinct_map)
  show "distinct (map f (sort_key f xs))" "distinct (map f (sort_key f ys))"
    using d assms(1,2) by blast+
qed (use assms(3) in auto)

lemma canon_order_irrelevant:
  assumes "distinct (map fst kvs)" "distinct (map fst kws)" "set kvs = set kws"
  shows "canon (JObj kvs) = canon (JObj kws)"
proof -
  let ?c = "\<lambda>(k, v). (k, canon v)"
  have "sort_key fst (map ?c kvs) = sort_key fst (map ?c kws)"
    using assms by (intro sort_key_unique) (simp_all add: case_prod_beta comp_def)
  then show ?thesis by simp
qed

lemma canonical_bytes_order_irrelevant:
  assumes "distinct (map fst kvs)" "distinct (map fst kws)" "set kvs = set kws"
  shows "canonical_json_bytes E (JObj kvs) = canonical_json_bytes E (JObj kws)"
proof -
  have "json_finite (JObj kvs) = json_finite (JObj kws)"
    using assms(3) by (simp add: list_all_iff)
  with canon_order_irrelevant [OF assms] show ?thesis
    by (simp add: canonical_json_bytes_def validate_json_def del: canon.simps json_finite.simps)
qed

end
