(* ===== verification/Crypto.thy ===== *)
theory Crypto
  imports Json
begin

text \<open>
  Receipt envelopes (\<open>src/agent_tree_rl/crypto.py\<close>): keyrings, base64url signatures,
  \<open>ReceiptSigner.sign\<close> and \<open>ReceiptVerifier.verify\<close>. An envelope is a JSON value, as the
  verifier receives it. The clock reading and the random nonce are arguments; the replay guard is
  an action on the caller's state.
\<close>

definition ENVELOPE_VERSION :: int where "ENVELOPE_VERSION = 1"
definition ALGORITHM :: string where "ALGORITHM = ''HS256''"

definition SIGNED_FIELDS :: "string list" where
  \<comment> \<open>\<open>sorted(_SIGNED_FIELDS)\<close>\<close>
  "SIGNED_FIELDS = [''algorithm'', ''expires_at'', ''issued_at'', ''key_id'', ''nonce'',
                    ''payload'', ''purpose'', ''tenant_id'', ''version'']"

definition ENVELOPE_FIELDS :: "string list" where
  "ENVELOPE_FIELDS = ''signature'' # SIGNED_FIELDS"

type_synonym keyring = "(string \<times> string) list"

definition validate_keyring :: "keyring \<Rightarrow> keyring result" where
  "validate_keyring keys =
     bindR (guardR (keys \<noteq> []) ValueError ''at least one HMAC key is required'') (\<lambda>_.
     foldR (\<lambda>(key_id, key) result.
        bindR (guardR (key_id \<noteq> []) ValueError ''key IDs must be nonempty strings'') (\<lambda>_.
        bindR (guardR (32 \<le> length key) ValueError ''HMAC key must contain at least 32 bytes'') (\<lambda>_.
        Inr (dict_set key_id key result)))) keys [])"

section \<open>base64url\<close>

definition B64 :: string where
  "B64 = ''ABCDEFGHIJKLMNOPQRSTUVWXYZabcdefghijklmnopqrstuvwxyz0123456789-_''"

definition b64_char :: "nat \<Rightarrow> char" where
  "b64_char n = B64 ! (n mod 64)"

definition b64_index :: "char \<Rightarrow> nat option" where
  \<comment> \<open>\<open>altchars=b"-_"\<close> adds the two characters, \<open>+\<close> and \<open>/\<close> stay accepted\<close>
  "b64_index c =
     (if c = CHR ''+'' then Some 62 else if c = CHR ''/'' then Some 63
      else let i = length (takeWhile (\<lambda>d. d \<noteq> c) B64) in if i < 64 then Some i else None)"

fun b64_groups :: "nat list \<Rightarrow> nat list" where
  "b64_groups (a # b # c # bs) =
     a div 4 # ((a mod 4) * 16 + b div 16) # ((b mod 16) * 4 + c div 64) # c mod 64 # b64_groups bs"
| "b64_groups [a, b] = [a div 4, (a mod 4) * 16 + b div 16, (b mod 16) * 4]"
| "b64_groups [a] = [a div 4, (a mod 4) * 16]"
| "b64_groups [] = []"

fun b64_ungroup :: "nat list \<Rightarrow> nat list" where
  "b64_ungroup (w # x # y # z # vs) =
     (w * 4 + x div 16) # ((x mod 16) * 16 + y div 4) # ((y mod 4) * 64 + z) # b64_ungroup vs"
| "b64_ungroup [w, x, y] = [w * 4 + x div 16, (x mod 16) * 16 + y div 4]"
| "b64_ungroup [w, x] = [w * 4 + x div 16]"
| "b64_ungroup _ = []"

definition b64url_encode :: "string \<Rightarrow> string" where
  \<comment> \<open>\<open>urlsafe_b64encode(value).rstrip(b"=")\<close>\<close>
  "b64url_encode bs = map b64_char (b64_groups (map of_char bs))"

definition b64_decode_strict :: "string \<Rightarrow> string result" where
  \<comment> \<open>\<open>b64decode(s, altchars=b"-_", validate=True)\<close>\<close>
  "b64_decode_strict s =
     (let body = takeWhile (\<lambda>c. c \<noteq> CHR ''='') s; pad = dropWhile (\<lambda>c. c \<noteq> CHR ''='') s;
          vals = map b64_index body
      in if length s mod 4 = 0 \<and> length pad \<le> 2 \<and> list_all (\<lambda>c. c = CHR ''='') pad
            \<and> list_all (\<lambda>v. v \<noteq> None) vals
         then Inr (map char_of (b64_ungroup (map the vals)))
         else raiseR ValueError ''invalid base64'')"

definition b64url_decode :: "string \<Rightarrow> string result" where
  "b64url_decode value =
     bindR (guardR (value \<noteq> []) InvalidSignatureError ''signature must be nonempty base64url text'') (\<lambda>_.
     case b64_decode_strict (value @ replicate ((4 - length value mod 4) mod 4) CHR ''='') of
       Inl _ \<Rightarrow> raiseR InvalidSignatureError ''signature is not valid base64url''
     | Inr decoded \<Rightarrow>
         bindR (guardR (length decoded = 32) InvalidSignatureError ''signature has the wrong length'') (\<lambda>_.
         Inr decoded))"

section \<open>Signing\<close>

record receipt_signer =
  sg_keys :: keyring
  sg_active_key_id :: string

definition new_signer :: "keyring \<Rightarrow> string \<Rightarrow> receipt_signer result" where
  "new_signer keys active =
     bindR (validate_keyring keys) (\<lambda>ks.
     bindR (guardR (map_of ks active \<noteq> None) ValueError ''active_key_id is not present in the keyring'') (\<lambda>_.
     Inr \<lparr>sg_keys = ks, sg_active_key_id = active\<rparr>))"

fun json_of_opt_int :: "int option \<Rightarrow> json" where
  "json_of_opt_int None = JNull" | "json_of_opt_int (Some n) = JInt n"

definition unsigned_envelope ::
  "string \<Rightarrow> string \<Rightarrow> string \<Rightarrow> int \<Rightarrow> int option \<Rightarrow> string \<Rightarrow> json \<Rightarrow> (string \<times> json) list" where
  "unsigned_envelope key_id purpose tenant_id now ttl nonce payload =
     [(''version'', JInt ENVELOPE_VERSION), (''algorithm'', JStr ALGORITHM),
      (''key_id'', JStr key_id), (''purpose'', JStr purpose), (''tenant_id'', JStr tenant_id),
      (''issued_at'', JInt now),
      (''expires_at'', json_of_opt_int (map_option (\<lambda>t. now + t) ttl)),
      (''nonce'', JStr nonce), (''payload'', payload)]"

definition sign ::
  "pyenv \<Rightarrow> receipt_signer \<Rightarrow> int \<Rightarrow> string \<Rightarrow> json \<Rightarrow> string \<Rightarrow> string \<Rightarrow> int option
     \<Rightarrow> int option \<Rightarrow> string option \<Rightarrow> json result" where
  \<comment> \<open>\<open>clock_now\<close> is \<open>int(self._clock())\<close>, \<open>token\<close> is \<open>secrets.token_urlsafe(24)\<close>\<close>
  "sign E sg clock_now token payload purpose tenant_id ttl_seconds issued_at nonce_arg =
     bindR (guardR (purpose \<noteq> [] \<and> tenant_id \<noteq> []) ValueError ''purpose and tenant_id must be nonempty'') (\<lambda>_.
     bindR (guardR (case ttl_seconds of None \<Rightarrow> True | Some t \<Rightarrow> 0 < t) ValueError
              ''ttl_seconds must be a positive integer or None'') (\<lambda>_.
     let now = (case issued_at of None \<Rightarrow> clock_now | Some t \<Rightarrow> t) in
     bindR (guardR (0 \<le> now) ValueError ''issued_at must be a nonnegative integer Unix timestamp'') (\<lambda>_.
     let nonce = (case nonce_arg of Some (c # cs) \<Rightarrow> c # cs | _ \<Rightarrow> token) in
     bindR (guardR (nonce \<noteq> [] \<and> py_len nonce \<le> 256) ValueError
              ''nonce must be a nonempty string of at most 256 characters'') (\<lambda>_.
     bindR (validate_json payload) (\<lambda>_.
     let unsigned = unsigned_envelope (sg_active_key_id sg) purpose tenant_id now ttl_seconds nonce payload in
     bindR (case map_of (sg_keys sg) (sg_active_key_id sg) of
              None \<Rightarrow> raiseR KeyError ''active key'' | Some k \<Rightarrow> Inr k) (\<lambda>key.
     bindR (canonical_json_bytes E (JObj unsigned)) (\<lambda>bytes.
     Inr (JObj (unsigned @ [(''signature'', JStr (b64url_encode (hmac256 E key bytes)))])))))))))"

section \<open>Verification\<close>

record receipt_verifier =
  vr_keys :: keyring
  vr_clock_skew_seconds :: int

definition new_verifier :: "keyring \<Rightarrow> int \<Rightarrow> receipt_verifier result" where
  "new_verifier keys skew =
     bindR (validate_keyring keys) (\<lambda>ks.
     bindR (guardR (0 \<le> skew) ValueError ''clock_skew_seconds must be a nonnegative integer'') (\<lambda>_.
     Inr \<lparr>vr_keys = ks, vr_clock_skew_seconds = skew\<rparr>))"

definition field :: "json \<Rightarrow> string \<Rightarrow> json" where
  \<comment> \<open>\<open>envelope[name]\<close> after the shape check\<close>
  "field env name = (case obj_get env name of None \<Rightarrow> JNull | Some v \<Rightarrow> v)"

definition nonempty_str :: "json \<Rightarrow> bool" where
  "nonempty_str v \<longleftrightarrow> (case v of JStr s \<Rightarrow> s \<noteq> [] | _ \<Rightarrow> False)"

definition validate_shape :: "json \<Rightarrow> unit result" where
  "validate_shape env =
     (case env of
        JObj kvs \<Rightarrow>
          bindR (guardR (set (map fst kvs) = set ENVELOPE_FIELDS) InvalidEnvelopeError
                   ''receipt envelope fields differ'') (\<lambda>_.
          bindR (guardR (py_eq_int (field env ''version'') ENVELOPE_VERSION) InvalidEnvelopeError
                   ''unsupported receipt envelope version'') (\<lambda>_.
          bindR (guardR (field env ''algorithm'' = JStr ALGORITHM) InvalidEnvelopeError
                   ''unsupported receipt signature algorithm'') (\<lambda>_.
          bindR (guardR (list_all (\<lambda>n. nonempty_str (field env n)) [''key_id'', ''purpose'', ''tenant_id'', ''nonce''])
                   InvalidEnvelopeError ''must be a nonempty string'') (\<lambda>_.
          bindR (guardR (case field env ''nonce'' of JStr s \<Rightarrow> py_len s \<le> 256 | _ \<Rightarrow> False)
                   InvalidEnvelopeError ''nonce exceeds 256 characters'') (\<lambda>_.
          bindR (guardR (case field env ''issued_at'' of JInt n \<Rightarrow> 0 \<le> n | _ \<Rightarrow> False)
                   InvalidEnvelopeError ''issued_at must be a nonnegative integer'') (\<lambda>_.
          bindR (guardR (case field env ''expires_at'' of
                           JNull \<Rightarrow> True
                         | JInt n \<Rightarrow> (case field env ''issued_at'' of JInt i \<Rightarrow> i < n | _ \<Rightarrow> False)
                         | _ \<Rightarrow> False)
                   InvalidEnvelopeError ''expires_at must be after issued_at'') (\<lambda>_.
          validate_json (field env ''payload''))))))))
      | _ \<Rightarrow> raiseR InvalidEnvelopeError ''receipt envelope must be an object'')"

definition unsigned_of :: "json \<Rightarrow> json" where
  \<comment> \<open>\<open>_unsigned\<close>\<close>
  "unsigned_of env = JObj (map (\<lambda>n. (n, field env n)) SIGNED_FIELDS)"

definition text_field :: "json \<Rightarrow> string \<Rightarrow> string" where
  "text_field env name = (case field env name of JStr s \<Rightarrow> s | _ \<Rightarrow> [])"

definition int_field :: "json \<Rightarrow> string \<Rightarrow> int" where
  "int_field env name = (case field env name of JInt n \<Rightarrow> n | _ \<Rightarrow> 0)"

definition expires_of :: "json \<Rightarrow> int option" where
  "expires_of env = (case field env ''expires_at'' of JInt n \<Rightarrow> Some n | _ \<Rightarrow> None)"

definition authenticate_envelope ::
  "pyenv \<Rightarrow> receipt_verifier \<Rightarrow> int \<Rightarrow> json \<Rightarrow> string option \<Rightarrow> string option \<Rightarrow> unit result" where
  \<comment> \<open>\<open>verify\<close> up to the replay guard\<close>
  "authenticate_envelope E vr now env expected_purpose expected_tenant_id =
     bindR (validate_shape env) (\<lambda>_.
     bindR (case map_of (vr_keys vr) (text_field env ''key_id'') of
              None \<Rightarrow> raiseR UnknownKeyError ''unknown key ID'' | Some k \<Rightarrow> Inr k) (\<lambda>key.
     bindR (case field env ''signature'' of
              JStr sig \<Rightarrow> b64url_decode sig
            | _ \<Rightarrow> raiseR InvalidSignatureError ''signature must be nonempty base64url text'') (\<lambda>supplied.
     bindR (canonical_json_bytes E (unsigned_of env)) (\<lambda>bytes.
     bindR (guardR (supplied = hmac256 E key bytes) InvalidSignatureError
              ''receipt signature verification failed'') (\<lambda>_.
     bindR (guardR (case expected_purpose of None \<Rightarrow> True | Some p \<Rightarrow> text_field env ''purpose'' = p)
              InvalidEnvelopeError ''receipt purpose does not match the expected purpose'') (\<lambda>_.
     bindR (guardR (case expected_tenant_id of None \<Rightarrow> True | Some t \<Rightarrow> text_field env ''tenant_id'' = t)
              InvalidEnvelopeError ''receipt tenant does not match the expected tenant'') (\<lambda>_.
     bindR (guardR (int_field env ''issued_at'' \<le> now + vr_clock_skew_seconds vr)
              NotYetValidReceiptError ''receipt issue time is in the future'') (\<lambda>_.
     guardR (case expires_of env of None \<Rightarrow> True | Some e \<Rightarrow> now \<le> e + vr_clock_skew_seconds vr)
              ExpiredReceiptError ''receipt has expired''))))))))"

type_synonym 's replay_guard = "string \<Rightarrow> string \<Rightarrow> string \<Rightarrow> int option \<Rightarrow> ('s, bool) action"

definition verify ::
  "pyenv \<Rightarrow> receipt_verifier \<Rightarrow> int \<Rightarrow> json \<Rightarrow> string option \<Rightarrow> string option
     \<Rightarrow> 's replay_guard option \<Rightarrow> ('s, json) action" where
  "verify E vr now env expected_purpose expected_tenant_id guard =
     bind (lift (authenticate_envelope E vr now env expected_purpose expected_tenant_id)) (\<lambda>_.
     case guard of
       None \<Rightarrow> ret (field env ''payload'')
     | Some g \<Rightarrow>
         bind (g (text_field env ''tenant_id'') (text_field env ''purpose'') (text_field env ''nonce'')
                 (expires_of env)) (\<lambda>accepted.
         andthen (require accepted ReplayDetectedError ''receipt nonce has already been consumed'')
           (ret (field env ''payload''))))"

section \<open>base64url round trip\<close>

lemma b64_char_index: "b64_index (b64_char n) = Some (n mod 64)"
proof -
  have "\<forall>m < 64. b64_index (B64 ! m) = Some m" by code_simp
  then show ?thesis by (simp add: b64_char_def)
qed

lemma b64_char_not_pad: "b64_char n \<noteq> CHR ''=''"
proof -
  have "\<forall>m < 64. B64 ! m \<noteq> CHR ''=''" by code_simp
  then show ?thesis by (simp add: b64_char_def)
qed

lemma b64_groups_bounded: "\<forall>b \<in> set bs. b < 256 \<Longrightarrow> \<forall>g \<in> set (b64_groups bs). g < 64"
  by (induction bs rule: b64_groups.induct) auto

lemma b64_ungroup_groups: "\<forall>b \<in> set bs. b < 256 \<Longrightarrow> b64_ungroup (b64_groups bs) = bs"
  by (induction bs rule: b64_groups.induct) auto

lemma length_b64_groups: "length (b64_groups bs) = (4 * length bs + 2) div 3"
  by (induction bs rule: b64_groups.induct) auto

lemma b64url_roundtrip:
  assumes "length sig = 32"
  shows "b64url_decode (b64url_encode sig) = Inr sig"
proof -
  let ?g = "b64_groups (map of_char sig) :: nat list"
  have len: "length (b64url_encode sig) = 43"
    using assms by (simp add: b64url_encode_def length_b64_groups)
  then have pad: "replicate ((4 - length (b64url_encode sig) mod 4) mod 4) CHR ''='' = ''=''"
    by simp
  have body: "\<forall>c \<in> set (b64url_encode sig). c \<noteq> CHR ''=''"
    by (auto simp: b64url_encode_def b64_char_not_pad)
  have bytes: "\<forall>b \<in> set (map of_char sig). b < (256 :: nat)" by auto
  then have g: "\<forall>g \<in> set ?g. g < 64" by (rule b64_groups_bounded)
  have vals: "map b64_index (b64url_encode sig) = map Some ?g"
    using g by (simp add: b64url_encode_def b64_char_index)
  have tw: "takeWhile (\<lambda>c. c \<noteq> CHR ''='') (b64url_encode sig @ ''='') = b64url_encode sig"
    and dw: "dropWhile (\<lambda>c. c \<noteq> CHR ''='') (b64url_encode sig @ ''='') = ''=''"
    using body by (simp_all add: takeWhile_append2 dropWhile_append2)
  have "list_all (\<lambda>v. v \<noteq> None) (map b64_index (b64url_encode sig))"
    unfolding vals by (simp add: list_all_iff)
  then have cond: "length (b64url_encode sig @ ''='') mod 4 = 0 \<and> length ''='' \<le> 2
      \<and> list_all (\<lambda>c. c = CHR ''='') ''='' \<and> list_all (\<lambda>v. v \<noteq> None) (map b64_index (b64url_encode sig))"
    using len by simp
  have "map the (map b64_index (b64url_encode sig)) = ?g"
    unfolding vals by (simp add: comp_def)
  then have "b64_decode_strict (b64url_encode sig @ ''='') = Inr (map char_of (b64_ungroup ?g))"
    unfolding b64_decode_strict_def Let_def tw dw if_P [OF cond] by simp
  also have "map char_of (b64_ungroup ?g) = sig"
    by (simp add: b64_ungroup_groups [OF bytes] comp_def)
  finally have "b64_decode_strict (b64url_encode sig @ ''='') = Inr sig" .
  moreover have "b64url_encode sig \<noteq> []" using len by auto
  ultimately show ?thesis using len pad assms by (simp add: b64url_decode_def)
qed

section \<open>What a verified receipt says\<close>

definition hmac_ok :: "pyenv \<Rightarrow> bool" where
  \<comment> \<open>an HMAC-SHA-256 tag has 32 bytes\<close>
  "hmac_ok E \<longleftrightarrow> (\<forall>k m. length (hmac256 E k m) = 32)"

lemma signed_fields_distinct [simp]: "distinct SIGNED_FIELDS"
  by (simp add: SIGNED_FIELDS_def)

lemma unsigned_envelope_canon:
  assumes "env = JObj (unsigned_envelope kid purpose tenant now ttl nonce payload @ [(''signature'', sig)])"
  shows "canonical_json_bytes E (unsigned_of env)
       = canonical_json_bytes E (JObj (unsigned_envelope kid purpose tenant now ttl nonce payload))"
proof -
  let ?u = "unsigned_envelope kid purpose tenant now ttl nonce payload"
  have fields: "map (\<lambda>n. (n, field env n)) SIGNED_FIELDS =
      [(''algorithm'', JStr ALGORITHM), (''expires_at'', json_of_opt_int (map_option (\<lambda>t. now + t) ttl)),
       (''issued_at'', JInt now), (''key_id'', JStr kid), (''nonce'', JStr nonce), (''payload'', payload),
       (''purpose'', JStr purpose), (''tenant_id'', JStr tenant), (''version'', JInt ENVELOPE_VERSION)]"
    by (simp add: assms SIGNED_FIELDS_def unsigned_envelope_def field_def)
  have "set (map (\<lambda>n. (n, field env n)) SIGNED_FIELDS) = set ?u"
    unfolding fields unsigned_envelope_def by (simp only: list.set insert_commute)
  moreover have "distinct (map fst (map (\<lambda>n. (n, field env n)) SIGNED_FIELDS))"
    by (simp add: comp_def)
  moreover have "distinct (map fst ?u)" by (simp add: unsigned_envelope_def)
  ultimately show ?thesis
    unfolding unsigned_of_def by (intro canonical_bytes_order_irrelevant)
qed

lemma sign_Inr:
  assumes "sign E sg clk tok payload purpose tenant ttl issued nonce_arg = Inr env"
  obtains now nonce key bytes where
    "now = (case issued of None \<Rightarrow> clk | Some t \<Rightarrow> t)" "0 \<le> now"
    "purpose \<noteq> []" "tenant \<noteq> []" "pred_option (\<lambda>t. 0 < t) ttl"
    "nonce \<noteq> []" "py_len nonce \<le> 256" "json_finite payload"
    "map_of (sg_keys sg) (sg_active_key_id sg) = Some key"
    "canonical_json_bytes E (JObj (unsigned_envelope (sg_active_key_id sg) purpose tenant now ttl nonce payload))
       = Inr bytes"
    "env = JObj (unsigned_envelope (sg_active_key_id sg) purpose tenant now ttl nonce payload
                 @ [(''signature'', JStr (b64url_encode (hmac256 E key bytes)))])"
  using assms
  by (auto simp: sign_def Let_def bindR_Inr_iff validate_json_def split: option.splits)

lemma authenticate_Inr_iff:
  "authenticate_envelope E vr now env pur ten = Inr u \<longleftrightarrow>
     validate_shape env = Inr () \<and>
     (\<exists>key sig supplied bytes.
        map_of (vr_keys vr) (text_field env ''key_id'') = Some key \<and>
        field env ''signature'' = JStr sig \<and> b64url_decode sig = Inr supplied \<and>
        canonical_json_bytes E (unsigned_of env) = Inr bytes \<and> supplied = hmac256 E key bytes) \<and>
     (\<forall>p. pur = Some p \<longrightarrow> text_field env ''purpose'' = p) \<and>
     (\<forall>t. ten = Some t \<longrightarrow> text_field env ''tenant_id'' = t) \<and>
     int_field env ''issued_at'' \<le> now + vr_clock_skew_seconds vr \<and>
     (\<forall>e. expires_of env = Some e \<longrightarrow> now \<le> e + vr_clock_skew_seconds vr)"
  by (auto simp: authenticate_envelope_def bindR_Inr_iff split: option.splits json.splits)

lemma validate_shape_intro:
  assumes "env = JObj kvs" "set (map fst kvs) = set ENVELOPE_FIELDS"
    and "field env ''version'' = JInt ENVELOPE_VERSION" "field env ''algorithm'' = JStr ALGORITHM"
    and "list_all (\<lambda>n. nonempty_str (field env n)) [''key_id'', ''purpose'', ''tenant_id'', ''nonce'']"
    and "field env ''nonce'' = JStr nonce" "py_len nonce \<le> 256"
    and "field env ''issued_at'' = JInt i" "0 \<le> i"
    and "field env ''expires_at'' = json_of_opt_int e" "pred_option (\<lambda>n. i < n) e"
    and "json_finite (field env ''payload'')"
  shows "validate_shape env = Inr ()"
proof -
  have e: "(case field env ''expires_at'' of JNull \<Rightarrow> True
      | JInt n \<Rightarrow> (case field env ''issued_at'' of JInt i \<Rightarrow> i < n | _ \<Rightarrow> False) | _ \<Rightarrow> False)"
    using assms(8,10,11) by (cases e) simp_all
  have "validate_shape env =
    bindR (guardR True InvalidEnvelopeError ''receipt envelope fields differ'') (\<lambda>_. validate_json (field env ''payload''))"
    unfolding validate_shape_def using assms(1-9) e by (simp del: set_map)
  with assms(12) show ?thesis by (simp add: validate_json_def)
qed

lemma sign_verify_roundtrip:
  assumes signed: "sign E sg clk tok payload purpose tenant ttl issued nonce_arg = Inr env"
    and E: "hmac_ok E" and key_id: "sg_active_key_id sg \<noteq> []"
    and key: "map_of (vr_keys vr) (sg_active_key_id sg) = map_of (sg_keys sg) (sg_active_key_id sg)"
    and issued_ok: "(case issued of None \<Rightarrow> clk | Some t \<Rightarrow> t) \<le> now + vr_clock_skew_seconds vr"
    and fresh: "\<And>t. ttl = Some t \<Longrightarrow>
       now \<le> (case issued of None \<Rightarrow> clk | Some t \<Rightarrow> t) + t + vr_clock_skew_seconds vr"
  shows "verify E vr now env (Some purpose) (Some tenant) None s = (Inr payload, s)"
proof -
  from signed obtain i nonce k bytes where
    i: "i = (case issued of None \<Rightarrow> clk | Some t \<Rightarrow> t)" "0 \<le> i"
    and ne: "purpose \<noteq> []" "tenant \<noteq> []" and ttl: "pred_option (\<lambda>t. 0 < t) ttl"
    and nonce: "nonce \<noteq> []" "py_len nonce \<le> 256" and fin: "json_finite payload"
    and k: "map_of (sg_keys sg) (sg_active_key_id sg) = Some k"
    and b: "canonical_json_bytes E (JObj (unsigned_envelope (sg_active_key_id sg) purpose tenant i ttl nonce payload))
       = Inr bytes"
    and env: "env = JObj (unsigned_envelope (sg_active_key_id sg) purpose tenant i ttl nonce payload
                 @ [(''signature'', JStr (b64url_encode (hmac256 E k bytes)))])"
    by (rule sign_Inr)
  have f: "field env ''version'' = JInt 1" "field env ''algorithm'' = JStr ALGORITHM"
    "field env ''key_id'' = JStr (sg_active_key_id sg)" "field env ''purpose'' = JStr purpose"
    "field env ''tenant_id'' = JStr tenant" "field env ''issued_at'' = JInt i"
    "field env ''expires_at'' = json_of_opt_int (map_option (\<lambda>t. i + t) ttl)"
    "field env ''nonce'' = JStr nonce" "field env ''payload'' = payload"
    "field env ''signature'' = JStr (b64url_encode (hmac256 E k bytes))"
    by (simp_all add: env field_def unsigned_envelope_def ENVELOPE_VERSION_def)
  have fields: "set (map fst (unsigned_envelope (sg_active_key_id sg) purpose tenant i ttl nonce payload
                 @ [(''signature'', JStr (b64url_encode (hmac256 E k bytes)))])) = set ENVELOPE_FIELDS"
    unfolding unsigned_envelope_def ENVELOPE_FIELDS_def SIGNED_FIELDS_def
    by (simp only: append.simps list.map fst_conv list.set insert_commute)
  have shape: "validate_shape env = Inr ()"
  proof (rule validate_shape_intro [OF env fields])
    show "list_all (\<lambda>n. nonempty_str (field env n)) [''key_id'', ''purpose'', ''tenant_id'', ''nonce'']"
      using ne nonce key_id by (simp add: f nonempty_str_def)
    show "pred_option (\<lambda>n. i < n) (map_option (\<lambda>t. i + t) ttl)" using ttl by (cases ttl) auto
  qed (use f i nonce fin in \<open>simp_all add: ENVELOPE_VERSION_def\<close>)
  have exp: "expires_of env = map_option (\<lambda>t. i + t) ttl"
    by (cases ttl) (simp_all add: expires_of_def f)
  have dec: "b64url_decode (b64url_encode (hmac256 E k bytes)) = Inr (hmac256 E k bytes)"
    using E by (intro b64url_roundtrip) (simp add: hmac_ok_def)
  have bytes: "canonical_json_bytes E (unsigned_of env) = Inr bytes"
    using unsigned_envelope_canon [OF env] b by simp
  have "authenticate_envelope E vr now env (Some purpose) (Some tenant) = Inr ()"
    unfolding authenticate_Inr_iff
    using shape k key bytes dec issued_ok fresh i(1) exp
    by (auto simp: text_field_def int_field_def f)
  then show ?thesis by (simp add: verify_def bind_def f)
qed

text \<open>
  Two envelopes accepted under the same key ID and the same signature agree, up to the order of
  object keys, on every signed field, unless their signed bytes are an HMAC collision.
\<close>

lemma authenticated_fields_unique:
  assumes E: "float_repr_ok E"
    and env: "authenticate_envelope E vr now env pur ten = Inr ()"
    and env': "authenticate_envelope E vr now' env' pur' ten' = Inr ()"
    and same: "text_field env ''key_id'' = text_field env' ''key_id''"
      "field env ''signature'' = field env' ''signature''"
    and no_collision: "\<And>k. inj_on (hmac256 E k)
        {b. canonical_json_bytes E (unsigned_of env) = Inr b \<or> canonical_json_bytes E (unsigned_of env') = Inr b}"
    and n: "n \<in> set SIGNED_FIELDS"
  shows "canon (field env n) = canon (field env' n)"
proof -
  from env obtain k sig d b where k: "map_of (vr_keys vr) (text_field env ''key_id'') = Some k"
    and sig: "field env ''signature'' = JStr sig" "b64url_decode sig = Inr d"
    and b: "canonical_json_bytes E (unsigned_of env) = Inr b" and d: "d = hmac256 E k b"
    by (auto simp: authenticate_Inr_iff)
  from env' obtain k' sig' d' c where k': "map_of (vr_keys vr) (text_field env' ''key_id'') = Some k'"
    and sig': "field env' ''signature'' = JStr sig'" "b64url_decode sig' = Inr d'"
    and c: "canonical_json_bytes E (unsigned_of env') = Inr c" and e: "d' = hmac256 E k' c"
    by (auto simp: authenticate_Inr_iff)
  from same k k' sig sig' e have d': "d = hmac256 E k c" by simp
  have "b = c" using no_collision [of k] b c d d' by (simp add: inj_on_def)
  with c have b': "canonical_json_bytes E (unsigned_of env') = Inr b" by simp
  from canonical_bytes_inject [OF E b b'] have "canon (unsigned_of env) = canon (unsigned_of env')" .
  then have "sort_key fst (map (\<lambda>n. (n, canon (field env n))) SIGNED_FIELDS)
           = sort_key fst (map (\<lambda>n. (n, canon (field env' n))) SIGNED_FIELDS)"
    by (simp add: unsigned_of_def comp_def)
  from arg_cong [OF this, of set]
  have "set (map (\<lambda>n. (n, canon (field env n))) SIGNED_FIELDS)
           = set (map (\<lambda>n. (n, canon (field env' n))) SIGNED_FIELDS)"
    by (simp only: set_sort)
  with n show ?thesis by auto
qed

end
