(* ===== verification/StoreSchema.thy ===== *)
theory StoreSchema
  imports Crypto
begin

text \<open>
  The SQLite schema and the transaction discipline of \<open>src/agent_tree_rl/store.py\<close>:
  the tables of \<open>_MIGRATION_1\<close> as lists of rows, \<open>SELECT\<close>, \<open>INSERT\<close>, \<open>UPDATE\<close>
  and \<open>DELETE\<close> on them, \<open>SQLiteStore.transaction\<close>, the clock, and the argument checks at the
  end of the module. Integers bound to a statement must fit SQLite's 64 bits, otherwise the
  driver raises \<open>OverflowError\<close>.

  The store keeps one connection behind a re-entrant lock that a transaction holds from \<open>BEGIN\<close>
  to \<open>COMMIT\<close> or \<open>ROLLBACK\<close>, and reads take the same lock, so transactions of
  different threads never interleave: a method is a function on the state.
\<close>

section \<open>Rows\<close>

datatype idem_status = IN_PROGRESS | COMPLETED | FAILED
datatype reservation_status = RESERVED | CONSUMED | RELEASED

record event_row =
  ev_sequence :: int
  ev_tenant_id :: string
  ev_event_id :: string
  ev_stream_id :: string
  ev_stream_version :: int
  ev_event_type :: string
  ev_occurred_at :: int
  ev_payload_json :: json
  ev_payload_sha256 :: string

record nonce_row =
  nn_tenant_id :: string
  nn_purpose :: string
  nn_nonce :: string
  nn_expires_at :: "int option"
  nn_consumed_at :: int

record evidence_row =
  ed_tenant_id :: string
  ed_receipt_id :: string
  ed_evidence_kind :: string
  ed_subject_id :: string
  ed_artifact_uri :: "string option"
  ed_content_sha256 :: "string option"
  ed_signer_key_id :: string
  ed_issued_at :: int
  ed_expires_at :: "int option"
  ed_envelope_json :: json
  ed_recorded_at :: int

record experience_row =
  ex_tenant_id :: string
  ex_receipt_id :: string
  ex_run_id :: string
  ex_episode_id :: string
  ex_trajectory_hash :: string
  ex_reward :: pyfloat
  ex_signer_key_id :: string
  ex_issued_at :: int
  ex_expires_at :: "int option"
  ex_payload_json :: json
  ex_envelope_json :: json
  ex_recorded_at :: int

record idempotency_row =
  id_tenant_id :: string
  id_scope :: string
  id_key :: string
  id_request_hash :: string
  id_status :: idem_status
  id_result_json :: "json option"
  id_created_at :: int
  id_updated_at :: int
  id_expires_at :: "int option"

record lease_row =
  ls_tenant_id :: string
  ls_resource_id :: string
  ls_holder_id :: "string option"
  ls_fencing_token :: int
  ls_acquired_at :: int
  ls_heartbeat_at :: int
  ls_expires_at :: int

record budget_row =
  bd_tenant_id :: string
  bd_budget_id :: string
  bd_limit_units :: int
  bd_reserved_units :: int
  bd_consumed_units :: int
  bd_version :: int
  bd_created_at :: int
  bd_updated_at :: int

record reservation_row =
  rs_tenant_id :: string
  rs_budget_id :: string
  rs_reservation_id :: string
  rs_units :: int
  rs_status :: reservation_status
  rs_created_at :: int
  rs_updated_at :: int

record artifact_row =
  ar_tenant_id :: string
  ar_artifact_id :: string
  ar_policy_name :: string
  ar_version :: string
  ar_content_sha256 :: string
  ar_artifact_uri :: string
  ar_metadata_json :: json
  ar_registered_at :: int

record training_row =
  tr_tenant_id :: string
  tr_training_id :: string
  tr_policy_name :: string
  tr_artifact_id :: string
  tr_trained_by :: string
  tr_lease_fencing_token :: int
  tr_report_json :: json
  tr_created_at :: int

record champion_row =
  ch_tenant_id :: string
  ch_policy_name :: string
  ch_artifact_id :: string
  ch_generation :: int
  ch_promoted_at :: int

record promotion =
  pr_audit_id :: string
  pr_tenant_id :: string
  pr_policy_name :: string
  pr_artifact_id :: string
  pr_previous_artifact_id :: "string option"
  pr_generation :: int
  pr_decided_by :: string
  pr_reason :: string
  pr_benchmark_receipt_id :: "string option"
  pr_promoted_at :: int

record db =
  schema_migrations :: "(int \<times> int) list"
  last_sequence :: int
  events :: "event_row list"
  receipt_nonces :: "nonce_row list"
  evidence_receipts :: "evidence_row list"
  experience_receipts :: "experience_row list"
  idempotency_records :: "idempotency_row list"
  leases :: "lease_row list"
  budgets :: "budget_row list"
  budget_reservations :: "reservation_row list"
  policy_artifacts :: "artifact_row list"
  training_runs :: "training_row list"
  champion_registry :: "champion_row list"
  promotion_audit :: "promotion list"

definition empty_db :: db where
  "empty_db = \<lparr>schema_migrations = [], last_sequence = 0, events = [], receipt_nonces = [],
     evidence_receipts = [], experience_receipts = [], idempotency_records = [], leases = [],
     budgets = [], budget_reservations = [], policy_artifacts = [], training_runs = [],
     champion_registry = [], promotion_audit = []\<rparr>"

text \<open>Keys of the tables (\<open>PRIMARY KEY\<close>).\<close>

definition nonce_key :: "nonce_row \<Rightarrow> string \<times> string \<times> string" where
  "nonce_key r = (nn_tenant_id r, nn_purpose r, nn_nonce r)"
definition evidence_key :: "evidence_row \<Rightarrow> string \<times> string" where
  "evidence_key r = (ed_tenant_id r, ed_receipt_id r)"
definition experience_key :: "experience_row \<Rightarrow> string \<times> string" where
  "experience_key r = (ex_tenant_id r, ex_receipt_id r)"
definition idempotency_key :: "idempotency_row \<Rightarrow> string \<times> string \<times> string" where
  "idempotency_key r = (id_tenant_id r, id_scope r, id_key r)"
definition lease_key :: "lease_row \<Rightarrow> string \<times> string" where
  "lease_key r = (ls_tenant_id r, ls_resource_id r)"
definition budget_key :: "budget_row \<Rightarrow> string \<times> string" where
  "budget_key r = (bd_tenant_id r, bd_budget_id r)"
definition reservation_key :: "reservation_row \<Rightarrow> string \<times> string \<times> string" where
  "reservation_key r = (rs_tenant_id r, rs_budget_id r, rs_reservation_id r)"
definition artifact_key :: "artifact_row \<Rightarrow> string \<times> string" where
  "artifact_key r = (ar_tenant_id r, ar_artifact_id r)"
definition training_key :: "training_row \<Rightarrow> string \<times> string" where
  "training_key r = (tr_tenant_id r, tr_training_id r)"
definition champion_key :: "champion_row \<Rightarrow> string \<times> string" where
  "champion_key r = (ch_tenant_id r, ch_policy_name r)"
definition promotion_key :: "promotion \<Rightarrow> string \<times> string" where
  "promotion_key r = (pr_tenant_id r, pr_audit_id r)"

lemmas row_keys = nonce_key_def evidence_key_def experience_key_def idempotency_key_def
  lease_key_def budget_key_def reservation_key_def artifact_key_def training_key_def
  champion_key_def promotion_key_def

section \<open>Statements on tables\<close>

definition row_at :: "('r \<Rightarrow> 'k) \<Rightarrow> 'k \<Rightarrow> 'r list \<Rightarrow> 'r option" where
  \<comment> \<open>\<open>SELECT * ... WHERE key = ?\<close>\<close>
  "row_at key k t = find (\<lambda>r. key r = k) t"

definition update_at :: "('r \<Rightarrow> 'k) \<Rightarrow> 'k \<Rightarrow> ('r \<Rightarrow> 'r) \<Rightarrow> 'r list \<Rightarrow> 'r list" where
  \<comment> \<open>\<open>UPDATE ... WHERE key = ?\<close>\<close>
  "update_at key k f t = map (\<lambda>r. if key r = k then f r else r) t"

definition update_where :: "('r \<Rightarrow> bool) \<Rightarrow> ('r \<Rightarrow> 'r) \<Rightarrow> 'r list \<Rightarrow> 'r list" where
  "update_where P f t = map (\<lambda>r. if P r then f r else r) t"

definition delete_where :: "('r \<Rightarrow> bool) \<Rightarrow> 'r list \<Rightarrow> 'r list" where
  "delete_where P t = filter (\<lambda>r. \<not> P r) t"

definition count_where :: "('r \<Rightarrow> bool) \<Rightarrow> 'r list \<Rightarrow> int" where
  "count_where P t = int (length (filter P t))"

definition uniq_rows :: "('r \<Rightarrow> 'k) \<Rightarrow> 'r list \<Rightarrow> bool" where
  \<comment> \<open>the \<open>PRIMARY KEY\<close> constraint\<close>
  "uniq_rows key t \<longleftrightarrow> distinct (map key t)"

text \<open>A table with a key: what a select returns after each kind of statement.\<close>

locale keyed_rows =
  fixes key :: "'r \<Rightarrow> 'k"
begin

abbreviation uniq :: "'r list \<Rightarrow> bool" where
  "uniq \<equiv> uniq_rows key"

lemmas uniq_def = uniq_rows_def [of key]

lemma uniq_Nil: "uniq []"
  by (simp add: uniq_def)

lemma row_at_None: "row_at key k t = None \<longleftrightarrow> k \<notin> key ` set t"
  by (auto simp: row_at_def find_None_iff)

lemma row_at_Some: "row_at key k t = Some r \<Longrightarrow> r \<in> set t \<and> key r = k"
  by (auto simp: row_at_def find_Some_iff)

lemma row_at_in: "uniq t \<Longrightarrow> r \<in> set t \<Longrightarrow> row_at key (key r) t = Some r"
  by (induction t) (auto simp: row_at_def uniq_def)

lemma row_at_iff: "uniq t \<Longrightarrow> row_at key k t = Some r \<longleftrightarrow> r \<in> set t \<and> key r = k"
  using row_at_Some row_at_in by blast

lemma row_at_append:
  "row_at key k (t @ [r]) = (case row_at key k t of None \<Rightarrow> if key r = k then Some r else None | Some r' \<Rightarrow> Some r')"
  by (induction t) (auto simp: row_at_def)

lemma uniq_append: "uniq (t @ [r]) \<longleftrightarrow> uniq t \<and> row_at key (key r) t = None"
  by (auto simp: uniq_def row_at_None)

lemma uniq_insert: "uniq t \<Longrightarrow> row_at key (key r) t = None \<Longrightarrow> uniq (t @ [r])"
  by (simp add: uniq_append)

lemma uniq_map: "(\<And>r. r \<in> set t \<Longrightarrow> key (f r) = key r) \<Longrightarrow> uniq (map f t) = uniq t"
  by (simp add: uniq_def comp_def cong: map_cong)

lemma uniq_update_at: "(\<And>r. key (f r) = key r) \<Longrightarrow> uniq (update_at key k f t) = uniq t"
  unfolding update_at_def by (rule uniq_map) simp

lemma uniq_update_where: "(\<And>r. key (f r) = key r) \<Longrightarrow> uniq (update_where P f t) = uniq t"
  unfolding update_where_def by (rule uniq_map) simp

lemma uniq_delete: "uniq t \<Longrightarrow> uniq (delete_where P t)"
  by (simp add: uniq_def delete_where_def distinct_map_filter)

lemma row_at_update:
  assumes "\<And>r. key (f r) = key r"
  shows "row_at key k' (update_at key k f t) =
     (if k' = k then map_option f (row_at key k t) else row_at key k' t)"
  using assms by (induction t) (auto simp: row_at_def update_at_def)

lemma set_update_at:
  assumes "uniq t" "row_at key k t = Some r"
  shows "set (update_at key k f t) = insert (f r) (set t - {r})"
proof -
  have r: "r \<in> set t" "key r = k" using assms(2) row_at_Some by auto
  have "key r' = k \<longleftrightarrow> r' = r" if "r' \<in> set t" for r'
    using assms(1) r that by (metis row_at_in option.inject)
  then have "set (update_at key k f t) = (\<lambda>r'. if r' = r then f r' else r') ` set t"
    by (simp add: update_at_def cong: image_cong)
  then show ?thesis using r by auto
qed

lemma row_at_delete:
  assumes "uniq t"
  shows "row_at key k (delete_where P t) =
     (case row_at key k t of None \<Rightarrow> None | Some r \<Rightarrow> if P r then None else Some r)"
proof (cases "row_at key k t")
  case None
  then have "row_at key k (delete_where P t) = None" by (auto simp: row_at_None delete_where_def)
  with None show ?thesis by simp
next
  case (Some r)
  have r: "r \<in> set t" "key r = k" using Some row_at_Some by auto
  have only: "r' = r" if "r' \<in> set t" "key r' = k" for r'
    using Some assms that by (metis row_at_iff option.inject)
  show ?thesis
  proof (cases "P r")
    case True
    then have "row_at key k (delete_where P t) = None"
      using only by (auto simp: row_at_None delete_where_def)
    with Some True show ?thesis by simp
  next
    case False
    then have "r \<in> set (delete_where P t)" using r by (simp add: delete_where_def)
    then have "row_at key (key r) (delete_where P t) = Some r"
      by (intro row_at_in uniq_delete assms)
    with Some False r show ?thesis by simp
  qed
qed

lemma sum_update_at:
  fixes g :: "'r \<Rightarrow> int"
  assumes "uniq t" "row_at key k t = Some r"
  shows "sum_list (map g (update_at key k f t)) = sum_list (map g t) - g r + g (f r)"
  using assms
proof (induction t)
  case (Cons a t)
  show ?case
  proof (cases "key a = k")
    case True
    with Cons.prems have "a = r" by (simp add: row_at_def)
    moreover have "key x \<noteq> k" if "x \<in> set t" for x
      using Cons.prems(1) True that by (auto simp: uniq_def) (metis image_eqI)
    then have "map (\<lambda>r. if key r = k then f r else r) t = t" by (intro map_idI) simp
    ultimately show ?thesis using True by (simp add: update_at_def)
  next
    case False
    with Cons show ?thesis by (simp add: row_at_def update_at_def uniq_def)
  qed
qed (simp add: row_at_def)

end

interpretation nonce_rows: keyed_rows nonce_key .
interpretation evidence_rows: keyed_rows evidence_key .
interpretation experience_rows: keyed_rows experience_key .
interpretation idempotency_rows: keyed_rows idempotency_key .
interpretation lease_rows: keyed_rows lease_key .
interpretation budget_rows: keyed_rows budget_key .
interpretation reservation_rows: keyed_rows reservation_key .
interpretation artifact_rows: keyed_rows artifact_key .
interpretation training_rows: keyed_rows training_key .
interpretation champion_rows: keyed_rows champion_key .
interpretation promotion_rows: keyed_rows promotion_key .

section \<open>The store object\<close>

record world =
  db :: db
  clock :: "nat \<Rightarrow> int"
  clock_reads :: nat
  uuid :: "nat \<Rightarrow> string"
  uuid_reads :: nat
  token :: "nat \<Rightarrow> string"
  token_reads :: nat

definition now :: "('z world_scheme, int) action" where
  \<comment> \<open>\<open>_now\<close>: the next reading of \<open>int(self._clock())\<close>\<close>
  "now w = (Inr (clock w (clock_reads w)), w\<lparr>clock_reads := Suc (clock_reads w)\<rparr>)"

definition new_uuid :: "('z world_scheme, string) action" where
  \<comment> \<open>\<open>uuid.uuid4().hex\<close>\<close>
  "new_uuid w = (Inr (uuid w (uuid_reads w)), w\<lparr>uuid_reads := Suc (uuid_reads w)\<rparr>)"

definition new_token :: "('z world_scheme, string) action" where
  \<comment> \<open>\<open>secrets.token_urlsafe(24)\<close>\<close>
  "new_token w = (Inr (token w (token_reads w)), w\<lparr>token_reads := Suc (token_reads w)\<rparr>)"

definition or_uuid :: "string option \<Rightarrow> ('z world_scheme, string) action" where
  \<comment> \<open>\<open>value or uuid.uuid4().hex\<close>\<close>
  "or_uuid v = (case v of Some (c # cs) \<Rightarrow> ret (c # cs) | _ \<Rightarrow> new_uuid)"

definition timestamp :: "int option \<Rightarrow> ('z world_scheme, int) action" where
  \<comment> \<open>\<open>_timestamp\<close>\<close>
  "timestamp v =
     bind (case v of None \<Rightarrow> now | Some t \<Rightarrow> ret t) (\<lambda>result.
     andthen (require (0 \<le> result) ValueError ''timestamp must be a nonnegative integer'')
       (ret result))"

definition transaction :: "('z world_scheme, 'a) action \<Rightarrow> ('z world_scheme, 'a) action" where
  \<comment> \<open>\<open>with self.transaction(): body\<close>: an exception undoes the changes to the database and
      nothing else; a nested transaction is a savepoint with the same effect\<close>
  "transaction body w = (case body w of
      (Inl e, w') \<Rightarrow> (Inl e, w'\<lparr>db := db w\<rparr>)
    | (Inr x, w') \<Rightarrow> (Inr x, w'))"

definition query :: "(db \<Rightarrow> 'a) \<Rightarrow> ('z world_scheme, 'a) action" where
  "query f = get (\<lambda>w. f (db w))"

definition exec :: "(db \<Rightarrow> db) \<Rightarrow> ('z world_scheme, unit) action" where
  "exec f = modify (\<lambda>w. w\<lparr>db := f (db w)\<rparr>)"

definition sql_int :: "int \<Rightarrow> bool" where
  "sql_int n \<longleftrightarrow> - (2 ^ 63) \<le> n \<and> n < 2 ^ 63"

definition bind_ints :: "int list \<Rightarrow> ('z world_scheme, unit) action" where
  \<comment> \<open>the driver's conversion of integer parameters\<close>
  "bind_ints ns = require (list_all sql_int ns) OverflowError
     ''Python int too large to convert to SQLite INTEGER''"

section \<open>Argument checks\<close>

definition required :: "string list \<Rightarrow> ('z world_scheme, unit) action" where
  \<comment> \<open>\<open>_required\<close>\<close>
  "required vs = require (list_all (\<lambda>v. v \<noteq> []) vs) ValueError ''must be a nonempty string''"

definition check_sha256 :: "string \<Rightarrow> ('z world_scheme, unit) action" where
  \<comment> \<open>\<open>_sha256\<close>\<close>
  "check_sha256 v = require (is_sha256 v) StoreError
     ''SHA-256 values must be 64 lowercase hexadecimal characters''"

definition payload_text :: "json \<Rightarrow> string \<Rightarrow> ('z world_scheme, string) action" where
  \<comment> \<open>\<open>_payload_text\<close>\<close>
  "payload_text payload name = (case obj_get payload name of
      Some (JStr (c # cs)) \<Rightarrow> ret (c # cs)
    | _ \<Rightarrow> raise StoreError ''receipt payload field must be a nonempty string'')"

definition optional_payload_text :: "json \<Rightarrow> string \<Rightarrow> ('z world_scheme, string option) action" where
  \<comment> \<open>\<open>_optional_payload_text\<close>\<close>
  "optional_payload_text payload name = (case obj_get payload name of
      None \<Rightarrow> ret None
    | Some JNull \<Rightarrow> ret None
    | Some (JStr (c # cs)) \<Rightarrow> ret (Some (c # cs))
    | _ \<Rightarrow> raise StoreError ''receipt payload field must be a nonempty string or null'')"

definition positive_int :: "int \<Rightarrow> ('z world_scheme, unit) action" where
  \<comment> \<open>\<open>_positive_int\<close>\<close>
  "positive_int n = require (0 < n) ValueError ''must be a positive integer''"

definition nonnegative_int :: "int \<Rightarrow> ('z world_scheme, unit) action" where
  \<comment> \<open>\<open>_nonnegative_int\<close>\<close>
  "nonnegative_int n = require (0 \<le> n) ValueError ''must be a nonnegative integer''"

definition positive_limit :: "int \<Rightarrow> ('z world_scheme, unit) action" where
  \<comment> \<open>\<open>_positive_limit\<close>\<close>
  "positive_limit n = andthen (positive_int n)
     (require (n \<le> 100000) ValueError ''limit must not exceed 100000'')"

section \<open>Transactions are atomic\<close>

lemma transaction_error: "transaction body w = (Inl e, w') \<Longrightarrow> db w' = db w"
  by (auto simp: transaction_def split: prod.splits sum.splits)

lemma transaction_Inr_iff [result_iff]:
  "transaction body w = (Inr x, w') \<longleftrightarrow> body w = (Inr x, w')"
  by (auto simp: transaction_def split: prod.splits sum.splits)

text \<open>\<open>keeps_db J m\<close>: \<open>m\<close> keeps a property of the database, however it ends.\<close>

abbreviation keeps_db :: "(db \<Rightarrow> bool) \<Rightarrow> ('z world_scheme, 'a) action \<Rightarrow> bool" where
  "keeps_db J m \<equiv> keeps (\<lambda>w. J (db w)) m"

lemma keeps_transaction:
  assumes "\<And>w x w'. J (db w) \<Longrightarrow> body w = (Inr x, w') \<Longrightarrow> J (db w')"
  shows "keeps_db J (transaction body)"
proof (rule keepsI)
  fix w r w' assume J: "J (db w)" and run: "transaction body w = (r, w')"
  show "J (db w')"
  proof (cases r)
    case (Inl e) with run J show ?thesis by (auto dest: transaction_error)
  next
    case (Inr x) with run J assms show ?thesis by (auto simp: transaction_Inr_iff)
  qed
qed

lemma keeps_transaction' [keeps_intros]: "keeps_db J body \<Longrightarrow> keeps_db J (transaction body)"
  by (rule keeps_transaction) (auto dest: keepsD)

lemma store_action_simps [simp, monad_simps]:
  "now w = (Inr (clock w (clock_reads w)), w\<lparr>clock_reads := Suc (clock_reads w)\<rparr>)"
  "new_uuid w = (Inr (uuid w (uuid_reads w)), w\<lparr>uuid_reads := Suc (uuid_reads w)\<rparr>)"
  "new_token w = (Inr (token w (token_reads w)), w\<lparr>token_reads := Suc (token_reads w)\<rparr>)"
  "query f w = (Inr (f (db w)), w)"
  "exec h w = (Inr (), w\<lparr>db := h (db w)\<rparr>)"
  by (simp_all add: now_def new_uuid_def new_token_def query_def exec_def)

lemma check_Inr_iff [simp, result_iff]:
  "required vs w = (Inr u, w') \<longleftrightarrow> list_all (\<lambda>v. v \<noteq> []) vs \<and> w' = w"
  "check_sha256 v w = (Inr u, w') \<longleftrightarrow> is_sha256 v \<and> w' = w"
  "positive_int n w = (Inr u, w') \<longleftrightarrow> 0 < n \<and> w' = w"
  "nonnegative_int n w = (Inr u, w') \<longleftrightarrow> 0 \<le> n \<and> w' = w"
  "bind_ints ns w = (Inr u, w') \<longleftrightarrow> list_all sql_int ns \<and> w' = w"
  "positive_limit n w = (Inr u, w') \<longleftrightarrow> 0 < n \<and> n \<le> 100000 \<and> w' = w"
  by (auto simp: required_def check_sha256_def positive_int_def nonnegative_int_def bind_ints_def
      positive_limit_def andthen_apply require_apply split: if_splits)

lemma payload_text_Inr_iff [simp, result_iff]:
  "payload_text p n w = (Inr t, w') \<longleftrightarrow> obj_get p n = Some (JStr t) \<and> t \<noteq> [] \<and> w' = w"
  by (auto simp: payload_text_def split: option.splits json.splits list.splits)

lemma optional_payload_text_Inr_iff [result_iff]:
  "optional_payload_text p n w = (Inr t, w') \<Longrightarrow> w' = w"
  by (auto simp: optional_payload_text_def split: option.splits json.splits list.splits)

lemma timestamp_Inr_iff [result_iff]:
  "timestamp v w = (Inr t, w') \<longleftrightarrow> 0 \<le> t \<and>
     (case v of None \<Rightarrow> t = clock w (clock_reads w) \<and> w' = w\<lparr>clock_reads := Suc (clock_reads w)\<rparr>
              | Some v' \<Rightarrow> t = v' \<and> w' = w)"
  by (auto simp: timestamp_def bind_Inr_iff andthen_Inr_iff split: option.splits if_splits)

lemma keeps_db_checks [keeps_intros]:
  "keeps_db J now" "keeps_db J new_uuid" "keeps_db J new_token" "keeps_db J (query f)"
  "keeps_db J (required vs)" "keeps_db J (check_sha256 s)" "keeps_db J (positive_int n)"
  "keeps_db J (nonnegative_int n)" "keeps_db J (bind_ints ns)" "keeps_db J (positive_limit n)"
  by (auto simp: keeps_def required_def check_sha256_def positive_int_def nonnegative_int_def
      bind_ints_def positive_limit_def andthen_apply require_apply split: if_splits)

lemma keeps_db_payload_text [keeps_intros]:
  "keeps_db J (payload_text p n)" "keeps_db J (optional_payload_text p n)"
  by (auto simp: keeps_def payload_text_def optional_payload_text_def
      split: option.splits json.splits list.splits)

lemma keeps_db_timestamp [keeps_intros]: "keeps_db J (timestamp v)"
  unfolding timestamp_def by (intro keeps_intros)

lemma keeps_db_exec: "(\<And>d. J d \<Longrightarrow> J (h d)) \<Longrightarrow> keeps_db J (exec h)"
  by (auto simp: keeps_def)

section \<open>Failures leave the database unchanged\<close>

named_theorems aon_intros \<open>rules for \<open>reads_only\<close> and \<open>all_or_nothing\<close>\<close>

definition reads_only :: "('z world_scheme, 'a) action \<Rightarrow> bool" where
  "reads_only m \<longleftrightarrow> (\<forall>w r w'. m w = (r, w') \<longrightarrow> db w' = db w)"

definition all_or_nothing :: "('z world_scheme, 'a) action \<Rightarrow> bool" where
  "all_or_nothing m \<longleftrightarrow> (\<forall>w e w'. m w = (Inl e, w') \<longrightarrow> db w' = db w)"

lemma reads_onlyD: "reads_only m \<Longrightarrow> m w = (r, w') \<Longrightarrow> db w' = db w"
  by (auto simp: reads_only_def)

lemma all_or_nothingD: "all_or_nothing m \<Longrightarrow> m w = (Inl e, w') \<Longrightarrow> db w' = db w"
  by (auto simp: all_or_nothing_def)

lemma reads_only_keeps: "reads_only m \<longleftrightarrow> (\<forall>d. keeps_db (\<lambda>x. x = d) m)"
  by (auto simp: reads_only_def keeps_def)

lemma keeps_reads_only: "reads_only m \<Longrightarrow> keeps_db J m"
  by (rule keepsI) (simp add: reads_onlyD)

lemma reads_only_pure [aon_intros]:
  "reads_only (ret x)" "reads_only (throw e)" "reads_only (raise c msg)" "reads_only (lift r)"
  "reads_only (get g)" "reads_only (require b c msg)" "reads_only now" "reads_only new_uuid"
  "reads_only new_token" "reads_only (query f)" "reads_only (required vs)" "reads_only (check_sha256 s)"
  "reads_only (positive_int n)" "reads_only (nonnegative_int n)" "reads_only (bind_ints ns)"
  "reads_only (positive_limit n)" "reads_only (payload_text p k)" "reads_only (optional_payload_text p k)"
  "reads_only (timestamp v)"
  unfolding reads_only_keeps by (intro allI keeps_intros)+

lemma reads_only_bind [aon_intros]: "reads_only m \<Longrightarrow> (\<And>x. reads_only (f x)) \<Longrightarrow> reads_only (bind m f)"
  by (simp add: reads_only_keeps keeps_bind)

lemma reads_only_andthen [aon_intros]: "reads_only m \<Longrightarrow> reads_only k \<Longrightarrow> reads_only (andthen m k)"
  by (simp add: reads_only_keeps keeps_andthen)

lemma reads_only_option [aon_intros]:
  "reads_only m \<Longrightarrow> (\<And>x. reads_only (k x)) \<Longrightarrow> reads_only (case p of None \<Rightarrow> m | Some x \<Rightarrow> k x)"
  by (simp split: option.split)

lemma reads_only_if [aon_intros]:
  "reads_only m \<Longrightarrow> reads_only k \<Longrightarrow> reads_only (if b then m else k)"
  by simp

lemma aon_reads_only: "reads_only m \<Longrightarrow> all_or_nothing m"
  by (auto simp: reads_only_def all_or_nothing_def)

lemma aon_transaction [aon_intros]: "all_or_nothing (transaction body)"
  by (auto simp: all_or_nothing_def dest: transaction_error)

lemma aon_bind [aon_intros]:
  assumes "reads_only m" "\<And>x. all_or_nothing (f x)"
  shows "all_or_nothing (bind m f)"
  unfolding all_or_nothing_def
proof (intro allI impI)
  fix w e w' assume "bind m f w = (Inl e, w')"
  then consider "m w = (Inl e, w')" | x v where "m w = (Inr x, v)" "f x v = (Inl e, w')"
    by (auto simp: bind_Inl_iff)
  then show "db w' = db w"
  proof cases
    case 1 with assms(1) show ?thesis by (rule reads_onlyD)
  next
    case 2
    from reads_onlyD [OF assms(1) 2(1)] all_or_nothingD [OF assms(2) 2(2)] show ?thesis by simp
  qed
qed

lemma aon_andthen [aon_intros]: "reads_only m \<Longrightarrow> all_or_nothing k \<Longrightarrow> all_or_nothing (andthen m k)"
  by (simp add: andthen_def aon_bind)

text \<open>A read after the commit that cannot fail.\<close>

lemma aon_bind_tail:
  assumes "all_or_nothing m" "\<And>w x w'. m w = (Inr x, w') \<Longrightarrow> \<exists>y v. f x w' = (Inr y, v)"
  shows "all_or_nothing (bind m f)"
  unfolding all_or_nothing_def
proof (intro allI impI)
  fix w e w' assume "bind m f w = (Inl e, w')"
  then consider "m w = (Inl e, w')" | x v where "m w = (Inr x, v)" "f x v = (Inl e, w')"
    by (auto simp: bind_Inl_iff)
  then show "db w' = db w"
  proof cases
    case 1 with assms(1) show ?thesis by (rule all_or_nothingD)
  next
    case 2
    from assms(2) [OF 2(1)] 2(2) show ?thesis by auto
  qed
qed

lemma aon_andthen_tail:
  "all_or_nothing m \<Longrightarrow> (\<And>w z w'. m w = (Inr z, w') \<Longrightarrow> \<exists>y v. k w' = (Inr y, v)) \<Longrightarrow>
   all_or_nothing (andthen m k)"
  unfolding andthen_def by (rule aon_bind_tail)

lemma keeps_db_from_success:
  assumes "all_or_nothing m" "\<And>w x w'. J (db w) \<Longrightarrow> m w = (Inr x, w') \<Longrightarrow> J (db w')"
  shows "keeps_db J m"
proof (rule keepsI)
  fix w r w' assume "J (db w)" "m w = (r, w')"
  with assms show "J (db w')" by (cases r) (auto dest: all_or_nothingD)
qed

lemma or_uuid_db:
  "or_uuid v w = (Inr i, w') \<Longrightarrow> db w' = db w"
  by (auto simp: or_uuid_def split: option.splits list.splits)

lemma reads_only_or_uuid [aon_intros]: "reads_only (or_uuid v)"
  by (auto simp: reads_only_def or_uuid_def split: option.splits list.splits)

end
