(* ===== verification/StoreBudgets.thy ===== *)
theory StoreBudgets
  imports StoreSchema
begin

text \<open>
  Budgets and reservations of \<open>src/agent_tree_rl/store.py\<close>: \<open>create_budget\<close>,
  \<open>reserve_budget\<close>, \<open>consume_budget\<close>, \<open>release_budget\<close>, \<open>get_budget\<close> and the
  part of \<open>reconcile_startup\<close> that settles them. The invariant \<open>budgets_ok\<close> says that the
  counters of every budget are the sums over its reservations and never exceed the limit.
\<close>

record budget_snapshot =
  bs_tenant_id :: string
  bs_budget_id :: string
  bs_limit_units :: int
  bs_reserved_units :: int
  bs_consumed_units :: int
  bs_available_units :: int
  bs_version :: int

definition budget_of :: "budget_row \<Rightarrow> budget_snapshot" where
  \<comment> \<open>\<open>_budget\<close>\<close>
  "budget_of r =
     \<lparr>bs_tenant_id = bd_tenant_id r, bs_budget_id = bd_budget_id r,
      bs_limit_units = bd_limit_units r, bs_reserved_units = bd_reserved_units r,
      bs_consumed_units = bd_consumed_units r,
      bs_available_units = bd_limit_units r - bd_reserved_units r - bd_consumed_units r,
      bs_version = bd_version r\<rparr>"

definition budget_check :: "budget_row \<Rightarrow> bool" where
  \<comment> \<open>the \<open>CHECK\<close> constraints of \<open>budgets\<close>\<close>
  "budget_check r \<longleftrightarrow> 0 \<le> bd_limit_units r \<and> 0 \<le> bd_reserved_units r \<and> 0 \<le> bd_consumed_units r
     \<and> bd_reserved_units r + bd_consumed_units r \<le> bd_limit_units r"

definition budget_at :: "string \<Rightarrow> string \<Rightarrow> db \<Rightarrow> budget_row option" where
  "budget_at tenant_id budget_id d = row_at budget_key (tenant_id, budget_id) (budgets d)"

definition reservation_at :: "string \<Rightarrow> string \<Rightarrow> string \<Rightarrow> db \<Rightarrow> reservation_row option" where
  "reservation_at tenant_id budget_id reservation_id d =
     row_at reservation_key (tenant_id, budget_id, reservation_id) (budget_reservations d)"

definition get_budget_row :: "string \<Rightarrow> string \<Rightarrow> ('z world_scheme, budget_row) action" where
  \<comment> \<open>\<open>_budget_row\<close>\<close>
  "get_budget_row tenant_id budget_id =
     bind (query (budget_at tenant_id budget_id)) (\<lambda>row.
     case row of None \<Rightarrow> raise NotFoundError ''budget not found'' | Some r \<Rightarrow> ret r)"

definition get_budget :: "string \<Rightarrow> string \<Rightarrow> ('z world_scheme, budget_snapshot) action" where
  \<comment> \<open>\<open>get_budget\<close> and \<open>_budget_in_transaction\<close>\<close>
  "get_budget tenant_id budget_id = bind (get_budget_row tenant_id budget_id) (\<lambda>r. ret (budget_of r))"

definition update_budget ::
  "string \<Rightarrow> string \<Rightarrow> (budget_row \<Rightarrow> budget_row) \<Rightarrow> ('z world_scheme, unit) action" where
  \<comment> \<open>\<open>UPDATE budgets SET ... WHERE tenant_id=? AND budget_id=?\<close>\<close>
  "update_budget tenant_id budget_id f =
     bind (query (budget_at tenant_id budget_id)) (\<lambda>row.
     andthen (require (pred_option (\<lambda>r. budget_check (f r)) row) IntegrityError ''CHECK constraint failed: budgets'')
       (exec (\<lambda>d. d\<lparr>budgets := update_at budget_key (tenant_id, budget_id) f (budgets d)\<rparr>)))"

definition add_reserved :: "int \<Rightarrow> int \<Rightarrow> budget_row \<Rightarrow> budget_row" where
  "add_reserved units t b = b\<lparr>bd_reserved_units := bd_reserved_units b + units,
     bd_version := bd_version b + 1, bd_updated_at := t\<rparr>"

definition settle :: "int \<Rightarrow> int \<Rightarrow> int \<Rightarrow> budget_row \<Rightarrow> budget_row" where
  "settle units consumed_delta t b = b\<lparr>bd_reserved_units := bd_reserved_units b - units,
     bd_consumed_units := bd_consumed_units b + consumed_delta,
     bd_version := bd_version b + 1, bd_updated_at := t\<rparr>"

definition new_reservation :: "string \<Rightarrow> string \<Rightarrow> string \<Rightarrow> int \<Rightarrow> int \<Rightarrow> reservation_row" where
  "new_reservation tenant_id budget_id reservation_id units t =
     \<lparr>rs_tenant_id = tenant_id, rs_budget_id = budget_id, rs_reservation_id = reservation_id,
      rs_units = units, rs_status = RESERVED, rs_created_at = t, rs_updated_at = t\<rparr>"

definition set_status :: "reservation_status \<Rightarrow> int \<Rightarrow> reservation_row \<Rightarrow> reservation_row" where
  "set_status st t r = r\<lparr>rs_status := st, rs_updated_at := t\<rparr>"

definition create_budget :: "string \<Rightarrow> string \<Rightarrow> int \<Rightarrow> ('z world_scheme, budget_snapshot) action" where
  "create_budget tenant_id budget_id limit_units =
     andthen (required [tenant_id, budget_id])
     (andthen (nonnegative_int limit_units)
     (bind now (\<lambda>t.
      bind (transaction
        (bind (query (budget_at tenant_id budget_id)) (\<lambda>row.
         case row of
           Some r \<Rightarrow>
             andthen (require (bd_limit_units r = limit_units) ConflictError
                        ''budget already exists with a different limit'')
               (ret (Some (budget_of r)))
         | None \<Rightarrow>
             andthen (bind_ints [limit_units, t])
             (andthen (exec (\<lambda>d. d\<lparr>budgets := budgets d @
                 [\<lparr>bd_tenant_id = tenant_id, bd_budget_id = budget_id, bd_limit_units = limit_units,
                   bd_reserved_units = 0, bd_consumed_units = 0, bd_version = 0,
                   bd_created_at = t, bd_updated_at = t\<rparr>]\<rparr>))
               (ret None))))) (\<lambda>existing.
      case existing of Some b \<Rightarrow> ret b | None \<Rightarrow> get_budget tenant_id budget_id))))"

definition reserve_budget ::
  "string \<Rightarrow> string \<Rightarrow> string \<Rightarrow> int \<Rightarrow> ('z world_scheme, budget_snapshot) action" where
  "reserve_budget tenant_id budget_id reservation_id units =
     andthen (required [tenant_id, budget_id, reservation_id])
     (andthen (positive_int units)
     (bind now (\<lambda>t. transaction
       (bind (query (reservation_at tenant_id budget_id reservation_id)) (\<lambda>existing.
        case existing of
          Some r \<Rightarrow>
            andthen (require (rs_units r = units) ConflictError
                       ''reservation ID was used for a different amount'')
              (get_budget tenant_id budget_id)
        | None \<Rightarrow>
            bind (get_budget_row tenant_id budget_id) (\<lambda>budget.
            let available = bd_limit_units budget - bd_reserved_units budget - bd_consumed_units budget in
            andthen (require (units \<le> available) BudgetExceededError ''reservation needs more units than remain'')
            (andthen (bind_ints [units, t])
            (andthen (update_budget tenant_id budget_id
                (add_reserved units t))
            (andthen (exec (\<lambda>d. d\<lparr>budget_reservations := budget_reservations d @
                [new_reservation tenant_id budget_id reservation_id units t]\<rparr>))
              (get_budget tenant_id budget_id)))))))))) "

definition transition_reservation ::
  "string \<Rightarrow> string \<Rightarrow> string \<Rightarrow> reservation_status \<Rightarrow> ('z world_scheme, budget_snapshot) action" where
  \<comment> \<open>\<open>_transition_reservation\<close>\<close>
  "transition_reservation tenant_id budget_id reservation_id target =
     bind now (\<lambda>t. transaction
       (bind (query (reservation_at tenant_id budget_id reservation_id)) (\<lambda>reservation.
        case reservation of
          None \<Rightarrow> raise NotFoundError ''budget reservation not found''
        | Some r \<Rightarrow>
            if rs_status r = target then get_budget tenant_id budget_id
            else
              andthen (require (rs_status r = RESERVED) ConflictError ''cannot change reservation'')
              (let units = rs_units r; consumed_delta = (if target = CONSUMED then units else 0) in
               andthen (bind_ints [units, consumed_delta, t])
               (andthen (update_budget tenant_id budget_id
                   (settle units consumed_delta t))
               (andthen (exec (\<lambda>d. d\<lparr>budget_reservations :=
                   update_at reservation_key (tenant_id, budget_id, reservation_id)
                     (set_status target t) (budget_reservations d)\<rparr>))
                 (get_budget tenant_id budget_id)))))))"

definition consume_budget :: "string \<Rightarrow> string \<Rightarrow> string \<Rightarrow> ('z world_scheme, budget_snapshot) action" where
  "consume_budget tenant_id budget_id reservation_id =
     transition_reservation tenant_id budget_id reservation_id CONSUMED"

definition release_budget :: "string \<Rightarrow> string \<Rightarrow> string \<Rightarrow> ('z world_scheme, budget_snapshot) action" where
  "release_budget tenant_id budget_id reservation_id =
     transition_reservation tenant_id budget_id reservation_id RELEASED"

section \<open>The ledger behind the counters\<close>

definition units_in :: "reservation_status \<Rightarrow> string \<Rightarrow> string \<Rightarrow> reservation_row \<Rightarrow> int" where
  \<comment> \<open>the \<open>CASE WHEN r.status=... THEN r.units ELSE 0 END\<close> of the accounting query, for one budget\<close>
  "units_in st tenant_id budget_id r =
     (if rs_tenant_id r = tenant_id \<and> rs_budget_id r = budget_id \<and> rs_status r = st then rs_units r else 0)"

definition ledger_sum :: "reservation_status \<Rightarrow> string \<Rightarrow> string \<Rightarrow> db \<Rightarrow> int" where
  "ledger_sum st tenant_id budget_id d =
     sum_list (map (units_in st tenant_id budget_id) (budget_reservations d))"

definition accounting_ok :: "db \<Rightarrow> budget_row \<Rightarrow> bool" where
  "accounting_ok d b \<longleftrightarrow>
     bd_reserved_units b = ledger_sum RESERVED (bd_tenant_id b) (bd_budget_id b) d
   \<and> bd_consumed_units b = ledger_sum CONSUMED (bd_tenant_id b) (bd_budget_id b) d"

definition budgets_ok :: "db \<Rightarrow> bool" where
  "budgets_ok d \<longleftrightarrow>
     uniq_rows budget_key (budgets d) \<and> uniq_rows reservation_key (budget_reservations d)
   \<and> (\<forall>b \<in> set (budgets d). budget_check b \<and> accounting_ok d b)
   \<and> (\<forall>r \<in> set (budget_reservations d). 0 < rs_units r
        \<and> budget_at (rs_tenant_id r) (rs_budget_id r) d \<noteq> None)"

lemma budget_at_Some: "budget_at t b d = Some r \<Longrightarrow>
    r \<in> set (budgets d) \<and> bd_tenant_id r = t \<and> bd_budget_id r = b"
  by (auto simp: budget_at_def budget_key_def dest!: budget_rows.row_at_Some)

lemma reservation_at_Some: "reservation_at t b i d = Some r \<Longrightarrow>
    r \<in> set (budget_reservations d) \<and> rs_tenant_id r = t \<and> rs_budget_id r = b \<and> rs_reservation_id r = i"
  by (auto simp: reservation_at_def reservation_key_def dest!: reservation_rows.row_at_Some)

lemma budget_at_in: "budgets_ok d \<Longrightarrow> r \<in> set (budgets d) \<Longrightarrow>
    budget_at (bd_tenant_id r) (bd_budget_id r) d = Some r"
  using budget_rows.row_at_in [of "budgets d" r] by (auto simp: budgets_ok_def budget_at_def budget_key_def)

lemma get_budget_row_Inr_iff [simp, result_iff]:
  "get_budget_row t b w = (Inr r, w') \<longleftrightarrow> budget_at t b (db w) = Some r \<and> w' = w"
  by (auto simp: get_budget_row_def bind_apply split: option.splits)

lemma get_budget_Inr_iff [simp, result_iff]:
  "get_budget t b w = (Inr s, w') \<longleftrightarrow> (\<exists>r. budget_at t b (db w) = Some r \<and> s = budget_of r) \<and> w' = w"
  by (auto simp: get_budget_def bind_Inr_iff)

lemma update_budget_Inr_iff [simp, result_iff]:
  "update_budget t b f w = (Inr u, w') \<longleftrightarrow>
     pred_option (\<lambda>r. budget_check (f r)) (budget_at t b (db w)) \<and>
     w' = w\<lparr>db := (db w)\<lparr>budgets := update_at budget_key (t, b) f (budgets (db w))\<rparr>\<rparr>"
  by (auto simp: update_budget_def bind_Inr_iff andthen_Inr_iff)

section \<open>The two ledger moves\<close>

text \<open>
  A reservation adds a \<open>RESERVED\<close> row and raises the counter; a transition changes the status of a
  \<open>RESERVED\<close> row and moves its units out of the counter. Both keep the invariant.
\<close>

lemmas ledger_moves = add_reserved_def settle_def new_reservation_def set_status_def

lemma ledger_move_keys [simp]:
  "budget_key (add_reserved u t b) = budget_key b" "budget_key (settle u c t b) = budget_key b"
  "reservation_key (set_status st t r) = reservation_key r"
  "reservation_key (new_reservation x y i u t) = (x, y, i)"
  by (simp_all add: ledger_moves budget_key_def reservation_key_def)

definition ledger_reserve :: "string \<Rightarrow> string \<Rightarrow> string \<Rightarrow> int \<Rightarrow> int \<Rightarrow> db \<Rightarrow> db" where
  "ledger_reserve x y i units t d = d\<lparr>budgets := update_at budget_key (x, y) (add_reserved units t) (budgets d),
     budget_reservations := budget_reservations d @ [new_reservation x y i units t]\<rparr>"

definition ledger_settle ::
  "string \<Rightarrow> string \<Rightarrow> string \<Rightarrow> reservation_status \<Rightarrow> int \<Rightarrow> int \<Rightarrow> db \<Rightarrow> db" where
  "ledger_settle x y i target units t d =
     d\<lparr>budgets := update_at budget_key (x, y) (settle units (if target = CONSUMED then units else 0) t) (budgets d),
       budget_reservations := update_at reservation_key (x, y, i) (set_status target t) (budget_reservations d)\<rparr>"

lemma reserve_budget_Inr:
  assumes "reserve_budget x y i units w = (Inr s, w')"
  shows "0 < units \<and> (\<exists>t.
     (\<exists>r. reservation_at x y i (db w) = Some r \<and> rs_units r = units \<and> db w' = db w)
   \<or> (\<exists>b. reservation_at x y i (db w) = None \<and> budget_at x y (db w) = Some b
        \<and> units \<le> bd_limit_units b - bd_reserved_units b - bd_consumed_units b
        \<and> db w' = ledger_reserve x y i units t (db w)))"
  using assms
  by (auto simp: reserve_budget_def result_iff Let_def ledger_reserve_def split: option.splits)

lemma transition_reservation_Inr:
  assumes "transition_reservation x y i target w = (Inr s, w')"
  shows "\<exists>r t. reservation_at x y i (db w) = Some r \<and>
     (if rs_status r = target then db w' = db w
      else rs_status r = RESERVED \<and> db w' = ledger_settle x y i target (rs_units r) t (db w))"
proof (cases "reservation_at x y i (db w)")
  case None
  with assms show ?thesis by (simp add: transition_reservation_def result_iff)
next
  case (Some r)
  with assms show ?thesis
    by (cases "rs_status r = target")
       (auto simp: transition_reservation_def bind_Inr_iff andthen_Inr_iff transaction_Inr_iff Let_def ledger_settle_def)
qed

lemma ledger_sum_append:
  "ledger_sum st x y (d\<lparr>budget_reservations := budget_reservations d @ [r]\<rparr>) = ledger_sum st x y d + units_in st x y r"
  by (simp add: ledger_sum_def)

lemma ledger_reserve_ok:
  assumes ok: "budgets_ok d" and b: "budget_at x y d = Some b" and none: "reservation_at x y i d = None"
    and u: "0 < units" "units \<le> bd_limit_units b - bd_reserved_units b - bd_consumed_units b"
  shows "budgets_ok (ledger_reserve x y i units t d)"
proof -
  let ?d = "ledger_reserve x y i units t d" and ?f = "add_reserved units t"
  have ub: "uniq_rows budget_key (budgets d)" and ur: "uniq_rows reservation_key (budget_reservations d)"
    using ok by (simp_all add: budgets_ok_def)
  have kb: "bd_tenant_id b = x" "bd_budget_id b = y" and bin: "b \<in> set (budgets d)"
    using b budget_at_Some by blast+
  have sum: "ledger_sum st p q ?d = ledger_sum st p q d
      + (if p = x \<and> q = y \<and> st = RESERVED then units else 0)" for st p q
    by (simp add: ledger_sum_def ledger_reserve_def units_in_def new_reservation_def)
  have bset: "set (budgets ?d) = insert (?f b) (set (budgets d) - {b})"
    unfolding ledger_reserve_def using b budget_rows.set_update_at [OF ub]
    by (simp add: budget_at_def)
  have other: "(bd_tenant_id c, bd_budget_id c) \<noteq> (x, y)" if "c \<in> set (budgets d) - {b}" for c
  proof
    assume "(bd_tenant_id c, bd_budget_id c) = (x, y)"
    with that budget_at_in [OF ok, of c] b show False by simp
  qed
  have chk: "budget_check c \<and> accounting_ok ?d c" if "c \<in> set (budgets ?d)" for c
  proof -
    from that have "c = ?f b \<or> c \<in> set (budgets d) - {b}" unfolding bset by simp
    then show ?thesis
    proof
      assume 1: "c = ?f b"
      have "budget_check b \<and> accounting_ok d b" using ok bin by (simp add: budgets_ok_def)
      with 1 u kb show ?thesis
        by (auto simp: accounting_ok_def sum budget_check_def add_reserved_def)
    next
      assume 2: "c \<in> set (budgets d) - {b}"
      with other [OF 2] ok show ?thesis by (auto simp: budgets_ok_def accounting_ok_def sum)
    qed
  qed
  have fk: "budget_at p q ?d \<noteq> None \<longleftrightarrow> budget_at p q d \<noteq> None" for p q
    by (simp add: budget_at_def ledger_reserve_def budget_rows.row_at_update)
  have rs: "uniq_rows reservation_key (budget_reservations ?d)"
    using ur none by (simp add: ledger_reserve_def reservation_rows.uniq_append reservation_at_def)
  have ub': "uniq_rows budget_key (budgets ?d)"
    using ub by (simp add: ledger_reserve_def budget_rows.uniq_update_at)
  have res: "0 < rs_units r \<and> budget_at (rs_tenant_id r) (rs_budget_id r) ?d \<noteq> None"
    if "r \<in> set (budget_reservations ?d)" for r
    using that ok u b unfolding fk
    by (auto simp: ledger_reserve_def budgets_ok_def new_reservation_def)
  from ub' rs chk res show ?thesis by (simp add: budgets_ok_def)
qed

lemma ledger_settle_ok:
  assumes ok: "budgets_ok d" and r: "reservation_at x y i d = Some r" and st: "rs_status r = RESERVED"
    and target: "target \<noteq> RESERVED"
  shows "budgets_ok (ledger_settle x y i target (rs_units r) t d)"
proof -
  let ?u = "rs_units r" and ?c = "if target = CONSUMED then rs_units r else 0"
  let ?f = "settle ?u ?c t"
  define d' where d': "d' = ledger_settle x y i target ?u t d"
  have ub: "uniq_rows budget_key (budgets d)" and ur: "uniq_rows reservation_key (budget_reservations d)"
    using ok by (simp_all add: budgets_ok_def)
  have rin: "r \<in> set (budget_reservations d)" and kr: "rs_tenant_id r = x" "rs_budget_id r = y"
    using r reservation_at_Some by blast+
  then obtain b where b: "budget_at x y d = Some b" and u: "0 < ?u"
    using ok by (auto simp: budgets_ok_def)
  have kb: "bd_tenant_id b = x" "bd_budget_id b = y" and bin: "b \<in> set (budgets d)"
    using b budget_at_Some by blast+
  have sum: "ledger_sum s p q d' = ledger_sum s p q d - units_in s p q r + units_in s p q (set_status target t r)"
    for s p q
    unfolding ledger_sum_def d' ledger_settle_def
    using reservation_rows.sum_update_at [OF ur] r by (simp add: reservation_at_def)
  have bset: "set (budgets d') = insert (?f b) (set (budgets d) - {b})"
    unfolding d' ledger_settle_def using b budget_rows.set_update_at [OF ub]
    by (simp add: budget_at_def)
  have other: "(bd_tenant_id c, bd_budget_id c) \<noteq> (x, y)" if "c \<in> set (budgets d) - {b}" for c
  proof
    assume "(bd_tenant_id c, bd_budget_id c) = (x, y)"
    with that budget_at_in [OF ok, of c] b show False by simp
  qed
  have nonneg: "?u \<le> ledger_sum RESERVED x y d"
  proof -
    have "units_in RESERVED x y r \<le> sum_list (map (units_in RESERVED x y) (budget_reservations d))"
      using rin ok by (intro member_le_sum_list) (auto simp: budgets_ok_def units_in_def)
    with kr st show ?thesis by (simp add: ledger_sum_def units_in_def)
  qed
  have chk: "budget_check c \<and> accounting_ok d' c" if "c \<in> set (budgets d')" for c
  proof -
    from that have "c = ?f b \<or> c \<in> set (budgets d) - {b}" unfolding bset by simp
    then show ?thesis
    proof
      assume 1: "c = ?f b"
      have "budget_check b \<and> accounting_ok d b" using ok bin by (simp add: budgets_ok_def)
      with 1 u kb kr st target nonneg show ?thesis
        by (cases target) (auto simp: accounting_ok_def sum budget_check_def settle_def units_in_def set_status_def)
    next
      assume 2: "c \<in> set (budgets d) - {b}"
      with other [OF 2] ok kr show ?thesis
        by (auto simp: budgets_ok_def accounting_ok_def sum units_in_def set_status_def)
    qed
  qed
  have fk: "budget_at p q d' \<noteq> None \<longleftrightarrow> budget_at p q d \<noteq> None" for p q
    by (simp add: budget_at_def d' ledger_settle_def budget_rows.row_at_update)
  have uniq: "uniq_rows reservation_key (budget_reservations d')" "uniq_rows budget_key (budgets d')"
    using ub ur by (simp_all add: d' ledger_settle_def budget_rows.uniq_update_at reservation_rows.uniq_update_at)
  have rset: "set (budget_reservations d') = insert (set_status target t r) (set (budget_reservations d) - {r})"
    unfolding d' ledger_settle_def using r reservation_rows.set_update_at [OF ur]
    by (simp add: reservation_at_def)
  have res: "0 < rs_units q \<and> budget_at (rs_tenant_id q) (rs_budget_id q) d' \<noteq> None"
    if "q \<in> set (budget_reservations d')" for q
    using that ok u b kr unfolding fk rset
    by (auto simp: budgets_ok_def set_status_def)
  from uniq chk res show ?thesis unfolding d' [symmetric] by (simp add: budgets_ok_def)
qed

section \<open>Every operation keeps the ledger\<close>

lemma create_budget_body_ok:
  assumes ok: "budgets_ok d" and none: "budget_at x y d = None" and l: "0 \<le> limit"
  shows "budgets_ok (d\<lparr>budgets := budgets d @
     [\<lparr>bd_tenant_id = x, bd_budget_id = y, bd_limit_units = limit, bd_reserved_units = 0,
       bd_consumed_units = 0, bd_version = 0, bd_created_at = t, bd_updated_at = t\<rparr>]\<rparr>)"
    (is "budgets_ok (d\<lparr>budgets := budgets d @ [?b]\<rparr>)")
proof -
  define d' where d': "d' = d\<lparr>budgets := budgets d @ [?b]\<rparr>"
  have no_rows: "ledger_sum st x y d = 0" for st
  proof -
    have "units_in st x y r = 0" if "r \<in> set (budget_reservations d)" for r
      using that ok none by (auto simp: budgets_ok_def units_in_def)
    then show ?thesis by (simp add: ledger_sum_def sum_list_0 cong: map_cong)
  qed
  have sums: "ledger_sum st p q d' = ledger_sum st p q d" for st p q
    by (simp add: ledger_sum_def d')
  have "uniq_rows budget_key (budgets d')"
    using ok none by (simp add: d' budgets_ok_def budget_rows.uniq_append budget_at_def budget_key_def)
  moreover have "budget_check c \<and> accounting_ok d' c" if "c \<in> set (budgets d')" for c
    using that ok l no_rows
    by (auto simp: accounting_ok_def sums budgets_ok_def budget_check_def) (auto simp: d' accounting_ok_def)
  moreover have "budget_at p q d' \<noteq> None" if "budget_at p q d \<noteq> None" for p q
    using that by (auto simp: budget_at_def d' budget_rows.row_at_append split: option.splits)
  ultimately show ?thesis
    using ok unfolding d' [symmetric] by (simp add: budgets_ok_def) (simp add: d' budgets_ok_def)
qed

lemma keeps_get_budget [keeps_intros]: "keeps_db J (get_budget x y)" "keeps_db J (get_budget_row x y)"
  unfolding get_budget_def get_budget_row_def by (intro keeps_intros)+

lemma reads_only_get_budget [aon_intros]:
  "reads_only (get_budget_row x y)" "reads_only (get_budget x y)"
  unfolding get_budget_def get_budget_row_def by (intro aon_intros)+

lemma create_budget_Inr:
  assumes "create_budget x y limit w = (Inr s, w')"
  shows "0 \<le> limit \<and> (\<exists>t.
     (\<exists>b. budget_at x y (db w) = Some b \<and> bd_limit_units b = limit \<and> s = budget_of b \<and> db w' = db w)
   \<or> (budget_at x y (db w) = None \<and> db w' = (db w)\<lparr>budgets := budgets (db w) @
        [\<lparr>bd_tenant_id = x, bd_budget_id = y, bd_limit_units = limit, bd_reserved_units = 0,
          bd_consumed_units = 0, bd_version = 0, bd_created_at = t, bd_updated_at = t\<rparr>]\<rparr>))"
  using assms
  by (cases "budget_at x y (db w)") (auto simp: create_budget_def result_iff)

lemma create_budget_aon: "all_or_nothing (create_budget x y limit)"
  unfolding create_budget_def
proof (intro aon_andthen aon_bind [where m = now] aon_bind_tail aon_transaction reads_only_pure, goal_cases)
  case (1 t w z w')
  then show ?case
    by (cases "budget_at x y (db w)")
       (auto simp: result_iff get_budget_def get_budget_row_def bind_apply budget_at_def
          budget_rows.row_at_append budget_key_def split: option.splits)
qed

lemma reserve_budget_aon: "all_or_nothing (reserve_budget x y i units)"
  unfolding reserve_budget_def by (intro aon_intros)

lemma transition_reservation_aon: "all_or_nothing (transition_reservation x y i target)"
  unfolding transition_reservation_def by (intro aon_intros)

lemma create_budget_keeps: "keeps_db budgets_ok (create_budget x y limit)"
proof (rule keeps_db_from_success [OF create_budget_aon])
  fix w :: "'a world_scheme" and s w'
  assume "budgets_ok (db w)" "create_budget x y limit w = (Inr s, w')"
  with create_budget_Inr [of x y limit w s w'] create_budget_body_ok [of "db w" x y limit]
  show "budgets_ok (db w')" by auto
qed

lemma reserve_budget_keeps: "keeps_db budgets_ok (reserve_budget x y i units)"
proof (rule keeps_db_from_success [OF reserve_budget_aon])
  fix w :: "'a world_scheme" and s w'
  assume "budgets_ok (db w)" "reserve_budget x y i units w = (Inr s, w')"
  with reserve_budget_Inr [of x y i units w s w'] ledger_reserve_ok [of "db w"]
  show "budgets_ok (db w')" by auto
qed

lemma transition_reservation_keeps:
  assumes "target \<noteq> RESERVED" shows "keeps_db budgets_ok (transition_reservation x y i target)"
proof (rule keeps_db_from_success [OF transition_reservation_aon])
  fix w :: "'a world_scheme" and s w'
  assume "budgets_ok (db w)" "transition_reservation x y i target w = (Inr s, w')"
  with transition_reservation_Inr [of x y i target w s w'] ledger_settle_ok [of "db w" x y i _ target] assms
  show "budgets_ok (db w')" by (auto split: if_splits)
qed

lemma consume_budget_keeps: "keeps_db budgets_ok (consume_budget x y i)"
  and release_budget_keeps: "keeps_db budgets_ok (release_budget x y i)"
  unfolding consume_budget_def release_budget_def by (simp_all add: transition_reservation_keeps)

section \<open>What a caller observes\<close>

abbreviation available :: "budget_row \<Rightarrow> int" where
  "available b \<equiv> bd_limit_units b - bd_reserved_units b - bd_consumed_units b"

lemma update_budget_apply [monad_simps]:
  "update_budget x y f w =
     (if pred_option (\<lambda>r. budget_check (f r)) (budget_at x y (db w))
      then (Inr (), w\<lparr>db := (db w)\<lparr>budgets := update_at budget_key (x, y) f (budgets (db w))\<rparr>\<rparr>)
      else (Inl (Exc IntegrityError ''CHECK constraint failed: budgets''), w))"
  by (simp add: update_budget_def bind_apply andthen_apply require_apply)

lemma budget_at_add_reserved:
  "budget_at x y d = Some b \<Longrightarrow> budget_at x y (ledger_reserve x y i u t d) = Some (add_reserved u t b)"
  by (simp add: budget_at_def ledger_reserve_def budget_rows.row_at_update)

lemma budget_at_settle:
  "budget_at x y d = Some b \<Longrightarrow> budget_at x y (ledger_settle x y i st u t d)
     = Some (settle u (if st = CONSUMED then u else 0) t b)"
  by (simp add: budget_at_def ledger_settle_def budget_rows.row_at_update)

lemma reservation_at_reserve:
  "reservation_at x y i d = None \<Longrightarrow>
   reservation_at x y i (ledger_reserve x y i u t d) = Some (new_reservation x y i u t)"
  by (simp add: reservation_at_def ledger_reserve_def reservation_rows.row_at_append)

lemma reservation_at_settle:
  "reservation_at x y i d = Some r \<Longrightarrow>
   reservation_at x y i (ledger_settle x y i st u t d) = Some (set_status st t r)"
  by (simp add: reservation_at_def ledger_settle_def reservation_rows.row_at_update)

lemma reserve_budget_new:
  assumes "budgets_ok (db w)" and names: "x \<noteq> []" "y \<noteq> []" "i \<noteq> []" and u: "0 < units"
    and none: "reservation_at x y i (db w) = None" and b: "budget_at x y (db w) = Some b"
    and ints: "sql_int units" "sql_int (clock w (clock_reads w))"
  shows "reserve_budget x y i units w =
    (if units \<le> available b
     then (Inr (budget_of (add_reserved units (clock w (clock_reads w)) b)),
           w\<lparr>clock_reads := Suc (clock_reads w),
             db := ledger_reserve x y i units (clock w (clock_reads w)) (db w)\<rparr>)
     else (Inl (Exc BudgetExceededError ''reservation needs more units than remain''),
           w\<lparr>clock_reads := Suc (clock_reads w)\<rparr>))"
proof -
  have "budget_check b" using assms(1) b budget_at_Some by (fastforce simp: budgets_ok_def)
  then have chk: "units \<le> available b \<Longrightarrow> budget_check (add_reserved units t b)" for t
    using u by (auto simp: budget_check_def add_reserved_def)
  have upd: "budget_at x y ((db w)\<lparr>budgets := update_at budget_key (x, y) f (budgets (db w)),
      budget_reservations := rs\<rparr>) = map_option f (budget_at x y (db w))" if "\<And>r. budget_key (f r) = budget_key r" for f rs
    using that by (simp add: budget_at_def budget_rows.row_at_update)
  show ?thesis
    using chk b none names u ints
    by (simp add: reserve_budget_def required_def positive_int_def bind_ints_def get_budget_def get_budget_row_def
        bind_apply andthen_apply require_apply transaction_def Let_def update_budget_apply upd
        ledger_reserve_def)
qed

lemma transition_new:
  assumes ok: "budgets_ok (db w)" and r: "reservation_at x y i (db w) = Some r" and st: "rs_status r = RESERVED"
    and target: "target \<noteq> RESERVED" and ints: "sql_int (rs_units r)" "sql_int (clock w (clock_reads w))"
  shows "\<exists>s. transition_reservation x y i target w =
     (Inr s, w\<lparr>clock_reads := Suc (clock_reads w),
        db := ledger_settle x y i target (rs_units r) (clock w (clock_reads w)) (db w)\<rparr>)"
proof -
  let ?t = "clock w (clock_reads w)" and ?c = "if target = CONSUMED then rs_units r else 0"
  obtain b where b: "budget_at x y (db w) = Some b"
    using ok r reservation_at_Some by (fastforce simp: budgets_ok_def)
  have "budgets_ok (ledger_settle x y i target (rs_units r) ?t (db w))"
    by (rule ledger_settle_ok [OF ok r st target])
  then have chk: "budget_check (settle (rs_units r) ?c ?t b)"
    using budget_at_settle [OF b] budget_at_Some by (fastforce simp: budgets_ok_def)
  have upd: "budget_at x y ((db w)\<lparr>budgets := update_at budget_key (x, y) f (budgets (db w)),
      budget_reservations := rs\<rparr>) = map_option f (budget_at x y (db w))" if "\<And>r. budget_key (f r) = budget_key r" for f rs
    using that by (simp add: budget_at_def budget_rows.row_at_update)
  have zero: "sql_int 0" by (simp add: sql_int_def)
  show ?thesis
    using chk b r st target ints zero
    by (cases target)
       (simp_all add: transition_reservation_def bind_ints_def get_budget_def get_budget_row_def
        bind_apply andthen_apply require_apply transaction_def Let_def update_budget_apply upd ledger_settle_def)
qed

lemma transition_settled:
  assumes ok: "budgets_ok (db w)" and r: "reservation_at x y i (db w) = Some r" and st: "rs_status r \<noteq> RESERVED"
  shows "\<exists>res. transition_reservation x y i target w = (res, w\<lparr>clock_reads := Suc (clock_reads w)\<rparr>)
     \<and> (if rs_status r = target then \<exists>s. res = Inr s
        else res = Inl (Exc ConflictError ''cannot change reservation''))"
proof -
  obtain b where b: "budget_at x y (db w) = Some b"
    using ok r reservation_at_Some by (fastforce simp: budgets_ok_def)
  with r st show ?thesis
    by (auto simp: transition_reservation_def get_budget_def get_budget_row_def bind_apply andthen_apply
        require_apply transaction_def)
qed

end
