(* ===== verification/StoreLeases.thy ===== *)
theory StoreLeases
  imports StoreSchema
begin

text \<open>
  Leases with fencing tokens (\<open>src/agent_tree_rl/store.py\<close>: \<open>acquire_lease\<close>,
  \<open>renew_lease\<close>, \<open>release_lease\<close>, \<open>get_lease\<close>). The interface locale \<open>fencing\<close> states
  what a client of the tokens relies on: a token is never handed to a second holder.
\<close>

definition lease_at :: "string \<Rightarrow> string \<Rightarrow> db \<Rightarrow> lease_row option" where
  "lease_at tenant_id resource_id d = row_at lease_key (tenant_id, resource_id) (leases d)"

definition get_lease :: "string \<Rightarrow> string \<Rightarrow> ('z world_scheme, lease_row) action" where
  "get_lease tenant_id resource_id =
     bind (query (lease_at tenant_id resource_id)) (\<lambda>row.
     case row of None \<Rightarrow> raise NotFoundError ''lease not found'' | Some r \<Rightarrow> ret r)"

definition update_lease ::
  "string \<Rightarrow> string \<Rightarrow> (lease_row \<Rightarrow> lease_row) \<Rightarrow> ('z world_scheme, unit) action" where
  "update_lease tenant_id resource_id f =
     exec (\<lambda>d. d\<lparr>leases := update_at lease_key (tenant_id, resource_id) f (leases d)\<rparr>)"

definition extend_lease :: "int \<Rightarrow> int \<Rightarrow> lease_row \<Rightarrow> lease_row" where
  "extend_lease t expires r = r\<lparr>ls_heartbeat_at := t, ls_expires_at := expires\<rparr>"

definition take_over :: "string \<Rightarrow> int \<Rightarrow> int \<Rightarrow> int \<Rightarrow> lease_row \<Rightarrow> lease_row" where
  "take_over holder_id tok t expires r =
     r\<lparr>ls_holder_id := Some holder_id, ls_fencing_token := tok, ls_acquired_at := t,
       ls_heartbeat_at := t, ls_expires_at := expires\<rparr>"

definition vacate :: "int \<Rightarrow> lease_row \<Rightarrow> lease_row" where
  "vacate t r = r\<lparr>ls_holder_id := None, ls_heartbeat_at := t, ls_expires_at := t\<rparr>"

definition first_lease :: "string \<Rightarrow> string \<Rightarrow> string \<Rightarrow> int \<Rightarrow> int \<Rightarrow> lease_row" where
  "first_lease tenant_id resource_id holder_id t expires =
     \<lparr>ls_tenant_id = tenant_id, ls_resource_id = resource_id, ls_holder_id = Some holder_id,
      ls_fencing_token = 1, ls_acquired_at = t, ls_heartbeat_at = t, ls_expires_at = expires\<rparr>"

definition acquire_lease ::
  "string \<Rightarrow> string \<Rightarrow> string \<Rightarrow> int \<Rightarrow> int option \<Rightarrow> ('z world_scheme, lease_row) action" where
  "acquire_lease tenant_id resource_id holder_id ttl_seconds now_arg =
     andthen (required [tenant_id, resource_id, holder_id])
     (andthen (require (0 < ttl_seconds) ValueError ''ttl_seconds must be positive'')
     (bind (timestamp now_arg) (\<lambda>t.
      andthen (transaction
        (bind (query (lease_at tenant_id resource_id)) (\<lambda>row.
         case row of
           None \<Rightarrow>
             andthen (bind_ints [1, t, t + ttl_seconds])
               (exec (\<lambda>d. d\<lparr>leases := leases d @
                  [first_lease tenant_id resource_id holder_id t (t + ttl_seconds)]\<rparr>))
         | Some r \<Rightarrow>
             if ls_holder_id r = Some holder_id \<and> t < ls_expires_at r then
               andthen (bind_ints [t, t + ttl_seconds])
                 (update_lease tenant_id resource_id (extend_lease t (t + ttl_seconds)))
             else if ls_holder_id r = None \<or> ls_expires_at r \<le> t then
               (let tok = ls_fencing_token r + 1 in
                andthen (bind_ints [tok, t, t + ttl_seconds])
                  (update_lease tenant_id resource_id (take_over holder_id tok t (t + ttl_seconds))))
             else raise LeaseUnavailableError ''lease is held'')))
      (get_lease tenant_id resource_id))))"

definition renew_matches :: "string \<Rightarrow> int \<Rightarrow> int \<Rightarrow> lease_row \<Rightarrow> bool" where
  "renew_matches holder_id fencing_token t r \<longleftrightarrow>
     ls_holder_id r = Some holder_id \<and> ls_fencing_token r = fencing_token \<and> t < ls_expires_at r"

definition renew_lease ::
  "string \<Rightarrow> string \<Rightarrow> string \<Rightarrow> int \<Rightarrow> int \<Rightarrow> int option \<Rightarrow> ('z world_scheme, lease_row) action" where
  "renew_lease tenant_id resource_id holder_id fencing_token ttl_seconds now_arg =
     andthen (require (0 < ttl_seconds) ValueError ''ttl_seconds must be positive'')
     (bind (timestamp now_arg) (\<lambda>t.
      andthen (transaction
        (andthen (bind_ints [t, t + ttl_seconds, fencing_token])
        (bind (query (lease_at tenant_id resource_id)) (\<lambda>row.
         \<comment> \<open>\<open>cursor.rowcount\<close> is 1 exactly when the row exists and matches the \<open>WHERE\<close> clause\<close>
         case row of
           Some r \<Rightarrow>
             if renew_matches holder_id fencing_token t r
             then update_lease tenant_id resource_id (extend_lease t (t + ttl_seconds))
             else raise ConflictError ''lease token is stale, released, or expired''
         | None \<Rightarrow> raise ConflictError ''lease token is stale, released, or expired''))))
      (get_lease tenant_id resource_id)))"

definition release_lease ::
  "string \<Rightarrow> string \<Rightarrow> string \<Rightarrow> int \<Rightarrow> ('z world_scheme, lease_row) action" where
  "release_lease tenant_id resource_id holder_id fencing_token =
     bind now (\<lambda>t.
     andthen (transaction
       (andthen (bind_ints [t, fencing_token])
       (bind (query (lease_at tenant_id resource_id)) (\<lambda>row.
        case row of
          Some r \<Rightarrow>
            if ls_holder_id r = Some holder_id \<and> ls_fencing_token r = fencing_token
            then update_lease tenant_id resource_id (vacate t)
            else raise ConflictError ''lease token is stale or already released''
        | None \<Rightarrow> raise ConflictError ''lease token is stale or already released''))))
     (get_lease tenant_id resource_id))"

section \<open>Rows before and after\<close>

definition leases_ok :: "db \<Rightarrow> bool" where
  "leases_ok d \<longleftrightarrow> uniq_rows lease_key (leases d) \<and> (\<forall>r \<in> set (leases d). 0 < ls_fencing_token r)"

lemma lease_fun_keys [simp]:
  "lease_key (extend_lease t e r) = lease_key r" "lease_key (take_over h k t e r) = lease_key r"
  "lease_key (vacate t r) = lease_key r" "lease_key (first_lease x y h t e) = (x, y)"
  by (simp_all add: extend_lease_def take_over_def vacate_def first_lease_def lease_key_def)

lemma lease_fun_fields [simp]:
  "ls_holder_id (extend_lease t e r) = ls_holder_id r" "ls_fencing_token (extend_lease t e r) = ls_fencing_token r"
  "ls_expires_at (extend_lease t e r) = e"
  "ls_holder_id (take_over h k t e r) = Some h" "ls_fencing_token (take_over h k t e r) = k"
  "ls_expires_at (take_over h k t e r) = e"
  "ls_holder_id (vacate t r) = None" "ls_fencing_token (vacate t r) = ls_fencing_token r"
  "ls_expires_at (vacate t r) = t"
  "ls_holder_id (first_lease x y h t e) = Some h" "ls_fencing_token (first_lease x y h t e) = 1"
  "ls_expires_at (first_lease x y h t e) = e"
  by (simp_all add: extend_lease_def take_over_def vacate_def first_lease_def)

lemma get_lease_Inr_iff [simp, result_iff]:
  "get_lease x y w = (Inr r, w') \<longleftrightarrow> lease_at x y (db w) = Some r \<and> w' = w"
  by (auto simp: get_lease_def bind_apply split: option.splits)

lemma update_lease_apply [simp, monad_simps]:
  "update_lease x y f w = (Inr (), w\<lparr>db := (db w)\<lparr>leases := update_at lease_key (x, y) f (leases (db w))\<rparr>\<rparr>)"
  by (simp add: update_lease_def)

lemma lease_at_update:
  "(\<And>r. lease_key (f r) = lease_key r) \<Longrightarrow>
   lease_at p q (d\<lparr>leases := update_at lease_key (x, y) f (leases d)\<rparr>)
     = (if (p, q) = (x, y) then map_option f (lease_at p q d) else lease_at p q d)"
  by (auto simp: lease_at_def lease_rows.row_at_update)

lemma lease_at_insert:
  "lease_at x y d = None \<Longrightarrow>
   lease_at p q (d\<lparr>leases := leases d @ [first_lease x y h t e]\<rparr>)
     = (if (p, q) = (x, y) then Some (first_lease x y h t e) else lease_at p q d)"
  by (auto simp: lease_at_def lease_rows.row_at_append split: option.splits)

text \<open>What a successful call does, case by case.\<close>

lemma acquire_lease_Inr:
  assumes "acquire_lease x y h ttl na w = (Inr l, w')"
  shows "\<exists>t. 0 < ttl \<and> 0 \<le> t \<and> t = (case na of None \<Rightarrow> clock w (clock_reads w) | Some v \<Rightarrow> v) \<and>
    (case lease_at x y (db w) of
       None \<Rightarrow> l = first_lease x y h t (t + ttl) \<and> db w' = (db w)\<lparr>leases := leases (db w) @ [l]\<rparr>
     | Some r \<Rightarrow>
         if ls_holder_id r = Some h \<and> t < ls_expires_at r
         then l = extend_lease t (t + ttl) r \<and>
              db w' = (db w)\<lparr>leases := update_at lease_key (x, y) (extend_lease t (t + ttl)) (leases (db w))\<rparr>
         else (ls_holder_id r = None \<or> ls_expires_at r \<le> t) \<and>
              l = take_over h (ls_fencing_token r + 1) t (t + ttl) r \<and>
              db w' = (db w)\<lparr>leases := update_at lease_key (x, y)
                  (take_over h (ls_fencing_token r + 1) t (t + ttl)) (leases (db w))\<rparr>)"
proof (cases na)
  case None
  with assms show ?thesis
    by (cases "lease_at x y (db w)")
       (auto simp: acquire_lease_def result_iff Let_def lease_at_insert lease_at_update split: if_splits)
next
  case (Some v)
  with assms show ?thesis
    by (cases "lease_at x y (db w)")
       (auto simp: acquire_lease_def result_iff Let_def lease_at_insert lease_at_update split: if_splits)
qed

lemma renew_lease_Inr:
  assumes "renew_lease x y h k ttl na w = (Inr l, w')"
  shows "\<exists>t r. 0 < ttl \<and> 0 \<le> t \<and> t = (case na of None \<Rightarrow> clock w (clock_reads w) | Some v \<Rightarrow> v) \<and>
    lease_at x y (db w) = Some r \<and> renew_matches h k t r \<and> l = extend_lease t (t + ttl) r \<and>
    db w' = (db w)\<lparr>leases := update_at lease_key (x, y) (extend_lease t (t + ttl)) (leases (db w))\<rparr>"
proof (cases na)
  case None
  with assms show ?thesis
    by (cases "lease_at x y (db w)")
       (auto simp: renew_lease_def result_iff lease_at_update split: if_splits)
next
  case (Some v)
  with assms show ?thesis
    by (cases "lease_at x y (db w)")
       (auto simp: renew_lease_def result_iff lease_at_update split: if_splits)
qed

lemma release_lease_Inr:
  assumes "release_lease x y h k w = (Inr l, w')"
  shows "\<exists>t r. lease_at x y (db w) = Some r \<and> ls_holder_id r = Some h \<and> ls_fencing_token r = k \<and>
    l = vacate t r \<and> db w' = (db w)\<lparr>leases := update_at lease_key (x, y) (vacate t) (leases (db w))\<rparr>"
  using assms
  by (cases "lease_at x y (db w)") (auto simp: release_lease_def result_iff lease_at_update split: if_splits)

section \<open>Failures change nothing\<close>

lemma reads_only_get_lease [aon_intros]: "reads_only (get_lease x y)"
  unfolding get_lease_def by (intro aon_intros)

lemma get_lease_total: "lease_at x y (db w) = Some r \<Longrightarrow> get_lease x y w = (Inr r, w)"
  by (simp add: get_lease_def bind_apply)

lemma lease_ops_aon:
  "all_or_nothing (acquire_lease x y h ttl na)"
  "all_or_nothing (renew_lease x y h k ttl na)"
  "all_or_nothing (release_lease x y h k)"
proof -
  have tail: "\<exists>r v. get_lease x y w = (Inr r, v)" if "lease_at x y (db w) \<noteq> None" for w :: "'a world_scheme"
    using that get_lease_total by blast
  show "all_or_nothing (acquire_lease x y h ttl na)"
    unfolding acquire_lease_def
    by (intro aon_andthen [where m = "required _"] aon_andthen [where m = "require _ _ _"]
        aon_bind [where m = "timestamp _"] aon_andthen_tail aon_transaction reads_only_pure tail)
       (auto simp: result_iff Let_def lease_at_insert lease_at_update split: option.splits if_splits)
  show "all_or_nothing (renew_lease x y h k ttl na)"
    unfolding renew_lease_def
    by (intro aon_andthen [where m = "require _ _ _"]
        aon_bind [where m = "timestamp _"] aon_andthen_tail aon_transaction reads_only_pure tail)
       (auto simp: result_iff lease_at_update split: option.splits if_splits)
  show "all_or_nothing (release_lease x y h k)"
    unfolding release_lease_def
    by (intro aon_bind [where m = "now"] aon_andthen_tail aon_transaction reads_only_pure tail)
       (auto simp: result_iff lease_at_update split: option.splits if_splits)
qed

section \<open>The invariant and the fencing order\<close>

lemma leases_ok_update:
  assumes "leases_ok d" "\<And>r. lease_key (f r) = lease_key r"
    and "\<And>r. lease_at x y d = Some r \<Longrightarrow> 0 < ls_fencing_token (f r)"
  shows "leases_ok (d\<lparr>leases := update_at lease_key (x, y) f (leases d)\<rparr>)"
proof (cases "lease_at x y d")
  case None
  then have "update_at lease_key (x, y) f (leases d) = leases d"
    unfolding update_at_def lease_at_def lease_rows.row_at_None
    by (intro map_idI) (metis image_eqI)
  with assms(1) show ?thesis by simp
next
  case (Some r)
  have u: "uniq_rows lease_key (leases d)" using assms(1) by (simp add: leases_ok_def)
  have "set (update_at lease_key (x, y) f (leases d)) = insert (f r) (set (leases d) - {r})"
    using lease_rows.set_update_at [OF u] Some by (simp add: lease_at_def)
  with assms Some u show ?thesis
    by (auto simp: leases_ok_def lease_rows.uniq_update_at)
qed

lemma leases_ok_insert:
  "leases_ok d \<Longrightarrow> lease_at x y d = None \<Longrightarrow> leases_ok (d\<lparr>leases := leases d @ [first_lease x y h t e]\<rparr>)"
  by (auto simp: leases_ok_def lease_at_def lease_rows.uniq_append)

lemma leases_ok_token: "leases_ok d \<Longrightarrow> lease_at x y d = Some r \<Longrightarrow> 0 < ls_fencing_token r"
  by (auto simp: leases_ok_def lease_at_def dest: lease_rows.row_at_Some)

lemma acquire_lease_keeps: "keeps_db leases_ok (acquire_lease x y h ttl na)"
proof (rule keeps_db_from_success [OF lease_ops_aon(1)])
  fix w :: "'a world_scheme" and l w'
  assume ok: "leases_ok (db w)" and run: "acquire_lease x y h ttl na w = (Inr l, w')"
  note upd = leases_ok_update [OF ok] and tok = leases_ok_token [OF ok, of x y]
  show "leases_ok (db w')"
  proof (cases "lease_at x y (db w)")
    case None
    with acquire_lease_Inr [OF run] leases_ok_insert [OF ok] show ?thesis by auto
  next
    case (Some r)
    with acquire_lease_Inr [OF run] tok show ?thesis
      by (auto split: if_splits intro!: upd)
  qed
qed

lemma renew_lease_keeps: "keeps_db leases_ok (renew_lease x y h k ttl na)"
proof (rule keeps_db_from_success [OF lease_ops_aon(2)])
  fix w :: "'a world_scheme" and l w'
  assume ok: "leases_ok (db w)" and run: "renew_lease x y h k ttl na w = (Inr l, w')"
  from renew_lease_Inr [OF run] leases_ok_token [OF ok, of x y] show "leases_ok (db w')"
    by (auto intro!: leases_ok_update [OF ok])
qed

lemma release_lease_keeps: "keeps_db leases_ok (release_lease x y h k)"
proof (rule keeps_db_from_success [OF lease_ops_aon(3)])
  fix w :: "'a world_scheme" and l w'
  assume ok: "leases_ok (db w)" and run: "release_lease x y h k w = (Inr l, w')"
  from release_lease_Inr [OF run] leases_ok_token [OF ok, of x y] show "leases_ok (db w')"
    by (auto intro!: leases_ok_update [OF ok])
qed

definition fence :: "string \<Rightarrow> string \<Rightarrow> db \<Rightarrow> int" where
  \<comment> \<open>the current token of a resource, 0 before the first acquisition\<close>
  "fence x y d = (case lease_at x y d of None \<Rightarrow> 0 | Some r \<Rightarrow> ls_fencing_token r)"

definition holder :: "string \<Rightarrow> string \<Rightarrow> db \<Rightarrow> string option" where
  "holder x y d = Option.bind (lease_at x y d) ls_holder_id"

definition fence_moves :: "string \<Rightarrow> string \<Rightarrow> db \<Rightarrow> db \<Rightarrow> bool" where
  "fence_moves x y d d' \<longleftrightarrow> fence x y d < fence x y d'
     \<or> fence x y d' = fence x y d \<and> (holder x y d' = holder x y d \<or> holder x y d' = None)"

lemma fence_moves_refl [simp]: "fence_moves x y d d"
  by (simp add: fence_moves_def)

lemma fence_moves_same: "leases d' = leases d \<Longrightarrow> fence_moves x y d d'"
  by (simp add: fence_moves_def fence_def holder_def lease_at_def)

lemmas fence_defs = fence_moves_def fence_def holder_def

lemma acquire_lease_fence:
  assumes "acquire_lease x y h ttl na w = (r, w')"
  shows "fence_moves p q (db w) (db w')"
proof (cases r)
  case (Inl e)
  with assms all_or_nothingD [OF lease_ops_aon(1)] have "db w' = db w" by blast
  then show ?thesis by simp
next
  case (Inr l)
  with assms acquire_lease_Inr [of x y h ttl na w l w'] show ?thesis
    by (cases "lease_at x y (db w)"; cases "p = x \<and> q = y")
       (auto simp: fence_defs lease_at_insert lease_at_update split: if_splits)
qed

lemma renew_lease_fence:
  assumes "renew_lease x y h k ttl na w = (r, w')"
  shows "fence_moves p q (db w) (db w')"
proof (cases r)
  case (Inl e)
  with assms all_or_nothingD [OF lease_ops_aon(2)] have "db w' = db w" by blast
  then show ?thesis by simp
next
  case (Inr l)
  with assms renew_lease_Inr [of x y h k ttl na w l w'] show ?thesis
    by (cases "p = x \<and> q = y") (auto simp: fence_defs lease_at_update)
qed

lemma release_lease_fence:
  assumes "release_lease x y h k w = (r, w')"
  shows "fence_moves p q (db w) (db w')"
proof (cases r)
  case (Inl e)
  with assms all_or_nothingD [OF lease_ops_aon(3)] have "db w' = db w" by blast
  then show ?thesis by simp
next
  case (Inr l)
  with assms release_lease_Inr [of x y h k w l w'] show ?thesis
    by (cases "p = x \<and> q = y") (auto simp: fence_defs lease_at_update)
qed

text \<open>
  The contract of a fenced resource: a step either raises the token or leaves it and the holder
  alone, except that the holder may leave. Clients prove from it that a token names one holder.
\<close>

locale fencing =
  fixes step :: "'s \<Rightarrow> 's \<Rightarrow> bool" and tok :: "'s \<Rightarrow> int" and own :: "'s \<Rightarrow> 'h option"
  assumes step_token: "step s s' \<Longrightarrow>
    tok s < tok s' \<or> tok s' = tok s \<and> (own s' = own s \<or> own s' = None)"
begin

lemma steps_token:
  "step\<^sup>*\<^sup>* s s' \<Longrightarrow> tok s < tok s' \<or> tok s' = tok s \<and> (own s' = own s \<or> own s' = None)"
proof (induction rule: rtranclp_induct)
  case (step s1 s2)
  then show ?case using step_token [OF step(2)] by (elim disjE conjE) auto
qed simp

lemma token_never_decreases: "step\<^sup>*\<^sup>* s s' \<Longrightarrow> tok s \<le> tok s'"
  using steps_token by fastforce

lemma token_names_holder:
  "step\<^sup>*\<^sup>* s s' \<Longrightarrow> tok s' = tok s \<Longrightarrow> own s' = Some h \<Longrightarrow> own s = Some h"
  using steps_token by fastforce

lemma stale_stays_stale: "step\<^sup>*\<^sup>* s s' \<Longrightarrow> k < tok s \<Longrightarrow> k < tok s'"
  using token_never_decreases by fastforce

end

section \<open>What a worker observes\<close>

lemma acquire_lease_busy:
  assumes "x \<noteq> []" "y \<noteq> []" "h \<noteq> []" "0 < ttl" and t: "0 \<le> t"
    and r: "lease_at x y (db w) = Some r" "ls_holder_id r = Some h'" "h' \<noteq> h" "t < ls_expires_at r"
  shows "acquire_lease x y h ttl (Some t) w = (Inl (Exc LeaseUnavailableError ''lease is held''), w)"
  using assms
  by (auto simp: acquire_lease_def timestamp_def required_def bind_apply andthen_apply require_apply transaction_def)

lemma acquire_lease_free:
  assumes "x \<noteq> []" "y \<noteq> []" "h \<noteq> []" "0 < ttl" and t: "0 \<le> t" "sql_int t" "sql_int (t + ttl)"
    and r: "lease_at x y (db w) = Some r" "ls_holder_id r = None \<or> ls_expires_at r \<le> t"
      "sql_int (ls_fencing_token r + 1)"
  shows "acquire_lease x y h ttl (Some t) w =
     (Inr (take_over h (ls_fencing_token r + 1) t (t + ttl) r),
      w\<lparr>db := (db w)\<lparr>leases := update_at lease_key (x, y) (take_over h (ls_fencing_token r + 1) t (t + ttl)) (leases (db w))\<rparr>\<rparr>)"
  using assms
  by (auto simp: acquire_lease_def timestamp_def required_def bind_apply andthen_apply require_apply transaction_def
      bind_ints_def Let_def get_lease_def lease_at_update)

lemma renew_lease_stale:
  assumes "0 < ttl" "0 \<le> t" "sql_int t" "sql_int (t + ttl)" "sql_int k"
    and "k \<noteq> fence x y (db w) \<or> holder x y (db w) \<noteq> Some h"
  shows "renew_lease x y h k ttl (Some t) w =
     (Inl (Exc ConflictError ''lease token is stale, released, or expired''), w)"
  using assms
  by (cases "lease_at x y (db w)")
     (auto simp: renew_lease_def timestamp_def bind_apply andthen_apply require_apply transaction_def
      bind_ints_def renew_matches_def fence_def holder_def)

end
