(* ===== verification/StoreRetention.thy ===== *)
theory StoreRetention
  imports StoreSchema
begin

text \<open>
  Rows that are dropped once they have expired. The interface locale \<open>expiring\<close> is shared by the
  replay nonces and the idempotency records: a row that was in the table is still there, possibly
  evolved, unless some reading of the clock was later than its expiry.
\<close>

lemma delete_where_set: "set (delete_where P t) = {r \<in> set t. \<not> P r}"
  by (simp add: delete_where_def)

lemma update_at_set: "set (update_at key k f t) = (\<lambda>r. if key r = k then f r else r) ` set t"
  by (simp only: update_at_def set_map)

definition past :: "('r \<Rightarrow> int option) \<Rightarrow> int \<Rightarrow> 'r \<Rightarrow> bool" where
  \<comment> \<open>\<open>expires_at IS NOT NULL AND expires_at < ?\<close>\<close>
  "past expires t r = (case expires r of None \<Rightarrow> False | Some e \<Rightarrow> e < t)"

definition retained ::
  "('r \<Rightarrow> int option) \<Rightarrow> ('r \<Rightarrow> 'r \<Rightarrow> bool) \<Rightarrow> 'r \<Rightarrow> (nat \<Rightarrow> int) \<Rightarrow> nat \<Rightarrow> 'r list \<Rightarrow> bool" where
  "retained expires evolves r clk n t \<longleftrightarrow>
     (\<exists>r' \<in> set t. evolves r r') \<or> (\<exists>j < n. past expires (clk j) r)"

lemma past_later: "past expires s r \<Longrightarrow> s \<le> t \<Longrightarrow> past expires t r"
  by (auto simp: past_def split: option.splits)

locale expiring =
  fixes expires :: "'r \<Rightarrow> int option" and evolves :: "'r \<Rightarrow> 'r \<Rightarrow> bool"
  assumes evolves_refl: "evolves r r"
    and evolves_trans: "evolves r r' \<Longrightarrow> evolves r' r'' \<Longrightarrow> evolves r r''"
    and evolves_expires: "evolves r r' \<Longrightarrow> expires r' = None \<or> expires r' = expires r"
begin

lemma retained_init: "r \<in> set t \<Longrightarrow> retained expires evolves r clk n t"
  using evolves_refl by (auto simp: retained_def)

lemma retained_later: "retained expires evolves r clk n t \<Longrightarrow> n \<le> m \<Longrightarrow> retained expires evolves r clk m t"
  by (auto simp: retained_def)

lemma retained_append: "retained expires evolves r clk n t \<Longrightarrow> retained expires evolves r clk n (t @ u)"
  by (auto simp: retained_def)

lemma retained_delete:
  assumes "retained expires evolves r clk n t" "n < m"
  shows "retained expires evolves r clk m (delete_where (past expires (clk n)) t)"
proof (cases "\<exists>j < n. past expires (clk j) r")
  case True
  with assms(2) show ?thesis by (auto simp: retained_def intro: less_trans)
next
  case False
  with assms(1) obtain r' where r': "r' \<in> set t" "evolves r r'" by (auto simp: retained_def)
  show ?thesis
  proof (cases "past expires (clk n) r'")
    case True
    with r'(2) have "past expires (clk n) r" using evolves_expires by (fastforce simp: past_def)
    with assms(2) show ?thesis by (auto simp: retained_def)
  next
    case False
    with r' show ?thesis by (auto simp: retained_def delete_where_def)
  qed
qed

lemma retained_update_at:
  assumes "retained expires evolves r clk n t"
    and "\<And>s. s \<in> set t \<Longrightarrow> key s = k \<Longrightarrow> evolves s (f s)"
  shows "retained expires evolves r clk n (update_at key k f t)"
proof (cases "\<exists>j < n. past expires (clk j) r")
  case True
  then show ?thesis by (simp add: retained_def)
next
  case False
  with assms(1) obtain r' where r': "r' \<in> set t" "evolves r r'" by (auto simp: retained_def)
  let ?g = "\<lambda>s. if key s = k then f s else s"
  have "evolves r (?g r')" using r' assms(2) evolves_trans by simp
  moreover have "?g r' \<in> set (update_at key k f t)" using r'(1) by (auto simp: update_at_def)
  ultimately show ?thesis unfolding retained_def by blast
qed

lemma retained_live:
  assumes "retained expires evolves r clk n t" "\<And>j. j < n \<Longrightarrow> clk j \<le> c" "\<not> past expires c r"
  shows "\<exists>r' \<in> set t. evolves r r'"
  using assms past_later unfolding retained_def by metis

end

text \<open>Every method leaves the clock itself alone and only reads it forward.\<close>

definition ticks :: "(nat \<Rightarrow> int) \<Rightarrow> nat \<Rightarrow> 'z world_scheme \<Rightarrow> bool" where
  "ticks c n w \<longleftrightarrow> clock w = c \<and> n \<le> clock_reads w"

lemma keeps_ticksD:
  "(\<And>c n. keeps (ticks c n) m) \<Longrightarrow> m w = (r, w') \<Longrightarrow> clock w' = clock w \<and> clock_reads w \<le> clock_reads w'"
  using keepsD [of "ticks (clock w) (clock_reads w)" m w r w'] by (simp add: ticks_def)

lemma keeps_ticks [keeps_intros]:
  "keeps (ticks c n) now" "keeps (ticks c n) new_uuid" "keeps (ticks c n) new_token"
  "keeps (ticks c n) (query f)" "keeps (ticks c n) (exec h)"
  "keeps (ticks c n) (required vs)" "keeps (ticks c n) (check_sha256 s)" "keeps (ticks c n) (positive_int i)"
  "keeps (ticks c n) (nonnegative_int i)" "keeps (ticks c n) (bind_ints ns)" "keeps (ticks c n) (positive_limit i)"
  "keeps (ticks c n) (payload_text p k)" "keeps (ticks c n) (optional_payload_text p k)"
  by (auto simp: keeps_def ticks_def required_def check_sha256_def positive_int_def nonnegative_int_def
      bind_ints_def positive_limit_def payload_text_def optional_payload_text_def andthen_apply require_apply
      split: if_splits option.splits json.splits list.splits)

lemma keeps_ticks_timestamp [keeps_intros]: "keeps (ticks c n) (timestamp v)"
  unfolding timestamp_def by (intro keeps_intros)

lemma keeps_ticks_transaction [keeps_intros]:
  assumes "keeps (ticks c n) body"
  shows "keeps (ticks c n) (transaction body)"
proof (rule keepsI)
  fix w r w' assume "ticks c n w" and run: "transaction body w = (r, w')"
  obtain r' v where b: "body w = (r', v)" by fastforce
  with assms \<open>ticks c n w\<close> have "ticks c n v" by (rule keepsD)
  with b run show "ticks c n w'"
    by (cases r') (auto simp: transaction_def ticks_def)
qed

lemma keeps_or_uuid [keeps_intros]: "keeps_db J (or_uuid v)" "keeps (ticks c n) (or_uuid v)"
  unfolding or_uuid_def by (auto simp: keeps_def ticks_def split: option.splits list.splits)

end
