(* ===== verification/StoreIdempotency.thy ===== *)
theory StoreIdempotency
  imports StoreRetention
begin

text \<open>
  Idempotency records (\<open>src/agent_tree_rl/store.py\<close>: \<open>claim_idempotency\<close>,
  \<open>complete_idempotency\<close>, \<open>fail_idempotency\<close>, \<open>_finish_idempotency\<close>): a key is claimed by
  one request, finalized once, and then answers every retry with the stored result.
\<close>

record idempotency_record =
  ir_tenant_id :: string
  ir_scope :: string
  ir_key :: string
  ir_request_hash :: string
  ir_status :: idem_status
  ir_result :: "json option"
  ir_created_at :: int
  ir_updated_at :: int
  ir_expires_at :: "int option"
  ir_is_new :: bool

definition idempotency_record_of :: "idempotency_row \<Rightarrow> bool \<Rightarrow> idempotency_record" where
  \<comment> \<open>\<open>_idempotency_record\<close>\<close>
  "idempotency_record_of r is_new =
     \<lparr>ir_tenant_id = id_tenant_id r, ir_scope = id_scope r, ir_key = id_key r,
      ir_request_hash = id_request_hash r, ir_status = id_status r, ir_result = id_result_json r,
      ir_created_at = id_created_at r, ir_updated_at = id_updated_at r,
      ir_expires_at = id_expires_at r, ir_is_new = is_new\<rparr>"

definition idempotency_at :: "string \<Rightarrow> string \<Rightarrow> string \<Rightarrow> db \<Rightarrow> idempotency_row option" where
  "idempotency_at tenant_id scope key d = row_at idempotency_key (tenant_id, scope, key) (idempotency_records d)"

definition claimed_row ::
  "string \<Rightarrow> string \<Rightarrow> string \<Rightarrow> string \<Rightarrow> int \<Rightarrow> int option \<Rightarrow> idempotency_row" where
  "claimed_row tenant_id scope key request_hash t expires =
     \<lparr>id_tenant_id = tenant_id, id_scope = scope, id_key = key, id_request_hash = request_hash,
      id_status = IN_PROGRESS, id_result_json = None, id_created_at = t, id_updated_at = t,
      id_expires_at = expires\<rparr>"

definition drop_expired :: "int \<Rightarrow> db \<Rightarrow> db" where
  "drop_expired t d = d\<lparr>idempotency_records := delete_where (past id_expires_at t) (idempotency_records d)\<rparr>"

definition claim_idempotency ::
  "pyenv \<Rightarrow> string \<Rightarrow> string \<Rightarrow> string \<Rightarrow> json \<Rightarrow> int option
     \<Rightarrow> ('z world_scheme, idempotency_record) action" where
  "claim_idempotency E tenant_id scope key request ttl_seconds =
     andthen (required [tenant_id, scope, key])
     (andthen (require (pred_option (\<lambda>ttl. 0 < ttl) ttl_seconds) ValueError ''ttl_seconds must be positive or None'')
     (bind (lift (sha256_hex E request)) (\<lambda>request_hash.
      bind now (\<lambda>t.
      let expires_at = map_option (\<lambda>ttl. t + ttl) ttl_seconds in
      transaction
        (andthen (bind_ints [t])
        (andthen (exec (drop_expired t))
        (bind (query (idempotency_at tenant_id scope key)) (\<lambda>row.
         case row of
           Some r \<Rightarrow>
             if id_request_hash r \<noteq> request_hash
             then raise ConflictError ''idempotency key was used for a different request''
             else ret (idempotency_record_of r False)
         | None \<Rightarrow>
             andthen (bind_ints (t # (case expires_at of None \<Rightarrow> [] | Some e \<Rightarrow> [e])))
             (andthen (exec (\<lambda>d. d\<lparr>idempotency_records := idempotency_records d @
                [claimed_row tenant_id scope key request_hash t expires_at]\<rparr>))
             (bind (query (idempotency_at tenant_id scope key)) (\<lambda>row.
                case row of
                  None \<Rightarrow> raise TypeError ''NoneType is not subscriptable''
                | Some r \<Rightarrow> ret (idempotency_record_of r True))))))))))))"

definition finalize_row :: "idem_status \<Rightarrow> json \<Rightarrow> int \<Rightarrow> idempotency_row \<Rightarrow> idempotency_row" where
  "finalize_row status result t r =
     r\<lparr>id_status := status, id_result_json := Some result, id_updated_at := t\<rparr>"

definition finish_idempotency ::
  "string \<Rightarrow> string \<Rightarrow> string \<Rightarrow> idem_status \<Rightarrow> json \<Rightarrow> ('z world_scheme, idempotency_record) action" where
  \<comment> \<open>\<open>_finish_idempotency\<close>\<close>
  "finish_idempotency tenant_id scope key status result =
     andthen (required [tenant_id, scope, key])
     (bind (lift (json_text result)) (\<lambda>result_json.
      bind now (\<lambda>t.
      transaction
        (bind (query (idempotency_at tenant_id scope key)) (\<lambda>row.
         case row of
           None \<Rightarrow> raise NotFoundError ''idempotency record not found''
         | Some r \<Rightarrow>
             if id_status r \<noteq> IN_PROGRESS then
               (if id_status r = status \<and> id_result_json r = Some result_json
                then ret (idempotency_record_of r False)
                else raise ConflictError ''idempotency record is already finalized'')
             else
               andthen (bind_ints [t])
               (andthen (exec (\<lambda>d. d\<lparr>idempotency_records :=
                  update_at idempotency_key (tenant_id, scope, key) (finalize_row status result_json t)
                    (idempotency_records d)\<rparr>))
               (bind (query (idempotency_at tenant_id scope key)) (\<lambda>row.
                  case row of
                    None \<Rightarrow> raise TypeError ''NoneType is not subscriptable''
                  | Some r \<Rightarrow> ret (idempotency_record_of r False)))))))))"

definition complete_idempotency ::
  "string \<Rightarrow> string \<Rightarrow> string \<Rightarrow> json \<Rightarrow> ('z world_scheme, idempotency_record) action" where
  "complete_idempotency tenant_id scope key result = finish_idempotency tenant_id scope key COMPLETED result"

definition fail_idempotency ::
  "string \<Rightarrow> string \<Rightarrow> string \<Rightarrow> json \<Rightarrow> ('z world_scheme, idempotency_record) action" where
  "fail_idempotency tenant_id scope key err = finish_idempotency tenant_id scope key FAILED err"

section \<open>Rows before and after\<close>

definition idem_row_ok :: "idempotency_row \<Rightarrow> bool" where
  "idem_row_ok r \<longleftrightarrow> (id_status r = IN_PROGRESS) = (id_result_json r = None)"

definition idempotency_ok :: "db \<Rightarrow> bool" where
  \<comment> \<open>one row per key; a row has a result exactly when it is final\<close>
  "idempotency_ok d \<longleftrightarrow> uniq_rows idempotency_key (idempotency_records d)
     \<and> (\<forall>r \<in> set (idempotency_records d). idem_row_ok r)"

lemma idem_row_keys [simp]:
  "idempotency_key (claimed_row x y z h t e) = (x, y, z)"
  "idempotency_key (finalize_row s v t r) = idempotency_key r"
  by (simp_all add: claimed_row_def finalize_row_def idempotency_key_def)

lemma idem_row_fields [simp]:
  "id_status (claimed_row x y z h t e) = IN_PROGRESS" "id_result_json (claimed_row x y z h t e) = None"
  "id_request_hash (claimed_row x y z h t e) = h" "id_expires_at (claimed_row x y z h t e) = e"
  "id_status (finalize_row s v t r) = s" "id_result_json (finalize_row s v t r) = Some v"
  "id_request_hash (finalize_row s v t r) = id_request_hash r"
  "id_expires_at (finalize_row s v t r) = id_expires_at r"
  by (simp_all add: claimed_row_def finalize_row_def)

lemma idem_row_ok_new [simp]:
  "idem_row_ok (claimed_row x y z h t e)" "idem_row_ok (finalize_row s v t r) \<longleftrightarrow> s \<noteq> IN_PROGRESS"
  by (simp_all add: idem_row_ok_def)

lemma idem_record_fields [simp]:
  "ir_is_new (idempotency_record_of r b) = b" "ir_status (idempotency_record_of r b) = id_status r"
  "ir_result (idempotency_record_of r b) = id_result_json r"
  "ir_request_hash (idempotency_record_of r b) = id_request_hash r"
  by (simp_all add: idempotency_record_of_def)

lemma idempotency_at_drop:
  "uniq_rows idempotency_key (idempotency_records d) \<Longrightarrow>
   idempotency_at x y z (drop_expired t d) =
     (case idempotency_at x y z d of None \<Rightarrow> None | Some r \<Rightarrow> if past id_expires_at t r then None else Some r)"
  by (simp add: idempotency_at_def drop_expired_def idempotency_rows.row_at_delete)

lemma idempotency_at_insert:
  "idempotency_at x y z d = None \<Longrightarrow> idempotency_at p q s
     (d\<lparr>idempotency_records := idempotency_records d @ [claimed_row x y z h t e]\<rparr>)
   = (if (p, q, s) = (x, y, z) then Some (claimed_row x y z h t e) else idempotency_at p q s d)"
  by (auto simp: idempotency_at_def idempotency_rows.row_at_append split: option.splits)

lemma idempotency_at_finalize:
  "idempotency_at p q s (d\<lparr>idempotency_records :=
      update_at idempotency_key (x, y, z) (finalize_row st v t) (idempotency_records d)\<rparr>)
   = (if (p, q, s) = (x, y, z) then map_option (finalize_row st v t) (idempotency_at p q s d)
      else idempotency_at p q s d)"
  by (auto simp: idempotency_at_def idempotency_rows.row_at_update)

lemma claim_idempotency_Inr:
  assumes "claim_idempotency E x y z req ttl w = (Inr rec, w')"
  shows "\<exists>h t d. sha256_hex E req = Inr h \<and> t = clock w (clock_reads w) \<and> d = drop_expired t (db w) \<and>
    clock w' = clock w \<and> clock_reads w' = Suc (clock_reads w) \<and>
    (case idempotency_at x y z d of
       Some r \<Rightarrow> id_request_hash r = h \<and> rec = idempotency_record_of r False \<and> db w' = d
     | None \<Rightarrow>
         rec = idempotency_record_of (claimed_row x y z h t (map_option (\<lambda>n. t + n) ttl)) True \<and>
         db w' = d\<lparr>idempotency_records := idempotency_records d @
                     [claimed_row x y z h t (map_option (\<lambda>n. t + n) ttl)]\<rparr>)"
  using assms
  by (cases "idempotency_at x y z (drop_expired (clock w (clock_reads w)) (db w))")
     (auto simp: claim_idempotency_def result_iff Let_def idempotency_at_insert split: if_splits)

lemma finish_idempotency_Inr:
  assumes "finish_idempotency x y z st v w = (Inr rec, w')"
  obtains (finalized) j r where "json_text v = Inr j" "idempotency_at x y z (db w) = Some r"
    "id_status r = IN_PROGRESS"
    "rec = idempotency_record_of (finalize_row st j (clock w (clock_reads w)) r) False"
    "db w' = (db w)\<lparr>idempotency_records := update_at idempotency_key (x, y, z)
       (finalize_row st j (clock w (clock_reads w))) (idempotency_records (db w))\<rparr>"
  | (repeated) j r where "json_text v = Inr j" "idempotency_at x y z (db w) = Some r"
    "id_status r = st" "st \<noteq> IN_PROGRESS" "id_result_json r = Some j"
    "rec = idempotency_record_of r False" "db w' = db w"
proof -
  from assms obtain r where r: "idempotency_at x y z (db w) = Some r"
    by (cases "idempotency_at x y z (db w)") (auto simp: finish_idempotency_def result_iff)
  show ?thesis
  proof (cases "id_status r = IN_PROGRESS")
    case True
    show ?thesis
      using assms r True
      by (intro finalized [of "canon v" r]) (auto simp: finish_idempotency_def result_iff idempotency_at_finalize json_text_def)
  next
    case False
    show ?thesis
      using assms r False
      by (intro repeated [of "canon v" r])
         (auto simp: finish_idempotency_def result_iff json_text_def split: if_splits)
  qed
qed

section \<open>The invariant\<close>

lemma aon_claim_idempotency [aon_intros]: "all_or_nothing (claim_idempotency E x y z req ttl)"
  unfolding claim_idempotency_def Let_def
  by (intro aon_andthen aon_bind reads_only_pure aon_transaction)

lemma aon_finish_idempotency [aon_intros]: "all_or_nothing (finish_idempotency x y z st v)"
  unfolding finish_idempotency_def
  by (intro aon_andthen aon_bind reads_only_pure aon_transaction)

lemma idempotency_ok_drop: "idempotency_ok d \<Longrightarrow> idempotency_ok (drop_expired t d)"
  by (simp add: idempotency_ok_def drop_expired_def idempotency_rows.uniq_delete delete_where_set)

lemma claim_idempotency_keeps: "keeps_db idempotency_ok (claim_idempotency E x y z req ttl)"
proof (rule keeps_db_from_success [OF aon_claim_idempotency])
  fix w :: "'a world_scheme" and rec w'
  assume ok: "idempotency_ok (db w)" and run: "claim_idempotency E x y z req ttl w = (Inr rec, w')"
  let ?d = "drop_expired (clock w (clock_reads w)) (db w)"
  have d: "idempotency_ok ?d" using ok by (rule idempotency_ok_drop)
  from claim_idempotency_Inr [OF run] show "idempotency_ok (db w')"
  proof (cases "idempotency_at x y z ?d")
    case None
    with claim_idempotency_Inr [OF run] d show ?thesis
      by (auto simp: idempotency_ok_def idempotency_rows.uniq_append idempotency_at_def)
  next
    case (Some r)
    with claim_idempotency_Inr [OF run] d show ?thesis by auto
  qed
qed

lemma finish_idempotency_keeps:
  assumes "st \<noteq> IN_PROGRESS"
  shows "keeps_db idempotency_ok (finish_idempotency x y z st v)"
proof (rule keeps_db_from_success [OF aon_finish_idempotency])
  fix w :: "'a world_scheme" and rec w'
  assume ok: "idempotency_ok (db w)" and run: "finish_idempotency x y z st v w = (Inr rec, w')"
  from run show "idempotency_ok (db w')"
  proof (cases rule: finish_idempotency_Inr)
    case finalized
    with ok assms show ?thesis
      by (auto simp: idempotency_ok_def idempotency_rows.uniq_update_at update_at_set)
  next
    case repeated
    with ok show ?thesis by simp
  qed
qed

section \<open>Claimed once, finalized once\<close>

definition idem_evolves :: "idempotency_row \<Rightarrow> idempotency_row \<Rightarrow> bool" where
  \<comment> \<open>what may happen to a row: an open one is finalized, a final one stays\<close>
  "idem_evolves r r' \<longleftrightarrow> idempotency_key r' = idempotency_key r
     \<and> id_request_hash r' = id_request_hash r \<and> (id_expires_at r' = None \<or> id_expires_at r' = id_expires_at r)
     \<and> (id_status r = IN_PROGRESS \<or> r' = r)"

interpretation idem: expiring id_expires_at idem_evolves
  by unfold_locales (auto simp: idem_evolves_def)

abbreviation idem_retained :: "idempotency_row \<Rightarrow> 'z world_scheme \<Rightarrow> bool" where
  "idem_retained r w \<equiv>
     retained id_expires_at idem_evolves r (clock w) (clock_reads w) (idempotency_records (db w))"

lemma idem_evolves_finalize: "id_status r = IN_PROGRESS \<Longrightarrow> idem_evolves r (finalize_row st j t r)"
  by (simp add: idem_evolves_def)

lemma idem_ops_ticks [keeps_intros]:
  "keeps (ticks c n) (claim_idempotency E x y z req ttl)"
  "keeps (ticks c n) (finish_idempotency x y z st v)"
  unfolding claim_idempotency_def finish_idempotency_def Let_def by (intro keeps_intros)+

lemma claim_idempotency_retains:
  assumes "idem_retained r w" "claim_idempotency E x y z req ttl w = (res, w')"
  shows "idem_retained r w'"
proof (cases res)
  case (Inl e)
  have "db w' = db w" using assms(2) Inl aon_claim_idempotency all_or_nothingD by blast
  with assms(1) keeps_ticksD [OF idem_ops_ticks(1) assms(2)] show ?thesis
    by (simp add: idem.retained_later)
next
  case (Inr rec)
  from assms(1) idem.retained_delete [of r "clock w" "clock_reads w" _ "Suc (clock_reads w)"]
  have *: "retained id_expires_at idem_evolves r (clock w) (Suc (clock_reads w))
      (idempotency_records (drop_expired (clock w (clock_reads w)) (db w)))"
    by (simp add: drop_expired_def)
  from claim_idempotency_Inr assms(2) Inr
  have w': "clock w' = clock w \<and> clock_reads w' = Suc (clock_reads w)"
    and "\<exists>u. idempotency_records (db w') =
      idempotency_records (drop_expired (clock w (clock_reads w)) (db w)) @ u"
    by (blast, fastforce split: option.splits)
  then obtain u where u: "idempotency_records (db w') =
      idempotency_records (drop_expired (clock w (clock_reads w)) (db w)) @ u" by blast
  with w' show ?thesis using idem.retained_append [OF *] by (simp add: u)
qed

lemma finish_idempotency_retains:
  assumes "idem_retained r w" "finish_idempotency x y z st v w = (res, w')"
    and ok: "idempotency_ok (db w)"
  shows "idem_retained r w'"
proof -
  note t = keeps_ticksD [OF idem_ops_ticks(2) assms(2)]
  show ?thesis
  proof (cases res)
    case (Inl e)
    have "db w' = db w" using assms(2) Inl aon_finish_idempotency all_or_nothingD by blast
    with assms(1) t show ?thesis by (simp add: idem.retained_later)
  next
    case (Inr rec)
    from assms(2) [unfolded Inr] have "idem_retained r (w\<lparr>db := db w'\<rparr>)"
    proof (cases rule: finish_idempotency_Inr)
      case (finalized j s)
      have same: "s' = s" if "s' \<in> set (idempotency_records (db w))" "idempotency_key s' = (x, y, z)" for s'
        using that finalized(2) ok idempotency_rows.row_at_in [of "idempotency_records (db w)" s']
        by (simp add: idempotency_at_def idempotency_ok_def)
      show ?thesis
        unfolding finalized(5)
        using finalized(3) same by (auto intro!: idem.retained_update_at [OF assms(1)] idem_evolves_finalize)
    next
      case repeated
      with assms(1) show ?thesis by simp
    qed
    with t show ?thesis by (simp add: idem.retained_later)
  qed
qed

text \<open>The answers a client gets for a key whose row is held.\<close>

lemma claim_idempotency_held:
  assumes run: "claim_idempotency E x y z req ttl w = (res, w')"
    and ok: "idempotency_ok (db w)"
    and held: "r \<in> set (idempotency_records (db w))" "idempotency_key r = (x, y, z)"
    and live: "\<not> past id_expires_at (clock w (clock_reads w)) r"
    and args: "x \<noteq> []" "y \<noteq> []" "z \<noteq> []" "pred_option (\<lambda>n. 0 < n) ttl"
      "sql_int (clock w (clock_reads w))" "sha256_hex E req = Inr h"
  shows "res = (if id_request_hash r = h then Inr (idempotency_record_of r False)
                else Inl (Exc ConflictError ''idempotency key was used for a different request''))"
proof -
  have at: "idempotency_at x y z (db w) = Some r"
    using ok held idempotency_rows.row_at_in by (fastforce simp: idempotency_at_def idempotency_ok_def)
  then have "idempotency_at x y z (drop_expired (clock w (clock_reads w)) (db w)) = Some r"
    using ok live by (simp add: idempotency_at_drop idempotency_ok_def)
  with run args show ?thesis
    by (auto simp: claim_idempotency_def bind_apply andthen_apply transaction_def Let_def required_def
        bind_ints_def require_apply split: if_splits)
qed

lemma claim_idempotency_new:
  assumes "claim_idempotency E x y z req ttl w = (Inr rec, w')" "ir_is_new rec"
  obtains r where "rec = idempotency_record_of r True" "r \<in> set (idempotency_records (db w'))"
    "idempotency_key r = (x, y, z)" "x \<noteq> []" "y \<noteq> []" "z \<noteq> []"
proof -
  have names: "x \<noteq> []" "y \<noteq> []" "z \<noteq> []"
    using assms(1) by (auto simp: claim_idempotency_def andthen_Inr_iff)
  from claim_idempotency_Inr [OF assms(1)] obtain h t d where
    d: "case idempotency_at x y z d of
       Some r \<Rightarrow> id_request_hash r = h \<and> rec = idempotency_record_of r False \<and> db w' = d
     | None \<Rightarrow>
         rec = idempotency_record_of (claimed_row x y z h t (map_option (\<lambda>n. t + n) ttl)) True \<and>
         db w' = d\<lparr>idempotency_records := idempotency_records d @
                     [claimed_row x y z h t (map_option (\<lambda>n. t + n) ttl)]\<rparr>" by blast
  with assms(2) have "idempotency_at x y z d = None" by (auto split: option.splits)
  with d names show thesis by (intro that) auto
qed

end
