(* ===== verification/StoreEvents.thy ===== *)
theory StoreEvents
  imports StoreRetention
begin

text \<open>
  The append-only event log (\<open>src/agent_tree_rl/store.py\<close>: \<open>append_event\<close>, \<open>list_events\<close>).
  The abstract view of the log is one list of events per tenant and stream; an append adds one
  event at the end of one of these lists and its stream version is its position.
\<close>

definition in_stream :: "string \<Rightarrow> string \<Rightarrow> event_row \<Rightarrow> bool" where
  "in_stream tenant_id stream_id r \<longleftrightarrow> ev_tenant_id r = tenant_id \<and> ev_stream_id r = stream_id"

definition max_stream_version :: "string \<Rightarrow> string \<Rightarrow> db \<Rightarrow> int" where
  \<comment> \<open>\<open>SELECT COALESCE(MAX(stream_version), 0)\<close>\<close>
  "max_stream_version tenant_id stream_id d =
     foldr (\<lambda>r m. max (ev_stream_version r) m) (filter (in_stream tenant_id stream_id) (events d)) 0"

definition event_clash :: "string \<Rightarrow> string \<Rightarrow> string \<Rightarrow> int \<Rightarrow> db \<Rightarrow> bool" where
  \<comment> \<open>the two \<open>UNIQUE\<close> constraints of the table\<close>
  "event_clash tenant_id event_id stream_id version d \<longleftrightarrow>
     list_ex (\<lambda>r. ev_tenant_id r = tenant_id \<and> ev_event_id r = event_id
        \<or> in_stream tenant_id stream_id r \<and> ev_stream_version r = version) (events d)"

definition insert_event :: "event_row \<Rightarrow> db \<Rightarrow> db" where
  \<comment> \<open>\<open>AUTOINCREMENT\<close>: the sequence is one more than any sequence ever used\<close>
  "insert_event r d =
     d\<lparr>events := events d @ [r\<lparr>ev_sequence := last_sequence d + 1\<rparr>],
       last_sequence := last_sequence d + 1\<rparr>"

definition append_event ::
  "pyenv \<Rightarrow> string \<Rightarrow> string \<Rightarrow> string \<Rightarrow> json \<Rightarrow> string option \<Rightarrow> int option \<Rightarrow> int option
     \<Rightarrow> ('z world_scheme, event_row) action" where
  "append_event E tenant_id stream_id event_type payload event_id_arg expected_stream_version occurred_at =
     andthen (required [tenant_id, stream_id, event_type])
     (bind (lift (json_text payload)) (\<lambda>payload_json.
      bind (or_uuid event_id_arg) (\<lambda>event_id.
      bind (timestamp occurred_at) (\<lambda>t.
      transaction
        (bind (query (max_stream_version tenant_id stream_id)) (\<lambda>current.
         andthen (require (case expected_stream_version of None \<Rightarrow> True | Some v \<Rightarrow> current = v)
                    ConflictError ''stream version differs from the expected version'')
         (let version = current + 1 in
          bind (lift (sha256_hex E payload)) (\<lambda>payload_sha256.
          andthen (bind_ints [version, t])
          (bind (query (event_clash tenant_id event_id stream_id version)) (\<lambda>clash.
           andthen (require (\<not> clash) ConflictError ''event identity or stream version already exists'')
           (andthen (exec (insert_event
               \<lparr>ev_sequence = 0, ev_tenant_id = tenant_id, ev_event_id = event_id,
                ev_stream_id = stream_id, ev_stream_version = version, ev_event_type = event_type,
                ev_occurred_at = t, ev_payload_json = payload_json, ev_payload_sha256 = payload_sha256\<rparr>))
           (bind (query last_sequence) (\<lambda>sequence.
            ret \<lparr>ev_sequence = sequence, ev_tenant_id = tenant_id, ev_event_id = event_id,
                ev_stream_id = stream_id, ev_stream_version = version, ev_event_type = event_type,
                ev_occurred_at = t, ev_payload_json = payload_json, ev_payload_sha256 = payload_sha256\<rparr>)))))))))))))"

definition list_events ::
  "string \<Rightarrow> string option \<Rightarrow> int \<Rightarrow> int \<Rightarrow> ('z world_scheme, event_row list) action" where
  "list_events tenant_id stream_id after_sequence limit =
     andthen (required [tenant_id])
     (andthen (positive_limit limit)
     (andthen (bind_ints [after_sequence, limit])
     (query (\<lambda>d. take (nat limit) (sort_key ev_sequence (filter (\<lambda>r.
        ev_tenant_id r = tenant_id \<and> after_sequence < ev_sequence r
        \<and> (case stream_id of None \<Rightarrow> True | Some s \<Rightarrow> ev_stream_id r = s)) (events d)))))))"

section \<open>The log as lists of events\<close>

definition stream_of :: "string \<Rightarrow> string \<Rightarrow> db \<Rightarrow> event_row list" where
  "stream_of x s d = filter (in_stream x s) (events d)"

definition events_ok :: "db \<Rightarrow> bool" where
  "events_ok d \<longleftrightarrow>
     sorted_wrt (<) (map ev_sequence (events d)) \<and>
     (\<forall>r \<in> set (events d). 0 < ev_sequence r \<and> ev_sequence r \<le> last_sequence d) \<and>
     0 \<le> last_sequence d \<and>
     distinct (map (\<lambda>r. (ev_tenant_id r, ev_event_id r)) (events d)) \<and>
     (\<forall>x s. map ev_stream_version (stream_of x s d) = map int [1..<Suc (length (stream_of x s d))])"

lemma foldr_max_versions:
  "map g rs = map int [1..<Suc n] \<Longrightarrow> foldr (\<lambda>r m. max (g r) m) rs 0 = int n"
proof -
  have "foldr (\<lambda>r m. max (g r) m) rs 0 = foldr max (map g rs) 0" by (simp add: foldr_map comp_def)
  also assume "map g rs = map int [1..<Suc n]"
  also have "foldr max (map int [1..<Suc n]) a = max a (int n)" if "0 \<le> a" for a
    using that by (induction n arbitrary: a) auto
  then have "foldr max (map int [1..<Suc n]) 0 = int n" by simp
  finally show ?thesis .
qed

lemma max_stream_version_length:
  "events_ok d \<Longrightarrow> max_stream_version x s d = int (length (stream_of x s d))"
  unfolding max_stream_version_def stream_of_def [symmetric]
  by (rule foldr_max_versions) (simp add: events_ok_def)

lemma stream_of_insert:
  "stream_of x s (insert_event r d) = stream_of x s d @
     (if in_stream x s r then [r\<lparr>ev_sequence := last_sequence d + 1\<rparr>] else [])"
  by (simp add: stream_of_def insert_event_def in_stream_def)

lemma events_ok_insert:
  assumes ok: "events_ok d" and r: "\<not> event_clash x i s v d" "v = max_stream_version x s d + 1"
    "ev_tenant_id r = x" "ev_stream_id r = s" "ev_event_id r = i" "ev_stream_version r = v"
  shows "events_ok (insert_event r d)"
proof -
  have seqs: "sorted_wrt (<) (map ev_sequence (events d))"
    "\<forall>r \<in> set (events d). 0 < ev_sequence r \<and> ev_sequence r \<le> last_sequence d" "0 \<le> last_sequence d"
    and ids: "distinct (map (\<lambda>r. (ev_tenant_id r, ev_event_id r)) (events d))"
    and vers: "map ev_stream_version (stream_of p q d) = map int [1..<Suc (length (stream_of p q d))]" for p q
    using ok by (auto simp: events_ok_def)
  have v: "v = int (length (stream_of x s d)) + 1"
    using r(2) max_stream_version_length [OF ok] by simp
  have "map ev_stream_version (stream_of p q (insert_event r d))
      = map int [1..<Suc (length (stream_of p q (insert_event r d)))]" for p q
    using vers [of p q] r(3-6) v by (auto simp: stream_of_insert in_stream_def)
  moreover have "(x, i) \<notin> set (map (\<lambda>r. (ev_tenant_id r, ev_event_id r)) (events d))"
    using r(1) by (auto simp: event_clash_def list_ex_iff)
  ultimately show ?thesis
    using seqs ids r(3-6) unfolding events_ok_def
    by (auto simp: insert_event_def sorted_wrt_append)
qed

lemma append_event_aon [aon_intros]: "all_or_nothing (append_event E x s ty p i ver oc)"
  unfolding append_event_def
  by (intro aon_andthen aon_bind reads_only_pure reads_only_or_uuid aon_transaction)

lemma list_events_reads_only [aon_intros]: "reads_only (list_events x s after limit)"
  unfolding list_events_def by (intro aon_intros)

lemma append_event_Inr:
  assumes "append_event E x s ty p i ver oc w = (Inr r, w')"
  obtains v where "v = max_stream_version x s (db w)" "\<And>n. ver = Some n \<Longrightarrow> n = v"
    "json_finite p" "ev_tenant_id r = x" "ev_stream_id r = s" "ev_stream_version r = v + 1"
    "ev_event_type r = ty" "ev_payload_json r = canon p" "sha256_hex E p = Inr (ev_payload_sha256 r)"
    "ev_sequence r = last_sequence (db w) + 1"
    "\<not> event_clash x (ev_event_id r) s (v + 1) (db w)" "db w' = insert_event r (db w)"
proof -
  let ?v = "max_stream_version x s (db w)"
  from assms obtain eid w1 t w2 h where
    w1: "or_uuid i w = (Inr eid, w1)" and w2: "timestamp oc w1 = (Inr t, w2)"
    and body: "(\<forall>n. ver = Some n \<longrightarrow> n = max_stream_version x s (db w2))"
      "sha256_hex E p = Inr h" "\<not> event_clash x eid s (max_stream_version x s (db w2) + 1) (db w2)"
      "json_text p = Inr (canon p)" "json_finite p"
    and r: "r = \<lparr>ev_sequence = last_sequence (db w2) + 1, ev_tenant_id = x, ev_event_id = eid,
      ev_stream_id = s, ev_stream_version = max_stream_version x s (db w2) + 1, ev_event_type = ty,
      ev_occurred_at = t, ev_payload_json = canon p, ev_payload_sha256 = h\<rparr>"
    and w': "db w' = insert_event r (db w2)"
    by (auto simp: append_event_def result_iff json_text_def validate_json_def Let_def insert_event_def
        simp del: timestamp_Inr_iff split: option.splits)
  have "db w2 = db w"
    using or_uuid_db [OF w1] reads_onlyD [OF reads_only_pure(19) w2] by simp
  with body r w' show thesis by (intro that [of ?v]) auto
qed

lemma append_event_keeps: "keeps_db events_ok (append_event E x s ty p i ver oc)"
proof (rule keeps_db_from_success [OF append_event_aon])
  fix w :: "'a world_scheme" and r w'
  assume ok: "events_ok (db w)" and run: "append_event E x s ty p i ver oc w = (Inr r, w')"
  from run show "events_ok (db w')"
  proof (rule append_event_Inr)
    fix v assume "v = max_stream_version x s (db w)" "ev_tenant_id r = x" "ev_stream_id r = s"
      "ev_stream_version r = v + 1" "\<not> event_clash x (ev_event_id r) s (v + 1) (db w)"
      "db w' = insert_event r (db w)"
    with ok show ?thesis by (auto intro!: events_ok_insert)
  qed
qed

lemma append_event_ticks [keeps_intros]: "keeps (ticks c n) (append_event E x s ty p i ver oc)"
  unfolding append_event_def Let_def by (intro keeps_intros)

lemma append_event_refines:
  assumes "events_ok (db w)" "append_event E x s ty p i ver oc w = (Inr r, w')"
  shows "stream_of y q (db w') = stream_of y q (db w) @ (if (y, q) = (x, s) then [r] else [])"
    and "ev_stream_version r = int (length (stream_of x s (db w))) + 1"
    and "ver = Some n \<Longrightarrow> n = int (length (stream_of x s (db w)))"
proof -
  from assms(2) have "(\<forall>n. ver = Some n \<longrightarrow> n = max_stream_version x s (db w)) \<and>
      ev_stream_version r = max_stream_version x s (db w) + 1 \<and>
      stream_of y q (db w') = stream_of y q (db w) @ (if (y, q) = (x, s) then [r] else [])"
    by (rule append_event_Inr) (auto simp: stream_of_insert in_stream_def)
  then show "stream_of y q (db w') = stream_of y q (db w) @ (if (y, q) = (x, s) then [r] else [])"
    and "ev_stream_version r = int (length (stream_of x s (db w))) + 1"
    and "ver = Some n \<Longrightarrow> n = int (length (stream_of x s (db w)))"
    using max_stream_version_length [OF assms(1)] by auto
qed

lemma list_events_stream:
  assumes "events_ok (db w)" "list_events x (Some s) 0 limit w = (Inr rs, w')"
  shows "rs = take (nat limit) (stream_of x s (db w))"
proof -
  have pos: "0 < ev_sequence r" if "r \<in> set (events (db w))" for r
    using assms(1) that by (auto simp: events_ok_def)
  have "filter (\<lambda>r. ev_tenant_id r = x \<and> 0 < ev_sequence r \<and> ev_stream_id r = s) (events (db w))
      = stream_of x s (db w)"
    unfolding stream_of_def in_stream_def using pos by (intro filter_cong) auto
  moreover have "sort_key ev_sequence (stream_of x s (db w)) = stream_of x s (db w)"
  proof (rule sort_key_id_if_sorted)
    have "sorted_wrt (<) (map ev_sequence (filter P (events (db w))))" for P
      using assms(1) by (auto simp: events_ok_def sorted_wrt_map intro: sorted_wrt_filter)
    then show "sorted (map ev_sequence (stream_of x s (db w)))"
      unfolding stream_of_def using strict_sorted_imp_sorted by blast
  qed
  ultimately show ?thesis
    using assms(2) by (auto simp: list_events_def result_iff)
qed

end
