(* ===== verification/StoreReceipts.thy ===== *)
theory StoreReceipts
  imports StoreRetention
begin

text \<open>
  Authenticated receipts and their replay nonces (\<open>src/agent_tree_rl/store.py\<close>:
  \<open>claim_replay_nonce\<close>, \<open>prune_replay_nonces\<close>, \<open>record_evidence_receipt\<close>,
  \<open>get_evidence_receipt\<close>, \<open>record_experience_receipt\<close>, \<open>list_experience_receipts\<close>,
  \<open>_experience_row\<close>, \<open>_verify_receipt\<close>, \<open>_claim_envelope_nonce\<close>). \<open>grace\<close> is the store's
  \<open>replay_grace_seconds\<close>, \<open>vr\<close> its \<open>receipt_verifier\<close> and \<open>vnow\<close> the reading of the
  verifier's clock.
\<close>

definition nonce_row_of :: "string \<Rightarrow> string \<Rightarrow> string \<Rightarrow> int option \<Rightarrow> int \<Rightarrow> nonce_row" where
  "nonce_row_of tenant_id purpose nonce retained_until t =
     \<lparr>nn_tenant_id = tenant_id, nn_purpose = purpose, nn_nonce = nonce,
      nn_expires_at = retained_until, nn_consumed_at = t\<rparr>"

definition drop_nonces :: "int \<Rightarrow> db \<Rightarrow> db" where
  "drop_nonces t d = d\<lparr>receipt_nonces := delete_where (past nn_expires_at t) (receipt_nonces d)\<rparr>"

definition claim_replay_nonce ::
  "int \<Rightarrow> string \<Rightarrow> string \<Rightarrow> string \<Rightarrow> int option \<Rightarrow> ('z world_scheme, bool) action" where
  "claim_replay_nonce grace tenant_id purpose nonce expires_at =
     andthen (required [tenant_id, purpose, nonce])
     (bind now (\<lambda>t.
      let retained_until = map_option (\<lambda>e. e + grace) expires_at in
      transaction
        (andthen (bind_ints [t])
        (andthen (exec (drop_nonces t))
        (andthen (bind_ints (t # (case retained_until of None \<Rightarrow> [] | Some e \<Rightarrow> [e])))
        (bind (query (\<lambda>d. row_at nonce_key (tenant_id, purpose, nonce) (receipt_nonces d))) (\<lambda>row.
         case row of
           Some _ \<Rightarrow> ret False
         | None \<Rightarrow>
             andthen (exec (\<lambda>d. d\<lparr>receipt_nonces := receipt_nonces d @
                [nonce_row_of tenant_id purpose nonce retained_until t]\<rparr>))
             (ret True))))))))"

definition prune_replay_nonces :: "int option \<Rightarrow> ('z world_scheme, int) action" where
  "prune_replay_nonces before =
     bind (timestamp before) (\<lambda>cutoff.
     transaction
       (andthen (bind_ints [cutoff])
       (bind (query (\<lambda>d. count_where (past nn_expires_at cutoff) (receipt_nonces d))) (\<lambda>rowcount.
        andthen (exec (drop_nonces cutoff)) (ret rowcount)))))"

definition verify_receipt ::
  "pyenv \<Rightarrow> receipt_verifier option \<Rightarrow> int \<Rightarrow> string \<Rightarrow> string \<Rightarrow> json \<Rightarrow> ('z world_scheme, json) action" where
  \<comment> \<open>\<open>_verify_receipt\<close>\<close>
  "verify_receipt E vr vnow tenant_id purpose envelope =
     andthen (required [tenant_id])
     (case vr of
        None \<Rightarrow> raise StoreConfigurationError ''receipt_verifier is required to persist authenticated receipts''
      | Some v \<Rightarrow> verify E v vnow envelope (Some purpose) (Some tenant_id) None)"

definition claim_envelope_nonce :: "int \<Rightarrow> json \<Rightarrow> ('z world_scheme, unit) action" where
  \<comment> \<open>\<open>_claim_envelope_nonce\<close>\<close>
  "claim_envelope_nonce grace envelope =
     bind (claim_replay_nonce grace (text_field envelope ''tenant_id'') (text_field envelope ''purpose'')
             (text_field envelope ''nonce'') (expires_of envelope)) (\<lambda>accepted.
     require accepted ReplayDetectedError ''receipt nonce has already been consumed'')"

definition receipt_id_or :: "pyenv \<Rightarrow> string option \<Rightarrow> json \<Rightarrow> ('z world_scheme, string) action" where
  \<comment> \<open>\<open>receipt_id or sha256_hex(envelope)\<close>\<close>
  "receipt_id_or E receipt_id envelope =
     (case receipt_id of Some (c # cs) \<Rightarrow> ret (c # cs) | _ \<Rightarrow> lift (sha256_hex E envelope))"

definition envelope_ints :: "json \<Rightarrow> int list" where
  "envelope_ints envelope = int_field envelope ''issued_at'' #
     (case expires_of envelope of None \<Rightarrow> [] | Some e \<Rightarrow> [e])"

definition get_evidence_receipt :: "string \<Rightarrow> string \<Rightarrow> ('z world_scheme, evidence_row) action" where
  "get_evidence_receipt tenant_id receipt_id =
     andthen (required [tenant_id, receipt_id])
     (bind (query (\<lambda>d. row_at evidence_key (tenant_id, receipt_id) (evidence_receipts d))) (\<lambda>row.
      case row of None \<Rightarrow> raise NotFoundError ''evidence receipt not found'' | Some r \<Rightarrow> ret r))"

definition evidence_row_of ::
  "string \<Rightarrow> string \<Rightarrow> string \<Rightarrow> string \<Rightarrow> string option \<Rightarrow> string option \<Rightarrow> json \<Rightarrow> int \<Rightarrow> evidence_row" where
  "evidence_row_of tenant_id receipt_id evidence_kind subject_id artifact_uri content_sha256 envelope t =
     \<lparr>ed_tenant_id = tenant_id, ed_receipt_id = receipt_id, ed_evidence_kind = evidence_kind,
      ed_subject_id = subject_id, ed_artifact_uri = artifact_uri, ed_content_sha256 = content_sha256,
      ed_signer_key_id = text_field envelope ''key_id'',
      ed_issued_at = int_field envelope ''issued_at'', ed_expires_at = expires_of envelope,
      ed_envelope_json = envelope, ed_recorded_at = t\<rparr>"

definition record_evidence_receipt ::
  "pyenv \<Rightarrow> int \<Rightarrow> receipt_verifier option \<Rightarrow> int \<Rightarrow> string \<Rightarrow> json \<Rightarrow> string option
     \<Rightarrow> ('z world_scheme, evidence_row) action" where
  "record_evidence_receipt E grace vr vnow tenant_id envelope_arg receipt_id_arg =
     bind (lift (json_text envelope_arg)) (\<lambda>envelope.
     bind (verify_receipt E vr vnow tenant_id ''evidence'' envelope) (\<lambda>payload.
     andthen (require (is_obj payload) StoreError ''evidence receipt payload must be an object'')
     (bind (payload_text payload ''evidence_kind'') (\<lambda>evidence_kind.
      bind (payload_text payload ''subject_id'') (\<lambda>subject_id.
      bind (optional_payload_text payload ''artifact_uri'') (\<lambda>artifact_uri.
      bind (optional_payload_text payload ''content_sha256'') (\<lambda>content_sha256.
      andthen (case content_sha256 of None \<Rightarrow> ret () | Some h \<Rightarrow> check_sha256 h)
      (bind (receipt_id_or E receipt_id_arg envelope) (\<lambda>receipt_id.
       bind now (\<lambda>t.
       andthen (transaction
         (andthen (claim_envelope_nonce grace envelope)
         (andthen (bind_ints (t # envelope_ints envelope))
         (bind (query (\<lambda>d. row_at evidence_key (tenant_id, receipt_id) (evidence_receipts d))) (\<lambda>clash.
          andthen (require (clash = None) ConflictError ''evidence receipt already exists'')
          (exec (\<lambda>d. d\<lparr>evidence_receipts := evidence_receipts d @
             [evidence_row_of tenant_id receipt_id evidence_kind subject_id artifact_uri content_sha256
                envelope t]\<rparr>)))))))
         (get_evidence_receipt tenant_id receipt_id)))))))))))"

definition float_of_reward :: "json \<Rightarrow> pyfloat result" where
  \<comment> \<open>the type check and \<open>float(reward)\<close>\<close>
  "float_of_reward v = (case v of
      JInt n \<Rightarrow>
        if isfinite (float_of_int n) then Inr (float_of_int n)
        else raiseR OverflowError ''int too large to convert to float''
    | JFloat x \<Rightarrow> Inr x
    | _ \<Rightarrow> raiseR StoreError ''experience reward must be numeric'')"

definition experience_clash :: "string \<Rightarrow> string \<Rightarrow> string \<Rightarrow> string \<Rightarrow> db \<Rightarrow> bool" where
  \<comment> \<open>the primary key and \<open>UNIQUE (tenant_id, run_id, episode_id)\<close>\<close>
  "experience_clash tenant_id receipt_id run_id episode_id d \<longleftrightarrow>
     list_ex (\<lambda>r. ex_tenant_id r = tenant_id \<and>
        (ex_receipt_id r = receipt_id \<or> ex_run_id r = run_id \<and> ex_episode_id r = episode_id))
       (experience_receipts d)"

definition experience_row :: "string \<Rightarrow> string \<Rightarrow> ('z world_scheme, experience_row) action" where
  \<comment> \<open>\<open>_experience_row\<close>\<close>
  "experience_row tenant_id receipt_id =
     bind (query (\<lambda>d. row_at experience_key (tenant_id, receipt_id) (experience_receipts d))) (\<lambda>row.
     case row of None \<Rightarrow> raise NotFoundError ''experience receipt not found'' | Some r \<Rightarrow> ret r)"

definition experience_row_of ::
  "string \<Rightarrow> string \<Rightarrow> string \<Rightarrow> string \<Rightarrow> string \<Rightarrow> pyfloat \<Rightarrow> json \<Rightarrow> json \<Rightarrow> int \<Rightarrow> experience_row" where
  "experience_row_of tenant_id receipt_id run_id episode_id trajectory_hash reward payload envelope t =
     \<lparr>ex_tenant_id = tenant_id, ex_receipt_id = receipt_id, ex_run_id = run_id,
      ex_episode_id = episode_id, ex_trajectory_hash = trajectory_hash, ex_reward = reward,
      ex_signer_key_id = text_field envelope ''key_id'',
      ex_issued_at = int_field envelope ''issued_at'', ex_expires_at = expires_of envelope,
      ex_payload_json = canon payload, ex_envelope_json = envelope, ex_recorded_at = t\<rparr>"

definition record_experience_receipt ::
  "pyenv \<Rightarrow> int \<Rightarrow> receipt_verifier option \<Rightarrow> int \<Rightarrow> string \<Rightarrow> json \<Rightarrow> string option
     \<Rightarrow> ('z world_scheme, experience_row) action" where
  "record_experience_receipt E grace vr vnow tenant_id envelope_arg receipt_id_arg =
     bind (lift (json_text envelope_arg)) (\<lambda>envelope.
     bind (verify_receipt E vr vnow tenant_id ''experience'' envelope) (\<lambda>payload.
     andthen (require (is_obj payload) StoreError ''experience receipt payload must be an object'')
     (bind (payload_text payload ''run_id'') (\<lambda>run_id.
      bind (payload_text payload ''episode_id'') (\<lambda>episode_id.
      bind (payload_text payload ''trajectory_hash'') (\<lambda>trajectory_hash.
      andthen (check_sha256 trajectory_hash)
      (bind (lift (float_of_reward (field payload ''reward''))) (\<lambda>reward.
       andthen (require (fle (fl (- 1)) reward \<and> fle reward (fl 1)) StoreError
                  ''experience reward must be in [-1, 1]'')
       (bind (receipt_id_or E receipt_id_arg envelope) (\<lambda>receipt_id.
        bind now (\<lambda>t.
        andthen (transaction
          (andthen (claim_envelope_nonce grace envelope)
          (andthen (bind_ints (t # envelope_ints envelope))
          (bind (query (experience_clash tenant_id receipt_id run_id episode_id)) (\<lambda>clash.
           andthen (require (\<not> clash) ConflictError ''experience receipt or episode already exists'')
           (exec (\<lambda>d. d\<lparr>experience_receipts := experience_receipts d @
              [experience_row_of tenant_id receipt_id run_id episode_id trajectory_hash reward
                 payload envelope t]\<rparr>)))))))
          (experience_row tenant_id receipt_id))))))))))))"

definition list_experience_receipts ::
  "string \<Rightarrow> string option \<Rightarrow> int \<Rightarrow> ('z world_scheme, experience_row list) action" where
  "list_experience_receipts tenant_id run_id limit =
     andthen (required [tenant_id])
     (andthen (positive_limit limit)
     (query (\<lambda>d. take (nat limit) (sort_key ex_recorded_at (sort_key ex_receipt_id (filter (\<lambda>r.
        ex_tenant_id r = tenant_id \<and> (case run_id of None \<Rightarrow> True | Some s \<Rightarrow> ex_run_id r = s))
        (experience_receipts d)))))))"

section \<open>Nonces\<close>

abbreviation nonce_at :: "string \<Rightarrow> string \<Rightarrow> string \<Rightarrow> db \<Rightarrow> nonce_row option" where
  "nonce_at x p n d \<equiv> row_at nonce_key (x, p, n) (receipt_nonces d)"

interpretation nonce: expiring nn_expires_at "(=)"
  by unfold_locales auto

abbreviation nonce_retained :: "nonce_row \<Rightarrow> 'z world_scheme \<Rightarrow> bool" where
  "nonce_retained r w \<equiv> retained nn_expires_at (=) r (clock w) (clock_reads w) (receipt_nonces (db w))"

definition nonces_ok :: "db \<Rightarrow> bool" where
  "nonces_ok d \<longleftrightarrow> uniq_rows nonce_key (receipt_nonces d)"

lemma nonce_row_of_simps [simp]:
  "nonce_key (nonce_row_of x p n e t) = (x, p, n)" "nn_expires_at (nonce_row_of x p n e t) = e"
  by (simp_all add: nonce_row_of_def nonce_key_def)

lemma claim_replay_nonce_Inr:
  assumes "claim_replay_nonce g x p n e w = (Inr b, w')"
  obtains (fresh) t d where "t = clock w (clock_reads w)" "d = drop_nonces t (db w)" "b"
      "nonce_at x p n d = None" "clock_reads w' = Suc (clock_reads w)" "clock w' = clock w"
      "db w' = d\<lparr>receipt_nonces := receipt_nonces d @ [nonce_row_of x p n (map_option (\<lambda>e. e + g) e) t]\<rparr>"
    | (used) t d where "t = clock w (clock_reads w)" "d = drop_nonces t (db w)" "\<not> b"
      "nonce_at x p n d \<noteq> None" "clock_reads w' = Suc (clock_reads w)" "clock w' = clock w" "db w' = d"
proof -
  let ?t = "clock w (clock_reads w)"
  let ?d = "drop_nonces ?t (db w)"
  show thesis
  proof (cases "nonce_at x p n ?d")
    case None
    show thesis
      by (rule fresh [of ?t ?d]) (use assms None in \<open>auto simp: claim_replay_nonce_def result_iff Let_def\<close>)
  next
    case (Some r)
    show thesis
      by (rule used [of ?t ?d]) (use assms Some in \<open>auto simp: claim_replay_nonce_def result_iff Let_def\<close>)
  qed
qed

lemma claim_replay_nonce_aon [aon_intros]: "all_or_nothing (claim_replay_nonce g x p n e)"
  unfolding claim_replay_nonce_def Let_def by (intro aon_andthen aon_bind reads_only_pure aon_transaction)

lemma prune_replay_nonces_aon [aon_intros]: "all_or_nothing (prune_replay_nonces b)"
  unfolding prune_replay_nonces_def by (intro aon_bind reads_only_pure aon_transaction)

lemma nonce_ops_ticks [keeps_intros]:
  "keeps (ticks c k) (claim_replay_nonce g x p n e)" "keeps (ticks c k) (prune_replay_nonces b)"
  unfolding claim_replay_nonce_def prune_replay_nonces_def Let_def by (intro keeps_intros)+

lemma nonces_ok_drop: "nonces_ok d \<Longrightarrow> nonces_ok (drop_nonces t d)"
  by (simp add: nonces_ok_def drop_nonces_def nonce_rows.uniq_delete)

lemma claim_replay_nonce_keeps: "keeps_db nonces_ok (claim_replay_nonce g x p n e)"
proof (rule keeps_db_from_success [OF claim_replay_nonce_aon])
  fix w :: "'a world_scheme" and b w'
  assume ok: "nonces_ok (db w)" and run: "claim_replay_nonce g x p n e w = (Inr b, w')"
  from run show "nonces_ok (db w')"
  proof (cases rule: claim_replay_nonce_Inr)
    case (fresh t d)
    with nonces_ok_drop [OF ok, of t] show ?thesis by (simp add: nonces_ok_def nonce_rows.uniq_append)
  next
    case (used t d)
    with nonces_ok_drop [OF ok] show ?thesis by simp
  qed
qed

lemma claim_replay_nonce_retains:
  assumes "nonce_retained r w" "claim_replay_nonce g x p n e w = (res, w')"
  shows "nonce_retained r w'"
proof (cases res)
  case (Inl err)
  have "db w' = db w" using assms(2) Inl claim_replay_nonce_aon all_or_nothingD by blast
  with assms(1) keeps_ticksD [OF nonce_ops_ticks(1) assms(2)] show ?thesis
    by (simp add: nonce.retained_later)
next
  case (Inr b)
  from nonce.retained_delete [OF assms(1), of "Suc (clock_reads w)"]
  have *: "retained nn_expires_at (=) r (clock w) (Suc (clock_reads w))
      (receipt_nonces (drop_nonces (clock w (clock_reads w)) (db w)))"
    by (simp add: drop_nonces_def)
  from assms(2) [unfolded Inr] show ?thesis
  proof (cases rule: claim_replay_nonce_Inr)
    case (fresh t d)
    with nonce.retained_append [OF *] show ?thesis by simp
  next
    case (used t d)
    with * show ?thesis by simp
  qed
qed

lemma prune_replay_nonces_Inr:
  assumes "prune_replay_nonces b w = (Inr k, w')"
  shows "db w' = drop_nonces (case b of None \<Rightarrow> clock w (clock_reads w) | Some t \<Rightarrow> t) (db w)"
    and "clock w' = clock w"
    and "clock_reads w' = (case b of None \<Rightarrow> Suc (clock_reads w) | Some t \<Rightarrow> clock_reads w)"
  using assms by (cases b; simp add: prune_replay_nonces_def result_iff; force)+

lemma prune_replay_nonces_keeps: "keeps_db nonces_ok (prune_replay_nonces b)"
  by (rule keeps_db_from_success [OF prune_replay_nonces_aon])
     (simp add: prune_replay_nonces_Inr nonces_ok_drop)

lemma prune_replay_nonces_retains:
  assumes "nonce_retained r w" "prune_replay_nonces None w = (res, w')"
  shows "nonce_retained r w'"
proof (cases res)
  case (Inl err)
  have "db w' = db w" using assms(2) Inl prune_replay_nonces_aon all_or_nothingD by blast
  with assms(1) keeps_ticksD [OF nonce_ops_ticks(2) assms(2)] show ?thesis
    by (simp add: nonce.retained_later)
next
  case (Inr k)
  from nonce.retained_delete [OF assms(1), of "Suc (clock_reads w)"] show ?thesis
    using prune_replay_nonces_Inr [OF assms(2) [unfolded Inr]] by (simp add: drop_nonces_def)
qed

section \<open>Recording a receipt\<close>

lemma verify_receipt_Inr_iff [result_iff]:
  "verify_receipt E vr vnow x p env w = (Inr payload, w') \<longleftrightarrow>
     x \<noteq> [] \<and> w' = w \<and> payload = field env ''payload'' \<and>
     (\<exists>v. vr = Some v \<and> authenticate_envelope E v vnow env (Some p) (Some x) = Inr ())"
  by (auto simp: verify_receipt_def verify_def result_iff split: option.splits)

lemma reads_only_receipt_helpers [aon_intros]:
  "reads_only (verify_receipt E vr vnow x p env)" "reads_only (receipt_id_or E rid env)"
  "reads_only (get_evidence_receipt x i)" "reads_only (experience_row x i)"
  "reads_only (list_experience_receipts x run limit)"
  by (auto simp: reads_only_def verify_receipt_def verify_def receipt_id_or_def get_evidence_receipt_def
      experience_row_def list_experience_receipts_def bind_apply andthen_apply required_def require_apply
      positive_limit_def positive_int_def
      split: option.splits list.splits if_splits sum.splits)

lemma authenticated_purpose:
  "authenticate_envelope E v vnow env (Some p) (Some x) = Inr () \<Longrightarrow>
   text_field env ''purpose'' = p \<and> text_field env ''tenant_id'' = x"
  by (simp add: authenticate_Inr_iff)

text \<open>The claim of the nonce inside the transaction that inserts the receipt.\<close>

definition nonce_claimed :: "int \<Rightarrow> json \<Rightarrow> int \<Rightarrow> db \<Rightarrow> db \<Rightarrow> bool" where
  "nonce_claimed g env t d d' \<longleftrightarrow>
     (let x = text_field env ''tenant_id''; p = text_field env ''purpose''; n = text_field env ''nonce'' in
      nonce_at x p n (drop_nonces t d) = None \<and>
      receipt_nonces d' = receipt_nonces (drop_nonces t d) @
        [nonce_row_of x p n (map_option (\<lambda>e. e + g) (expires_of env)) t])"

lemma claim_envelope_nonce_Inr:
  assumes "claim_envelope_nonce g env w = (Inr u, w')"
  shows "nonce_claimed g env (clock w (clock_reads w)) (db w) (db w')"
    "clock_reads w' = Suc (clock_reads w)" "clock w' = clock w"
    "db w' = (db w)\<lparr>receipt_nonces := receipt_nonces (db w')\<rparr>"
proof -
  from assms have "claim_replay_nonce g (text_field env ''tenant_id'') (text_field env ''purpose'')
      (text_field env ''nonce'') (expires_of env) w = (Inr True, w')"
    by (auto simp: claim_envelope_nonce_def result_iff)
  then show "nonce_claimed g env (clock w (clock_reads w)) (db w) (db w')"
    "clock_reads w' = Suc (clock_reads w)" "clock w' = clock w"
    "db w' = (db w)\<lparr>receipt_nonces := receipt_nonces (db w')\<rparr>"
    by (cases rule: claim_replay_nonce_Inr; simp add: nonce_claimed_def Let_def drop_nonces_def)+
qed

lemma drop_nonces_simps [simp]:
  "evidence_receipts (drop_nonces t d) = evidence_receipts d"
  "experience_receipts (drop_nonces t d) = experience_receipts d"
  by (simp_all add: drop_nonces_def)

lemma receipt_row_keys [simp]:
  "evidence_key (evidence_row_of x i k s u h env t) = (x, i)"
  "experience_key (experience_row_of x i run ep tj rw pl env t) = (x, i)"
  by (simp_all add: evidence_row_of_def experience_row_of_def row_keys)

lemma get_evidence_receipt_Inr_iff [result_iff]:
  "get_evidence_receipt x i w = (Inr r, w') \<longleftrightarrow>
     x \<noteq> [] \<and> i \<noteq> [] \<and> row_at evidence_key (x, i) (evidence_receipts (db w)) = Some r \<and> w' = w"
  by (auto simp: get_evidence_receipt_def result_iff split: option.splits)

lemma experience_row_Inr_iff [result_iff]:
  "experience_row x i w = (Inr r, w') \<longleftrightarrow>
     row_at experience_key (x, i) (experience_receipts (db w)) = Some r \<and> w' = w"
  by (auto simp: experience_row_def result_iff split: option.splits)

lemma receipt_id_or_db: "receipt_id_or E rid env w = (Inr i, w') \<Longrightarrow> w' = w"
  by (auto simp: receipt_id_or_def split: option.splits list.splits)

lemma experience_clash_key:
  "\<not> experience_clash x i run ep d \<Longrightarrow> row_at experience_key (x, i) (experience_receipts d) = None"
  by (auto simp: experience_clash_def experience_rows.row_at_None list_ex_iff experience_key_def)

lemma record_evidence_Inr:
  assumes "record_evidence_receipt E g vr vnow x env rid w = (Inr r, w')"
  obtains v env' t where "env' = canon env" "vr = Some v"
    "authenticate_envelope E v vnow env' (Some ''evidence'') (Some x) = Inr ()"
    "t = clock w (Suc (clock_reads w))" "clock_reads w' = Suc (Suc (clock_reads w))" "clock w' = clock w"
    "nonce_claimed g env' t (db w) (db w')"
    "db w' = (db w)\<lparr>receipt_nonces := receipt_nonces (db w'), evidence_receipts := evidence_receipts (db w) @ [r]\<rparr>"
    "ed_tenant_id r = x" "ed_envelope_json r = env'" "ed_signer_key_id r = text_field env' ''key_id''"
    "row_at evidence_key (evidence_key r) (evidence_receipts (db w)) = None"
proof -
  define env' where "env' = canon env"
  from assms obtain v k s u h i w1 where
    v: "vr = Some v" "authenticate_envelope E v vnow env' (Some ''evidence'') (Some x) = Inr ()"
    and claim: "claim_envelope_nonce g env' (w\<lparr>clock_reads := Suc (clock_reads w)\<rparr>) = (Inr (), w1)"
    and row: "row_at evidence_key (x, i) (evidence_receipts (db w1)) = None"
    and r: "row_at evidence_key (x, i) (evidence_receipts (db w1) @
         [evidence_row_of x i k s u h env' (clock w (clock_reads w))]) = Some r"
    and w': "w' = w1\<lparr>db := (db w1)\<lparr>evidence_receipts := evidence_receipts (db w1) @
         [evidence_row_of x i k s u h env' (clock w (clock_reads w))]\<rparr>\<rparr>"
    by (auto simp: record_evidence_receipt_def result_iff env'_def json_text_def
        dest!: optional_payload_text_Inr_iff receipt_id_or_db split: option.splits)
  have r': "r = evidence_row_of x i k s u h env' (clock w (clock_reads w))"
    using r row by (simp add: evidence_rows.row_at_append)
  note c = claim_envelope_nonce_Inr [OF claim, simplified]
  have w1: "evidence_receipts (db w1) = evidence_receipts (db w)" by (subst c(4)) simp
  have "db w' = (db w)\<lparr>receipt_nonces := receipt_nonces (db w'), evidence_receipts := evidence_receipts (db w) @ [r]\<rparr>"
    unfolding w' r' by (simp add: w1) (subst c(4), simp)
  with c(1-3) w1 row v r' show thesis
    by (intro that [of env' v "clock w (Suc (clock_reads w))"])
       (auto simp: env'_def nonce_claimed_def w' evidence_row_of_def evidence_key_def)
qed

lemma record_experience_Inr:
  assumes "record_experience_receipt E g vr vnow x env rid w = (Inr r, w')"
  obtains v env' t where "env' = canon env" "vr = Some v"
    "authenticate_envelope E v vnow env' (Some ''experience'') (Some x) = Inr ()"
    "t = clock w (Suc (clock_reads w))" "clock_reads w' = Suc (Suc (clock_reads w))" "clock w' = clock w"
    "nonce_claimed g env' t (db w) (db w')"
    "db w' = (db w)\<lparr>receipt_nonces := receipt_nonces (db w'), experience_receipts := experience_receipts (db w) @ [r]\<rparr>"
    "ex_tenant_id r = x" "ex_envelope_json r = env'" "ex_signer_key_id r = text_field env' ''key_id''"
    "ex_payload_json r = canon (field env' ''payload'')"
    "fle (fl (- 1)) (ex_reward r)" "fle (ex_reward r) (fl 1)" "is_sha256 (ex_trajectory_hash r)"
    "\<not> experience_clash x (ex_receipt_id r) (ex_run_id r) (ex_episode_id r) (db w)"
proof -
  define env' where "env' = canon env"
  from assms obtain v run ep tj rw i w1 where
    v: "vr = Some v" "authenticate_envelope E v vnow env' (Some ''experience'') (Some x) = Inr ()"
    and rw: "fle (fl (- 1)) rw" "fle rw (fl 1)" and tj: "is_sha256 tj"
    and claim: "claim_envelope_nonce g env' (w\<lparr>clock_reads := Suc (clock_reads w)\<rparr>) = (Inr (), w1)"
    and row: "\<not> experience_clash x i run ep (db w1)"
    and r: "row_at experience_key (x, i) (experience_receipts (db w1) @
         [experience_row_of x i run ep tj rw (field env' ''payload'') env' (clock w (clock_reads w))]) = Some r"
    and w': "w' = w1\<lparr>db := (db w1)\<lparr>experience_receipts := experience_receipts (db w1) @
         [experience_row_of x i run ep tj rw (field env' ''payload'') env' (clock w (clock_reads w))]\<rparr>\<rparr>"
    by (auto simp: record_experience_receipt_def result_iff env'_def json_text_def
        dest!: receipt_id_or_db split: option.splits)
  have r': "r = experience_row_of x i run ep tj rw (field env' ''payload'') env' (clock w (clock_reads w))"
    using r experience_clash_key [OF row] by (simp add: experience_rows.row_at_append)
  note c = claim_envelope_nonce_Inr [OF claim, simplified]
  have clash: "\<not> experience_clash x i run ep (db w)"
    using row by (subst (asm) c(4)) (simp add: experience_clash_def)
  have w1: "experience_receipts (db w1) = experience_receipts (db w)" by (subst c(4)) simp
  have "db w' = (db w)\<lparr>receipt_nonces := receipt_nonces (db w'), experience_receipts := experience_receipts (db w) @ [r]\<rparr>"
    unfolding w' r' by (simp add: w1) (subst c(4), simp)
  with c(1-3) w1 clash rw tj v r' show thesis
    by (intro that [of env' v "clock w (Suc (clock_reads w))"])
       (auto simp: env'_def nonce_claimed_def w' experience_row_of_def experience_key_def)
qed

section \<open>Stored receipts are authentic\<close>

definition authentic :: "pyenv \<Rightarrow> receipt_verifier option \<Rightarrow> string \<Rightarrow> string \<Rightarrow> json \<Rightarrow> bool" where
  "authentic E vr purpose tenant_id env \<longleftrightarrow>
     (\<exists>v t. vr = Some v \<and> authenticate_envelope E v t env (Some purpose) (Some tenant_id) = Inr ())"

definition episode_key :: "experience_row \<Rightarrow> string \<times> string \<times> string" where
  "episode_key r = (ex_tenant_id r, ex_run_id r, ex_episode_id r)"

definition receipts_ok :: "pyenv \<Rightarrow> receipt_verifier option \<Rightarrow> db \<Rightarrow> bool" where
  "receipts_ok E vr d \<longleftrightarrow>
     uniq_rows nonce_key (receipt_nonces d) \<and> uniq_rows evidence_key (evidence_receipts d) \<and>
     uniq_rows experience_key (experience_receipts d) \<and> uniq_rows episode_key (experience_receipts d) \<and>
     (\<forall>r \<in> set (evidence_receipts d). authentic E vr ''evidence'' (ed_tenant_id r) (ed_envelope_json r)) \<and>
     (\<forall>r \<in> set (experience_receipts d).
        authentic E vr ''experience'' (ex_tenant_id r) (ex_envelope_json r) \<and> fin_between (- 1) (ex_reward r) 1)"

interpretation episode_rows: keyed_rows episode_key .

lemma reward_range:
  assumes "fle (fl (- 1)) x" "fle x (fl 1)"
  shows "fin_between (- 1) x 1"
proof -
  have "fl (- 1) = Fin (- 1)" "fl 1 = Fin 1" by code_simp+
  with assms show ?thesis by (cases x) (auto simp: fin_between_def fle_def feq_def)
qed

lemma nonce_claimed_uniq:
  "nonce_claimed g env t d d' \<Longrightarrow> uniq_rows nonce_key (receipt_nonces d) \<Longrightarrow> uniq_rows nonce_key (receipt_nonces d')"
  by (simp add: nonce_claimed_def Let_def nonce_rows.uniq_append drop_nonces_def nonce_rows.uniq_delete)

lemma experience_clash_episode:
  assumes "\<not> experience_clash (ex_tenant_id r) (ex_receipt_id r) (ex_run_id r) (ex_episode_id r) d"
  shows "row_at episode_key (episode_key r) (experience_receipts d) = None"
    and "row_at experience_key (experience_key r) (experience_receipts d) = None"
  using assms
  by (auto simp: experience_clash_def episode_rows.row_at_None experience_rows.row_at_None list_ex_iff
      episode_key_def experience_key_def)

lemma aon_bind_if:
  assumes "reads_only m" "\<And>x w w'. m w = (Inr x, w') \<Longrightarrow> all_or_nothing (f x)"
  shows "all_or_nothing (bind m f)"
proof -
  have "all_or_nothing (bind m (\<lambda>x. if \<exists>w w'. m w = (Inr x, w') then f x else ret undefined))"
    using assms by (intro aon_bind) (auto intro: aon_reads_only reads_only_pure)
  moreover have "bind m (\<lambda>x. if \<exists>w w'. m w = (Inr x, w') then f x else ret undefined) = bind m f"
    by (auto simp: bind_def fun_eq_iff split: prod.splits sum.splits)
  ultimately show ?thesis by simp
qed

lemma sha256_nonempty: "sha256_ok E \<Longrightarrow> sha256 E m \<noteq> []"
  unfolding sha256_ok_def is_sha256_def by (metis list.size(3) zero_neq_numeral)

lemma receipt_id_or_nonempty:
  "sha256_ok E \<Longrightarrow> receipt_id_or E rid env w = (Inr i, w') \<Longrightarrow> i \<noteq> []"
  using sha256_nonempty [of E]
  by (auto simp: receipt_id_or_def sha256_hex_def bindR_Inr_iff split: option.splits list.splits)

lemma record_evidence_aon:
  assumes "sha256_ok E"
  shows "all_or_nothing (record_evidence_receipt E g vr vnow x env rid)"
proof -
  have pre: "reads_only (case h of None \<Rightarrow> ret () | Some h \<Rightarrow> check_sha256 h)" for h
    by (intro aon_intros)
  note check = aon_bind_if [where m = "verify_receipt _ _ _ _ _ _", OF reads_only_receipt_helpers(1)]
    aon_bind_if [where m = "receipt_id_or _ _ _", OF reads_only_receipt_helpers(2)]
  show ?thesis
    unfolding record_evidence_receipt_def
    by (intro check aon_bind [where m = "lift _"] aon_bind [where m = "payload_text _ _"]
        aon_bind [where m = "optional_payload_text _ _"] aon_bind [where m = now]
        aon_andthen [where m = "require _ _ _"] aon_andthen [OF pre] aon_transaction
        reads_only_pure aon_andthen_tail)
       (auto simp: get_evidence_receipt_def result_iff evidence_rows.row_at_append
         dest: receipt_id_or_nonempty [OF assms])
qed

lemma record_experience_aon:
  "all_or_nothing (record_experience_receipt E g vr vnow x env rid)"
  unfolding record_experience_receipt_def
  by (intro aon_bind aon_andthen [where m = "require _ _ _"] aon_andthen [where m = "check_sha256 _"]
        aon_transaction reads_only_pure reads_only_receipt_helpers aon_andthen_tail)
     (auto simp: experience_row_def result_iff experience_rows.row_at_append dest!: experience_clash_key)

lemma record_evidence_keeps:
  assumes "sha256_ok E"
  shows "keeps_db (receipts_ok E vr) (record_evidence_receipt E g vr vnow x env rid)"
proof (rule keeps_db_from_success [OF record_evidence_aon [OF assms]])
  fix w :: "'a world_scheme" and r w'
  assume ok: "receipts_ok E vr (db w)" and run: "record_evidence_receipt E g vr vnow x env rid w = (Inr r, w')"
  from run show "receipts_ok E vr (db w')"
  proof (rule record_evidence_Inr)
    fix v env' t
    assume a: "vr = Some v" "authenticate_envelope E v vnow env' (Some ''evidence'') (Some x) = Inr ()"
      "nonce_claimed g env' t (db w) (db w')" "ed_tenant_id r = x" "ed_envelope_json r = env'"
      "row_at evidence_key (evidence_key r) (evidence_receipts (db w)) = None"
      and d: "db w' = (db w)\<lparr>receipt_nonces := receipt_nonces (db w'),
        evidence_receipts := evidence_receipts (db w) @ [r]\<rparr>"
    have "authentic E vr ''evidence'' (ed_tenant_id r) (ed_envelope_json r)"
      using a by (auto simp: authentic_def)
    with ok a(6) nonce_claimed_uniq [OF a(3)] show ?thesis
      by (subst d) (simp add: receipts_ok_def evidence_rows.uniq_append)
  qed
qed

lemma record_experience_keeps:
  "keeps_db (receipts_ok E vr) (record_experience_receipt E g vr vnow x env rid)"
proof (rule keeps_db_from_success [OF record_experience_aon])
  fix w :: "'a world_scheme" and r w'
  assume ok: "receipts_ok E vr (db w)" and run: "record_experience_receipt E g vr vnow x env rid w = (Inr r, w')"
  from run show "receipts_ok E vr (db w')"
  proof (rule record_experience_Inr)
    fix v env' t
    assume a: "vr = Some v" "authenticate_envelope E v vnow env' (Some ''experience'') (Some x) = Inr ()"
      "nonce_claimed g env' t (db w) (db w')" "ex_tenant_id r = x" "ex_envelope_json r = env'"
      "\<not> experience_clash x (ex_receipt_id r) (ex_run_id r) (ex_episode_id r) (db w)"
      and rw: "fle (fl (- 1)) (ex_reward r)" "fle (ex_reward r) (fl 1)"
      and d: "db w' = (db w)\<lparr>receipt_nonces := receipt_nonces (db w'),
        experience_receipts := experience_receipts (db w) @ [r]\<rparr>"
    have "authentic E vr ''experience'' (ex_tenant_id r) (ex_envelope_json r)"
      using a by (auto simp: authentic_def)
    moreover note experience_clash_episode [of r "db w"] reward_range [OF rw]
    ultimately show ?thesis
      using ok a(4,6) nonce_claimed_uniq [OF a(3)]
      by (subst d) (simp add: receipts_ok_def experience_rows.uniq_append episode_rows.uniq_append)
  qed
qed

lemma receipts_ok_nonces:
  "receipts_ok E vr d \<Longrightarrow> uniq_rows nonce_key t \<Longrightarrow> receipts_ok E vr (d\<lparr>receipt_nonces := t\<rparr>)"
  by (simp add: receipts_ok_def)

section \<open>No receipt is accepted twice\<close>

definition nonce_held :: "int \<Rightarrow> json \<Rightarrow> nonce_row \<Rightarrow> bool" where
  "nonce_held g env r \<longleftrightarrow>
     nonce_key r = (text_field env ''tenant_id'', text_field env ''purpose'', text_field env ''nonce'') \<and>
     nn_expires_at r = map_option (\<lambda>e. e + g) (expires_of env)"

lemma nonce_claimed_retains:
  assumes "nonce_claimed g env (clk n) d d'" "retained nn_expires_at (=) r clk n (receipt_nonces d)" "n < m"
  shows "retained nn_expires_at (=) r clk m (receipt_nonces d')"
  using assms(1) nonce.retained_append [OF nonce.retained_delete [OF assms(2,3)]]
  by (simp add: nonce_claimed_def Let_def drop_nonces_def)

lemma nonce_claimed_held: "nonce_claimed g env t d d' \<Longrightarrow> \<exists>r \<in> set (receipt_nonces d'). nonce_held g env r"
  by (auto simp: nonce_claimed_def Let_def nonce_held_def)

lemma held_nonce_blocks:
  assumes held: "nonce_held g env r" "retained nn_expires_at (=) r clk n (receipt_nonces d)"
    and auth: "authenticate_envelope E v vnow env pur ten = Inr ()"
    and past: "\<And>j. j < n \<Longrightarrow> clk j \<le> vnow"
    and margin: "t \<le> vnow + (g - vr_clock_skew_seconds v)" "vr_clock_skew_seconds v \<le> g"
  shows "\<not> nonce_claimed g env t d d'"
proof
  assume claimed: "nonce_claimed g env t d d'"
  have live: "\<not> past nn_expires_at (vnow + (g - vr_clock_skew_seconds v)) r"
    using auth held(1) by (auto simp: authenticate_Inr_iff nonce_held_def past_def split: option.splits)
  have "r \<in> set (receipt_nonces d)"
    using nonce.retained_live [OF held(2) _ live] past margin(2) by fastforce
  moreover have "\<not> past nn_expires_at t r" using live past_later [of nn_expires_at t r] margin(1) by blast
  ultimately have "r \<in> set (receipt_nonces (drop_nonces t d))"
    by (simp add: drop_nonces_def delete_where_set)
  with claimed held(1) show False
    by (auto simp: nonce_claimed_def Let_def nonce_held_def nonce_rows.row_at_None image_iff)
qed

lemma evidence_replay_refused:
  assumes "nonce_held g (canon env) r" "nonce_retained r w"
    and "\<And>j. j < clock_reads w \<Longrightarrow> clock w j \<le> vnow"
    and "clock w (Suc (clock_reads w)) \<le> vnow + (g - vr_clock_skew_seconds v)" "vr_clock_skew_seconds v \<le> g"
  shows "record_evidence_receipt E g (Some v) vnow x env rid w \<noteq> (Inr e, w')"
  using held_nonce_blocks [OF assms(1,2) _ assms(3-5)] by (auto elim!: record_evidence_Inr)

lemma experience_replay_refused:
  assumes "nonce_held g (canon env) r" "nonce_retained r w"
    and "\<And>j. j < clock_reads w \<Longrightarrow> clock w j \<le> vnow"
    and "clock w (Suc (clock_reads w)) \<le> vnow + (g - vr_clock_skew_seconds v)" "vr_clock_skew_seconds v \<le> g"
  shows "record_experience_receipt E g (Some v) vnow x env rid w \<noteq> (Inr e, w')"
  using held_nonce_blocks [OF assms(1,2) _ assms(3-5)] by (auto elim!: record_experience_Inr)

lemma receipt_helper_ticks [keeps_intros]:
  "keeps (ticks c n) (verify_receipt E vr vnow x p env)" "keeps (ticks c n) (receipt_id_or E rid env)"
  "keeps (ticks c n) (get_evidence_receipt x i)" "keeps (ticks c n) (experience_row x i)"
  by (auto simp: keeps_def ticks_def verify_receipt_def verify_def receipt_id_or_def get_evidence_receipt_def
      experience_row_def bind_apply andthen_apply required_def require_apply
      split: option.splits list.splits if_splits sum.splits)

lemma record_receipt_ticks [keeps_intros]:
  "keeps (ticks c n) (record_evidence_receipt E g vr vnow x env rid)"
  "keeps (ticks c n) (record_experience_receipt E g vr vnow x env rid)"
  unfolding record_evidence_receipt_def record_experience_receipt_def claim_envelope_nonce_def
  by (intro keeps_intros)+

lemma retained_on_error:
  assumes "all_or_nothing m" "\<And>c n. keeps (ticks c n) m" "m w = (Inl e, w')" "nonce_retained r w"
  shows "nonce_retained r w'"
  using all_or_nothingD [OF assms(1,3)] keeps_ticksD [OF assms(2,3)] assms(4)
  by (simp add: nonce.retained_later)

lemma record_evidence_retains:
  assumes "sha256_ok E" "nonce_retained r w" "record_evidence_receipt E g vr vnow x env rid w = (res, w')"
  shows "nonce_retained r w'"
proof (cases res)
  case (Inl e)
  with assms(2,3) show ?thesis
    by (auto intro: retained_on_error [OF record_evidence_aon [OF assms(1)] record_receipt_ticks(1)])
next
  case (Inr s)
  from assms(3) [unfolded Inr] show ?thesis
    by (rule record_evidence_Inr)
       (use nonce_claimed_retains nonce.retained_later [OF assms(2), of "Suc (clock_reads w)"] in auto)
qed

lemma record_experience_retains:
  assumes "nonce_retained r w" "record_experience_receipt E g vr vnow x env rid w = (res, w')"
  shows "nonce_retained r w'"
proof (cases res)
  case (Inl e)
  with assms show ?thesis
    by (auto intro: retained_on_error [OF record_experience_aon record_receipt_ticks(2)])
next
  case (Inr s)
  from assms(2) [unfolded Inr] show ?thesis
    by (rule record_experience_Inr)
       (use nonce_claimed_retains nonce.retained_later [OF assms(1), of "Suc (clock_reads w)"] in auto)
qed

end
