(* ===== verification/StorePolicies.thy ===== *)
theory StorePolicies
  imports StoreRetention
begin

text \<open>
  Policy artifacts, training provenance and the champion registry
  (\<open>src/agent_tree_rl/store.py\<close>: \<open>register_policy_artifact\<close>, \<open>get_policy_artifact\<close>,
  \<open>record_training_run\<close>, \<open>list_training_runs\<close>, \<open>training_producers\<close>, \<open>promote_policy\<close>,
  \<open>get_champion\<close>, \<open>get_promotion_at_generation\<close>, \<open>list_promotion_audit\<close>).
  A promotion is a compare-and-swap on the champion that appends one row to the audit; the
  invariant says that the registry is the last entry of the audit.
\<close>

section \<open>Artifacts\<close>

definition artifact_at :: "string \<Rightarrow> string \<Rightarrow> db \<Rightarrow> artifact_row option" where
  "artifact_at tenant_id artifact_id d = row_at artifact_key (tenant_id, artifact_id) (policy_artifacts d)"

definition version_key :: "artifact_row \<Rightarrow> string \<times> string \<times> string" where
  \<comment> \<open>\<open>UNIQUE (tenant_id, policy_name, version)\<close>\<close>
  "version_key r = (ar_tenant_id r, ar_policy_name r, ar_version r)"

definition get_policy_artifact :: "string \<Rightarrow> string \<Rightarrow> ('z world_scheme, artifact_row) action" where
  "get_policy_artifact tenant_id artifact_id =
     bind (query (artifact_at tenant_id artifact_id)) (\<lambda>row.
     case row of None \<Rightarrow> raise NotFoundError ''policy artifact not found'' | Some r \<Rightarrow> ret r)"

definition same_artifact :: "string \<Rightarrow> string \<Rightarrow> string \<Rightarrow> string \<Rightarrow> json \<Rightarrow> artifact_row \<Rightarrow> bool" where
  \<comment> \<open>\<open>actual != expected\<close>\<close>
  "same_artifact policy_name version content_sha256 artifact_uri metadata r \<longleftrightarrow>
     ar_policy_name r = policy_name \<and> ar_version r = version \<and> ar_content_sha256 r = content_sha256
     \<and> ar_artifact_uri r = artifact_uri \<and> ar_metadata_json r = metadata"

definition register_policy_artifact ::
  "string \<Rightarrow> string \<Rightarrow> string \<Rightarrow> string \<Rightarrow> string \<Rightarrow> string \<Rightarrow> json option
     \<Rightarrow> ('z world_scheme, artifact_row) action" where
  "register_policy_artifact tenant_id artifact_id policy_name version content_sha256 artifact_uri metadata =
     andthen (required [tenant_id, artifact_id, policy_name, version, artifact_uri])
     (andthen (check_sha256 content_sha256)
     (bind (lift (json_text (case metadata of None \<Rightarrow> JObj [] | Some m \<Rightarrow> m))) (\<lambda>metadata_json.
      bind now (\<lambda>t.
      bind (transaction
        (bind (query (artifact_at tenant_id artifact_id)) (\<lambda>existing.
         case existing of
           Some r \<Rightarrow>
             andthen (require (same_artifact policy_name version content_sha256 artifact_uri metadata_json r)
                        ConflictError ''artifact ID is bound to different immutable content'')
               (ret (Some r))
         | None \<Rightarrow>
             andthen (bind_ints [t])
             (bind (query (\<lambda>d. row_at version_key (tenant_id, policy_name, version) (policy_artifacts d))) (\<lambda>clash.
              andthen (require (clash = None) ConflictError ''policy version already exists'')
              (andthen (exec (\<lambda>d. d\<lparr>policy_artifacts := policy_artifacts d @
                 [\<lparr>ar_tenant_id = tenant_id, ar_artifact_id = artifact_id, ar_policy_name = policy_name,
                   ar_version = version, ar_content_sha256 = content_sha256, ar_artifact_uri = artifact_uri,
                   ar_metadata_json = metadata_json, ar_registered_at = t\<rparr>]\<rparr>))
               (ret None))))))) (\<lambda>early.
      \<comment> \<open>the \<open>return\<close> inside the \<open>with\<close> block, or the read after it\<close>
      case early of Some r \<Rightarrow> ret r | None \<Rightarrow> get_policy_artifact tenant_id artifact_id)))))"

section \<open>Training provenance\<close>

definition training_at :: "string \<Rightarrow> string \<Rightarrow> db \<Rightarrow> training_row option" where
  "training_at tenant_id training_id d = row_at training_key (tenant_id, training_id) (training_runs d)"

definition record_training_run ::
  "string \<Rightarrow> string \<Rightarrow> string \<Rightarrow> string \<Rightarrow> string \<Rightarrow> int \<Rightarrow> json \<Rightarrow> ('z world_scheme, training_row) action" where
  "record_training_run tenant_id training_id policy_name artifact_id trained_by lease_fencing_token report =
     andthen (required [tenant_id, training_id, policy_name, artifact_id, trained_by])
     (andthen (positive_int lease_fencing_token)
     (bind (lift (json_text report)) (\<lambda>report_json.
      bind now (\<lambda>t.
      transaction
        (bind (query (training_at tenant_id training_id)) (\<lambda>existing.
         case existing of
           Some r \<Rightarrow>
             andthen (require (tr_policy_name r = policy_name \<and> tr_artifact_id r = artifact_id
                        \<and> tr_trained_by r = trained_by \<and> tr_lease_fencing_token r = lease_fencing_token
                        \<and> tr_report_json r = report_json)
                        ConflictError ''training ID is bound to different immutable provenance'')
               (ret r)
         | None \<Rightarrow>
             bind (query (artifact_at tenant_id artifact_id)) (\<lambda>artifact.
             case artifact of
               None \<Rightarrow> raise NotFoundError ''trained policy artifact not found''
             | Some a \<Rightarrow>
                 andthen (require (ar_policy_name a = policy_name) ConflictError
                            ''trained artifact belongs to a different policy'')
                 (andthen (bind_ints [lease_fencing_token, t])
                 (andthen (exec (\<lambda>d. d\<lparr>training_runs := training_runs d @
                    [\<lparr>tr_tenant_id = tenant_id, tr_training_id = training_id, tr_policy_name = policy_name,
                      tr_artifact_id = artifact_id, tr_trained_by = trained_by,
                      tr_lease_fencing_token = lease_fencing_token, tr_report_json = report_json,
                      tr_created_at = t\<rparr>]\<rparr>))
                 (bind (query (training_at tenant_id training_id)) (\<lambda>row.
                    case row of None \<Rightarrow> raise TypeError ''NoneType is not iterable'' | Some r \<Rightarrow> ret r)))))))))))"

definition list_training_runs ::
  "string \<Rightarrow> string \<Rightarrow> int \<Rightarrow> ('z world_scheme, training_row list) action" where
  "list_training_runs tenant_id artifact_id limit =
     andthen (required [tenant_id, artifact_id])
     (andthen (positive_limit limit)
     (query (\<lambda>d. take (nat limit) (sort_key tr_created_at (sort_key tr_training_id (filter (\<lambda>r.
        tr_tenant_id r = tenant_id \<and> tr_artifact_id r = artifact_id) (training_runs d)))))))"

definition training_producers :: "string \<Rightarrow> string \<Rightarrow> ('z world_scheme, string set) action" where
  "training_producers tenant_id artifact_id =
     andthen (required [tenant_id, artifact_id])
     (query (\<lambda>d. set (map tr_trained_by (filter (\<lambda>r.
        tr_tenant_id r = tenant_id \<and> tr_artifact_id r = artifact_id) (training_runs d)))))"

section \<open>Champions\<close>

definition champion_at :: "string \<Rightarrow> string \<Rightarrow> db \<Rightarrow> champion_row option" where
  "champion_at tenant_id policy_name d = row_at champion_key (tenant_id, policy_name) (champion_registry d)"

definition generation_key :: "promotion \<Rightarrow> string \<times> string \<times> int" where
  \<comment> \<open>\<open>UNIQUE (tenant_id, policy_name, generation)\<close>\<close>
  "generation_key r = (pr_tenant_id r, pr_policy_name r, pr_generation r)"

definition upsert_champion :: "champion_row \<Rightarrow> champion_row list \<Rightarrow> champion_row list" where
  \<comment> \<open>\<open>INSERT ... ON CONFLICT(tenant_id,policy_name) DO UPDATE\<close>\<close>
  "upsert_champion c t =
     (case row_at champion_key (champion_key c) t of
        None \<Rightarrow> t @ [c] | Some _ \<Rightarrow> update_at champion_key (champion_key c) (\<lambda>_. c) t)"

definition champion_id :: "string \<Rightarrow> string \<Rightarrow> db \<Rightarrow> string option" where
  "champion_id tenant_id policy_name d = map_option ch_artifact_id (champion_at tenant_id policy_name d)"

definition new_champion :: "string \<Rightarrow> string \<Rightarrow> string \<Rightarrow> int \<Rightarrow> int \<Rightarrow> champion_row" where
  "new_champion tenant_id policy_name artifact_id generation t =
     \<lparr>ch_tenant_id = tenant_id, ch_policy_name = policy_name, ch_artifact_id = artifact_id,
      ch_generation = generation, ch_promoted_at = t\<rparr>"

definition new_promotion ::
  "string \<Rightarrow> string \<Rightarrow> string \<Rightarrow> string \<Rightarrow> string option \<Rightarrow> int \<Rightarrow> string \<Rightarrow> string \<Rightarrow> string option \<Rightarrow> int
     \<Rightarrow> promotion" where
  "new_promotion audit_id tenant_id policy_name artifact_id current_id generation decided_by reason
       benchmark_receipt_id t =
     \<lparr>pr_audit_id = audit_id, pr_tenant_id = tenant_id, pr_policy_name = policy_name,
      pr_artifact_id = artifact_id, pr_previous_artifact_id = current_id,
      pr_generation = generation, pr_decided_by = decided_by, pr_reason = reason,
      pr_benchmark_receipt_id = benchmark_receipt_id, pr_promoted_at = t\<rparr>"

definition promote_policy ::
  "string \<Rightarrow> string \<Rightarrow> string \<Rightarrow> string option \<Rightarrow> string \<Rightarrow> string \<Rightarrow> string option \<Rightarrow> string option
     \<Rightarrow> ('z world_scheme, promotion) action" where
  "promote_policy tenant_id policy_name artifact_id expected_current_artifact_id decided_by reason
       benchmark_receipt_id audit_id_arg =
     andthen (required [tenant_id, policy_name, artifact_id, decided_by, reason])
     (bind now (\<lambda>t.
      bind (or_uuid audit_id_arg) (\<lambda>audit_id.
      transaction
        (bind (query (artifact_at tenant_id artifact_id)) (\<lambda>artifact.
         case artifact of
           None \<Rightarrow> raise NotFoundError ''candidate policy artifact not found''
         | Some a \<Rightarrow>
             andthen (require (ar_policy_name a = policy_name) ConflictError
                        ''artifact belongs to a different policy'')
             (bind (query (champion_at tenant_id policy_name)) (\<lambda>current.
              let current_id = map_option ch_artifact_id current in
              andthen (require (expected_current_artifact_id = current_id) ConflictError
                         ''champion differs from the expected artifact'')
              (if current_id = Some artifact_id then
                 bind (query (\<lambda>d. row_at generation_key
                         (tenant_id, policy_name, case current of None \<Rightarrow> 0 | Some c \<Rightarrow> ch_generation c)
                         (promotion_audit d))) (\<lambda>audit.
                 case audit of None \<Rightarrow> raise TypeError ''NoneType is not iterable'' | Some p \<Rightarrow> ret p)
               else
                 (let generation = (case current of None \<Rightarrow> 1 | Some c \<Rightarrow> ch_generation c + 1);
                      row = new_promotion audit_id tenant_id policy_name artifact_id current_id generation
                              decided_by reason benchmark_receipt_id t in
                  andthen (bind_ints [generation, t])
                  (andthen (exec (\<lambda>d. d\<lparr>champion_registry := upsert_champion
                     (new_champion tenant_id policy_name artifact_id generation t) (champion_registry d)\<rparr>))
                  (bind (query (\<lambda>d. list_ex (\<lambda>r. promotion_key r = promotion_key row
                           \<or> generation_key r = generation_key row) (promotion_audit d))) (\<lambda>clash.
                   andthen (require (\<not> clash) ConflictError ''promotion audit identity already exists'')
                   (andthen (exec (\<lambda>d. d\<lparr>promotion_audit := promotion_audit d @ [row]\<rparr>))
                   (bind (query (\<lambda>d. row_at promotion_key (tenant_id, audit_id) (promotion_audit d))) (\<lambda>audit.
                    case audit of None \<Rightarrow> raise TypeError ''NoneType is not iterable'' | Some p \<Rightarrow> ret p)))))))))))))))"

definition get_champion ::
  "string \<Rightarrow> string \<Rightarrow> ('z world_scheme, (champion_row \<times> artifact_row) option) action" where
  "get_champion tenant_id policy_name =
     query (\<lambda>d. case champion_at tenant_id policy_name d of
        None \<Rightarrow> None
      | Some c \<Rightarrow> map_option (\<lambda>a. (c, a)) (artifact_at tenant_id (ch_artifact_id c) d))"

definition get_promotion_at_generation ::
  "string \<Rightarrow> string \<Rightarrow> int \<Rightarrow> ('z world_scheme, promotion option) action" where
  "get_promotion_at_generation tenant_id policy_name generation =
     andthen (require (1 \<le> generation) ValueError ''generation must be a positive integer'')
     (andthen (bind_ints [generation])
     (query (\<lambda>d. row_at generation_key (tenant_id, policy_name, generation) (promotion_audit d))))"

definition list_promotion_audit ::
  "string \<Rightarrow> string \<Rightarrow> int \<Rightarrow> ('z world_scheme, promotion list) action" where
  "list_promotion_audit tenant_id policy_name limit =
     andthen (positive_limit limit)
     (query (\<lambda>d. take (nat limit) (sort_key pr_generation (filter (\<lambda>r.
        pr_tenant_id r = tenant_id \<and> pr_policy_name r = policy_name) (promotion_audit d)))))"

section \<open>The audit as a history of champions\<close>

definition history :: "string \<Rightarrow> string \<Rightarrow> db \<Rightarrow> promotion list" where
  "history x p d = filter (\<lambda>r. pr_tenant_id r = x \<and> pr_policy_name r = p) (promotion_audit d)"

definition history_ok :: "promotion list \<Rightarrow> bool" where
  \<comment> \<open>generations count from 1 and every promotion names its predecessor\<close>
  "history_ok h \<longleftrightarrow>
     map pr_generation h = map int [1..<Suc (length h)] \<and>
     map pr_previous_artifact_id h = take (length h) (None # map (\<lambda>r. Some (pr_artifact_id r)) h)"

definition registry_ok :: "string \<Rightarrow> string \<Rightarrow> db \<Rightarrow> bool" where
  \<comment> \<open>the registry is the last entry of the audit\<close>
  "registry_ok x p d \<longleftrightarrow> history_ok (history x p d) \<and>
     (case champion_at x p d of
        None \<Rightarrow> history x p d = []
      | Some c \<Rightarrow> history x p d \<noteq> [] \<and> ch_artifact_id c = pr_artifact_id (last (history x p d))
          \<and> ch_generation c = int (length (history x p d)))"

definition registered :: "db \<Rightarrow> string \<Rightarrow> string \<Rightarrow> string \<Rightarrow> bool" where
  "registered d x p a \<longleftrightarrow> (\<exists>r. artifact_at x a d = Some r \<and> ar_policy_name r = p)"

definition policies_ok :: "db \<Rightarrow> bool" where
  "policies_ok d \<longleftrightarrow>
     uniq_rows artifact_key (policy_artifacts d) \<and> uniq_rows version_key (policy_artifacts d) \<and>
     uniq_rows training_key (training_runs d) \<and> uniq_rows champion_key (champion_registry d) \<and>
     uniq_rows promotion_key (promotion_audit d) \<and> uniq_rows generation_key (promotion_audit d) \<and>
     (\<forall>r \<in> set (training_runs d). registered d (tr_tenant_id r) (tr_policy_name r) (tr_artifact_id r)) \<and>
     (\<forall>r \<in> set (promotion_audit d). registered d (pr_tenant_id r) (pr_policy_name r) (pr_artifact_id r)) \<and>
     (\<forall>x p. registry_ok x p d)"

interpretation version_rows: keyed_rows version_key .
interpretation generation_rows: keyed_rows generation_key .

lemma policy_row_keys [simp]:
  "champion_key (new_champion x p a g t) = (x, p)"
  "promotion_key (new_promotion i x p a c g by rs b t) = (x, i)"
  "generation_key (new_promotion i x p a c g by rs b t) = (x, p, g)"
  "ch_artifact_id (new_champion x p a g t) = a" "ch_generation (new_champion x p a g t) = g"
  "pr_tenant_id (new_promotion i x p a c g by rs b t) = x" "pr_policy_name (new_promotion i x p a c g by rs b t) = p"
  "pr_artifact_id (new_promotion i x p a c g by rs b t) = a" "pr_generation (new_promotion i x p a c g by rs b t) = g"
  "pr_previous_artifact_id (new_promotion i x p a c g by rs b t) = c"
  by (simp_all add: new_champion_def new_promotion_def row_keys generation_key_def)

lemma history_ok_snoc:
  "history_ok (h @ [r]) \<longleftrightarrow> history_ok h \<and> pr_generation r = int (length h) + 1 \<and>
     pr_previous_artifact_id r = (if h = [] then None else Some (pr_artifact_id (last h)))"
  by (cases h rule: rev_cases) (auto simp: history_ok_def)

lemma champion_at_upsert:
  assumes "uniq_rows champion_key (champion_registry d)"
  shows "champion_at x p (d\<lparr>champion_registry := upsert_champion (new_champion y q a g t) (champion_registry d)\<rparr>)
    = (if (x, p) = (y, q) then Some (new_champion y q a g t) else champion_at x p d)"
proof (cases "row_at champion_key (y, q) (champion_registry d)")
  case None
  then show ?thesis
    by (auto simp: champion_at_def upsert_champion_def champion_rows.row_at_append split: option.splits)
next
  case (Some c)
  let ?c = "new_champion y q a g t"
  have f: "update_at champion_key (y, q) (\<lambda>_. ?c) T = update_at champion_key (y, q)
      (\<lambda>r. if champion_key r = (y, q) then ?c else r) T" for T
    by (simp add: update_at_def)
  have k: "champion_key (if champion_key r = (y, q) then ?c else r) = champion_key r" for r by simp
  have "row_at champion_key (x, p) (update_at champion_key (y, q)
      (\<lambda>r. if champion_key r = (y, q) then ?c else r) (champion_registry d)) =
      (if (x, p) = (y, q) then Some ?c else row_at champion_key (x, p) (champion_registry d))"
    using Some champion_rows.row_at_Some [OF Some] by (auto simp: champion_rows.row_at_update [OF k])
  then have "row_at champion_key (x, p) (update_at champion_key (y, q) (\<lambda>_. ?c) (champion_registry d)) =
      (if (x, p) = (y, q) then Some ?c else row_at champion_key (x, p) (champion_registry d))"
    by (subst f)
  then show ?thesis
    using Some by (simp add: champion_at_def upsert_champion_def)
qed

lemma uniq_upsert_champion:
  "uniq_rows champion_key t \<Longrightarrow> uniq_rows champion_key (upsert_champion (new_champion y q a g s) t)"
proof (cases "row_at champion_key (y, q) t")
  case (Some c)
  assume u: "uniq_rows champion_key t"
  have "uniq_rows champion_key (map (\<lambda>r. if champion_key r = (y, q) then new_champion y q a g s else r) t)
    = uniq_rows champion_key t"
    by (rule champion_rows.uniq_map) simp
  with Some u show ?thesis by (simp add: upsert_champion_def update_at_def)
qed (simp add: upsert_champion_def champion_rows.uniq_append)

section \<open>What the operations do\<close>

lemma policy_reads [aon_intros]:
  "reads_only (get_policy_artifact x a)" "reads_only (list_training_runs x a limit)"
  "reads_only (training_producers x a)" "reads_only (get_champion x p)"
  "reads_only (get_promotion_at_generation x p g)" "reads_only (list_promotion_audit x p limit)"
  unfolding get_policy_artifact_def list_training_runs_def training_producers_def get_champion_def
    get_promotion_at_generation_def list_promotion_audit_def
  by (intro aon_intros)+

lemma register_Inr:
  assumes "register_policy_artifact x a p ver sha uri meta w = (Inr r, w')"
  obtains (existing) "artifact_at x a (db w) = Some r" "db w' = db w"
      "same_artifact p ver sha uri (canon (case meta of None \<Rightarrow> JObj [] | Some m \<Rightarrow> m)) r"
    | (inserted) "artifact_at x a (db w) = None" "artifact_key r = (x, a)" "version_key r = (x, p, ver)"
      "row_at version_key (x, p, ver) (policy_artifacts (db w)) = None" "is_sha256 sha"
      "same_artifact p ver sha uri (canon (case meta of None \<Rightarrow> JObj [] | Some m \<Rightarrow> m)) r"
      "db w' = (db w)\<lparr>policy_artifacts := policy_artifacts (db w) @ [r]\<rparr>"
proof (cases "artifact_at x a (db w)")
  case None
  let ?r = "\<lparr>ar_tenant_id = x, ar_artifact_id = a, ar_policy_name = p, ar_version = ver,
    ar_content_sha256 = sha, ar_artifact_uri = uri,
    ar_metadata_json = canon (case meta of None \<Rightarrow> JObj [] | Some m \<Rightarrow> m),
    ar_registered_at = clock w (clock_reads w)\<rparr>"
  have k: "artifact_key ?r = (x, a)" by (simp add: artifact_key_def)
  have "artifact_at x a ((db w)\<lparr>policy_artifacts := policy_artifacts (db w) @ [?r]\<rparr>) = Some ?r"
    using None k by (simp add: artifact_at_def artifact_rows.row_at_append)
  with assms None have *: "r = ?r" "db w' = (db w)\<lparr>policy_artifacts := policy_artifacts (db w) @ [?r]\<rparr>"
      "row_at version_key (x, p, ver) (policy_artifacts (db w)) = None" "is_sha256 sha"
    by (auto simp: register_policy_artifact_def get_policy_artifact_def result_iff json_text_def)
  show thesis
    by (rule inserted) (use None * in \<open>simp_all add: artifact_key_def version_key_def same_artifact_def\<close>)
next
  case (Some s)
  with assms show thesis
    by (intro existing) (auto simp: register_policy_artifact_def result_iff json_text_def)
qed

lemma record_training_Inr:
  assumes "record_training_run x i p a who tok rep w = (Inr r, w')"
  obtains (existing) "training_at x i (db w) = Some r" "db w' = db w" "tr_artifact_id r = a" "tr_trained_by r = who"
    | (inserted) "training_at x i (db w) = None" "training_key r = (x, i)" "tr_policy_name r = p"
      "tr_artifact_id r = a" "tr_trained_by r = who" "0 < tok" "registered (db w) x p a"
      "db w' = (db w)\<lparr>training_runs := training_runs (db w) @ [r]\<rparr>"
proof (cases "training_at x i (db w)")
  case None
  let ?r = "\<lparr>tr_tenant_id = x, tr_training_id = i, tr_policy_name = p, tr_artifact_id = a,
    tr_trained_by = who, tr_lease_fencing_token = tok, tr_report_json = canon rep,
    tr_created_at = clock w (clock_reads w)\<rparr>"
  have k: "training_key ?r = (x, i)" by (simp add: training_key_def)
  have at: "training_at x i ((db w)\<lparr>training_runs := training_runs (db w) @ [?r]\<rparr>) = Some ?r"
    using None k by (simp add: training_at_def training_rows.row_at_append)
  from assms None obtain art where art: "artifact_at x a (db w) = Some art"
    by (cases "artifact_at x a (db w)") (auto simp: record_training_run_def result_iff)
  from assms None art at have "ar_policy_name art = p" "0 < tok" "r = ?r"
      "db w' = (db w)\<lparr>training_runs := training_runs (db w) @ [?r]\<rparr>"
    by (auto simp: record_training_run_def result_iff json_text_def)
  with None art show thesis
    by (intro inserted) (simp_all add: training_key_def registered_def)
next
  case (Some s)
  with assms show thesis
    by (intro existing) (auto simp: record_training_run_def result_iff)
qed

lemma promote_Inr:
  assumes "promote_policy x p a expd who reason rc aid w = (Inr r, w')"
  obtains (repeated) "champion_id x p (db w) = Some a" "expd = Some a" "registered (db w) x p a" "db w' = db w"
      "r \<in> set (promotion_audit (db w))"
    | (promoted) g t where "registered (db w) x p a" "expd = champion_id x p (db w)" "expd \<noteq> Some a"
      "g = (case champion_at x p (db w) of None \<Rightarrow> 1 | Some c \<Rightarrow> ch_generation c + 1)"
      "\<forall>s \<in> set (promotion_audit (db w)). promotion_key s \<noteq> promotion_key r \<and> generation_key s \<noteq> generation_key r"
      "pr_tenant_id r = x" "pr_policy_name r = p" "pr_artifact_id r = a" "pr_previous_artifact_id r = expd"
      "pr_generation r = g" "pr_decided_by r = who" "pr_benchmark_receipt_id r = rc" "pr_reason r = reason"
      "db w' = (db w)\<lparr>champion_registry := upsert_champion (new_champion x p a g t) (champion_registry (db w)),
                      promotion_audit := promotion_audit (db w) @ [r]\<rparr>"
proof -
  from assms obtain art where art: "artifact_at x a (db w) = Some art"
  proof (cases "artifact_at x a (db w)")
    case None
    with assms show ?thesis
      by (auto simp: promote_policy_def result_iff or_uuid_def split: option.splits list.splits)
  qed
  define t where "t = clock w (clock_reads w)"
  define g where "g = (case champion_at x p (db w) of None \<Rightarrow> 1 | Some c \<Rightarrow> ch_generation c + 1)"
  from assms obtain i w1 where i: "or_uuid aid (w\<lparr>clock_reads := Suc (clock_reads w)\<rparr>) = (Inr i, w1)"
    by (auto simp: promote_policy_def result_iff)
  have db1: "db w1 = db w" using or_uuid_db [OF i] by simp
  define row where "row = new_promotion i x p a (champion_id x p (db w)) g who reason rc t"
  have key: "promotion_key row = (x, i)" by (simp add: row_def)
  show thesis
  proof (cases "champion_id x p (db w) = Some a")
    case True
    with assms i db1 art show thesis
      by (intro repeated)
         (auto simp: promote_policy_def result_iff registered_def champion_id_def Let_def
           split: option.splits dest!: generation_rows.row_at_Some)
  next
    case False
    with assms i db1 art have
      p: "ar_policy_name art = p" "expd = champion_id x p (db w)"
      and clash: "\<not> list_ex (\<lambda>r. promotion_key r = promotion_key row \<or> generation_key r = generation_key row)
          (promotion_audit (db w))"
      and r: "row_at promotion_key (x, i) (promotion_audit (db w) @ [row]) = Some r"
      and w': "db w' = (db w)\<lparr>champion_registry := upsert_champion (new_champion x p a g t) (champion_registry (db w)),
                      promotion_audit := promotion_audit (db w) @ [row]\<rparr>"
      by (auto simp: promote_policy_def result_iff Let_def champion_id_def row_def g_def t_def split: option.splits)
    have "row_at promotion_key (x, i) (promotion_audit (db w)) = None"
      using clash key by (auto simp: promotion_rows.row_at_None list_ex_iff)
    with r key have r': "r = row" by (simp add: promotion_rows.row_at_append)
    show thesis
      by (rule promoted [of g t])
         (use p False clash w' art in \<open>auto simp: r' g_def registered_def list_ex_iff row_def new_promotion_def\<close>)
  qed
qed

section \<open>The invariant\<close>

lemma get_policy_artifact_Inr_iff [result_iff]:
  "get_policy_artifact x a w = (Inr r, w') \<longleftrightarrow> artifact_at x a (db w) = Some r \<and> w' = w"
  by (auto simp: get_policy_artifact_def result_iff split: option.splits)

lemma register_aon [aon_intros]: "all_or_nothing (register_policy_artifact x a p ver sha uri meta)"
  unfolding register_policy_artifact_def
proof (intro aon_andthen aon_bind [where m = "lift _"] aon_bind [where m = now] reads_only_pure
    aon_bind_tail aon_transaction)
  fix j t and w :: "'a world_scheme" and early w'
  assume run: "transaction
        (bind (query (artifact_at x a)) (\<lambda>existing.
         case existing of
           Some r \<Rightarrow>
             andthen (require (same_artifact p ver sha uri j r)
                        ConflictError ''artifact ID is bound to different immutable content'')
               (ret (Some r))
         | None \<Rightarrow>
             andthen (bind_ints [t])
             (bind (query (\<lambda>d. row_at version_key (x, p, ver) (policy_artifacts d))) (\<lambda>clash.
              andthen (require (clash = None) ConflictError ''policy version already exists'')
              (andthen (exec (\<lambda>d. d\<lparr>policy_artifacts := policy_artifacts d @
                 [\<lparr>ar_tenant_id = x, ar_artifact_id = a, ar_policy_name = p,
                   ar_version = ver, ar_content_sha256 = sha, ar_artifact_uri = uri,
                   ar_metadata_json = j, ar_registered_at = t\<rparr>]\<rparr>))
               (ret None)))))) w = (Inr early, w')"
  show "\<exists>y v. (case early of None \<Rightarrow> get_policy_artifact x a | Some r \<Rightarrow> ret r) w' = (Inr y, v)"
  proof (cases "artifact_at x a (db w)")
    case None
    with run show ?thesis
      by (auto simp: result_iff artifact_at_def artifact_rows.row_at_append artifact_key_def)
  next
    case (Some r)
    with run have "early = Some r" by (auto simp: result_iff)
    then show ?thesis by simp
  qed
qed

lemma record_training_aon [aon_intros]: "all_or_nothing (record_training_run x i p a who tok rep)"
  unfolding record_training_run_def by (intro aon_andthen aon_bind reads_only_pure aon_transaction)

lemma promote_aon [aon_intros]: "all_or_nothing (promote_policy x p a expd who reason rc aid)"
  unfolding promote_policy_def
  by (intro aon_andthen aon_bind reads_only_pure reads_only_or_uuid aon_transaction)

lemma policy_ops_ticks [keeps_intros]:
  "keeps (ticks c n) (register_policy_artifact x a p ver sha uri meta)"
  "keeps (ticks c n) (record_training_run x i p a who tok rep)"
  "keeps (ticks c n) (promote_policy x p a expd who reason rc aid)"
  unfolding register_policy_artifact_def record_training_run_def promote_policy_def get_policy_artifact_def Let_def
  by (intro keeps_intros)+

lemma registered_append:
  "artifact_at x a d = None \<Longrightarrow> artifact_key r = (x, a) \<Longrightarrow> registered d y p b \<Longrightarrow>
   registered (d\<lparr>policy_artifacts := policy_artifacts d @ [r]\<rparr>) y p b"
  by (auto simp: registered_def artifact_at_def artifact_rows.row_at_append)

lemma registered_cong:
  "policy_artifacts d' = policy_artifacts d \<Longrightarrow> registered d' x p a = registered d x p a"
  by (simp add: registered_def artifact_at_def)

lemma registry_ok_cong:
  "promotion_audit d' = promotion_audit d \<Longrightarrow> champion_registry d' = champion_registry d \<Longrightarrow>
   registry_ok x p d' = registry_ok x p d"
  by (simp add: registry_ok_def history_def champion_at_def cong: option.case_cong)

lemma register_keeps: "keeps_db policies_ok (register_policy_artifact x a p ver sha uri meta)"
proof (rule keeps_db_from_success [OF register_aon])
  fix w :: "'a world_scheme" and r w'
  assume ok: "policies_ok (db w)" and run: "register_policy_artifact x a p ver sha uri meta w = (Inr r, w')"
  from run show "policies_ok (db w')"
  proof (cases rule: register_Inr)
    case existing
    with ok show ?thesis by simp
  next
    case inserted
    note reg = registered_append [OF inserted(1,2)]
    from ok inserted(1-4) show ?thesis
      unfolding policies_ok_def inserted(7)
      by (simp add: artifact_rows.uniq_append version_rows.uniq_append artifact_at_def reg
          registry_ok_cong [of "(db w)\<lparr>policy_artifacts := _\<rparr>" "db w"])
  qed
qed

lemma record_training_keeps: "keeps_db policies_ok (record_training_run x i p a who tok rep)"
proof (rule keeps_db_from_success [OF record_training_aon])
  fix w :: "'a world_scheme" and r w'
  assume ok: "policies_ok (db w)" and run: "record_training_run x i p a who tok rep w = (Inr r, w')"
  from run show "policies_ok (db w')"
  proof (cases rule: record_training_Inr)
    case existing
    with ok show ?thesis by simp
  next
    case inserted
    from inserted(2) have "tr_tenant_id r = x" by (simp add: training_key_def)
    with ok inserted(1-7) show ?thesis
      unfolding policies_ok_def inserted(8)
      by (simp add: training_rows.uniq_append training_at_def
          registered_cong [of "(db w)\<lparr>training_runs := _\<rparr>" "db w"]
          registry_ok_cong [of "(db w)\<lparr>training_runs := _\<rparr>" "db w"])
  qed
qed

lemma registry_ok_promoted:
  assumes ok: "policies_ok d" and g: "g = (case champion_at x p d of None \<Rightarrow> 1 | Some c \<Rightarrow> ch_generation c + 1)"
    and r: "pr_tenant_id r = x" "pr_policy_name r = p" "pr_artifact_id r = a"
      "pr_previous_artifact_id r = champion_id x p d" "pr_generation r = g"
  shows "registry_ok y q (d\<lparr>champion_registry := upsert_champion (new_champion x p a g t) (champion_registry d),
                      promotion_audit := promotion_audit d @ [r]\<rparr>)" (is "registry_ok y q ?d")
proof -
  have u: "uniq_rows champion_key (champion_registry d)" and reg: "registry_ok y q d" for y q
    using ok by (auto simp: policies_ok_def)
  have at: "champion_at y q ?d = (if (y, q) = (x, p) then Some (new_champion x p a g t) else champion_at y q d)"
    using champion_at_upsert [OF u, of y q x p a g t] by (simp add: champion_at_def)
  have h: "history y q ?d = history y q d @ (if (y, q) = (x, p) then [r] else [])"
    using r by (auto simp: history_def)
  show ?thesis
  proof (cases "(y, q) = (x, p)")
    case True
    with reg [of x p] g r have "history_ok (history x p d @ [r])" "g = int (length (history x p d)) + 1"
      by (auto simp: registry_ok_def history_ok_snoc champion_id_def split: option.splits)
    with True at h r show ?thesis by (simp add: registry_ok_def)
  next
    case False
    with reg [of y q] at h show ?thesis by (auto simp: registry_ok_def split: option.splits)
  qed
qed

lemma promote_keeps: "keeps_db policies_ok (promote_policy x p a expd who reason rc aid)"
proof (rule keeps_db_from_success [OF promote_aon])
  fix w :: "'a world_scheme" and r w'
  assume ok: "policies_ok (db w)" and run: "promote_policy x p a expd who reason rc aid w = (Inr r, w')"
  from run show "policies_ok (db w')"
  proof (cases rule: promote_Inr)
    case repeated
    with ok show ?thesis by simp
  next
    case (promoted g t)
    have reg: "registry_ok y q (db w')" for y q
      unfolding promoted(14)
      by (rule registry_ok_promoted [OF ok promoted(4,6-8) _ promoted(10)]) (simp add: promoted(2,9))
    have fresh: "row_at promotion_key (promotion_key r) (promotion_audit (db w)) = None"
      "row_at generation_key (generation_key r) (promotion_audit (db w)) = None"
      using promoted(5) by (auto simp: promotion_rows.row_at_None generation_rows.row_at_None)
    from ok promoted(1,6-8) fresh reg show ?thesis
      unfolding policies_ok_def
      by (simp add: promoted(14) uniq_upsert_champion promotion_rows.uniq_append generation_rows.uniq_append
          registered_cong [of "(db w)\<lparr>champion_registry := _, promotion_audit := _\<rparr>" "db w"])
  qed
qed

text \<open>Promotion is a compare-and-swap on the champion.\<close>

lemma promote_success:
  assumes ok: "policies_ok (db w)" and run: "promote_policy x p a expd who reason rc aid w = (Inr r, w')"
  shows "champion_id x p (db w) = expd" "champion_id x p (db w') = Some a" "registered (db w) x p a"
    "(y, q) \<noteq> (x, p) \<Longrightarrow> champion_at y q (db w') = champion_at y q (db w)"
    "history y q (db w') = history y q (db w) @ (if (y, q) = (x, p) \<and> expd \<noteq> Some a then [r] else [])"
proof -
  have u: "uniq_rows champion_key (champion_registry (db w))" using ok by (simp add: policies_ok_def)
  have "champion_id x p (db w) = expd \<and> champion_id x p (db w') = Some a \<and> registered (db w) x p a \<and>
    ((y, q) \<noteq> (x, p) \<longrightarrow> champion_at y q (db w') = champion_at y q (db w)) \<and>
    history y q (db w') = history y q (db w) @ (if (y, q) = (x, p) \<and> expd \<noteq> Some a then [r] else [])"
    using run
  proof (cases rule: promote_Inr)
    case (promoted g t)
    with champion_at_upsert [OF u, of x p x p a g t] champion_at_upsert [OF u, of y q x p a g t] show ?thesis
      by (auto simp: champion_id_def champion_at_def history_def)
  qed auto
  then show "champion_id x p (db w) = expd" "champion_id x p (db w') = Some a" "registered (db w) x p a"
    "(y, q) \<noteq> (x, p) \<Longrightarrow> champion_at y q (db w') = champion_at y q (db w)"
    "history y q (db w') = history y q (db w) @ (if (y, q) = (x, p) \<and> expd \<noteq> Some a then [r] else [])"
    by blast+
qed

lemma champion_of_history:
  assumes ok: "policies_ok (db w)"
  shows "registry_ok x p (db w)"
    "champion_id x p (db w) = (if history x p (db w) = [] then None else Some (pr_artifact_id (last (history x p (db w)))))"
    "\<exists>c. get_champion x p w = (Inr c, w) \<and> map_option (ar_artifact_id \<circ> snd) c = champion_id x p (db w)"
proof -
  show reg: "registry_ok x p (db w)" using ok by (simp add: policies_ok_def)
  then show id: "champion_id x p (db w) = (if history x p (db w) = [] then None else Some (pr_artifact_id (last (history x p (db w)))))"
    by (auto simp: registry_ok_def champion_id_def split: option.splits)
  show "\<exists>c. get_champion x p w = (Inr c, w) \<and> map_option (ar_artifact_id \<circ> snd) c = champion_id x p (db w)"
  proof (cases "champion_at x p (db w)")
    case None
    then show ?thesis by (simp add: get_champion_def champion_id_def)
  next
    case (Some c)
    with reg have h: "history x p (db w) \<noteq> []" "ch_artifact_id c = pr_artifact_id (last (history x p (db w)))"
      by (auto simp: registry_ok_def)
    then have "last (history x p (db w)) \<in> set (history x p (db w))" by simp
    then have "registered (db w) x p (ch_artifact_id c)"
      using ok unfolding h(2) by (auto simp: history_def policies_ok_def)
    then obtain a where a: "artifact_at x (ch_artifact_id c) (db w) = Some a" by (auto simp: registered_def)
    then have "ar_artifact_id a = ch_artifact_id c"
      by (auto simp: artifact_at_def artifact_key_def dest!: artifact_rows.row_at_Some)
    with a Some show ?thesis by (simp add: get_champion_def champion_id_def)
  qed
qed

end
