(* ===== verification/Store.thy ===== *)
theory Store
  imports StoreBudgets StoreLeases StoreIdempotency StoreEvents StoreReceipts StorePolicies
begin

text \<open>
  The whole \<open>SQLiteStore\<close> (\<open>src/agent_tree_rl/store.py\<close>): migrations, recovery at startup, and the
  transition system whose steps are all the public methods that change the database, with any
  arguments and any outcome. The invariant of the store, the append-only logs, fencing, the
  retention of nonces and idempotency records are proved for every reachable state.
\<close>

section \<open>Migrations\<close>

definition SCHEMA_VERSION :: int where "SCHEMA_VERSION = 1"

definition schema_version :: "db \<Rightarrow> int" where
  \<comment> \<open>\<open>SELECT COALESCE(MAX(version), 0) FROM schema_migrations\<close>\<close>
  "schema_version d = foldr (\<lambda>r m. max (fst r) m) (schema_migrations d) 0"

definition apply_migrations :: "('z world_scheme, unit) action" where
  \<comment> \<open>\<open>_apply_migrations\<close>; the statements of a migration create the empty tables of \<open>empty_db\<close>\<close>
  "apply_migrations =
     transaction
       (bind (query schema_version) (\<lambda>current.
        andthen (require (current \<le> SCHEMA_VERSION) StoreConfigurationError
                   ''database schema is newer than supported'')
        (for_each (\<lambda>version.
           bind now (\<lambda>t.
           andthen (bind_ints [version, t])
             (exec (\<lambda>d. d\<lparr>schema_migrations := schema_migrations d @ [(version, t)]\<rparr>))))
          [current + 1..SCHEMA_VERSION])))"

section \<open>Recovery at startup\<close>

record recovery =
  failed_idempotency_records :: int
  released_budget_reservations :: int
  released_budget_units :: int
  released_leases :: int

definition interrupted :: json where
  "interrupted = canon (JObj [(''error_type'', JStr ''InterruptedOperation''), (''retry_safe'', JBool False)])"

definition interrupt_row :: "int \<Rightarrow> idempotency_row \<Rightarrow> idempotency_row" where
  "interrupt_row t r = r\<lparr>id_status := FAILED, id_result_json := Some interrupted, id_updated_at := t,
     id_expires_at := None\<rparr>"

definition clear_reserved :: "int \<Rightarrow> budget_row \<Rightarrow> budget_row" where
  "clear_reserved t b = b\<lparr>bd_reserved_units := 0, bd_version := bd_version b + 1, bd_updated_at := t\<rparr>"

definition interrupt_all :: "int \<Rightarrow> db \<Rightarrow> db" where
  "interrupt_all t d = d\<lparr>idempotency_records :=
     update_where (\<lambda>r. id_status r = IN_PROGRESS) (interrupt_row t) (idempotency_records d)\<rparr>"

definition release_all :: "int \<Rightarrow> db \<Rightarrow> db" where
  "release_all t d = d\<lparr>
     budget_reservations := update_where (\<lambda>r. rs_status r = RESERVED) (set_status RELEASED t) (budget_reservations d),
     budgets := update_where (\<lambda>b. 0 < bd_reserved_units b) (clear_reserved t) (budgets d)\<rparr>"

definition vacate_all :: "int \<Rightarrow> db \<Rightarrow> db" where
  "vacate_all t d = d\<lparr>leases := update_where (\<lambda>r. ls_holder_id r \<noteq> None) (vacate t) (leases d)\<rparr>"

definition open_reservations :: "db \<Rightarrow> reservation_row list" where
  "open_reservations d = filter (\<lambda>r. rs_status r = RESERVED) (budget_reservations d)"

definition reconcile_startup :: "('z world_scheme, recovery) action" where
  "reconcile_startup =
     bind now (\<lambda>t.
     transaction
       (bind (query (\<lambda>d. list_all (accounting_ok d) (budgets d))) (\<lambda>balanced.
        andthen (require balanced StoreError ''budget accounting mismatch; startup recovery aborted'')
        (bind (query (\<lambda>d. int (length (open_reservations d)))) (\<lambda>released_reservations.
         bind (query (\<lambda>d. sum_list (map rs_units (open_reservations d)))) (\<lambda>released_units.
         andthen (bind_ints [t])
         (bind (query (\<lambda>d. count_where (\<lambda>r. id_status r = IN_PROGRESS) (idempotency_records d))) (\<lambda>failed.
          andthen (exec (interrupt_all t))
          (andthen (if released_reservations \<noteq> 0 then exec (release_all t) else ret ())
          (bind (query (\<lambda>d. count_where (\<lambda>r. ls_holder_id r \<noteq> None) (leases d))) (\<lambda>released.
           andthen (exec (vacate_all t))
             (ret \<lparr>failed_idempotency_records = failed,
                   released_budget_reservations = released_reservations,
                   released_budget_units = released_units,
                   released_leases = released\<rparr>))))))))))))"

section \<open>What recovery leaves behind\<close>

definition recovered :: "int \<Rightarrow> db \<Rightarrow> db" where
  "recovered t d = vacate_all t ((if open_reservations d = [] then id else release_all t) (interrupt_all t d))"

lemma recovery_rows [simp]:
  "open_reservations (interrupt_all t d) = open_reservations d"
  by (simp add: open_reservations_def interrupt_all_def)

lemma reconcile_Inr:
  assumes "reconcile_startup w = (Inr rep, w')"
  shows "db w' = recovered (clock w (clock_reads w)) (db w)" "list_all (accounting_ok (db w)) (budgets (db w))"
    "clock w' = clock w" "clock_reads w' = Suc (clock_reads w)"
    "released_budget_units rep = sum_list (map rs_units (open_reservations (db w)))"
proof -
  have "db w' = recovered (clock w (clock_reads w)) (db w) \<and> list_all (accounting_ok (db w)) (budgets (db w)) \<and>
    clock w' = clock w \<and> clock_reads w' = Suc (clock_reads w) \<and>
    released_budget_units rep = sum_list (map rs_units (open_reservations (db w)))"
    using assms by (cases "open_reservations (db w) = []") (auto simp: reconcile_startup_def result_iff recovered_def)
  then show "db w' = recovered (clock w (clock_reads w)) (db w)" "list_all (accounting_ok (db w)) (budgets (db w))"
    "clock w' = clock w" "clock_reads w' = Suc (clock_reads w)"
    "released_budget_units rep = sum_list (map rs_units (open_reservations (db w)))" by blast+
qed

lemma reconcile_succeeds:
  assumes "budgets_ok (db w)" "sql_int (clock w (clock_reads w))"
  shows "\<exists>rep w'. reconcile_startup w = (Inr rep, w')"
  using assms
  by (auto simp: reconcile_startup_def budgets_ok_def list_all_iff bind_apply andthen_apply require_apply
      transaction_def bind_ints_def)

lemma reconcile_aon [aon_intros]: "all_or_nothing reconcile_startup"
  unfolding reconcile_startup_def by (intro aon_bind reads_only_pure aon_transaction)

lemma update_where_set: "set (update_where P f t) = (\<lambda>r. if P r then f r else r) ` set t"
  by (simp only: update_where_def set_map)

lemma recovery_row_keys [simp]:
  "idempotency_key (interrupt_row t r) = idempotency_key r" "budget_key (clear_reserved t b) = budget_key b"
  "idem_row_ok (interrupt_row t r)" "id_status (interrupt_row t r) = FAILED"
  by (simp_all add: interrupt_row_def clear_reserved_def row_keys idem_row_ok_def)

lemma ledger_sum_release_all:
  "ledger_sum RESERVED x y (release_all t d) = 0"
  "ledger_sum CONSUMED x y (release_all t d) = ledger_sum CONSUMED x y d"
proof -
  let ?g = "\<lambda>r. if rs_status r = RESERVED then set_status RELEASED t r else r"
  have "units_in RESERVED x y (?g r) = 0" "units_in CONSUMED x y (?g r) = units_in CONSUMED x y r" for r
    by (auto simp: units_in_def set_status_def)
  then have "map (\<lambda>r. units_in RESERVED x y (?g r)) rs = map (\<lambda>_. 0) rs"
    "map (\<lambda>r. units_in CONSUMED x y (?g r)) rs = map (units_in CONSUMED x y) rs" for rs by simp_all
  then show "ledger_sum RESERVED x y (release_all t d) = 0"
    "ledger_sum CONSUMED x y (release_all t d) = ledger_sum CONSUMED x y d"
    unfolding ledger_sum_def release_all_def update_where_def
    by (simp_all add: comp_def sum_list_0 del: map_eq_conv)
qed

lemma ledger_sum_no_open:
  assumes "open_reservations d = []"
  shows "ledger_sum RESERVED x y d = 0"
proof -
  have "units_in RESERVED x y r = 0" if "r \<in> set (budget_reservations d)" for r
    using assms that by (auto simp: open_reservations_def filter_empty_conv units_in_def)
  then have "map (units_in RESERVED x y) (budget_reservations d) = map (\<lambda>_. 0) (budget_reservations d)"
    by (simp add: map_eq_conv)
  then show ?thesis by (simp add: ledger_sum_def sum_list_0 del: map_eq_conv)
qed

lemma release_all_ok:
  assumes ok: "budgets_ok d"
  shows "budgets_ok (release_all t d)"
proof -
  let ?f = "\<lambda>b. if 0 < bd_reserved_units b then clear_reserved t b else b"
  let ?g = "\<lambda>r. if rs_status r = RESERVED then set_status RELEASED t r else r"
  define d' where "d' = release_all t d"
  have rows: "budgets d' = map ?f (budgets d)" "budget_reservations d' = map ?g (budget_reservations d)"
    by (simp_all add: d'_def release_all_def update_where_def)
  have "uniq_rows budget_key (budgets d')" "uniq_rows reservation_key (budget_reservations d')"
    using ok budget_rows.uniq_map [of "budgets d" ?f] reservation_rows.uniq_map [of "budget_reservations d" ?g]
    by (simp_all add: rows budgets_ok_def)
  moreover have "budget_check b' \<and> accounting_ok d' b'" if b': "b' \<in> set (budgets d')" for b'
  proof -
    from b' obtain b where b: "b \<in> set (budgets d)" "b' = ?f b" by (auto simp: rows)
    with ok have "budget_check b" "accounting_ok d b" by (auto simp: budgets_ok_def)
    with b(2) show ?thesis
      by (auto simp: d'_def accounting_ok_def budget_check_def ledger_sum_release_all clear_reserved_def)
  qed
  moreover have "0 < rs_units r' \<and> budget_at (rs_tenant_id r') (rs_budget_id r') d' \<noteq> None"
    if r': "r' \<in> set (budget_reservations d')" for r'
  proof -
    from r' obtain r where r: "r \<in> set (budget_reservations d)" "r' = ?g r" by (auto simp: rows)
    with ok have "0 < rs_units r" "budget_at (rs_tenant_id r) (rs_budget_id r) d \<noteq> None"
      by (auto simp: budgets_ok_def)
    moreover have "budget_key ` set (budgets d') = budget_key ` set (budgets d)"
      unfolding rows set_map image_comp by (rule image_cong) auto
    ultimately show ?thesis
      using r(2) by (auto simp: budget_at_def budget_rows.row_at_None set_status_def)
  qed
  ultimately show ?thesis unfolding d'_def [symmetric] budgets_ok_def by blast
qed

lemma budgets_ok_cong:
  "budgets d' = budgets d \<Longrightarrow> budget_reservations d' = budget_reservations d \<Longrightarrow> budgets_ok d' = budgets_ok d"
  by (simp add: budgets_ok_def accounting_ok_def ledger_sum_def budget_at_def)

lemma recovered_fields:
  "budgets (recovered t d) = (if open_reservations d = [] then budgets d else budgets (release_all t d))"
  "budget_reservations (recovered t d) =
     (if open_reservations d = [] then budget_reservations d else budget_reservations (release_all t d))"
  "idempotency_records (recovered t d) = idempotency_records (interrupt_all t d)"
  "leases (recovered t d) = leases (vacate_all t d)"
  "events (recovered t d) = events d" "last_sequence (recovered t d) = last_sequence d"
  "receipt_nonces (recovered t d) = receipt_nonces d" "evidence_receipts (recovered t d) = evidence_receipts d"
  "experience_receipts (recovered t d) = experience_receipts d" "policy_artifacts (recovered t d) = policy_artifacts d"
  "training_runs (recovered t d) = training_runs d" "champion_registry (recovered t d) = champion_registry d"
  "promotion_audit (recovered t d) = promotion_audit d" "schema_migrations (recovered t d) = schema_migrations d"
  by (simp_all add: recovered_def vacate_all_def release_all_def interrupt_all_def)

lemma recovered_budgets_ok: "budgets_ok d \<Longrightarrow> budgets_ok (recovered t d)"
  using release_all_ok [of d t] budgets_ok_cong [of "recovered t d" "release_all t d"]
    budgets_ok_cong [of "recovered t d" d]
  by (cases "open_reservations d = []") (simp_all add: recovered_fields)

lemma recovered_leases_ok: "leases_ok d \<Longrightarrow> leases_ok (recovered t d)"
  using lease_rows.uniq_map [of "leases d" "\<lambda>r. if ls_holder_id r \<noteq> None then vacate t r else r"]
  by (auto simp: leases_ok_def recovered_fields vacate_all_def update_where_def)

lemma recovered_idempotency_ok:
  assumes "idempotency_ok d" shows "idempotency_ok (recovered t d)"
proof -
  have "uniq_rows idempotency_key (idempotency_records (recovered t d))"
    using assms idempotency_rows.uniq_map [of "idempotency_records d"
        "\<lambda>r. if id_status r = IN_PROGRESS then interrupt_row t r else r"]
    by (simp add: idempotency_ok_def recovered_fields interrupt_all_def update_where_def)
  moreover have "idem_row_ok r" if "r \<in> set (idempotency_records (recovered t d))" for r
    using that assms by (auto simp: idempotency_ok_def recovered_fields interrupt_all_def update_where_set)
  ultimately show ?thesis by (simp add: idempotency_ok_def)
qed

text \<open>After recovery nothing is left open, and what was final is unchanged.\<close>

lemma recovered_closed:
  assumes "budgets_ok d"
  shows "\<forall>r \<in> set (idempotency_records (recovered t d)). id_status r \<noteq> IN_PROGRESS"
    "\<forall>r \<in> set (budget_reservations (recovered t d)). rs_status r \<noteq> RESERVED"
    "\<forall>b \<in> set (budgets (recovered t d)). bd_reserved_units b = 0"
    "\<forall>r \<in> set (leases (recovered t d)). ls_holder_id r = None"
proof -
  show "\<forall>r \<in> set (idempotency_records (recovered t d)). id_status r \<noteq> IN_PROGRESS"
    by (auto simp: recovered_fields interrupt_all_def update_where_set)
  show open_none: "\<forall>r \<in> set (budget_reservations (recovered t d)). rs_status r \<noteq> RESERVED"
    by (auto simp: recovered_fields release_all_def update_where_set set_status_def open_reservations_def
        filter_empty_conv)
  then have "open_reservations (recovered t d) = []" by (simp add: open_reservations_def filter_empty_conv)
  with recovered_budgets_ok [OF assms, of t] show "\<forall>b \<in> set (budgets (recovered t d)). bd_reserved_units b = 0"
    by (auto simp: budgets_ok_def accounting_ok_def ledger_sum_no_open)
  show "\<forall>r \<in> set (leases (recovered t d)). ls_holder_id r = None"
    by (auto simp: recovered_fields vacate_all_def update_where_set)
qed

lemma recovered_consumed:
  assumes "budget_at x y d = Some b"
  shows "\<exists>b'. budget_at x y (recovered t d) = Some b' \<and> bd_consumed_units b' = bd_consumed_units b
     \<and> bd_limit_units b' = bd_limit_units b"
proof (cases "open_reservations d = []")
  case True
  with assms show ?thesis by (simp add: budget_at_def recovered_fields)
next
  case False
  let ?f = "\<lambda>b. if 0 < bd_reserved_units b then clear_reserved t b else b"
  have find_map: "row_at budget_key k (map ?f bs) = map_option ?f (row_at budget_key k bs)" for k bs
    by (induction bs) (auto simp: row_at_def)
  from assms False show ?thesis
    by (simp add: budget_at_def recovered_fields release_all_def update_where_def find_map clear_reserved_def)
qed

lemma recovered_fence: "fence_moves x y d (recovered t d)"
proof -
  let ?f = "\<lambda>r. if ls_holder_id r \<noteq> None then vacate t r else r"
  have "row_at lease_key k (map ?f rs) = map_option ?f (row_at lease_key k rs)" for k rs
    by (induction rs) (auto simp: row_at_def)
  then have "lease_at x y (recovered t d) = map_option ?f (lease_at x y d)"
    by (simp add: lease_at_def recovered_fields vacate_all_def update_where_def)
  then show ?thesis by (cases "lease_at x y d") (auto simp: fence_defs)
qed

lemma recovered_retains:
  assumes "retained id_expires_at idem_evolves r clk n (idempotency_records d)"
  shows "retained id_expires_at idem_evolves r clk n (idempotency_records (recovered t d))"
proof (cases "\<exists>j < n. past id_expires_at (clk j) r")
  case True
  then show ?thesis by (simp add: retained_def)
next
  case False
  let ?g = "\<lambda>r. if id_status r = IN_PROGRESS then interrupt_row t r else r"
  from False assms obtain s where s: "s \<in> set (idempotency_records d)" "idem_evolves r s"
    by (auto simp: retained_def)
  have "idem_evolves s (?g s)" by (auto simp: idem_evolves_def interrupt_row_def idempotency_key_def)
  with s have "idem_evolves r (?g s)" "?g s \<in> set (idempotency_records (recovered t d))"
    using idem.evolves_trans by (blast, auto simp: recovered_fields interrupt_all_def update_where_set)
  then show ?thesis unfolding retained_def by blast
qed

section \<open>What each method can write\<close>

lemma budget_ops_frame:
  assumes "\<And>d t u. J d \<Longrightarrow> J (d\<lparr>budgets := t, budget_reservations := u\<rparr>)"
  shows "keeps_db J (create_budget x y l)" "keeps_db J (reserve_budget x y i n)"
    "keeps_db J (transition_reservation x y i st)"
proof -
  have "J (d\<lparr>budgets := t\<rparr>)" "J (d\<lparr>budget_reservations := u\<rparr>)" if "J d" for d t u
    using assms [OF that, where t = t and u = "budget_reservations d"]
      assms [OF that, where t = "budgets d" and u = u] by simp_all
  then show "keeps_db J (create_budget x y l)" "keeps_db J (reserve_budget x y i n)"
    "keeps_db J (transition_reservation x y i st)"
    unfolding create_budget_def reserve_budget_def transition_reservation_def update_budget_def Let_def
    by (intro keeps_intros keeps_db_exec; simp)+
qed

lemma lease_ops_frame:
  assumes "\<And>d t. J d \<Longrightarrow> J (d\<lparr>leases := t\<rparr>)"
  shows "keeps_db J (acquire_lease x y h ttl na)" "keeps_db J (renew_lease x y h k ttl na)"
    "keeps_db J (release_lease x y h k)"
  unfolding acquire_lease_def renew_lease_def release_lease_def get_lease_def update_lease_def Let_def
  by (intro keeps_intros keeps_db_exec assms; assumption)+

lemma idempotency_ops_frame:
  assumes "\<And>d t. J d \<Longrightarrow> J (d\<lparr>idempotency_records := t\<rparr>)"
  shows "keeps_db J (claim_idempotency E x y z req ttl')" "keeps_db J (finish_idempotency x y z st v)"
  unfolding claim_idempotency_def finish_idempotency_def Let_def drop_expired_def
  by (intro keeps_intros keeps_db_exec assms; assumption)+

lemma append_event_frame:
  assumes "\<And>d t n. J d \<Longrightarrow> J (d\<lparr>events := t, last_sequence := n\<rparr>)"
  shows "keeps_db J (append_event E x s ty p i' ver oc)"
  unfolding append_event_def Let_def insert_event_def
  by (intro keeps_intros keeps_db_exec assms; assumption)+

lemma receipt_ops_frame:
  assumes "\<And>d t u v. J d \<Longrightarrow> J (d\<lparr>receipt_nonces := t, evidence_receipts := u, experience_receipts := v\<rparr>)"
  shows "keeps_db J (claim_replay_nonce g x p n e)" "keeps_db J (prune_replay_nonces b)"
    "keeps_db J (record_evidence_receipt E g vr vnow x env rid)"
    "keeps_db J (record_experience_receipt E g vr vnow x env rid)"
proof -
  have w: "J (d\<lparr>receipt_nonces := t\<rparr>)" "J (d\<lparr>evidence_receipts := u\<rparr>)" "J (d\<lparr>experience_receipts := v\<rparr>)"
    if "J d" for d t u v
    using assms [OF that, where t = t and u = "evidence_receipts d" and v = "experience_receipts d"]
      assms [OF that, where t = "receipt_nonces d" and u = u and v = "experience_receipts d"]
      assms [OF that, where t = "receipt_nonces d" and u = "evidence_receipts d" and v = v] by simp_all
  show "keeps_db J (claim_replay_nonce g x p n e)" "keeps_db J (prune_replay_nonces b)"
    unfolding claim_replay_nonce_def prune_replay_nonces_def Let_def drop_nonces_def
    by (intro keeps_intros keeps_db_exec w; assumption)+
  have r: "keeps_db J (verify_receipt E vr vnow x p' env)" "keeps_db J (receipt_id_or E rid env)"
    "keeps_db J (get_evidence_receipt x i)" "keeps_db J (experience_row x i)" for p' env i
    by (intro keeps_reads_only reads_only_receipt_helpers)+
  show "keeps_db J (record_evidence_receipt E g vr vnow x env rid)"
    "keeps_db J (record_experience_receipt E g vr vnow x env rid)"
    unfolding record_evidence_receipt_def record_experience_receipt_def claim_envelope_nonce_def
      claim_replay_nonce_def Let_def drop_nonces_def
    by (intro keeps_intros keeps_db_exec r w; assumption)+
qed

lemma policy_ops_frame:
  assumes "\<And>d t u v z. J d \<Longrightarrow>
      J (d\<lparr>policy_artifacts := t, training_runs := u, champion_registry := v, promotion_audit := z\<rparr>)"
  shows "keeps_db J (register_policy_artifact x a p ver' sha uri meta)"
    "keeps_db J (record_training_run x i p a who tok rep)"
    "keeps_db J (promote_policy x p a expd who reason rc aid)"
proof -
  have w: "J (d\<lparr>policy_artifacts := t\<rparr>)" "J (d\<lparr>training_runs := u\<rparr>)" "J (d\<lparr>champion_registry := v\<rparr>)"
      "J (d\<lparr>promotion_audit := z\<rparr>)" if "J d" for d t u v z
    using assms [OF that, where t = t and u = "training_runs d" and v = "champion_registry d" and z = "promotion_audit d"]
      assms [OF that, where t = "policy_artifacts d" and u = u and v = "champion_registry d" and z = "promotion_audit d"]
      assms [OF that, where t = "policy_artifacts d" and u = "training_runs d" and v = v and z = "promotion_audit d"]
      assms [OF that, where t = "policy_artifacts d" and u = "training_runs d" and v = "champion_registry d" and z = z]
    by simp_all
  show "keeps_db J (register_policy_artifact x a p ver' sha uri meta)"
    "keeps_db J (record_training_run x i p a who tok rep)"
    "keeps_db J (promote_policy x p a expd who reason rc aid)"
    unfolding register_policy_artifact_def record_training_run_def promote_policy_def get_policy_artifact_def Let_def
    by (intro keeps_intros keeps_db_exec w; assumption)+
qed

lemma migrations_frame:
  assumes "\<And>d t. J d \<Longrightarrow> J (d\<lparr>schema_migrations := t\<rparr>)"
  shows "keeps_db J apply_migrations"
  unfolding apply_migrations_def by (intro keeps_intros keeps_db_exec assms)

section \<open>The store as a transition system\<close>

datatype store_call =
    ApplyMigrations | ReconcileStartup
  | AppendEvent string string string json "string option" "int option" "int option"
  | ClaimReplayNonce string string string "int option" | PruneReplayNonces
  | RecordEvidence int string json "string option" | RecordExperience int string json "string option"
  | ClaimIdempotency string string string json "int option"
  | CompleteIdempotency string string string json | FailIdempotency string string string json
  | AcquireLease string string string int "int option" | RenewLease string string string int int "int option"
  | ReleaseLease string string string int
  | CreateBudget string string int | ReserveBudget string string string int
  | ConsumeBudget string string string | ReleaseBudget string string string
  | RegisterPolicyArtifact string string string string string string "json option"
  | RecordTrainingRun string string string string string int json
  | PromotePolicy string string string "string option" string string "string option" "string option"

definition void :: "('s, 'a) action \<Rightarrow> ('s, unit) action" where
  "void m = bind m (\<lambda>_. ret ())"

fun run_call :: "pyenv \<Rightarrow> int \<Rightarrow> receipt_verifier option \<Rightarrow> store_call \<Rightarrow> ('z world_scheme, unit) action" where
  "run_call E g vr ApplyMigrations = apply_migrations"
| "run_call E g vr ReconcileStartup = void reconcile_startup"
| "run_call E g vr (AppendEvent x s ty p i ver oc) = void (append_event E x s ty p i ver oc)"
| "run_call E g vr (ClaimReplayNonce x p n e) = void (claim_replay_nonce g x p n e)"
| "run_call E g vr PruneReplayNonces = void (prune_replay_nonces None)"
| "run_call E g vr (RecordEvidence vnow x env rid) = void (record_evidence_receipt E g vr vnow x env rid)"
| "run_call E g vr (RecordExperience vnow x env rid) = void (record_experience_receipt E g vr vnow x env rid)"
| "run_call E g vr (ClaimIdempotency x y z req ttl) = void (claim_idempotency E x y z req ttl)"
| "run_call E g vr (CompleteIdempotency x y z v) = void (complete_idempotency x y z v)"
| "run_call E g vr (FailIdempotency x y z v) = void (fail_idempotency x y z v)"
| "run_call E g vr (AcquireLease x y h ttl na) = void (acquire_lease x y h ttl na)"
| "run_call E g vr (RenewLease x y h k ttl na) = void (renew_lease x y h k ttl na)"
| "run_call E g vr (ReleaseLease x y h k) = void (release_lease x y h k)"
| "run_call E g vr (CreateBudget x y l) = void (create_budget x y l)"
| "run_call E g vr (ReserveBudget x y i n) = void (reserve_budget x y i n)"
| "run_call E g vr (ConsumeBudget x y i) = void (consume_budget x y i)"
| "run_call E g vr (ReleaseBudget x y i) = void (release_budget x y i)"
| "run_call E g vr (RegisterPolicyArtifact x a p v sha uri m) = void (register_policy_artifact x a p v sha uri m)"
| "run_call E g vr (RecordTrainingRun x i p a who tok rep) = void (record_training_run x i p a who tok rep)"
| "run_call E g vr (PromotePolicy x p a cur who rs rc aid) = void (promote_policy x p a cur who rs rc aid)"

inductive store_step :: "pyenv \<Rightarrow> int \<Rightarrow> receipt_verifier option \<Rightarrow> 'z world_scheme \<Rightarrow> 'z world_scheme \<Rightarrow> bool"
  for E g vr where
  call: "run_call E g vr c w = (r, w') \<Longrightarrow> store_step E g vr w w'"

inductive_cases store_stepE: "store_step E g vr w w'"

abbreviation store_steps :: "pyenv \<Rightarrow> int \<Rightarrow> receipt_verifier option \<Rightarrow> 'z world_scheme \<Rightarrow> 'z world_scheme \<Rightarrow> bool" where
  "store_steps E g vr \<equiv> (store_step E g vr)\<^sup>*\<^sup>*"

fun run_calls :: "pyenv \<Rightarrow> int \<Rightarrow> receipt_verifier option \<Rightarrow> store_call list \<Rightarrow> 'z world_scheme \<Rightarrow> 'z world_scheme" where
  \<comment> \<open>a client that goes on after every outcome\<close>
  "run_calls E g vr [] w = w"
| "run_calls E g vr (c # cs) w = run_calls E g vr cs (snd (run_call E g vr c w))"

lemma run_calls_steps: "store_steps E g vr w (run_calls E g vr cs w)"
proof (induction cs arbitrary: w)
  case (Cons c cs)
  have "store_step E g vr w (snd (run_call E g vr c w))"
    by (rule store_step.call [of _ _ _ c _ "fst (run_call E g vr c w)"]) simp
  with Cons [of "snd (run_call E g vr c w)"] show ?case by (simp add: converse_rtranclp_into_rtranclp)
qed simp

lemma void_run: "void m w = (r, w') \<Longrightarrow> \<exists>r'. m w = (r', w') \<and> (r = Inr () \<longleftrightarrow> (\<exists>x. r' = Inr x)) \<and> (\<forall>e. r = Inl e \<longleftrightarrow> r' = Inl e)"
  by (auto simp: void_def bind_def split: prod.splits sum.splits)

lemma keeps_void [keeps_intros]: "keeps I m \<Longrightarrow> keeps I (void m)"
  unfolding void_def by (intro keeps_intros)

section \<open>The invariant of the store\<close>

definition store_inv :: "pyenv \<Rightarrow> receipt_verifier option \<Rightarrow> db \<Rightarrow> bool" where
  "store_inv E vr d \<longleftrightarrow> budgets_ok d \<and> leases_ok d \<and> idempotency_ok d \<and> events_ok d \<and> receipts_ok E vr d \<and> policies_ok d"

lemma budgets_ok_frame:
  "budgets_ok (d\<lparr>leases := a\<rparr>) = budgets_ok d" "budgets_ok (d\<lparr>idempotency_records := b\<rparr>) = budgets_ok d"
  "budgets_ok (d\<lparr>events := c, last_sequence := n\<rparr>) = budgets_ok d"
  "budgets_ok (d\<lparr>receipt_nonces := e, evidence_receipts := f, experience_receipts := h\<rparr>) = budgets_ok d"
  "budgets_ok (d\<lparr>policy_artifacts := i, training_runs := j, champion_registry := k, promotion_audit := l\<rparr>) = budgets_ok d"
  "budgets_ok (d\<lparr>schema_migrations := m\<rparr>) = budgets_ok d"
  by (rule budgets_ok_cong; simp)+

lemma leases_ok_frame:
  "leases_ok (d\<lparr>budgets := a, budget_reservations := b\<rparr>) = leases_ok d"
  "leases_ok (d\<lparr>idempotency_records := c\<rparr>) = leases_ok d"
  "leases_ok (d\<lparr>events := u, last_sequence := n\<rparr>) = leases_ok d"
  "leases_ok (d\<lparr>receipt_nonces := e, evidence_receipts := f, experience_receipts := h\<rparr>) = leases_ok d"
  "leases_ok (d\<lparr>policy_artifacts := i, training_runs := j, champion_registry := k, promotion_audit := l\<rparr>) = leases_ok d"
  "leases_ok (d\<lparr>schema_migrations := m\<rparr>) = leases_ok d"
  by (simp_all add: leases_ok_def)

lemma idempotency_ok_frame:
  "idempotency_ok (d\<lparr>budgets := a, budget_reservations := b\<rparr>) = idempotency_ok d"
  "idempotency_ok (d\<lparr>leases := c\<rparr>) = idempotency_ok d"
  "idempotency_ok (d\<lparr>events := u, last_sequence := n\<rparr>) = idempotency_ok d"
  "idempotency_ok (d\<lparr>receipt_nonces := e, evidence_receipts := f, experience_receipts := h\<rparr>) = idempotency_ok d"
  "idempotency_ok (d\<lparr>policy_artifacts := i, training_runs := j, champion_registry := k, promotion_audit := l\<rparr>) = idempotency_ok d"
  "idempotency_ok (d\<lparr>schema_migrations := m\<rparr>) = idempotency_ok d"
  by (simp_all add: idempotency_ok_def)

lemma events_ok_cong:
  "events d' = events d \<Longrightarrow> last_sequence d' = last_sequence d \<Longrightarrow> events_ok d' = events_ok d"
  by (simp add: events_ok_def stream_of_def)

lemma events_ok_frame:
  "events_ok (d\<lparr>budgets := a, budget_reservations := b\<rparr>) = events_ok d"
  "events_ok (d\<lparr>leases := c\<rparr>) = events_ok d" "events_ok (d\<lparr>idempotency_records := u\<rparr>) = events_ok d"
  "events_ok (d\<lparr>receipt_nonces := e, evidence_receipts := f, experience_receipts := h\<rparr>) = events_ok d"
  "events_ok (d\<lparr>policy_artifacts := i, training_runs := j, champion_registry := k, promotion_audit := l\<rparr>) = events_ok d"
  "events_ok (d\<lparr>schema_migrations := m\<rparr>) = events_ok d"
  by (rule events_ok_cong; simp)+

lemma receipts_ok_frame:
  "receipts_ok E vr (d\<lparr>budgets := a, budget_reservations := b\<rparr>) = receipts_ok E vr d"
  "receipts_ok E vr (d\<lparr>leases := c\<rparr>) = receipts_ok E vr d"
  "receipts_ok E vr (d\<lparr>idempotency_records := u\<rparr>) = receipts_ok E vr d"
  "receipts_ok E vr (d\<lparr>events := v, last_sequence := n\<rparr>) = receipts_ok E vr d"
  "receipts_ok E vr (d\<lparr>policy_artifacts := i, training_runs := j, champion_registry := k, promotion_audit := l\<rparr>) = receipts_ok E vr d"
  "receipts_ok E vr (d\<lparr>schema_migrations := m\<rparr>) = receipts_ok E vr d"
  by (simp_all add: receipts_ok_def)

lemma policies_ok_cong:
  assumes "policy_artifacts d' = policy_artifacts d" "training_runs d' = training_runs d"
    "champion_registry d' = champion_registry d" "promotion_audit d' = promotion_audit d"
  shows "policies_ok d' = policies_ok d"
  using assms registered_cong [OF assms(1)] registry_ok_cong [OF assms(4,3)] by (simp add: policies_ok_def)

lemma policies_ok_frame:
  "policies_ok (d\<lparr>budgets := a, budget_reservations := b\<rparr>) = policies_ok d"
  "policies_ok (d\<lparr>leases := c\<rparr>) = policies_ok d" "policies_ok (d\<lparr>idempotency_records := u\<rparr>) = policies_ok d"
  "policies_ok (d\<lparr>events := v, last_sequence := n\<rparr>) = policies_ok d"
  "policies_ok (d\<lparr>receipt_nonces := e, evidence_receipts := f, experience_receipts := h\<rparr>) = policies_ok d"
  "policies_ok (d\<lparr>schema_migrations := m\<rparr>) = policies_ok d"
  by (rule policies_ok_cong; simp)+

lemmas inv_frames = budgets_ok_frame leases_ok_frame idempotency_ok_frame events_ok_frame receipts_ok_frame
  policies_ok_frame

lemma nonce_ops_receipts_ok:
  "keeps_db (receipts_ok E vr) (claim_replay_nonce g x p n e)" "keeps_db (receipts_ok E vr) (prune_replay_nonces b)"
proof -
  show "keeps_db (receipts_ok E vr) (claim_replay_nonce g x p n e)"
  proof (rule keepsI)
    fix w r w'
    assume ok: "receipts_ok E vr (db w)" and run: "claim_replay_nonce g x p n e w = (r, w')"
    have "nonces_ok (db w')"
      using keepsD [OF claim_replay_nonce_keeps _ run] ok by (simp add: receipts_ok_def nonces_ok_def)
    moreover have "\<exists>t. db w' = (db w)\<lparr>receipt_nonces := t\<rparr>"
    proof -
      have "keeps_db (\<lambda>d. \<exists>t. d = (db w)\<lparr>receipt_nonces := t\<rparr>) (claim_replay_nonce g x p n e)"
        unfolding claim_replay_nonce_def Let_def drop_nonces_def
        by (intro keeps_intros keeps_db_exec) auto
      from keepsD [OF this _ run] show ?thesis
        by (metis db.surjective db.update_convs(4))
    qed
    ultimately show "receipts_ok E vr (db w')"
      using ok by (auto simp: nonces_ok_def receipts_ok_def)
  qed
  show "keeps_db (receipts_ok E vr) (prune_replay_nonces b)"
    by (rule keeps_db_from_success [OF prune_replay_nonces_aon])
       (simp add: prune_replay_nonces_Inr drop_nonces_def receipts_ok_def nonce_rows.uniq_delete)
qed

lemma recovered_inv: "store_inv E vr d \<Longrightarrow> store_inv E vr (recovered t d)"
  using recovered_budgets_ok [of d t] recovered_leases_ok [of d t] recovered_idempotency_ok [of d t]
    events_ok_cong [of "recovered t d" d] policies_ok_cong [of "recovered t d" d]
  by (simp add: store_inv_def recovered_fields receipts_ok_def)

lemma reconcile_keeps: "keeps_db (store_inv E vr) reconcile_startup"
  by (rule keeps_db_from_success [OF reconcile_aon]) (simp add: reconcile_Inr recovered_inv)

lemma run_call_keeps:
  assumes "sha256_ok E"
  shows "keeps_db (store_inv E vr) (run_call E g vr c)"
proof -
  have conj: "keeps_db (store_inv E vr) m" if "keeps_db budgets_ok m" "keeps_db leases_ok m"
    "keeps_db idempotency_ok m" "keeps_db events_ok m" "keeps_db (receipts_ok E vr) m" "keeps_db policies_ok m"
    for m :: "('z world_scheme, 'b) action"
    using that unfolding store_inv_def keeps_def by blast
  show ?thesis
  proof (cases c)
    case ReconcileStartup
    then show ?thesis by (simp add: keeps_void reconcile_keeps)
  qed (simp_all only: run_call.simps complete_idempotency_def fail_idempotency_def consume_budget_def
       release_budget_def,
      (intro keeps_void conj budget_ops_frame lease_ops_frame idempotency_ops_frame append_event_frame
        receipt_ops_frame policy_ops_frame migrations_frame
        create_budget_keeps reserve_budget_keeps transition_reservation_keeps acquire_lease_keeps
        renew_lease_keeps release_lease_keeps claim_idempotency_keeps finish_idempotency_keeps
        append_event_keeps nonce_ops_receipts_ok record_evidence_keeps record_experience_keeps assms
        register_keeps record_training_keeps promote_keeps; simp add: inv_frames)+)
qed

section \<open>Reachable states\<close>

text \<open>A log that every step only appends to.\<close>

locale append_log =
  fixes step :: "'s \<Rightarrow> 's \<Rightarrow> bool" and log :: "'s \<Rightarrow> 'r list"
  assumes step_prefix: "step s s' \<Longrightarrow> prefix (log s) (log s')"
begin

lemma steps_prefix: "step\<^sup>*\<^sup>* s s' \<Longrightarrow> prefix (log s) (log s')"
  by (induction rule: rtranclp_induct) (auto dest: step_prefix intro: prefix_order.trans)

lemma entry_stays: "step\<^sup>*\<^sup>* s s' \<Longrightarrow> r \<in> set (log s) \<Longrightarrow> r \<in> set (log s')"
  using steps_prefix by (fastforce dest: set_mono_prefix)

lemma entry_position: "step\<^sup>*\<^sup>* s s' \<Longrightarrow> i < length (log s) \<Longrightarrow> log s' ! i = log s ! i"
  using steps_prefix by (fastforce simp: prefix_def nth_append)

end

definition extends :: "db \<Rightarrow> db \<Rightarrow> bool" where
  "extends d0 d \<longleftrightarrow> prefix (events d0) (events d) \<and> prefix (evidence_receipts d0) (evidence_receipts d)
     \<and> prefix (experience_receipts d0) (experience_receipts d) \<and> prefix (policy_artifacts d0) (policy_artifacts d)
     \<and> prefix (training_runs d0) (training_runs d) \<and> prefix (promotion_audit d0) (promotion_audit d)"

lemma extends_refl [simp]: "extends d d"
  by (simp add: extends_def)

lemma extends_frame:
  "extends d0 (d\<lparr>budgets := a, budget_reservations := b\<rparr>) = extends d0 d"
  "extends d0 (d\<lparr>leases := c\<rparr>) = extends d0 d" "extends d0 (d\<lparr>idempotency_records := e\<rparr>) = extends d0 d"
  "extends d0 (d\<lparr>schema_migrations := m\<rparr>) = extends d0 d" "extends d0 (d\<lparr>receipt_nonces := n\<rparr>) = extends d0 d"
  "extends d0 (d\<lparr>champion_registry := q\<rparr>) = extends d0 d" "extends d0 (recovered t d) = extends d0 d"
  "extends d0 (drop_nonces t d) = extends d0 d"
  by (simp_all add: extends_def recovered_fields drop_nonces_def)

lemma extends_append:
  "extends d0 d \<Longrightarrow> extends d0 (d\<lparr>evidence_receipts := evidence_receipts d @ u\<rparr>)"
  "extends d0 d \<Longrightarrow> extends d0 (d\<lparr>experience_receipts := experience_receipts d @ v\<rparr>)"
  "extends d0 d \<Longrightarrow> extends d0 (d\<lparr>policy_artifacts := policy_artifacts d @ x\<rparr>)"
  "extends d0 d \<Longrightarrow> extends d0 (d\<lparr>training_runs := training_runs d @ y\<rparr>)"
  "extends d0 d \<Longrightarrow> extends d0 (d\<lparr>promotion_audit := promotion_audit d @ z\<rparr>)"
  "extends d0 d \<Longrightarrow> extends d0 (insert_event r d)"
  by (auto simp: extends_def insert_event_def intro: prefix_prefix)

lemma run_call_extends: "keeps_db (extends d0) (run_call E g vr c)"
proof -
  note writes = append_event_def claim_replay_nonce_def prune_replay_nonces_def record_evidence_receipt_def
    record_experience_receipt_def claim_envelope_nonce_def register_policy_artifact_def
    record_training_run_def promote_policy_def get_policy_artifact_def Let_def
  have r: "keeps_db (extends d0) (verify_receipt E vr vnow x p' env)" "keeps_db (extends d0) (receipt_id_or E rid env)"
    "keeps_db (extends d0) (get_evidence_receipt x i)" "keeps_db (extends d0) (experience_row x i)"
    for vnow x p' env rid i
    by (intro keeps_reads_only reads_only_receipt_helpers)+
  show ?thesis
  proof (cases c)
    case ReconcileStartup
    show ?thesis unfolding ReconcileStartup run_call.simps
      by (intro keeps_void keeps_db_from_success [OF reconcile_aon]) (simp add: reconcile_Inr extends_frame)
  qed (simp_all only: run_call.simps complete_idempotency_def fail_idempotency_def consume_budget_def
       release_budget_def writes,
      (intro keeps_void budget_ops_frame lease_ops_frame idempotency_ops_frame migrations_frame
        keeps_intros keeps_db_exec r; simp add: extends_frame extends_append)+)
qed

lemma step_extends: "store_step E g vr w w' \<Longrightarrow> extends (db w) (db w')"
  by (erule store_stepE) (rule keepsD [OF run_call_extends extends_refl])

interpretation event_log: append_log "store_step E g vr" "\<lambda>w. events (db w)" for E g vr
  by unfold_locales (auto dest: step_extends simp: extends_def)
interpretation evidence_log: append_log "store_step E g vr" "\<lambda>w. evidence_receipts (db w)" for E g vr
  by unfold_locales (auto dest: step_extends simp: extends_def)
interpretation experience_log: append_log "store_step E g vr" "\<lambda>w. experience_receipts (db w)" for E g vr
  by unfold_locales (auto dest: step_extends simp: extends_def)
interpretation artifact_log: append_log "store_step E g vr" "\<lambda>w. policy_artifacts (db w)" for E g vr
  by unfold_locales (auto dest: step_extends simp: extends_def)
interpretation training_log: append_log "store_step E g vr" "\<lambda>w. training_runs (db w)" for E g vr
  by unfold_locales (auto dest: step_extends simp: extends_def)
interpretation audit_log: append_log "store_step E g vr" "\<lambda>w. promotion_audit (db w)" for E g vr
  by unfold_locales (auto dest: step_extends simp: extends_def)

lemma step_inv: "sha256_ok E \<Longrightarrow> store_inv E vr (db w) \<Longrightarrow> store_step E g vr w w' \<Longrightarrow> store_inv E vr (db w')"
  by (erule store_stepE) (rule keepsD [OF run_call_keeps])

interpretation store: invariant_system "store_step E g vr" "\<lambda>w. sha256_ok E \<longrightarrow> store_inv E vr (db w)" for E g vr
  by unfold_locales (auto dest: step_inv)

lemma empty_db_inv: "store_inv E vr empty_db"
  by (auto simp: store_inv_def budgets_ok_def leases_ok_def idempotency_ok_def events_ok_def receipts_ok_def
      policies_ok_def empty_db_def uniq_rows_def stream_of_def registry_ok_def history_def history_ok_def
      champion_at_def row_at_def)

section \<open>Fencing, across the store\<close>

lemma run_call_fence:
  fixes w w' :: "'z world_scheme"
  assumes "run_call E g vr c w = (r, w')"
  shows "fence_moves x y (db w) (db w')"
proof -
  have same: "fence_moves x y (db w) (db w')"
    if "keeps_db (\<lambda>d. leases d = leases (db w)) (run_call E g vr c :: ('z world_scheme, unit) action)"
    using keepsD [OF that _ assms] by (auto intro: fence_moves_same)
  show ?thesis
  proof (cases c)
    case ReconcileStartup
    with assms obtain r' where run: "reconcile_startup w = (r', w')" by (auto dest: void_run)
    show ?thesis
    proof (cases r')
      case (Inl e)
      with run all_or_nothingD [OF reconcile_aon] have "db w' = db w" by blast
      then show ?thesis by simp
    next
      case (Inr rep)
      with run show ?thesis by (simp add: reconcile_Inr recovered_fence)
    qed
  next
    case (AcquireLease p q h ttl na)
    with assms show ?thesis by (auto dest!: void_run intro: acquire_lease_fence)
  next
    case (RenewLease p q h k ttl na)
    with assms show ?thesis by (auto dest!: void_run intro: renew_lease_fence)
  next
    case (ReleaseLease p q h k)
    with assms show ?thesis by (auto dest!: void_run intro: release_lease_fence)
  qed (rule same, simp only: run_call.simps complete_idempotency_def fail_idempotency_def consume_budget_def
         release_budget_def,
       (intro keeps_void budget_ops_frame idempotency_ops_frame append_event_frame
          receipt_ops_frame policy_ops_frame migrations_frame; simp)+)+
qed

interpretation lease_fence: fencing "store_step E g vr" "\<lambda>w. fence x y (db w)" "\<lambda>w. holder x y (db w)"
  for E g vr x y
  by unfold_locales (auto elim!: store_stepE dest!: run_call_fence [where x = x and y = y] simp: fence_moves_def)

section \<open>Retention, across the store\<close>

lemma run_call_ticks: "keeps (ticks c n) (run_call E g vr call)"
proof -
  have b: "keeps (ticks c n) (get_budget x y)" for x y
    unfolding get_budget_def get_budget_row_def by (intro keeps_intros)
  show ?thesis
    by (cases call; simp only: run_call.simps complete_idempotency_def fail_idempotency_def consume_budget_def
        release_budget_def apply_migrations_def reconcile_startup_def create_budget_def reserve_budget_def
        transition_reservation_def update_budget_def get_budget_row_def acquire_lease_def renew_lease_def release_lease_def
        get_lease_def update_lease_def Let_def)
       (intro keeps_intros b)+
qed

lemma run_call_time:
  assumes "run_call E g vr c w = (r, w')"
  shows "clock w' = clock w" "clock_reads w \<le> clock_reads w'"
  using keeps_ticksD [OF run_call_ticks assms] by simp_all

lemma run_call_idem_retains:
  fixes w w' :: "'z world_scheme"
  assumes ok: "idempotency_ok (db w)" and ret: "idem_retained r w" and run: "run_call E g vr c w = (res, w')"
  shows "idem_retained r w'"
proof -
  note t = run_call_time [OF run]
  have same: "idem_retained r w'"
    if "keeps_db (\<lambda>d. idempotency_records d = idempotency_records (db w))
          (run_call E g vr c :: ('z world_scheme, unit) action)"
    using keepsD [OF that _ run] idem.retained_later [OF ret t(2)] t by simp
  show ?thesis
  proof (cases c)
    case ReconcileStartup
    with run obtain r' where run: "reconcile_startup w = (r', w')" by (auto dest: void_run)
    show ?thesis
    proof (cases r')
      case (Inl e)
      with run all_or_nothingD [OF reconcile_aon] have "db w' = db w" by blast
      with idem.retained_later [OF ret t(2)] t show ?thesis by simp
    next
      case (Inr rep)
      with run idem.retained_later [OF ret, of "clock_reads w'"] t show ?thesis
        by (simp add: reconcile_Inr recovered_retains)
    qed
  next
    case (ClaimIdempotency x y z req ttl)
    with run ret show ?thesis by (auto dest!: void_run intro: claim_idempotency_retains)
  next
    case (CompleteIdempotency x y z v)
    with run ret ok show ?thesis
      by (auto simp: complete_idempotency_def dest!: void_run intro: finish_idempotency_retains)
  next
    case (FailIdempotency x y z v)
    with run ret ok show ?thesis
      by (auto simp: fail_idempotency_def dest!: void_run intro: finish_idempotency_retains)
  qed (rule same, simp only: run_call.simps consume_budget_def release_budget_def,
       (intro keeps_void budget_ops_frame lease_ops_frame append_event_frame
          receipt_ops_frame policy_ops_frame migrations_frame; simp)+)+
qed

lemma run_call_nonce_retains:
  fixes w w' :: "'z world_scheme"
  assumes E: "sha256_ok E" and ret: "nonce_retained r w" and run: "run_call E g vr c w = (res, w')"
  shows "nonce_retained r w'"
proof -
  note t = run_call_time [OF run]
  have same: "nonce_retained r w'"
    if "keeps_db (\<lambda>d. receipt_nonces d = receipt_nonces (db w))
          (run_call E g vr c :: ('z world_scheme, unit) action)"
    using keepsD [OF that _ run] nonce.retained_later [OF ret t(2)] t by simp
  show ?thesis
  proof (cases c)
    case ReconcileStartup
    show ?thesis
      by (rule same, unfold ReconcileStartup run_call.simps, intro keeps_void keeps_db_from_success [OF reconcile_aon])
         (simp add: reconcile_Inr recovered_fields)
  next
    case (ClaimReplayNonce x p n e)
    with run ret show ?thesis by (auto dest!: void_run intro: claim_replay_nonce_retains)
  next
    case PruneReplayNonces
    with run ret show ?thesis by (auto dest!: void_run intro: prune_replay_nonces_retains)
  next
    case (RecordEvidence vnow x env rid)
    with run ret E show ?thesis by (auto dest!: void_run intro: record_evidence_retains)
  next
    case (RecordExperience vnow x env rid)
    with run ret show ?thesis by (auto dest!: void_run intro: record_experience_retains)
  qed (rule same, simp only: run_call.simps complete_idempotency_def fail_idempotency_def consume_budget_def
         release_budget_def,
       (intro keeps_void budget_ops_frame lease_ops_frame idempotency_ops_frame append_event_frame
          policy_ops_frame migrations_frame; simp)+)+
qed

lemma steps_time:
  "store_steps E g vr w w' \<Longrightarrow> clock w' = clock w \<and> clock_reads w \<le> clock_reads w'"
proof (induction rule: rtranclp_induct)
  case (step u v)
  then show ?case using run_call_time by (fastforce elim!: store_stepE)
qed simp

lemma steps_idem_retains:
  assumes "store_steps E g vr w w'" "sha256_ok E" "store_inv E vr (db w)" "idem_retained r w"
  shows "store_inv E vr (db w') \<and> idem_retained r w'"
  using assms
proof (induction rule: rtranclp_induct)
  case (step u v)
  then have u: "store_inv E vr (db u)" "idem_retained r u" by simp_all
  from step(2) obtain c res where run: "run_call E g vr c u = (res, v)" by (rule store_stepE)
  have "idempotency_ok (db u)" using u by (simp add: store_inv_def)
  with u run_call_idem_retains [OF _ _ run] step_inv [OF \<open>sha256_ok E\<close> u(1) step(2)] show ?case by blast
qed simp

lemma steps_nonce_retains:
  assumes "store_steps E g vr w w'" "sha256_ok E" "nonce_retained r w"
  shows "nonce_retained r w'"
  using assms
proof (induction rule: rtranclp_induct)
  case (step u v)
  then show ?case by (auto elim!: store_stepE intro: run_call_nonce_retains)
qed simp

section \<open>Tenants\<close>

fun tenant_of :: "store_call \<Rightarrow> string option" where
  "tenant_of (AppendEvent x s ty p i ver oc) = Some x"
| "tenant_of (ClaimReplayNonce x p n e) = Some x"
| "tenant_of (RecordEvidence vnow x env rid) = Some x"
| "tenant_of (RecordExperience vnow x env rid) = Some x"
| "tenant_of (ClaimIdempotency x y z req ttl) = Some x"
| "tenant_of (CompleteIdempotency x y z v) = Some x"
| "tenant_of (FailIdempotency x y z v) = Some x"
| "tenant_of (AcquireLease x y h ttl na) = Some x"
| "tenant_of (RenewLease x y h k ttl na) = Some x"
| "tenant_of (ReleaseLease x y h k) = Some x"
| "tenant_of (CreateBudget x y l) = Some x"
| "tenant_of (ReserveBudget x y i n) = Some x"
| "tenant_of (ConsumeBudget x y i) = Some x"
| "tenant_of (ReleaseBudget x y i) = Some x"
| "tenant_of (RegisterPolicyArtifact x a p v sha uri m) = Some x"
| "tenant_of (RecordTrainingRun x i p a who tok rep) = Some x"
| "tenant_of (PromotePolicy x p a cur who rs rc aid) = Some x"
| "tenant_of _ = None"

definition tenant_view :: "string \<Rightarrow> db \<Rightarrow> db" where
  \<comment> \<open>the rows of one tenant, without the two tables whose expired rows any call may drop\<close>
  "tenant_view x d = d\<lparr>schema_migrations := [], last_sequence := 0, receipt_nonces := [], idempotency_records := [],
     events := filter (\<lambda>r. ev_tenant_id r = x) (events d),
     evidence_receipts := filter (\<lambda>r. ed_tenant_id r = x) (evidence_receipts d),
     experience_receipts := filter (\<lambda>r. ex_tenant_id r = x) (experience_receipts d),
     leases := filter (\<lambda>r. ls_tenant_id r = x) (leases d),
     budgets := filter (\<lambda>r. bd_tenant_id r = x) (budgets d),
     budget_reservations := filter (\<lambda>r. rs_tenant_id r = x) (budget_reservations d),
     policy_artifacts := filter (\<lambda>r. ar_tenant_id r = x) (policy_artifacts d),
     training_runs := filter (\<lambda>r. tr_tenant_id r = x) (training_runs d),
     champion_registry := filter (\<lambda>r. ch_tenant_id r = x) (champion_registry d),
     promotion_audit := filter (\<lambda>r. pr_tenant_id r = x) (promotion_audit d)\<rparr>"

lemma filter_update_at:
  "(\<And>r. key r = k \<Longrightarrow> \<not> P r \<and> \<not> P (f r)) \<Longrightarrow> filter P (update_at key k f t) = filter P t"
  by (induction t) (auto simp: update_at_def)

lemma filter_update_at_key:
  assumes "\<And>r. key (f r) = key r" "\<And>r. P r = Q (key r)" "\<not> Q k"
  shows "filter P (update_at key k f t) = filter P t"
  using assms by (intro filter_update_at) simp

lemma tenant_view_writes:
  assumes "y \<noteq> x"
  shows
  "\<And>f. (\<And>r. lease_key (f r) = lease_key r) \<Longrightarrow>
     tenant_view x (d\<lparr>leases := update_at lease_key (y, q) f (leases d)\<rparr>) = tenant_view x d"
  "tenant_view x (d\<lparr>leases := leases d @ [first_lease y q h t e]\<rparr>) = tenant_view x d"
  "\<And>f. (\<And>r. budget_key (f r) = budget_key r) \<Longrightarrow>
     tenant_view x (d\<lparr>budgets := update_at budget_key (y, q) f (budgets d)\<rparr>) = tenant_view x d"
  "tenant_view x (d\<lparr>budget_reservations := update_at reservation_key (y, q, i) (set_status st t)
     (budget_reservations d)\<rparr>) = tenant_view x d"
  "tenant_view x (d\<lparr>budget_reservations := budget_reservations d @ [new_reservation y q i u t]\<rparr>) = tenant_view x d"
  "tenant_view x (d\<lparr>champion_registry := upsert_champion (new_champion y q a g t) (champion_registry d)\<rparr>) = tenant_view x d"
  "tenant_view x (d\<lparr>promotion_audit := promotion_audit d @ [new_promotion aid y q a prev g who rs rc t]\<rparr>) = tenant_view x d"
  "tenant_view x (d\<lparr>evidence_receipts := evidence_receipts d @ [evidence_row_of y i k s ur hs env t]\<rparr>) = tenant_view x d"
  "tenant_view x (d\<lparr>experience_receipts := experience_receipts d @ [experience_row_of y i run ep tj rw pl env t]\<rparr>) = tenant_view x d"
proof -
  have l: "filter (\<lambda>r. ls_tenant_id r = x) (update_at lease_key (y, q) f t) = filter (\<lambda>r. ls_tenant_id r = x) t"
    if "\<And>r. lease_key (f r) = lease_key r" for f t
    using assms that by (intro filter_update_at_key [where Q = "\<lambda>k. fst k = x"]) (simp_all add: lease_key_def)
  show "tenant_view x (d\<lparr>leases := update_at lease_key (y, q) f (leases d)\<rparr>) = tenant_view x d"
    if "\<And>r. lease_key (f r) = lease_key r" for f
    using l [OF that] by (simp add: tenant_view_def)
  have b: "filter (\<lambda>r. bd_tenant_id r = x) (update_at budget_key (y, q) f t) = filter (\<lambda>r. bd_tenant_id r = x) t"
    if "\<And>r. budget_key (f r) = budget_key r" for f t
    using assms that by (intro filter_update_at_key [where Q = "\<lambda>k. fst k = x"]) (simp_all add: budget_key_def)
  show "tenant_view x (d\<lparr>budgets := update_at budget_key (y, q) f (budgets d)\<rparr>) = tenant_view x d"
    if "\<And>r. budget_key (f r) = budget_key r" for f
    using b [OF that] by (simp add: tenant_view_def)
  have r: "filter (\<lambda>r. rs_tenant_id r = x) (update_at reservation_key (y, q, i) (set_status st t) T)
      = filter (\<lambda>r. rs_tenant_id r = x) T" for T
    using assms by (intro filter_update_at) (auto simp: reservation_key_def set_status_def)
  show "tenant_view x (d\<lparr>budget_reservations := update_at reservation_key (y, q, i) (set_status st t)
     (budget_reservations d)\<rparr>) = tenant_view x d"
    using r by (simp add: tenant_view_def)
  have c: "filter (\<lambda>r. ch_tenant_id r = x) (upsert_champion (new_champion y q a g t) T)
      = filter (\<lambda>r. ch_tenant_id r = x) T" for T
    using assms unfolding upsert_champion_def
    by (auto simp: champion_key_def new_champion_def intro!: filter_update_at split: option.splits)
  show "tenant_view x (d\<lparr>champion_registry := upsert_champion (new_champion y q a g t) (champion_registry d)\<rparr>) = tenant_view x d"
    using c by (simp add: tenant_view_def)
qed (use assms in \<open>simp_all add: tenant_view_def first_lease_def new_reservation_def new_promotion_def
      evidence_row_of_def experience_row_of_def\<close>)

lemma tenant_view_frame:
  "tenant_view x (d\<lparr>idempotency_records := t\<rparr>) = tenant_view x d"
  "tenant_view x (d\<lparr>receipt_nonces := u\<rparr>) = tenant_view x d"
  "tenant_view x (d\<lparr>schema_migrations := v\<rparr>) = tenant_view x d"
  "tenant_view x (drop_nonces k d) = tenant_view x d" "tenant_view x (drop_expired k d) = tenant_view x d"
  by (simp_all add: tenant_view_def drop_nonces_def drop_expired_def)

lemma tenant_view_inserts:
  "ev_tenant_id r \<noteq> x \<Longrightarrow> tenant_view x (insert_event r d) = tenant_view x d"
  "bd_tenant_id b \<noteq> x \<Longrightarrow> tenant_view x (d\<lparr>budgets := budgets d @ [b]\<rparr>) = tenant_view x d"
  "ar_tenant_id a \<noteq> x \<Longrightarrow> tenant_view x (d\<lparr>policy_artifacts := policy_artifacts d @ [a]\<rparr>) = tenant_view x d"
  "tr_tenant_id t \<noteq> x \<Longrightarrow> tenant_view x (d\<lparr>training_runs := training_runs d @ [t]\<rparr>) = tenant_view x d"
  by (simp_all add: tenant_view_def insert_event_def)

lemma other_tenant_view:
  assumes "tenant_of c = Some y" "y \<noteq> x"
  shows "keeps_db (\<lambda>d. tenant_view x d = V) (run_call E g vr c)"
proof -
  note writes = append_event_def claim_replay_nonce_def record_evidence_receipt_def
    record_experience_receipt_def claim_envelope_nonce_def register_policy_artifact_def
    record_training_run_def promote_policy_def get_policy_artifact_def claim_idempotency_def finish_idempotency_def
    complete_idempotency_def fail_idempotency_def consume_budget_def release_budget_def create_budget_def
    reserve_budget_def transition_reservation_def update_budget_def acquire_lease_def renew_lease_def
    release_lease_def get_lease_def update_lease_def Let_def
  have r: "keeps_db (\<lambda>d. tenant_view x d = V) (verify_receipt E vr vnow z p' env)"
    "keeps_db (\<lambda>d. tenant_view x d = V) (receipt_id_or E rid env)"
    "keeps_db (\<lambda>d. tenant_view x d = V) (get_evidence_receipt z i)"
    "keeps_db (\<lambda>d. tenant_view x d = V) (experience_row z i)" for vnow z p' env rid i
    by (intro keeps_reads_only reads_only_receipt_helpers)+
  note eqs = tenant_view_frame tenant_view_inserts tenant_view_writes [OF assms(2)]
  show ?thesis
    using assms
    by (cases c; simp only: run_call.simps writes tenant_of.simps option.inject option.distinct)
       (intro keeps_void keeps_intros keeps_db_exec r; simp add: eqs)+
qed

section \<open>Failed calls\<close>

lemma aon_void: "all_or_nothing m \<Longrightarrow> all_or_nothing (void m)"
  unfolding all_or_nothing_def by (metis void_run)

lemma run_call_aon: "sha256_ok E \<Longrightarrow> all_or_nothing (run_call E g vr c)"
  by (cases c; simp only: run_call.simps apply_migrations_def complete_idempotency_def fail_idempotency_def
      consume_budget_def release_budget_def)
     (intro aon_void aon_intros reconcile_aon record_evidence_aon record_experience_aon create_budget_aon
       reserve_budget_aon transition_reservation_aon lease_ops_aon; assumption)+

end
