(* ===== verification/Instances.thy ===== *)
theory Instances
  imports Store
begin

text \<open>
  Concrete values for the parameters of the model: an interpreter environment with the documented
  properties of its functions, a keyring, a clock that counts, and small stores. They show that the
  hypotheses of the properties can hold together.
\<close>

definition E0 :: pyenv where
  "E0 = \<lparr>sha256 = (\<lambda>m. replicate 64 CHR ''0''), hmac256 = (\<lambda>k m. replicate 32 (CHR 0x00)),
     float_repr = (\<lambda>x. case x of
        Fin a \<Rightarrow> str_of_int (fst (quotient_of a)) @ ''.'' @ str_of_int (snd (quotient_of a))
      | PInf \<Rightarrow> ''inf'' | NInf \<Rightarrow> ''-inf'' | NaN \<Rightarrow> ''nan'')\<rparr>"

definition w0 :: world where
  "w0 = \<lparr>db = empty_db, clock = int, clock_reads = 0, uuid = (\<lambda>n. ''u'' @ digits_of_nat n), uuid_reads = 0,
     token = (\<lambda>n. ''t'' @ digits_of_nat n), token_reads = 0\<rparr>"

lemma E0_sha256: "sha256_ok E0"
  by (simp add: sha256_ok_def E0_def is_sha256_def lower_hex_def list_all_iff)

lemma E0_hmac: "hmac_ok E0"
  by (simp add: hmac_ok_def E0_def)

lemma E0_float_repr: "float_repr_ok E0"
proof -
  have split: "s = s' \<and> t = t'"
    if "s @ ''.'' @ t = s' @ ''.'' @ t'" "\<not> list_ex float_char s" "\<not> list_ex float_char s'"
    for s t s' t' :: string
  proof -
    from that(2,3) have d: "CHR ''.'' \<notin> set s" "CHR ''.'' \<notin> set s'"
      by (auto simp: list_ex_iff float_char_def)
    have "takeWhile (\<lambda>c. c \<noteq> CHR ''.'') (u @ ''.'' @ v) = u" if "CHR ''.'' \<notin> set u" for u v :: string
      using that by (induction u) auto
    from this [OF d(1), of t] this [OF d(2), of t'] that(1) show ?thesis by simp
  qed
  have inj: "a = b" if "float_repr E0 (Fin a) = float_repr E0 (Fin b)" for a b
  proof -
    from that have "str_of_int (fst (quotient_of a)) = str_of_int (fst (quotient_of b))"
      "str_of_int (snd (quotient_of a)) = str_of_int (snd (quotient_of b))"
      using split [of "str_of_int (fst (quotient_of a))" "str_of_int (snd (quotient_of a))"
          "str_of_int (fst (quotient_of b))" "str_of_int (snd (quotient_of b))"] str_of_int_chars
      by (simp_all add: E0_def)
    then have "quotient_of a = quotient_of b" by (simp add: str_of_int_inject prod_eq_iff)
    then show ?thesis by (metis quotient_of_inject)
  qed
  have "list_all number_char (float_repr E0 (Fin a)) \<and> list_ex float_char (float_repr E0 (Fin a))" for a
    using str_of_int_chars by (simp add: E0_def number_char_def float_char_def)
  with inj show ?thesis by (auto simp: float_repr_ok_def)
qed

lemma w0_simps [simp]:
  "db w0 = empty_db" "clock w0 = int" "clock_reads w0 = 0"
  by (simp_all add: w0_def)

lemma w0_inv: "store_inv E vr (db w0)"
  by (simp add: empty_db_inv)

lemma run_calls_clock: "clock (run_calls E g vr cs w) = clock w"
  using steps_time [OF run_calls_steps] by blast

definition w_budget :: world where
  \<comment> \<open>a tenant with a budget of 10 units, 4 of them reserved\<close>
  "w_budget = run_calls E0 300 None [CreateBudget ''acme'' ''daily'' 10, ReserveBudget ''acme'' ''daily'' ''r1'' 4] w0"

definition w_lease :: world where
  \<comment> \<open>a lease taken over after it ran out\<close>
  "w_lease = run_calls E0 300 None [AcquireLease ''acme'' ''train'' ''w1'' 5 (Some 0),
     AcquireLease ''acme'' ''train'' ''w2'' 5 (Some 9)] w0"

definition w_policy :: world where
  \<comment> \<open>two artifacts of a policy, the first promoted\<close>
  "w_policy = run_calls E0 300 None
     [RegisterPolicyArtifact ''acme'' ''a1'' ''pol'' ''v1'' (replicate 64 CHR ''0'') ''file:a1'' None,
      RegisterPolicyArtifact ''acme'' ''a2'' ''pol'' ''v2'' (replicate 64 CHR ''1'') ''file:a2'' None,
      PromotePolicy ''acme'' ''pol'' ''a1'' None ''ann'' ''first'' None (Some ''p1'')] w0"

definition w_idem :: world where
  \<comment> \<open>a request claimed and completed\<close>
  "w_idem = run_calls E0 300 None [ClaimIdempotency ''acme'' ''run'' ''k'' JNull (Some 60),
     CompleteIdempotency ''acme'' ''run'' ''k'' (JInt 7)] w0"

definition signer0 :: receipt_signer where
  "signer0 = \<lparr>sg_keys = [(''k1'', replicate 32 CHR ''x'')], sg_active_key_id = ''k1''\<rparr>"

definition verifier0 :: receipt_verifier where
  "verifier0 = \<lparr>vr_keys = [(''k1'', replicate 32 CHR ''x'')], vr_clock_skew_seconds = 30\<rparr>"

definition evidence_payload0 :: json where
  "evidence_payload0 = JObj [(''evidence_kind'', JStr ''lint''), (''subject_id'', JStr ''run-1'')]"

definition evidence0 :: json where
  \<comment> \<open>an evidence receipt issued at time 0 for an hour\<close>
  "evidence0 = (case sign E0 signer0 0 ''n'' evidence_payload0 ''evidence'' ''acme'' (Some 3600) None (Some ''n1'') of
     Inr env \<Rightarrow> env | Inl _ \<Rightarrow> JNull)"

lemma evidence0_code [code]:
  "evidence0 = JObj
  [(''version'', JInt 1), (''algorithm'', JStr ''HS256''), (''key_id'', JStr ''k1''), (''purpose'', JStr ''evidence''),
   (''tenant_id'', JStr ''acme''), (''issued_at'', JInt 0), (''expires_at'', JInt 3600), (''nonce'', JStr ''n1''),
   (''payload'', JObj [(''evidence_kind'', JStr ''lint''), (''subject_id'', JStr ''run-1'')]),
   (''signature'', JStr (replicate 43 CHR ''A''))]"
  by code_simp

definition w_receipt :: world where
  "w_receipt = run_calls E0 300 (Some verifier0) [RecordEvidence 0 ''acme'' evidence0 None] w0"

end
