(* ===== verification/StoreProperties.thy ===== *)
theory StoreProperties
  imports Instances
begin

text \<open>
  The properties of the store and of the receipts, each with a concrete instance where it has
  hypotheses. They rest on the lemmas of the component theories and on the interpretations of the
  locales \<open>fencing\<close>, \<open>append_log\<close>, \<open>expiring\<close> and \<open>invariant_system\<close>.
\<close>

section \<open>The store\<close>

text \<open>
  C1. Starting from an empty database, every sequence of store calls with any arguments, successful
  or not, keeps the invariant of the store: budget counters within the limit and equal to the sums of
  the reservation ledger, unique keys, positive fencing tokens, results exactly on finalized
  idempotency records, contiguous stream versions, authentic receipts, and a champion registry that is
  the last entry of a contiguous promotion audit.
\<close>

theorem reachable_store_inv:
  assumes "sha256_ok E" "db w = empty_db" "store_steps E g vr w w'"
  shows "store_inv E vr (db w')"
  using store.inv_steps [OF assms(3)] assms(1,2) empty_db_inv by metis

theorem reachable_store_inv_witness: "store_inv E0 None (db w_budget)"
  unfolding w_budget_def
  by (rule reachable_store_inv [OF E0_sha256 _ run_calls_steps]) simp

text \<open>
  C2. In every reachable state no budget is overspent: reserved and consumed units are not negative,
  together they are at most the limit, and they are the sums over the reservations of the ledger.
\<close>

theorem budget_never_overspent:
  assumes "sha256_ok E" "db w = empty_db" "store_steps E g vr w w'" "budget_at x y (db w') = Some b"
  shows "0 \<le> bd_reserved_units b \<and> 0 \<le> bd_consumed_units b
    \<and> bd_reserved_units b + bd_consumed_units b \<le> bd_limit_units b
    \<and> bd_reserved_units b = ledger_sum RESERVED x y (db w')
    \<and> bd_consumed_units b = ledger_sum CONSUMED x y (db w')"
proof -
  have "budgets_ok (db w')"
    using store.inv_steps [OF assms(3)] assms(1,2) empty_db_inv by (metis store_inv_def)
  with budget_at_Some [OF assms(4)] show ?thesis
    by (auto simp: budgets_ok_def budget_check_def accounting_ok_def)
qed

theorem budget_never_overspent_witness:
  "ledger_sum RESERVED ''acme'' ''daily'' (db w_budget) = 4"
proof -
  have b: "budget_at ''acme'' ''daily'' (db w_budget) = Some
      \<lparr>bd_tenant_id = ''acme'', bd_budget_id = ''daily'', bd_limit_units = 10, bd_reserved_units = 4,
       bd_consumed_units = 0, bd_version = 1, bd_created_at = 0, bd_updated_at = 1\<rparr>"
    by code_simp
  show ?thesis
    using budget_never_overspent [OF E0_sha256 _ run_calls_steps b [unfolded w_budget_def]]
    unfolding w_budget_def by simp
qed

text \<open>
  C3. A fencing token names one holder: if the token of a resource is the same in two states of a run
  and the later state has a holder, the earlier state had the same holder. So a worker that still sees
  its token was never replaced.
\<close>

theorem token_names_one_holder:
  assumes "store_steps E g vr w w'" "fence x y (db w') = fence x y (db w)" "holder x y (db w') = Some h"
  shows "holder x y (db w) = Some h"
  using assms by (rule lease_fence.token_names_holder)

theorem token_names_one_holder_witness:
  "holder ''acme'' ''train'' (db (run_calls E0 300 None [AcquireLease ''acme'' ''train'' ''w1'' 5 (Some 0)] w0)) = Some ''w1''"
proof -
  let ?w = "run_calls E0 300 None [AcquireLease ''acme'' ''train'' ''w1'' 5 (Some 0)] w0"
  let ?v = "run_calls E0 300 None [RenewLease ''acme'' ''train'' ''w1'' 1 5 (Some 3)] ?w"
  have "fence ''acme'' ''train'' (db ?v) = fence ''acme'' ''train'' (db ?w)"
    "holder ''acme'' ''train'' (db ?v) = Some ''w1''" by code_simp+
  with token_names_one_holder [OF run_calls_steps] show ?thesis by blast
qed

text \<open>
  A worker whose token has been superseded stays locked out: after any further calls, renewing the
  lease with the old token fails and changes nothing.
\<close>

theorem superseded_worker_stays_out:
  assumes "store_steps E g vr w w'" "k < fence x y (db w)"
    and "0 < ttl" "0 \<le> t" "sql_int t" "sql_int (t + ttl)" "sql_int k"
  shows "renew_lease x y h k ttl (Some t) w' =
    (Inl (Exc ConflictError ''lease token is stale, released, or expired''), w')"
  using lease_fence.stale_stays_stale [OF assms(1,2)] assms(3-7) by (intro renew_lease_stale) simp_all

theorem superseded_worker_stays_out_witness:
  "renew_lease ''acme'' ''train'' ''w1'' 1 5 (Some 10) w_lease =
    (Inl (Exc ConflictError ''lease token is stale, released, or expired''), w_lease)"
proof (rule superseded_worker_stays_out [where w = w_lease and E = E0 and g = 300 and vr = None])
  show "1 < fence ''acme'' ''train'' (db w_lease)" by code_simp
qed (simp_all add: sql_int_def)

text \<open>
  A lease that is held and has not expired cannot be taken by another worker: the call raises
  \<open>LeaseUnavailableError\<close> and the store is unchanged.
\<close>

theorem live_lease_is_exclusive:
  assumes "x \<noteq> []" "y \<noteq> []" "h \<noteq> []" "0 < ttl" "0 \<le> t"
    and "lease_at x y (db w) = Some r" "ls_holder_id r = Some h'" "h' \<noteq> h" "t < ls_expires_at r"
  shows "acquire_lease x y h ttl (Some t) w = (Inl (Exc LeaseUnavailableError ''lease is held''), w)"
  using assms by (rule acquire_lease_busy)

theorem live_lease_is_exclusive_witness:
  "acquire_lease ''acme'' ''train'' ''w1'' 5 (Some 10) w_lease
     = (Inl (Exc LeaseUnavailableError ''lease is held''), w_lease)"
proof -
  have "lease_at ''acme'' ''train'' (db w_lease) = Some \<lparr>ls_tenant_id = ''acme'', ls_resource_id = ''train'',
    ls_holder_id = Some ''w2'', ls_fencing_token = 2, ls_acquired_at = 9, ls_heartbeat_at = 9, ls_expires_at = 14\<rparr>"
    by code_simp
  then show ?thesis by (rule live_lease_is_exclusive [where h' = "''w2''", rotated 5]) simp_all
qed

text \<open>
  C4. Exactly once: after a request claimed an idempotency key as new, whatever calls follow, a second
  claim of the same key before the record expires is not new. It returns the record of the first
  request when the request hash is the same and raises \<open>ConflictError\<close> otherwise.
\<close>

theorem idempotency_claimed_once:
  assumes E: "sha256_ok E" "store_inv E vr (db w)"
    and first: "claim_idempotency E x y z req ttl w = (Inr rec, w1)" "ir_is_new rec"
    and calls: "store_steps E g vr w1 w2"
    and time: "\<And>j. j < clock_reads w2 \<Longrightarrow> clock w2 j \<le> clock w2 (clock_reads w2)"
    and live: "\<And>e. ir_expires_at rec = Some e \<Longrightarrow> clock w2 (clock_reads w2) \<le> e"
    and second: "claim_idempotency E x y z req2 ttl2 w2 = (res, w3)" "sha256_hex E req2 = Inr h"
      "pred_option (\<lambda>n. 0 < n) ttl2" "sql_int (clock w2 (clock_reads w2))"
  shows "if ir_request_hash rec = h then \<exists>rec2. res = Inr rec2 \<and> \<not> ir_is_new rec2 \<and> ir_request_hash rec2 = h
         else res = Inl (Exc ConflictError ''idempotency key was used for a different request'')"
proof -
  from first obtain r where rec: "rec = idempotency_record_of r True" and new: "r \<in> set (idempotency_records (db w1))"
    and key: "idempotency_key r = (x, y, z)" and names: "x \<noteq> []" "y \<noteq> []" "z \<noteq> []"
    by (rule claim_idempotency_new)
  have inv1: "store_inv E vr (db w1)"
    using step_inv [OF E store_step.call [of E g vr "ClaimIdempotency x y z req ttl"]] first(1)
    by (simp add: void_def bind_def)
  have "idem_retained r w1" using new by (rule idem.retained_init)
  with steps_idem_retains [OF calls E(1) inv1] have inv2: "store_inv E vr (db w2)" and held: "idem_retained r w2"
    by blast+
  have "\<not> past id_expires_at (clock w2 (clock_reads w2)) r"
    using live by (auto simp: past_def rec idempotency_record_of_def split: option.splits)
  with idem.retained_live [OF held time] obtain s where s: "s \<in> set (idempotency_records (db w2))" "idem_evolves r s"
    by blast
  then have "idempotency_key s = (x, y, z)" "id_request_hash s = id_request_hash r"
    "\<not> past id_expires_at (clock w2 (clock_reads w2)) s"
    using key live by (auto simp: idem_evolves_def past_def rec idempotency_record_of_def split: option.splits)
  with claim_idempotency_held [OF second(1) _ s(1) _ _ names second(3,4,2)] inv2 show ?thesis
    by (simp add: store_inv_def rec)
qed

theorem idempotency_claimed_once_witness:
  "fst (claim_idempotency E0 ''acme'' ''run'' ''k'' JNull (Some 60) w_idem) =
     Inr \<lparr>ir_tenant_id = ''acme'', ir_scope = ''run'', ir_key = ''k'', ir_request_hash = replicate 64 CHR ''0'',
          ir_status = COMPLETED, ir_result = Some (JInt 7), ir_created_at = 0, ir_updated_at = 1,
          ir_expires_at = Some 60, ir_is_new = False\<rparr>
   \<and> (\<exists>rec2. fst (claim_idempotency E0 ''acme'' ''run'' ''k'' JNull (Some 60) w_idem) = Inr rec2 \<and> \<not> ir_is_new rec2)"
proof
  show "fst (claim_idempotency E0 ''acme'' ''run'' ''k'' JNull (Some 60) w_idem) =
     Inr \<lparr>ir_tenant_id = ''acme'', ir_scope = ''run'', ir_key = ''k'', ir_request_hash = replicate 64 CHR ''0'',
          ir_status = COMPLETED, ir_result = Some (JInt 7), ir_created_at = 0, ir_updated_at = 1,
          ir_expires_at = Some 60, ir_is_new = False\<rparr>" by code_simp
  let ?h = "replicate 64 CHR ''0''"
  define rec where "rec = idempotency_record_of (claimed_row ''acme'' ''run'' ''k'' ?h 0 (Some 60)) True"
  define w1 where "w1 = run_calls E0 300 None [ClaimIdempotency ''acme'' ''run'' ''k'' JNull (Some 60)] w0"
  have first: "claim_idempotency E0 ''acme'' ''run'' ''k'' JNull (Some 60) w0 = (Inr rec, w1)"
    by (simp add: rec_def w1_def claim_idempotency_def bind_apply andthen_apply required_def require_apply
        sha256_hex_def canonical_json_bytes_def validate_json_def E0_def w0_def empty_db_def transaction_def
        bind_ints_def sql_int_def drop_expired_def idempotency_at_def row_at_def delete_where_def void_def
        claimed_row_def idempotency_key_def Let_def)
  have w2: "w_idem = run_calls E0 300 None [CompleteIdempotency ''acme'' ''run'' ''k'' (JInt 7)] w1"
    by (simp add: w_idem_def w1_def)
  have ck: "clock_reads w_idem = 2" by code_simp
  have clk: "clock w_idem = int" by (simp add: w_idem_def run_calls_clock del: run_calls.simps)
  obtain res w3 where second: "claim_idempotency E0 ''acme'' ''run'' ''k'' JNull (Some 60) w_idem = (res, w3)"
    by fastforce
  have h: "sha256_hex E0 JNull = Inr ?h"
    by (simp add: sha256_hex_def canonical_json_bytes_def validate_json_def E0_def)
  have "if ir_request_hash rec = ?h then \<exists>rec2. res = Inr rec2 \<and> \<not> ir_is_new rec2 \<and> ir_request_hash rec2 = ?h
         else res = Inl (Exc ConflictError ''idempotency key was used for a different request'')"
    by (rule idempotency_claimed_once [OF E0_sha256 w0_inv first _ run_calls_steps [of E0 300 None w1
            "[CompleteIdempotency ''acme'' ''run'' ''k'' (JInt 7)]", folded w2] _ _ second h])
       (auto simp: rec_def ck clk sql_int_def idempotency_record_of_def claimed_row_def)
  then show "\<exists>rec2. fst (claim_idempotency E0 ''acme'' ''run'' ''k'' JNull (Some 60) w_idem) = Inr rec2 \<and> \<not> ir_is_new rec2"
    by (auto simp: second rec_def)
qed



text \<open>
  C6. Every receipt in the store was authenticated by the store's verifier under the purpose of its table
  and the tenant of its row, and the reward of an experience receipt lies in [-1, 1].
\<close>

theorem stored_receipts_are_authentic:
  assumes "sha256_ok E" "db w = empty_db" "store_steps E g vr w w'"
  shows "(\<forall>r \<in> set (evidence_receipts (db w')). authentic E vr ''evidence'' (ed_tenant_id r) (ed_envelope_json r))
    \<and> (\<forall>r \<in> set (experience_receipts (db w')).
         authentic E vr ''experience'' (ex_tenant_id r) (ex_envelope_json r) \<and> fin_between (- 1) (ex_reward r) 1)"
proof -
  have "receipts_ok E vr (db w')"
    using store.inv_steps [OF assms(3)] assms(1,2) empty_db_inv by (metis store_inv_def)
  then show ?thesis by (simp add: receipts_ok_def)
qed

theorem stored_receipts_are_authentic_witness:
  "evidence_receipts (db w_receipt) \<noteq> [] \<and>
   authentic E0 (Some verifier0) ''evidence'' ''acme'' (ed_envelope_json (hd (evidence_receipts (db w_receipt))))"
proof -
  have ne: "evidence_receipts (db w_receipt) \<noteq> []" and x: "ed_tenant_id (hd (evidence_receipts (db w_receipt))) = ''acme''"
    by code_simp+
  from stored_receipts_are_authentic [OF E0_sha256 _ run_calls_steps, of w0 300 "Some verifier0"
      "[RecordEvidence 0 ''acme'' evidence0 None]", folded w_receipt_def] ne x
  show ?thesis by (metis hd_in_set w0_simps(1))
qed

text \<open>
  C7. Events, receipts, artifacts, training runs and the promotion audit are append-only: in every run an
  entry keeps its place and its content.
\<close>

theorem logs_are_append_only:
  assumes "store_steps E g vr w w'"
  shows "prefix (events (db w)) (events (db w')) \<and> prefix (evidence_receipts (db w)) (evidence_receipts (db w'))
    \<and> prefix (experience_receipts (db w)) (experience_receipts (db w'))
    \<and> prefix (policy_artifacts (db w)) (policy_artifacts (db w'))
    \<and> prefix (training_runs (db w)) (training_runs (db w'))
    \<and> prefix (promotion_audit (db w)) (promotion_audit (db w'))"
  using event_log.steps_prefix [OF assms] evidence_log.steps_prefix [OF assms]
    experience_log.steps_prefix [OF assms] artifact_log.steps_prefix [OF assms]
    training_log.steps_prefix [OF assms] audit_log.steps_prefix [OF assms] by blast

theorem logs_are_append_only_witness:
  "length (promotion_audit (db w_policy)) = 1 \<and>
   prefix (promotion_audit (db w_policy)) (promotion_audit (db
     (run_calls E0 300 None [PromotePolicy ''acme'' ''pol'' ''a2'' (Some ''a1'') ''bob'' ''better'' None (Some ''p2'')] w_policy)))"
proof
  show "length (promotion_audit (db w_policy)) = 1" by code_simp
qed (use logs_are_append_only [OF run_calls_steps] in blast)

text \<open>
  C8. In every reachable state the champion of a policy is the artifact of the last promotion of its audit,
  the generations of the audit count from 1 without gaps, every promotion names its predecessor, and
  \<open>get_champion\<close> returns exactly that artifact.
\<close>

theorem champion_is_last_promotion:
  assumes "sha256_ok E" "db w = empty_db" "store_steps E g vr w w'"
  shows "registry_ok x p (db w') \<and>
    champion_id x p (db w') = (if history x p (db w') = [] then None else Some (pr_artifact_id (last (history x p (db w'))))) \<and>
    (\<exists>c. get_champion x p w' = (Inr c, w') \<and> map_option (ar_artifact_id \<circ> snd) c = champion_id x p (db w'))"
proof -
  have ok: "policies_ok (db w')"
    using store.inv_steps [OF assms(3)] assms(1,2) empty_db_inv by (metis store_inv_def)
  show ?thesis using champion_of_history [OF ok] by blast
qed

theorem champion_is_last_promotion_witness:
  "champion_id ''acme'' ''pol'' (db w_policy) = Some ''a1'' \<and> registry_ok ''acme'' ''pol'' (db w_policy)"
proof
  show "champion_id ''acme'' ''pol'' (db w_policy) = Some ''a1''" by code_simp
  show "registry_ok ''acme'' ''pol'' (db w_policy)"
    unfolding w_policy_def using champion_is_last_promotion [OF E0_sha256 w0_simps(1) run_calls_steps] by blast
qed

text \<open>
  C9. Promotion is a compare-and-swap: of two promotions that expect the same champion, once the first
  has installed another artifact, the second raises \<open>ConflictError\<close> (or its artifact is missing or of
  another policy) and changes nothing.
\<close>

theorem promotion_not_lost:
  assumes ok: "policies_ok (db w)"
    and first: "promote_policy x p a expd who reason rc aid w = (Inr r, w1)" "expd \<noteq> Some a"
    and second: "promote_policy x p a2 expd who2 reason2 rc2 aid2 w1 = (res, w2)"
  shows "(\<exists>e. res = Inl e) \<and> db w2 = db w1 \<and> history x p (db w1) = history x p (db w) @ [r]"
proof -
  have ok1: "policies_ok (db w1)" using keepsD [OF promote_keeps ok first(1)] .
  have cur: "champion_id x p (db w1) = Some a" using promote_success(2) [OF ok first(1)] .
  have hist: "history x p (db w1) = history x p (db w) @ [r]"
    using promote_success(5) [OF ok first(1), of x p] first(2) by simp
  show ?thesis
  proof (cases res)
    case (Inl e)
    with second all_or_nothingD [OF promote_aon] hist show ?thesis by blast
  next
    case (Inr s)
    with promote_success(1) [OF ok1 second [unfolded Inr]] cur first(2) show ?thesis by simp
  qed
qed

theorem promotion_not_lost_witness:
  "\<exists>e. fst (promote_policy ''acme'' ''pol'' ''a1'' (Some ''a1'') ''eve'' ''late'' None (Some ''p3'')
     (snd (promote_policy ''acme'' ''pol'' ''a2'' (Some ''a1'') ''bob'' ''better'' None (Some ''p2'') w_policy))) = Inl e"
proof -
  let ?m = "promote_policy ''acme'' ''pol'' ''a2'' (Some ''a1'') ''bob'' ''better'' None (Some ''p2'') w_policy"
  have ok: "policies_ok (db w_policy)"
    unfolding w_policy_def using store.inv_steps [OF run_calls_steps] w0_inv E0_sha256 by (metis store_inv_def)
  obtain res w1 where run: "?m = (res, w1)" by fastforce
  have "isl (fst ?m) = False" by code_simp
  then obtain r where r: "?m = (Inr r, w1)" using run by (cases res) auto
  obtain res2 w2 where "promote_policy ''acme'' ''pol'' ''a1'' (Some ''a1'') ''eve'' ''late'' None (Some ''p3'') w1 = (res2, w2)"
    by fastforce
  with promotion_not_lost [OF ok r _ this] show ?thesis by (auto simp: run)
qed

text \<open>
  C10. Recovery at startup: in every reachable state the accounting check passes and recovery succeeds;
  afterwards no idempotency record is in progress, no reservation is open, no budget has reserved units
  and no lease has a holder, while consumed units, limits, fencing tokens and the append-only logs are
  unchanged.
\<close>

theorem recovery_succeeds_and_closes:
  assumes "sha256_ok E" "db w = empty_db" "store_steps E g vr w w'" "sql_int (clock w' (clock_reads w'))"
  shows "\<exists>rep w''. reconcile_startup w' = (Inr rep, w'') \<and> store_inv E vr (db w'') \<and>
    (\<forall>r \<in> set (idempotency_records (db w'')). id_status r \<noteq> IN_PROGRESS) \<and>
    (\<forall>r \<in> set (budget_reservations (db w'')). rs_status r \<noteq> RESERVED) \<and>
    (\<forall>b \<in> set (budgets (db w'')). bd_reserved_units b = 0) \<and>
    (\<forall>r \<in> set (leases (db w'')). ls_holder_id r = None) \<and>
    (\<forall>x y b. budget_at x y (db w') = Some b \<longrightarrow> (\<exists>b'. budget_at x y (db w'') = Some b'
       \<and> bd_consumed_units b' = bd_consumed_units b \<and> bd_limit_units b' = bd_limit_units b)) \<and>
    promotion_audit (db w'') = promotion_audit (db w') \<and> events (db w'') = events (db w')"
proof -
  have inv: "store_inv E vr (db w')"
    using store.inv_steps [OF assms(3)] assms(1,2) empty_db_inv by metis
  then have ok: "budgets_ok (db w')" by (simp add: store_inv_def)
  from reconcile_succeeds [OF ok assms(4)] obtain rep w'' where run: "reconcile_startup w' = (Inr rep, w'')" by blast
  note d = reconcile_Inr(1) [OF run]
  have "store_inv E vr (db w'')" unfolding d using inv by (rule recovered_inv)
  with run recovered_closed [OF ok] recovered_consumed show ?thesis
    by (intro exI [of _ rep] exI [of _ w''] conjI) (simp_all add: d recovered_fields)
qed

theorem recovery_succeeds_and_closes_witness:
  "\<exists>rep w''. reconcile_startup w_budget = (Inr rep, w'') \<and> (\<forall>b \<in> set (budgets (db w'')). bd_reserved_units b = 0)"
proof -
  have "clock w_budget = int" by (simp add: w_budget_def run_calls_clock del: run_calls.simps)
  moreover have "clock_reads w_budget = 2" by code_simp
  ultimately have "sql_int (clock w_budget (clock_reads w_budget))" by (simp add: sql_int_def)
  with recovery_succeeds_and_closes [OF E0_sha256 w0_simps(1) run_calls_steps, of 300 None
      "[CreateBudget ''acme'' ''daily'' 10, ReserveBudget ''acme'' ''daily'' ''r1'' 4]", folded w_budget_def]
  show ?thesis by blast
qed



text \<open>
  The event log refines one list of events per stream: a successful append adds its event at the end
  of its stream and touches no other stream, the version it returns is the new length, and an expected
  version is accepted only when it is the current length.
\<close>

theorem append_event_refines_stream:
  assumes "events_ok (db w)" "append_event E x s ty p i ver oc w = (Inr r, w')"
  shows "stream_of x s (db w') = stream_of x s (db w) @ [r]
    \<and> (\<forall>y q. (y, q) \<noteq> (x, s) \<longrightarrow> stream_of y q (db w') = stream_of y q (db w))
    \<and> ev_stream_version r = int (length (stream_of x s (db w')))
    \<and> (\<forall>n. ver = Some n \<longrightarrow> n = int (length (stream_of x s (db w))))
    \<and> events_ok (db w')"
  using append_event_refines [OF assms] keepsD [OF append_event_keeps assms] by auto

theorem append_event_refines_stream_witness:
  "\<exists>r w'. append_event E0 ''acme'' ''s'' ''started'' JNull (Some ''e1'') (Some 0) (Some 5) w0 = (Inr r, w')
     \<and> stream_of ''acme'' ''s'' (db w') = [r]"
proof -
  let ?m = "append_event E0 ''acme'' ''s'' ''started'' JNull (Some ''e1'') (Some 0) (Some 5) w0"
  obtain res w' where run: "?m = (res, w')" by fastforce
  have "isl (fst ?m) = False" by code_simp
  then obtain r where r: "?m = (Inr r, w')" using run by (cases res) auto
  have ok: "events_ok (db w0)" using w0_inv [of E0 None] by (simp add: store_inv_def)
  have "stream_of ''acme'' ''s'' (db w0) = []" by (simp add: stream_of_def empty_db_def)
  with append_event_refines_stream [OF ok r] r show ?thesis by auto
qed

text \<open>
  A new reservation succeeds exactly when its units are available; it then moves them into
  \<open>reserved_units\<close> and adds one \<open>RESERVED\<close> row, otherwise it raises \<open>BudgetExceededError\<close> and the
  database is unchanged.
\<close>

theorem reserve_budget_outcome:
  assumes "budgets_ok (db w)" "x \<noteq> []" "y \<noteq> []" "i \<noteq> []" "0 < units"
    and "reservation_at x y i (db w) = None" "budget_at x y (db w) = Some b"
    and "sql_int units" "sql_int (clock w (clock_reads w))"
  shows "if units \<le> bd_limit_units b - bd_reserved_units b - bd_consumed_units b
    then \<exists>w'. reserve_budget x y i units w =
           (Inr (budget_of (add_reserved units (clock w (clock_reads w)) b)), w')
         \<and> db w' = ledger_reserve x y i units (clock w (clock_reads w)) (db w)
    else \<exists>w'. reserve_budget x y i units w =
           (Inl (Exc BudgetExceededError ''reservation needs more units than remain''), w') \<and> db w' = db w"
  using reserve_budget_new [OF assms] by simp

theorem reserve_budget_outcome_witness:
  "\<exists>w'. reserve_budget ''acme'' ''daily'' ''r2'' 7 w_budget =
     (Inl (Exc BudgetExceededError ''reservation needs more units than remain''), w') \<and> db w' = db w_budget"
proof -
  have ok: "budgets_ok (db w_budget)"
    unfolding w_budget_def using store.inv_steps [OF run_calls_steps] w0_inv E0_sha256 by (metis store_inv_def)
  have clk: "clock w_budget = int" by (simp add: w_budget_def run_calls_clock del: run_calls.simps)
  have ck: "clock_reads w_budget = 2" by code_simp
  have none: "reservation_at ''acme'' ''daily'' ''r2'' (db w_budget) = None" by code_simp
  have b: "budget_at ''acme'' ''daily'' (db w_budget) = Some
      \<lparr>bd_tenant_id = ''acme'', bd_budget_id = ''daily'', bd_limit_units = 10, bd_reserved_units = 4,
       bd_consumed_units = 0, bd_version = 1, bd_created_at = 0, bd_updated_at = 1\<rparr>"
    by code_simp
  from reserve_budget_outcome [OF ok _ _ _ _ none b, of 7] show ?thesis by (simp add: clk ck sql_int_def)
qed

text \<open>
  C12. Every failing call of the store leaves the database as it was, whatever the call and the error.
\<close>

theorem failed_calls_change_nothing:
  assumes "sha256_ok E" "run_call E g vr c w = (Inl e, w')"
  shows "db w' = db w"
  using run_call_aon [OF assms(1)] assms(2) by (rule all_or_nothingD)

theorem failed_calls_change_nothing_witness:
  "db (snd (run_call E0 300 None (ReserveBudget ''acme'' ''daily'' ''r2'' 7) w_budget)) = db w_budget"
proof -
  let ?m = "run_call E0 300 None (ReserveBudget ''acme'' ''daily'' ''r2'' 7) w_budget"
  have "isl (fst ?m)" by code_simp
  then obtain e where "fst ?m = Inl e" by (cases "fst ?m") auto
  then have "?m = (Inl e, snd ?m)" by (simp add: prod_eq_iff)
  then show ?thesis by (rule failed_calls_change_nothing [OF E0_sha256])
qed

section \<open>Receipts\<close>

text \<open>
  C13. A receipt signed with a key the verifier has, for a purpose and a tenant, is verified under that
  purpose and tenant inside its validity window, and the verifier returns the signed payload.
\<close>

theorem signed_receipt_verifies:
  assumes "sign E sg clk tok payload purpose tenant ttl issued nonce_arg = Inr env"
    and "hmac_ok E" "sg_active_key_id sg \<noteq> []"
    and "map_of (vr_keys vr) (sg_active_key_id sg) = map_of (sg_keys sg) (sg_active_key_id sg)"
    and "(case issued of None \<Rightarrow> clk | Some t \<Rightarrow> t) \<le> vnow + vr_clock_skew_seconds vr"
    and "\<And>t. ttl = Some t \<Longrightarrow> vnow \<le> (case issued of None \<Rightarrow> clk | Some t \<Rightarrow> t) + t + vr_clock_skew_seconds vr"
  shows "verify E vr vnow env (Some purpose) (Some tenant) None s = (Inr payload, s)"
  using assms by (rule sign_verify_roundtrip)

theorem signed_receipt_verifies_witness:
  "verify E0 verifier0 100 evidence0 (Some ''evidence'') (Some ''acme'') None w0 = (Inr evidence_payload0, w0)"
proof -
  have "sign E0 signer0 0 ''n'' evidence_payload0 ''evidence'' ''acme'' (Some 3600) None (Some ''n1'') = Inr evidence0"
    by code_simp
  then show ?thesis
    by (rule signed_receipt_verifies) (simp_all add: E0_hmac signer0_def verifier0_def)
qed

text \<open>
  C14. Two accepted envelopes with the same key and the same signature agree on every signed field, up to
  the order of object keys, unless their signed bytes are an HMAC collision.
\<close>

theorem signature_binds_fields:
  assumes "float_repr_ok E"
    and "authenticate_envelope E vr vnow env pur ten = Inr ()" "authenticate_envelope E vr vnow2 env' pur' ten' = Inr ()"
    and "text_field env ''key_id'' = text_field env' ''key_id''" "field env ''signature'' = field env' ''signature''"
    and "\<And>k. inj_on (hmac256 E k)
        {b. canonical_json_bytes E (unsigned_of env) = Inr b \<or> canonical_json_bytes E (unsigned_of env') = Inr b}"
  shows "\<forall>n \<in> set SIGNED_FIELDS. canon (field env n) = canon (field env' n)"
  using authenticated_fields_unique [OF assms] by blast

theorem signature_binds_fields_witness:
  "canon (field evidence0 ''payload'') = canon (field (canon evidence0) ''payload'')"
proof -
  have a: "authenticate_envelope E0 verifier0 0 evidence0 None None = Inr ()"
    "authenticate_envelope E0 verifier0 0 (canon evidence0) None None = Inr ()" by code_simp+
  have "unsigned_of (canon evidence0) = unsigned_of evidence0" by code_simp
  then have "inj_on (hmac256 E0 k) {b. canonical_json_bytes E0 (unsigned_of evidence0) = Inr b
      \<or> canonical_json_bytes E0 (unsigned_of (canon evidence0)) = Inr b}" for k by (simp add: inj_on_def)
  moreover have "text_field evidence0 ''key_id'' = text_field (canon evidence0) ''key_id''"
    "field evidence0 ''signature'' = field (canon evidence0) ''signature''" by code_simp+
  moreover have "''payload'' \<in> set SIGNED_FIELDS" by (simp add: SIGNED_FIELDS_def)
  ultimately show ?thesis using signature_binds_fields [OF E0_float_repr a] by blast
qed

text \<open>
  Canonical bytes identify a value: two finite JSON values with the same canonical bytes are equal up
  to the order of object keys.
\<close>

theorem canonical_bytes_identify_value:
  assumes "float_repr_ok E" "canonical_json_bytes E v = Inr b" "canonical_json_bytes E v' = Inr b"
  shows "canon v = canon v'"
  using assms by (rule canonical_bytes_inject)

theorem canonical_bytes_identify_value_witness:
  "canon (JObj [(''b'', JInt 1), (''a'', JNull)]) = canon (JObj [(''a'', JNull), (''b'', JInt 1)])"
proof -
  have "canonical_json_bytes E0 (JObj [(''b'', JInt 1), (''a'', JNull)])
      = canonical_json_bytes E0 (JObj [(''a'', JNull), (''b'', JInt 1)])"
    "\<exists>b. canonical_json_bytes E0 (JObj [(''a'', JNull), (''b'', JInt 1)]) = Inr b" by code_simp (simp add: canonical_json_bytes_def validate_json_def)
  then show ?thesis using canonical_bytes_identify_value [OF E0_float_repr] by metis
qed

end
