(* ===== verification/EngineMoves.thy ===== *)
theory EngineMoves
  imports Json
begin

text \<open>
  Moves, positions and scenarios of the discussion game (\<open>src/agent_tree_rl/engine.py\<close>:
  \<open>MoveKind\<close>, \<open>TerminalStatus\<close>, \<open>Move\<close>, \<open>Position\<close>, \<open>Scenario\<close>). A validating constructor
  (\<open>__post_init__\<close>) is a function \<open>check_...\<close> that returns the value or the \<open>ValueError\<close>; the
  search works on checked values only.
\<close>

section \<open>Moves\<close>

datatype move_kind = PROPOSE | QUESTION | ANSWER | COMMIT | ABSTAIN
datatype terminal_status = COMMITTED | ABSTAINED

primrec kind_value :: "move_kind \<Rightarrow> string" where
  "kind_value PROPOSE = ''PROPOSE''" | "kind_value QUESTION = ''QUESTION''" | "kind_value ANSWER = ''ANSWER''"
| "kind_value COMMIT = ''COMMIT''" | "kind_value ABSTAIN = ''ABSTAIN''"

primrec status_value :: "terminal_status \<Rightarrow> string" where
  "status_value COMMITTED = ''COMMITTED''" | "status_value ABSTAINED = ''ABSTAINED''"

record move =
  mv_id :: string
  mv_action_key :: string
  mv_kind :: move_kind
  mv_actor :: string
  mv_text :: string
  mv_base_prior :: pyfloat
  mv_predicted_metrics :: "pyfloat dict"
  mv_cost :: pyfloat
  mv_tags :: "string list"
  mv_opens_question :: "string option"
  mv_requires_question :: "string option"
  mv_resolves_question :: "string option"
  mv_evidence_refs :: "string list"
  mv_violations :: "string list"

definition unit_interval :: "pyfloat \<Rightarrow> bool" where
  \<comment> \<open>\<open>math.isfinite(value) and 0.0 <= value <= 1.0\<close>\<close>
  "unit_interval x \<longleftrightarrow> isfinite x \<and> fle (Fin 0) x \<and> fle x (Fin 1)"

definition check_move :: "move \<Rightarrow> move result" where
  \<comment> \<open>\<open>Move.__post_init__\<close>\<close>
  "check_move m =
     bindR (guardR (mv_id m \<noteq> [] \<and> mv_action_key m \<noteq> [] \<and> mv_actor m \<noteq> []) ValueError
              ''move id, action_key, and actor must not be empty'') (\<lambda>_.
     bindR (guardR (isfinite (mv_base_prior m) \<and> \<not> fle (mv_base_prior m) (Fin 0)) ValueError
              ''base_prior must be finite and positive'') (\<lambda>_.
     bindR (guardR (isfinite (mv_cost m) \<and> \<not> flt (mv_cost m) (Fin 0)) ValueError
              ''cost must be finite and nonnegative'') (\<lambda>_.
     bindR (guardR (list_all (\<lambda>(_, v). unit_interval v) (mv_predicted_metrics m)) ValueError
              ''predicted metric must be in [0, 1]'') (\<lambda>_.
     Inr m))))"

definition json_of_opt :: "string option \<Rightarrow> json" where
  "json_of_opt v = (case v of None \<Rightarrow> JNull | Some s \<Rightarrow> JStr s)"

definition json_strs :: "string list \<Rightarrow> json" where
  "json_strs ss = JList (map JStr ss)"

definition json_floats :: "pyfloat dict \<Rightarrow> json" where
  \<comment> \<open>\<open>dict(sorted(values.items()))\<close>; the encoder sorts the keys\<close>
  "json_floats d = JObj (map (\<lambda>(k, v). (k, JFloat v)) d)"

definition semantic_signature :: "pyenv \<Rightarrow> move \<Rightarrow> string" where
  "semantic_signature E m = digest E (JObj
     [(''action_key'', JStr (mv_action_key m)), (''kind'', JStr (kind_value (mv_kind m))),
      (''actor'', JStr (mv_actor m)), (''tags'', json_strs (sort (mv_tags m))),
      (''opens'', json_of_opt (mv_opens_question m)), (''requires'', json_of_opt (mv_requires_question m)),
      (''resolves'', json_of_opt (mv_resolves_question m)),
      (''evidence_refs'', json_strs (sort (mv_evidence_refs m))),
      (''violations'', json_strs (sort (mv_violations m)))])"

definition content_hash :: "pyenv \<Rightarrow> move \<Rightarrow> string" where
  "content_hash E m = digest E (JObj
     [(''id'', JStr (mv_id m)), (''action_key'', JStr (mv_action_key m)),
      (''kind'', JStr (kind_value (mv_kind m))), (''actor'', JStr (mv_actor m)), (''text'', JStr (mv_text m)),
      (''base_prior'', JFloat (mv_base_prior m)), (''predicted_metrics'', json_floats (mv_predicted_metrics m)),
      (''cost'', JFloat (mv_cost m)), (''tags'', json_strs (mv_tags m)),
      (''opens'', json_of_opt (mv_opens_question m)), (''requires'', json_of_opt (mv_requires_question m)),
      (''resolves'', json_of_opt (mv_resolves_question m)),
      (''evidence_refs'', json_strs (mv_evidence_refs m)), (''violations'', json_strs (mv_violations m))])"

section \<open>Positions\<close>

record position =
  ps_scenario :: string
  ps_scenario_version :: string
  ps_phase :: nat
  ps_trajectory :: "move list"
  ps_open_questions :: "string list"
  ps_evidence_refs :: "string list"
  ps_spent_cost :: pyfloat
  ps_violations :: "string list"
  ps_terminal_status :: "terminal_status option"

definition is_terminal :: "position \<Rightarrow> bool" where
  "is_terminal p \<longleftrightarrow> ps_terminal_status p \<noteq> None"

definition json_of_status :: "terminal_status option \<Rightarrow> json" where
  "json_of_status s = json_of_opt (map_option status_value s)"

definition state_hash :: "pyenv \<Rightarrow> position \<Rightarrow> string" where
  "state_hash E p = digest E (JObj
     [(''scenario'', JStr (ps_scenario p)), (''scenario_version'', JStr (ps_scenario_version p)),
      (''phase'', JInt (int (ps_phase p))), (''move_hashes'', json_strs (map (content_hash E) (ps_trajectory p))),
      (''open_questions'', json_strs (sort (ps_open_questions p))),
      (''evidence_refs'', json_strs (sort (ps_evidence_refs p))), (''spent_cost'', JFloat (ps_spent_cost p)),
      (''violations'', json_strs (sort (ps_violations p))),
      (''terminal_status'', json_of_status (ps_terminal_status p))])"

section \<open>Scenarios\<close>

record scenario =
  sc_name :: string
  sc_version :: string
  sc_description :: string
  sc_phases :: "move list list"

definition truthy :: "string option \<Rightarrow> bool" where
  "truthy v \<longleftrightarrow> v \<noteq> None \<and> v \<noteq> Some []"

definition expected_kinds :: "move_kind list list" where
  "expected_kinds = [[PROPOSE], [QUESTION], [ANSWER], [COMMIT, ABSTAIN]]"

definition check_linkage :: "move \<Rightarrow> unit result" where
  \<comment> \<open>the question and answer linkage of one move\<close>
  "check_linkage m =
     (if mv_kind m = QUESTION then
        bindR (guardR (truthy (mv_opens_question m)) ValueError ''question must open an obligation'') (\<lambda>_.
        guardR (\<not> (truthy (mv_requires_question m) \<or> truthy (mv_resolves_question m))) ValueError
          ''question has invalid Q&A linkage'')
      else if mv_kind m = ANSWER then
        guardR (truthy (mv_requires_question m) \<and> truthy (mv_resolves_question m)
                \<and> mv_requires_question m = mv_resolves_question m) ValueError
          ''answer must require and resolve the same open question''
      else
        guardR (\<not> (truthy (mv_opens_question m) \<or> truthy (mv_requires_question m)
                   \<or> truthy (mv_resolves_question m))) ValueError ''Q&A linkage invalid'')"

definition check_candidate ::
  "pyenv \<Rightarrow> move_kind list \<Rightarrow> move \<Rightarrow> string list \<times> string list \<Rightarrow> (string list \<times> string list) result" where
  \<comment> \<open>the body of the inner loop on the sets \<open>ids\<close> and \<open>signatures\<close>\<close>
  "check_candidate E kinds m = (\<lambda>(ids, signatures).
     bindR (guardR (mv_kind m \<in> set kinds) ValueError ''move kind illegal in phase'') (\<lambda>_.
     bindR (guardR (mv_id m \<notin> set ids) ValueError ''duplicate move id'') (\<lambda>_.
     bindR (guardR (semantic_signature E m \<notin> set signatures) ValueError ''duplicate semantic move'') (\<lambda>_.
     bindR (check_linkage m) (\<lambda>_.
     Inr (mv_id m # ids, semantic_signature E m # signatures))))))"

definition check_phase ::
  "pyenv \<Rightarrow> move_kind list \<times> move list \<Rightarrow> string list \<Rightarrow> string list result" where
  "check_phase E = (\<lambda>(kinds, phase) ids.
     bindR (guardR (phase \<noteq> []) ValueError ''phase must contain candidates'') (\<lambda>_.
     bindR (foldR (check_candidate E kinds) phase (ids, [])) (\<lambda>(ids', _). Inr ids')))"

definition check_scenario :: "pyenv \<Rightarrow> scenario \<Rightarrow> scenario result" where
  \<comment> \<open>\<open>Scenario.__post_init__\<close>\<close>
  "check_scenario E sc =
     bindR (guardR (sc_name sc \<noteq> [] \<and> sc_version sc \<noteq> []) ValueError ''scenario name and version must not be empty'') (\<lambda>_.
     bindR (guardR (length (sc_phases sc) = length expected_kinds) ValueError
              ''synthetic scenario must contain exactly four typed phases'') (\<lambda>_.
     bindR (foldR (check_phase E) (zip expected_kinds (sc_phases sc)) []) (\<lambda>_.
     Inr sc)))"

definition initial_position :: "scenario \<Rightarrow> position" where
  "initial_position sc =
     \<lparr>ps_scenario = sc_name sc, ps_scenario_version = sc_version sc, ps_phase = 0, ps_trajectory = [],
      ps_open_questions = [], ps_evidence_refs = [], ps_spent_cost = Fin 0, ps_violations = [],
      ps_terminal_status = None\<rparr>"

definition manifest_hash :: "pyenv \<Rightarrow> scenario \<Rightarrow> string" where
  "manifest_hash E sc = digest E (JObj
     [(''name'', JStr (sc_name sc)), (''version'', JStr (sc_version sc)), (''description'', JStr (sc_description sc)),
      (''phases'', JList (map (\<lambda>phase. json_strs (map (content_hash E) phase)) (sc_phases sc)))])"

definition assert_position :: "scenario \<Rightarrow> position \<Rightarrow> unit result" where
  \<comment> \<open>\<open>_assert_position\<close>\<close>
  "assert_position sc p =
     guardR (ps_scenario p = sc_name sc \<and> ps_scenario_version p = sc_version sc) ValueError
       ''position belongs to a different scenario version''"

definition candidate_legal :: "position \<Rightarrow> string list \<Rightarrow> move \<Rightarrow> bool" where
  "candidate_legal p benched m \<longleftrightarrow> mv_actor m \<notin> set benched \<and>
     (mv_kind m = ANSWER \<longrightarrow> (case mv_requires_question m of None \<Rightarrow> False | Some q \<Rightarrow> q \<in> set (ps_open_questions p)))"

definition legal_moves :: "scenario \<Rightarrow> position \<Rightarrow> string list \<Rightarrow> move list result" where
  "legal_moves sc p benched =
     bindR (assert_position sc p) (\<lambda>_.
     Inr (if is_terminal p \<or> length (sc_phases sc) \<le> ps_phase p then []
          else filter (candidate_legal p benched) (sc_phases sc ! ps_phase p)))"

definition open_after :: "move \<Rightarrow> string list \<Rightarrow> string list result" where
  \<comment> \<open>the questions open after the canonical move\<close>
  "open_after m qs =
     bindR (case mv_opens_question m of
              Some (c # cs) \<Rightarrow>
                if c # cs \<in> set qs then raiseR ValueError ''question is already open'' else Inr (qs @ [c # cs])
            | _ \<Rightarrow> Inr qs) (\<lambda>qs1.
     case mv_resolves_question m of
       Some (c # cs) \<Rightarrow>
         if c # cs \<notin> set qs1 then raiseR ValueError ''answer targets a question that is not open''
         else Inr (remove1 (c # cs) qs1)
     | _ \<Rightarrow> Inr qs1)"

definition status_after :: "move \<Rightarrow> terminal_status option" where
  "status_after m = (case mv_kind m of COMMIT \<Rightarrow> Some COMMITTED | ABSTAIN \<Rightarrow> Some ABSTAINED | _ \<Rightarrow> None)"

definition play :: "position \<Rightarrow> move \<Rightarrow> string list \<Rightarrow> position" where
  \<comment> \<open>the \<open>replace(position, ...)\<close> of \<open>apply\<close>\<close>
  "play p m qs = p\<lparr>ps_phase := ps_phase p + 1, ps_trajectory := ps_trajectory p @ [m], ps_open_questions := qs,
     ps_evidence_refs := dict_fromkeys (ps_evidence_refs p @ mv_evidence_refs m),
     ps_spent_cost := fadd (ps_spent_cost p) (mv_cost m),
     ps_violations := dict_fromkeys (ps_violations p @ mv_violations m),
     ps_terminal_status := status_after m\<rparr>"

definition apply_move :: "pyenv \<Rightarrow> scenario \<Rightarrow> position \<Rightarrow> move \<Rightarrow> string list \<Rightarrow> position result" where
  \<comment> \<open>\<open>Scenario.apply\<close>\<close>
  "apply_move E sc p m benched =
     bindR (legal_moves sc p benched) (\<lambda>legal.
     bindR (case map_of (dict_of (map (\<lambda>c. (mv_id c, c)) legal)) (mv_id m) of
              None \<Rightarrow> raiseR ValueError ''illegal move'' | Some c \<Rightarrow> Inr c) (\<lambda>canonical.
     bindR (guardR (content_hash E m = content_hash E canonical) ValueError
              ''move does not match canonical content'') (\<lambda>_.
     bindR (open_after canonical (ps_open_questions p)) (\<lambda>qs.
     Inr (play p canonical qs)))))"

definition SYSTEM_ABSTAIN_TEXT :: string where
  "SYSTEM_ABSTAIN_TEXT = ''No searched terminal branch passed every hard gate.''"

definition system_abstain_move :: "string \<Rightarrow> string list \<Rightarrow> move" where
  "system_abstain_move reason names =
     \<lparr>mv_id = ''SYSTEM_ABSTAIN'', mv_action_key = ''system.safe-abstain'', mv_kind = ABSTAIN,
      mv_actor = ''Orchestrator'', mv_text = reason, mv_base_prior = Fin 1,
      mv_predicted_metrics = map (\<lambda>n. (n, Fin 0)) names, mv_cost = Fin 0, mv_tags = [''safe-abstain''],
      mv_opens_question = None, mv_requires_question = None, mv_resolves_question = None,
      mv_evidence_refs = [], mv_violations = []\<rparr>"

definition safe_abstain :: "scenario \<Rightarrow> string \<Rightarrow> position" where
  \<comment> \<open>\<open>next(iter(self.phases[0]))\<close> exists in a checked scenario\<close>
  "safe_abstain sc reason = (initial_position sc)\<lparr>
     ps_trajectory := [system_abstain_move reason (map fst (mv_predicted_metrics (hd (hd (sc_phases sc)))))],
     ps_terminal_status := Some ABSTAINED\<rparr>"

section \<open>What a checked scenario guarantees\<close>

definition scenario_ok :: "scenario \<Rightarrow> bool" where
  "scenario_ok sc \<longleftrightarrow> length (sc_phases sc) = 4 \<and> distinct (map mv_id (concat (sc_phases sc))) \<and>
     (\<forall>i < 4. sc_phases sc ! i \<noteq> [] \<and>
        (\<forall>m \<in> set (sc_phases sc ! i). mv_kind m \<in> set (expected_kinds ! i) \<and> check_linkage m = Inr ()))"

lemma check_candidate_Inr:
  assumes "check_candidate E kinds m (ids, sigs) = Inr s"
  shows "mv_kind m \<in> set kinds" "mv_id m \<notin> set ids" "check_linkage m = Inr ()"
    "s = (mv_id m # ids, semantic_signature E m # sigs)"
  using assms by (simp_all add: check_candidate_def bindR_Inr_iff)

lemma check_candidates_Inr:
  "foldR (check_candidate E kinds) ms (ids, sigs) = Inr r \<Longrightarrow>
     fst r = rev (map mv_id ms) @ ids \<and> distinct (map mv_id ms) \<and> set (map mv_id ms) \<inter> set ids = {} \<and>
     (\<forall>m \<in> set ms. mv_kind m \<in> set kinds \<and> check_linkage m = Inr ())"
proof (induction ms arbitrary: ids sigs)
  case (Cons m ms)
  from Cons.prems obtain s where s: "check_candidate E kinds m (ids, sigs) = Inr s"
    and rest: "foldR (check_candidate E kinds) ms s = Inr r"
    unfolding foldR.simps bindR_Inr_iff by blast
  note m = check_candidate_Inr [OF s]
  from Cons.IH [OF rest [unfolded m(4)]] m(1-3) show ?case by auto
qed auto

lemma check_phases_Inr:
  "foldR (check_phase E) kps ids = Inr ids' \<Longrightarrow>
     distinct (map mv_id (concat (map snd kps))) \<and> set (map mv_id (concat (map snd kps))) \<inter> set ids = {} \<and>
     (\<forall>(kinds, phase) \<in> set kps. phase \<noteq> [] \<and>
        (\<forall>m \<in> set phase. mv_kind m \<in> set kinds \<and> check_linkage m = Inr ()))"
proof (induction kps arbitrary: ids)
  case (Cons kp kps)
  obtain kinds phase where kp: "kp = (kinds, phase)" by fastforce
  with Cons.prems obtain r where ne: "phase \<noteq> []"
    and r: "foldR (check_candidate E kinds) phase (ids, []) = Inr r"
    and rest: "foldR (check_phase E) kps (fst r) = Inr ids'"
    by (auto simp: check_phase_def bindR_Inr_iff split: prod.splits)
  from Cons.IH [OF rest] check_candidates_Inr [OF r] ne show ?case
    unfolding kp by auto
qed simp

lemma check_scenario_Inr:
  assumes "check_scenario E sc = Inr sc'"
  shows "sc' = sc \<and> scenario_ok sc"
proof -
  from assms obtain ids where sc: "sc' = sc" and len: "length (sc_phases sc) = 4"
    and fold: "foldR (check_phase E) (zip expected_kinds (sc_phases sc)) [] = Inr ids"
    by (auto simp: check_scenario_def bindR_Inr_iff expected_kinds_def)
  have "map snd (zip expected_kinds (sc_phases sc)) = sc_phases sc"
    using len by (simp add: expected_kinds_def)
  moreover have "(expected_kinds ! i, sc_phases sc ! i) \<in> set (zip expected_kinds (sc_phases sc))" if "i < 4" for i
    using that len by (auto simp: set_zip expected_kinds_def intro!: exI [of _ i])
  ultimately show ?thesis
    using check_phases_Inr [OF fold] sc len unfolding scenario_ok_def by fastforce
qed

lemma scenario_ok_phase:
  assumes "scenario_ok sc" "i < 4" "m \<in> set (sc_phases sc ! i)"
  shows "mv_kind m \<in> set (expected_kinds ! i)" "check_linkage m = Inr ()"
  using assms by (auto simp: scenario_ok_def)

lemma kinds_by_phase:
  assumes "scenario_ok sc" "i < 4" "m \<in> set (sc_phases sc ! i)"
  obtains "i = 0" "mv_kind m = PROPOSE" | "i = 1" "mv_kind m = QUESTION" | "i = 2" "mv_kind m = ANSWER"
    | "i = 3" "mv_kind m = COMMIT \<or> mv_kind m = ABSTAIN"
proof -
  have "i = 0 \<or> i = 1 \<or> i = 2 \<or> i = 3" using assms(2) by auto
  with scenario_ok_phase(1) [OF assms] that show thesis
    by (auto simp: expected_kinds_def)
qed

lemma scenario_ids_distinct:
  assumes "scenario_ok sc" "i < 4"
  shows "distinct (map mv_id (sc_phases sc ! i))"
proof -
  have "sc_phases sc ! i \<in> set (sc_phases sc)" using assms by (simp add: scenario_ok_def)
  moreover have "distinct (concat (map (map mv_id) (sc_phases sc)))"
    using assms by (simp add: scenario_ok_def map_concat)
  ultimately show ?thesis by (auto simp: distinct_concat_iff)
qed

section \<open>Positions reached by play\<close>

lemma legal_moves_Inr:
  assumes "legal_moves sc p benched = Inr ms"
  shows "m \<in> set ms \<longleftrightarrow> \<not> is_terminal p \<and> ps_phase p < length (sc_phases sc) \<and>
    m \<in> set (sc_phases sc ! ps_phase p) \<and> candidate_legal p benched m"
  using assms by (auto simp: legal_moves_def bindR_Inr_iff split: if_splits)

lemma legal_moves_distinct:
  assumes "scenario_ok sc" "legal_moves sc p benched = Inr ms"
  shows "distinct (map mv_id ms)"
proof (cases "is_terminal p \<or> length (sc_phases sc) \<le> ps_phase p")
  case True
  with assms(2) show ?thesis by (auto simp: legal_moves_def bindR_Inr_iff)
next
  case False
  then have "ps_phase p < 4" using assms(1) by (simp add: scenario_ok_def)
  with False assms scenario_ids_distinct [OF assms(1)] show ?thesis
    by (auto simp: legal_moves_def bindR_Inr_iff intro: distinct_map_filter)
qed

lemma map_of_rev:
  assumes "distinct (map fst kvs)" shows "map_of (rev kvs) = map_of kvs"
  using assms by (intro map_of_inject_set [THEN iffD2]) (simp_all add: rev_map [symmetric])

lemma map_of_dict_of_distinct:
  assumes "distinct (map fst kvs)" shows "map_of (dict_of kvs) = map_of kvs"
proof -
  have "map_of (fold (\<lambda>(k, v). dict_set k v) kvs d) = map_of d ++ map_of (rev kvs)" for d :: "('a \<times> 'b) list"
    by (induction kvs arbitrary: d) (auto simp: map_add_def fun_eq_iff split: option.splits)
  with map_of_rev [OF assms] show ?thesis by (simp add: dict_of_def)
qed

lemma canonical_lookup:
  assumes "distinct (map mv_id ms)"
  shows "map_of (dict_of (map (\<lambda>c. (mv_id c, c)) ms)) i = find (\<lambda>c. mv_id c = i) ms"
proof -
  have "map_of (map (\<lambda>c. (mv_id c, c)) ms) i = find (\<lambda>c. mv_id c = i) ms"
    by (induction ms) auto
  with assms show ?thesis by (simp add: map_of_dict_of_distinct comp_def)
qed

lemma apply_move_Inr:
  assumes "scenario_ok sc" "apply_move E sc p m benched = Inr p'"
  obtains c qs ms where "legal_moves sc p benched = Inr ms" "c \<in> set ms" "mv_id c = mv_id m"
    "content_hash E m = content_hash E c" "open_after c (ps_open_questions p) = Inr qs" "p' = play p c qs"
proof -
  from assms(2) obtain ms c qs where ms: "legal_moves sc p benched = Inr ms"
    and c: "map_of (dict_of (map (\<lambda>c. (mv_id c, c)) ms)) (mv_id m) = Some c"
    and rest: "content_hash E m = content_hash E c" "open_after c (ps_open_questions p) = Inr qs" "p' = play p c qs"
    by (auto simp: apply_move_def bindR_Inr_iff split: option.splits)
  have "c \<in> set ms" "mv_id c = mv_id m"
    using c canonical_lookup [OF legal_moves_distinct [OF assms(1) ms]] by (auto simp: find_Some_iff)
  with ms rest show thesis by (intro that)
qed

lemma apply_move_legal:
  assumes "scenario_ok sc" "legal_moves sc p benched = Inr ms" "m \<in> set ms"
  shows "apply_move E sc p m benched = bindR (open_after m (ps_open_questions p)) (\<lambda>qs. Inr (play p m qs))"
proof -
  have "find (\<lambda>c. mv_id c = mv_id m) ms = Some m"
    using legal_moves_distinct [OF assms(1,2)] assms(3) by (induction ms) auto
  with assms(2) canonical_lookup [OF legal_moves_distinct [OF assms(1,2)]] show ?thesis
    by (simp add: apply_move_def)
qed

definition answers_close :: "scenario \<Rightarrow> bool" where
  \<comment> \<open>no answer opens another question; the constructor does not check it\<close>
  "answers_close sc \<longleftrightarrow> list_all (\<lambda>m. \<not> truthy (mv_opens_question m)) (sc_phases sc ! 2)"

definition position_ok :: "scenario \<Rightarrow> position \<Rightarrow> bool" where
  "position_ok sc p \<longleftrightarrow>
     ps_scenario p = sc_name sc \<and> ps_scenario_version p = sc_version sc \<and>
     ps_phase p = length (ps_trajectory p) \<and> ps_phase p \<le> 4 \<and>
     (\<forall>i < ps_phase p. ps_trajectory p ! i \<in> set (sc_phases sc ! i)) \<and>
     length (ps_open_questions p) \<le> 1 \<and>
     (ps_phase p < 2 \<longrightarrow> ps_open_questions p = []) \<and> (ps_phase p = 2 \<longrightarrow> ps_open_questions p \<noteq> []) \<and>
     (2 < ps_phase p \<and> answers_close sc \<longrightarrow> ps_open_questions p = []) \<and>
     (is_terminal p \<longleftrightarrow> ps_phase p = 4) \<and>
     (is_terminal p \<longrightarrow> ps_terminal_status p = status_after (last (ps_trajectory p)))"

inductive reached :: "pyenv \<Rightarrow> scenario \<Rightarrow> string list \<Rightarrow> position \<Rightarrow> bool" for E sc benched where
  start: "reached E sc benched (initial_position sc)"
| step: "reached E sc benched p \<Longrightarrow> apply_move E sc p m benched = Inr p' \<Longrightarrow> reached E sc benched p'"

lemma open_after_plain:
  assumes "\<not> truthy (mv_opens_question m)" "\<not> truthy (mv_resolves_question m)"
  shows "open_after m qs = Inr qs"
  using assms by (auto simp: open_after_def truthy_def split: option.splits list.splits)

lemma open_after_question:
  assumes "check_linkage m = Inr ()" "mv_kind m = QUESTION"
  shows "\<exists>q. open_after m [] = Inr [q]"
  using assms
  by (auto simp: check_linkage_def open_after_def bindR_Inr_iff truthy_def split: option.splits list.splits)

lemma open_after_answer:
  assumes "check_linkage m = Inr ()" "mv_kind m = ANSWER" "candidate_legal p benched m"
    and q: "length (ps_open_questions p) \<le> 1" "\<not> truthy (mv_opens_question m)"
  shows "open_after m (ps_open_questions p) = Inr []"
proof -
  from assms(1-3) obtain c cs where r: "mv_resolves_question m = Some (c # cs)" "c # cs \<in> set (ps_open_questions p)"
    by (auto simp: check_linkage_def candidate_legal_def truthy_def neq_Nil_conv split: option.splits)
  with q(1) have "ps_open_questions p = [c # cs]" by (cases "ps_open_questions p") auto
  with r q(2) show ?thesis
    by (auto simp: open_after_def truthy_def split: option.splits list.splits)
qed

lemma open_after_length:
  assumes "open_after m qs = Inr qs'" "truthy (mv_resolves_question m)"
  shows "length qs' \<le> length qs"
proof -
  from assms(2) obtain c cs where r: "mv_resolves_question m = Some (c # cs)"
    by (auto simp: truthy_def neq_Nil_conv)
  from assms(1) have "qs' = remove1 (c # cs) qs \<and> c # cs \<in> set qs \<or>
      (\<exists>q. qs' = remove1 (c # cs) (qs @ [q]) \<and> c # cs \<in> set (qs @ [q]))"
    by (auto simp: open_after_def r bindR_Inr_iff split: option.splits list.splits if_splits)
  then show ?thesis by (auto simp: length_remove1)
qed

lemma position_ok_initial: "position_ok sc (initial_position sc)"
  by (simp add: position_ok_def initial_position_def is_terminal_def)

text \<open>The questions open after a legal move, by the phase of the position.\<close>

lemma open_after_ok:
  assumes sc: "scenario_ok sc" and p: "position_ok sc p" and i: "ps_phase p < 4"
    and m: "m \<in> set (sc_phases sc ! ps_phase p)" "candidate_legal p benched m"
    and qs: "open_after m (ps_open_questions p) = Inr qs"
  shows "length qs \<le> 1 \<and> (ps_phase p < 1 \<longrightarrow> qs = []) \<and> (ps_phase p = 1 \<longrightarrow> qs \<noteq> []) \<and>
    (1 < ps_phase p \<and> answers_close sc \<longrightarrow> qs = [])"
proof -
  note link = scenario_ok_phase(2) [OF sc i m(1)]
  note q = p [unfolded position_ok_def]
  from kinds_by_phase [OF sc i m(1)] show ?thesis
  proof cases
    case 1
    with link have "open_after m (ps_open_questions p) = Inr (ps_open_questions p)"
      by (intro open_after_plain) (auto simp: check_linkage_def)
    with qs q 1 show ?thesis by simp
  next
    case 2
    with open_after_question [OF link] qs q show ?thesis by auto
  next
    case 3
    then have "truthy (mv_resolves_question m)" using link by (simp add: check_linkage_def)
    with open_after_length [OF qs] q have "length qs \<le> 1" by auto
    moreover have "qs = []" if "answers_close sc"
      using that m(1) 3 open_after_answer [OF link _ m(2)] q qs by (simp add: answers_close_def list_all_iff)
    ultimately show ?thesis using 3 by simp
  next
    case 4
    with link have "open_after m (ps_open_questions p) = Inr (ps_open_questions p)"
      by (intro open_after_plain) (auto simp: check_linkage_def)
    with qs q 4 show ?thesis by auto
  qed
qed

lemma status_after_ok:
  assumes "scenario_ok sc" "i < 4" "m \<in> set (sc_phases sc ! i)"
  shows "status_after m \<noteq> None \<longleftrightarrow> i = 3"
  by (rule kinds_by_phase [OF assms]) (auto simp: status_after_def)

lemma play_simps [simp]:
  "ps_scenario (play p m qs) = ps_scenario p" "ps_scenario_version (play p m qs) = ps_scenario_version p"
  "ps_phase (play p m qs) = Suc (ps_phase p)" "ps_trajectory (play p m qs) = ps_trajectory p @ [m]"
  "ps_open_questions (play p m qs) = qs" "ps_terminal_status (play p m qs) = status_after m"
  "ps_spent_cost (play p m qs) = fadd (ps_spent_cost p) (mv_cost m)"
  "ps_violations (play p m qs) = dict_fromkeys (ps_violations p @ mv_violations m)"
  "ps_evidence_refs (play p m qs) = dict_fromkeys (ps_evidence_refs p @ mv_evidence_refs m)"
  "is_terminal (play p m qs) \<longleftrightarrow> status_after m \<noteq> None"
  by (simp_all add: play_def is_terminal_def)

lemma position_ok_play:
  assumes sc: "scenario_ok sc" and p: "position_ok sc p" and i: "ps_phase p < 4"
    and m: "m \<in> set (sc_phases sc ! ps_phase p)" "candidate_legal p benched m"
    and qs: "open_after m (ps_open_questions p) = Inr qs"
  shows "position_ok sc (play p m qs)"
  using p i m(1) open_after_ok [OF assms] status_after_ok [OF sc i m(1)]
  by (auto simp: position_ok_def nth_append less_Suc_eq)

lemma apply_move_ok:
  assumes sc: "scenario_ok sc" and p: "position_ok sc p" and run: "apply_move E sc p m benched = Inr p'"
  obtains c qs where "position_ok sc p'" "p' = play p c qs" "c \<in> set (sc_phases sc ! ps_phase p)"
    "ps_phase p < 4" "mv_actor c \<notin> set benched" "mv_id c = mv_id m" "content_hash E m = content_hash E c"
proof -
  obtain c qs ms where c: "legal_moves sc p benched = Inr ms" "c \<in> set ms" "mv_id c = mv_id m"
    "content_hash E m = content_hash E c" "open_after c (ps_open_questions p) = Inr qs" "p' = play p c qs"
    using apply_move_Inr [OF sc run] .
  from legal_moves_Inr [OF c(1), THEN iffD1, OF c(2)] sc
  have l: "ps_phase p < 4" "c \<in> set (sc_phases sc ! ps_phase p)" "candidate_legal p benched c"
    by (auto simp: scenario_ok_def)
  from position_ok_play [OF sc p l c(5)] c l show thesis
    by (intro that) (auto simp: candidate_legal_def)
qed

lemma reached_ok:
  assumes "scenario_ok sc" "reached E sc benched p"
  shows "position_ok sc p"
  using assms(2)
proof induction
  case start
  show ?case by (rule position_ok_initial)
next
  case (step p m p')
  from apply_move_ok [OF assms(1) step.IH step.hyps(2)] show ?case by blast
qed

lemma reached_actors:
  assumes "scenario_ok sc" "reached E sc benched p" "m \<in> set (ps_trajectory p)"
  shows "mv_actor m \<notin> set benched"
  using assms(2,3)
proof induction
  case (step p m' p')
  from apply_move_ok [OF assms(1) reached_ok [OF assms(1) step.hyps(1)] step.hyps(2)] obtain c qs
    where "p' = play p c qs" "mv_actor c \<notin> set benched" .
  with step show ?case by auto
qed (simp add: initial_position_def)

text \<open>Every offered move can be applied, unless an answer opens the question it resolves.\<close>

lemma legal_applies:
  assumes sc: "scenario_ok sc" and p: "position_ok sc p" and ac: "answers_close sc"
    and ms: "legal_moves sc p benched = Inr ms" "m \<in> set ms"
  shows "\<exists>qs. apply_move E sc p m benched = Inr (play p m qs) \<and> open_after m (ps_open_questions p) = Inr qs"
proof -
  from legal_moves_Inr [OF ms(1), THEN iffD1, OF ms(2)] sc
  have i: "ps_phase p < 4" and m: "m \<in> set (sc_phases sc ! ps_phase p)" "candidate_legal p benched m"
    by (auto simp: scenario_ok_def)
  note link = scenario_ok_phase(2) [OF sc i m(1)] and q = p [unfolded position_ok_def]
  have "\<exists>qs. open_after m (ps_open_questions p) = Inr qs"
  proof (rule kinds_by_phase [OF sc i m(1)])
    assume "ps_phase p = 1" "mv_kind m = QUESTION"
    with open_after_question [OF link] q show ?thesis by auto
  next
    assume a: "ps_phase p = 2" "mv_kind m = ANSWER"
    then have "\<not> truthy (mv_opens_question m)" using ac m(1) by (simp add: answers_close_def list_all_iff)
    with open_after_answer [OF link a(2) m(2)] q show ?thesis by auto
  qed (use link open_after_plain in \<open>auto simp: check_linkage_def\<close>)
  with apply_move_legal [OF sc ms] show ?thesis by auto
qed

section \<open>When the constructor accepts a scenario\<close>

lemma check_candidates_accept:
  assumes "\<forall>m \<in> set ms. mv_kind m \<in> set kinds \<and> check_linkage m = Inr ()"
    and "distinct (map mv_id ms)" "set (map mv_id ms) \<inter> set ids = {}"
    and "distinct (map (semantic_signature E) ms)" "set (map (semantic_signature E) ms) \<inter> set sigs = {}"
  shows "\<exists>sigs'. foldR (check_candidate E kinds) ms (ids, sigs) = Inr (rev (map mv_id ms) @ ids, sigs')"
  using assms
proof (induction ms arbitrary: ids sigs)
  case (Cons m ms)
  then have "check_candidate E kinds m (ids, sigs) = Inr (mv_id m # ids, semantic_signature E m # sigs)"
    by (simp add: check_candidate_def)
  moreover from Cons.prems Cons.IH [of "mv_id m # ids" "semantic_signature E m # sigs"]
  obtain sigs' where "foldR (check_candidate E kinds) ms (mv_id m # ids, semantic_signature E m # sigs)
      = Inr (rev (map mv_id ms) @ mv_id m # ids, sigs')" by auto
  ultimately show ?case by simp
qed simp

lemma check_phases_accept:
  assumes "\<forall>(kinds, phase) \<in> set kps. phase \<noteq> [] \<and> (\<forall>m \<in> set phase. mv_kind m \<in> set kinds \<and> check_linkage m = Inr ())
      \<and> distinct (map (semantic_signature E) phase)"
    and "distinct (map mv_id (concat (map snd kps)))" "set (map mv_id (concat (map snd kps))) \<inter> set ids = {}"
  shows "\<exists>ids'. foldR (check_phase E) kps ids = Inr ids'"
  using assms
proof (induction kps arbitrary: ids)
  case (Cons kp kps)
  obtain kinds phase where kp: "kp = (kinds, phase)" by fastforce
  from Cons.prems(1) kp have ph: "phase \<noteq> []" "\<forall>m \<in> set phase. mv_kind m \<in> set kinds \<and> check_linkage m = Inr ()"
    "distinct (map (semantic_signature E) phase)" by auto
  from Cons.prems(2,3) kp have ids: "distinct (map mv_id phase)" "set (map mv_id phase) \<inter> set ids = {}" by auto
  from check_candidates_accept [OF ph(2) ids ph(3), of "[]"] obtain sigs' where
    "foldR (check_candidate E kinds) phase (ids, []) = Inr (rev (map mv_id phase) @ ids, sigs')" by auto
  with ph(1) kp have one: "check_phase E kp ids = Inr (rev (map mv_id phase) @ ids)" by (simp add: check_phase_def)
  have "\<exists>ids'. foldR (check_phase E) kps (rev (map mv_id phase) @ ids) = Inr ids'"
  proof (rule Cons.IH)
    define K where "K = set (map mv_id (concat (map snd kps)))"
    have "set (map mv_id phase) \<inter> K = {}" "K \<inter> set ids = {}"
      using Cons.prems(2,3) kp by (auto simp: K_def)
    then show "set (map mv_id (concat (map snd kps))) \<inter> set (rev (map mv_id phase) @ ids) = {}"
      unfolding K_def [symmetric] set_append set_rev by blast
  qed (use Cons.prems kp in auto)
  with one show ?case by simp
qed simp

lemma check_scenario_accept:
  assumes "sc_name sc \<noteq> []" "sc_version sc \<noteq> []" "scenario_ok sc"
    and "\<forall>phase \<in> set (sc_phases sc). distinct (map (semantic_signature E) phase)"
  shows "check_scenario E sc = Inr sc"
proof -
  have len: "length (sc_phases sc) = 4" using assms(3) by (simp add: scenario_ok_def)
  have snd: "map snd (zip expected_kinds (sc_phases sc)) = sc_phases sc"
    using len by (simp add: expected_kinds_def)
  have "\<exists>ids'. foldR (check_phase E) (zip expected_kinds (sc_phases sc)) [] = Inr ids'"
  proof (rule check_phases_accept)
    show "\<forall>(kinds, phase) \<in> set (zip expected_kinds (sc_phases sc)). phase \<noteq> [] \<and>
        (\<forall>m \<in> set phase. mv_kind m \<in> set kinds \<and> check_linkage m = Inr ()) \<and> distinct (map (semantic_signature E) phase)"
    proof (intro ballI, clarify)
      fix kinds phase assume "(kinds, phase) \<in> set (zip expected_kinds (sc_phases sc))"
      then obtain i where i: "i < length (sc_phases sc)" "kinds = expected_kinds ! i" "phase = sc_phases sc ! i"
        by (auto simp: set_zip)
      then have "i < 4" "phase \<in> set (sc_phases sc)" using len by auto
      with i assms(3,4) show "phase \<noteq> [] \<and> (\<forall>m \<in> set phase. mv_kind m \<in> set kinds \<and> check_linkage m = Inr ()) \<and>
          distinct (map (semantic_signature E) phase)" by (auto simp: scenario_ok_def)
    qed
  qed (use assms(3) in \<open>simp_all add: snd scenario_ok_def\<close>)
  with assms(1,2) len show ?thesis by (auto simp: check_scenario_def expected_kinds_def)
qed

end
