(* ===== verification/EngineBenchmark.thy ===== *)
theory EngineBenchmark
  imports EngineMoves
begin

text \<open>
  The governed evaluator (\<open>src/agent_tree_rl/engine.py\<close>: \<open>BenchmarkMetric\<close>, \<open>ScoreCard\<close>,
  \<open>BenchmarkSuite\<close>). Scores come from the receipts of the suite, keyed by the content hash of
  the canonical move, and never from the predictions a move carries. A missing key of a dict is a
  \<open>KeyError\<close>; \<open>evaluate_total\<close> shows that a checked suite never raises one.
\<close>

section \<open>Metrics and suites\<close>

record metric =
  bm_name :: string
  bm_weight :: pyfloat
  bm_hard_minimum :: "pyfloat option"

definition check_metric :: "metric \<Rightarrow> metric result" where
  \<comment> \<open>\<open>BenchmarkMetric.__post_init__\<close>\<close>
  "check_metric m =
     bindR (guardR (bm_name m \<noteq> []) ValueError ''benchmark metric name must not be empty'') (\<lambda>_.
     bindR (guardR (isfinite (bm_weight m) \<and> \<not> flt (bm_weight m) (Fin 0)) ValueError
              ''weight must be finite and nonnegative'') (\<lambda>_.
     bindR (guardR (pred_option unit_interval (bm_hard_minimum m)) ValueError
              ''hard minimum must be in [0, 1]'') (\<lambda>_.
     Inr m)))"

record score_card =
  sd_metrics :: "pyfloat dict"
  sd_composite :: pyfloat
  sd_cost_penalty :: pyfloat
  sd_reward :: pyfloat
  sd_feasible :: bool
  sd_gate_failures :: "string list"
  sd_outcome_status :: "terminal_status option"

record suite =
  su_version :: string
  su_scenario_manifest_hash :: string
  su_metrics :: "metric list"
  su_receipt_metrics :: "pyfloat dict dict"
  su_phase_importance :: "pyfloat list"
  su_cost_weight :: pyfloat
  su_critical_safety_minimum :: pyfloat
  su_violation_reward :: pyfloat
  su_abstain_reward :: pyfloat
  su_trusted_evidence_prefixes :: "string list"

definition ALLOWED_EVIDENCE_PREFIXES :: "string list" where
  "ALLOWED_EVIDENCE_PREFIXES = [''trace://'', ''env://'', ''device://'', ''cloud://'']"

definition penalty_interval :: "pyfloat \<Rightarrow> bool" where
  \<comment> \<open>\<open>math.isfinite(value) and -1.0 <= value <= 0.0\<close>\<close>
  "penalty_interval x \<longleftrightarrow> isfinite x \<and> fle (Fin (- 1)) x \<and> fle x (Fin 0)"

definition metric_names :: "suite \<Rightarrow> string list" where
  "metric_names s = map bm_name (su_metrics s)"

definition check_receipt :: "suite \<Rightarrow> string \<times> pyfloat dict \<Rightarrow> unit result" where
  "check_receipt s = (\<lambda>(move_hash, values).
     bindR (guardR (is_sha256 move_hash) ValueError ''benchmark receipt key must be a canonical move hash'') (\<lambda>_.
     bindR (guardR (list_all (\<lambda>n. n \<in> fst ` set values) (metric_names s)) ValueError ''missing benchmark metrics'') (\<lambda>_.
     guardR (list_all (\<lambda>(_, v). unit_interval v) values) ValueError ''metric must be in [0, 1]'')))"

definition check_suite :: "pymath \<Rightarrow> suite \<Rightarrow> suite result" where
  \<comment> \<open>\<open>BenchmarkSuite.__post_init__\<close>\<close>
  "check_suite M s =
     bindR (guardR (su_version s \<noteq> []) ValueError ''benchmark version must not be empty'') (\<lambda>_.
     bindR (guardR (is_sha256 (su_scenario_manifest_hash s)) ValueError
              ''benchmark must bind a full scenario manifest hash'') (\<lambda>_.
     bindR (guardR (metric_names s \<noteq> [] \<and> distinct (metric_names s)) ValueError
              ''benchmark metric names must be nonempty and unique'') (\<lambda>_.
     bindR (guardR (isclose (m_sum M (map bm_weight (su_metrics s))) (Fin 1) (fl (1 / 10 ^ 9))) ValueError
              ''benchmark weights must sum to 1.0'') (\<lambda>_.
     bindR (guardR (su_phase_importance s \<noteq> [] \<and>
                    list_all (\<lambda>v. isfinite v \<and> \<not> fle v (Fin 0)) (su_phase_importance s)) ValueError
              ''phase importance values must be finite and positive'') (\<lambda>_.
     bindR (guardR (unit_interval (su_cost_weight s)) ValueError ''cost_weight must be finite and in [0, 1]'') (\<lambda>_.
     bindR (guardR (unit_interval (su_critical_safety_minimum s)) ValueError
              ''critical safety minimum must be in [0, 1]'') (\<lambda>_.
     bindR (guardR (penalty_interval (su_violation_reward s)) ValueError
              ''violation_reward must be finite and in [-1, 0]'') (\<lambda>_.
     bindR (guardR (penalty_interval (su_abstain_reward s)) ValueError
              ''abstain_reward must be finite and in [-1, 0]'') (\<lambda>_.
     bindR (guardR (su_trusted_evidence_prefixes s \<noteq> [] \<and> distinct (su_trusted_evidence_prefixes s) \<and>
                    list_all (\<lambda>p. p \<noteq> []) (su_trusted_evidence_prefixes s) \<and>
                    set (su_trusted_evidence_prefixes s) \<subseteq> set ALLOWED_EVIDENCE_PREFIXES) ValueError
              ''trusted evidence prefixes must be unique, nonempty, and fixture-approved'') (\<lambda>_.
     bindR (mapR (check_receipt s) (su_receipt_metrics s)) (\<lambda>_.
     Inr s)))))))))))"

definition json_of_float_opt :: "pyfloat option \<Rightarrow> json" where
  "json_of_float_opt v = (case v of None \<Rightarrow> JNull | Some x \<Rightarrow> JFloat x)"

definition profile_hash :: "pyenv \<Rightarrow> suite \<Rightarrow> string" where
  "profile_hash E s = digest E (JObj
     [(''version'', JStr (su_version s)), (''scenario_manifest_hash'', JStr (su_scenario_manifest_hash s)),
      (''metrics'', JList (map (\<lambda>m. JObj [(''name'', JStr (bm_name m)), (''weight'', JFloat (bm_weight m)),
                                        (''hard_minimum'', json_of_float_opt (bm_hard_minimum m))]) (su_metrics s))),
      (''receipts'', JObj (map (\<lambda>(h, values). (h, json_floats values)) (su_receipt_metrics s))),
      (''phase_importance'', JList (map JFloat (su_phase_importance s))), (''cost_weight'', JFloat (su_cost_weight s)),
      (''critical_safety_minimum'', JFloat (su_critical_safety_minimum s)),
      (''violation_reward'', JFloat (su_violation_reward s)), (''abstain_reward'', JFloat (su_abstain_reward s)),
      (''trusted_evidence_prefixes'', json_strs (su_trusted_evidence_prefixes s))])"

section \<open>The quality of one move\<close>

definition lookupR :: "'v dict \<Rightarrow> string \<Rightarrow> 'v result" where
  \<comment> \<open>\<open>d[k]\<close>\<close>
  "lookupR d k = (case map_of d k of None \<Rightarrow> raiseR KeyError k | Some v \<Rightarrow> Inr v)"

definition weighted :: "pymath \<Rightarrow> suite \<Rightarrow> pyfloat dict \<Rightarrow> pyfloat result" where
  \<comment> \<open>\<open>sum(metric.weight * values[metric.name] for metric in self.metrics)\<close>\<close>
  "weighted M s values =
     bindR (mapR (\<lambda>m. bindR (lookupR values (bm_name m)) (\<lambda>v. Inr (fmul (bm_weight m) v))) (su_metrics s)) (\<lambda>terms.
     Inr (m_sum M terms))"

definition predicted_move_quality :: "pymath \<Rightarrow> suite \<Rightarrow> move \<Rightarrow> pyfloat result" where
  "predicted_move_quality M s m =
     bindR (guardR (list_all (\<lambda>n. n \<in> fst ` set (mv_predicted_metrics m)) (metric_names s)) ValueError
              ''missing predicted metrics'') (\<lambda>_.
     bindR (weighted M s (mv_predicted_metrics m)) (\<lambda>quality.
     Inr (fmax (Fin 0) (fmin (Fin 1) (fsub quality (fmul (su_cost_weight s) (mv_cost m)))))))"

definition receipt_move_quality :: "pymath \<Rightarrow> pyenv \<Rightarrow> suite \<Rightarrow> move \<Rightarrow> pyfloat result" where
  "receipt_move_quality M E s m =
     (case map_of (su_receipt_metrics s) (content_hash E m) of
        None \<Rightarrow> raiseR ValueError ''missing independent receipt for move''
      | Some values \<Rightarrow> weighted M s values)"

section \<open>Evaluation of a position\<close>

definition pad3 :: "int \<Rightarrow> string" where
  "pad3 n = (let d = str_of_int n in replicate (3 - length d) CHR ''0'' @ d)"

definition fmt3 :: "pyfloat \<Rightarrow> string" where
  \<comment> \<open>\<open>f"{x:.3f}"\<close>: the exact value rounded half to even at the third decimal\<close>
  "fmt3 x = (case x of
     Fin a \<Rightarrow> (let n = round_half_even (\<bar>a\<bar> * 1000) in
       (if a < 0 then ''-'' else '''') @ str_of_int (n div 1000) @ ''.'' @ pad3 (n mod 1000))
   | PInf \<Rightarrow> ''inf'' | NInf \<Rightarrow> ''-inf'' | NaN \<Rightarrow> ''nan'')"

definition importance_at :: "suite \<Rightarrow> nat \<Rightarrow> pyfloat" where
  "importance_at s phase =
     (if phase < length (su_phase_importance s) then su_phase_importance s ! phase else Fin 0)"

definition add_receipt :: "suite \<Rightarrow> pyfloat \<Rightarrow> pyfloat dict \<Rightarrow> pyfloat dict \<Rightarrow> pyfloat dict result" where
  \<comment> \<open>\<open>for metric in self.metrics: totals[metric.name] += receipt[metric.name] * importance\<close>\<close>
  "add_receipt s importance receipt totals =
     foldR (\<lambda>m totals.
       bindR (lookupR totals (bm_name m)) (\<lambda>t.
       bindR (lookupR receipt (bm_name m)) (\<lambda>r.
       Inr (dict_set (bm_name m) (fadd t (fmul r importance)) totals)))) (su_metrics s) totals"

type_synonym tally = "pyfloat dict \<times> pyfloat \<times> string list"

definition missing_receipt :: "move \<Rightarrow> string" where
  "missing_receipt m = ''missing independent benchmark receipt for '' @ mv_id m"

definition unsafe :: "suite \<Rightarrow> pyfloat dict \<Rightarrow> pyfloat option" where
  \<comment> \<open>the receipt's safety when it is below the critical threshold\<close>
  "unsafe s receipt = (case map_of receipt ''safety'' of
     None \<Rightarrow> None | Some v \<Rightarrow> if flt v (su_critical_safety_minimum s) then Some v else None)"

definition score_move ::
  "pyenv \<Rightarrow> suite \<Rightarrow> (pyfloat \<Rightarrow> string) \<Rightarrow> nat \<times> move \<Rightarrow> tally \<Rightarrow> tally result" where
  \<comment> \<open>one move of the trajectory; \<open>note v\<close> is the message about the safety \<open>v\<close>\<close>
  "score_move E s note = (\<lambda>(phase, m) (totals, denominator, notes).
     (case map_of (su_receipt_metrics s) (content_hash E m) of
        None \<Rightarrow> Inr (totals, denominator, notes @ [missing_receipt m])
      | Some receipt \<Rightarrow>
          bindR (add_receipt s (importance_at s phase) receipt totals) (\<lambda>totals'.
          Inr (totals', fadd denominator (importance_at s phase),
               notes @ (case unsafe s receipt of None \<Rightarrow> [] | Some v \<Rightarrow> [mv_id m @ note v])))))"

definition score_abstain :: "pyenv \<Rightarrow> suite \<Rightarrow> nat \<times> move \<Rightarrow> tally \<Rightarrow> tally result" where
  "score_abstain E s pm t =
     (if mv_kind (snd pm) = ABSTAIN then Inr t
      else score_move E s (\<lambda>v. '' safety='' @ fmt3 v @ '' below critical threshold'') pm t)"

definition score_commit :: "pyenv \<Rightarrow> suite \<Rightarrow> nat \<times> move \<Rightarrow> tally \<Rightarrow> tally result" where
  "score_commit E s =
     score_move E s (\<lambda>v. '' safety='' @ fmt3 v @ '' < critical='' @ fmt3 (su_critical_safety_minimum s))"

definition zero_totals :: "suite \<Rightarrow> pyfloat dict" where
  "zero_totals s = dict_of (map (\<lambda>n. (n, Fin 0)) (metric_names s))"

definition averages :: "pyfloat dict \<Rightarrow> pyfloat \<Rightarrow> pyfloat dict result" where
  "averages totals denominator =
     mapR (\<lambda>(n, total). bindR (if flt (Fin 0) denominator then fdiv total denominator else Inr (Fin 0)) (\<lambda>v.
       Inr (n, v))) totals"

definition gate_failures :: "suite \<Rightarrow> pyfloat dict \<Rightarrow> string list result" where
  \<comment> \<open>the hard minimum of every metric\<close>
  "gate_failures s values =
     bindR (mapR (\<lambda>m. bindR (lookupR values (bm_name m)) (\<lambda>v.
       Inr (case bm_hard_minimum m of
              None \<Rightarrow> []
            | Some h \<Rightarrow> if flt v h then [bm_name m @ ''='' @ fmt3 v @ '' < gate='' @ fmt3 h] else [])))
       (su_metrics s)) (\<lambda>fss. Inr (concat fss))"

definition trusted_evidence :: "suite \<Rightarrow> position \<Rightarrow> string list" where
  "trusted_evidence s p =
     filter (\<lambda>ref. list_ex (startswith ref) (su_trusted_evidence_prefixes s)) (ps_evidence_refs p)"

definition path_failures :: "suite \<Rightarrow> position \<Rightarrow> string list" where
  \<comment> \<open>the failures that do not depend on receipts\<close>
  "path_failures s p = ps_violations p
     @ (if ps_terminal_status p \<noteq> Some COMMITTED then [''position has no explicit COMMIT or ABSTAIN terminal''] else [])
     @ (if ps_open_questions p \<noteq> [] then [''unresolved proof obligation''] else [])
     @ (if length (ps_trajectory p) \<noteq> length (su_phase_importance s)
        then [''terminal path has '' @ str_of_int (int (length (ps_trajectory p))) @ '' plies; expected ''
              @ str_of_int (int (length (su_phase_importance s)))] else [])
     @ (if trusted_evidence s p = [] then [''no trusted evidence receipt''] else [])"

definition system_fallback :: "position \<Rightarrow> bool" where
  "system_fallback p \<longleftrightarrow> (case ps_trajectory p of [m] \<Rightarrow> mv_id m = ''SYSTEM_ABSTAIN'' | _ \<Rightarrow> False)"

definition evaluate_abstained :: "pymath \<Rightarrow> pyenv \<Rightarrow> suite \<Rightarrow> position \<Rightarrow> score_card result" where
  "evaluate_abstained M E s p =
     bindR (foldR (score_abstain E s) (enumerate 0 (ps_trajectory p)) (zero_totals s, Fin 0, ps_violations p))
       (\<lambda>(totals, denominator, warnings).
     bindR (averages totals denominator) (\<lambda>values.
     bindR (weighted M s values) (\<lambda>composite.
     let cost_penalty = fmul (su_cost_weight s) (ps_spent_cost p)
     in Inr \<lparr>sd_metrics = values, sd_composite = composite, sd_cost_penalty = cost_penalty,
             sd_reward = fmax (Fin (- 1)) (fsub (su_abstain_reward s) cost_penalty), sd_feasible = True,
             sd_gate_failures = dict_fromkeys warnings, sd_outcome_status = ps_terminal_status p\<rparr>)))"

definition evaluate :: "pymath \<Rightarrow> pyenv \<Rightarrow> suite \<Rightarrow> position \<Rightarrow> score_card result" where
  "evaluate M E s p =
     (if ps_terminal_status p = Some ABSTAINED then
        if \<not> system_fallback p then evaluate_abstained M E s p
        else Inr \<lparr>sd_metrics = zero_totals s, sd_composite = Fin 0, sd_cost_penalty = Fin 0,
                  sd_reward = su_abstain_reward s, sd_feasible = True, sd_gate_failures = [],
                  sd_outcome_status = ps_terminal_status p\<rparr>
      else
        bindR (foldR (score_commit E s) (enumerate 0 (ps_trajectory p)) (zero_totals s, Fin 0, path_failures s p))
          (\<lambda>(totals, denominator, failures).
        bindR (averages totals denominator) (\<lambda>values.
        bindR (gate_failures s values) (\<lambda>gates.
        bindR (weighted M s values) (\<lambda>composite.
        let unique_failures = dict_fromkeys (failures @ gates);
            cost_penalty = fmul (su_cost_weight s) (ps_spent_cost p);
            unconstrained = fmax (Fin (- 1)) (fmin (Fin 1)
              (fsub (fsub (fmul (Fin 2) composite) (Fin 1)) cost_penalty));
            feasible = (unique_failures = [])
        in Inr \<lparr>sd_metrics = values, sd_composite = composite, sd_cost_penalty = cost_penalty,
                sd_reward = (if feasible then unconstrained else su_violation_reward s), sd_feasible = feasible,
                sd_gate_failures = unique_failures, sd_outcome_status = ps_terminal_status p\<rparr>)))))"

section \<open>What a checked suite guarantees\<close>

definition suite_ok :: "suite \<Rightarrow> bool" where
  "suite_ok s \<longleftrightarrow> distinct (metric_names s) \<and> metric_names s \<noteq> [] \<and>
     list_all (\<lambda>v. \<exists>a. v = Fin a \<and> 0 < a) (su_phase_importance s) \<and>
     fin_between 0 (su_cost_weight s) 1 \<and> fin_between 0 (su_critical_safety_minimum s) 1 \<and>
     fin_between (- 1) (su_violation_reward s) 0 \<and> fin_between (- 1) (su_abstain_reward s) 0 \<and>
     (\<forall>(h, values) \<in> set (su_receipt_metrics s).
        set (metric_names s) \<subseteq> fst ` set values \<and> (\<forall>(n, v) \<in> set values. fin_between 0 v 1))"

lemma unit_interval_iff: "unit_interval x \<longleftrightarrow> fin_between 0 x 1"
  by (cases x) (auto simp: unit_interval_def fin_between_def)

lemma penalty_interval_iff: "penalty_interval x \<longleftrightarrow> fin_between (- 1) x 0"
  by (cases x) (auto simp: penalty_interval_def fin_between_def)

lemma positive_iff: "isfinite x \<and> \<not> fle x (Fin 0) \<longleftrightarrow> (\<exists>a. x = Fin a \<and> 0 < a)"
  by (cases x) auto

lemma mapR_member: "mapR f xs = Inr ys \<Longrightarrow> x \<in> set xs \<Longrightarrow> \<exists>y \<in> set ys. f x = Inr y"
  by (induction xs arbitrary: ys) (auto simp: bindR_Inr_iff)

lemma check_suite_Inr:
  assumes "check_suite M s = Inr s'"
  shows "s' = s \<and> suite_ok s"
proof -
  from assms obtain us where s: "s' = s" and rs: "mapR (check_receipt s) (su_receipt_metrics s) = Inr us"
    and ok: "metric_names s \<noteq> [] \<and> distinct (metric_names s)"
      "list_all (\<lambda>v. isfinite v \<and> \<not> fle v (Fin 0)) (su_phase_importance s)"
      "unit_interval (su_cost_weight s)" "unit_interval (su_critical_safety_minimum s)"
      "penalty_interval (su_violation_reward s)" "penalty_interval (su_abstain_reward s)"
    unfolding check_suite_def bindR_Inr_iff guardR_Inr_iff by blast
  have "set (metric_names s) \<subseteq> fst ` set vs \<and> (\<forall>(n, v) \<in> set vs. fin_between 0 v 1)"
    if "(h, vs) \<in> set (su_receipt_metrics s)" for h vs
    using mapR_member [OF rs that]
    by (auto simp: check_receipt_def bindR_Inr_iff list_all_iff unit_interval_iff)
  with ok s show ?thesis
    unfolding suite_ok_def unit_interval_iff penalty_interval_iff positive_iff by blast
qed

lemma receipt_covers:
  assumes "suite_ok s" "map_of (su_receipt_metrics s) h = Some receipt"
  shows "set (metric_names s) \<subseteq> fst ` set receipt"
  using assms by (auto simp: suite_ok_def dest!: map_of_SomeD)

section \<open>Evaluation never raises\<close>

lemma lookupR_Inr_iff: "lookupR d k = Inr v \<longleftrightarrow> map_of d k = Some v"
  by (auto simp: lookupR_def split: option.splits)

lemma lookupR_ex: "k \<in> fst ` set d \<Longrightarrow> \<exists>v. lookupR d k = Inr v"
  by (metis lookupR_Inr_iff map_of_eq_None_iff not_Some_eq)

lemma mapR_total: "(\<And>x. x \<in> set xs \<Longrightarrow> \<exists>y. f x = Inr y) \<Longrightarrow> \<exists>ys. mapR f xs = Inr ys"
proof (induction xs)
  case (Cons x xs)
  then obtain y ys where "f x = Inr y" "mapR f xs = Inr ys" by fastforce
  then show ?case by simp
qed simp

lemma foldR_total:
  assumes "I s" and "\<And>x t. x \<in> set xs \<Longrightarrow> I t \<Longrightarrow> \<exists>t'. f x t = Inr t' \<and> I t'"
  shows "\<exists>s'. foldR f xs s = Inr s' \<and> I s'"
  using assms
proof (induction xs arbitrary: s)
  case (Cons x xs)
  from Cons.prems obtain t where "f x s = Inr t" "I t" by (metis list.set_intros(1))
  with Cons.IH [of t] Cons.prems(2) show ?case by simp
qed simp

lemma weighted_total:
  assumes "set (metric_names s) \<subseteq> fst ` set values"
  shows "\<exists>x. weighted M s values = Inr x"
proof -
  have "\<exists>ts. mapR (\<lambda>m. bindR (lookupR values (bm_name m)) (\<lambda>v. Inr (fmul (bm_weight m) v))) (su_metrics s) = Inr ts"
  proof (rule mapR_total)
    fix m assume "m \<in> set (su_metrics s)"
    then have "bm_name m \<in> fst ` set values" using assms by (auto simp: metric_names_def)
    from lookupR_ex [OF this] show "\<exists>y. bindR (lookupR values (bm_name m)) (\<lambda>v. Inr (fmul (bm_weight m) v)) = Inr y"
      by auto
  qed
  then show ?thesis by (auto simp: weighted_def)
qed

lemma gate_failures_total:
  assumes "set (metric_names s) \<subseteq> fst ` set values"
  shows "\<exists>x. gate_failures s values = Inr x"
proof -
  let ?f = "\<lambda>m. bindR (lookupR values (bm_name m)) (\<lambda>v.
       Inr (case bm_hard_minimum m of
              None \<Rightarrow> []
            | Some h \<Rightarrow> if flt v h then [bm_name m @ ''='' @ fmt3 v @ '' < gate='' @ fmt3 h] else []))"
  have "\<exists>ts. mapR ?f (su_metrics s) = Inr ts"
  proof (rule mapR_total)
    fix m assume "m \<in> set (su_metrics s)"
    then have "bm_name m \<in> fst ` set values" using assms by (auto simp: metric_names_def)
    from lookupR_ex [OF this] show "\<exists>y. ?f m = Inr y" by auto
  qed
  then show ?thesis by (auto simp: gate_failures_def)
qed

definition covers :: "suite \<Rightarrow> pyfloat dict \<Rightarrow> bool" where
  "covers s totals \<longleftrightarrow> map fst totals = metric_names s"

lemma dict_set_same_keys: "k \<in> fst ` set d \<Longrightarrow> map fst (dict_set k v d) = map fst d"
  by (induction k v d rule: dict_set.induct) auto

lemma dict_set_new_key: "k \<notin> fst ` set d \<Longrightarrow> dict_set k v d = d @ [(k, v)]"
  by (induction k v d rule: dict_set.induct) auto

lemma dict_of_distinct: "distinct (map fst kvs) \<Longrightarrow> dict_of kvs = kvs"
proof -
  have "fold (\<lambda>(k, v). dict_set k v) kvs d = d @ kvs" if "distinct (map fst (d @ kvs))" for d :: "('a \<times> 'b) list"
    using that
  proof (induction kvs arbitrary: d)
    case (Cons kv kvs)
    obtain k v where kv: "kv = (k, v)" by fastforce
    have "k \<notin> fst ` set d" using Cons.prems kv by auto
    then have "fold (\<lambda>(k, v). dict_set k v) (kv # kvs) d = fold (\<lambda>(k, v). dict_set k v) kvs (d @ [kv])"
      by (simp add: kv dict_set_new_key)
    also have "\<dots> = (d @ [kv]) @ kvs" using Cons.prems by (intro Cons.IH) simp
    finally show ?case by simp
  qed simp
  from this [of "[]"] show "distinct (map fst kvs) \<Longrightarrow> dict_of kvs = kvs" by (simp add: dict_of_def)
qed

lemma covers_zero: "suite_ok s \<Longrightarrow> covers s (zero_totals s)"
  by (simp add: covers_def zero_totals_def suite_ok_def dict_of_distinct comp_def)

lemma add_receipt_total:
  assumes "covers s totals" "set (metric_names s) \<subseteq> fst ` set receipt"
  shows "\<exists>t. add_receipt s i receipt totals = Inr t \<and> covers s t"
  unfolding add_receipt_def
proof (rule foldR_total)
  fix m t assume m: "m \<in> set (su_metrics s)" and t: "covers s t"
  then have n: "bm_name m \<in> fst ` set t"
    by (metis covers_def image_eqI image_set metric_names_def)
  moreover have "bm_name m \<in> fst ` set receipt" using assms(2) m by (auto simp: metric_names_def)
  ultimately obtain a r where "lookupR t (bm_name m) = Inr a" "lookupR receipt (bm_name m) = Inr r"
    using lookupR_ex by metis
  with n t show "\<exists>t'. bindR (lookupR t (bm_name m)) (\<lambda>t'. bindR (lookupR receipt (bm_name m)) (\<lambda>r.
       Inr (dict_set (bm_name m) (fadd t' (fmul r i)) t))) = Inr t' \<and> covers s t'"
    by (simp add: covers_def dict_set_same_keys)
qed (fact assms(1))

lemma score_move_total:
  assumes "suite_ok s" "covers s (fst t)"
  shows "\<exists>t'. score_move E s note pm t = Inr t' \<and> covers s (fst t')"
proof -
  obtain ph m totals d ns where e: "pm = (ph, m)" "t = (totals, d, ns)"
    by (metis prod.exhaust)
  show ?thesis
  proof (cases "map_of (su_receipt_metrics s) (content_hash E m)")
    case None with assms e show ?thesis by (simp add: score_move_def)
  next
    case (Some receipt)
    from add_receipt_total [OF _ receipt_covers [OF assms(1) Some]] assms(2) e obtain t'
      where "add_receipt s (importance_at s ph) receipt totals = Inr t'" "covers s t'" by fastforce
    with Some e show ?thesis by (simp add: score_move_def)
  qed
qed

lemma averages_total:
  assumes "covers s totals"
  shows "\<exists>values. averages totals d = Inr values \<and> covers s values"
proof -
  let ?f = "\<lambda>(n, total). bindR (if flt (Fin 0) d then fdiv total d else Inr (Fin 0)) (\<lambda>v. Inr (n, v))"
  have "\<exists>y. ?f x = Inr y" for x
    by (cases x; cases d; cases "snd x") (auto split: prod.splits)
  then obtain vs where vs: "mapR ?f totals = Inr vs" using mapR_total by metis
  then have "list_all2 (\<lambda>x y. ?f x = Inr y) totals vs" by (simp add: mapR_Inr_iff)
  then have "list_all2 (\<lambda>x y. fst x = fst y) totals vs"
    by (rule list_all2_mono) (auto simp: bindR_Inr_iff split: prod.splits)
  then have "map fst totals = map fst vs" by (simp add: list_all2_conv_all_nth list_eq_iff_nth_eq)
  with vs assms show ?thesis by (simp add: averages_def covers_def)
qed

lemma covers_names: "covers s values \<Longrightarrow> set (metric_names s) \<subseteq> fst ` set values"
  by (metis covers_def image_set order_refl)

lemma score_path_total:
  assumes "suite_ok s"
  shows "\<exists>t. foldR (score_commit E s) pms (zero_totals s, d, f) = Inr t \<and> covers s (fst t)"
    "\<exists>t. foldR (score_abstain E s) pms (zero_totals s, d, f) = Inr t \<and> covers s (fst t)"
  using score_move_total [OF assms] covers_zero [OF assms]
  by (intro foldR_total; auto simp: score_commit_def score_abstain_def)+

lemma evaluate_total:
  assumes "suite_ok s"
  shows "\<exists>sd. evaluate M E s p = Inr sd"
proof -
  obtain t d f where c: "foldR (score_commit E s) (enumerate 0 (ps_trajectory p))
      (zero_totals s, Fin 0, path_failures s p) = Inr (t, d, f)" "covers s t"
    using score_path_total(1) [OF assms] by fastforce
  obtain t' d' f' where a: "foldR (score_abstain E s) (enumerate 0 (ps_trajectory p))
      (zero_totals s, Fin 0, ps_violations p) = Inr (t', d', f')" "covers s t'"
    using score_path_total(2) [OF assms] by fastforce
  obtain v v' where v: "averages t d = Inr v" "covers s v" "averages t' d' = Inr v'" "covers s v'"
    using averages_total [OF c(2)] averages_total [OF a(2)] by metis
  obtain x x' g where "weighted M s v = Inr x" "weighted M s v' = Inr x'" "gate_failures s v = Inr g"
    using weighted_total gate_failures_total covers_names [OF v(2)] covers_names [OF v(4)] by metis
  with c a v show ?thesis by (simp add: evaluate_def evaluate_abstained_def Let_def)
qed

section \<open>Rewards\<close>

lemma round64_nonpos:
  assumes "x \<le> 0" shows "fle (round64 x) (Fin 0)"
proof -
  have "x / pow2 (quantum_exp x) \<le> of_int 0" using assms by (simp add: pow2_powi divide_le_0_iff)
  then have "round_half_even (x / pow2 (quantum_exp x)) \<le> 0" by (rule round_half_even_le)
  with assms show ?thesis by (auto simp: round64_def Let_def pow2_powi mult_le_0_iff)
qed

definition nonneg :: "pyfloat \<Rightarrow> bool" where
  \<comment> \<open>zero, positive or positive infinity\<close>
  "nonneg x \<longleftrightarrow> fle (Fin 0) x"

lemma nonneg_simps [simp]: "nonneg (Fin a) \<longleftrightarrow> 0 \<le> a" "nonneg PInf" "\<not> nonneg NInf" "\<not> nonneg NaN"
  by (auto simp: nonneg_def fle_def feq_def)

lemma nonneg_add: "nonneg x \<Longrightarrow> nonneg y \<Longrightarrow> nonneg (fadd x y)"
  by (cases x; cases y) (auto simp: nonneg_def [of "round64 _"] round64_nonneg)

lemma nonneg_mul: "nonneg x \<Longrightarrow> nonneg y \<Longrightarrow> fmul x y = NaN \<or> nonneg (fmul x y)"
  by (cases x; cases y) (auto simp: nonneg_def [of "round64 _"] round64_nonneg finf_sign_def)

lemma penalised_reward:
  assumes "fin_between (- 1) r 0" "c = NaN \<or> nonneg c"
  shows "fin_between (- 1) (fmax (Fin (- 1)) (fsub r c)) 0"
proof -
  obtain a where a: "r = Fin a" "- 1 \<le> a" "a \<le> 0" using assms(1) by (auto simp: fin_between_def)
  show ?thesis
  proof (cases c)
    case (Fin b)
    with assms(2) have "a - b \<le> 0" using a by simp
    then have "fle (round64 (a - b)) (Fin 0)" by (rule round64_nonpos)
    then show ?thesis
      using Fin a by (intro clamp_low_bounds) (auto simp: fsub_def)
  qed (use a assms(2) in \<open>auto simp: fsub_def fmax_def fin_between_def\<close>)
qed

lemma evaluate_Inr:
  assumes "evaluate M E s p = Inr sd"
  obtains
    (fallback) "ps_terminal_status p = Some ABSTAINED" "system_fallback p" "sd_reward sd = su_abstain_reward s"
      "sd_feasible sd" "sd_outcome_status sd = Some ABSTAINED"
  | (abstained) "ps_terminal_status p = Some ABSTAINED" "\<not> system_fallback p" "sd_feasible sd"
      "sd_reward sd = fmax (Fin (- 1)) (fsub (su_abstain_reward s) (fmul (su_cost_weight s) (ps_spent_cost p)))"
      "sd_outcome_status sd = Some ABSTAINED"
  | (other) t d f v g where "ps_terminal_status p \<noteq> Some ABSTAINED"
      "foldR (score_commit E s) (enumerate 0 (ps_trajectory p)) (zero_totals s, Fin 0, path_failures s p) = Inr (t, d, f)"
      "averages t d = Inr v" "gate_failures s v = Inr g" "sd_metrics sd = v"
      "sd_feasible sd \<longleftrightarrow> f = [] \<and> g = []" "sd_outcome_status sd = ps_terminal_status p"
      "sd_reward sd = (if sd_feasible sd
         then fmax (Fin (- 1)) (fmin (Fin 1) (fsub (fsub (fmul (Fin 2) (sd_composite sd)) (Fin 1))
                (fmul (su_cost_weight s) (ps_spent_cost p))))
         else su_violation_reward s)"
proof (cases "ps_terminal_status p = Some ABSTAINED")
  case True
  show thesis
  proof (cases "system_fallback p")
    case fb: True
    with True assms show thesis by (intro fallback) (auto simp: evaluate_def)
  next
    case False
    with True assms show thesis
      by (intro abstained) (auto simp: evaluate_def evaluate_abstained_def Let_def bindR_Inr_iff)
  qed
next
  case False
  with assms show thesis by (auto simp: evaluate_def Let_def bindR_Inr_iff intro: other)
qed

lemma evaluate_reward:
  assumes s: "suite_ok s" and c: "nonneg (ps_spent_cost p)" and run: "evaluate M E s p = Inr sd"
  shows "fin_between (- 1) (sd_reward sd) 1"
    "sd_outcome_status sd = Some ABSTAINED \<Longrightarrow> fin_between (- 1) (sd_reward sd) 0"
    "\<not> sd_feasible sd \<Longrightarrow> sd_reward sd = su_violation_reward s"
proof -
  have weak: "fin_between (- 1) x 0 \<Longrightarrow> fin_between (- 1) x 1" for x by (auto simp: fin_between_def)
  have bs: "fin_between (- 1) (su_abstain_reward s) 0" "fin_between (- 1) (su_violation_reward s) 0"
    using s by (auto simp: suite_ok_def)
  have "nonneg (su_cost_weight s)" using s by (auto simp: suite_ok_def fin_between_def)
  note ab = penalised_reward [OF bs(1) nonneg_mul [OF this c]]
  show "fin_between (- 1) (sd_reward sd) 1"
    using run by (rule evaluate_Inr) (use ab bs in \<open>auto intro: weak clamp_bounds\<close>)
  show "fin_between (- 1) (sd_reward sd) 0" if "sd_outcome_status sd = Some ABSTAINED"
    using run by (rule evaluate_Inr) (use ab bs that in auto)
  show "sd_reward sd = su_violation_reward s" if "\<not> sd_feasible sd"
    using run by (rule evaluate_Inr) (use that in auto)
qed

section \<open>A commit is feasible exactly if it passed every gate\<close>

definition receipt_safe :: "pyenv \<Rightarrow> suite \<Rightarrow> move \<Rightarrow> bool" where
  "receipt_safe E s m \<longleftrightarrow> (\<exists>receipt. map_of (su_receipt_metrics s) (content_hash E m) = Some receipt \<and>
     (\<forall>v. map_of receipt ''safety'' = Some v \<longrightarrow> \<not> flt v (su_critical_safety_minimum s)))"

lemma unsafe_None_iff: "unsafe s receipt = None \<longleftrightarrow>
    (\<forall>v. map_of receipt ''safety'' = Some v \<longrightarrow> \<not> flt v (su_critical_safety_minimum s))"
  by (auto simp: unsafe_def split: option.splits)

lemma score_move_Inr:
  assumes "score_move E s note (ph, m) (t, d, f) = Inr (t', d', f')"
  shows "\<exists>g. f' = f @ g \<and> (g = [] \<longleftrightarrow> receipt_safe E s m)"
  using assms
  by (auto simp: score_move_def bindR_Inr_iff receipt_safe_def unsafe_None_iff [symmetric] split: option.splits)

lemma score_path_Inr:
  "foldR (score_commit E s) pms (t, d, f) = Inr (t', d', f') \<Longrightarrow>
   \<exists>g. f' = f @ g \<and> (g = [] \<longleftrightarrow> (\<forall>m \<in> snd ` set pms. receipt_safe E s m))"
proof (induction pms arbitrary: t d f)
  case (Cons pm pms)
  obtain ph m where pm: "pm = (ph, m)" by fastforce
  from Cons.prems obtain t1 d1 f1 where one: "score_commit E s (ph, m) (t, d, f) = Inr (t1, d1, f1)"
    and rest: "foldR (score_commit E s) pms (t1, d1, f1) = Inr (t', d', f')"
    unfolding foldR.simps bindR_Inr_iff pm by (metis prod.exhaust)
  from score_move_Inr [OF one [unfolded score_commit_def]] Cons.IH [OF rest] show ?case
    unfolding pm by fastforce
qed simp

lemma concat_Nil_mapR:
  assumes "mapR f xs = Inr yss"
  shows "concat yss = [] \<longleftrightarrow> (\<forall>x \<in> set xs. f x = Inr [])"
  using assms by (induction xs arbitrary: yss) (auto simp: bindR_Inr_iff)

lemma gate_failures_Nil:
  assumes "gate_failures s v = Inr g"
  shows "g = [] \<longleftrightarrow> (\<forall>m \<in> set (su_metrics s). \<forall>h. bm_hard_minimum m = Some h \<longrightarrow>
    (\<exists>x. map_of v (bm_name m) = Some x \<and> \<not> flt x h))"
proof -
  let ?f = "\<lambda>m. bindR (lookupR v (bm_name m)) (\<lambda>v. Inr (case bm_hard_minimum m of
              None \<Rightarrow> []
            | Some h \<Rightarrow> if flt v h then [bm_name m @ ''='' @ fmt3 v @ '' < gate='' @ fmt3 h] else []))"
  from assms obtain fss where r: "mapR ?f (su_metrics s) = Inr fss" and g: "g = concat fss"
    by (auto simp: gate_failures_def bindR_Inr_iff)
  have "?f m = Inr [] \<longleftrightarrow> (\<forall>h. bm_hard_minimum m = Some h \<longrightarrow> (\<exists>x. map_of v (bm_name m) = Some x \<and> \<not> flt x h))"
    if "m \<in> set (su_metrics s)" for m
  proof -
    from mapR_member [OF r that] obtain x where "map_of v (bm_name m) = Some x"
      by (auto simp: bindR_Inr_iff lookupR_Inr_iff)
    then show ?thesis by (auto simp: lookupR_def split: option.splits)
  qed
  with concat_Nil_mapR [OF r] g show ?thesis by simp
qed

definition gates_passed :: "pyenv \<Rightarrow> suite \<Rightarrow> position \<Rightarrow> pyfloat dict \<Rightarrow> bool" where
  \<comment> \<open>the hard gates of a commit\<close>
  "gates_passed E s p metrics \<longleftrightarrow>
     ps_terminal_status p = Some COMMITTED \<and> ps_violations p = [] \<and> ps_open_questions p = [] \<and>
     length (ps_trajectory p) = length (su_phase_importance s) \<and>
     (\<exists>ref \<in> set (ps_evidence_refs p). \<exists>pre \<in> set (su_trusted_evidence_prefixes s). prefix pre ref) \<and>
     (\<forall>m \<in> set (ps_trajectory p). receipt_safe E s m) \<and>
     (\<forall>m \<in> set (su_metrics s). \<forall>h. bm_hard_minimum m = Some h \<longrightarrow>
        (\<exists>x. map_of metrics (bm_name m) = Some x \<and> \<not> flt x h))"

lemma path_failures_Nil:
  "path_failures s p = [] \<longleftrightarrow> ps_violations p = [] \<and> ps_terminal_status p = Some COMMITTED \<and>
     ps_open_questions p = [] \<and> length (ps_trajectory p) = length (su_phase_importance s) \<and>
     (\<exists>ref \<in> set (ps_evidence_refs p). \<exists>pre \<in> set (su_trusted_evidence_prefixes s). prefix pre ref)"
  by (auto simp: path_failures_def trusted_evidence_def filter_empty_conv list_ex_iff startswith_def)

lemma feasible_gates:
  assumes run: "evaluate M E s p = Inr sd" and st: "ps_terminal_status p \<noteq> Some ABSTAINED"
  shows "sd_feasible sd \<longleftrightarrow> gates_passed E s p (sd_metrics sd)"
  using run
proof (cases rule: evaluate_Inr)
  case (other t d f v g)
  have "snd ` set (enumerate 0 (ps_trajectory p)) = set (ps_trajectory p)"
    by (metis list.set_map map_snd_enumerate)
  with score_path_Inr [OF other(2)] obtain g' where f: "f = path_failures s p @ g'"
    and g': "g' = [] \<longleftrightarrow> (\<forall>m \<in> set (ps_trajectory p). receipt_safe E s m)" by auto
  have "sd_feasible sd \<longleftrightarrow> path_failures s p = [] \<and> g' = [] \<and> g = []" using other(6) f by simp
  then show ?thesis
    unfolding gates_passed_def path_failures_Nil g' gate_failures_Nil [OF other(4)] other(5) by blast
qed (use st in auto)

section \<open>The metrics of a path as weighted means\<close>

text \<open>The receipts a path collects, with the importance of their phases, and the mean they give.\<close>

definition path_receipts :: "pyenv \<Rightarrow> suite \<Rightarrow> (nat \<times> move) list \<Rightarrow> (pyfloat \<times> pyfloat dict) list" where
  "path_receipts E s pms = concat (map (\<lambda>(phase, m).
     case map_of (su_receipt_metrics s) (content_hash E m) of
       None \<Rightarrow> [] | Some receipt \<Rightarrow> [(importance_at s phase, receipt)]) pms)"

definition mean_metric :: "(pyfloat \<times> pyfloat dict) list \<Rightarrow> string \<Rightarrow> pyfloat result" where
  "mean_metric irs n =
     (let total = foldl (\<lambda>a (i, r). fadd a (fmul (the (map_of r n)) i)) (Fin 0) irs;
          denominator = foldl (\<lambda>a (i, r). fadd a i) (Fin 0) irs
      in if flt (Fin 0) denominator then fdiv total denominator else Inr (Fin 0))"

lemma add_receipt_step:
  assumes "foldR (\<lambda>m totals. bindR (lookupR totals (bm_name m)) (\<lambda>t. bindR (lookupR receipt (bm_name m)) (\<lambda>r.
       Inr (dict_set (bm_name m) (fadd t (fmul r i)) totals)))) ms t = Inr t'" "distinct (map bm_name ms)"
  shows "map_of t' n = (if n \<in> bm_name ` set ms then Some (fadd (the (map_of t n)) (fmul (the (map_of receipt n)) i))
    else map_of t n)"
  using assms
proof (induction ms arbitrary: t)
  case (Cons m ms)
  from Cons.prems(1) obtain a r where ar: "map_of t (bm_name m) = Some a" "map_of receipt (bm_name m) = Some r"
    and rest: "foldR (\<lambda>m totals. bindR (lookupR totals (bm_name m)) (\<lambda>t. bindR (lookupR receipt (bm_name m)) (\<lambda>r.
       Inr (dict_set (bm_name m) (fadd t (fmul r i)) totals)))) ms (dict_set (bm_name m) (fadd a (fmul r i)) t) = Inr t'"
    unfolding foldR.simps bindR_Inr_iff lookupR_Inr_iff by auto
  from Cons.IH [OF rest] Cons.prems(2) ar show ?case by auto
qed simp

lemma add_receipt_Inr:
  assumes "suite_ok s" "add_receipt s i receipt t = Inr t'" "n \<in> set (metric_names s)"
  shows "map_of t' n = Some (fadd (the (map_of t n)) (fmul (the (map_of receipt n)) i))"
  using add_receipt_step [OF assms(2) [unfolded add_receipt_def]] assms(1,3)
  by (simp add: suite_ok_def metric_names_def)

lemma score_path_sums:
  assumes "suite_ok s" "n \<in> set (metric_names s)"
  shows "foldR (score_commit E s) pms (t, d, f) = Inr (t', d', f') \<Longrightarrow>
    d' = foldl (\<lambda>a (i, r). fadd a i) d (path_receipts E s pms) \<and>
    (map_of t n = Some x \<longrightarrow>
      map_of t' n = Some (foldl (\<lambda>a (i, r). fadd a (fmul (the (map_of r n)) i)) x (path_receipts E s pms)))"
proof (induction pms arbitrary: t d f x)
  case (Cons pm pms)
  obtain ph m where pm: "pm = (ph, m)" by fastforce
  from Cons.prems obtain t1 d1 f1 where one: "score_commit E s (ph, m) (t, d, f) = Inr (t1, d1, f1)"
    and rest: "foldR (score_commit E s) pms (t1, d1, f1) = Inr (t', d', f')"
    unfolding foldR.simps bindR_Inr_iff pm by (metis prod.exhaust)
  show ?case
  proof (cases "map_of (su_receipt_metrics s) (content_hash E m)")
    case None
    with one have "t1 = t" "d1 = d" by (auto simp: score_commit_def score_move_def)
    with Cons.IH [OF rest] None pm show ?thesis by (simp add: path_receipts_def)
  next
    case (Some receipt)
    with one have "add_receipt s (importance_at s ph) receipt t = Inr t1" "d1 = fadd d (importance_at s ph)"
      by (auto simp: score_commit_def score_move_def bindR_Inr_iff)
    with add_receipt_Inr [OF assms(1) _ assms(2)] Cons.IH [OF rest] Some pm show ?thesis
      by (simp add: path_receipts_def)
  qed
qed (simp add: path_receipts_def)

lemma averages_lookup:
  assumes "averages totals d = Inr vs" "map_of totals n = Some t"
  shows "\<exists>v. (if flt (Fin 0) d then fdiv t d else Inr (Fin 0)) = Inr v \<and> map_of vs n = Some v"
  using assms
proof (induction totals arbitrary: vs)
  case (Cons kt totals)
  obtain k t' where kt: "kt = (k, t')" by fastforce
  from Cons.prems(1) obtain v vs' where "(if flt (Fin 0) d then fdiv t' d else Inr (Fin 0)) = Inr v"
    "averages totals d = Inr vs'" "vs = (k, v) # vs'"
    by (auto simp: averages_def kt bindR_Inr_iff)
  with Cons.IH Cons.prems(2) kt show ?case by (auto split: if_splits)
qed simp

lemma zero_totals_lookup:
  assumes "suite_ok s" "n \<in> set (metric_names s)"
  shows "map_of (zero_totals s) n = Some (Fin 0)"
proof -
  have "map_of (map (\<lambda>n. (n, Fin 0)) ns) n = Some (Fin 0)" if "n \<in> set ns" for ns
    using that by (induction ns) auto
  with assms show ?thesis by (simp add: zero_totals_def dict_of_distinct suite_ok_def comp_def)
qed

lemma evaluate_metrics:
  assumes "suite_ok s" "n \<in> set (metric_names s)" "ps_terminal_status p \<noteq> Some ABSTAINED"
    and run: "evaluate M E s p = Inr sd"
  shows "\<exists>v. map_of (sd_metrics sd) n = Some v \<and>
    mean_metric (path_receipts E s (enumerate 0 (ps_trajectory p))) n = Inr v"
  using run
proof (cases rule: evaluate_Inr)
  case (other t d f v g)
  from score_path_sums [OF assms(1,2) other(2)] zero_totals_lookup [OF assms(1,2)]
    averages_lookup [OF other(3), of n] other(5)
  show ?thesis by (auto simp: mean_metric_def Let_def)
qed (use assms(3) in auto)

end
