(* ===== verification/EngineModel.thy ===== *)
theory EngineModel
  imports EngineBenchmark
begin

text \<open>
  The learned overlay (\<open>src/agent_tree_rl/engine.py\<close>: \<open>AgentRecord\<close>, \<open>PolicyValueModel\<close>).
  Methods that raise before they change anything return the new model or the exception;
  \<open>observe_benchmark\<close>, which stores a record before it can raise, is an action on the model.
\<close>

section \<open>Functions of the math module\<close>

definition logR :: "pymath \<Rightarrow> pyfloat \<Rightarrow> pyfloat result" where
  "logR M x = (if fle x (Fin 0) then raiseR ValueError ''math domain error'' else Inr (m_log M x))"

definition sqrtR :: "pymath \<Rightarrow> pyfloat \<Rightarrow> pyfloat result" where
  "sqrtR M x = (if flt x (Fin 0) then raiseR ValueError ''math domain error'' else Inr (m_sqrt M x))"

definition int_to_float :: "int \<Rightarrow> pyfloat result" where
  \<comment> \<open>the conversion of an \<open>int\<close> operand\<close>
  "int_to_float n = (if isfinite (float_of_int n) then Inr (float_of_int n)
                     else raiseR OverflowError ''int too large to convert to float'')"

definition fge_int :: "pyfloat \<Rightarrow> int \<Rightarrow> bool" where
  \<comment> \<open>\<open>x >= n\<close>, compared exactly\<close>
  "fge_int x n = (case x of Fin a \<Rightarrow> of_int n \<le> a | PInf \<Rightarrow> True | _ \<Rightarrow> False)"

section \<open>Agent records\<close>

record agent_record =
  ar_alpha :: pyfloat
  ar_beta :: pyfloat
  ar_benched :: bool

definition new_record :: agent_record where
  "new_record = \<lparr>ar_alpha = Fin 1, ar_beta = Fin 1, ar_benched = False\<rparr>"

definition samples :: "agent_record \<Rightarrow> pyfloat" where
  "samples r = fsub (fadd (ar_alpha r) (ar_beta r)) (Fin 2)"

definition mean :: "agent_record \<Rightarrow> pyfloat result" where
  "mean r = fdiv (ar_alpha r) (fadd (ar_alpha r) (ar_beta r))"

definition standard_deviation :: "pymath \<Rightarrow> agent_record \<Rightarrow> pyfloat result" where
  "standard_deviation M r =
     (let total = fadd (ar_alpha r) (ar_beta r)
      in bindR (fdiv (fmul (ar_alpha r) (ar_beta r)) (fmul (fmul total total) (fadd total (Fin 1)))) (sqrtR M))"

definition upper_confidence :: "pymath \<Rightarrow> agent_record \<Rightarrow> pyfloat result" where
  "upper_confidence M r =
     bindR (mean r) (\<lambda>mu. bindR (standard_deviation M r) (\<lambda>sd.
     Inr (fmin (Fin 1) (fadd mu (fmul (fl (164 / 100)) sd)))))"

definition observe :: "pyfloat \<Rightarrow> agent_record \<Rightarrow> agent_record result" where
  "observe quality r =
     bindR (guardR (isfinite quality) ValueError ''agent quality observation must be finite'') (\<lambda>_.
     let bounded = fmax (Fin 0) (fmin (Fin 1) quality)
     in Inr (r\<lparr>ar_alpha := fadd (ar_alpha r) bounded, ar_beta := fadd (ar_beta r) (fsub (Fin 1) bounded)\<rparr>))"

section \<open>The model\<close>

record model =
  pm_policy_weights :: "pyfloat dict"
  pm_value_weights :: "pyfloat dict"
  pm_value_bias :: pyfloat
  pm_value_updates :: int
  pm_generation :: int
  pm_agent_records :: "agent_record dict"
  pm_policy_limit :: pyfloat
  pm_value_limit :: pyfloat
  pm_bench_min_samples :: int
  pm_bench_upper_threshold :: pyfloat

definition default_model :: model where
  "default_model =
     \<lparr>pm_policy_weights = [], pm_value_weights = [], pm_value_bias = Fin 0, pm_value_updates = 0, pm_generation = 0,
      pm_agent_records = [], pm_policy_limit = fl (25 / 10), pm_value_limit = fl (25 / 10),
      pm_bench_min_samples = 8, pm_bench_upper_threshold = fl (58 / 100)\<rparr>"

definition within_limit :: "pyfloat \<Rightarrow> pyfloat \<Rightarrow> bool" where
  \<comment> \<open>\<open>math.isfinite(value) and not abs(value) > limit\<close>\<close>
  "within_limit limit v \<longleftrightarrow> isfinite v \<and> \<not> flt limit (fabs v)"

definition positive :: "pyfloat \<Rightarrow> bool" where
  "positive v \<longleftrightarrow> isfinite v \<and> \<not> fle v (Fin 0)"

definition check_model :: "model \<Rightarrow> model result" where
  \<comment> \<open>\<open>PolicyValueModel.__post_init__\<close>\<close>
  "check_model m =
     bindR (guardR (positive (pm_policy_limit m) \<and> positive (pm_value_limit m)) ValueError
              ''model coordinate limits must be finite and positive'') (\<lambda>_.
     bindR (guardR (0 < pm_bench_min_samples m) ValueError ''bench_min_samples must be a positive integer'') (\<lambda>_.
     bindR (guardR (unit_interval (pm_bench_upper_threshold m)) ValueError
              ''bench threshold must be finite and in [0, 1]'') (\<lambda>_.
     bindR (guardR (0 \<le> pm_generation m) ValueError ''model generation must be a nonnegative integer'') (\<lambda>_.
     bindR (guardR (0 \<le> pm_value_updates m) ValueError ''value update count must be a nonnegative integer'') (\<lambda>_.
     bindR (guardR (within_limit (pm_value_limit m) (pm_value_bias m)) ValueError
              ''value bias must be finite and within its configured limit'') (\<lambda>_.
     bindR (guardR (list_all (\<lambda>(_, v). within_limit (pm_policy_limit m) v) (pm_policy_weights m)) ValueError
              ''policy weight is invalid'') (\<lambda>_.
     bindR (guardR (list_all (\<lambda>(_, v). within_limit (pm_value_limit m) v) (pm_value_weights m)) ValueError
              ''value weight is invalid'') (\<lambda>_.
     bindR (guardR (list_all (\<lambda>(_, r). positive (ar_alpha r) \<and> positive (ar_beta r)) (pm_agent_records m)) ValueError
              ''agent record has invalid posterior counts'') (\<lambda>_.
     Inr m)))))))))"

definition model_version :: "pyenv \<Rightarrow> model \<Rightarrow> string" where
  "model_version E m =
     ''overlay-g'' @ str_of_int (pm_generation m) @ ''-'' @ take 12 (digest E (JObj
       [(''generation'', JInt (pm_generation m)), (''policy'', json_floats (pm_policy_weights m)),
        (''value'', json_floats (pm_value_weights m)), (''value_bias'', JFloat (pm_value_bias m)),
        (''value_updates'', JInt (pm_value_updates m)),
        (''agents'', JObj (map (\<lambda>(actor, r). (actor, JObj [(''alpha'', JFloat (ar_alpha r)), (''beta'', JFloat (ar_beta r)),
                                                       (''benched'', JBool (ar_benched r))])) (pm_agent_records m))),
        (''limits'', JObj [(''policy'', JFloat (pm_policy_limit m)), (''value'', JFloat (pm_value_limit m)),
                         (''bench_n'', JInt (pm_bench_min_samples m)),
                         (''bench_threshold'', JFloat (pm_bench_upper_threshold m))])]))"

definition frozen_copy :: "model \<Rightarrow> model result" where
  \<comment> \<open>a deep copy through the validating constructor\<close>
  "frozen_copy m = check_model m"

definition record_for :: "string \<Rightarrow> (model, agent_record) action" where
  "record_for actor m =
     (case map_of (pm_agent_records m) actor of
        Some r \<Rightarrow> (Inr r, m)
      | None \<Rightarrow> (Inr new_record, m\<lparr>pm_agent_records := dict_set actor new_record (pm_agent_records m)\<rparr>))"

definition is_benched :: "model \<Rightarrow> string \<Rightarrow> bool" where
  "is_benched m actor \<longleftrightarrow> ar_benched (dict_get (pm_agent_records m) actor new_record)"

definition benched_agents :: "model \<Rightarrow> string list" where
  "benched_agents m = map fst (filter (\<lambda>(_, r). ar_benched r) (pm_agent_records m))"

section \<open>Priors and values\<close>

definition raw_policy_logit :: "pymath \<Rightarrow> model \<Rightarrow> move \<Rightarrow> pyfloat result" where
  "raw_policy_logit M m mv =
     bindR (logR M (fmax (mv_base_prior mv) (fl (1 / 10 ^ 9)))) (\<lambda>base.
     let learned = m_sum M (map (\<lambda>tag. dict_get (pm_policy_weights m) tag (Fin 0)) (mv_tags mv)) in
     bindR (mean (dict_get (pm_agent_records m) (mv_actor mv) new_record)) (\<lambda>reliability.
     bindR (fdiv (fmax reliability (fl (1 / 10 ^ 4))) (fmax (fsub (Fin 1) reliability) (fl (1 / 10 ^ 4)))) (\<lambda>odds.
     bindR (logR M odds) (\<lambda>l.
     Inr (fadd (fadd base learned) (fmul (fl (20 / 100)) l))))))"

definition priors :: "pymath \<Rightarrow> model \<Rightarrow> move list \<Rightarrow> pyfloat dict result" where
  "priors M m moves =
     (if moves = [] then Inr []
      else
        bindR (mapR (\<lambda>mv. bindR (raw_policy_logit M m mv) (\<lambda>l. Inr (mv_id mv, l))) moves) (\<lambda>kvs.
        let logits = dict_of kvs in
        bindR (guardR (list_all (\<lambda>(_, l). isfinite l) logits) ValueError ''policy produced a non-finite logit'') (\<lambda>_.
        bindR (py_max (\<lambda>x y. flt y x) (map snd logits)) (\<lambda>peak.
        let exps = map (\<lambda>(i, l). (i, m_exp M (fsub l peak))) logits; denominator = m_sum M (map snd exps) in
        if \<not> isfinite denominator \<or> fle denominator (Fin 0) then
          bindR (int_to_float (int (length moves))) (\<lambda>n.
          bindR (fdiv (Fin 1) n) (\<lambda>uniform. Inr (dict_of (map (\<lambda>mv. (mv_id mv, uniform)) moves))))
        else mapR (\<lambda>(i, v). bindR (fdiv v denominator) (\<lambda>q. Inr (i, q))) exps))))"

definition value_features :: "position \<Rightarrow> string list" where
  "value_features p = dict_fromkeys (concat (map mv_tags (ps_trajectory p)))"

definition learned_value :: "pymath \<Rightarrow> model \<Rightarrow> position \<Rightarrow> pyfloat result" where
  "learned_value M m p =
     (let features = value_features p in
      bindR (if features = [] then Inr (pm_value_bias m)
             else bindR (int_to_float (int (length features))) (\<lambda>n.
                  bindR (fdiv (m_sum M (map (\<lambda>tag. dict_get (pm_value_weights m) tag (Fin 0)) features)) n) (\<lambda>q.
                  Inr (fadd (pm_value_bias m) q)))) (\<lambda>raw.
      Inr (m_tanh M raw)))"

definition blend_value :: "pymath \<Rightarrow> model \<Rightarrow> position \<Rightarrow> pyfloat \<Rightarrow> pyfloat result" where
  "blend_value M m p heuristic =
     bindR (int_to_float (pm_value_updates m)) (\<lambda>u.
     bindR (fdiv u (Fin 120)) (\<lambda>share.
     let learned_share = fmin (fl (50 / 100)) share in
     bindR (learned_value M m p) (\<lambda>lv.
     Inr (fadd (fmul (fsub (Fin 1) learned_share) heuristic) (fmul learned_share lv)))))"

section \<open>Learning\<close>

definition clip :: "pyfloat \<Rightarrow> pyfloat \<Rightarrow> pyfloat" where
  \<comment> \<open>\<open>_clip(value, limit)\<close>\<close>
  "clip v limit = fmax (fneg limit) (fmin limit v)"

definition add_weight :: "pyfloat \<Rightarrow> pyfloat \<Rightarrow> string \<Rightarrow> pyfloat dict \<Rightarrow> pyfloat dict" where
  \<comment> \<open>\<open>weights[tag] = _clip(weights.get(tag, 0.0) + delta, limit)\<close>\<close>
  "add_weight limit delta tag ws = dict_set tag (clip (fadd (dict_get ws tag (Fin 0)) delta) limit) ws"

definition learning_rate_ok :: "pyfloat \<Rightarrow> bool" where
  "learning_rate_ok r \<longleftrightarrow> isfinite r \<and> flt (Fin 0) r \<and> fle r (Fin 1)"

definition learn_policy_move ::
  "pyfloat dict \<Rightarrow> pyfloat dict \<Rightarrow> pyfloat \<Rightarrow> pyfloat \<Rightarrow> move \<Rightarrow> pyfloat dict \<Rightarrow> pyfloat dict result" where
  \<comment> \<open>the body of the loop over the moves\<close>
  "learn_policy_move targets predicted rate limit mv ws =
     bindR (lookupR predicted (mv_id mv)) (\<lambda>q.
     let error = fsub (dict_get targets (mv_id mv) (Fin 0)) q in
     bindR (int_to_float (max 1 (int (length (mv_tags mv))))) (\<lambda>n.
     bindR (fdiv (fmul rate error) n) (\<lambda>scale.
     Inr (fold (add_weight limit scale) (mv_tags mv) ws))))"

definition learn_policy ::
  "pymath \<Rightarrow> model \<Rightarrow> move list \<Rightarrow> pyfloat dict \<Rightarrow> pyfloat \<Rightarrow> model result" where
  "learn_policy M m moves targets rate =
     (if moves = [] then Inr m
      else
        bindR (guardR (fst ` set targets \<subseteq> mv_id ` set moves) ValueError ''policy target contains an unknown move'') (\<lambda>_.
        bindR (guardR (list_all (\<lambda>(_, v). isfinite v \<and> \<not> flt v (Fin 0)) targets) ValueError
                 ''policy target probabilities must be finite and nonnegative'') (\<lambda>_.
        bindR (guardR (isclose (m_sum M (map snd targets)) (Fin 1) (fl (1 / 10 ^ 8))) ValueError
                 ''policy target probabilities must sum to 1.0'') (\<lambda>_.
        bindR (guardR (learning_rate_ok rate) ValueError ''policy learning rate must be in (0, 1]'') (\<lambda>_.
        bindR (priors M m moves) (\<lambda>predicted.
        bindR (foldR (learn_policy_move targets predicted rate (pm_policy_limit m)) moves (pm_policy_weights m)) (\<lambda>ws.
        Inr (m\<lparr>pm_policy_weights := ws\<rparr>))))))))"

definition learn_value :: "pymath \<Rightarrow> model \<Rightarrow> position \<Rightarrow> pyfloat \<Rightarrow> pyfloat \<Rightarrow> model result" where
  "learn_value M m p actual_reward rate =
     bindR (guardR (isfinite actual_reward \<and> fle (Fin (- 1)) actual_reward \<and> fle actual_reward (Fin 1)) ValueError
              ''actual reward must be finite and in [-1, 1]'') (\<lambda>_.
     bindR (guardR (learning_rate_ok rate) ValueError ''value learning rate must be in (0, 1]'') (\<lambda>_.
     bindR (learned_value M m p) (\<lambda>predicted.
     let derivative = fsub (Fin 1) (fmul predicted predicted);
         error = fmul (fsub actual_reward predicted) derivative;
         features = value_features p;
         bias = clip (fadd (pm_value_bias m) (fmul rate error)) (pm_value_limit m) in
     bindR (if features = [] then Inr (pm_value_weights m)
            else bindR (int_to_float (int (length features))) (\<lambda>n.
                 bindR (fdiv (fmul rate error) n) (\<lambda>delta.
                 Inr (fold (add_weight (pm_value_limit m) delta) features (pm_value_weights m))))) (\<lambda>ws.
     Inr (m\<lparr>pm_value_bias := bias, pm_value_weights := ws, pm_value_updates := pm_value_updates m + 1\<rparr>)))))"

definition put_record :: "string \<Rightarrow> agent_record \<Rightarrow> model \<Rightarrow> model" where
  \<comment> \<open>the record is shared with the dict, so its updates are updates of the dict\<close>
  "put_record actor r m = m\<lparr>pm_agent_records := dict_set actor r (pm_agent_records m)\<rparr>"

definition observe_benchmark :: "pymath \<Rightarrow> pyenv \<Rightarrow> move \<Rightarrow> suite \<Rightarrow> (model, unit) action" where
  "observe_benchmark M E mv s =
     bind (record_for (mv_actor mv)) (\<lambda>r.
     bind (lift (receipt_move_quality M E s mv)) (\<lambda>quality.
     bind (lift (observe quality r)) (\<lambda>r.
     andthen (modify (put_record (mv_actor mv) r)) (
     bind (get (\<lambda>m. \<not> ar_benched r \<and> fge_int (samples r) (pm_bench_min_samples m))) (\<lambda>due.
     if due then
       bind (lift (upper_confidence M r)) (\<lambda>u.
       bind (get pm_bench_upper_threshold) (\<lambda>threshold.
       if flt u threshold then modify (put_record (mv_actor mv) (r\<lparr>ar_benched := True\<rparr>)) else ret ()))
     else ret ())))))"

definition agent_status :: "pymath \<Rightarrow> agent_record \<Rightarrow> json result" where
  "agent_status M r =
     bindR (mean r) (\<lambda>mu. bindR (upper_confidence M r) (\<lambda>u.
     Inr (JObj [(''samples'', JFloat (samples r)), (''mean'', JFloat mu), (''upper_confidence'', JFloat u),
                (''status'', JStr (if ar_benched r then ''BENCHED'' else ''ACTIVE''))])))"

definition snapshot :: "pymath \<Rightarrow> pyenv \<Rightarrow> model \<Rightarrow> json result" where
  "snapshot M E m =
     bindR (mapR (\<lambda>(actor, r). bindR (agent_status M r) (\<lambda>j. Inr (actor, j))) (sort_key fst (pm_agent_records m))) (\<lambda>agents.
     Inr (JObj [(''model_version'', JStr (model_version E m)),
                (''policy_weights'', json_floats (sort_key fst (pm_policy_weights m))),
                (''value_weights'', json_floats (sort_key fst (pm_value_weights m))),
                (''value_bias'', JFloat (pm_value_bias m)), (''value_updates'', JInt (pm_value_updates m)),
                (''agents'', JObj agents)]))"

section \<open>Learning stays within the limits\<close>

definition bounded_by :: "rat \<Rightarrow> pyfloat dict \<Rightarrow> bool" where
  "bounded_by l ws \<longleftrightarrow> (\<forall>v \<in> snd ` set ws. fin_between (- l) v l)"

definition record_ok :: "agent_record \<Rightarrow> bool" where
  "record_ok r \<longleftrightarrow> (\<exists>a b. ar_alpha r = Fin a \<and> 0 < a \<and> ar_beta r = Fin b \<and> 0 < b)"

definition model_ok :: "model \<Rightarrow> bool" where
  "model_ok m \<longleftrightarrow> (\<exists>lp lv. pm_policy_limit m = Fin lp \<and> 0 < lp \<and> pm_value_limit m = Fin lv \<and> 0 < lv \<and>
     fin_between (- lv) (pm_value_bias m) lv \<and>
     bounded_by lp (pm_policy_weights m) \<and> bounded_by lv (pm_value_weights m)) \<and>
     (\<forall>r \<in> snd ` set (pm_agent_records m). record_ok r) \<and>
     0 < pm_bench_min_samples m \<and> fin_between 0 (pm_bench_upper_threshold m) 1 \<and>
     0 \<le> pm_generation m \<and> 0 \<le> pm_value_updates m"

lemma within_limit_iff: "within_limit (Fin l) v \<longleftrightarrow> fin_between (- l) v l"
  by (cases v) (auto simp: within_limit_def fin_between_def)

lemma positive_Fin: "positive v \<longleftrightarrow> (\<exists>a. v = Fin a \<and> 0 < a)"
  by (cases v) (auto simp: positive_def)

lemma list_all_snd: "list_all (\<lambda>(_, v). P v) kvs \<longleftrightarrow> (\<forall>v \<in> snd ` set kvs. P v)"
  by (auto simp: list_all_iff)

lemma record_ok_iff: "record_ok r \<longleftrightarrow> positive (ar_alpha r) \<and> positive (ar_beta r)"
  by (auto simp: record_ok_def positive_Fin)

lemma check_model_iff: "check_model m = Inr m' \<longleftrightarrow> m' = m \<and> model_ok m"
proof -
  have "check_model m = Inr m' \<longleftrightarrow> m' = m \<and> positive (pm_policy_limit m) \<and> positive (pm_value_limit m) \<and>
      0 < pm_bench_min_samples m \<and> unit_interval (pm_bench_upper_threshold m) \<and> 0 \<le> pm_generation m \<and>
      0 \<le> pm_value_updates m \<and> within_limit (pm_value_limit m) (pm_value_bias m) \<and>
      (\<forall>v \<in> snd ` set (pm_policy_weights m). within_limit (pm_policy_limit m) v) \<and>
      (\<forall>v \<in> snd ` set (pm_value_weights m). within_limit (pm_value_limit m) v) \<and>
      (\<forall>r \<in> snd ` set (pm_agent_records m). record_ok r)"
    by (auto simp: check_model_def bindR_Inr_iff list_all_snd record_ok_iff)
  also have "\<dots> \<longleftrightarrow> m' = m \<and> model_ok m"
    unfolding model_ok_def positive_Fin unit_interval_iff bounded_by_def
    using within_limit_iff by (cases "pm_policy_limit m"; cases "pm_value_limit m") auto
  finally show ?thesis .
qed

lemma frozen_copy_iff: "frozen_copy m = Inr m' \<longleftrightarrow> m' = m \<and> model_ok m"
  by (simp add: frozen_copy_def check_model_iff)

lemma clip_bounds: "0 < l \<Longrightarrow> fin_between (- l) (clip v (Fin l)) l"
  by (simp add: clip_def clamp_bounds)

lemma add_weights_bounds:
  assumes "0 < l" "bounded_by l ws"
  shows "bounded_by l (fold (add_weight (Fin l) d) tags ws)"
  using assms(2)
proof (induction tags arbitrary: ws)
  case (Cons tag tags)
  have "snd ` set (add_weight (Fin l) d tag ws)
      \<subseteq> insert (clip (fadd (dict_get ws tag (Fin 0)) d) (Fin l)) (snd ` set ws)"
    unfolding add_weight_def by (rule dict_set_values)
  moreover have "fin_between (- l) v l"
    if "v \<in> insert (clip (fadd (dict_get ws tag (Fin 0)) d) (Fin l)) (snd ` set ws)" for v
    using that Cons.prems clip_bounds [OF assms(1)] unfolding bounded_by_def by auto
  ultimately have "bounded_by l (add_weight (Fin l) d tag ws)"
    unfolding bounded_by_def by (meson subsetD)
  from Cons.IH [OF this] show ?case by simp
qed simp

lemma learn_policy_Inr:
  assumes "learn_policy M m moves targets rate = Inr m'"
  obtains ws where "m' = m\<lparr>pm_policy_weights := ws\<rparr>" "model_ok m \<Longrightarrow> model_ok m'"
proof (cases "moves = []")
  case True
  with assms have "m' = m\<lparr>pm_policy_weights := pm_policy_weights m\<rparr>" by (simp add: learn_policy_def)
  then show thesis by (rule that) (use True assms in \<open>simp add: learn_policy_def\<close>)
next
  case False
  with assms obtain predicted ws where m': "m' = m\<lparr>pm_policy_weights := ws\<rparr>"
    and run: "foldR (learn_policy_move targets predicted rate (pm_policy_limit m)) moves (pm_policy_weights m) = Inr ws"
    by (auto simp: learn_policy_def bindR_Inr_iff)
  have "bounded_by l ws"
    if l: "pm_policy_limit m = Fin l" "0 < l" "bounded_by l (pm_policy_weights m)" for l
    by (rule foldR_invariant [OF run, of "bounded_by l"])
      (use l add_weights_bounds [OF l(2)] in \<open>auto simp: learn_policy_move_def bindR_Inr_iff Let_def\<close>)
  then have "model_ok m \<Longrightarrow> model_ok m'" unfolding model_ok_def m' by auto
  with m' show thesis by (rule that)
qed

lemma learn_value_Inr:
  assumes "learn_value M m p reward rate = Inr m'"
  obtains bias ws where
    "m' = m\<lparr>pm_value_bias := bias, pm_value_weights := ws, pm_value_updates := pm_value_updates m + 1\<rparr>"
    "model_ok m \<Longrightarrow> model_ok m'"
proof -
  from assms obtain x d ws where
    m': "m' = m\<lparr>pm_value_bias := clip x (pm_value_limit m), pm_value_weights := ws,
      pm_value_updates := pm_value_updates m + 1\<rparr>"
    and ws: "ws = pm_value_weights m \<or> ws = fold (add_weight (pm_value_limit m) d) (value_features p) (pm_value_weights m)"
    by (auto simp: learn_value_def bindR_Inr_iff Let_def split: if_splits)
  have "bounded_by l ws" if l: "pm_value_limit m = Fin l" "0 < l" "bounded_by l (pm_value_weights m)" for l
    using ws l add_weights_bounds [OF l(2,3)] by auto
  then have "model_ok m \<Longrightarrow> model_ok m'"
    unfolding model_ok_def m' using clip_bounds by auto
  with m' show thesis by (rule that)
qed

section \<open>Benching is durable\<close>

lemma benched_iff: "distinct (map fst (pm_agent_records m)) \<Longrightarrow> a \<in> set (benched_agents m) \<longleftrightarrow> is_benched m a"
  by (auto simp: benched_agents_def is_benched_def dict_get_def new_record_def image_iff
      split: option.splits dest: map_of_SomeD) (metis map_of_is_SomeI option.sel)+

lemma is_benched_put:
  "is_benched (put_record actor r m) a \<longleftrightarrow> (if a = actor then ar_benched r else is_benched m a)"
  by (simp add: is_benched_def put_record_def dict_get_def)

lemma record_for_Inr:
  assumes "record_for actor m = (r, m')"
  obtains rec where "r = Inr rec" "m' = m \<or> m' = put_record actor rec m" "ar_benched rec = is_benched m actor"
  using assms
  by (auto simp: record_for_def put_record_def is_benched_def dict_get_def new_record_def split: option.splits)

lemma is_benched_record_for: "record_for actor m = (r, m') \<Longrightarrow> is_benched m' a = is_benched m a"
  by (erule record_for_Inr) (auto simp: is_benched_put split: if_splits)

lemma observe_benchmark_keeps_benched:
  assumes "is_benched m a" "observe_benchmark M E mv s m = (r, m')"
  shows "is_benched m' a"
proof -
  obtain r0 m0 where rf: "record_for (mv_actor mv) m = (r0, m0)" by fastforce
  then obtain rec where r0: "r0 = Inr rec" and b: "ar_benched rec = is_benched m (mv_actor mv)"
    by (rule record_for_Inr)
  have m0: "is_benched m0 x = is_benched m x" for x using is_benched_record_for [OF rf] .
  have ob: "ar_benched rec' = ar_benched rec" if "observe q rec = Inr rec'" for q rec'
    using that by (auto simp: observe_def bindR_Inr_iff Let_def)
  from assms(2) m0 b ob assms(1) show ?thesis
    unfolding observe_benchmark_def
    by (auto simp: bind_apply andthen_apply rf r0 is_benched_put split: sum.splits prod.splits if_splits)
qed

section \<open>When priors exist\<close>

lemma set_dict_set: "set (dict_set k v d) \<subseteq> insert (k, v) (set d)"
  by (induction k v d rule: dict_set.induct) auto

lemma set_dict_of: "set (dict_of kvs) \<subseteq> set kvs" and keys_dict_of: "fst ` set (dict_of kvs) = fst ` set kvs"
proof -
  have "set (fold (\<lambda>(k, v). dict_set k v) kvs d) \<subseteq> set d \<union> set kvs \<and>
      fst ` set (fold (\<lambda>(k, v). dict_set k v) kvs d) = fst ` set d \<union> fst ` set kvs" for d :: "('a \<times> 'b) list"
  proof (induction kvs arbitrary: d)
    case (Cons kv kvs)
    obtain k v where kv: "kv = (k, v)" by fastforce
    from Cons.IH [of "dict_set k v d"] set_dict_set [of k v d] keys_dict_set [of k v d] show ?case
      by (auto simp: kv)
  qed simp
  from this [of "[]"] show "set (dict_of kvs) \<subseteq> set kvs" "fst ` set (dict_of kvs) = fst ` set kvs"
    by (simp_all add: dict_of_def)
qed

lemma mapR_keys:
  assumes "mapR f xs = Inr ys" "\<And>x y. f x = Inr y \<Longrightarrow> g y = h x"
  shows "map g ys = map h xs"
  using assms(1) by (induction xs arbitrary: ys) (auto simp: bindR_Inr_iff dest: assms(2))

lemma priors_keys:
  assumes "priors M m moves = Inr ps" shows "fst ` set ps = mv_id ` set moves"
proof (cases "moves = []")
  case False
  with assms obtain kvs peak where kvs: "mapR (\<lambda>mv. bindR (raw_policy_logit M m mv) (\<lambda>l. Inr (mv_id mv, l))) moves = Inr kvs"
    and ps: "(\<exists>q. ps = dict_of (map (\<lambda>mv. (mv_id mv, q)) moves)) \<or> (\<exists>d.
      mapR (\<lambda>(i, v). bindR (fdiv v d) (\<lambda>q. Inr (i, q))) (map (\<lambda>(i, l). (i, m_exp M (fsub l peak))) (dict_of kvs)) = Inr ps)"
    by (auto simp: priors_def bindR_Inr_iff Let_def split: if_splits)
  have "map fst kvs = map mv_id moves"
    by (rule mapR_keys [OF kvs]) (auto simp: bindR_Inr_iff)
  then have k: "fst ` set (dict_of kvs) = mv_id ` set moves" by (metis keys_dict_of list.set_map)
  from ps show ?thesis
  proof (elim disjE exE)
    fix q assume "ps = dict_of (map (\<lambda>mv. (mv_id mv, q)) moves)"
    then show ?thesis by (simp add: keys_dict_of image_image)
  next
    fix d assume "mapR (\<lambda>(i, v). bindR (fdiv v d) (\<lambda>q. Inr (i, q)))
      (map (\<lambda>(i, l). (i, m_exp M (fsub l peak))) (dict_of kvs)) = Inr ps"
    then have "map fst ps = map fst (map (\<lambda>(i, l). (i, m_exp M (fsub l peak))) (dict_of kvs))"
      by (rule mapR_keys) (auto simp: bindR_Inr_iff)
    then have "map fst ps = map fst (dict_of kvs)" by (simp add: comp_def case_prod_beta)
    with k show ?thesis by (metis list.set_map)
  qed
qed (use assms in \<open>simp add: priors_def\<close>)

lemma int_to_float_total:
  assumes "\<bar>n\<bar> \<le> 2 ^ 63" shows "int_to_float n = Inr (float_of_int n)"
proof -
  have "\<bar>of_int n :: rat\<bar> \<le> of_int (2 ^ 63)" using assms by (metis of_int_abs of_int_le_iff)
  then have "\<bar>of_int n :: rat\<bar> \<le> 2 powi 63" by simp
  then show ?thesis using round64_finite [of "of_int n" 63] by (simp add: int_to_float_def float_of_int_def)
qed

lemma fdiv_total: "flt (Fin 0) d \<Longrightarrow> \<exists>q. fdiv x d = Inr q"
  by (cases d; cases x) auto

definition finite_logits :: "pymath \<Rightarrow> model \<Rightarrow> move list \<Rightarrow> bool" where
  \<comment> \<open>what \<open>priors\<close> requires of its candidates, and a bound on their number\<close>
  "finite_logits M m moves \<longleftrightarrow> int (length moves) \<le> 2 ^ 63 \<and>
     list_all (\<lambda>mv. case raw_policy_logit M m mv of Inl _ \<Rightarrow> False | Inr l \<Rightarrow> isfinite l) moves"

lemma float_of_nat_positive:
  assumes "0 < n" "int n \<le> 2 ^ 63" shows "\<exists>a. int_to_float (int n) = Inr (Fin a) \<and> a \<noteq> 0"
proof -
  have i: "int_to_float (int n) = Inr (float_of_int (int n))" using assms(2) by (intro int_to_float_total) simp
  then have "isfinite (float_of_int (int n))" by (simp add: int_to_float_def split: if_splits)
  then obtain a where a: "float_of_int (int n) = Fin a" by (cases "float_of_int (int n)") auto
  have "\<bar>a - of_int (int n)\<bar> \<le> max (\<bar>of_int (int n)\<bar> * 2 powi (-53)) (2 powi (-1075))"
    by (rule round64_err) (use a in \<open>simp add: float_of_int_def\<close>)
  also have "\<dots> \<le> \<bar>of_int (int n)\<bar> / 2"
    using assms(1) by (intro max.boundedI) (simp_all add: power_int_def field_simps)
  finally have "a \<noteq> 0" using assms(1) by auto
  with i a show ?thesis by simp
qed

lemma priors_total:
  assumes "finite_logits M m moves" shows "\<exists>ps. priors M m moves = Inr ps"
proof (cases "moves = []")
  case False
  have l: "\<exists>l. raw_policy_logit M m mv = Inr l \<and> isfinite l" if "mv \<in> set moves" for mv
  proof -
    from assms that have "case raw_policy_logit M m mv of Inl _ \<Rightarrow> False | Inr l \<Rightarrow> isfinite l"
      by (simp add: finite_logits_def list_all_iff)
    then show ?thesis by (simp split: sum.splits)
  qed
  have "\<exists>kvs. mapR (\<lambda>mv. bindR (raw_policy_logit M m mv) (\<lambda>l. Inr (mv_id mv, l))) moves = Inr kvs"
    by (rule mapR_total) (use l in fastforce)
  then obtain kvs where kvs: "mapR (\<lambda>mv. bindR (raw_policy_logit M m mv) (\<lambda>l. Inr (mv_id mv, l))) moves = Inr kvs" ..
  have "list_all2 (\<lambda>mv kv. raw_policy_logit M m mv = Inr (snd kv)) moves kvs"
    using kvs unfolding mapR_Inr_iff by (rule list_all2_mono) (auto simp: bindR_Inr_iff)
  then have fin: "\<forall>kv \<in> set kvs. isfinite (snd kv)"
    using l by (fastforce simp: list_all2_conv_all_nth in_set_conv_nth)
  have ne: "kvs \<noteq> []" using kvs False by (cases moves) (auto simp: bindR_Inr_iff)
  then have "dict_of kvs \<noteq> []" using keys_dict_of [of kvs] by force
  then obtain peak where peak: "py_max (\<lambda>x y. flt y x) (map snd (dict_of kvs)) = Inr peak"
    using py_max_nonempty by (metis list.map_disc_iff)
  have ok: "list_all (\<lambda>(_, l). isfinite l) (dict_of kvs)"
    using fin set_dict_of [of kvs] by (fastforce simp: list_all_iff)
  obtain a where a: "int_to_float (int (length moves)) = Inr (Fin a)" "a \<noteq> 0"
    using float_of_nat_positive [of "length moves"] False assms by (auto simp: finite_logits_def)
  have div: "\<exists>ys. mapR (\<lambda>(i, v). bindR (fdiv v d) (\<lambda>q. Inr (i, q))) xs = Inr ys"
    if "isfinite d" "\<not> fle d (Fin 0)" for d and xs :: "(string \<times> pyfloat) list"
  proof (rule mapR_total)
    fix x assume "x \<in> set xs"
    have "flt (Fin 0) d" using that by (cases d) auto
    from fdiv_total [OF this, of "snd x"] show "\<exists>y. (\<lambda>(i, v). bindR (fdiv v d) (\<lambda>q. Inr (i, q))) x = Inr y"
      by (auto simp: case_prod_beta)
  qed
  show ?thesis
    using False kvs peak ok a div by (auto simp: priors_def Let_def)
qed (simp add: priors_def)

end
