(* ===== verification/EngineSearch.thy ===== *)
theory EngineSearch
  imports EngineModel
begin

text \<open>
  PUCT search (\<open>src/agent_tree_rl/engine.py\<close>: \<open>SearchNode\<close>, \<open>PolicyTargetReceipt\<close>,
  \<open>SearchResult\<close>, \<open>PUCTSearch\<close>, \<open>visit_target\<close>). The tree is a value: a simulation returns the
  tree with the nodes on its path updated, and the parent pointers of a node are the path from the
  root that leads to it. The search object (score cache, evaluation counter, random stream) is the
  state of the actions. The gamma variates of the seeded generator are a parameter.
\<close>

section \<open>Nodes\<close>

datatype node = Node
  (nd_position: position) (nd_move: "move option") (nd_prior: pyfloat) (nd_visits: int) (nd_value_sum: pyfloat)
  (nd_children: "(string \<times> node) list") (nd_unexpanded: "move list option") (nd_candidate_priors: "pyfloat dict")

definition new_node :: "position \<Rightarrow> move option \<Rightarrow> pyfloat \<Rightarrow> node" where
  "new_node p mv prior = Node p mv prior 0 (Fin 0) [] None []"

fun visit :: "pyfloat \<Rightarrow> node \<Rightarrow> node" where
  \<comment> \<open>\<open>visited.visits += 1; visited.value_sum += value\<close>\<close>
  "visit v (Node p mv pr n w cs un ps) = Node p mv pr (n + 1) (fadd w v) cs un ps"

fun with_moves :: "move list \<Rightarrow> pyfloat dict \<Rightarrow> node \<Rightarrow> node" where
  "with_moves un ps (Node p mv pr n w cs _ _) = Node p mv pr n w cs (Some un) ps"

fun with_child :: "string \<Rightarrow> node \<Rightarrow> node \<Rightarrow> node" where
  "with_child k c (Node p mv pr n w cs un ps) = Node p mv pr n w (dict_set k c cs) un ps"

definition q_value :: "node \<Rightarrow> pyfloat result" where
  "q_value nd = (if nd_visits nd \<noteq> 0 then bindR (int_to_float (nd_visits nd)) (fdiv (nd_value_sum nd)) else Inr (Fin 0))"

section \<open>Policy targets and results\<close>

record policy_target =
  pt_position :: position
  pt_candidate_hashes :: "(string \<times> string) list"
  pt_target_probabilities :: "pyfloat dict"

definition check_target :: "pymath \<Rightarrow> policy_target \<Rightarrow> policy_target result" where
  \<comment> \<open>\<open>PolicyTargetReceipt.__post_init__\<close>\<close>
  "check_target M t =
     bindR (guardR (distinct (map fst (pt_candidate_hashes t))) ValueError ''policy target contains duplicate candidate IDs'') (\<lambda>_.
     bindR (guardR (list_all (\<lambda>(i, h). i \<noteq> [] \<and> py_len h = 64) (pt_candidate_hashes t)) ValueError
              ''policy target candidate identity is invalid'') (\<lambda>_.
     bindR (guardR (fst ` set (pt_target_probabilities t) \<subseteq> fst ` set (pt_candidate_hashes t)) ValueError
              ''policy target references an unknown candidate'') (\<lambda>_.
     bindR (guardR (list_all (\<lambda>(_, v). isfinite v \<and> \<not> flt v (Fin 0)) (pt_target_probabilities t)) ValueError
              ''policy target values must be finite and nonnegative'') (\<lambda>_.
     bindR (guardR (isclose (m_sum M (map snd (pt_target_probabilities t))) (Fin 1) (fl (1 / 10 ^ 8))) ValueError
              ''policy target values must sum to 1.0'') (\<lambda>_.
     Inr t)))))"

definition receipt_hash :: "pyenv \<Rightarrow> policy_target \<Rightarrow> string" where
  "receipt_hash E t = digest E (JObj
     [(''state_hash'', JStr (state_hash E (pt_position t))),
      (''candidate_hashes'', JList (map (\<lambda>(i, h). JList [JStr i, JStr h]) (pt_candidate_hashes t))),
      (''target_probabilities'', json_floats (pt_target_probabilities t))])"

definition scorecard_payload :: "score_card \<Rightarrow> json" where
  "scorecard_payload sd = JObj
     [(''metrics'', json_floats (sd_metrics sd)), (''composite'', JFloat (sd_composite sd)),
      (''cost_penalty'', JFloat (sd_cost_penalty sd)), (''reward'', JFloat (sd_reward sd)),
      (''feasible'', JBool (sd_feasible sd)), (''gate_failures'', json_strs (sd_gate_failures sd)),
      (''outcome_status'', json_of_status (sd_outcome_status sd))]"

definition experience_digest ::
  "pyenv \<Rightarrow> string \<Rightarrow> string \<Rightarrow> string \<Rightarrow> move list \<Rightarrow> position \<Rightarrow> score_card \<Rightarrow> policy_target list \<Rightarrow> bool \<Rightarrow> string" where
  "experience_digest E manifest profile version trajectory final sd targets abstained = digest E (JObj
     [(''scenario_manifest_hash'', JStr manifest), (''benchmark_profile_hash'', JStr profile),
      (''model_version'', JStr version), (''trajectory'', json_strs (map (content_hash E) trajectory)),
      (''final_state_hash'', JStr (state_hash E final)), (''score'', scorecard_payload sd),
      (''policy_targets'', json_strs (map (receipt_hash E) targets)), (''abstained'', JBool abstained)])"

record search_result =
  sr_root :: node
  sr_terminal_path :: "node list option"
  sr_trajectory :: "move list"
  sr_final_position :: position
  sr_score :: score_card
  sr_simulations :: int
  sr_benchmark_evaluations :: int
  sr_scenario_version :: string
  sr_scenario_manifest_hash :: string
  sr_benchmark_profile_hash :: string
  sr_model_version :: string
  sr_abstained :: bool
  sr_policy_targets :: "policy_target list"
  sr_learning_receipt_hash :: string

definition check_result :: "search_result \<Rightarrow> search_result result" where
  "check_result r =
     bindR (guardR (is_sha256 (sr_learning_receipt_hash r)) ValueError ''learning receipt must use a full content hash'') (\<lambda>_.
     Inr r)"

definition root_distribution :: "search_result \<Rightarrow> pyfloat dict result" where
  "root_distribution r =
     (let children = nd_children (sr_root r); total = sum_list (map (nd_visits \<circ> snd) children)
      in if total = 0 then Inr []
         else mapR (\<lambda>(i, c). bindR (int_truediv (nd_visits c) total) (\<lambda>q. Inr (i, q))) children)"

section \<open>The search object\<close>

record search =
  se_scenario :: scenario
  se_benchmark :: suite
  se_model :: model
  se_c_puct :: pyfloat
  se_root_noise_fraction :: pyfloat
  se_gamma :: "nat \<Rightarrow> pyfloat"
  se_draws :: nat
  se_score_cache :: "score_card dict"
  se_benchmark_evaluations :: int

definition covered_by :: "pyenv \<Rightarrow> scenario \<Rightarrow> suite \<Rightarrow> bool" where
  \<comment> \<open>every candidate but the abstentions has a receipt\<close>
  "covered_by E sc s \<longleftrightarrow>
     list_all (\<lambda>m. mv_kind m = ABSTAIN \<or> content_hash E m \<in> fst ` set (su_receipt_metrics s)) (concat (sc_phases sc))"

definition new_search ::
  "pyenv \<Rightarrow> scenario \<Rightarrow> suite \<Rightarrow> model \<Rightarrow> pyfloat \<Rightarrow> (nat \<Rightarrow> pyfloat) \<Rightarrow> pyfloat \<Rightarrow> search result" where
  \<comment> \<open>\<open>PUCTSearch.__init__\<close>; \<open>gamma\<close> are the draws of \<open>random.Random(seed)\<close>\<close>
  "new_search E sc s m c_puct gamma noise =
     bindR (guardR (isfinite c_puct \<and> \<not> flt c_puct (Fin 0)) ValueError ''c_puct must be finite and nonnegative'') (\<lambda>_.
     bindR (guardR (fle (Fin 0) noise \<and> fle noise (Fin 1)) ValueError ''root noise fraction must be in [0, 1]'') (\<lambda>_.
     bindR (guardR (su_scenario_manifest_hash s = manifest_hash E sc) ValueError
              ''benchmark is bound to a different scenario manifest'') (\<lambda>_.
     bindR (guardR (covered_by E sc s) ValueError ''benchmark lacks canonical move receipts'') (\<lambda>_.
     bindR (guardR (length (su_phase_importance s) = length (sc_phases sc)) ValueError
              ''benchmark phase weights do not match scenario'') (\<lambda>_.
     bindR (frozen_copy m) (\<lambda>m'.
     Inr \<lparr>se_scenario = sc, se_benchmark = s, se_model = m', se_c_puct = c_puct, se_root_noise_fraction = noise,
          se_gamma = gamma, se_draws = 0, se_score_cache = [], se_benchmark_evaluations = 0\<rparr>))))))"

definition se_benched :: "search \<Rightarrow> string list" where
  "se_benched se = benched_agents (se_model se)"

definition score :: "pymath \<Rightarrow> pyenv \<Rightarrow> position \<Rightarrow> (search, score_card) action" where
  \<comment> \<open>\<open>_score\<close>\<close>
  "score M E p se =
     (case map_of (se_score_cache se) (state_hash E p) of
        Some sd \<Rightarrow> (Inr sd, se)
      | None \<Rightarrow> (case evaluate M E (se_benchmark se) p of
          Inl e \<Rightarrow> (Inl e, se)
        | Inr sd \<Rightarrow> (Inr sd, se\<lparr>se_score_cache := dict_set (state_hash E p) sd (se_score_cache se),
                                se_benchmark_evaluations := se_benchmark_evaluations se + 1\<rparr>)))"

definition mix_noise :: "pymath \<Rightarrow> search \<Rightarrow> move list \<Rightarrow> pyfloat dict \<Rightarrow> pyfloat dict result" where
  "mix_noise M se legal ps =
     (let noise = map (\<lambda>i. se_gamma se (se_draws se + i)) [0..<length legal]; total = m_sum M noise;
          frac = se_root_noise_fraction se
      in foldR (\<lambda>(mv, draw) ps.
           bindR (lookupR ps (mv_id mv)) (\<lambda>original.
           bindR (fdiv (fmul frac draw) total) (\<lambda>share.
           Inr (dict_set (mv_id mv) (fadd (fmul (fsub (Fin 1) frac) original) share) ps)))) (zip legal noise) ps)"

definition pair_lt :: "pyfloat \<times> string \<Rightarrow> pyfloat \<times> string \<Rightarrow> bool" where
  \<comment> \<open>\<open><\<close> on tuples: the first components that are not equal decide\<close>
  "pair_lt = (\<lambda>(a, s) (b, t). if feq a b then s < t else flt a b)"

definition initialise :: "pymath \<Rightarrow> bool \<Rightarrow> node \<Rightarrow> (search, node) action" where
  \<comment> \<open>\<open>_initialise\<close>\<close>
  "initialise M as_root nd =
     bind (get (\<lambda>se. legal_moves (se_scenario se) (nd_position nd) (se_benched se))) (\<lambda>r. bind (lift r) (\<lambda>legal.
     bind (get (\<lambda>se. priors M (se_model se) legal)) (\<lambda>r. bind (lift r) (\<lambda>ps.
     bind (get (\<lambda>se. as_root \<and> legal \<noteq> [] \<and> flt (Fin 0) (se_root_noise_fraction se))) (\<lambda>noisy.
     bind (if noisy then
             bind (get (\<lambda>se. mix_noise M se legal ps)) (\<lambda>r.
             andthen (modify (\<lambda>se. se\<lparr>se_draws := se_draws se + length legal\<rparr>)) (lift r))
           else ret ps) (\<lambda>ps.
     bind (lift (mapR (\<lambda>mv. bindR (lookupR ps (mv_id mv)) (\<lambda>q. Inr ((fneg q, mv_id mv), mv))) legal)) (\<lambda>keyed.
     ret (with_moves (map snd (py_sorted (\<lambda>x y. pair_lt (fst x) (fst y)) keyed)) ps nd))))))))"

definition child_key :: "pymath \<Rightarrow> search \<Rightarrow> node \<Rightarrow> string \<times> node \<Rightarrow> ((pyfloat \<times> string) \<times> string \<times> node) result" where
  \<comment> \<open>the key of one child with the child\<close>
  "child_key M se nd kc =
     (let child = snd kc in
      bindR (int_to_float (max 1 (nd_visits nd))) (\<lambda>pv.
      bindR (sqrtR M pv) (\<lambda>root.
      bindR (int_to_float (1 + nd_visits child)) (\<lambda>n.
      bindR (fdiv (fmul (fmul (se_c_puct se) (nd_prior child)) root) n) (\<lambda>exploration.
      bindR (q_value child) (\<lambda>q.
      Inr ((fadd q exploration, case nd_move child of None \<Rightarrow> [] | Some mv \<Rightarrow> mv_id mv), kc)))))))"

definition select_child :: "pymath \<Rightarrow> search \<Rightarrow> node \<Rightarrow> (string \<times> node) result" where
  \<comment> \<open>\<open>_select_child\<close>: the entry of \<open>node.children\<close> with the greatest key\<close>
  "select_child M se nd =
     bindR (mapR (child_key M se nd) (nd_children nd)) (\<lambda>keyed.
     bindR (py_max (\<lambda>x y. pair_lt (fst y) (fst x)) keyed) (\<lambda>best. Inr (snd best)))"

definition greedy_key :: "pymath \<Rightarrow> search \<Rightarrow> pyfloat dict \<Rightarrow> move \<Rightarrow> ((pyfloat \<times> string) \<times> move) result" where
  "greedy_key M se ps mv =
     bindR (predicted_move_quality M (se_benchmark se) mv) (\<lambda>quality.
     bindR (lookupR ps (mv_id mv)) (\<lambda>q.
     Inr ((fadd (fmul (fl (78 / 100)) quality) (fmul (fl (22 / 100)) q), mv_id mv), mv)))"

definition greedy_choice :: "pymath \<Rightarrow> search \<Rightarrow> move list \<Rightarrow> move result" where
  "greedy_choice M se legal =
     bindR (priors M (se_model se) legal) (\<lambda>ps.
     bindR (mapR (greedy_key M se ps) legal) (\<lambda>keyed.
     bindR (py_max (\<lambda>x y. pair_lt (fst y) (fst x)) keyed) (\<lambda>best. Inr (snd best))))"

lemma apply_move_phase:
  assumes "apply_move E sc p m benched = Inr p'"
  shows "ps_phase p < length (sc_phases sc) \<and> ps_phase p' = Suc (ps_phase p)"
proof -
  from assms obtain ms c where "legal_moves sc p benched = Inr ms"
    "map_of (dict_of (map (\<lambda>c. (mv_id c, c)) ms)) (mv_id m) = Some c" "ps_phase p' = Suc (ps_phase p)"
    by (auto simp: apply_move_def bindR_Inr_iff split: option.splits)
  moreover from this have "ms \<noteq> []" by (auto simp: dict_of_def)
  ultimately show ?thesis
    by (auto simp: legal_moves_def bindR_Inr_iff split: if_splits)
qed

function greedy_completion :: "pymath \<Rightarrow> pyenv \<Rightarrow> search \<Rightarrow> position \<Rightarrow> position result" where
  \<comment> \<open>\<open>_greedy_completion\<close>\<close>
  "greedy_completion M E se p =
     (if is_terminal p then Inr p
      else bindR (legal_moves (se_scenario se) p (se_benched se)) (\<lambda>legal.
           if legal = [] then Inr p
           else bindR (greedy_choice M se legal) (\<lambda>mv.
                bindR (apply_move E (se_scenario se) p mv (se_benched se)) (\<lambda>p'.
                greedy_completion M E se p'))))"
  by pat_completeness auto
termination
  by (relation "measure (\<lambda>(M, E, se, p). length (sc_phases (se_scenario se)) - ps_phase p)")
    (auto dest!: apply_move_phase)

declare greedy_completion.simps [simp del]

definition evaluate_leaf :: "pymath \<Rightarrow> pyenv \<Rightarrow> position \<Rightarrow> (search, pyfloat) action" where
  \<comment> \<open>\<open>_evaluate_leaf\<close>\<close>
  "evaluate_leaf M E p =
     bind (get (\<lambda>se. greedy_completion M E se p)) (\<lambda>r. bind (lift r) (\<lambda>completed.
     if \<not> is_terminal completed then get (\<lambda>se. su_violation_reward (se_benchmark se))
     else bind (score M E completed) (\<lambda>sd.
          bind (get (\<lambda>se. blend_value M (se_model se) p (sd_reward sd))) lift)))"

section \<open>One simulation\<close>

definition ensure_initialised :: "pymath \<Rightarrow> node \<Rightarrow> (search, node) action" where
  "ensure_initialised M nd = (case nd_unexpanded nd of None \<Rightarrow> initialise M False nd | Some _ \<Rightarrow> ret nd)"

definition expand :: "pymath \<Rightarrow> pyenv \<Rightarrow> move \<Rightarrow> move list \<Rightarrow> node \<Rightarrow> (search, pyfloat \<times> node) action" where
  \<comment> \<open>the new child for the first unexpanded move, evaluated as a leaf\<close>
  "expand M E mv rest nd =
     bind (get (\<lambda>se. apply_move E (se_scenario se) (nd_position nd) mv (se_benched se))) (\<lambda>r. bind (lift r) (\<lambda>p.
     bind (lift (lookupR (nd_candidate_priors nd) (mv_id mv))) (\<lambda>prior.
     bind (evaluate_leaf M E p) (\<lambda>v.
     ret (v, visit v (with_child (mv_id mv) (visit v (new_node p (Some mv) prior))
                       (with_moves rest (nd_candidate_priors nd) nd)))))))"

lemma node_simps [simp]:
  "nd_children (with_moves un ps nd) = nd_children nd" "nd_position (with_moves un ps nd) = nd_position nd"
  "nd_move (with_moves un ps nd) = nd_move nd" "nd_visits (with_moves un ps nd) = nd_visits nd"
  "nd_unexpanded (with_moves un ps nd) = Some un" "nd_candidate_priors (with_moves un ps nd) = ps"
  "nd_children (visit v nd) = nd_children nd" "nd_position (visit v nd) = nd_position nd"
  "nd_move (visit v nd) = nd_move nd" "nd_visits (visit v nd) = nd_visits nd + 1"
  "nd_unexpanded (visit v nd) = nd_unexpanded nd" "nd_candidate_priors (visit v nd) = nd_candidate_priors nd"
  "nd_children (with_child k c nd) = dict_set k c (nd_children nd)" "nd_position (with_child k c nd) = nd_position nd"
  "nd_move (with_child k c nd) = nd_move nd" "nd_visits (with_child k c nd) = nd_visits nd"
  "nd_unexpanded (with_child k c nd) = nd_unexpanded nd" "nd_candidate_priors (with_child k c nd) = nd_candidate_priors nd"
  by (cases nd; simp)+

lemma initialise_Inr:
  assumes "initialise M as_root nd se = (Inr nd', se')"
  obtains legal ps un where "legal_moves (se_scenario se) (nd_position nd) (se_benched se) = Inr legal"
    "nd' = with_moves un ps nd" "set un = set legal" "distinct (map mv_id legal) \<longrightarrow> distinct (map mv_id un)"
    "se'\<lparr>se_draws := 0\<rparr> = se\<lparr>se_draws := 0\<rparr>"
proof -
  from assms obtain legal ps keyed se1 where
    l: "legal_moves (se_scenario se) (nd_position nd) (se_benched se) = Inr legal"
    and se: "se'\<lparr>se_draws := 0\<rparr> = se\<lparr>se_draws := 0\<rparr>"
    and k: "mapR (\<lambda>mv. bindR (lookupR ps (mv_id mv)) (\<lambda>q. Inr ((fneg q, mv_id mv), mv))) legal = Inr keyed"
    and nd': "nd' = with_moves (map snd (py_sorted (\<lambda>x y. pair_lt (fst x) (fst y)) keyed)) ps nd"
    by (auto simp: initialise_def bind_Inr_iff andthen_Inr_iff split: if_splits)
  have "list_all2 (\<lambda>mv y. snd y = mv) legal keyed"
    using k unfolding mapR_Inr_iff by (rule list_all2_mono) (auto simp: bindR_Inr_iff)
  then have legal: "legal = map snd keyed"
    by (auto simp: list_all2_conv_all_nth list_eq_iff_nth_eq)
  have "distinct (map mv_id (map snd (py_sorted lt keyed)))" if "distinct (map mv_id legal)" for lt
    using that unfolding legal map_map distinct_map [of "_ \<circ> _"] by simp
  then show thesis by (intro that [OF l nd' _ _ se]) (auto simp: legal)
qed

lemma ensure_children:
  "ensure_initialised M nd se = (Inr nd', se') \<Longrightarrow> nd_children nd' = nd_children nd"
  by (auto simp: ensure_initialised_def split: option.splits elim!: initialise_Inr)

lemma select_child_in:
  assumes "select_child M se nd = Inr kc" shows "kc \<in> set (nd_children nd)"
proof -
  from assms obtain keyed best where k: "mapR (child_key M se nd) (nd_children nd) = Inr keyed"
    and b: "best \<in> set keyed" "kc = snd best"
    by (auto simp: select_child_def bindR_Inr_iff dest: py_max_in)
  have "list_all2 (\<lambda>x y. snd y = x) (nd_children nd) keyed"
    using k unfolding mapR_Inr_iff by (rule list_all2_mono) (auto simp: child_key_def bindR_Inr_iff)
  then have "map snd keyed = nd_children nd" by (auto simp: list_all2_conv_all_nth list_eq_iff_nth_eq)
  with b show ?thesis by (metis image_eqI list.set_map)
qed

lemma child_size: "kc \<in> set (nd_children nd) \<Longrightarrow> size (snd kc) < size nd"
proof (cases nd)
  case (Node p mv pr n w cs un ps)
  assume "kc \<in> set (nd_children nd)"
  with Node have "size_prod (\<lambda>_. 0) size kc < Suc (size_list (size_prod (\<lambda>_. 0) size) cs)"
    by (simp add: size_list_estimation' less_Suc_eq_le)
  with Node show ?thesis by (cases kc) simp
qed

lemma selected_size:
  "ensure_initialised M nd s = (Inr nd1, s') \<Longrightarrow> select_child M se nd1 = Inr kc \<Longrightarrow> size (snd kc) < size nd"
  by (metis child_size ensure_children select_child_in)

lemma bind_cong [fundef_cong]:
  "m = m' \<Longrightarrow> (\<And>x s s'. m' s = (Inr x, s') \<Longrightarrow> f x = g x) \<Longrightarrow> bind m f = bind m' g"
  by (auto simp: bind_def fun_eq_iff split: prod.splits sum.splits)

function simulate :: "pymath \<Rightarrow> pyenv \<Rightarrow> node \<Rightarrow> (search, pyfloat \<times> node) action" where
  \<comment> \<open>the body of the loop of \<open>run\<close>, below a node\<close>
  "simulate M E nd =
     (if is_terminal (nd_position nd) then
        bind (score M E (nd_position nd)) (\<lambda>sd. ret (sd_reward sd, visit (sd_reward sd) nd))
      else bind (ensure_initialised M nd) (\<lambda>nd1.
        case nd_unexpanded nd1 of
          None \<Rightarrow> raise RuntimeError ''search node initialization did not produce moves''
        | Some un \<Rightarrow>
            if un \<noteq> [] then expand M E (hd un) (tl un) nd1
            else if nd_children nd1 = [] then
              bind (get (\<lambda>se. su_violation_reward (se_benchmark se))) (\<lambda>v. ret (v, visit v nd1))
            else
              bind (bind (get (\<lambda>se. select_child M se nd1)) lift) (\<lambda>kc.
              bind (simulate M E (snd kc)) (\<lambda>vc.
              ret (fst vc, visit (fst vc) (with_child (fst kc) (snd vc) nd1))))))"
  by pat_completeness auto
termination
  by (relation "measure (\<lambda>(M, E, nd). size nd)")
    (auto simp: bind_Inr_iff intro: selected_size)

declare simulate.simps [simp del]

section \<open>The run\<close>

primrec simulations :: "pymath \<Rightarrow> pyenv \<Rightarrow> nat \<Rightarrow> node \<Rightarrow> (search, node) action" where
  "simulations M E 0 nd = ret nd"
| "simulations M E (Suc k) nd = bind (simulate M E nd) (\<lambda>vn. simulations M E k (snd vn))"

function terminal_paths :: "node list \<Rightarrow> node \<Rightarrow> node list list" where
  \<comment> \<open>\<open>_terminal_nodes\<close>: each found node as the path to it; the stack takes the last child first\<close>
  "terminal_paths anc nd =
     (if is_terminal (nd_position nd) then [anc @ [nd]] else [])
     @ concat (map (\<lambda>kc. terminal_paths (anc @ [nd]) (snd kc)) (rev (nd_children nd)))"
  by pat_completeness auto
termination
  by (relation "measure (\<lambda>(anc, nd). size nd)") (auto dest: child_size)

declare terminal_paths.simps [simp del]

definition path_to :: "node list \<Rightarrow> move list" where
  \<comment> \<open>\<open>_path_to\<close>: from the node up to the first ancestor without a move\<close>
  "path_to path = rev (map (the \<circ> nd_move) (takeWhile (\<lambda>nd. nd_move nd \<noteq> None) (rev path)))"

primrec feasible_terminals ::
  "pymath \<Rightarrow> pyenv \<Rightarrow> node list list \<Rightarrow> (search, (node list \<times> score_card) list) action" where
  "feasible_terminals M E [] = ret []"
| "feasible_terminals M E (path # paths) =
     bind (score M E (nd_position (last path))) (\<lambda>sd.
     bind (feasible_terminals M E paths) (\<lambda>found.
     ret (if sd_feasible sd then (path, sd) # found else found)))"

definition terminal_lt :: "node list \<times> score_card \<Rightarrow> node list \<times> score_card \<Rightarrow> bool" where
  \<comment> \<open>the order of the keys \<open>(reward, -spent_cost, visits, move ids)\<close>\<close>
  "terminal_lt = (\<lambda>(xs, x) (ys, y).
     let a = last xs; b = last ys; ca = fneg (ps_spent_cost (nd_position a)); cb = fneg (ps_spent_cost (nd_position b))
     in if \<not> feq (sd_reward x) (sd_reward y) then flt (sd_reward x) (sd_reward y)
        else if \<not> feq ca cb then flt ca cb
        else if nd_visits a \<noteq> nd_visits b then nd_visits a < nd_visits b
        else map mv_id (path_to xs) < map mv_id (path_to ys))"

definition visit_target :: "pymath \<Rightarrow> node \<Rightarrow> pyfloat \<Rightarrow> pyfloat dict result" where
  "visit_target M nd temperature =
     (let children = nd_children nd in
      if children = [] then Inr []
      else if fle temperature (fl (1 / 10 ^ 9)) then
        bindR (py_max (\<lambda>x y. nd_visits (snd y) < nd_visits (snd x)) children) (\<lambda>winner.
        Inr (map (\<lambda>(i, c). (i, if i = fst winner then Fin 1 else Fin 0)) children))
      else
        bindR (fdiv (Fin 1) temperature) (\<lambda>exponent.
        bindR (mapR (\<lambda>(i, c). bindR (int_to_float (max (nd_visits c) 1)) (\<lambda>n.
                 bindR (m_pow M n exponent) (\<lambda>w. Inr (i, w)))) children) (\<lambda>powers.
        let total = m_sum M (map snd powers) in
        mapR (\<lambda>(i, w). bindR (fdiv w total) (\<lambda>q. Inr (i, q))) powers)))"

definition node_target :: "pymath \<Rightarrow> pyenv \<Rightarrow> search \<Rightarrow> node \<Rightarrow> policy_target list result" where
  \<comment> \<open>the policy target of one node of the selected path, when it has one\<close>
  "node_target M E se nd =
     bindR (visit_target M nd (Fin 1)) (\<lambda>target.
     if target = [] then Inr []
     else bindR (legal_moves (se_scenario se) (nd_position nd) (se_benched se)) (\<lambda>legal.
          bindR (check_target M \<lparr>pt_position = nd_position nd,
                   pt_candidate_hashes = map (\<lambda>mv. (mv_id mv, content_hash E mv)) legal,
                   pt_target_probabilities = target\<rparr>) (\<lambda>t. Inr [t])))"

definition selection ::
  "pymath \<Rightarrow> pyenv \<Rightarrow> (node list \<times> score_card) list \<Rightarrow>
   (search, node list option \<times> move list \<times> position \<times> score_card \<times> bool) action" where
  \<comment> \<open>the terminal the run selects: the best feasible one, or the system abstention\<close>
  "selection M E found =
     (if found \<noteq> [] then
        bind (lift (py_max (\<lambda>x y. terminal_lt y x) found)) (\<lambda>best.
        let path = fst best; final = nd_position (last path)
        in ret (Some path, path_to path, final, snd best, ps_terminal_status final = Some ABSTAINED))
      else
        bind (get (\<lambda>se. safe_abstain (se_scenario se) SYSTEM_ABSTAIN_TEXT)) (\<lambda>final.
        bind (score M E final) (\<lambda>sd. ret (None, ps_trajectory final, final, sd, True))))"

definition run :: "pymath \<Rightarrow> pyenv \<Rightarrow> int \<Rightarrow> (search, search_result) action" where
  "run M E n =
     andthen (require (0 < n) ValueError ''simulations must be positive'') (
     bind (get (\<lambda>se. new_node (initial_position (se_scenario se)) None (Fin 1))) (\<lambda>start.
     bind (initialise M True start) (\<lambda>start.
     bind (simulations M E (nat n) start) (\<lambda>tree.
     bind (feasible_terminals M E (terminal_paths [] tree)) (\<lambda>found.
     bind (selection M E found) (\<lambda>(path, trajectory, final, sd, abstained).
     bind (get (\<lambda>se. mapR (node_target M E se) (case path of None \<Rightarrow> [] | Some nds \<Rightarrow> butlast nds))) (\<lambda>r.
     bind (lift r) (\<lambda>tss.
     bind (get (\<lambda>se. se)) (\<lambda>se.
     let sc = se_scenario se; manifest = manifest_hash E sc; profile = profile_hash E (se_benchmark se);
         version = model_version E (se_model se); targets = concat tss in
     lift (check_result
       \<lparr>sr_root = tree, sr_terminal_path = path, sr_trajectory = trajectory, sr_final_position = final, sr_score = sd,
        sr_simulations = n, sr_benchmark_evaluations = se_benchmark_evaluations se, sr_scenario_version = sc_version sc,
        sr_scenario_manifest_hash = manifest, sr_benchmark_profile_hash = profile, sr_model_version = version,
        sr_abstained = abstained, sr_policy_targets = targets,
        sr_learning_receipt_hash =
          experience_digest E manifest profile version trajectory final sd targets abstained\<rparr>))))))))))"

end
