(* ===== verification/EngineTree.thy ===== *)
theory EngineTree
  imports EngineSearch
begin

text \<open>
  What a search keeps true: the configuration of the search object, the score cache, and the tree.
  Every node of the tree holds a position reached by legal play, its children are the positions its
  legal moves lead to, and the visits of a node are the simulations that passed through it.
\<close>

section \<open>The search object during a run\<close>

definition same_config :: "search \<Rightarrow> search \<Rightarrow> bool" where
  "same_config se se' \<longleftrightarrow> se_scenario se' = se_scenario se \<and> se_benchmark se' = se_benchmark se \<and>
     se_model se' = se_model se \<and> se_c_puct se' = se_c_puct se \<and>
     se_root_noise_fraction se' = se_root_noise_fraction se \<and> se_gamma se' = se_gamma se"

lemma same_config_refl [simp]: "same_config se se"
  by (simp add: same_config_def)

lemma same_config_trans: "same_config a b \<Longrightarrow> same_config b c \<Longrightarrow> same_config a c"
  by (simp add: same_config_def)

lemma same_config_benched: "same_config se se' \<Longrightarrow> se_benched se' = se_benched se"
  by (simp add: same_config_def se_benched_def)

definition scorable :: "pyenv \<Rightarrow> search \<Rightarrow> position \<Rightarrow> bool" where
  \<comment> \<open>the positions a run asks the benchmark about\<close>
  "scorable E se p \<longleftrightarrow> reached E (se_scenario se) (se_benched se) p \<and> is_terminal p
     \<or> p = safe_abstain (se_scenario se) SYSTEM_ABSTAIN_TEXT"

definition collision_free :: "pyenv \<Rightarrow> search \<Rightarrow> bool" where
  \<comment> \<open>the digest separates the finitely many positions of the scenario\<close>
  "collision_free E se \<longleftrightarrow> inj_on (state_hash E)
     (insert (safe_abstain (se_scenario se) SYSTEM_ABSTAIN_TEXT) {p. reached E (se_scenario se) (se_benched se) p})"

definition cache_ok :: "pymath \<Rightarrow> pyenv \<Rightarrow> search \<Rightarrow> bool" where
  "cache_ok M E se \<longleftrightarrow> (\<forall>h sd. map_of (se_score_cache se) h = Some sd \<longrightarrow>
     (\<exists>p. scorable E se p \<and> h = state_hash E p \<and> evaluate M E (se_benchmark se) p = Inr sd))"

definition search_ok :: "pymath \<Rightarrow> pyenv \<Rightarrow> search \<Rightarrow> bool" where
  "search_ok M E se \<longleftrightarrow> scenario_ok (se_scenario se) \<and> suite_ok (se_benchmark se) \<and> collision_free E se \<and> cache_ok M E se"

definition continues :: "pymath \<Rightarrow> pyenv \<Rightarrow> search \<Rightarrow> search \<Rightarrow> bool" where
  "continues M E se se' \<longleftrightarrow> same_config se se' \<and> search_ok M E se'"

lemma scorable_cong: "same_config se se' \<Longrightarrow> scorable E se' p = scorable E se p"
  by (simp add: scorable_def same_config_def se_benched_def)

lemma continues_refl: "search_ok M E se \<Longrightarrow> continues M E se se"
  by (simp add: continues_def)

lemma continues_trans: "continues M E a b \<Longrightarrow> continues M E b c \<Longrightarrow> continues M E a c"
  by (auto simp: continues_def intro: same_config_trans)

lemma continues_draws:
  assumes "search_ok M E se" "se'\<lparr>se_draws := 0\<rparr> = se\<lparr>se_draws := 0\<rparr>"
  shows "continues M E se se'"
proof -
  have "f (se'\<lparr>se_draws := 0\<rparr>) = f (se\<lparr>se_draws := 0\<rparr>)" for f :: "search \<Rightarrow> 'c" using assms(2) by simp
  from this [of se_scenario] this [of se_benchmark] this [of se_model] this [of se_c_puct]
    this [of se_root_noise_fraction] this [of se_gamma] this [of se_score_cache]
  have c: "same_config se se'" "se_score_cache se' = se_score_cache se" by (simp_all add: same_config_def)
  then have "search_ok M E se'" using assms(1) scorable_cong [OF c(1)]
    by (simp add: search_ok_def cache_ok_def collision_free_def same_config_def se_benched_def)
  with c show ?thesis by (simp add: continues_def)
qed

lemma score_Inr:
  assumes ok: "search_ok M E se" and p: "scorable E se p" and run: "score M E p se = (Inr sd, se')"
  shows "evaluate M E (se_benchmark se) p = Inr sd \<and> continues M E se se'"
proof (cases "map_of (se_score_cache se) (state_hash E p)")
  case None
  with run have ev: "evaluate M E (se_benchmark se) p = Inr sd"
    and se': "se' = se\<lparr>se_score_cache := dict_set (state_hash E p) sd (se_score_cache se),
      se_benchmark_evaluations := se_benchmark_evaluations se + 1\<rparr>"
    by (auto simp: score_def split: sum.splits)
  from se' have c: "same_config se se'" by (simp add: same_config_def)
  have "cache_ok M E se'"
    unfolding cache_ok_def scorable_cong [OF c]
    using ok p ev by (auto simp: se' search_ok_def cache_ok_def)
  with ok c scorable_cong [OF c] have "search_ok M E se'"
    by (simp add: search_ok_def collision_free_def same_config_def se_benched_def)
  with ev c show ?thesis by (simp add: continues_def)
next
  case (Some sd')
  with run have e: "sd' = sd" "se' = se" by (auto simp: score_def)
  from ok Some obtain q where q: "scorable E se q" "state_hash E p = state_hash E q"
    "evaluate M E (se_benchmark se) q = Inr sd'" by (auto simp: search_ok_def cache_ok_def)
  with p ok have "q = p" by (auto simp: search_ok_def collision_free_def inj_on_def scorable_def)
  with q e ok show ?thesis by (simp add: continues_refl)
qed

section \<open>Greedy completion\<close>

lemma greedy_choice_in:
  assumes "greedy_choice M se legal = Inr mv" shows "mv \<in> set legal"
proof -
  from assms obtain ps keyed best where k: "mapR (greedy_key M se ps) legal = Inr keyed"
    and b: "best \<in> set keyed" "mv = snd best"
    by (auto simp: greedy_choice_def bindR_Inr_iff dest: py_max_in)
  have "list_all2 (\<lambda>x y. snd y = x) legal keyed"
    using k unfolding mapR_Inr_iff by (rule list_all2_mono) (auto simp: greedy_key_def bindR_Inr_iff)
  then have "map snd keyed = legal" by (auto simp: list_all2_conv_all_nth list_eq_iff_nth_eq)
  with b show ?thesis by (metis image_eqI list.set_map)
qed

lemma greedy_completion_reached:
  assumes "greedy_completion M E se p = Inr q" "reached E (se_scenario se) (se_benched se) p"
  shows "reached E (se_scenario se) (se_benched se) q \<and>
    (is_terminal q \<or> legal_moves (se_scenario se) q (se_benched se) = Inr [])"
  using assms
proof (induction M E se p rule: greedy_completion.induct)
  case (1 M E se p)
  show ?case
  proof (cases "is_terminal p")
    case True
    with 1 show ?thesis by (simp add: greedy_completion.simps)
  next
    case False
    with "1.prems"(1) obtain legal where legal: "legal_moves (se_scenario se) p (se_benched se) = Inr legal"
      by (subst (asm) greedy_completion.simps) (auto simp: bindR_Inr_iff)
    show ?thesis
    proof (cases "legal = []")
      case True
      with "1.prems" False legal show ?thesis by (subst (asm) greedy_completion.simps) simp
    next
      case ne: False
      with "1.prems"(1) False legal obtain mv p' where mv: "greedy_choice M se legal = Inr mv"
        and p': "apply_move E (se_scenario se) p mv (se_benched se) = Inr p'"
        and rest: "greedy_completion M E se p' = Inr q"
        by (subst (asm) greedy_completion.simps) (auto simp: bindR_Inr_iff)
      from "1.IH" [OF False legal ne mv p' rest] reached.step [OF "1.prems"(2) p'] show ?thesis by blast
    qed
  qed
qed

lemma evaluate_leaf_Inr:
  assumes ok: "search_ok M E se" and p: "reached E (se_scenario se) (se_benched se) p"
    and run: "evaluate_leaf M E p se = (Inr v, se')"
  shows "continues M E se se'"
proof -
  from run obtain q where q: "greedy_completion M E se p = Inr q"
    and rest: "\<not> is_terminal q \<and> se' = se \<or> is_terminal q \<and> (\<exists>sd. score M E q se = (Inr sd, se'))"
    by (auto simp: evaluate_leaf_def bind_Inr_iff split: if_splits)
  from greedy_completion_reached [OF q p] have "is_terminal q \<Longrightarrow> scorable E se q" by (simp add: scorable_def)
  with rest score_Inr [OF ok] continues_refl [OF ok] show ?thesis by blast
qed

section \<open>The tree\<close>

definition edge_ok :: "pyenv \<Rightarrow> scenario \<Rightarrow> string list \<Rightarrow> node \<Rightarrow> string \<times> node \<Rightarrow> bool" where
  "edge_ok E sc benched nd kc \<longleftrightarrow> (\<exists>mv qs. nd_move (snd kc) = Some mv \<and> mv_id mv = fst kc \<and>
     nd_position (snd kc) = play (nd_position nd) mv qs \<and>
     apply_move E sc (nd_position nd) mv benched = Inr (nd_position (snd kc)))"

definition moves_ok :: "scenario \<Rightarrow> string list \<Rightarrow> node \<Rightarrow> bool" where
  "moves_ok sc benched nd \<longleftrightarrow> (case nd_unexpanded nd of None \<Rightarrow> nd_children nd = []
     | Some un \<Rightarrow> \<exists>legal. legal_moves sc (nd_position nd) benched = Inr legal \<and> set un \<subseteq> set legal \<and> 
         mv_id ` set un \<union> fst ` set (nd_children nd) = mv_id ` set legal \<and>
         distinct (map mv_id un) \<and> mv_id ` set un \<inter> fst ` set (nd_children nd) = {})"

inductive tree_ok :: "pyenv \<Rightarrow> scenario \<Rightarrow> string list \<Rightarrow> node \<Rightarrow> bool" for E sc benched where
  tree: "reached E sc benched (nd_position nd) \<Longrightarrow> moves_ok sc benched nd \<Longrightarrow> distinct (map fst (nd_children nd)) \<Longrightarrow>
    \<forall>kc \<in> set (nd_children nd). edge_ok E sc benched nd kc \<and> tree_ok E sc benched (snd kc) \<Longrightarrow>
    tree_ok E sc benched nd"

inductive_simps tree_ok_iff: "tree_ok E sc benched nd"

lemma moves_ok_visit [simp]: "moves_ok sc benched (visit v nd) = moves_ok sc benched nd"
  by (simp add: moves_ok_def split: option.split)

lemma edge_ok_simps [simp]:
  "edge_ok E sc benched (visit v nd) kc = edge_ok E sc benched nd kc"
  "edge_ok E sc benched (with_moves un ps nd) kc = edge_ok E sc benched nd kc"
  "edge_ok E sc benched (with_child k c nd) kc = edge_ok E sc benched nd kc"
  by (simp_all add: edge_ok_def)

lemma tree_ok_visit [simp]: "tree_ok E sc benched (visit v nd) = tree_ok E sc benched nd"
  by (simp add: tree_ok_iff [of _ _ _ "visit v nd"] tree_ok_iff [of _ _ _ nd])

lemma new_node_simps [simp]:
  "nd_position (new_node p mv prior) = p" "nd_move (new_node p mv prior) = mv"
  "nd_children (new_node p mv prior) = []" "nd_unexpanded (new_node p mv prior) = None" "nd_visits (new_node p mv prior) = 0"
  by (simp_all add: new_node_def)

lemma tree_ok_new: "reached E sc benched p \<Longrightarrow> tree_ok E sc benched (new_node p mv prior)"
  by (rule tree) (simp_all add: moves_ok_def)

lemma tree_ok_with_moves:
  assumes "tree_ok E sc benched nd" "moves_ok sc benched (with_moves un ps nd)"
  shows "tree_ok E sc benched (with_moves un ps nd)"
  using assms by (simp add: tree_ok_iff [of _ _ _ "with_moves un ps nd"] tree_ok_iff [of _ _ _ nd])

lemma dict_set_members:
  "distinct (map fst d) \<Longrightarrow> kv \<in> set (dict_set k v d) \<longleftrightarrow> kv = (k, v) \<or> kv \<in> set d \<and> fst kv \<noteq> k"
  by (induction k v d rule: dict_set.induct) (auto simp: image_iff)

lemma tree_ok_with_child:
  assumes nd0: "tree_ok E sc benched nd0" "nd_children nd0 = nd_children nd" "nd_position nd0 = nd_position nd"
    and c: "tree_ok E sc benched c" "edge_ok E sc benched nd (k, c)"
    and mv: "moves_ok sc benched (with_child k c nd)"
  shows "tree_ok E sc benched (with_child k c nd)"
proof (rule tree)
  from nd0 have d: "distinct (map fst (nd_children nd))"
    and cs: "\<forall>kc \<in> set (nd_children nd). edge_ok E sc benched nd kc \<and> tree_ok E sc benched (snd kc)"
    and r: "reached E sc benched (nd_position nd)" by (simp_all add: tree_ok_iff [of _ _ _ nd0] edge_ok_def)
  from r show "reached E sc benched (nd_position (with_child k c nd))" by simp
  show "moves_ok sc benched (with_child k c nd)" by (rule mv)
  show "distinct (map fst (nd_children (with_child k c nd)))" using distinct_dict_set [OF d] by simp
  show "\<forall>kc \<in> set (nd_children (with_child k c nd)).
      edge_ok E sc benched (with_child k c nd) kc \<and> tree_ok E sc benched (snd kc)"
  proof
    fix kc assume "kc \<in> set (nd_children (with_child k c nd))"
    then have "kc = (k, c) \<or> kc \<in> set (nd_children nd)" using dict_set_members [OF d] by auto
    with cs c show "edge_ok E sc benched (with_child k c nd) kc \<and> tree_ok E sc benched (snd kc)" by auto
  qed
qed

section \<open>A simulation\<close>

definition child_visits :: "node \<Rightarrow> int" where
  "child_visits nd = sum_list (map (nd_visits \<circ> snd) (nd_children nd))"

lemma child_visits_simps [simp]:
  "child_visits (visit v nd) = child_visits nd" "child_visits (with_moves un ps nd) = child_visits nd"
  by (simp_all add: child_visits_def)

lemma child_visits_new:
  "k \<notin> fst ` set (nd_children nd) \<Longrightarrow> child_visits (with_child k c nd) = child_visits nd + nd_visits c"
  by (simp add: child_visits_def dict_set_new_key)

lemma child_visits_update:
  assumes "distinct (map fst (nd_children nd))" "(k, c) \<in> set (nd_children nd)"
  shows "child_visits (with_child k c' nd) = child_visits nd + nd_visits c' - nd_visits c"
proof -
  have "sum_list (map (nd_visits \<circ> snd) (dict_set k c' d)) = sum_list (map (nd_visits \<circ> snd) d) + nd_visits c' - nd_visits c"
    if "distinct (map fst d)" "(k, c) \<in> set d" for d
    using that by (induction k c' d rule: dict_set.induct) (auto simp: image_iff)
  from this [OF assms] show ?thesis by (simp add: child_visits_def)
qed

lemma simulate_Inr:
  assumes "simulate M E nd se = (Inr (v, nd'), se')"
  obtains
    (terminal) sd where "is_terminal (nd_position nd)" "score M E (nd_position nd) se = (Inr sd, se')" "nd' = visit v nd"
  | (expanded) nd1 se1 mv un where "\<not> is_terminal (nd_position nd)" "ensure_initialised M nd se = (Inr nd1, se1)"
      "nd_unexpanded nd1 = Some (mv # un)" "expand M E mv un nd1 se1 = (Inr (v, nd'), se')"
  | (stuck) nd1 where "\<not> is_terminal (nd_position nd)" "ensure_initialised M nd se = (Inr nd1, se')"
      "nd_unexpanded nd1 = Some []" "nd_children nd1 = []" "nd' = visit v nd1"
  | (descended) nd1 se1 k c c' where "\<not> is_terminal (nd_position nd)" "ensure_initialised M nd se = (Inr nd1, se1)"
      "nd_unexpanded nd1 = Some []" "select_child M se1 nd1 = Inr (k, c)"
      "simulate M E c se1 = (Inr (v, c'), se')" "nd' = visit v (with_child k c' nd1)"
proof (cases "is_terminal (nd_position nd)")
  case True
  with assms show thesis by (subst (asm) simulate.simps) (auto simp: bind_Inr_iff intro: terminal)
next
  case False
  with assms obtain nd1 se1 where i: "ensure_initialised M nd se = (Inr nd1, se1)"
    and rest: "(case nd_unexpanded nd1 of
          None \<Rightarrow> raise RuntimeError ''search node initialization did not produce moves''
        | Some un \<Rightarrow>
            if un \<noteq> [] then expand M E (hd un) (tl un) nd1
            else if nd_children nd1 = [] then
              bind (get (\<lambda>se. su_violation_reward (se_benchmark se))) (\<lambda>v. ret (v, visit v nd1))
            else
              bind (bind (get (\<lambda>se. select_child M se nd1)) lift) (\<lambda>kc.
              bind (simulate M E (snd kc)) (\<lambda>vc.
              ret (fst vc, visit (fst vc) (with_child (fst kc) (snd vc) nd1))))) se1 = (Inr (v, nd'), se')"
    by (subst (asm) simulate.simps) (auto simp: bind_Inr_iff)
  show thesis
  proof (cases "nd_unexpanded nd1")
    case None
    with rest show thesis by simp
  next
    case (Some un)
    show thesis
    proof (cases un)
      case Nil
      with Some rest i False show thesis
        by (cases "nd_children nd1 = []") (auto simp: bind_Inr_iff intro: stuck descended)
    next
      case (Cons mv un')
      with Some rest i False show thesis by (auto intro: expanded)
    qed
  qed
qed

lemma initialise_ok:
  assumes ok: "search_ok M E se" and nd: "tree_ok E (se_scenario se) (se_benched se) nd" "nd_unexpanded nd = None"
    and run: "initialise M as_root nd se = (Inr nd1, se1)"
  shows "continues M E se se1 \<and> tree_ok E (se_scenario se) (se_benched se) nd1 \<and> nd_position nd1 = nd_position nd \<and>
    nd_move nd1 = nd_move nd \<and> nd_visits nd1 = nd_visits nd \<and> nd_children nd1 = nd_children nd"
proof -
  from run obtain legal ps un where i: "legal_moves (se_scenario se) (nd_position nd) (se_benched se) = Inr legal"
    "nd1 = with_moves un ps nd" "set un = set legal" "distinct (map mv_id legal) \<longrightarrow> distinct (map mv_id un)"
    "se1\<lparr>se_draws := 0\<rparr> = se\<lparr>se_draws := 0\<rparr>" by (rule initialise_Inr)
  have "scenario_ok (se_scenario se)" using ok by (simp add: search_ok_def)
  from i(4) [rule_format, OF legal_moves_distinct [OF this i(1)]]
  have "moves_ok (se_scenario se) (se_benched se) (with_moves un ps nd)"
    using nd i(1,3) by (simp add: tree_ok_iff [of _ _ _ nd] moves_ok_def)
  from tree_ok_with_moves [OF nd(1) this] continues_draws [OF ok i(5)] i(2) show ?thesis by simp
qed

lemma ensure_ok:
  assumes "search_ok M E se" "tree_ok E (se_scenario se) (se_benched se) nd"
    and "ensure_initialised M nd se = (Inr nd1, se1)"
  shows "continues M E se se1 \<and> tree_ok E (se_scenario se) (se_benched se) nd1 \<and> nd_position nd1 = nd_position nd \<and>
    nd_move nd1 = nd_move nd \<and> nd_visits nd1 = nd_visits nd \<and> nd_children nd1 = nd_children nd"
  using assms initialise_ok [OF assms(1,2)] continues_refl [OF assms(1)]
  by (simp add: ensure_initialised_def split: option.splits)

lemma expand_ok:
  assumes ok: "search_ok M E se" and nd: "tree_ok E (se_scenario se) (se_benched se) nd"
    and un: "nd_unexpanded nd = Some (mv # un)" and run: "expand M E mv un nd se = (Inr (v, nd'), se')"
  shows "continues M E se se' \<and> tree_ok E (se_scenario se) (se_benched se) nd' \<and> nd_position nd' = nd_position nd \<and>
    nd_move nd' = nd_move nd \<and> nd_visits nd' = nd_visits nd + 1 \<and> child_visits nd' = child_visits nd + 1"
proof -
  let ?sc = "se_scenario se" and ?b = "se_benched se"
  from run obtain p prior where p: "apply_move E ?sc (nd_position nd) mv ?b = Inr p"
    and leaf: "evaluate_leaf M E p se = (Inr v, se')"
    and nd': "nd' = visit v (with_child (mv_id mv) (visit v (new_node p (Some mv) prior))
      (with_moves un (nd_candidate_priors nd) nd))"
    by (auto simp: expand_def bind_Inr_iff)
  let ?c = "visit v (new_node p (Some mv) prior)" and ?nd1 = "with_moves un (nd_candidate_priors nd) nd"
  from nd have r: "reached E ?sc ?b (nd_position nd)" and mo: "moves_ok ?sc ?b nd"
    by (simp_all add: tree_ok_iff [of _ _ _ nd])
  note rp = reached.step [OF r p]
  from mo un obtain legal where l: "legal_moves ?sc (nd_position nd) ?b = Inr legal" "mv \<in> set legal" "set un \<subseteq> set legal"
    and ids: "insert (mv_id mv) (mv_id ` set un) \<union> fst ` set (nd_children nd) = mv_id ` set legal"
    and new: "mv_id mv \<notin> fst ` set (nd_children nd)" "mv_id mv \<notin> mv_id ` set un" "distinct (map mv_id un)"
      "mv_id ` set un \<inter> fst ` set (nd_children nd) = {}"
    by (auto simp: moves_ok_def)
  from ok have "scenario_ok ?sc" by (simp add: search_ok_def)
  with p apply_move_legal [OF this l(1,2)] have "\<exists>qs. p = play (nd_position nd) mv qs"
    by (auto simp: bindR_Inr_iff)
  with p have edge: "edge_ok E ?sc ?b ?nd1 (mv_id mv, ?c)" by (auto simp: edge_ok_def)
  have keys: "fst ` set (dict_set (mv_id mv) c (nd_children nd)) = insert (mv_id mv) (fst ` set (nd_children nd))" for c
    by (rule keys_dict_set)
  have "moves_ok ?sc ?b (with_child (mv_id mv) ?c ?nd1)"
    using l ids new by (auto simp: moves_ok_def keys)
  with nd edge tree_ok_new [OF rp] have "tree_ok E ?sc ?b (with_child (mv_id mv) ?c ?nd1)"
    by (intro tree_ok_with_child [of _ _ _ nd]) simp_all
  then have "tree_ok E ?sc ?b nd'" by (simp add: nd')
  moreover have "child_visits nd' = child_visits nd + 1"
    using new(1) by (simp add: nd' child_visits_new)
  ultimately show ?thesis using evaluate_leaf_Inr [OF ok rp leaf] by (simp add: nd')
qed

lemma child_ok:
  assumes "tree_ok E sc benched nd" "(k, c) \<in> set (nd_children nd)"
  shows "tree_ok E sc benched c" "edge_ok E sc benched nd (k, c)"
  using assms by (auto simp: tree_ok_iff [of _ _ _ nd])

lemma moves_ok_replace:
  assumes "moves_ok sc benched nd" "k \<in> fst ` set (nd_children nd)"
  shows "moves_ok sc benched (with_child k c nd)"
proof -
  have "fst ` set (dict_set k c (nd_children nd)) = fst ` set (nd_children nd)"
    using assms(2) by (auto simp: keys_dict_set)
  with assms show ?thesis by (auto simp: moves_ok_def split: option.splits)
qed

text \<open>Whether a simulation through a node goes on to a child.\<close>

definition goes_on :: "scenario \<Rightarrow> string list \<Rightarrow> node \<Rightarrow> bool" where
  "goes_on sc benched nd \<longleftrightarrow> \<not> is_terminal (nd_position nd) \<and> legal_moves sc (nd_position nd) benched \<noteq> Inr []"

lemma stuck_iff:
  assumes "tree_ok E sc benched nd" "nd_unexpanded nd = Some []"
  shows "nd_children nd = [] \<longleftrightarrow> legal_moves sc (nd_position nd) benched = Inr []"
  using assms by (auto simp: tree_ok_iff [of _ _ _ nd] moves_ok_def)

lemma simulate_ok:
  assumes "search_ok M E se" "tree_ok E (se_scenario se) (se_benched se) nd"
    and "simulate M E nd se = (Inr (v, nd'), se')"
  shows "continues M E se se' \<and> tree_ok E (se_scenario se) (se_benched se) nd' \<and> nd_position nd' = nd_position nd \<and>
    nd_move nd' = nd_move nd \<and> nd_visits nd' = nd_visits nd + 1 \<and>
    child_visits nd' = child_visits nd + (if goes_on (se_scenario se) (se_benched se) nd then 1 else 0)"
  using assms
proof (induction "size nd" arbitrary: nd se v nd' se' rule: less_induct)
  case less
  note ok = less.prems(1) and nd = less.prems(2)
  from less.prems(3) show ?case
  proof (cases rule: simulate_Inr)
    case (terminal sd)
    from nd terminal(1) have "scorable E se (nd_position nd)"
      by (simp add: scorable_def tree_ok_iff [of _ _ _ nd])
    from score_Inr [OF ok this terminal(2)] terminal nd show ?thesis by (simp add: goes_on_def)
  next
    case (expanded nd1 se1 mv un)
    note i = ensure_ok [OF ok nd expanded(2)]
    then have c: "se_scenario se1 = se_scenario se" "se_benched se1 = se_benched se" and ok1: "search_ok M E se1"
      by (auto simp: continues_def same_config_def se_benched_def)
    from i c have nd1: "tree_ok E (se_scenario se1) (se_benched se1) nd1" by simp
    from nd1 expanded(3) have "legal_moves (se_scenario se) (nd_position nd) (se_benched se) \<noteq> Inr []"
      using i c by (auto simp: tree_ok_iff [of _ _ _ nd1] moves_ok_def)
    with expanded(1) have "goes_on (se_scenario se) (se_benched se) nd" by (simp add: goes_on_def)
    moreover have "child_visits nd1 = child_visits nd" using i by (simp add: child_visits_def)
    ultimately show ?thesis
      using expand_ok [OF ok1 nd1 expanded(3,4)] i c continues_trans by simp blast
  next
    case (stuck nd1)
    note i = ensure_ok [OF ok nd stuck(2)]
    with stuck_iff [of E "se_scenario se" "se_benched se" nd1] stuck(3,4)
    have "\<not> goes_on (se_scenario se) (se_benched se) nd" by (simp add: goes_on_def)
    with i stuck(5) show ?thesis by (simp add: child_visits_def)
  next
    case (descended nd1 se1 k c c')
    note i = ensure_ok [OF ok nd descended(2)]
    then have cfg: "se_scenario se1 = se_scenario se" "se_benched se1 = se_benched se" and ok1: "search_ok M E se1"
      by (auto simp: continues_def same_config_def se_benched_def)
    from i have nd1: "tree_ok E (se_scenario se) (se_benched se) nd1" by simp
    from select_child_in [OF descended(4)] have kc: "(k, c) \<in> set (nd_children nd1)" .
    note ch = child_ok [OF nd1 kc]
    have "size c < size nd" using child_size [of "(k, c)" nd] kc i by simp
    from less.hyps [OF this ok1 _ descended(5)] ch(1) cfg
    have c': "continues M E se1 se'" "tree_ok E (se_scenario se) (se_benched se) c'" "nd_position c' = nd_position c"
      "nd_move c' = nd_move c" "nd_visits c' = nd_visits c + 1" by simp_all
    have "edge_ok E (se_scenario se) (se_benched se) nd1 (k, c')"
      using ch(2) c' by (simp add: edge_ok_def)
    moreover have d1: "distinct (map fst (nd_children nd1))" and "moves_ok (se_scenario se) (se_benched se) nd1"
      using nd1 by (simp_all add: tree_ok_iff [of _ _ _ nd1])
    moreover from this(2) kc have "moves_ok (se_scenario se) (se_benched se) (with_child k c' nd1)"
      by (intro moves_ok_replace) force+
    ultimately have t: "tree_ok E (se_scenario se) (se_benched se) nd'"
      using tree_ok_with_child [OF nd1 refl refl c'(2)] descended(6) by simp
    have "goes_on (se_scenario se) (se_benched se) nd"
      using stuck_iff [OF nd1 descended(3)] kc descended(1) i by (auto simp: goes_on_def)
    moreover have "child_visits nd' = child_visits nd + 1"
      using child_visits_update [OF d1 kc] c'(5) i by (simp add: descended(6)) (simp add: child_visits_def)
    ultimately show ?thesis
      using t i c'(1) continues_trans by (simp add: descended(6)) blast
  qed
qed

lemma simulations_ok:
  assumes "search_ok M E se" "tree_ok E (se_scenario se) (se_benched se) nd"
    and "simulations M E k nd se = (Inr nd', se')"
  shows "continues M E se se' \<and> tree_ok E (se_scenario se) (se_benched se) nd' \<and> nd_position nd' = nd_position nd \<and>
    nd_move nd' = nd_move nd \<and> nd_visits nd' = nd_visits nd + int k \<and>
    child_visits nd' = child_visits nd + (if goes_on (se_scenario se) (se_benched se) nd then int k else 0)"
  using assms
proof (induction k arbitrary: nd se)
  case 0
  then show ?case by (simp add: continues_refl)
next
  case (Suc k)
  from Suc.prems(3) obtain v nd1 se1 where one: "simulate M E nd se = (Inr (v, nd1), se1)"
    and rest: "simulations M E k nd1 se1 = (Inr nd', se')"
    by (auto simp: bind_Inr_iff)
  note s = simulate_ok [OF Suc.prems(1,2) one]
  then have cfg: "se_scenario se1 = se_scenario se" "se_benched se1 = se_benched se" and ok1: "search_ok M E se1"
    by (auto simp: continues_def same_config_def se_benched_def)
  have "goes_on (se_scenario se) (se_benched se) nd1 = goes_on (se_scenario se) (se_benched se) nd"
    using s by (simp add: goes_on_def)
  with Suc.IH [OF ok1 _ rest] s cfg continues_trans show ?case by auto
qed

section \<open>Paths to terminals\<close>

primrec replay ::
  "pyenv \<Rightarrow> scenario \<Rightarrow> string list \<Rightarrow> move list \<Rightarrow> position \<Rightarrow> (position list \<times> position) result" where
  \<comment> \<open>the states a trajectory passes and the one it ends in, as \<open>learn_from_result\<close> replays it\<close>
  "replay E sc benched [] p = Inr ([], p)"
| "replay E sc benched (m # ms) p =
     bindR (apply_move E sc p m benched) (\<lambda>p'.
     bindR (replay E sc benched ms p') (\<lambda>(states, final). Inr (p # states, final)))"

lemma replay_snoc:
  assumes "replay E sc benched ms p = Inr (states, q)" "apply_move E sc q m benched = Inr q'"
  shows "replay E sc benched (ms @ [m]) p = Inr (states @ [q], q')"
  using assms by (induction ms arbitrary: p states) (auto simp: bindR_Inr_iff)

definition path_inv :: "pyenv \<Rightarrow> scenario \<Rightarrow> string list \<Rightarrow> node list \<Rightarrow> bool" where
  "path_inv E sc benched path \<longleftrightarrow> path \<noteq> [] \<and> (\<forall>nd \<in> set path. tree_ok E sc benched nd) \<and>
     nd_move (hd path) = None \<and> (\<forall>nd \<in> set (tl path). nd_move nd \<noteq> None) \<and>
     ps_trajectory (nd_position (last path)) = map (the \<circ> nd_move) (tl path) \<and>
     replay E sc benched (map (the \<circ> nd_move) (tl path)) (initial_position sc)
       = Inr (map nd_position (butlast path), nd_position (last path))"

lemma path_inv_reached:
  assumes "path_inv E sc benched path" shows "reached E sc benched (nd_position (last path))"
proof -
  have "tree_ok E sc benched (last path)" using assms by (simp add: path_inv_def)
  then show ?thesis by (rule tree_ok.cases) simp
qed

lemma path_inv_snoc:
  assumes "path_inv E sc benched (anc @ [nd])" "(k, c) \<in> set (nd_children nd)"
  shows "path_inv E sc benched ((anc @ [nd]) @ [c])"
proof -
  have nd: "tree_ok E sc benched nd" using assms(1) by (simp add: path_inv_def)
  from child_ok [OF this assms(2)] obtain mv qs where c: "tree_ok E sc benched c" "nd_move c = Some mv"
    "nd_position c = play (nd_position nd) mv qs" "apply_move E sc (nd_position nd) mv benched = Inr (nd_position c)"
    by (auto simp: edge_ok_def)
  have "replay E sc benched (map (the \<circ> nd_move) (tl (anc @ [nd])) @ [mv]) (initial_position sc)
      = Inr (map nd_position (butlast (anc @ [nd])) @ [nd_position nd], nd_position c)"
    using assms(1) c(4) by (intro replay_snoc) (simp_all add: path_inv_def)
  with assms(1) c show ?thesis by (cases anc) (auto simp: path_inv_def butlast_append)
qed

lemma path_to_eq:
  assumes "path_inv E sc benched path" shows "path_to path = ps_trajectory (nd_position (last path))"
proof -
  from assms obtain r nds where p: "path = r # nds" by (cases path) (auto simp: path_inv_def)
  with assms have "nd_move r = None" "\<forall>nd \<in> set (rev nds). nd_move nd \<noteq> None" by (auto simp: path_inv_def)
  then have "takeWhile (\<lambda>nd. nd_move nd \<noteq> None) (rev nds @ [r]) = rev nds"
    by (subst takeWhile_append2) auto
  with assms p show ?thesis by (simp add: path_to_def path_inv_def rev_map)
qed

lemma terminal_paths_ok:
  assumes "path_inv E sc benched (anc @ [nd])" "path \<in> set (terminal_paths anc nd)"
  shows "path_inv E sc benched path \<and> is_terminal (nd_position (last path)) \<and> (anc \<noteq> [] \<longrightarrow> hd path = hd anc) \<and>
    (anc = [] \<longrightarrow> hd path = nd)"
  using assms
proof (induction anc nd rule: terminal_paths.induct)
  case (1 anc nd)
  from "1.prems"(2) consider "is_terminal (nd_position nd)" "path = anc @ [nd]"
    | k c where "(k, c) \<in> set (nd_children nd)" "path \<in> set (terminal_paths (anc @ [nd]) c)"
    by (subst (asm) terminal_paths.simps) (auto split: if_splits)
  then show ?case
  proof cases
    case 1
    with "1.prems"(1) show ?thesis by simp
  next
    case (2 k c)
    from "1.IH" [of "(k, c)"] 2 path_inv_snoc [OF "1.prems"(1) 2(1)] show ?thesis
      by (cases anc) simp_all
  qed
qed

lemma feasible_terminals_ok:
  assumes "search_ok M E se" "\<forall>path \<in> set paths. scorable E se (nd_position (last path))"
    and "feasible_terminals M E paths se = (Inr found, se')"
  shows "continues M E se se' \<and> (\<forall>path sd. (path, sd) \<in> set found \<longleftrightarrow>
    path \<in> set paths \<and> evaluate M E (se_benchmark se) (nd_position (last path)) = Inr sd \<and> sd_feasible sd)"
  using assms
proof (induction paths arbitrary: se found)
  case Nil
  then show ?case by (simp add: continues_refl)
next
  case (Cons path paths)
  from Cons.prems(3) obtain sd se1 found' where one: "score M E (nd_position (last path)) se = (Inr sd, se1)"
    and rest: "feasible_terminals M E paths se1 = (Inr found', se')"
    and found: "found = (if sd_feasible sd then (path, sd) # found' else found')"
    by (auto simp: bind_Inr_iff)
  from score_Inr [OF Cons.prems(1) _ one] Cons.prems(2)
  have s: "evaluate M E (se_benchmark se) (nd_position (last path)) = Inr sd" "continues M E se se1" by auto
  then have c: "same_config se se1" "search_ok M E se1" by (auto simp: continues_def)
  from Cons.IH [OF c(2) _ rest] Cons.prems(2) scorable_cong [OF c(1)]
  have IH: "continues M E se1 se'" "\<forall>path sd. (path, sd) \<in> set found' \<longleftrightarrow>
    path \<in> set paths \<and> evaluate M E (se_benchmark se1) (nd_position (last path)) = Inr sd \<and> sd_feasible sd" by auto
  have "se_benchmark se1 = se_benchmark se" using c(1) by (simp add: same_config_def)
  with IH s found continues_trans show ?case by (auto split: if_splits)
qed

section \<open>The result of a run\<close>

lemma new_search_Inr:
  assumes "new_search E sc s m c gamma noise = Inr se"
  shows "se_scenario se = sc" "se_benchmark se = s" "se_model se = m" "model_ok m" "se_score_cache se = []"
    "se_benchmark_evaluations se = 0" "length (su_phase_importance s) = length (sc_phases sc)"
    "su_scenario_manifest_hash s = manifest_hash E sc"
  using assms by (auto simp: new_search_def bindR_Inr_iff frozen_copy_iff)

lemma new_search_ok:
  assumes "new_search E sc s m c gamma noise = Inr se" "scenario_ok sc" "suite_ok s" "collision_free E se"
  shows "search_ok M E se"
  using new_search_Inr [OF assms(1)] assms(2-4) by (simp add: search_ok_def cache_ok_def)

definition selected_ok ::
  "pymath \<Rightarrow> pyenv \<Rightarrow> search \<Rightarrow> node \<Rightarrow> node list option \<Rightarrow> move list \<Rightarrow> position \<Rightarrow> score_card \<Rightarrow> bool \<Rightarrow> bool" where
  \<comment> \<open>what \<open>run\<close> selects from the tree it has grown\<close>
  "selected_ok M E se tree path trajectory final sd abstained \<longleftrightarrow>
     trajectory = ps_trajectory final \<and> evaluate M E (se_benchmark se) final = Inr sd \<and> sd_feasible sd \<and>
     (abstained \<longleftrightarrow> ps_terminal_status final = Some ABSTAINED) \<and>
     (case path of
        None \<Rightarrow> final = safe_abstain (se_scenario se) SYSTEM_ABSTAIN_TEXT \<and>
          (\<forall>p \<in> set (terminal_paths [] tree). \<forall>sd'.
             evaluate M E (se_benchmark se) (nd_position (last p)) = Inr sd' \<longrightarrow> \<not> sd_feasible sd')
      | Some nds \<Rightarrow> nds \<in> set (terminal_paths [] tree) \<and> final = nd_position (last nds) \<and>
          path_inv E (se_scenario se) (se_benched se) nds \<and> is_terminal final \<and>
          (\<forall>p \<in> set (terminal_paths [] tree). \<forall>sd'.
             evaluate M E (se_benchmark se) (nd_position (last p)) = Inr sd' \<longrightarrow> sd_feasible sd' \<longrightarrow>
             \<not> flt (sd_reward sd) (sd_reward sd')))"

lemma safe_abstain_simps [simp]:
  "ps_trajectory (safe_abstain sc reason) =
     [system_abstain_move reason (map fst (mv_predicted_metrics (hd (hd (sc_phases sc)))))]"
  "ps_terminal_status (safe_abstain sc reason) = Some ABSTAINED" "ps_violations (safe_abstain sc reason) = []"
  "ps_spent_cost (safe_abstain sc reason) = Fin 0"
  by (simp_all add: safe_abstain_def initial_position_def)

lemma system_fallback_safe [simp]: "system_fallback (safe_abstain sc reason)"
  by (simp add: system_fallback_def system_abstain_move_def)

lemma evaluate_safe_abstain: "evaluate M E s (safe_abstain sc reason) = Inr sd \<Longrightarrow> sd_feasible sd"
  by (auto simp: evaluate_def)

text \<open>The first component of the key decides: no feasible terminal has a greater reward.\<close>

lemma max_from_reward:
  assumes "\<And>x y. flt (R y) (R x) \<Longrightarrow> gt x y" "\<And>x y. gt x y \<Longrightarrow> flt (R y) (R x) \<or> R y = R x"
  shows "(\<forall>x \<in> insert m (set xs). \<not> flt (R (max_from gt m xs)) (R x)) \<and>
    (flt (R m) (R (max_from gt m xs)) \<or> R (max_from gt m xs) = R m)"
proof (induction xs arbitrary: m)
  case (Cons y ys)
  show ?case
  proof (cases "gt y m")
    case True
    with Cons.IH [of y] assms(2) [of y m] show ?thesis by (auto dest: flt_trans)
  next
    case False
    then have "\<not> flt (R m) (R y)" using assms(1) by blast
    with False Cons.IH [of m] show ?thesis by (auto dest: flt_trans)
  qed
qed simp

lemma best_reward:
  assumes "py_max (\<lambda>x y. terminal_lt y x) found = Inr best" "x \<in> set found"
  shows "\<not> flt (sd_reward (snd best)) (sd_reward (snd x))"
proof -
  from assms obtain m xs where f: "found = m # xs" "best = max_from (\<lambda>x y. terminal_lt y x) m xs"
    by (auto simp: py_max_def split: list.splits)
  have "\<forall>x \<in> insert m (set xs). \<not> flt (sd_reward (snd best)) (sd_reward (snd x))"
    unfolding f(2)
    by (rule max_from_reward [where R = "sd_reward \<circ> snd", unfolded comp_def, THEN conjunct1])
      (auto simp: terminal_lt_def Let_def feq_def split: prod.splits if_splits)
  with assms(2) f(1) show ?thesis by auto
qed

lemma selection_ok:
  assumes ok: "search_ok M E se"
    and paths: "\<forall>path \<in> set (terminal_paths [] tree).
      path_inv E (se_scenario se) (se_benched se) path \<and> is_terminal (nd_position (last path))"
    and found: "\<forall>path sd. (path, sd) \<in> set found \<longleftrightarrow> path \<in> set (terminal_paths [] tree) \<and>
      evaluate M E (se_benchmark se) (nd_position (last path)) = Inr sd \<and> sd_feasible sd"
    and run: "selection M E found se = (Inr (path, trajectory, final, sd, abstained), se')"
  shows "continues M E se se' \<and> selected_ok M E se tree path trajectory final sd abstained"
proof (cases "found = []")
  case True
  with run have s: "path = None" "final = safe_abstain (se_scenario se) SYSTEM_ABSTAIN_TEXT"
    "trajectory = ps_trajectory final" "abstained" "score M E final se = (Inr sd, se')"
    by (auto simp: selection_def bind_Inr_iff)
  have "scorable E se final" by (simp add: scorable_def s)
  from score_Inr [OF ok this s(5)] evaluate_safe_abstain found True s show ?thesis
    by (auto simp: selected_ok_def)
next
  case False
  with run obtain best where b: "py_max (\<lambda>x y. terminal_lt y x) found = Inr best" "path = Some (fst best)"
    "trajectory = path_to (fst best)" "final = nd_position (last (fst best))" "sd = snd best"
    "abstained = (ps_terminal_status final = Some ABSTAINED)" "se' = se"
    by (auto simp: selection_def bind_Inr_iff Let_def)
  from py_max_in [OF b(1)] found have f: "fst best \<in> set (terminal_paths [] tree)"
    "evaluate M E (se_benchmark se) final = Inr sd" "sd_feasible sd"
    unfolding b(4,5) by (metis prod.collapse)+
  have "\<not> flt (sd_reward sd) (sd_reward sd')" if "p \<in> set (terminal_paths [] tree)"
    "evaluate M E (se_benchmark se) (nd_position (last p)) = Inr sd'" "sd_feasible sd'" for p sd'
    using best_reward [OF b(1), of "(p, sd')"] found that by (simp add: b(5))
  with f paths path_to_eq b continues_refl [OF ok] show ?thesis by (auto simp: selected_ok_def)
qed

lemma run_Inr:
  assumes ok: "search_ok M E se" and run: "run M E n se = (Inr r, se')"
  obtains path tree se1 tss where "0 < n" "continues M E se se'" "same_config se se1" "sr_root r = tree"
    "tree_ok E (se_scenario se) (se_benched se) tree" "nd_position tree = initial_position (se_scenario se)"
    "nd_visits tree = n"
    "child_visits tree = (if legal_moves (se_scenario se) (initial_position (se_scenario se)) (se_benched se) = Inr []
       then 0 else n)"
    "selected_ok M E se tree path (sr_trajectory r) (sr_final_position r) (sr_score r) (sr_abstained r)"
    "mapR (node_target M E se1) (case path of None \<Rightarrow> [] | Some nds \<Rightarrow> butlast nds) = Inr tss"
    "sr_policy_targets r = concat tss" "sr_scenario_version r = sc_version (se_scenario se)"
    "sr_scenario_manifest_hash r = manifest_hash E (se_scenario se)"
    "sr_benchmark_profile_hash r = profile_hash E (se_benchmark se)" "sr_model_version r = model_version E (se_model se)"
    "sr_learning_receipt_hash r = experience_digest E (sr_scenario_manifest_hash r) (sr_benchmark_profile_hash r)
       (sr_model_version r) (sr_trajectory r) (sr_final_position r) (sr_score r) (sr_policy_targets r) (sr_abstained r)"
    "sr_simulations r = n" "sr_terminal_path r = path"
proof -
  let ?sc = "se_scenario se" and ?b = "se_benched se"
  let ?start = "new_node (initial_position ?sc) None (Fin 1)"
  from run obtain nd0 se0 tree se2 found se3 path where n: "0 < n"
    and i: "initialise M True ?start se = (Inr nd0, se0)"
    and s: "simulations M E (nat n) nd0 se0 = (Inr tree, se2)"
    and f: "feasible_terminals M E (terminal_paths [] tree) se2 = (Inr found, se3)"
    and sel: "selection M E found se3 = (Inr (path, sr_trajectory r, sr_final_position r, sr_score r, sr_abstained r), se')"
    and t: "\<exists>tss. mapR (node_target M E se') (case path of None \<Rightarrow> [] | Some nds \<Rightarrow> butlast nds) = Inr tss \<and>
      sr_policy_targets r = concat tss"
    and r: "sr_root r = tree" "sr_scenario_version r = sc_version (se_scenario se')"
      "sr_scenario_manifest_hash r = manifest_hash E (se_scenario se')"
      "sr_benchmark_profile_hash r = profile_hash E (se_benchmark se')" "sr_model_version r = model_version E (se_model se')"
      "sr_learning_receipt_hash r = experience_digest E (sr_scenario_manifest_hash r) (sr_benchmark_profile_hash r)
       (sr_model_version r) (sr_trajectory r) (sr_final_position r) (sr_score r) (sr_policy_targets r) (sr_abstained r)"
      "sr_simulations r = n" "sr_terminal_path r = path"
    by (auto simp: run_def bind_Inr_iff andthen_Inr_iff Let_def check_result_def bindR_Inr_iff)
  have r0: "tree_ok E ?sc ?b ?start" by (intro tree_ok_new reached.start)
  note i0 = initialise_ok [OF ok r0 _ i]
  then have c0: "same_config se se0" "search_ok M E se0" by (auto simp: continues_def)
  then have cfg0: "se_scenario se0 = ?sc" "se_benched se0 = ?b" by (auto simp: same_config_def se_benched_def)
  note s2 = simulations_ok [OF c0(2) _ s, unfolded cfg0]
  have tree: "tree_ok E ?sc ?b tree" "nd_position tree = initial_position ?sc" "nd_move tree = None" "nd_visits tree = n"
    using i0 s2 n by simp_all
  have kids: "child_visits tree = (if legal_moves ?sc (initial_position ?sc) ?b = Inr [] then 0 else n)"
    using i0 s2 n by (auto simp: child_visits_def goes_on_def is_terminal_def initial_position_def)
  have c2: "same_config se se2" "search_ok M E se2"
    using i0 s2 c0(1) same_config_trans by (auto simp: continues_def)
  then have cfg2: "se_scenario se2 = ?sc" "se_benched se2 = ?b" "se_benchmark se2 = se_benchmark se"
    by (auto simp: same_config_def se_benched_def)
  have "path_inv E ?sc ?b ([] @ [tree])" using tree by (simp add: path_inv_def initial_position_def)
  from terminal_paths_ok [OF this] have paths: "\<forall>p \<in> set (terminal_paths [] tree).
      path_inv E ?sc ?b p \<and> is_terminal (nd_position (last p))" by blast
  have "\<forall>p \<in> set (terminal_paths [] tree). scorable E se2 (nd_position (last p))"
    using paths path_inv_reached by (auto simp: scorable_def cfg2)
  note f3 = feasible_terminals_ok [OF c2(2) this f]
  then have c3: "same_config se se3" "search_ok M E se3"
    using c2(1) same_config_trans by (auto simp: continues_def)
  then have cfg3: "se_scenario se3 = ?sc" "se_benched se3 = ?b" "se_benchmark se3 = se_benchmark se"
    by (auto simp: same_config_def se_benched_def)
  from f3 cfg2 have found: "\<forall>path sd. (path, sd) \<in> set found \<longleftrightarrow> path \<in> set (terminal_paths [] tree) \<and>
      evaluate M E (se_benchmark se3) (nd_position (last path)) = Inr sd \<and> sd_feasible sd" by (simp add: cfg3)
  note s4 = selection_ok [OF c3(2) paths [folded cfg3(1,2)] found sel]
  then have "continues M E se se'" using c3(1) same_config_trans by (auto simp: continues_def)
  then have cfg': "same_config se se'" "se_scenario se' = ?sc" "se_benchmark se' = se_benchmark se"
    "se_model se' = se_model se" by (auto simp: continues_def same_config_def)
  from s4 have sel': "selected_ok M E se tree path (sr_trajectory r) (sr_final_position r) (sr_score r) (sr_abstained r)"
    unfolding selected_ok_def cfg3 by simp
  from t obtain tss where tss: "mapR (node_target M E se') (case path of None \<Rightarrow> [] | Some nds \<Rightarrow> butlast nds) = Inr tss"
    "sr_policy_targets r = concat tss" by blast
  show thesis
    by (rule that [OF n \<open>continues M E se se'\<close> cfg'(1) r(1) tree(1,2,4) kids sel' tss
        r(2) [unfolded cfg'] r(3) [unfolded cfg'] r(4) [unfolded cfg'] r(5) [unfolded cfg'] r(6-8)])
qed

section \<open>Greedy completion returns\<close>

definition playable :: "pymath \<Rightarrow> search \<Rightarrow> bool" where
  \<comment> \<open>candidates with finite logits and a prediction for every metric, and answers that open nothing\<close>
  "playable M se \<longleftrightarrow> answers_close (se_scenario se) \<and>
     list_all (\<lambda>phase. finite_logits M (se_model se) phase \<and>
       list_all (\<lambda>mv. set (metric_names (se_benchmark se)) \<subseteq> fst ` set (mv_predicted_metrics mv)) phase)
       (sc_phases (se_scenario se))"

lemma predicted_move_quality_total:
  assumes "set (metric_names s) \<subseteq> fst ` set (mv_predicted_metrics mv)"
  shows "\<exists>q. predicted_move_quality M s mv = Inr q"
proof -
  have "list_all (\<lambda>n. n \<in> fst ` set (mv_predicted_metrics mv)) (metric_names s)"
    using assms unfolding list_all_iff by blast
  with weighted_total [OF assms, of M] show ?thesis by (auto simp: predicted_move_quality_def)
qed

lemma finite_logits_filter: "finite_logits M m moves \<Longrightarrow> finite_logits M m (filter P moves)"
  by (auto simp: finite_logits_def list_all_iff intro: order_trans [OF length_filter_le])

lemma greedy_choice_total:
  assumes "playable M se" "legal_moves (se_scenario se) p b = Inr legal" "legal \<noteq> []"
  shows "\<exists>mv. greedy_choice M se legal = Inr mv"
proof -
  from assms(2,3) have "ps_phase p < length (sc_phases (se_scenario se))"
    "legal = filter (candidate_legal p b) (sc_phases (se_scenario se) ! ps_phase p)"
    by (auto simp: legal_moves_def bindR_Inr_iff split: if_splits)
  then obtain phase where ph: "phase \<in> set (sc_phases (se_scenario se))" "legal = filter (candidate_legal p b) phase"
    using nth_mem by blast
  then have "finite_logits M (se_model se) legal"
    and names: "\<forall>mv \<in> set legal. set (metric_names (se_benchmark se)) \<subseteq> fst ` set (mv_predicted_metrics mv)"
    using assms(1) by (auto simp: playable_def list_all_iff intro: finite_logits_filter)
  then obtain ps where ps: "priors M (se_model se) legal = Inr ps" using priors_total by blast
  have "\<exists>keyed. mapR (greedy_key M se ps) legal = Inr keyed"
  proof (rule mapR_total)
    fix mv assume mv: "mv \<in> set legal"
    then have "mv_id mv \<in> fst ` set ps" by (simp add: priors_keys [OF ps])
    from lookupR_ex [OF this] predicted_move_quality_total [OF names [rule_format, OF mv], of M]
    show "\<exists>y. greedy_key M se ps mv = Inr y" by (auto simp: greedy_key_def)
  qed
  then obtain keyed where k: "mapR (greedy_key M se ps) legal = Inr keyed" ..
  then have "keyed \<noteq> []" using assms(3) by (cases legal) (auto simp: bindR_Inr_iff)
  then obtain best where "py_max (\<lambda>x y. pair_lt (fst y) (fst x)) keyed = Inr best" using py_max_nonempty by blast
  with k ps show ?thesis by (simp add: greedy_choice_def)
qed

lemma greedy_completion_total:
  assumes "scenario_ok (se_scenario se)" "playable M se" "position_ok (se_scenario se) p"
  shows "\<exists>q. greedy_completion M E se p = Inr q"
  using assms
proof (induction M E se p rule: greedy_completion.induct)
  case (1 M E se p)
  show ?case
  proof (cases "is_terminal p")
    case True
    then show ?thesis by (simp add: greedy_completion.simps)
  next
    case False
    from "1.prems"(3) obtain legal where l: "legal_moves (se_scenario se) p (se_benched se) = Inr legal"
      by (simp add: legal_moves_def assert_position_def position_ok_def)
    show ?thesis
    proof (cases "legal = []")
      case True
      with False l show ?thesis by (simp add: greedy_completion.simps)
    next
      case ne: False
      from greedy_choice_total [OF "1.prems"(2) l ne] obtain mv where mv: "greedy_choice M se legal = Inr mv" ..
      have "answers_close (se_scenario se)" using "1.prems"(2) by (simp add: playable_def)
      from legal_applies [OF "1.prems"(1,3) this l greedy_choice_in [OF mv]] obtain qs where
        p': "apply_move E (se_scenario se) p mv (se_benched se) = Inr (play p mv qs)" by blast
      have "position_ok (se_scenario se) (play p mv qs)"
        using apply_move_ok [OF "1.prems"(1,3) p'] by blast
      from "1.IH" [OF False l ne mv p' "1.prems"(1,2) this] False l ne mv p' show ?thesis
        by (subst greedy_completion.simps) simp
    qed
  qed
qed

section \<open>Costs\<close>

definition moves_checked :: "scenario \<Rightarrow> bool" where
  \<comment> \<open>the candidates passed their constructor\<close>
  "moves_checked sc \<longleftrightarrow> list_all (\<lambda>m. check_move m = Inr m) (concat (sc_phases sc))"

lemma reached_cost:
  assumes sc: "scenario_ok sc" and mc: "moves_checked sc" and p: "reached E sc benched p"
  shows "nonneg (ps_spent_cost p)"
  using p
proof induction
  case start
  show ?case by (simp add: initial_position_def)
next
  case (step p m p')
  from apply_move_ok [OF sc reached_ok [OF sc step.hyps(1)] step.hyps(2)] obtain c qs where
    c: "p' = play p c qs" "c \<in> set (sc_phases sc ! ps_phase p)" "ps_phase p < 4" .
  then have "c \<in> set (concat (sc_phases sc))" using sc by (force simp: scenario_ok_def)
  then have "check_move c = Inr c" using mc unfolding moves_checked_def list_all_iff by blast
  then have "nonneg (mv_cost c)" by (cases "mv_cost c") (auto simp: check_move_def bindR_Inr_iff)
  with step.IH show ?case by (simp add: c(1) nonneg_add)
qed

end
