(* ===== verification/EngineLearn.thy ===== *)
theory EngineLearn
  imports EngineTree
begin

text \<open>
  Learning from a search result (\<open>src/agent_tree_rl/engine.py\<close>: \<open>learn_from_result\<close>,
  \<open>shadow_benchmark_agents\<close>, \<open>predicted_greedy_baseline\<close>, \<open>iter_tree\<close>). \<open>learn_from_result\<close>
  validates and replays the result, trains a copy, and publishes the copy at the end; it returns
  the published model, and an exception leaves the caller's model as it was.
\<close>

section \<open>Validation of a result\<close>

definition system_abstain :: "move list \<Rightarrow> bool" where
  "system_abstain trajectory \<longleftrightarrow> (case trajectory of [m] \<Rightarrow> mv_id m = ''SYSTEM_ABSTAIN'' | _ \<Rightarrow> False)"

definition validate_identity :: "pyenv \<Rightarrow> scenario \<Rightarrow> suite \<Rightarrow> model \<Rightarrow> search_result \<Rightarrow> unit result" where
  "validate_identity E sc s m r =
     bindR (guardR (sr_scenario_version r = sc_version sc) ValueError
              ''result scenario version does not match learner scenario'') (\<lambda>_.
     bindR (guardR (sr_scenario_manifest_hash r = manifest_hash E sc) ValueError
              ''result scenario manifest does not match learner scenario'') (\<lambda>_.
     bindR (guardR (su_scenario_manifest_hash s = manifest_hash E sc) ValueError
              ''benchmark is bound to a different scenario manifest'') (\<lambda>_.
     bindR (guardR (sr_benchmark_profile_hash r = profile_hash E s) ValueError
              ''result benchmark profile does not match learner benchmark'') (\<lambda>_.
     bindR (guardR (sr_model_version r = model_version E m) ValueError
              ''result was produced by a different policy generation'') (\<lambda>_.
     guardR (sr_learning_receipt_hash r =
               experience_digest E (sr_scenario_manifest_hash r) (sr_benchmark_profile_hash r) (sr_model_version r)
                 (sr_trajectory r) (sr_final_position r) (sr_score r) (sr_policy_targets r) (sr_abstained r)) ValueError
       ''learning receipt content hash does not match result'')))))"

definition replay_result ::
  "pymath \<Rightarrow> pyenv \<Rightarrow> scenario \<Rightarrow> suite \<Rightarrow> model \<Rightarrow> search_result \<Rightarrow> (position list \<times> position \<times> score_card) result" where
  \<comment> \<open>the states the trajectory passes, the state it ends in and the score of that state\<close>
  "replay_result M E sc s m r =
     bindR (if system_abstain (sr_trajectory r) then Inr ([], safe_abstain sc SYSTEM_ABSTAIN_TEXT)
            else replay E sc (benched_agents m) (sr_trajectory r) (initial_position sc)) (\<lambda>(states, final).
     bindR (guardR (state_hash E final = state_hash E (sr_final_position r)) ValueError
              ''trajectory replay does not match result state'') (\<lambda>_.
     bindR (evaluate M E s final) (\<lambda>sd.
     bindR (guardR (digest E (scorecard_payload sd) = digest E (scorecard_payload (sr_score r))) ValueError
              ''benchmark replay does not reproduce the full scorecard'') (\<lambda>_.
     bindR (guardR (sr_abstained r = (ps_terminal_status final = Some ABSTAINED)) ValueError
              ''result abstention flag does not match terminal state'') (\<lambda>_.
     bindR (guardR (ps_terminal_status final = Some ABSTAINED \<or> ps_terminal_status final = Some COMMITTED) ValueError
              ''non-abstained result lacks an explicit COMMIT'') (\<lambda>_.
     Inr (states, final, sd)))))))"

type_synonym validated = "position \<times> move list \<times> policy_target"

definition validate_target ::
  "pyenv \<Rightarrow> scenario \<Rightarrow> string list \<Rightarrow> position dict \<Rightarrow> policy_target \<Rightarrow> string list \<times> validated list \<Rightarrow>
   (string list \<times> validated list) result" where
  \<comment> \<open>one receipt, on the states seen so far and the targets validated so far\<close>
  "validate_target E sc benched selected t = (\<lambda>(seen, validated).
     let h = state_hash E (pt_position t) in
     bindR (guardR (h \<notin> set seen \<and> map_of selected h \<noteq> None) ValueError
              ''policy target is duplicate or not on the selected path'') (\<lambda>_.
     bindR (lookupR selected h) (\<lambda>canonical.
     bindR (legal_moves sc canonical benched) (\<lambda>legal.
     bindR (guardR (map (\<lambda>mv. (mv_id mv, content_hash E mv)) legal = pt_candidate_hashes t) ValueError
              ''policy target candidate manifest does not replay'') (\<lambda>_.
     Inr (h # seen, validated @ [(canonical, legal, t)]))))))"

definition validate_result ::
  "pymath \<Rightarrow> pyenv \<Rightarrow> scenario \<Rightarrow> suite \<Rightarrow> model \<Rightarrow> search_result \<Rightarrow> (score_card \<times> validated list) result" where
  \<comment> \<open>everything \<open>learn_from_result\<close> checks before it trains\<close>
  "validate_result M E sc s m r =
     bindR (validate_identity E sc s m r) (\<lambda>_.
     bindR (replay_result M E sc s m r) (\<lambda>(states, final, sd).
     bindR (foldR (validate_target E sc (benched_agents m) (dict_of (map (\<lambda>p. (state_hash E p, p)) states)))
              (sr_policy_targets r) ([], [])) (\<lambda>(seen, validated).
     Inr (sd, validated))))"

section \<open>Training\<close>

definition learn_target :: "pymath \<Rightarrow> bool \<Rightarrow> pyfloat \<Rightarrow> validated \<Rightarrow> model \<Rightarrow> model result" where
  "learn_target M sys reward = (\<lambda>(p, legal, t) challenger.
     bindR (if \<not> sys then learn_policy M challenger legal (pt_target_probabilities t) (fl (18 / 100))
            else Inr challenger) (\<lambda>challenger.
     learn_value M challenger p reward (fl (12 / 100))))"

definition publish :: "model \<Rightarrow> model \<Rightarrow> model" where
  \<comment> \<open>the fields copied from the challenger\<close>
  "publish challenger m =
     m\<lparr>pm_policy_weights := pm_policy_weights challenger, pm_value_weights := pm_value_weights challenger,
       pm_value_bias := pm_value_bias challenger, pm_value_updates := pm_value_updates challenger,
       pm_generation := pm_generation challenger, pm_agent_records := pm_agent_records challenger\<rparr>"

definition learn_from_result ::
  "pymath \<Rightarrow> pyenv \<Rightarrow> scenario \<Rightarrow> suite \<Rightarrow> model \<Rightarrow> search_result \<Rightarrow> model result" where
  "learn_from_result M E sc s m r =
     bindR (validate_result M E sc s m r) (\<lambda>(sd, validated).
     bindR (frozen_copy m) (\<lambda>challenger.
     bindR (foldR (learn_target M (system_abstain (sr_trajectory r)) (sd_reward sd)) validated challenger) (\<lambda>challenger.
     bindR (if validated = [] then learn_value M challenger (initial_position sc) (sd_reward sd) (fl (12 / 100))
            else Inr challenger) (\<lambda>challenger.
     Inr (publish (challenger\<lparr>pm_generation := pm_generation challenger + 1\<rparr>) m)))))"

definition shadow_benchmark_agents :: "pymath \<Rightarrow> pyenv \<Rightarrow> scenario \<Rightarrow> suite \<Rightarrow> (model, unit) action" where
  "shadow_benchmark_agents M E sc s =
     for_each (for_each (\<lambda>mv. if mv_kind mv \<noteq> ABSTAIN then observe_benchmark M E mv s else ret ())) (sc_phases sc)"

section \<open>The greedy baseline\<close>

record baseline_result =
  br_trajectory :: "move list"
  br_final_position :: position
  br_score :: score_card

definition predicted_choice :: "pymath \<Rightarrow> suite \<Rightarrow> move list \<Rightarrow> move result" where
  "predicted_choice M s legal =
     bindR (mapR (\<lambda>mv. bindR (predicted_move_quality M s mv) (\<lambda>q. Inr ((q, mv_id mv), mv))) legal) (\<lambda>keyed.
     bindR (py_max (\<lambda>x y. pair_lt (fst y) (fst x)) keyed) (\<lambda>best. Inr (snd best)))"

function baseline_loop ::
  "pymath \<Rightarrow> pyenv \<Rightarrow> scenario \<Rightarrow> suite \<Rightarrow> string list \<Rightarrow> move list \<Rightarrow> position \<Rightarrow> (move list \<times> position) result" where
  \<comment> \<open>the \<open>while\<close> loop with the trajectory collected so far\<close>
  "baseline_loop M E sc s benched trajectory p =
     (if is_terminal p then Inr (trajectory, p)
      else bindR (legal_moves sc p benched) (\<lambda>legal.
        if legal = [] then
          let abstained = safe_abstain sc ''Predicted-greedy baseline had no legal move.''
          in Inr (ps_trajectory abstained, abstained)
        else bindR (predicted_choice M s legal) (\<lambda>mv.
             bindR (apply_move E sc p mv benched) (\<lambda>p'.
             baseline_loop M E sc s benched (trajectory @ [mv]) p'))))"
  by pat_completeness auto
termination
  by (relation "measure (\<lambda>(M, E, sc, s, benched, trajectory, p). length (sc_phases sc) - ps_phase p)")
    (auto dest!: apply_move_phase)

declare baseline_loop.simps [simp del]

definition predicted_greedy_baseline ::
  "pymath \<Rightarrow> pyenv \<Rightarrow> scenario \<Rightarrow> suite \<Rightarrow> model option \<Rightarrow> baseline_result result" where
  "predicted_greedy_baseline M E sc s m =
     bindR (frozen_copy (case m of None \<Rightarrow> default_model | Some m \<Rightarrow> m)) (\<lambda>active.
     bindR (baseline_loop M E sc s (benched_agents active) [] (initial_position sc)) (\<lambda>(trajectory, final).
     bindR (evaluate M E s final) (\<lambda>sd.
     Inr \<lparr>br_trajectory = trajectory, br_final_position = final, br_score = sd\<rparr>)))"

section \<open>Listing a tree\<close>

definition child_order :: "node \<Rightarrow> node \<Rightarrow> bool" where
  "child_order a b \<longleftrightarrow> - nd_visits a < - nd_visits b \<or> nd_visits a = nd_visits b \<and>
     (case nd_move a of None \<Rightarrow> [] | Some mv \<Rightarrow> mv_id mv) < (case nd_move b of None \<Rightarrow> [] | Some mv \<Rightarrow> mv_id mv)"

function iter_tree :: "int \<Rightarrow> int \<Rightarrow> node \<Rightarrow> (int \<times> node) list" where
  \<comment> \<open>the nodes with their depths, parents first and children by visits; the stack holds the
      children in reverse, so the listing is a preorder\<close>
  "iter_tree max_depth depth nd =
     (depth, nd) # (if depth < max_depth
       then concat (map (iter_tree max_depth (depth + 1)) (py_sorted child_order (map snd (nd_children nd)))) else [])"
  by pat_completeness auto
termination
  by (relation "measure (\<lambda>(max_depth, depth, nd). size nd)") (auto dest: child_size)

declare iter_tree.simps [simp del]

section \<open>What learning changes\<close>

lemma learn_target_ok:
  assumes "learn_target M sys reward t m = Inr m'"
  shows "pm_generation m' = pm_generation m \<and> pm_agent_records m' = pm_agent_records m \<and>
    pm_policy_limit m' = pm_policy_limit m \<and> pm_value_limit m' = pm_value_limit m \<and>
    pm_bench_min_samples m' = pm_bench_min_samples m \<and> pm_bench_upper_threshold m' = pm_bench_upper_threshold m \<and>
    pm_value_updates m' = pm_value_updates m + 1 \<and> (model_ok m \<longrightarrow> model_ok m')"
proof -
  obtain p legal r where t: "t = (p, legal, r)" by (metis prod.exhaust)
  with assms obtain m1 where one: "sys \<and> m1 = m \<or>
      learn_policy M m legal (pt_target_probabilities r) (fl (18 / 100)) = Inr m1"
    and two: "learn_value M m1 p reward (fl (12 / 100)) = Inr m'"
    by (auto simp: learn_target_def bindR_Inr_iff split: if_splits)
  from one have "\<exists>ws. m1 = m\<lparr>pm_policy_weights := ws\<rparr>" "model_ok m \<longrightarrow> model_ok m1"
    by (auto elim!: learn_policy_Inr intro: exI [of _ "pm_policy_weights m"])
  with two show ?thesis by (elim learn_value_Inr) auto
qed

lemma learn_targets_ok:
  assumes "foldR (learn_target M sys reward) ts m = Inr m'"
  shows "pm_generation m' = pm_generation m \<and> pm_agent_records m' = pm_agent_records m \<and>
    pm_policy_limit m' = pm_policy_limit m \<and> pm_value_limit m' = pm_value_limit m \<and>
    pm_bench_min_samples m' = pm_bench_min_samples m \<and> pm_bench_upper_threshold m' = pm_bench_upper_threshold m \<and>
    pm_value_updates m' = pm_value_updates m + int (length ts) \<and> (model_ok m \<longrightarrow> model_ok m')"
  using assms
proof (induction ts arbitrary: m)
  case (Cons t ts)
  from Cons.prems obtain m1 where "learn_target M sys reward t m = Inr m1" "foldR (learn_target M sys reward) ts m1 = Inr m'"
    by (auto simp: bindR_Inr_iff)
  with learn_target_ok Cons.IH show ?case by fastforce
qed simp

lemma learn_from_result_Inr:
  assumes "learn_from_result M E sc s m r = Inr m'"
  shows "\<exists>sd validated. validate_result M E sc s m r = Inr (sd, validated) \<and> model_ok m \<and> model_ok m' \<and>
    pm_generation m' = pm_generation m + 1 \<and> pm_agent_records m' = pm_agent_records m \<and>
    pm_policy_limit m' = pm_policy_limit m \<and> pm_value_limit m' = pm_value_limit m \<and>
    pm_value_updates m' = pm_value_updates m + max 1 (int (length validated))"
proof -
  from assms obtain sd v c1 c2 where v: "validate_result M E sc s m r = Inr (sd, v)" and ok: "model_ok m"
    and c1: "foldR (learn_target M (system_abstain (sr_trajectory r)) (sd_reward sd)) v m = Inr c1"
    and c2: "(if v = [] then learn_value M c1 (initial_position sc) (sd_reward sd) (fl (12 / 100)) else Inr c1) = Inr c2"
    and m': "m' = publish (c2\<lparr>pm_generation := pm_generation c2 + 1\<rparr>) m"
    by (auto simp: learn_from_result_def bindR_Inr_iff frozen_copy_iff)
  note l = learn_targets_ok [OF c1]
  have c: "pm_generation c2 = pm_generation m \<and> pm_agent_records c2 = pm_agent_records m \<and>
    pm_policy_limit c2 = pm_policy_limit m \<and> pm_value_limit c2 = pm_value_limit m \<and>
    pm_bench_min_samples c2 = pm_bench_min_samples m \<and> pm_bench_upper_threshold c2 = pm_bench_upper_threshold m \<and>
    pm_value_updates c2 = pm_value_updates m + max 1 (int (length v)) \<and> model_ok c2"
  proof (cases "v = []")
    case True
    with c2 l ok show ?thesis by (auto elim!: learn_value_Inr)
  next
    case False
    then have "1 \<le> length v" by (cases v) auto
    with False c2 l ok show ?thesis by auto
  qed
  then have "m' = c2\<lparr>pm_generation := pm_generation c2 + 1\<rparr>" by (simp add: m' publish_def)
  with c v ok show ?thesis by (auto simp: model_ok_def)
qed

section \<open>Validation accepts what a run produced\<close>

lemma position_of_phase:
  assumes "replay E sc benched ms p = Inr (states, q)" "i < length states"
  shows "ps_phase (states ! i) = ps_phase p + i"
  using assms
proof (induction ms arbitrary: p states i)
  case (Cons m ms)
  from Cons.prems(1) obtain p' states' where p': "apply_move E sc p m benched = Inr p'"
    and rest: "replay E sc benched ms p' = Inr (states', q)" "states = p # states'"
    by (auto simp: bindR_Inr_iff)
  from apply_move_phase [OF p'] Cons.IH [OF rest(1)] Cons.prems(2) rest(2) show ?case
    by (cases i) auto
qed simp

lemma replay_distinct:
  assumes "replay E sc benched ms p = Inr (states, q)" shows "distinct states"
proof -
  have "ps_phase (states ! i) \<noteq> ps_phase (states ! j)" if "i < length states" "j < length states" "i \<noteq> j" for i j
    using position_of_phase [OF assms] that by simp
  then show ?thesis unfolding distinct_conv_nth by metis
qed

lemma node_target_Inr:
  assumes "node_target M E se nd = Inr ts"
  shows "ts = [] \<or> (\<exists>legal t. ts = [t] \<and> legal_moves (se_scenario se) (nd_position nd) (se_benched se) = Inr legal \<and>
    pt_position t = nd_position nd \<and> pt_candidate_hashes t = map (\<lambda>mv. (mv_id mv, content_hash E mv)) legal)"
  using assms by (auto simp: node_target_def bindR_Inr_iff check_target_def split: if_splits)

lemma validate_targets_ok:
  assumes "mapR (node_target M E se) nds = Inr tss"
    and "distinct (map (state_hash E \<circ> nd_position) nds)" "set (map (state_hash E \<circ> nd_position) nds) \<inter> set seen = {}"
    and "\<forall>nd \<in> set nds. map_of selected (state_hash E (nd_position nd)) = Some (nd_position nd)"
  shows "\<exists>out. foldR (validate_target E (se_scenario se) (se_benched se) selected) (concat tss) (seen, v) = Inr out"
  using assms
proof (induction nds arbitrary: tss seen v)
  case (Cons nd nds)
  from Cons.prems(1) obtain ts tss' where ts: "node_target M E se nd = Inr ts"
    and rest: "mapR (node_target M E se) nds = Inr tss'" "tss = ts # tss'"
    by (auto simp: bindR_Inr_iff)
  show ?case
  proof (cases "ts = []")
    case True
    with Cons.IH [OF rest(1), of seen v] Cons.prems(2-4) rest(2) show ?thesis by auto
  next
    case False
    with node_target_Inr [OF ts] obtain legal t where t: "ts = [t]" "pt_position t = nd_position nd"
      "legal_moves (se_scenario se) (nd_position nd) (se_benched se) = Inr legal"
      "pt_candidate_hashes t = map (\<lambda>mv. (mv_id mv, content_hash E mv)) legal" by auto
    let ?h = "state_hash E (nd_position nd)"
    have "validate_target E (se_scenario se) (se_benched se) selected t (seen, v)
        = Inr (?h # seen, v @ [(nd_position nd, legal, t)])"
      using Cons.prems(3,4) t by (simp add: validate_target_def Let_def lookupR_def)
    moreover from Cons.IH [OF rest(1), of "?h # seen" "v @ [(nd_position nd, legal, t)]"] Cons.prems(2-4)
    have "\<exists>out. foldR (validate_target E (se_scenario se) (se_benched se) selected) (concat tss')
        (?h # seen, v @ [(nd_position nd, legal, t)]) = Inr out" by auto
    ultimately show ?thesis using rest(2) t(1) by simp
  qed
qed simp

lemma path_length:
  assumes "scenario_ok sc" "path_inv E sc benched path" "is_terminal (nd_position (last path))"
  shows "length (ps_trajectory (nd_position (last path))) = 4"
  using reached_ok [OF assms(1) path_inv_reached [OF assms(2)]] assms(3) by (simp add: position_ok_def)

lemma terminal_status_cases: "ps_terminal_status p \<noteq> None \<Longrightarrow>
  ps_terminal_status p = Some ABSTAINED \<or> ps_terminal_status p = Some COMMITTED"
  by (metis option.exhaust terminal_status.exhaust)

lemma validate_own_result:
  assumes new: "new_search E sc s m c gamma noise = Inr se" and sc: "scenario_ok sc" and s: "suite_ok s"
    and cf: "collision_free E se" and run: "run M E n se = (Inr r, se')"
  shows "\<exists>validated. validate_result M E sc s m r = Inr (sr_score r, validated)"
proof -
  note ns = new_search_Inr [OF new]
  have b: "se_benched se = benched_agents m" by (simp add: se_benched_def ns)
  note ok = new_search_ok [OF new sc s cf]
  from ok run obtain path tree se1 tss where cfg: "same_config se se1"
    and sel: "selected_ok M E se tree path (sr_trajectory r) (sr_final_position r) (sr_score r) (sr_abstained r)"
    and t: "mapR (node_target M E se1) (case path of None \<Rightarrow> [] | Some nds \<Rightarrow> butlast nds) = Inr tss"
      "sr_policy_targets r = concat tss"
    and r: "sr_scenario_version r = sc_version (se_scenario se)" "sr_scenario_manifest_hash r = manifest_hash E (se_scenario se)"
      "sr_benchmark_profile_hash r = profile_hash E (se_benchmark se)" "sr_model_version r = model_version E (se_model se)"
      "sr_learning_receipt_hash r = experience_digest E (sr_scenario_manifest_hash r) (sr_benchmark_profile_hash r)
       (sr_model_version r) (sr_trajectory r) (sr_final_position r) (sr_score r) (sr_policy_targets r) (sr_abstained r)"
    by (rule run_Inr)
  have id: "validate_identity E sc s m r = Inr ()"
    using r by (simp add: validate_identity_def ns)
  have cfg1: "se_scenario se1 = sc" "se_benched se1 = benched_agents m"
    using cfg by (simp_all add: same_config_def ns se_benched_def)
  show ?thesis
  proof (cases path)
    case None
    with sel have "sr_final_position r = safe_abstain sc SYSTEM_ABSTAIN_TEXT"
      "sr_trajectory r = ps_trajectory (sr_final_position r)" "sr_abstained r"
      "evaluate M E s (sr_final_position r) = Inr (sr_score r)" by (auto simp: selected_ok_def ns)
    then have "replay_result M E sc s m r = Inr ([], sr_final_position r, sr_score r)"
      by (simp add: replay_result_def system_abstain_def system_abstain_move_def)
    with id t None show ?thesis by (simp add: validate_result_def)
  next
    case (Some nds)
    with sel have p: "path_inv E sc (benched_agents m) nds" "is_terminal (nd_position (last nds))"
      "sr_final_position r = nd_position (last nds)" "sr_trajectory r = ps_trajectory (nd_position (last nds))"
      "evaluate M E s (nd_position (last nds)) = Inr (sr_score r)"
      "sr_abstained r = (ps_terminal_status (nd_position (last nds)) = Some ABSTAINED)"
      by (auto simp: selected_ok_def ns b)
    note len = path_length [OF sc p(1,2)]
    have rep: "replay E sc (benched_agents m) (sr_trajectory r) (initial_position sc)
        = Inr (map nd_position (butlast nds), nd_position (last nds))"
      using p(1) by (simp add: p(4) path_inv_def)
    have "\<not> system_abstain (sr_trajectory r)"
      using len p(4) by (auto simp: system_abstain_def split: list.splits)
    with rep p terminal_status_cases [of "nd_position (last nds)"]
    have rr: "replay_result M E sc s m r = Inr (map nd_position (butlast nds), nd_position (last nds), sr_score r)"
      by (auto simp: replay_result_def is_terminal_def)
    have inj: "inj_on (state_hash E) (nd_position ` set (butlast nds))"
    proof (rule inj_on_subset)
      show "inj_on (state_hash E) {p. reached E sc (benched_agents m) p}"
        using cf by (simp add: collision_free_def ns b inj_on_def)
      show "nd_position ` set (butlast nds) \<subseteq> {p. reached E sc (benched_agents m) p}"
        using p(1) by (auto simp: path_inv_def dest!: in_set_butlastD elim!: tree_ok.cases)
    qed
    have d: "distinct (map (state_hash E) (map nd_position (butlast nds)))"
      using replay_distinct [OF rep] inj by (subst distinct_map) simp
    let ?sel = "dict_of (map (\<lambda>p. (state_hash E p, p)) (map nd_position (butlast nds)))"
    have "map_of ?sel (state_hash E (nd_position nd)) = Some (nd_position nd)" if "nd \<in> set (butlast nds)" for nd
      using d that by (subst map_of_dict_of_distinct) (auto simp: comp_def intro!: map_of_is_SomeI)
    with validate_targets_ok [OF t(1) [unfolded Some option.case], of "[]" ?sel "[]"] d
    have "\<exists>out. foldR (validate_target E sc (benched_agents m) ?sel) (concat tss) ([], []) = Inr out"
      by (simp add: comp_def cfg1)
    with id rr t(2) show ?thesis by (auto simp: validate_result_def)
  qed
qed

section \<open>Shadow benchmarks and the baseline\<close>

lemma shadow_keeps_benched:
  assumes "is_benched m a" "shadow_benchmark_agents M E sc s m = (r, m')"
  shows "is_benched m' a"
proof -
  have "keeps (\<lambda>m. is_benched m a) (shadow_benchmark_agents M E sc s)"
    unfolding shadow_benchmark_agents_def
    by (intro keeps_for_each keeps_if keeps_intros keepsI) (rule observe_benchmark_keeps_benched)
  from keepsD [OF this assms] show ?thesis .
qed

lemma predicted_choice_in:
  assumes "predicted_choice M s legal = Inr mv" shows "mv \<in> set legal"
proof -
  from assms obtain keyed best where
    k: "mapR (\<lambda>mv. bindR (predicted_move_quality M s mv) (\<lambda>q. Inr ((q, mv_id mv), mv))) legal = Inr keyed"
    and b: "best \<in> set keyed" "mv = snd best"
    by (auto simp: predicted_choice_def bindR_Inr_iff dest: py_max_in)
  have "list_all2 (\<lambda>x y. snd y = x) legal keyed"
    using k unfolding mapR_Inr_iff by (rule list_all2_mono) (auto simp: bindR_Inr_iff)
  then have "map snd keyed = legal" by (auto simp: list_all2_conv_all_nth list_eq_iff_nth_eq)
  with b show ?thesis by (metis image_eqI list.set_map)
qed

lemma baseline_loop_ok:
  assumes "scenario_ok sc" "baseline_loop M E sc s benched trajectory p = Inr (ms, q)" "reached E sc benched p"
    "trajectory = ps_trajectory p"
  shows "is_terminal q \<and> ms = ps_trajectory q \<and>
    (reached E sc benched q \<or> q = safe_abstain sc ''Predicted-greedy baseline had no legal move.'')"
  using assms
proof (induction M E sc s benched trajectory p rule: baseline_loop.induct)
  case (1 M E sc s benched trajectory p)
  show ?case
  proof (cases "is_terminal p")
    case True
    with "1.prems" show ?thesis by (auto simp: baseline_loop.simps)
  next
    case False
    with "1.prems"(2) obtain legal where l: "legal_moves sc p benched = Inr legal"
      by (subst (asm) baseline_loop.simps) (auto simp: bindR_Inr_iff)
    show ?thesis
    proof (cases "legal = []")
      case True
      with "1.prems"(2) False l show ?thesis
        by (subst (asm) baseline_loop.simps) (auto simp: Let_def is_terminal_def)
    next
      case ne: False
      with "1.prems"(2) False l obtain mv p' where mv: "predicted_choice M s legal = Inr mv"
        and p': "apply_move E sc p mv benched = Inr p'"
        and rest: "baseline_loop M E sc s benched (trajectory @ [mv]) p' = Inr (ms, q)"
        by (subst (asm) baseline_loop.simps) (auto simp: bindR_Inr_iff)
      have "p' = play p mv (ps_open_questions p')"
        using apply_move_legal [OF "1.prems"(1) l predicted_choice_in [OF mv]] p' by (auto simp: bindR_Inr_iff)
      then have "trajectory @ [mv] = ps_trajectory p'" using "1.prems"(4) by (metis play_simps(4))
      from "1.IH" [OF False l ne mv p' "1.prems"(1) rest reached.step [OF "1.prems"(3) p'] this] show ?thesis .
    qed
  qed
qed

end
