(* ===== verification/EngineFixture.thy ===== *)
theory EngineFixture
  imports EngineLearn
begin

text \<open>
  The built-in fixture (\<open>src/agent_tree_rl/engine.py\<close>: \<open>_move\<close>, \<open>default_scenario\<close>,
  \<open>default_benchmark\<close>), with the texts and numbers of the source. Decimal literals are written as
  fractions and rounded to the nearest double by \<open>fl\<close>.
\<close>

definition FIXTURE_METRICS :: "string list" where
  "FIXTURE_METRICS = [''correctness'', ''evidence'', ''safety'', ''efficiency'', ''reversibility'']"

definition lower_char :: "char \<Rightarrow> char" where
  \<comment> \<open>\<open>str.lower\<close> on the ASCII letters of the fixture's ids\<close>
  "lower_char c = (if c \<in> set ''ABCDEFGHIJKLMNOPQRSTUVWXYZ'' then char_of ((of_char c :: int) + 32) else c)"

definition hundredths :: "int list \<Rightarrow> pyfloat list" where
  \<comment> \<open>the literals \<open>0.xy\<close> of a tuple, given by their hundredths\<close>
  "hundredths ns = map (\<lambda>n. fl (of_int n / 100)) ns"

definition fixture_move ::
  "string \<Rightarrow> move_kind \<Rightarrow> string \<Rightarrow> string \<Rightarrow> int \<Rightarrow> int list \<Rightarrow> int \<Rightarrow> string list \<Rightarrow> move" where
  \<comment> \<open>\<open>_move\<close> without keyword arguments; these are set by record updates\<close>
  "fixture_move i kind actor txt prior predicted cost tags =
     \<lparr>mv_id = i, mv_action_key = ''fixture.'' @ map lower_char i, mv_kind = kind, mv_actor = actor, mv_text = txt,
      mv_base_prior = fl (of_int prior / 100), mv_predicted_metrics = dict_of (zip FIXTURE_METRICS (hundredths predicted)),
      mv_cost = fl (of_int cost / 100), mv_tags = tags, mv_opens_question = None, mv_requires_question = None,
      mv_resolves_question = None, mv_evidence_refs = [], mv_violations = []\<rparr>"

definition answers :: "string \<Rightarrow> move \<Rightarrow> move" where
  "answers q m = m\<lparr>mv_requires_question := Some q, mv_resolves_question := Some q\<rparr>"

definition default_scenario_data :: scenario where
  "default_scenario_data =
     \<lparr>sc_name = ''flaky-android-ui-test'', sc_version = ''scenario-v2'',
      sc_description = ''Choose an evidence-efficient recovery plan for a flaky Android UI test ''
        @ ''when local, connected-device, and hosted surfaces are available.'',
      sc_phases =
       [[fixture_move ''S1'' PROPOSE ''Scout''
           ''Pin one emulator, reproduce the narrow first failure, classify it, then widen.''
           24 [90, 82, 94, 88, 94] 12 [''narrow-first'', ''classify'', ''pinned-transport''],
         fixture_move ''S2'' PROPOSE ''Momentum''
           ''Rerun the full local and cloud suites until a pass reveals the likely state.''
           52 [62, 46, 76, 42, 74] 55 [''broad-rerun'', ''retry''],
         fixture_move ''S3'' PROPOSE ''Builder''
           ''Patch the most suspicious selector immediately and validate afterward.''
           24 [56, 32, 52, 82, 46] 10 [''guess-patch'', ''mutation-first'']],
        [(fixture_move ''Q1'' QUESTION ''Skeptic''
           ''What current artifact distinguishes product failure from harness or transport failure?''
           34 [88, 94, 94, 74, 95] 5 [''falsify'', ''proof-obligation''])\<lparr>mv_opens_question := Some ''current-proof''\<rparr>,
         (fixture_move ''Q2'' QUESTION ''Momentum''
           ''Which observation supports the majority view strongly enough to proceed?''
           46 [58, 38, 66, 68, 74] 3 [''majority-vote'', ''agreement''])\<lparr>mv_opens_question := Some ''current-proof''\<rparr>,
         (fixture_move ''Q3'' QUESTION ''Builder'' ''What proof, if any, justifies skipping another probe?''
           20 [52, 24, 54, 88, 60] 1 [''skip-challenge''])\<lparr>mv_opens_question := Some ''current-proof''\<rparr>],
        [(answers ''current-proof'' (fixture_move ''A1'' ANSWER ''Verifier''
           ''Run the canonical pinned-device probe and attach the first-failure trace.''
           30 [94, 98, 96, 84, 96] 12 [''canonical-probe'', ''artifact'']))
           \<lparr>mv_evidence_refs := [''trace://pinned-emulator/first-failure'']\<rparr>,
         (answers ''current-proof'' (fixture_move ''A2'' ANSWER ''Verifier''
           ''Inspect the latest CI trace and compare its environment fingerprint.''
           44 [86, 90, 92, 74, 92] 18 [''ci-artifact'', ''environment-diff'']))
           \<lparr>mv_evidence_refs := [''trace://ci/latest'', ''env://ci/fingerprint'']\<rparr>,
         (answers ''current-proof'' (fixture_move ''A3'' ANSWER ''Momentum''
           ''Treat consensus as the answer and proceed without a trusted artifact.''
           26 [48, 22, 48, 94, 52] 1 [''unverified-claim'', ''agreement'']))
           \<lparr>mv_violations := [''unverified claim used as proof'']\<rparr>],
        [(fixture_move ''D1'' COMMIT ''Steward''
           ''Commit only after emulator proof; confirm on one device and hosted automation.''
           28 [74, 65, 82, 50, 82] 22 [''cross-surface'', ''proof-gated-commit''])
           \<lparr>mv_evidence_refs := [''device://connected/confirmation'', ''cloud://maestro/confirmation'']\<rparr>,
         fixture_move ''D2'' COMMIT ''Builder'' ''Commit the reversible local-only decision after the narrow proof.''
           48 [84, 76, 88, 92, 93] 8 [''local-only'', ''reversible''],
         (fixture_move ''D3'' COMMIT ''Momentum'' ''Commit now; broad confirmation can run after the decision.''
           24 [62, 40, 56, 96, 58] 2 [''commit-before-proof'', ''speed''])
           \<lparr>mv_violations := [''commit preceded required proof'']\<rparr>]]\<rparr>"

definition default_scenario :: "pyenv \<Rightarrow> scenario result" where
  \<comment> \<open>the moves pass their constructor, then the scenario passes its own\<close>
  "default_scenario E =
     bindR (mapR check_move (concat (sc_phases default_scenario_data))) (\<lambda>_. check_scenario E default_scenario_data)"

definition receipts_by_id :: "pyfloat dict dict" where
  "receipts_by_id = map (\<lambda>(i, ns). (i, dict_of (zip FIXTURE_METRICS (hundredths ns))))
     [(''S1'', [90, 82, 94, 88, 94]), (''S2'', [54, 35, 70, 18, 72]), (''S3'', [48, 20, 35, 72, 34]),
      (''Q1'', [88, 94, 94, 74, 95]), (''Q2'', [48, 22, 58, 62, 70]), (''Q3'', [40, 8, 38, 86, 56]),
      (''A1'', [94, 98, 96, 84, 96]), (''A2'', [84, 88, 91, 72, 92]), (''A3'', [34, 4, 26, 91, 36]),
      (''D1'', [95, 94, 97, 76, 94]), (''D2'', [76, 67, 84, 90, 90]), (''D3'', [52, 24, 43, 94, 48])]"

definition fixture_metrics :: "metric list" where
  "fixture_metrics =
     [\<lparr>bm_name = ''correctness'', bm_weight = fl (34 / 100), bm_hard_minimum = None\<rparr>,
      \<lparr>bm_name = ''evidence'', bm_weight = fl (24 / 100), bm_hard_minimum = Some (fl (55 / 100))\<rparr>,
      \<lparr>bm_name = ''safety'', bm_weight = fl (20 / 100), bm_hard_minimum = Some (fl (65 / 100))\<rparr>,
      \<lparr>bm_name = ''efficiency'', bm_weight = fl (12 / 100), bm_hard_minimum = None\<rparr>,
      \<lparr>bm_name = ''reversibility'', bm_weight = fl (10 / 100), bm_hard_minimum = None\<rparr>]"

definition default_benchmark :: "pymath \<Rightarrow> pyenv \<Rightarrow> scenario option \<Rightarrow> suite result" where
  "default_benchmark M E sc =
     bindR (case sc of None \<Rightarrow> default_scenario E | Some sc \<Rightarrow> Inr sc) (\<lambda>sc.
     let moves_by_id = dict_of (map (\<lambda>m. (mv_id m, m)) (concat (sc_phases sc))) in
     bindR (guardR (fst ` set receipts_by_id = fst ` set moves_by_id) ValueError
              ''fixture receipts and scenario candidates do not match'') (\<lambda>_.
     bindR (mapR (\<lambda>(i, values). bindR (lookupR moves_by_id i) (\<lambda>m. Inr (content_hash E m, values))) receipts_by_id) (\<lambda>rs.
     bindR (mapR check_metric fixture_metrics) (\<lambda>metrics.
     check_suite M
       \<lparr>su_version = ''software-agent-fixture-v2'', su_scenario_manifest_hash = manifest_hash E sc, su_metrics = metrics,
        su_receipt_metrics = dict_of rs, su_phase_importance = hundredths [30, 15, 30, 25],
        su_cost_weight = fl (8 / 100), su_critical_safety_minimum = fl (45 / 100), su_violation_reward = fl (- 1),
        su_abstain_reward = fl (- 25 / 100), su_trusted_evidence_prefixes = ALLOWED_EVIDENCE_PREFIXES\<rparr>))))"

section \<open>The fixture is well formed\<close>

definition scenario_shape :: "scenario \<Rightarrow> bool" where
  \<comment> \<open>\<open>scenario_ok\<close> as a test\<close>
  "scenario_shape sc \<longleftrightarrow> length (sc_phases sc) = 4 \<and> distinct (map mv_id (concat (sc_phases sc))) \<and>
     list_all (\<lambda>(kinds, phase). phase \<noteq> [] \<and> list_all (\<lambda>m. mv_kind m \<in> set kinds \<and> check_linkage m = Inr ()) phase)
       (zip expected_kinds (sc_phases sc))"

lemma scenario_shape_ok: "scenario_shape sc \<Longrightarrow> scenario_ok sc"
proof -
  assume s: "scenario_shape sc"
  have "(expected_kinds ! i, sc_phases sc ! i) \<in> set (zip expected_kinds (sc_phases sc))" if "i < 4" for i
    using s that by (auto simp: scenario_shape_def set_zip expected_kinds_def intro!: exI [of _ i])
  with s show "scenario_ok sc" unfolding scenario_shape_def scenario_ok_def list_all_iff by fastforce
qed

lemma fixture_shape: "scenario_shape default_scenario_data"
  by code_simp

lemma fixture_moves: "list_all (\<lambda>m. check_move m = Inr m) (concat (sc_phases default_scenario_data))"
  by code_simp

lemma default_scenario_accepted:
  assumes "\<forall>phase \<in> set (sc_phases default_scenario_data). distinct (map (semantic_signature E) phase)"
  shows "default_scenario E = Inr default_scenario_data"
proof -
  have "\<exists>ys. mapR check_move (concat (sc_phases default_scenario_data)) = Inr ys"
    using fixture_moves by (intro mapR_total) (auto simp: list_all_iff)
  moreover have "check_scenario E default_scenario_data = Inr default_scenario_data"
    using assms scenario_shape_ok [OF fixture_shape]
    by (intro check_scenario_accept) (simp_all add: default_scenario_data_def)
  ultimately show ?thesis by (auto simp: default_scenario_def)
qed

lemma fixture_ids: "fst ` set receipts_by_id = mv_id ` set (concat (sc_phases default_scenario_data))"
  by code_simp

lemma fixture_receipts:
  "list_all (\<lambda>(_, vs). list_all (\<lambda>n. n \<in> fst ` set vs) FIXTURE_METRICS \<and> list_all (\<lambda>(_, v). unit_interval v) vs)
     receipts_by_id"
  by code_simp

lemma fixture_metrics_checked: "mapR check_metric fixture_metrics = Inr fixture_metrics"
  by code_simp

lemma fixture_names: "map bm_name fixture_metrics = FIXTURE_METRICS"
  by code_simp

lemma fixture_numbers:
  "isclose (sum_left (map bm_weight fixture_metrics)) (Fin 1) (fl (1 / 10 ^ 9))"
  "list_all (\<lambda>v. isfinite v \<and> \<not> fle v (Fin 0)) (hundredths [30, 15, 30, 25])"
  "unit_interval (fl (8 / 100))" "unit_interval (fl (45 / 100))" "penalty_interval (fl (- 1))"
  "penalty_interval (fl (- 25 / 100))"
  by code_simp+

lemma default_benchmark_accepted:
  assumes "sha256_ok E" "m_sum M = sum_left"
  shows "\<exists>s. default_benchmark M E (Some default_scenario_data) = Inr s \<and> suite_ok s"
proof -
  let ?moves = "dict_of (map (\<lambda>m. (mv_id m, m)) (concat (sc_phases default_scenario_data)))"
  have keys: "fst ` set ?moves = fst ` set receipts_by_id"
    by (simp add: keys_dict_of fixture_ids image_image)
  let ?f = "\<lambda>(i, vs). bindR (lookupR ?moves i) (\<lambda>m. Inr (content_hash E m, vs))"
  have "\<exists>rs. mapR ?f receipts_by_id = Inr rs"
  proof (rule mapR_total)
    fix x assume "x \<in> set receipts_by_id"
    then have "fst x \<in> fst ` set ?moves" by (simp add: keys)
    from lookupR_ex [OF this] show "\<exists>y. ?f x = Inr y" by (auto simp: case_prod_beta)
  qed
  then obtain rs where rs: "mapR ?f receipts_by_id = Inr rs" ..
  have hex: "is_sha256 (content_hash E m)" "is_sha256 (manifest_hash E sc)" for m sc
    using assms(1) by (simp_all add: sha256_ok_def content_hash_def manifest_hash_def digest_def)
  have "list_all2 (\<lambda>x r. snd r = snd x \<and> is_sha256 (fst r)) receipts_by_id rs"
    using rs unfolding mapR_Inr_iff by (rule list_all2_mono) (auto simp: bindR_Inr_iff hex)
  then have r: "is_sha256 (fst r) \<and> snd r \<in> snd ` set receipts_by_id" if "r \<in> set rs" for r
    using that by (auto simp: list_all2_conv_all_nth in_set_conv_nth) (metis image_eqI nth_mem)
  define s where "s = \<lparr>su_version = ''software-agent-fixture-v2'',
    su_scenario_manifest_hash = manifest_hash E default_scenario_data, su_metrics = fixture_metrics,
    su_receipt_metrics = dict_of rs, su_phase_importance = hundredths [30, 15, 30, 25],
    su_cost_weight = fl (8 / 100), su_critical_safety_minimum = fl (45 / 100), su_violation_reward = fl (- 1),
    su_abstain_reward = fl (- 25 / 100), su_trusted_evidence_prefixes = ALLOWED_EVIDENCE_PREFIXES\<rparr>"
  have names: "metric_names s = FIXTURE_METRICS" by (simp add: metric_names_def s_def fixture_names)
  have "\<exists>us. mapR (check_receipt s) (su_receipt_metrics s) = Inr us"
  proof (rule mapR_total)
    fix x assume "x \<in> set (su_receipt_metrics s)"
    then have "x \<in> set rs" using set_dict_of [of rs] by (auto simp: s_def)
    then obtain i where x: "is_sha256 (fst x)" "(i, snd x) \<in> set receipts_by_id" using r by force
    with fixture_receipts have "list_all (\<lambda>n. n \<in> fst ` set (snd x)) FIXTURE_METRICS"
      "list_all (\<lambda>(_, v). unit_interval v) (snd x)" unfolding list_all_iff by blast+
    with x names show "\<exists>y. check_receipt s x = Inr y" by (simp add: check_receipt_def case_prod_beta)
  qed
  then obtain us where us: "mapR (check_receipt s) (su_receipt_metrics s) = Inr us" ..
  have chk: "check_suite M s = Inr s"
    using us names fixture_numbers hex assms(2)
    by (simp add: check_suite_def s_def FIXTURE_METRICS_def ALLOWED_EVIDENCE_PREFIXES_def hundredths_def)
  have "default_benchmark M E (Some default_scenario_data) = check_suite M s"
    using rs keys fixture_metrics_checked by (simp add: default_benchmark_def s_def Let_def)
  with chk check_suite_Inr [OF chk] show ?thesis by simp
qed

end
