(* ===== verification/EngineInstances.thy ===== *)
theory EngineInstances
  imports EngineFixture Instances
begin

text \<open>
  Concrete values for the engine: a digest that separates small texts, arithmetic for the functions
  of the C library, and a scenario with one candidate per phase.
\<close>

section \<open>Evaluation of digests\<close>

fun plain_char :: "char \<Rightarrow> bool" where
  \<comment> \<open>printable ASCII but the quotation mark and the backslash\<close>
  "plain_char (Char b0 b1 b2 b3 b4 b5 b6 b7) \<longleftrightarrow> \<not> b7 \<and> (b5 \<or> b6)
     \<and> \<not> (b6 \<and> b5 \<and> b4 \<and> b3 \<and> b2 \<and> b1 \<and> b0) \<and> \<not> (\<not> b6 \<and> b5 \<and> \<not> b4 \<and> \<not> b3 \<and> \<not> b2 \<and> b1 \<and> \<not> b0)
     \<and> \<not> (b6 \<and> \<not> b5 \<and> b4 \<and> b3 \<and> b2 \<and> \<not> b1 \<and> \<not> b0)"

definition quote_points :: "string \<Rightarrow> string" where
  "quote_points s = CHR 0x22 # concat (map escape_point (code_points s)) @ [CHR 0x22]"

lemma plain_char_code:
  assumes "plain_char c" shows "32 \<le> (of_char c :: nat)" "(of_char c :: nat) < 127" "escape_char c = [c]"
proof -
  obtain b0 b1 b2 b3 b4 b5 b6 b7 where c: "c = Char b0 b1 b2 b3 b4 b5 b6 b7" by (cases c)
  from assms show range: "32 \<le> (of_char c :: nat)" "(of_char c :: nat) < 127"
    unfolding c by (cases b0; cases b1; cases b2; cases b3; cases b4; cases b5; cases b6; cases b7; simp add: of_char_def)+
  from assms have "c \<noteq> CHR 0x22" "c \<noteq> CHR 0x5C" by auto
  with range show "escape_char c = [c]" by (auto simp: escape_char_def)
qed

lemma escape_points_plain:
  assumes "list_all plain_char s" shows "concat (map escape_point (code_points s)) = s"
  using assms
proof (induction s)
  case (Cons c s)
  with plain_char_code [of c] show ?case by (simp add: Let_def escape_point_def)
qed simp

lemma quote_ascii_code [code]:
  "quote_ascii s = (if list_all plain_char s then CHR 0x22 # s @ [CHR 0x22] else quote_points s)"
  by (simp add: quote_ascii_def quote_points_def escape_points_plain)

definition bit_weight :: "bool \<Rightarrow> int \<Rightarrow> int \<Rightarrow> int" where
  "bit_weight b w h = (if b then h + w else h)"

fun char_weight :: "char \<Rightarrow> int \<Rightarrow> int" where
  "char_weight (Char b0 b1 b2 b3 b4 b5 b6 b7) h = bit_weight b0 1 (bit_weight b1 2 (bit_weight b2 4 (bit_weight b4 7 h)))"

definition text_hash :: "string \<Rightarrow> int" where
  "text_hash s = fold char_weight s 0"

definition hash1 :: "int \<Rightarrow> string" where
  "hash1 n = take 64 (str_of_int n @ replicate 64 CHR ''0'')"

definition E1 :: pyenv where
  \<comment> \<open>a toy digest of 64 hexadecimal characters\<close>
  "E1 = E0\<lparr>sha256 := (\<lambda>m. hash1 (text_hash m))\<rparr>"

definition M1 :: pymath where
  "M1 = \<lparr>m_log = (\<lambda>_. Fin 0), m_exp = (\<lambda>_. Fin 1), m_tanh = (\<lambda>x. fmax (Fin (- 1)) (fmin (Fin 1) x)), m_sqrt = (\<lambda>x. x),
     m_pow = (\<lambda>x y. Inr x), m_sum = sum_left\<rparr>"

section \<open>A small scenario\<close>

definition move1 :: "string \<Rightarrow> move_kind \<Rightarrow> move" where
  "move1 i kind =
     \<lparr>mv_id = i, mv_action_key = i, mv_kind = kind, mv_actor = ''a'', mv_text = [], mv_base_prior = Fin 1,
      mv_predicted_metrics = [(''safety'', Fin 1)], mv_cost = Fin (1 / 4), mv_tags = [''t''], mv_opens_question = None,
      mv_requires_question = None, mv_resolves_question = None, mv_evidence_refs = [], mv_violations = []\<rparr>"

definition p1 :: move where "p1 = move1 ''P'' PROPOSE"
definition q1 :: move where "q1 = (move1 ''Q'' QUESTION)\<lparr>mv_opens_question := Some ''q''\<rparr>"
definition a1 :: move where
  "a1 = (move1 ''A'' ANSWER)\<lparr>mv_requires_question := Some ''q'', mv_resolves_question := Some ''q'',
     mv_evidence_refs := [''trace://x'']\<rparr>"
definition c1 :: move where "c1 = move1 ''C'' COMMIT"

definition sc1 :: scenario where
  "sc1 = \<lparr>sc_name = ''s'', sc_version = ''1'', sc_description = [], sc_phases = [[p1], [q1], [a1], [c1]]\<rparr>"

lemma hashes1:
  "content_hash E1 p1 = hash1 1326" "content_hash E1 q1 = hash1 1322" "content_hash E1 a1 = hash1 1342"
  "content_hash E1 c1 = hash1 1298" "manifest_hash E1 sc1 = hash1 2245"
  by code_simp+

definition suite1 :: suite where
  "suite1 = \<lparr>su_version = ''b1'', su_scenario_manifest_hash = hash1 2245,
     su_metrics = [\<lparr>bm_name = ''safety'', bm_weight = Fin 1, bm_hard_minimum = Some (Fin (1 / 2))\<rparr>],
     su_receipt_metrics = map (\<lambda>n. (hash1 n, [(''safety'', Fin (3 / 4))])) [1326, 1322, 1342, 1298],
     su_phase_importance = [Fin 1, Fin 1, Fin 1, Fin 1], su_cost_weight = Fin (1 / 4),
     su_critical_safety_minimum = Fin (1 / 2), su_violation_reward = Fin (- 1), su_abstain_reward = Fin (- 1 / 4),
     su_trusted_evidence_prefixes = [''trace://'']\<rparr>"

lemma E1_sha256: "sha256_ok E1"
proof -
  have d: "c \<in> set (str_of_int n) \<Longrightarrow> 0 \<le> n \<Longrightarrow> lower_hex c" for c n
  proof -
    assume "c \<in> set (str_of_int n)" "0 \<le> n"
    then have "is_digit c" using digits_chars [of "nat n"] by (auto simp: str_of_int_def list_all_iff)
    then have "char_of (of_char c :: nat) \<in> set (map char_of [48 ..< 58::nat])"
      unfolding set_map by (intro imageI) (simp add: is_digit_def del: upt_rec_numeral)
    then have "c \<in> set (map char_of [48 ..< 58::nat])" unfolding char_of_char .
    moreover have "\<forall>c \<in> set (map char_of [48 ..< 58::nat]). lower_hex c" by code_simp
    ultimately show "lower_hex c" by blast
  qed
  have "0 \<le> fold char_weight s h" if "0 \<le> h" for s h
    using that
  proof (induction s arbitrary: h)
    case (Cons c s)
    have "0 \<le> char_weight c h" using Cons.prems by (cases c) (simp add: bit_weight_def)
    with Cons.IH show ?case by simp
  qed simp
  then have "0 \<le> text_hash s" for s by (simp add: text_hash_def)
  have z: "lower_hex CHR ''0''" by (simp add: lower_hex_def)
  have "is_sha256 (hash1 n)" if n: "0 \<le> n" for n
  proof -
    have "lower_hex c" if "c \<in> set (hash1 n)" for c
      using in_set_takeD [OF that [unfolded hash1_def]] d [OF _ n] z by auto
    then show ?thesis by (simp add: is_sha256_def list_all_iff) (simp add: hash1_def)
  qed
  with \<open>\<And>s. 0 \<le> text_hash s\<close> show ?thesis by (simp add: sha256_ok_def E1_def)
qed

lemma sc1_checked: "check_scenario E1 sc1 = Inr sc1"
  by code_simp

lemma sc1_ok: "scenario_ok sc1"
  using check_scenario_Inr [OF sc1_checked] by simp

lemma sc1_moves: "moves_checked sc1"
  by code_simp

lemma suite1_checked: "check_suite M1 suite1 = Inr suite1"
  by code_simp

lemma suite1_ok: "suite_ok suite1"
  using check_suite_Inr [OF suite1_checked] by simp

lemma replay_reached:
  "replay E sc benched ms p = Inr (states, q) \<Longrightarrow> reached E sc benched p \<Longrightarrow> reached E sc benched q"
  by (induction ms arbitrary: p states) (auto simp: bindR_Inr_iff intro: reached.step)

definition pos1 :: position where
  \<comment> \<open>the position after the four moves of the scenario\<close>
  "pos1 = (case replay E1 sc1 [] [p1, q1, a1, c1] (initial_position sc1) of
     Inl _ \<Rightarrow> initial_position sc1 | Inr (_, p) \<Rightarrow> p)"

lemma pos1_code [code]:
  "pos1 = \<lparr>ps_scenario = ''s'', ps_scenario_version = ''1'', ps_phase = 4, ps_trajectory = [p1, q1, a1, c1],
     ps_open_questions = [], ps_evidence_refs = [''trace://x''], ps_spent_cost = Fin 1, ps_violations = [],
     ps_terminal_status = Some COMMITTED\<rparr>"
  by code_simp

lemma pos1_reached: "reached E1 sc1 [] pos1"
proof -
  have "\<exists>states q. replay E1 sc1 [] [p1, q1, a1, c1] (initial_position sc1) = Inr (states, q)"
  proof -
    have "case replay E1 sc1 [] [p1, q1, a1, c1] (initial_position sc1) of Inl _ \<Rightarrow> False | Inr _ \<Rightarrow> True"
      by code_simp
    then show ?thesis by (auto split: sum.splits)
  qed
  then obtain states q where r: "replay E1 sc1 [] [p1, q1, a1, c1] (initial_position sc1) = Inr (states, q)" by blast
  then have "pos1 = q" unfolding pos1_def r by simp
  with replay_reached [OF r reached.start] show ?thesis by simp
qed

section \<open>A search in which every agent is benched\<close>

definition model2 :: model where
  "model2 = default_model\<lparr>pm_agent_records := [(''a'', \<lparr>ar_alpha = Fin 1, ar_beta = Fin 9, ar_benched = True\<rparr>)]\<rparr>"

definition se2 :: search where
  "se2 = \<lparr>se_scenario = sc1, se_benchmark = suite1, se_model = model2, se_c_puct = Fin 1, se_root_noise_fraction = Fin 0,
    se_gamma = (\<lambda>_. Fin 1), se_draws = 0, se_score_cache = [], se_benchmark_evaluations = 0\<rparr>"

lemma model2_ok: "check_model model2 = Inr model2"
  by code_simp

lemma se2_covered: "covered_by E1 sc1 suite1"
  by code_simp

lemma fields1: "su_scenario_manifest_hash suite1 = hash1 2245" "length (su_phase_importance suite1) = length (sc_phases sc1)"
  by (simp_all add: suite1_def sc1_def)

lemma se2_new: "new_search E1 sc1 suite1 model2 (Fin 1) (\<lambda>_. Fin 1) (Fin 0) = Inr se2"
  using model2_ok se2_covered by (simp add: new_search_def se2_def frozen_copy_def hashes1 fields1)

lemma se2_simps [simp]:
  "se_scenario se2 = sc1" "se_benchmark se2 = suite1" "se_benched se2 = [''a'']" "se_model se2 = model2"
  by (simp_all add: se2_def se_benched_def benched_agents_def model2_def)

lemma no_moves2: "legal_moves sc1 (initial_position sc1) [''a''] = Inr []"
  by code_simp

lemma reached2: "reached E1 sc1 [''a''] p \<Longrightarrow> p = initial_position sc1"
proof (induction rule: reached.induct)
  case (step p m p')
  then show ?case by (simp add: apply_move_def no_moves2 dict_of_def raiseR_def)
qed simp

lemma hashes2: "state_hash E1 (initial_position sc1) \<noteq> state_hash E1 (safe_abstain sc1 SYSTEM_ABSTAIN_TEXT)"
  by code_simp

lemma se2_collision_free: "collision_free E1 se2"
  using hashes2 by (auto simp: collision_free_def inj_on_def dest!: reached2)

lemma is_sha256_experience: "is_sha256 (experience_digest E1 a b c d e f g h)"
  using E1_sha256 by (simp add: experience_digest_def digest_def sha256_ok_def)

lemma rate_ok: "learning_rate_ok (fl (12 / 100))"
  by code_simp

lemma se2_run: "\<exists>r se'. run M1 E1 1 se2 = (Inr r, se') \<and> sr_policy_targets r = []"
proof -
  have nt: "\<not> is_terminal (initial_position sc1)" by (simp add: is_terminal_def initial_position_def)
  have se: "se_root_noise_fraction se2 = Fin 0" "se_score_cache se2 = []" by (simp_all add: se2_def)
  have i: "initialise M1 b (new_node (initial_position sc1) None (Fin 1)) se2
      = (Inr (with_moves [] [] (new_node (initial_position sc1) None (Fin 1))), se2)" for b
    by (simp add: initialise_def bind_apply no_moves2 priors_def se py_sorted_def)
  have sim: "simulate M1 E1 (with_moves [] [] (new_node (initial_position sc1) None (Fin 1))) se2
      = (Inr (Fin (- 1), visit (Fin (- 1)) (with_moves [] [] (new_node (initial_position sc1) None (Fin 1)))), se2)"
    by (subst simulate.simps) (simp add: nt ensure_initialised_def bind_apply suite1_def)
  obtain sd where ev: "evaluate M1 E1 suite1 (safe_abstain sc1 SYSTEM_ABSTAIN_TEXT) = Inr sd"
    using evaluate_total [OF suite1_ok] by blast
  then obtain se3 where sc: "score M1 E1 (safe_abstain sc1 SYSTEM_ABSTAIN_TEXT) se2 = (Inr sd, se3)"
    by (auto simp: score_def se)
  have tp: "terminal_paths [] (visit v (with_moves [] [] (new_node (initial_position sc1) None (Fin 1)))) = []" for v
    by (subst terminal_paths.simps) (simp add: nt)
  show ?thesis
    by (simp add: run_def andthen_apply bind_apply require_apply i sim tp selection_def sc check_result_def
        is_sha256_experience Let_def)
qed

lemma learning_example: "\<exists>r m'. learn_from_result M1 E1 sc1 suite1 model2 r = Inr m'"
proof -
  obtain r se' where run: "run M1 E1 1 se2 = (Inr r, se')" and t: "sr_policy_targets r = []" using se2_run by blast
  note ok = new_search_ok [OF se2_new sc1_ok suite1_ok se2_collision_free]
  from validate_own_result [OF se2_new sc1_ok suite1_ok se2_collision_free run] obtain v
    where v: "validate_result M1 E1 sc1 suite1 model2 r = Inr (sr_score r, v)" by blast
  then obtain p where p: "evaluate M1 E1 suite1 p = Inr (sr_score r)"
    "system_abstain (sr_trajectory r) \<and> p = safe_abstain sc1 SYSTEM_ABSTAIN_TEXT \<or>
     (\<exists>states. replay E1 sc1 [''a''] (sr_trajectory r) (initial_position sc1) = Inr (states, p))"
    by (auto simp: validate_result_def replay_result_def bindR_Inr_iff benched_agents_def model2_def split: if_splits)
  from v t have "v = []" by (auto simp: validate_result_def bindR_Inr_iff)
  moreover have "nonneg (ps_spent_cost p)"
    using p(2) reached_cost [OF sc1_ok sc1_moves replay_reached [OF _ reached.start]] by auto
  then have "fin_between (- 1) (sd_reward (sr_score r)) 1"
    by (rule evaluate_reward(1) [OF suite1_ok _ p(1)])
  then have "\<exists>m'. learn_value M1 model2 (initial_position sc1) (sd_reward (sr_score r)) (fl (12 / 100)) = Inr m'"
    using rate_ok by (auto simp: learn_value_def learned_value_def value_features_def initial_position_def fin_between_def
        Let_def)
  moreover have "frozen_copy model2 = Inr model2" using model2_ok by (simp add: frozen_copy_def)
  ultimately have "\<exists>m'. learn_from_result M1 E1 sc1 suite1 model2 r = Inr m'"
    using v by (auto simp: learn_from_result_def)
  then show ?thesis by blast
qed

section \<open>A scenario whose answer opens a question\<close>

definition bad_answer :: move where
  "bad_answer = a1\<lparr>mv_opens_question := Some ''q''\<rparr>"

definition sc_bad :: scenario where
  "sc_bad = sc1\<lparr>sc_phases := [[p1], [q1], [bad_answer], [c1]]\<rparr>"

end
