(* ===== verification/EngineProperties.thy ===== *)
theory EngineProperties
  imports EngineInstances
begin

text \<open>
  The properties of the engine: the game, the governed evaluator, the search and the learner, each
  with a concrete instance where it has hypotheses.
\<close>

section \<open>The game\<close>

text \<open>
  C15. In a scenario its constructor accepted, every position reached by play satisfies the invariant
  of positions: the phase is the number of moves, at most four; the \<open>i\<close>-th move is a candidate of
  phase \<open>i\<close>; exactly one question is open after the question phase and at most one later, none if no
  answer opens one; the position is terminal exactly after four moves, with the status of the last
  move; and no move of a benched agent was played.
\<close>

theorem reached_positions_ok:
  assumes "check_scenario E sc = Inr sc'" "reached E sc' benched p"
  shows "position_ok sc' p \<and> (\<forall>m \<in> set (ps_trajectory p). mv_actor m \<notin> set benched)"
  using check_scenario_Inr [OF assms(1)] reached_ok reached_actors assms(2) by metis

theorem reached_positions_ok_witness: "position_ok sc1 pos1"
  using reached_positions_ok [OF sc1_checked pos1_reached] by blast

text \<open>
  C16. \<open>apply\<close> plays only canonical candidates: whatever move it is given, when it succeeds the
  trajectory grows by the candidate of the current phase that has the same id and the same content
  hash and belongs to an agent that is not benched.
\<close>

theorem apply_plays_canonical_candidate:
  assumes "check_scenario E sc = Inr sc'" "reached E sc' benched p" "apply_move E sc' p m benched = Inr p'"
  shows "\<exists>c \<in> set (sc_phases sc' ! ps_phase p). mv_id c = mv_id m \<and> content_hash E c = content_hash E m \<and>
    mv_actor c \<notin> set benched \<and> ps_trajectory p' = ps_trajectory p @ [c] \<and>
    ps_spent_cost p' = fadd (ps_spent_cost p) (mv_cost c) \<and> ps_terminal_status p' = status_after c"
proof -
  have sc: "scenario_ok sc'" using check_scenario_Inr [OF assms(1)] by simp
  from apply_move_ok [OF sc reached_ok [OF sc assms(2)] assms(3)] obtain c qs where
    "p' = play p c qs" "c \<in> set (sc_phases sc' ! ps_phase p)" "mv_actor c \<notin> set benched" "mv_id c = mv_id m"
    "content_hash E m = content_hash E c" .
  then show ?thesis by auto
qed

theorem apply_plays_canonical_candidate_witness:
  "\<exists>p'. apply_move E1 sc1 (initial_position sc1) p1 [] = Inr p' \<and> ps_trajectory p' = [p1]"
proof -
  have "case apply_move E1 sc1 (initial_position sc1) p1 [] of Inl _ \<Rightarrow> False | Inr _ \<Rightarrow> True" by code_simp
  then obtain p' where p': "apply_move E1 sc1 (initial_position sc1) p1 [] = Inr p'" by (auto split: sum.splits)
  from apply_plays_canonical_candidate [OF sc1_checked reached.start p'] p' show ?thesis
    by (auto simp: initial_position_def sc1_def)
qed

text \<open>
  In an accepted scenario whose answers open no question, every move offered by \<open>legal_moves\<close>
  in a reached position can be applied.
\<close>

theorem offered_moves_apply:
  assumes "check_scenario E sc = Inr sc'" "answers_close sc'" "reached E sc' benched p"
    "legal_moves sc' p benched = Inr legal" "m \<in> set legal"
  shows "\<exists>p'. apply_move E sc' p m benched = Inr p' \<and> ps_trajectory p' = ps_trajectory p @ [m]"
proof -
  have sc: "scenario_ok sc'" using check_scenario_Inr [OF assms(1)] by simp
  from legal_applies [OF sc reached_ok [OF sc assms(3)] assms(2,4,5)] obtain qs
    where "apply_move E sc' p m benched = Inr (play p m qs)" by blast
  then show ?thesis by auto
qed

theorem offered_moves_apply_witness:
  "\<exists>p'. apply_move E1 sc1 (initial_position sc1) p1 [] = Inr p' \<and> ps_trajectory p' = [p1]"
proof -
  have "answers_close sc1" by code_simp
  moreover have "legal_moves sc1 (initial_position sc1) [] = Inr [p1]" by code_simp
  ultimately show ?thesis
    using offered_moves_apply [OF sc1_checked _ reached.start, of "[]" "[p1]" p1] by (auto simp: initial_position_def)
qed

text \<open>
  The condition on answers is needed: the constructor accepts a scenario with an answer that opens the
  question it resolves; \<open>legal_moves\<close> offers this answer and \<open>apply\<close> raises.
\<close>

lemma reopening_answer_accepted: "check_scenario E1 sc_bad = Inr sc_bad"
  by code_simp

lemma reopening_answer_offered_but_raises:
  "\<exists>p. reached E1 sc_bad [] p \<and> legal_moves sc_bad p [] = Inr [bad_answer] \<and>
     apply_move E1 sc_bad p bad_answer [] = raiseR ValueError ''question is already open''"
proof -
  let ?r = "replay E1 sc_bad [] [p1, q1] (initial_position sc_bad)"
  have "case ?r of Inl _ \<Rightarrow> False | Inr (_, p) \<Rightarrow> legal_moves sc_bad p [] = Inr [bad_answer] \<and>
      apply_move E1 sc_bad p bad_answer [] = raiseR ValueError ''question is already open''" by code_simp
  then obtain states p where "?r = Inr (states, p)" "legal_moves sc_bad p [] = Inr [bad_answer]"
    "apply_move E1 sc_bad p bad_answer [] = raiseR ValueError ''question is already open''"
    by (auto split: sum.splits)
  with replay_reached [OF this(1) reached.start] show ?thesis by blast
qed

section \<open>The governed evaluator\<close>

text \<open>
  C17. A suite its constructor accepted evaluates every position: no missing key and no division by
  zero can make \<open>evaluate\<close> raise.
\<close>

theorem checked_suite_evaluates:
  assumes "check_suite M s = Inr s'"
  shows "\<exists>sd. evaluate M E s' p = Inr sd"
  using check_suite_Inr [OF assms] evaluate_total by metis

theorem checked_suite_evaluates_witness: "\<exists>sd. evaluate M1 E1 suite1 pos1 = Inr sd"
  by (rule checked_suite_evaluates [OF suite1_checked])

text \<open>
  C18. A position that is not an abstention is scored feasible exactly if it passes every hard gate:
  it ends in an explicit commit, has no violation and no open question, its length is the number of
  phases, it holds evidence with a trusted prefix, every move has an independent receipt whose safety
  is not below the critical minimum, and every metric reaches its hard minimum.
\<close>

theorem feasible_iff_gates_passed:
  assumes "evaluate M E s p = Inr sd" "ps_terminal_status p \<noteq> Some ABSTAINED"
  shows "sd_feasible sd \<longleftrightarrow> gates_passed E s p (sd_metrics sd)"
  by (rule feasible_gates [OF assms])

theorem feasible_iff_gates_passed_witness:
  "\<exists>sd. evaluate M1 E1 suite1 pos1 = Inr sd \<and> gates_passed E1 suite1 pos1 (sd_metrics sd)"
proof -
  have "case evaluate M1 E1 suite1 pos1 of Inl _ \<Rightarrow> False | Inr sd \<Rightarrow> sd_feasible sd" by code_simp
  then obtain sd where "evaluate M1 E1 suite1 pos1 = Inr sd" "sd_feasible sd" by (auto split: sum.splits)
  with feasible_iff_gates_passed [of M1 E1 suite1 pos1 sd] show ?thesis by (auto simp: pos1_code)
qed

text \<open>
  C19. The reward of a reached position is a finite number in [-1, 1], whatever the sums, receipts and
  costs round to; an abstention earns at most 0; and an infeasible position earns exactly the
  violation reward of the suite.
\<close>

theorem rewards_bounded:
  assumes "check_suite M s = Inr s'" "check_scenario E sc = Inr sc'" "moves_checked sc'" "reached E sc' benched p"
    "evaluate M E s' p = Inr sd"
  shows "fin_between (- 1) (sd_reward sd) 1 \<and> (sd_outcome_status sd = Some ABSTAINED \<longrightarrow> fin_between (- 1) (sd_reward sd) 0)
    \<and> (\<not> sd_feasible sd \<longrightarrow> sd_reward sd = su_violation_reward s')"
proof -
  have s: "suite_ok s'" and sc: "scenario_ok sc'"
    using check_suite_Inr [OF assms(1)] check_scenario_Inr [OF assms(2)] by simp_all
  from evaluate_reward [OF s reached_cost [OF sc assms(3,4)] assms(5)] show ?thesis by blast
qed

theorem rewards_bounded_witness:
  "\<exists>sd. evaluate M1 E1 suite1 pos1 = Inr sd \<and> fin_between (- 1) (sd_reward sd) 1"
  using rewards_bounded [OF suite1_checked sc1_checked sc1_moves pos1_reached] evaluate_total [OF suite1_ok] by metis

text \<open>
  C20. The optimised single pass of \<open>evaluate\<close> computes the reference definition of a metric: the sum
  of the receipts of the path weighted by the importance of their phases, in order, divided by the
  sum of these importances, or 0 when no importance was collected.
\<close>

theorem metrics_are_weighted_means:
  assumes "check_suite M s = Inr s'" "ps_terminal_status p \<noteq> Some ABSTAINED" "evaluate M E s' p = Inr sd"
    "n \<in> set (metric_names s')"
  shows "\<exists>v. map_of (sd_metrics sd) n = Some v \<and>
    mean_metric (path_receipts E s' (enumerate 0 (ps_trajectory p))) n = Inr v"
proof -
  have "suite_ok s'" using check_suite_Inr [OF assms(1)] by simp
  from evaluate_metrics [OF this assms(4,2,3)] show ?thesis .
qed

theorem metrics_are_weighted_means_witness:
  "\<exists>sd v. evaluate M1 E1 suite1 pos1 = Inr sd \<and> map_of (sd_metrics sd) ''safety'' = Some v"
proof -
  obtain sd where sd: "evaluate M1 E1 suite1 pos1 = Inr sd" using evaluate_total [OF suite1_ok] by blast
  from metrics_are_weighted_means [OF suite1_checked _ sd, of "''safety''"] sd show ?thesis
    by (auto simp: pos1_code metric_names_def suite1_def)
qed

section \<open>The search\<close>

text \<open>
  Greedy completion returns from every reached position, after at most the phases that are left:
  if the candidates have finite logits and predictions for the metrics of the suite and no answer
  opens a question, it returns a reached position that is terminal or has no legal move.
\<close>

theorem greedy_completion_returns:
  assumes "check_scenario E (se_scenario se) = Inr sc'" "playable M se" "reached E (se_scenario se) (se_benched se) p"
  shows "\<exists>q. greedy_completion M E se p = Inr q \<and> reached E (se_scenario se) (se_benched se) q \<and>
    (is_terminal q \<or> legal_moves (se_scenario se) q (se_benched se) = Inr [])"
proof -
  have sc: "scenario_ok (se_scenario se)" using check_scenario_Inr [OF assms(1)] by simp
  from greedy_completion_total [OF sc assms(2) reached_ok [OF sc assms(3)]] obtain q
    where "greedy_completion M E se p = Inr q" by blast
  with greedy_completion_reached [OF this assms(3)] show ?thesis by blast
qed

theorem greedy_completion_returns_witness:
  "\<exists>q. greedy_completion M1 E1 (se2\<lparr>se_model := default_model\<rparr>) (initial_position sc1) = Inr q \<and> reached E1 sc1 [] q"
proof -
  let ?se = "se2\<lparr>se_model := default_model\<rparr>"
  have c: "check_scenario E1 (se_scenario ?se) = Inr sc1" using sc1_checked by simp
  have p: "playable M1 ?se" by code_simp
  have b: "se_benched ?se = []" by (simp add: se_benched_def benched_agents_def default_model_def)
  have s: "se_scenario ?se = sc1" by simp
  from greedy_completion_returns [OF c p, of "initial_position sc1"] show ?thesis
    unfolding b s using reached.start by blast
qed

text \<open>
  C21. A search run on a fresh search object whose digest separates the positions of the scenario
  returns a sound result: the score is the benchmark's evaluation of the final position (never the
  cached score of another one), it is feasible, its reward lies in [-1, 1], the abstention flag tells
  the final status, a result that is not an abstention passed every gate, the trajectory is that of the final
  position, and replaying the trajectory of a selected terminal from the start leads to the final
  position; no feasible terminal of the tree has a greater reward.
\<close>

theorem search_result_is_sound:
  assumes "check_scenario E sc = Inr sc'" "check_suite M s = Inr s'" "moves_checked sc'"
    "new_search E sc' s' m c gamma noise = Inr se" "collision_free E se" "run M E n se = (Inr r, se')"
  shows "evaluate M E s' (sr_final_position r) = Inr (sr_score r) \<and> sd_feasible (sr_score r) \<and>
    fin_between (- 1) (sd_reward (sr_score r)) 1 \<and>
    (sr_abstained r \<longleftrightarrow> ps_terminal_status (sr_final_position r) = Some ABSTAINED) \<and>
    (\<not> sr_abstained r \<longrightarrow> gates_passed E s' (sr_final_position r) (sd_metrics (sr_score r))) \<and>
    sr_trajectory r = ps_trajectory (sr_final_position r) \<and>
    (sr_terminal_path r = None \<and> sr_final_position r = safe_abstain sc' SYSTEM_ABSTAIN_TEXT \<or>
      (\<exists>states. replay E sc' (benched_agents m) (sr_trajectory r) (initial_position sc') = Inr (states, sr_final_position r))) \<and>
    (\<forall>path \<in> set (terminal_paths [] (sr_root r)). \<forall>sd. sr_terminal_path r \<noteq> None \<longrightarrow>
      evaluate M E s' (nd_position (last path)) = Inr sd \<longrightarrow> sd_feasible sd \<longrightarrow>
      \<not> flt (sd_reward (sr_score r)) (sd_reward sd))"
proof -
  have sc: "scenario_ok sc'" and s: "suite_ok s'"
    using check_scenario_Inr [OF assms(1)] check_suite_Inr [OF assms(2)] by simp_all
  note ns = new_search_Inr [OF assms(4)]
  obtain path tree where sel: "selected_ok M E se tree path (sr_trajectory r) (sr_final_position r) (sr_score r) (sr_abstained r)"
    and root: "sr_root r = tree" "sr_terminal_path r = path"
    using run_Inr [OF new_search_ok [OF assms(4) sc s assms(5)] assms(6)] by metis
  have b: "se_benched se = benched_agents m" by (simp add: se_benched_def ns)
  have cost: "nonneg (ps_spent_cost (sr_final_position r))"
  proof (cases path)
    case None
    with sel have "sr_final_position r = safe_abstain sc' SYSTEM_ABSTAIN_TEXT" by (simp add: selected_ok_def ns)
    then show ?thesis by simp
  next
    case (Some nds)
    with sel have "path_inv E sc' (benched_agents m) nds" "sr_final_position r = nd_position (last nds)"
      by (simp_all add: selected_ok_def ns b)
    with reached_cost [OF sc assms(3) path_inv_reached] show ?thesis by metis
  qed
  have ev: "evaluate M E s' (sr_final_position r) = Inr (sr_score r)" and f: "sd_feasible (sr_score r)"
    and a: "sr_abstained r \<longleftrightarrow> ps_terminal_status (sr_final_position r) = Some ABSTAINED"
    and t: "sr_trajectory r = ps_trajectory (sr_final_position r)"
    using sel by (simp_all add: selected_ok_def ns)
  have rew: "fin_between (- 1) (sd_reward (sr_score r)) 1" by (rule evaluate_reward(1) [OF s cost ev])
  have gates: "\<not> sr_abstained r \<longrightarrow> gates_passed E s' (sr_final_position r) (sd_metrics (sr_score r))"
    using feasible_gates [OF ev] f a by simp
  have rep: "sr_terminal_path r = None \<and> sr_final_position r = safe_abstain sc' SYSTEM_ABSTAIN_TEXT \<or>
      (\<exists>states. replay E sc' (benched_agents m) (sr_trajectory r) (initial_position sc') = Inr (states, sr_final_position r))"
    using sel by (auto simp: root selected_ok_def ns b path_inv_def split: option.splits)
  have best: "\<forall>path \<in> set (terminal_paths [] (sr_root r)). \<forall>sd. sr_terminal_path r \<noteq> None \<longrightarrow>
      evaluate M E s' (nd_position (last path)) = Inr sd \<longrightarrow> sd_feasible sd \<longrightarrow>
      \<not> flt (sd_reward (sr_score r)) (sd_reward sd)"
    using sel by (auto simp: root selected_ok_def ns split: option.splits)
  from ev f rew a gates t rep best show ?thesis by (intro conjI)
qed

theorem search_result_is_sound_witness:
  "\<exists>r se'. run M1 E1 1 se2 = (Inr r, se') \<and> sd_feasible (sr_score r)"
proof -
  obtain r se' where "run M1 E1 1 se2 = (Inr r, se')" using se2_run by blast
  with search_result_is_sound [OF sc1_checked suite1_checked sc1_moves se2_new se2_collision_free this]
  show ?thesis by blast
qed

text \<open>
  C22. A run of \<open>n\<close> simulations visits the root exactly \<open>n\<close> times, and every one of these simulations
  goes on to exactly one child of the root, unless the initial position has no legal move: the visit
  counts the policy targets are made of add up to the search budget.
\<close>

theorem search_budget_is_spent:
  assumes "check_scenario E sc = Inr sc'" "check_suite M s = Inr s'"
    "new_search E sc' s' m c gamma noise = Inr se" "collision_free E se" "run M E n se = (Inr r, se')"
  shows "nd_visits (sr_root r) = n \<and> child_visits (sr_root r) =
    (if legal_moves sc' (initial_position sc') (benched_agents m) = Inr [] then 0 else n)"
proof -
  have sc: "scenario_ok sc'" and s: "suite_ok s'"
    using check_scenario_Inr [OF assms(1)] check_suite_Inr [OF assms(2)] by simp_all
  note ns = new_search_Inr [OF assms(3)]
  have b: "se_benched se = benched_agents m" by (simp add: se_benched_def ns)
  show ?thesis
    using run_Inr [OF new_search_ok [OF assms(3) sc s assms(4)] assms(5)] by (metis ns(1) b)
qed

theorem search_budget_is_spent_witness:
  "\<exists>r se'. run M1 E1 1 se2 = (Inr r, se') \<and> nd_visits (sr_root r) = 1"
proof -
  obtain r se' where "run M1 E1 1 se2 = (Inr r, se')" using se2_run by blast
  with search_budget_is_spent [OF sc1_checked suite1_checked se2_new se2_collision_free this]
  show ?thesis by blast
qed

section \<open>Learning\<close>

text \<open>
  C23. The learner accepts what the search produced: every check \<open>learn_from_result\<close> makes before it
  trains (identities, content hash, replay of the trajectory, scorecard, policy targets on the selected
  path) passes on the result of a run with the same scenario, suite and model.
\<close>

theorem learner_accepts_search_result:
  assumes "check_scenario E sc = Inr sc'" "check_suite M s = Inr s'"
    "new_search E sc' s' m c gamma noise = Inr se" "collision_free E se" "run M E n se = (Inr r, se')"
  shows "\<exists>validated. validate_result M E sc' s' m r = Inr (sr_score r, validated)"
proof -
  have "scenario_ok sc'" "suite_ok s'"
    using check_scenario_Inr [OF assms(1)] check_suite_Inr [OF assms(2)] by simp_all
  from validate_own_result [OF assms(3) this assms(4,5)] show ?thesis .
qed

theorem learner_accepts_search_result_witness:
  "\<exists>r se' validated. run M1 E1 1 se2 = (Inr r, se') \<and> validate_result M1 E1 sc1 suite1 model2 r = Inr (sr_score r, validated)"
proof -
  obtain r se' where "run M1 E1 1 se2 = (Inr r, se')" using se2_run by blast
  with learner_accepts_search_result [OF sc1_checked suite1_checked se2_new se2_collision_free this]
  show ?thesis by blast
qed

text \<open>
  C24. A successful update publishes a valid model of the next generation: every weight and the bias
  stay within the limits whatever the targets and rewards are, the limits and the agent records are
  unchanged, and the number of value updates grows by the number of targets, at least by one.
\<close>

theorem learning_keeps_model_bounded:
  assumes "learn_from_result M E sc s m r = Inr m'"
  shows "check_model m' = Inr m' \<and> pm_generation m' = pm_generation m + 1 \<and> pm_agent_records m' = pm_agent_records m \<and>
    pm_policy_limit m' = pm_policy_limit m \<and> pm_value_limit m' = pm_value_limit m \<and>
    (\<exists>sd validated. validate_result M E sc s m r = Inr (sd, validated) \<and>
       pm_value_updates m' = pm_value_updates m + max 1 (int (length validated)))"
  using learn_from_result_Inr [OF assms] by (auto simp: check_model_iff)

theorem learning_keeps_model_bounded_witness:
  "\<exists>r m'. learn_from_result M1 E1 sc1 suite1 model2 r = Inr m' \<and> pm_generation m' = 1"
proof -
  obtain r m' where "learn_from_result M1 E1 sc1 suite1 model2 r = Inr m'" using learning_example by blast
  with learning_keeps_model_bounded [OF this] show ?thesis by (auto simp: model2_def default_model_def)
qed

text \<open>
  Benching is durable: an agent that is benched stays benched through shadow benchmarks, whether
  they succeed or raise, and through learning; and none of its moves is legal.
\<close>

theorem benched_agents_stay_out:
  assumes "is_benched m a" "distinct (map fst (pm_agent_records m))"
  shows "(shadow_benchmark_agents M E sc s m = (x, m') \<longrightarrow> is_benched m' a) \<and>
    (learn_from_result M E sc s m r = Inr m'' \<longrightarrow> is_benched m'' a) \<and>
    (legal_moves sc p (benched_agents m) = Inr legal \<longrightarrow> (\<forall>mv \<in> set legal. mv_actor mv \<noteq> a))"
proof (intro conjI impI)
  assume "shadow_benchmark_agents M E sc s m = (x, m')"
  with shadow_keeps_benched [OF assms(1)] show "is_benched m' a" by blast
next
  assume "learn_from_result M E sc s m r = Inr m''"
  from learn_from_result_Inr [OF this] assms(1) show "is_benched m'' a" by (auto simp: is_benched_def)
next
  assume "legal_moves sc p (benched_agents m) = Inr legal"
  from legal_moves_Inr [OF this] assms benched_iff [OF assms(2)] show "\<forall>mv \<in> set legal. mv_actor mv \<noteq> a"
    by (auto simp: candidate_legal_def)
qed

theorem benched_agents_stay_out_witness: "is_benched (snd (shadow_benchmark_agents M1 E1 sc1 suite1 model2)) ''a''"
proof -
  have "is_benched model2 ''a''" "distinct (map fst (pm_agent_records model2))" by (simp_all add: is_benched_def model2_def dict_get_def)
  from benched_agents_stay_out [OF this] show ?thesis by (metis prod.collapse)
qed

text \<open>
  The constructor accepts agent records with any positive counts, but for very small ones the
  denominator of the variance underflows to zero and the bench test raises.
\<close>

lemma tiny_total:
  assumes "0 < a" "a \<le> 2 powi (- 540)"
  obtains t where "fadd (Fin a) (Fin a) = Fin t" "0 \<le> t" "t \<le> 2 powi (- 538)"
proof -
  have two: "(2::rat) powi (- 539) = 2 * 2 powi (- 540)" "(2::rat) powi (- 538) = 2 * 2 powi (- 539)"
    using power_int_add [of "2::rat" 1 "- 540"] power_int_add [of "2::rat" 1 "- 539"] by simp_all
  then have bound: "\<bar>a + a\<bar> \<le> 2 powi (- 539)" using assms by linarith
  from round64_finite [OF this] obtain t where t: "round64 (a + a) = Fin t"
    by (cases "round64 (a + a)") simp_all
  have shrink: "\<bar>a + a\<bar> * 2 powi (- 53) \<le> \<bar>a + a\<bar>"
    by (rule mult_left_le) (simp_all add: power_int_minus field_simps)
  have small: "(2::rat) powi (- 1075) \<le> 2 powi (- 539)"
    by (rule power_int_increasing) simp_all
  have "\<bar>t - (a + a)\<bar> \<le> 2 powi (- 539)"
    by (rule order_trans [OF round64_err [OF t] max.boundedI [OF order_trans [OF shrink bound] small]])
  then have "t \<le> 2 powi (- 538)" using bound two by linarith
  moreover have "0 \<le> t" using round64_nonneg [of "a + a"] assms t by simp
  ultimately show ?thesis using that t by simp
qed

lemma tiny_counts_divide_by_zero:
  assumes "0 < a" "a \<le> 2 powi (- 540)"
  shows "record_ok \<lparr>ar_alpha = Fin a, ar_beta = Fin a, ar_benched = b\<rparr> \<and>
    upper_confidence M \<lparr>ar_alpha = Fin a, ar_beta = Fin a, ar_benched = b\<rparr>
      = raiseR ZeroDivisionError ''float division by zero''"
proof -
  obtain t where t: "fadd (Fin a) (Fin a) = Fin t" "0 \<le> t" "t \<le> 2 powi (- 538)"
    using tiny_total [OF assms] .
  have "t * t < 2 powi (- 1075)"
  proof -
    have "t * t \<le> 2 powi (- 538) * 2 powi (- 538)" using t(2,3) by (intro mult_mono) simp_all
    also have "\<dots> = (2::rat) powi (- 1076)" by (simp flip: power_int_add)
    also have "\<dots> < 2 powi (- 1075)" by (rule power_int_strict_increasing) simp_all
    finally show ?thesis .
  qed
  then have sq: "fmul (Fin t) (Fin t) = Fin 0" using t(2) round64_underflow [of "t * t"] by simp
  have "(2::rat) powi (- 538) \<le> 2 powi 0" by (rule power_int_increasing) simp_all
  then have "\<bar>t + 1\<bar> \<le> 2 powi 1" using t(2,3) by simp
  from round64_finite [OF this] obtain d where d: "fadd (Fin t) (Fin 1) = Fin d"
    by (cases "round64 (t + 1)") simp_all
  show ?thesis
    using assms(1) t(1) sq d
    by (cases "t = 0") (simp_all add: record_ok_def upper_confidence_def mean_def standard_deviation_def Let_def raiseR_def)
qed

section \<open>The built-in fixture\<close>

text \<open>
  The built-in fixture is well formed: if the digest separates the candidates of a phase, the
  default scenario passes the constructors of its moves and of the scenario; and if digests are
  hexadecimal SHA-256 digests, the default benchmark passes its constructor on that scenario, its
  weights summing to 1 within the tolerance in double precision.
\<close>

theorem fixture_is_accepted:
  assumes "sha256_ok E" "m_sum M = sum_left"
    "\<forall>phase \<in> set (sc_phases default_scenario_data). distinct (map (semantic_signature E) phase)"
  shows "default_scenario E = Inr default_scenario_data \<and>
    (\<exists>s. default_benchmark M E (Some default_scenario_data) = Inr s \<and> suite_ok s)"
  using default_scenario_accepted [OF assms(3)] default_benchmark_accepted [OF assms(1,2)] by blast

theorem fixture_is_accepted_witness: "default_scenario E1 = Inr default_scenario_data"
proof -
  have "\<forall>phase \<in> set (sc_phases default_scenario_data). distinct (map (semantic_signature E1) phase)" by code_simp
  with fixture_is_accepted [OF E1_sha256, of M1] show ?thesis by (simp add: M1_def)
qed

end
