(* ===== verification/PyObjects.thy ===== *)
theory PyObjects
  imports Json
begin

text \<open>
  Readers of JSON objects and of paths that several components share: the check of the keys of an object,
  the access to a checked key, iteration over a value, and \<open>str.split\<close>.
\<close>

definition with_keys :: "json \<Rightarrow> string list \<Rightarrow> exc_class \<Rightarrow> string \<Rightarrow> json dict result" where
  \<comment> \<open>\<open>isinstance(value, dict) and set(value) == keys\<close>\<close>
  "with_keys v keys c msg = (case v of
      JObj kvs \<Rightarrow> bindR (guardR (fst ` set kvs = set keys) c msg) (\<lambda>_. Inr kvs)
    | _ \<Rightarrow> raiseR c msg)"

definition entry :: "json dict \<Rightarrow> string \<Rightarrow> json" where
  \<comment> \<open>\<open>value[key]\<close> after the check of the keys\<close>
  "entry kvs k = (case map_of kvs k of Some v \<Rightarrow> v | None \<Rightarrow> JNull)"

fun split_on :: "char \<Rightarrow> string \<Rightarrow> string list" where
  \<comment> \<open>\<open>s.split(c)\<close>\<close>
  "split_on c [] = [[]]"
| "split_on c (x # xs) = (if x = c then [] # split_on c xs
     else case split_on c xs of [] \<Rightarrow> [[x]] | w # ws \<Rightarrow> (x # w) # ws)"

lemma with_keys_Inr_iff [result_iff]: "with_keys v keys c msg = Inr kvs \<longleftrightarrow> v = JObj kvs \<and> fst ` set kvs = set keys"
  by (cases v) (auto simp: with_keys_def bindR_Inr_iff)

lemma entry_simps [simp]:
  "entry ((k, v) # kvs) k = v" "k \<noteq> k' \<Longrightarrow> entry ((k, v) # kvs) k' = entry kvs k'" "entry [] k = JNull"
  by (simp_all add: entry_def)

section \<open>Canonical objects\<close>

text \<open>Sorting the keys of an object with distinct keys keeps its keys and its entries.\<close>

definition canon_entries :: "json dict \<Rightarrow> json dict" where
  "canon_entries kvs = sort_key fst (map (\<lambda>(k, v). (k, canon v)) kvs)"

lemma canon_obj: "canon (JObj kvs) = JObj (canon_entries kvs)"
  by (simp add: canon_entries_def)

lemma canon_entries_keys: "fst ` set (canon_entries kvs) = fst ` set kvs"
  by (force simp: canon_entries_def)

lemma distinct_sort_key: "distinct (map fst kvs) \<Longrightarrow> distinct (map fst (sort_key fst kvs))"
  by (simp add: distinct_map)

lemma map_of_sort_key:
  assumes "distinct (map fst kvs)"
  shows "map_of (sort_key fst kvs) = map_of kvs"
proof -
  have "distinct (map fst (sort_key fst kvs))" using assms by (rule distinct_sort_key)
  with assms show ?thesis by (intro map_of_inject_set [THEN iffD2]) simp_all
qed

lemma canon_entries_distinct:
  assumes "distinct (map fst kvs)"
  shows "distinct (map fst (canon_entries kvs))"
proof -
  have "distinct (map fst (map (\<lambda>(k, v). (k, canon v)) kvs))" using assms by (simp add: comp_def case_prod_beta)
  then show ?thesis unfolding canon_entries_def by (rule distinct_sort_key)
qed

lemma canon_entries_map_of:
  assumes "distinct (map fst kvs)"
  shows "map_of (canon_entries kvs) k = map_option canon (map_of kvs k)"
proof -
  have "distinct (map fst (map (\<lambda>(k, v). (k, canon v)) kvs))" using assms by (simp add: comp_def case_prod_beta)
  from map_of_sort_key [OF this] show ?thesis by (simp add: canon_entries_def map_of_map)
qed

lemma canon_entry:
  assumes "distinct (map fst kvs)"
  shows "entry (canon_entries kvs) k = canon (entry kvs k)"
  by (cases "map_of kvs k") (simp_all add: entry_def canon_entries_map_of [OF assms])

end
