(* ===== verification/Serde.thy ===== *)
theory Serde
  imports EngineLearn PyObjects
begin

text \<open>
  JSON payloads of policy artifacts and experiences (\<open>src/agent_tree_rl/serde.py\<close>). A payload is
  the list of entries of a Python \<open>dict\<close>. The readers of numbers in text are those of the
  interpreter: \<open>text_float\<close> is \<open>float(s)\<close> and \<open>text_int\<close> is \<open>int(s)\<close> on a string,
  \<open>json_loads\<close> is \<open>json.loads\<close> on the bytes of a file, and \<open>text_str\<close> is \<open>str(v)\<close> of a
  list or a dictionary.
\<close>

record pytext =
  text_float :: "string \<Rightarrow> pyfloat result"
  text_int :: "string \<Rightarrow> int result"
  json_loads :: "string \<Rightarrow> json result"
  text_str :: "json \<Rightarrow> string"

section \<open>Conversions of the interpreter\<close>

definition to_float :: "pytext \<Rightarrow> json \<Rightarrow> pyfloat result" where
  \<comment> \<open>\<open>float(v)\<close>\<close>
  "to_float T v = (case v of
      JFloat x \<Rightarrow> Inr x
    | JInt n \<Rightarrow> int_to_float n
    | JBool b \<Rightarrow> Inr (Fin (if b then 1 else 0))
    | JStr s \<Rightarrow> text_float T s
    | _ \<Rightarrow> raiseR TypeError ''float() argument must be a string or a real number'')"

definition truncate_rat :: "rat \<Rightarrow> int" where
  "truncate_rat a = (if a < 0 then \<lceil>a\<rceil> else \<lfloor>a\<rfloor>)"

definition to_int :: "pytext \<Rightarrow> json \<Rightarrow> int result" where
  \<comment> \<open>\<open>int(v)\<close>\<close>
  "to_int T v = (case v of
      JInt n \<Rightarrow> Inr n
    | JBool b \<Rightarrow> Inr (if b then 1 else 0)
    | JFloat (Fin a) \<Rightarrow> Inr (truncate_rat a)
    | JFloat NaN \<Rightarrow> raiseR ValueError ''cannot convert float NaN to integer''
    | JFloat _ \<Rightarrow> raiseR OverflowError ''cannot convert float infinity to integer''
    | JStr s \<Rightarrow> text_int T s
    | _ \<Rightarrow> raiseR TypeError ''int() argument must be a string or a real number'')"

definition to_str :: "pytext \<Rightarrow> pyenv \<Rightarrow> json \<Rightarrow> string" where
  \<comment> \<open>\<open>str(v)\<close>\<close>
  "to_str T E v = (case v of
      JStr s \<Rightarrow> s | JInt n \<Rightarrow> str_of_int n | JFloat x \<Rightarrow> float_repr E x | JNull \<Rightarrow> ''None''
    | JBool b \<Rightarrow> (if b then ''True'' else ''False'') | _ \<Rightarrow> text_str T v)"

definition to_bool :: "json \<Rightarrow> bool" where
  \<comment> \<open>\<open>bool(v)\<close>\<close>
  "to_bool v = (case v of
      JNull \<Rightarrow> False | JBool b \<Rightarrow> b | JInt n \<Rightarrow> n \<noteq> 0 | JFloat x \<Rightarrow> x \<noteq> Fin 0
    | JStr s \<Rightarrow> s \<noteq> [] | JList vs \<Rightarrow> vs \<noteq> [] | JObj kvs \<Rightarrow> kvs \<noteq> [])"

section \<open>Policy artifacts\<close>

definition SERDE_SCHEMA_VERSION :: string where
  "SERDE_SCHEMA_VERSION = ''agent-tree-rl/v1''"

definition record_payload :: "agent_record \<Rightarrow> json" where
  "record_payload r = JObj [(''alpha'', JFloat (ar_alpha r)), (''beta'', JFloat (ar_beta r)),
     (''benched'', JBool (ar_benched r))]"

definition limits_payload :: "model \<Rightarrow> json dict" where
  "limits_payload m =
     [(''policy_limit'', JFloat (pm_policy_limit m)), (''value_limit'', JFloat (pm_value_limit m)),
      (''bench_min_samples'', JInt (pm_bench_min_samples m)),
      (''bench_upper_threshold'', JFloat (pm_bench_upper_threshold m))]"

definition model_to_payload :: "pymath \<Rightarrow> pyenv \<Rightarrow> model \<Rightarrow> string \<Rightarrow> json dict result" where
  "model_to_payload M E m family =
     bindR (snapshot M E m) (\<lambda>summary.
     Inr [(''schema'', JStr SERDE_SCHEMA_VERSION), (''kind'', JStr ''policy-artifact''), (''family'', JStr family),
          (''model_version'', JStr (model_version E m)), (''generation'', JInt (pm_generation m)),
          (''policy_weights'', json_floats (sort_key fst (pm_policy_weights m))),
          (''value_weights'', json_floats (sort_key fst (pm_value_weights m))),
          (''value_bias'', JFloat (pm_value_bias m)), (''value_updates'', JInt (pm_value_updates m)),
          (''agent_records'', JObj (map (\<lambda>(actor, r). (actor, record_payload r)) (sort_key fst (pm_agent_records m)))),
          (''limits'', JObj (limits_payload m)), (''summary'', summary)])"

definition as_mapping :: "json option \<Rightarrow> string \<Rightarrow> json dict result" where
  \<comment> \<open>\<open>_mapping\<close>\<close>
  "as_mapping v name = (case v of Some (JObj kvs) \<Rightarrow> Inr kvs
     | _ \<Rightarrow> raiseR ValueError (name @ '' must be an object''))"

definition record_from_payload :: "pytext \<Rightarrow> string \<times> json \<Rightarrow> (string \<times> agent_record) result" where
  \<comment> \<open>the body of the loop over \<open>raw_records\<close>\<close>
  "record_from_payload T = (\<lambda>(actor, raw).
     bindR (as_mapping (Some raw) (''agent_records.'' @ actor)) (\<lambda>value.
     bindR (lookupR value ''alpha'') (\<lambda>a. bindR (to_float T a) (\<lambda>alpha.
     bindR (lookupR value ''beta'') (\<lambda>b. bindR (to_float T b) (\<lambda>beta.
     bindR (lookupR value ''benched'') (\<lambda>c.
     Inr (actor, \<lparr>ar_alpha = alpha, ar_beta = beta, ar_benched = to_bool c\<rparr>))))))))"

definition floats_from_payload :: "pytext \<Rightarrow> json dict \<Rightarrow> pyfloat dict result" where
  \<comment> \<open>\<open>{str(key): float(value) for key, value in ....items()}\<close>\<close>
  "floats_from_payload T kvs = mapR (\<lambda>(k, v). bindR (to_float T v) (\<lambda>x. Inr (k, x))) kvs"

definition float_at :: "pytext \<Rightarrow> json dict \<Rightarrow> string \<Rightarrow> pyfloat result" where
  "float_at T kvs k = bindR (lookupR kvs k) (to_float T)"

definition int_at :: "pytext \<Rightarrow> json dict \<Rightarrow> string \<Rightarrow> int result" where
  "int_at T kvs k = bindR (lookupR kvs k) (to_int T)"

definition model_from_payload :: "pytext \<Rightarrow> pyenv \<Rightarrow> json dict \<Rightarrow> model result" where
  "model_from_payload T E payload =
     bindR (guardR (map_of payload ''schema'' = Some (JStr SERDE_SCHEMA_VERSION)
                    \<and> map_of payload ''kind'' = Some (JStr ''policy-artifact'')) ValueError
              ''unsupported policy artifact schema'') (\<lambda>_.
     bindR (as_mapping (map_of payload ''limits'') ''limits'') (\<lambda>limits.
     bindR (as_mapping (map_of payload ''agent_records'') ''agent_records'') (\<lambda>raw_records.
     bindR (mapR (record_from_payload T) raw_records) (\<lambda>records.
     bindR (as_mapping (map_of payload ''policy_weights'') ''policy_weights'') (\<lambda>pw.
     bindR (floats_from_payload T pw) (\<lambda>policy_weights.
     bindR (as_mapping (map_of payload ''value_weights'') ''value_weights'') (\<lambda>vw.
     bindR (floats_from_payload T vw) (\<lambda>value_weights.
     bindR (float_at T payload ''value_bias'') (\<lambda>value_bias.
     bindR (int_at T payload ''value_updates'') (\<lambda>value_updates.
     bindR (int_at T payload ''generation'') (\<lambda>generation.
     bindR (float_at T limits ''policy_limit'') (\<lambda>policy_limit.
     bindR (float_at T limits ''value_limit'') (\<lambda>value_limit.
     bindR (int_at T limits ''bench_min_samples'') (\<lambda>bench_min_samples.
     bindR (float_at T limits ''bench_upper_threshold'') (\<lambda>bench_upper_threshold.
     bindR (check_model
       \<lparr>pm_policy_weights = policy_weights, pm_value_weights = value_weights, pm_value_bias = value_bias,
        pm_value_updates = value_updates, pm_generation = generation, pm_agent_records = records,
        pm_policy_limit = policy_limit, pm_value_limit = value_limit, pm_bench_min_samples = bench_min_samples,
        pm_bench_upper_threshold = bench_upper_threshold\<rparr>) (\<lambda>m.
     bindR (guardR (map_of payload ''model_version'' = Some (JStr (model_version E m))) ValueError
              ''policy artifact model version does not reproduce'') (\<lambda>_.
     Inr m)))))))))))))))))"

section \<open>Experiences\<close>

definition move_payload :: "pyenv \<Rightarrow> move \<Rightarrow> json" where
  "move_payload E mv = JObj [(''id'', JStr (mv_id mv)), (''content_hash'', JStr (content_hash E mv)),
     (''actor'', JStr (mv_actor mv))]"

definition target_payload :: "pyenv \<Rightarrow> policy_target \<Rightarrow> json" where
  "target_payload E t = JObj
     [(''receipt_hash'', JStr (receipt_hash E t)), (''state_hash'', JStr (state_hash E (pt_position t))),
      (''candidate_hashes'', JList (map (\<lambda>(i, h). JList [JStr i, JStr h]) (pt_candidate_hashes t))),
      (''target_probabilities'', json_floats (sort_key fst (pt_target_probabilities t)))]"

definition score_payload :: "score_card \<Rightarrow> json" where
  "score_payload sd = JObj
     [(''metrics'', json_floats (sort_key fst (sd_metrics sd))), (''composite'', JFloat (sd_composite sd)),
      (''cost_penalty'', JFloat (sd_cost_penalty sd)), (''reward'', JFloat (sd_reward sd)),
      (''feasible'', JBool (sd_feasible sd)), (''gate_failures'', json_strs (sd_gate_failures sd)),
      (''outcome_status'', json_of_status (sd_outcome_status sd))]"

definition search_result_to_experience ::
  "pyenv \<Rightarrow> search_result \<Rightarrow> string \<Rightarrow> string \<Rightarrow> string \<Rightarrow> json dict" where
  "search_result_to_experience E r tenant_id family run_id =
     [(''schema'', JStr SERDE_SCHEMA_VERSION), (''kind'', JStr ''experience''), (''tenant_id'', JStr tenant_id),
      (''family'', JStr family), (''run_id'', JStr run_id), (''scenario_version'', JStr (sr_scenario_version r)),
      (''scenario_manifest_hash'', JStr (sr_scenario_manifest_hash r)),
      (''benchmark_profile_hash'', JStr (sr_benchmark_profile_hash r)),
      (''model_version'', JStr (sr_model_version r)), (''simulations'', JInt (sr_simulations r)),
      (''benchmark_evaluations'', JInt (sr_benchmark_evaluations r)), (''abstained'', JBool (sr_abstained r)),
      (''trajectory'', JList (map (move_payload E) (sr_trajectory r))),
      (''final_state_hash'', JStr (state_hash E (sr_final_position r))), (''score'', score_payload (sr_score r)),
      (''policy_targets'', JList (map (target_payload E) (sr_policy_targets r))),
      (''learning_receipt_hash'', JStr (sr_learning_receipt_hash r))]"

section \<open>Reading a payload back\<close>

definition in_key_order :: "model \<Rightarrow> model" where
  \<comment> \<open>the same model with its dictionaries in key order\<close>
  "in_key_order m = m\<lparr>pm_policy_weights := sort_key fst (pm_policy_weights m),
     pm_value_weights := sort_key fst (pm_value_weights m), pm_agent_records := sort_key fst (pm_agent_records m)\<rparr>"

definition keys_distinct :: "model \<Rightarrow> bool" where
  "keys_distinct m \<longleftrightarrow> distinct (map fst (pm_policy_weights m)) \<and> distinct (map fst (pm_value_weights m))
     \<and> distinct (map fst (pm_agent_records m))"

lemma sort_key_map_snd: "sort_key fst (map (\<lambda>(k, v). (k, f v)) kvs) = map (\<lambda>(k, v). (k, f v)) (sort_key fst kvs)"
proof -
  have ins: "insort_key fst (k, f v) (map (\<lambda>(k, v). (k, f v)) kvs) = map (\<lambda>(k, v). (k, f v)) (insort_key fst (k, v) kvs)"
    for k v kvs by (induction kvs) auto
  show ?thesis
  proof (induction kvs)
    case (Cons kv kvs)
    then show ?case by (cases kv) (simp add: ins)
  qed simp
qed

lemma sort_key_twice [simp]: "sort_key f (sort_key f xs) = sort_key f xs"
  by (rule sort_key_id_if_sorted) simp

lemma canon_json_floats: "canon (json_floats d) = json_floats (sort_key fst d)"
  by (simp add: json_floats_def comp_def case_prod_unfold sort_key_map_snd [unfolded case_prod_unfold])

lemma floats_from_json_floats: "json_floats d = JObj kvs \<Longrightarrow> floats_from_payload T kvs = Inr d"
  by (induction d arbitrary: kvs) (auto simp: json_floats_def floats_from_payload_def to_float_def)

lemma record_from_payload_entries:
  assumes "\<And>k. map_of kvs k = map_of [(''alpha'', JFloat (ar_alpha r)), (''beta'', JFloat (ar_beta r)), (''benched'', JBool (ar_benched r))] k"
  shows "record_from_payload T (a, JObj kvs) = Inr (a, r)"
  by (simp add: record_from_payload_def as_mapping_def lookupR_def assms to_float_def to_bool_def)

lemma records_round_trip:
  "mapR (record_from_payload T) (map (\<lambda>(a, r). (a, record_payload r)) rs) = Inr rs"
  "mapR (record_from_payload T) (map (\<lambda>(a, r). (a, canon (record_payload r))) rs) = Inr rs"
proof -
  have "record_from_payload T (a, record_payload r) = Inr (a, r)" for a r
    unfolding record_payload_def by (rule record_from_payload_entries) simp
  then show "mapR (record_from_payload T) (map (\<lambda>(a, r). (a, record_payload r)) rs) = Inr rs"
    by (induction rs) auto
  have "record_from_payload T (a, canon (record_payload r)) = Inr (a, r)" for a r
    unfolding record_payload_def canon_obj
    by (rule record_from_payload_entries) (simp add: canon_entries_map_of)
  then show "mapR (record_from_payload T) (map (\<lambda>(a, r). (a, canon (record_payload r))) rs) = Inr rs"
    by (induction rs) auto
qed

lemma model_from_payload_intro:
  assumes "map_of q ''schema'' = Some (JStr SERDE_SCHEMA_VERSION)" "map_of q ''kind'' = Some (JStr ''policy-artifact'')"
    and "map_of q ''model_version'' = Some (JStr (model_version E m))"
    and "map_of q ''agent_records'' = Some (JObj recs)" "mapR (record_from_payload T) recs = Inr (pm_agent_records m)"
    and "map_of q ''policy_weights'' = Some (json_floats (pm_policy_weights m))"
    and "map_of q ''value_weights'' = Some (json_floats (pm_value_weights m))"
    and "map_of q ''value_bias'' = Some (JFloat (pm_value_bias m))"
    and "map_of q ''value_updates'' = Some (JInt (pm_value_updates m))"
    and "map_of q ''generation'' = Some (JInt (pm_generation m))"
    and "map_of q ''limits'' = Some (JObj limits)"
    and "map_of limits ''policy_limit'' = Some (JFloat (pm_policy_limit m))"
    and "map_of limits ''value_limit'' = Some (JFloat (pm_value_limit m))"
    and "map_of limits ''bench_min_samples'' = Some (JInt (pm_bench_min_samples m))"
    and "map_of limits ''bench_upper_threshold'' = Some (JFloat (pm_bench_upper_threshold m))"
    and "model_ok m"
  shows "model_from_payload T E q = Inr m"
proof -
  obtain pw vw where w: "json_floats (pm_policy_weights m) = JObj pw" "json_floats (pm_value_weights m) = JObj vw"
    by (simp add: json_floats_def)
  have "check_model
      \<lparr>pm_policy_weights = pm_policy_weights m, pm_value_weights = pm_value_weights m, pm_value_bias = pm_value_bias m,
       pm_value_updates = pm_value_updates m, pm_generation = pm_generation m, pm_agent_records = pm_agent_records m,
       pm_policy_limit = pm_policy_limit m, pm_value_limit = pm_value_limit m,
       pm_bench_min_samples = pm_bench_min_samples m, pm_bench_upper_threshold = pm_bench_upper_threshold m\<rparr> = Inr m"
    using assms(16) by (cases m) (simp add: check_model_iff)
  then show ?thesis
    by (simp add: model_from_payload_def assms w as_mapping_def floats_from_json_floats [OF w(1)] floats_from_json_floats [OF w(2)]
        float_at_def int_at_def lookupR_def to_float_def to_int_def)
qed

lemma model_version_in_key_order [simp]: "model_version E (in_key_order m) = model_version E m"
  by (simp add: model_version_def digest_def in_key_order_def canon_json_floats sort_key_map_snd [symmetric])

lemma model_ok_in_key_order [simp]: "model_ok (in_key_order m) = model_ok m"
  by (simp add: model_ok_def in_key_order_def bounded_by_def)

lemma model_round_trip:
  assumes "model_to_payload M E m family = Inr p" "model_ok m"
  shows "model_from_payload T E p = Inr (in_key_order m)"
    "model_from_payload T E (canon_entries p) = Inr (in_key_order m)"
proof -
  from assms(1) obtain summary where p: "p =
      [(''schema'', JStr SERDE_SCHEMA_VERSION), (''kind'', JStr ''policy-artifact''), (''family'', JStr family),
       (''model_version'', JStr (model_version E m)), (''generation'', JInt (pm_generation m)),
       (''policy_weights'', json_floats (sort_key fst (pm_policy_weights m))),
       (''value_weights'', json_floats (sort_key fst (pm_value_weights m))),
       (''value_bias'', JFloat (pm_value_bias m)), (''value_updates'', JInt (pm_value_updates m)),
       (''agent_records'', JObj (map (\<lambda>(actor, r). (actor, record_payload r)) (sort_key fst (pm_agent_records m)))),
       (''limits'', JObj (limits_payload m)), (''summary'', summary)]"
    by (auto simp: model_to_payload_def bindR_Inr_iff)
  show "model_from_payload T E p = Inr (in_key_order m)"
    by (rule model_from_payload_intro [where limits = "limits_payload m"
          and recs = "map (\<lambda>(actor, r). (actor, record_payload r)) (sort_key fst (pm_agent_records m))"])
      (simp_all add: p assms(2) records_round_trip, simp_all add: in_key_order_def limits_payload_def)
  have lookup: "map_of (canon_entries p) k = map_option canon (map_of p k)" for k
    by (rule canon_entries_map_of) (simp add: p)
  have limits_at: "map_of (canon_entries (limits_payload m)) k = map_option canon (map_of (limits_payload m) k)" for k
    by (rule canon_entries_map_of) (simp add: limits_payload_def)
  have recs: "canon_entries (map (\<lambda>(actor, r). (actor, record_payload r)) (sort_key fst (pm_agent_records m)))
      = map (\<lambda>(actor, r). (actor, canon (record_payload r))) (sort_key fst (pm_agent_records m))"
    using sort_key_map_snd [of "\<lambda>r. canon (record_payload r)" "sort_key fst (pm_agent_records m)"]
    by (simp add: canon_entries_def comp_def case_prod_unfold)
  show "model_from_payload T E (canon_entries p) = Inr (in_key_order m)"
    by (rule model_from_payload_intro [where limits = "canon_entries (limits_payload m)"
          and recs = "map (\<lambda>(actor, r). (actor, canon (record_payload r))) (sort_key fst (pm_agent_records m))"])
      (simp_all add: lookup assms(2) records_round_trip limits_at,
       simp_all add: p recs canon_json_floats canon_obj del: canon.simps,
       simp_all add: in_key_order_def limits_payload_def)
qed

end
