(* ===== verification/Learner.thy ===== *)
theory Learner
  imports Serde EngineFixture
begin

text \<open>
  Offline training and the promotion gates (\<open>src/agent_tree_rl/learner.py\<close>). \<open>gammas seed\<close> are
  the gamma variates drawn by \<open>random.Random(seed)\<close>. The heartbeat of the training loop is an action
  on the state of the caller (the control plane renews its lease there).
\<close>

section \<open>Statistics\<close>

datatype pynum = PInt int | PFloat pyfloat

primrec json_of_num :: "pynum \<Rightarrow> json" where
  "json_of_num (PInt n) = JInt n" | "json_of_num (PFloat x) = JFloat x"

fun fin_part :: "pyfloat \<Rightarrow> rat" where
  "fin_part (Fin a) = a" | "fin_part _ = 0"

definition mean_floats :: "pyfloat list \<Rightarrow> pyfloat" where
  \<comment> \<open>\<open>statistics.mean\<close> of floats: the exact mean, rounded once; infinities and NaN add up\<close>
  "mean_floats xs =
     (if list_all isfinite xs then round64 (sum_list (map fin_part xs) / of_nat (length xs))
      else foldl fadd (Fin 0) (filter (\<lambda>x. \<not> isfinite x) xs))"

definition mean_ints :: "int list \<Rightarrow> pynum" where
  \<comment> \<open>\<open>statistics.mean\<close> of integers: an integer when the mean is one\<close>
  "mean_ints ns =
     (let total = sum_list ns; n = int (length ns)
      in if total mod n = 0 then PInt (total div n) else PFloat (round64 (of_int total / of_int n)))"

definition min_float :: "pyfloat list \<Rightarrow> pyfloat result" where
  \<comment> \<open>\<open>min(xs)\<close>\<close>
  "min_float xs = py_max flt xs"

definition num_exceeds :: "pynum \<Rightarrow> pyfloat \<Rightarrow> bool" where
  \<comment> \<open>\<open>x > y\<close>, compared exactly\<close>
  "num_exceeds x y = (case x of
      PFloat a \<Rightarrow> flt y a
    | PInt n \<Rightarrow> (case y of Fin b \<Rightarrow> b < of_int n | NInf \<Rightarrow> True | _ \<Rightarrow> False))"

definition num_times :: "pynum \<Rightarrow> pyfloat \<Rightarrow> pyfloat result" where
  "num_times x y = (case x of PFloat a \<Rightarrow> Inr (fmul a y) | PInt n \<Rightarrow> bindR (int_to_float n) (\<lambda>a. Inr (fmul a y)))"

section \<open>Summaries and reports\<close>

record evaluation_summary =
  es_mean_reward :: pyfloat
  es_minimum_reward :: pyfloat
  es_hard_gate_failures :: int
  es_abstentions :: int
  es_mean_benchmark_evaluations :: pynum
  es_cases :: int

record gate_report =
  rp_accepted :: bool
  rp_reasons :: "string list"
  rp_champion :: evaluation_summary
  rp_challenger :: evaluation_summary
  rp_reward_delta :: pyfloat
  rp_artifact_id :: string

definition summary_payload :: "evaluation_summary \<Rightarrow> json" where
  \<comment> \<open>\<open>summary.__dict__\<close>\<close>
  "summary_payload es = JObj
     [(''mean_reward'', JFloat (es_mean_reward es)), (''minimum_reward'', JFloat (es_minimum_reward es)),
      (''hard_gate_failures'', JInt (es_hard_gate_failures es)), (''abstentions'', JInt (es_abstentions es)),
      (''mean_benchmark_evaluations'', json_of_num (es_mean_benchmark_evaluations es)), (''cases'', JInt (es_cases es))]"

definition report_payload :: "gate_report \<Rightarrow> json" where
  \<comment> \<open>\<open>PromotionReport.to_payload\<close>\<close>
  "report_payload rp = JObj
     [(''accepted'', JBool (rp_accepted rp)), (''reasons'', json_strs (rp_reasons rp)),
      (''champion'', summary_payload (rp_champion rp)), (''challenger'', summary_payload (rp_challenger rp)),
      (''reward_delta'', JFloat (rp_reward_delta rp)), (''artifact_id'', JStr (rp_artifact_id rp))]"

record promotion_policy =
  pp_minimum_mean_reward_delta :: pyfloat
  pp_maximum_evaluation_ratio :: pyfloat
  pp_require_no_new_hard_failures :: bool
  pp_require_no_more_abstentions :: bool

definition default_policy :: promotion_policy where
  "default_policy = \<lparr>pp_minimum_mean_reward_delta = fl (2 / 100), pp_maximum_evaluation_ratio = Fin (5 / 4),
     pp_require_no_new_hard_failures = True, pp_require_no_more_abstentions = True\<rparr>"

section \<open>Training\<close>

type_synonym gammas = "int \<Rightarrow> nat \<Rightarrow> pyfloat"

definition run_search ::
  "pymath \<Rightarrow> pyenv \<Rightarrow> gammas \<Rightarrow> scenario \<Rightarrow> suite \<Rightarrow> model \<Rightarrow> int \<Rightarrow> pyfloat \<Rightarrow> int \<Rightarrow> search_result result" where
  \<comment> \<open>\<open>PUCTSearch(scenario, benchmark, model, seed=..., root_noise_fraction=...).run(simulations=n)\<close>\<close>
  "run_search M E gammas sc s m seed noise n =
     bindR (new_search E sc s m (Fin (3 / 2)) (gammas seed) noise) (\<lambda>se. fst (run M E n se))"

definition train_episode ::
  "pymath \<Rightarrow> pyenv \<Rightarrow> gammas \<Rightarrow> scenario \<Rightarrow> suite \<Rightarrow> int \<Rightarrow> int \<Rightarrow> int \<Rightarrow> model \<Rightarrow> model result" where
  "train_episode M E gammas sc s sims seed episode challenger =
     bindR (run_search M E gammas sc s challenger (seed + episode) (fl (18 / 100)) sims) (\<lambda>r.
     bindR (learn_from_result M E sc s challenger r) (\<lambda>challenger.
     case shadow_benchmark_agents M E sc s challenger of (done, challenger) \<Rightarrow>
     bindR done (\<lambda>_. Inr challenger)))"

primrec train_loop ::
  "(int \<Rightarrow> ('s, 'h) action) option \<Rightarrow> (int \<Rightarrow> model \<Rightarrow> model result) \<Rightarrow> int list \<Rightarrow> model \<Rightarrow> ('s, model) action" where
  "train_loop heartbeat episode [] challenger = ret challenger"
| "train_loop heartbeat episode (i # is) challenger =
     andthen (case heartbeat of None \<Rightarrow> ret () | Some h \<Rightarrow> andthen (h i) (ret ()))
     (bind (lift (episode i challenger)) (train_loop heartbeat episode is))"

definition train_challenger ::
  "pymath \<Rightarrow> pyenv \<Rightarrow> gammas \<Rightarrow> model \<Rightarrow> int \<Rightarrow> int \<Rightarrow> int \<Rightarrow> (int \<Rightarrow> ('s, 'h) action) option \<Rightarrow> ('s, model) action" where
  "train_challenger M E gammas champion episodes sims seed heartbeat =
     andthen (require (1 \<le> episodes \<and> episodes \<le> 10000 \<and> 8 \<le> sims \<and> sims \<le> 100000) ValueError
                ''training budget outside safe configured bounds'')
     (bind (lift (frozen_copy champion)) (\<lambda>challenger.
      bind (lift (default_scenario E)) (\<lambda>sc.
      bind (lift (default_benchmark M E (Some sc))) (\<lambda>s.
      train_loop heartbeat (train_episode M E gammas sc s sims seed) [0..episodes - 1] challenger))))"

section \<open>Evaluation\<close>

type_synonym outcomes = "pyfloat list \<times> int list \<times> int \<times> int"

definition evaluate_case ::
  "pymath \<Rightarrow> pyenv \<Rightarrow> gammas \<Rightarrow> scenario \<Rightarrow> suite \<Rightarrow> model \<Rightarrow> int \<Rightarrow> int \<Rightarrow> outcomes \<Rightarrow> outcomes result" where
  \<comment> \<open>the body of the inner loop on \<open>rewards\<close>, \<open>evaluations\<close>, \<open>abstentions\<close>, \<open>hard_failures\<close>\<close>
  "evaluate_case M E gammas sc s m budget seed = (\<lambda>(rewards, evaluations, abstentions, hard_failures).
     bindR (run_search M E gammas sc s m seed (Fin 0) budget) (\<lambda>r.
     Inr (rewards @ [sd_reward (sr_score r)], evaluations @ [sr_benchmark_evaluations r],
          abstentions + (if sr_abstained r then 1 else 0),
          hard_failures + (if sd_feasible (sr_score r) then 0 else 1))))"

definition evaluate_budget ::
  "pymath \<Rightarrow> pyenv \<Rightarrow> gammas \<Rightarrow> scenario \<Rightarrow> suite \<Rightarrow> model \<Rightarrow> int list \<Rightarrow> int \<Rightarrow> outcomes \<Rightarrow> outcomes result" where
  "evaluate_budget M E gammas sc s m seeds budget out =
     bindR (guardR (1 \<le> budget \<and> budget \<le> 100000) ValueError
              ''evaluation simulation budget outside safe bounds'') (\<lambda>_.
     foldR (evaluate_case M E gammas sc s m budget) seeds out)"

definition default_seeds :: "int list" where "default_seeds = [7, 17, 29, 43]"
definition default_budgets :: "int list" where "default_budgets = [16, 32, 64]"

definition evaluate_model ::
  "pymath \<Rightarrow> pyenv \<Rightarrow> gammas \<Rightarrow> model \<Rightarrow> int list \<Rightarrow> int list \<Rightarrow> evaluation_summary result" where
  \<comment> \<open>\<open>OfflineLearner.evaluate\<close>\<close>
  "evaluate_model M E gammas m seeds budgets =
     bindR (default_scenario E) (\<lambda>sc.
     bindR (default_benchmark M E (Some sc)) (\<lambda>s.
     bindR (foldR (evaluate_budget M E gammas sc s m seeds) budgets ([], [], 0, 0))
       (\<lambda>(rewards, evaluations, abstentions, hard_failures).
     bindR (guardR (rewards \<noteq> []) ValueError ''evaluation set must not be empty'') (\<lambda>_.
     bindR (min_float rewards) (\<lambda>least.
     Inr \<lparr>es_mean_reward = mean_floats rewards, es_minimum_reward = least,
          es_hard_gate_failures = hard_failures, es_abstentions = abstentions,
          es_mean_benchmark_evaluations = mean_ints evaluations, es_cases = int (length rewards)\<rparr>)))))"

section \<open>The promotion gate\<close>

definition pad6 :: "int \<Rightarrow> string" where
  "pad6 n = (let d = str_of_int n in replicate (6 - length d) CHR ''0'' @ d)"

definition fmt6 :: "pyfloat \<Rightarrow> string" where
  \<comment> \<open>\<open>f"{x:.6f}"\<close>\<close>
  "fmt6 x = (case x of
     Fin a \<Rightarrow> (let n = round_half_even (\<bar>a\<bar> * 1000000) in
       (if a < 0 then ''-'' else '''') @ str_of_int (n div 1000000) @ ''.'' @ pad6 (n mod 1000000))
   | PInf \<Rightarrow> ''inf'' | NInf \<Rightarrow> ''-inf'' | NaN \<Rightarrow> ''nan'')"

definition report_reasons ::
  "promotion_policy \<Rightarrow> evaluation_summary \<Rightarrow> evaluation_summary \<Rightarrow> pyfloat \<Rightarrow> string list result" where
  "report_reasons policy champion challenger delta =
     bindR (num_times (es_mean_benchmark_evaluations champion) (pp_maximum_evaluation_ratio policy)) (\<lambda>scaled.
     let allowed_evaluations = fmax (Fin 1) scaled in
     Inr ((if flt delta (pp_minimum_mean_reward_delta policy)
           then [''mean reward delta '' @ fmt6 delta @ '' below '' @ fmt6 (pp_minimum_mean_reward_delta policy)] else [])
        @ (if pp_require_no_new_hard_failures policy \<and> es_hard_gate_failures champion < es_hard_gate_failures challenger
           then [''challenger introduces hard-gate failures''] else [])
        @ (if pp_require_no_more_abstentions policy \<and> es_abstentions champion < es_abstentions challenger
           then [''challenger increases abstention count''] else [])
        @ (if num_exceeds (es_mean_benchmark_evaluations challenger) allowed_evaluations
           then [''challenger exceeds benchmark-evaluation cost ratio''] else [])))"

definition promotion_report ::
  "pymath \<Rightarrow> pyenv \<Rightarrow> gammas \<Rightarrow> string \<Rightarrow> promotion_policy \<Rightarrow> model \<Rightarrow> model \<Rightarrow> gate_report result" where
  "promotion_report M E gammas family policy champion challenger =
     bindR (evaluate_model M E gammas champion default_seeds default_budgets) (\<lambda>champion_summary.
     bindR (evaluate_model M E gammas challenger default_seeds default_budgets) (\<lambda>challenger_summary.
     let delta = fsub (es_mean_reward challenger_summary) (es_mean_reward champion_summary) in
     bindR (report_reasons policy champion_summary challenger_summary delta) (\<lambda>reasons.
     bindR (model_to_payload M E challenger family) (\<lambda>payload.
     Inr \<lparr>rp_accepted = (reasons = []), rp_reasons = reasons, rp_champion = champion_summary,
          rp_challenger = challenger_summary, rp_reward_delta = delta,
          rp_artifact_id = ''sha256:'' @ digest E (JObj payload)\<rparr>))))"

section \<open>What training and the gate guarantee\<close>

lemma train_loop_Inr:
  assumes "train_loop hb episode is m w = (Inr m', w')"
    and "\<And>i m m'. episode i m = Inr m' \<Longrightarrow> pm_generation m' = pm_generation m + 1"
  shows "pm_generation m' = pm_generation m + int (length is)"
  using assms(1)
proof (induction "is" arbitrary: m w)
  case (Cons i "is")
  then obtain m1 w1 where "episode i m = Inr m1" "train_loop hb episode is m1 w1 = (Inr m', w')"
    by (auto simp: andthen_Inr_iff bind_Inr_iff)
  with Cons.IH assms(2) show ?case by fastforce
qed simp

lemma evaluate_case_count:
  "evaluate_case M E g sc s m budget seed (rs, es, a, h) = Inr (rs', es', a', h') \<Longrightarrow>
     length rs' = Suc (length rs) \<and> length es' = Suc (length es) \<and> a \<le> a' \<and> h \<le> h'"
  by (auto simp: evaluate_case_def bindR_Inr_iff)

lemma evaluate_seeds_count:
  "foldR (evaluate_case M E g sc s m budget) seeds (rs, es, a, h) = Inr (rs', es', a', h') \<Longrightarrow>
     length rs' = length rs + length seeds \<and> length es' = length es + length seeds \<and> a \<le> a' \<and> h \<le> h'"
proof (induction seeds arbitrary: rs es a h)
  case (Cons seed seeds)
  then obtain rs1 es1 a1 h1 where s: "evaluate_case M E g sc s m budget seed (rs, es, a, h) = Inr (rs1, es1, a1, h1)"
    "foldR (evaluate_case M E g sc s m budget) seeds (rs1, es1, a1, h1) = Inr (rs', es', a', h')"
    by (auto simp: bindR_Inr_iff)
  from evaluate_case_count [OF s(1)] Cons.IH [OF s(2)] show ?case by auto
qed simp

lemma evaluate_budgets_count:
  "foldR (evaluate_budget M E g sc s m seeds) budgets (rs, es, a, h) = Inr (rs', es', a', h') \<Longrightarrow>
     length rs' = length rs + length seeds * length budgets \<and> length es' = length es + length seeds * length budgets"
proof (induction budgets arbitrary: rs es a h)
  case (Cons b budgets)
  then obtain rs1 es1 a1 h1 where b: "evaluate_budget M E g sc s m seeds b (rs, es, a, h) = Inr (rs1, es1, a1, h1)"
    and s: "foldR (evaluate_budget M E g sc s m seeds) budgets (rs1, es1, a1, h1) = Inr (rs', es', a', h')"
    by (auto simp: bindR_Inr_iff)
  from b have "foldR (evaluate_case M E g sc s m b) seeds (rs, es, a, h) = Inr (rs1, es1, a1, h1)"
    by (auto simp: evaluate_budget_def bindR_Inr_iff)
  from evaluate_seeds_count [OF this] Cons.IH [OF s] show ?case by (auto simp: algebra_simps)
qed simp

lemma report_reasons_Nil:
  assumes "report_reasons policy c d delta = Inr rs"
  shows "rs = [] \<longleftrightarrow> \<not> flt delta (pp_minimum_mean_reward_delta policy) \<and>
    (pp_require_no_new_hard_failures policy \<longrightarrow> es_hard_gate_failures d \<le> es_hard_gate_failures c) \<and>
    (pp_require_no_more_abstentions policy \<longrightarrow> es_abstentions d \<le> es_abstentions c) \<and>
    (\<exists>scaled. num_times (es_mean_benchmark_evaluations c) (pp_maximum_evaluation_ratio policy) = Inr scaled \<and>
       \<not> num_exceeds (es_mean_benchmark_evaluations d) (fmax (Fin 1) scaled))"
  using assms by (auto simp: report_reasons_def bindR_Inr_iff Let_def not_less split: if_splits)

section \<open>Training counts generations\<close>

lemma observe_benchmark_generation: "keeps (\<lambda>m. pm_generation m = g) (observe_benchmark M E mv s)"
  unfolding observe_benchmark_def
  by (intro keeps_intros keeps_modify) (auto simp: keeps_def record_for_def put_record_def split: option.splits)

lemma shadow_generation:
  "shadow_benchmark_agents M E sc s m = (r, m') \<Longrightarrow> pm_generation m' = pm_generation m"
proof -
  have "keeps (\<lambda>m'. pm_generation m' = pm_generation m) (shadow_benchmark_agents M E sc s)"
    unfolding shadow_benchmark_agents_def by (intro keeps_for_each keeps_if keeps_intros observe_benchmark_generation)
  then show "shadow_benchmark_agents M E sc s m = (r, m') \<Longrightarrow> pm_generation m' = pm_generation m"
    by (rule keepsD) simp_all
qed

lemma train_episode_generation:
  assumes "train_episode M E g sc s n seed i m = Inr m'" shows "pm_generation m' = pm_generation m + 1"
proof -
  from assms obtain r m1 where l: "learn_from_result M E sc s m r = Inr m1"
    and step: "(case shadow_benchmark_agents M E sc s m1 of (r, m2) \<Rightarrow> bindR r (\<lambda>_. Inr m2)) = Inr m'"
    by (auto simp: train_episode_def bindR_Inr_iff)
  from step obtain u where sh: "shadow_benchmark_agents M E sc s m1 = (Inr u, m')"
    by (cases "shadow_benchmark_agents M E sc s m1") (auto simp: bindR_Inr_iff)
  from learn_from_result_Inr [OF l] shadow_generation [OF sh] show ?thesis by auto
qed

lemma train_challenger_Inr:
  assumes "train_challenger M E g m episodes n seed hb w = (Inr m', w')"
  shows "model_ok m \<and> 1 \<le> episodes \<and> 8 \<le> n \<and> pm_generation m' = pm_generation m + episodes"
proof -
  from assms obtain sc s w1 where "1 \<le> episodes" "8 \<le> n" "model_ok m"
    "train_loop hb (train_episode M E g sc s n seed) [0..episodes - 1] m w1 = (Inr m', w')"
    by (auto simp: train_challenger_def andthen_Inr_iff bind_Inr_iff frozen_copy_iff)
  with train_loop_Inr [OF this(4) train_episode_generation] show ?thesis by simp
qed

section \<open>A search never reports a failed gate\<close>

definition separates_positions :: "pyenv \<Rightarrow> scenario \<Rightarrow> bool" where
  \<comment> \<open>the digest separates the finitely many positions of the scenario\<close>
  "separates_positions E sc \<longleftrightarrow> (\<forall>benched. inj_on (state_hash E)
     (insert (safe_abstain sc SYSTEM_ABSTAIN_TEXT) {p. reached E sc benched p}))"

lemma run_search_feasible:
  assumes "scenario_ok sc" "suite_ok s" "separates_positions E sc" "run_search M E g sc s m seed noise n = Inr r"
  shows "sd_feasible (sr_score r)"
proof -
  from assms(4) obtain se se' where ns: "new_search E sc s m (Fin (3 / 2)) (g seed) noise = Inr se"
    and run: "run M E n se = (Inr r, se')"
    by (auto simp: run_search_def bindR_Inr_iff) (metis prod.collapse)
  have "collision_free E se"
    using assms(3) new_search_Inr [OF ns] by (simp add: collision_free_def separates_positions_def)
  from run_Inr [OF new_search_ok [OF ns assms(1,2) this] run] show ?thesis by (metis selected_ok_def)
qed

lemma evaluate_model_hard_failures:
  assumes "evaluate_model M E g m seeds budgets = Inr es" "separates_positions E default_scenario_data"
  shows "es_hard_gate_failures es = 0 \<and> es_cases es = int (length seeds * length budgets)"
proof -
  from assms(1) obtain sc s out where sc: "default_scenario E = Inr sc" and s: "default_benchmark M E (Some sc) = Inr s"
    and out: "foldR (evaluate_budget M E g sc s m seeds) budgets ([], [], 0, 0) = Inr out"
    and es: "es_hard_gate_failures es = snd (snd (snd out))" "es_cases es = int (length (fst out))"
    by (auto simp: evaluate_model_def bindR_Inr_iff)
  from sc have data: "sc = default_scenario_data" "scenario_ok sc"
    by (auto simp: default_scenario_def bindR_Inr_iff dest: check_scenario_Inr)
  from s have suite: "suite_ok s" by (auto simp: default_benchmark_def bindR_Inr_iff Let_def dest: check_suite_Inr)
  have one: "snd (snd (snd out')) = 0"
    if "snd (snd (snd out)) = 0" "evaluate_case M E g sc s m b seed out = Inr out'" for out out' b seed
    using that run_search_feasible [OF data(2) suite] assms(2) data(1)
    by (fastforce simp: evaluate_case_def bindR_Inr_iff split: prod.splits)
  have "snd (snd (snd out)) = 0"
  proof (rule foldR_invariant [OF out, where I = "\<lambda>out. snd (snd (snd out)) = 0"])
    fix b t t' assume "snd (snd (snd t)) = 0" "evaluate_budget M E g sc s m seeds b t = Inr t'"
    then show "snd (snd (snd t')) = 0"
      by (auto simp: evaluate_budget_def bindR_Inr_iff elim!: foldR_invariant [where I = "\<lambda>out. snd (snd (snd out)) = 0"]
          dest: one)
  qed simp
  moreover have "length (fst out) = length seeds * length budgets"
    using evaluate_budgets_count [of M E g sc s m seeds budgets "[]" "[]" 0 0] out by (cases out) auto
  ultimately show ?thesis using es by simp
qed

end
