(* ===== verification/Files.thy ===== *)
theory Files
  imports Json
begin

text \<open>
  What the program sees of the operating system's files. A \<open>file_view\<close> is what the calls on one path
  answer: \<open>fv_lstat\<close> is the outcome of \<open>os.lstat\<close>, \<open>fv_open\<close> that of \<open>os.open\<close> with the
  \<open>os.fstat\<close> of the descriptor and the bytes behind it. The two may disagree, since another process may
  replace the file in between. \<open>os.read(fd, n)\<close> on a regular file returns the next \<open>n\<close> bytes.
  Paths are strings; \<open>osenv\<close> holds the path functions of the interpreter: \<open>os_join\<close> is \<open>a / b\<close>,
  \<open>os_resolve\<close> is \<open>resolve(strict=True)\<close>, \<open>os_executable\<close> is \<open>is_file() and os.access(p, os.X_OK)\<close>.
\<close>

datatype file_kind = RegularFile | SymbolicLink | OtherFile

record file_stat =
  fs_kind :: file_kind
  fs_dev :: int
  fs_ino :: int
  fs_size :: int
  fs_mode :: int
  fs_uid :: int

record file_view =
  fv_lstat :: "file_stat result"
  fv_open :: "(file_stat \<times> string) result"

record osenv =
  os_expanduser :: "string \<Rightarrow> string"
  os_absolute :: "string \<Rightarrow> string"
  os_join :: "string \<Rightarrow> string \<Rightarrow> string"
  os_resolve :: "string \<Rightarrow> string result"
  os_is_dir :: "string \<Rightarrow> bool"
  os_executable :: "string \<Rightarrow> bool"
  os_euid :: int
  os_casefold :: "string \<Rightarrow> string"

definition same_file :: "file_stat \<Rightarrow> file_stat \<Rightarrow> bool" where
  "same_file a b \<longleftrightarrow> (fs_dev a, fs_ino a) = (fs_dev b, fs_ino b)"

definition is_absolute :: "string \<Rightarrow> bool" where
  "is_absolute p \<longleftrightarrow> prefix ''/'' p"

definition is_within :: "string \<Rightarrow> string \<Rightarrow> bool" where
  \<comment> \<open>\<open>path == root or root in path.parents\<close> on resolved paths\<close>
  "is_within path dir \<longleftrightarrow> path = dir \<or> prefix (dir @ ''/'') path \<or> dir = ''/'' \<and> prefix ''/'' path"

definition nul_free :: "string \<Rightarrow> bool" where
  "nul_free s \<longleftrightarrow> s \<noteq> [] \<and> CHR 0x00 \<notin> set s"

definition READ_SIZE :: nat where "READ_SIZE = 1024 * 1024"
definition SMALL_READ_SIZE :: nat where "SMALL_READ_SIZE = 65536"

function read_capped :: "int \<Rightarrow> py_error \<Rightarrow> int \<Rightarrow> string \<Rightarrow> string \<Rightarrow> string result" where
  \<comment> \<open>the loop that reads to the end and fails once more than \<open>cap\<close> bytes came: bytes so far, their
      number and the bytes still in the file\<close>
  "read_capped cap err n acc rest =
     (if rest = [] then Inr acc
      else let chunk = take READ_SIZE rest
           in if n + int (length chunk) \<le> cap
              then read_capped cap err (n + int (length chunk)) (acc @ chunk) (drop READ_SIZE rest)
              else Inl err)"
  by pat_completeness auto
termination by (relation "measure (\<lambda>(cap, err, n, acc, rest). length rest)") (auto simp: READ_SIZE_def)

function read_bounded :: "nat \<Rightarrow> string \<Rightarrow> string \<Rightarrow> string" where
  \<comment> \<open>\<open>while remaining\<close>: at most \<open>remaining\<close> bytes\<close>
  "read_bounded remaining acc rest =
     (if remaining = 0 \<or> rest = [] then acc
      else let n = min SMALL_READ_SIZE remaining; chunk = take n rest
           in read_bounded (remaining - length chunk) (acc @ chunk) (drop n rest))"
  by pat_completeness auto
termination by (relation "measure (\<lambda>(remaining, acc, rest). length rest)") (auto simp: SMALL_READ_SIZE_def)

declare read_capped.simps [simp del] read_bounded.simps [simp del]

lemma read_capped_eq:
  assumes "n \<le> cap"
  shows "read_capped cap err n acc rest = (if n + int (length rest) \<le> cap then Inr (acc @ rest) else Inl err)"
  using assms
proof (induction cap err n acc rest rule: read_capped.induct)
  case (1 cap err n acc rest)
  show ?case
  proof (cases "rest = [] \<or> cap < n + int (length (take READ_SIZE rest))")
    case True
    with 1 show ?thesis by (subst read_capped.simps) (auto simp: Let_def)
  next
    case False
    then have "read_capped cap err n acc rest = read_capped cap err (n + int (length (take READ_SIZE rest)))
        (acc @ take READ_SIZE rest) (drop READ_SIZE rest)"
      by (subst read_capped.simps) (auto simp: Let_def)
    with "1.IH" False show ?thesis by (auto simp: Let_def of_nat_diff min_def split: if_splits)
  qed
qed

lemma read_bounded_eq: "read_bounded remaining acc rest = acc @ take remaining rest"
proof (induction remaining acc rest rule: read_bounded.induct)
  case (1 remaining acc rest)
  show ?case
  proof (cases "remaining = 0 \<or> rest = []")
    case True
    then show ?thesis by (subst read_bounded.simps) auto
  next
    case False
    define n where "n = min SMALL_READ_SIZE remaining"
    have le: "n \<le> remaining" by (simp add: n_def)
    have "read_bounded remaining acc rest = read_bounded (remaining - length (take n rest)) (acc @ take n rest) (drop n rest)"
      using False by (subst read_bounded.simps) (simp add: Let_def n_def)
    also have "\<dots> = acc @ take n rest @ take (remaining - length (take n rest)) (drop n rest)"
      using "1.IH" [OF False n_def refl] by simp
    also have "\<dots> = acc @ take remaining rest"
    proof (cases "n \<le> length rest")
      case True
      then show ?thesis using le by (simp add: take_drop [symmetric] min_def)
        (metis append_take_drop_id le_add_diff_inverse take_add)
    next
      case False then show ?thesis using le by simp
    qed
    finally show ?thesis .
  qed
qed

end
