(* ===== verification/Artifacts.thy ===== *)
theory Artifacts
  imports Files
begin

text \<open>
  Locations of policy artifacts and the verified read of one
  (\<open>src/agent_tree_rl/artifacts.py\<close>). Paths are resolved strings.
\<close>

definition MAX_POLICY_BYTES :: int where
  "MAX_POLICY_BYTES = 64 * 1024 * 1024"

definition check_digest :: "string \<Rightarrow> unit result" where
  \<comment> \<open>\<open>_digest\<close>\<close>
  "check_digest v = guardR (is_sha256 v) ValueError ''content_sha256 must be 64 lowercase hexadecimal characters''"

definition tenant_namespace :: "pyenv \<Rightarrow> string \<Rightarrow> string result" where
  "tenant_namespace E tenant_id =
     bindR (guardR (tenant_id \<noteq> []) ValueError ''tenant_id must not be empty'') (\<lambda>_.
     Inr (take 20 (sha256 E tenant_id)))"

definition policy_artifact_uri :: "pyenv \<Rightarrow> string \<Rightarrow> string \<Rightarrow> string result" where
  "policy_artifact_uri E tenant_id content_sha256 =
     bindR (check_digest content_sha256) (\<lambda>_.
     bindR (tenant_namespace E tenant_id) (\<lambda>ns.
     Inr (''policy-artifact://'' @ ns @ ''/'' @ content_sha256 @ ''.json'')))"

definition policy_artifact_path :: "pyenv \<Rightarrow> string \<Rightarrow> string \<Rightarrow> string \<Rightarrow> string result" where
  "policy_artifact_path E artifact_root tenant_id content_sha256 =
     bindR (check_digest content_sha256) (\<lambda>_.
     bindR (tenant_namespace E tenant_id) (\<lambda>ns.
     Inr (artifact_root @ ''/'' @ ns @ ''/'' @ content_sha256 @ ''.json'')))"

definition resolve_policy_artifact :: "pyenv \<Rightarrow> string \<Rightarrow> string \<Rightarrow> string \<Rightarrow> string \<Rightarrow> string result" where
  "resolve_policy_artifact E artifact_root tenant_id content_sha256 artifact_uri =
     bindR (policy_artifact_uri E tenant_id content_sha256) (\<lambda>expected_uri.
     bindR (guardR (artifact_uri = expected_uri) ValueError ''policy artifact URI is not canonical'') (\<lambda>_.
     policy_artifact_path E artifact_root tenant_id content_sha256))"

section \<open>Reading a file\<close>

definition read_verified_policy :: "pyenv \<Rightarrow> file_view \<Rightarrow> string \<Rightarrow> string result" where
  "read_verified_policy E v expected_sha256 =
     bindR (check_digest expected_sha256) (\<lambda>_.
     bindR (fv_lstat v) (\<lambda>metadata.
     bindR (guardR (fs_kind metadata = RegularFile) ValueError ''policy artifact must be a regular non-symlink file'') (\<lambda>_.
     bindR (guardR (fs_size metadata \<le> MAX_POLICY_BYTES) ValueError ''policy artifact exceeds size cap'') (\<lambda>_.
     bindR (fv_open v) (\<lambda>(opened, content).
     bindR (guardR (same_file metadata opened) ValueError ''policy artifact changed while opening'') (\<lambda>_.
     bindR (read_capped MAX_POLICY_BYTES (Exc ValueError ''policy artifact exceeds size cap'') 0 [] content) (\<lambda>data.
     bindR (guardR (sha256 E data = expected_sha256) ValueError ''policy artifact content hash mismatch'') (\<lambda>_.
     Inr data))))))))"

section \<open>What a verified read guarantees\<close>

lemma read_verified_policy_Inr:
  "read_verified_policy E v h = Inr b \<longleftrightarrow>
     is_sha256 h \<and> sha256 E b = h \<and> int (length b) \<le> MAX_POLICY_BYTES \<and>
     (\<exists>st opened. fv_lstat v = Inr st \<and> fs_kind st = RegularFile \<and> fs_size st \<le> MAX_POLICY_BYTES \<and>
        fv_open v = Inr (opened, b) \<and> same_file st opened)"
  by (auto simp: read_verified_policy_def check_digest_def bindR_Inr_iff read_capped_eq MAX_POLICY_BYTES_def split: if_splits)

lemma resolve_policy_artifact_Inr:
  "resolve_policy_artifact E d x h u = Inr p \<longleftrightarrow>
     is_sha256 h \<and> x \<noteq> [] \<and> u = ''policy-artifact://'' @ take 20 (sha256 E x) @ ''/'' @ h @ ''.json'' \<and>
     p = d @ ''/'' @ take 20 (sha256 E x) @ ''/'' @ h @ ''.json''"
  by (auto simp: resolve_policy_artifact_def policy_artifact_uri_def policy_artifact_path_def tenant_namespace_def
      check_digest_def bindR_Inr_iff)

end
