(* ===== verification/MetricsRegistry.thy ===== *)
theory MetricsRegistry
  imports Json "HOL-Library.Product_Lexorder"
begin

text \<open>
  The counters of the service and their text form (\<open>src/agent_tree_rl/metrics.py\<close>). A counter is
  identified by its name and its sorted labels; the value of a \<open>tenant\<close> label is a digest. The
  registry's lock makes each operation atomic. \<open>fmt_g\<close> is the interpreter's \<open>f"{x:g}"\<close> and
  \<open>uptime\<close> the text of \<open>f"{monotonic() - started:.3f}"\<close>.
\<close>

type_synonym counter_key = "string \<times> (string \<times> string) list"
type_synonym counters = "(counter_key \<times> pyfloat) list"

definition safe_label :: "pyenv \<Rightarrow> string \<times> string \<Rightarrow> string \<times> string" where
  "safe_label E = (\<lambda>(key, v). (key, if key = ''tenant'' then ''tenant-'' @ take 12 (sha256 E v) else v))"

definition increment :: "pyenv \<Rightarrow> string \<Rightarrow> pyfloat \<Rightarrow> (string \<times> string) list \<Rightarrow> (counters, unit) action" where
  "increment E name v labels cs =
     (if flt v (Fin 0) then (Inl (Exc ValueError ''counter increments must be nonnegative''), cs)
      else let key = (name, sort (map (safe_label E) labels))
           in (Inr (), dict_set key (fadd (dict_get cs key (Fin 0)) v) cs))"

definition escape_label :: "string \<Rightarrow> string" where
  \<comment> \<open>\<open>_escape\<close>: the three replacements one after the other\<close>
  "escape_label s =
     (let double = concat (map (\<lambda>c. if c = CHR 0x5C then [CHR 0x5C, CHR 0x5C] else [c]) s);
          lines = concat (map (\<lambda>c. if c = CHR 0x0A then [CHR 0x5C, CHR ''n''] else [c]) double)
      in concat (map (\<lambda>c. if c = CHR 0x22 then [CHR 0x5C, CHR 0x22] else [c]) lines))"

definition render_pair :: "string \<times> string \<Rightarrow> string" where
  "render_pair = (\<lambda>(key, label). key @ [CHR ''='', CHR 0x22] @ escape_label label @ [CHR 0x22])"

definition render_counter :: "(pyfloat \<Rightarrow> string) \<Rightarrow> counter_key \<times> pyfloat \<Rightarrow> string" where
  "render_counter fmt_g = (\<lambda>((name, labels), v).
     ''agent_tree_rl_'' @ name
     @ (if labels \<noteq> [] then CHR ''{'' # join CHR '','' (map render_pair labels) @ [CHR ''}''] else [])
     @ '' '' @ fmt_g v)"

definition render :: "(pyfloat \<Rightarrow> string) \<Rightarrow> string \<Rightarrow> counters \<Rightarrow> string" where
  "render fmt_g uptime cs =
     join (CHR 0x0A)
       ([''# TYPE agent_tree_rl_uptime_seconds gauge'', ''agent_tree_rl_uptime_seconds '' @ uptime]
        @ map (render_counter fmt_g) (sort_key fst cs)) @ [CHR 0x0A]"

section \<open>Labels cannot break out of their quotes\<close>

fun quoted :: "string \<Rightarrow> bool" where
  \<comment> \<open>no line break, and a quotation mark or a backslash only after a backslash\<close>
  "quoted [] = True"
| "quoted [c] = (c \<noteq> CHR 0x22 \<and> c \<noteq> CHR 0x5C \<and> c \<noteq> CHR 0x0A)"
| "quoted (c # d # cs) =
     (if c = CHR 0x5C then (d = CHR 0x5C \<or> d = CHR 0x22 \<or> d = CHR ''n'') \<and> quoted cs
      else c \<noteq> CHR 0x22 \<and> c \<noteq> CHR 0x0A \<and> quoted (d # cs))"

definition escape_one :: "char \<Rightarrow> string" where
  "escape_one c = (if c = CHR 0x5C then [CHR 0x5C, CHR 0x5C] else if c = CHR 0x0A then [CHR 0x5C, CHR ''n'']
     else if c = CHR 0x22 then [CHR 0x5C, CHR 0x22] else [c])"

lemma escape_label_chars: "escape_label s = concat (map escape_one s)"
  by (induction s) (auto simp: escape_label_def escape_one_def Let_def)

lemma quoted_Cons: "c \<noteq> CHR 0x5C \<Longrightarrow> quoted (c # cs) \<longleftrightarrow> c \<noteq> CHR 0x22 \<and> c \<noteq> CHR 0x0A \<and> quoted cs"
  by (cases cs) auto

lemma escape_label_quoted: "quoted (escape_label s)"
  unfolding escape_label_chars by (induction s) (auto simp: escape_one_def quoted_Cons)

lemma increment_counts:
  assumes "increment E n v ls cs = (Inr u, cs')"
  shows "map_of cs' = (map_of cs)((n, sort (map (safe_label E) ls)) \<mapsto>
    fadd (dict_get cs (n, sort (map (safe_label E) ls)) (Fin 0)) v)"
  using assms by (auto simp: increment_def Let_def split: if_splits)

end
