(* ===== verification/HiddenBenchmark.thy ===== *)
theory HiddenBenchmark
  imports Files Crypto
begin

text \<open>
  The controller's side of the private benchmark (\<open>src/agent_tree_rl/hidden_benchmark.py\<close>): the
  opaque digest of the suite, the fingerprint of a candidate, the client that starts the worker, and the
  checks on the aggregate receipt it returns. The files are given by \<open>view\<close>; the worker process is a
  parameter \<open>worker\<close> that maps the command line and the request to its standard output, exit code
  and the reason it was terminated (\<open>_run_worker_bounded\<close>). \<open>parse\<close> is \<open>json.loads\<close> with the
  two hooks that reject duplicate keys and non-finite numbers; \<open>None\<close> stands for its exceptions.
\<close>

definition MAX_BENCHMARK_BYTES :: int where "MAX_BENCHMARK_BYTES = 8 * 1024 * 1024"
definition MAX_CANDIDATE_FILE_BYTES :: int where "MAX_CANDIDATE_FILE_BYTES = 512 * 1024 * 1024"
definition MAX_JSON_DEPTH :: int where "MAX_JSON_DEPTH = 64"

definition PAYLOAD_TOP_LEVEL :: "string list" where
  "PAYLOAD_TOP_LEVEL = [''receipt_type'', ''receipt_id'', ''request_nonce'', ''issued_at'', ''benchmark'', ''candidate'', ''result'']"
definition BENCHMARK_RECEIPT_KEYS :: "string list" where
  "BENCHMARK_RECEIPT_KEYS = [''id'', ''version'', ''suite_sha256'', ''case_count'']"
definition CANDIDATE_RECEIPT_KEYS :: "string list" where
  "CANDIDATE_RECEIPT_KEYS = [''fingerprint_sha256'']"
definition RESULT_RECEIPT_KEYS :: "string list" where
  "RESULT_RECEIPT_KEYS = [''passed'', ''failed'', ''total'', ''weighted_score_micros'', ''max_score_micros'', ''normalized_score_ppm'']"
definition FORBIDDEN_RESPONSE_KEYS :: "string list" where
  "FORBIDDEN_RESPONSE_KEYS = [''case'', ''cases'', ''case_id'', ''expect'', ''expected'', ''input'', ''output'', ''prompt'',
     ''answer'', ''failure'', ''failures'', ''details'', ''stdout'', ''stderr'']"

section \<open>Deterministic JSON\<close>

fun json_depth_ok :: "int \<Rightarrow> json \<Rightarrow> bool" where
  \<comment> \<open>\<open>_validate_json_depth\<close>\<close>
  "json_depth_ok depth (JObj kvs) = (depth \<le> MAX_JSON_DEPTH \<and> list_all (\<lambda>(_, v). json_depth_ok (depth + 1) v) kvs)"
| "json_depth_ok depth (JList vs) = (depth \<le> MAX_JSON_DEPTH \<and> list_all (json_depth_ok (depth + 1)) vs)"
| "json_depth_ok depth v = (depth \<le> MAX_JSON_DEPTH)"

definition strict_json_loads :: "(string \<Rightarrow> json option) \<Rightarrow> string \<Rightarrow> json result" where
  \<comment> \<open>every failure but the depth error, itself a \<open>BenchmarkSchemaError\<close>, is converted to one\<close>
  "strict_json_loads parse data = (case parse data of
      None \<Rightarrow> raiseR BenchmarkSchemaError ''invalid deterministic JSON''
    | Some v \<Rightarrow>
        bindR (guardR (json_depth_ok 0 v) BenchmarkSchemaError ''JSON nesting exceeds 64'') (\<lambda>_.
        bindR (guardR (json_finite v) BenchmarkSchemaError ''invalid deterministic JSON'') (\<lambda>_.
        Inr v)))"

section \<open>Protected files\<close>

definition absolute_path :: "osenv \<Rightarrow> string \<Rightarrow> string" where
  "absolute_path os raw = (let p = os_expanduser os raw in if is_absolute p then p else os_absolute os p)"

definition group_or_world :: "int \<Rightarrow> bool" where
  \<comment> \<open>\<open>mode & 0o077\<close>\<close>
  "group_or_world mode \<longleftrightarrow> mode mod 64 \<noteq> 0"

definition owner_readable :: "int \<Rightarrow> bool" where
  \<comment> \<open>\<open>mode & stat.S_IRUSR\<close>\<close>
  "owner_readable mode \<longleftrightarrow> odd (mode div 256)"

definition or_security :: "'a result \<Rightarrow> string \<Rightarrow> 'a result" where
  \<comment> \<open>\<open>except OSError\<close> around a call of the operating system\<close>
  "or_security r msg = (case r of Inr x \<Rightarrow> Inr x | Inl e \<Rightarrow>
     if isinstance_exc e OSError then raiseR BenchmarkSecurityError msg else Inl e)"

definition secure_read :: "osenv \<Rightarrow> (string \<Rightarrow> file_view) \<Rightarrow> string \<Rightarrow> int \<Rightarrow> bool \<Rightarrow> (string \<times> string) result" where
  \<comment> \<open>\<open>_secure_read\<close> on a POSIX system\<close>
  "secure_read os view raw max_bytes private_permissions =
     (let path = absolute_path os raw; v = view path in
      bindR (or_security (fv_lstat v) ''cannot stat protected file'') (\<lambda>st.
      bindR (guardR (fs_kind st = RegularFile) BenchmarkSecurityError ''protected file must be a regular non-symlink'') (\<lambda>_.
      bindR (if private_permissions then
               bindR (guardR (\<not> group_or_world (fs_mode st)) BenchmarkSecurityError ''protected file must be 0400/0600-style'') (\<lambda>_.
               bindR (guardR (owner_readable (fs_mode st)) BenchmarkSecurityError ''protected file is not owner-readable'') (\<lambda>_.
               guardR (fs_uid st = os_euid os) BenchmarkSecurityError ''protected file owner does not match worker uid''))
             else Inr ()) (\<lambda>_.
      bindR (guardR (fs_size st \<le> max_bytes) BenchmarkSecurityError ''protected file exceeds the byte limit'') (\<lambda>_.
      bindR (or_security (fv_open v) ''cannot securely open'') (\<lambda>(opened, content).
      bindR (guardR (same_file st opened) BenchmarkSecurityError ''protected file changed while opening'') (\<lambda>_.
      let data = read_bounded (nat (max_bytes + 1)) [] content in
      bindR (guardR (int (length data) \<le> max_bytes) BenchmarkSecurityError ''protected file exceeds the byte limit'') (\<lambda>_.
      bindR (os_resolve os path) (\<lambda>resolved.
      Inr (resolved, data))))))))))"

definition opaque_suite_digest :: "osenv \<Rightarrow> (string \<Rightarrow> file_view) \<Rightarrow> pyenv \<Rightarrow> string \<Rightarrow> string result" where
  "opaque_suite_digest os view E path =
     bindR (secure_read os view path MAX_BENCHMARK_BYTES True) (\<lambda>(_, data). Inr (sha256 E data))"

definition fingerprint_entry ::
  "osenv \<Rightarrow> (string \<Rightarrow> file_view) \<Rightarrow> pyenv \<Rightarrow> string option \<Rightarrow> nat \<times> string \<Rightarrow> json list result" where
  \<comment> \<open>the body of the loop over the arguments: the entries it appends to the manifest\<close>
  "fingerprint_entry os view E workdir = (\<lambda>(index, item).
     let p = os_expanduser os item in
     case (if is_absolute p then Some p else map_option (\<lambda>d. os_join os d p) workdir) of
       None \<Rightarrow> Inr []
     | Some candidate \<Rightarrow>
         (case fv_lstat (view candidate) of
            Inl _ \<Rightarrow> Inr []
          | Inr st \<Rightarrow>
              bindR (guardR (fs_kind st \<noteq> SymbolicLink) BenchmarkSecurityError
                       ''candidate file arguments must not be symlinks'') (\<lambda>_.
              if fs_kind st \<noteq> RegularFile then Inr []
              else
                bindR (guardR (fs_size st \<le> MAX_CANDIDATE_FILE_BYTES) BenchmarkSecurityError
                         ''candidate file argument exceeds fingerprint cap'') (\<lambda>_.
                bindR (fv_open (view candidate)) (\<lambda>(opened, content).
                bindR (guardR (same_file st opened) BenchmarkSecurityError ''candidate file changed while fingerprinting'') (\<lambda>_.
                bindR (read_capped MAX_CANDIDATE_FILE_BYTES
                         (Exc BenchmarkSecurityError ''candidate file argument exceeds fingerprint cap'') 0 [] content) (\<lambda>data.
                bindR (os_resolve os candidate) (\<lambda>resolved.
                Inr [JObj [(''argv_index'', JInt (int index)), (''path'', JStr resolved),
                           (''size_bytes'', JInt (int (length data))), (''sha256'', JStr (sha256 E data))]])))))))) "

definition candidate_fingerprint ::
  "osenv \<Rightarrow> (string \<Rightarrow> file_view) \<Rightarrow> pyenv \<Rightarrow> string list \<Rightarrow> string option \<Rightarrow> string result" where
  "candidate_fingerprint os view E argv cwd =
     bindR (guardR (argv \<noteq> [] \<and> list_all nul_free argv) BenchmarkSecurityError
              ''candidate argv must contain NUL-free strings'') (\<lambda>_.
     bindR (guardR (is_absolute (os_expanduser os (hd argv))) BenchmarkSecurityError
              ''candidate executable must be an absolute path'') (\<lambda>_.
     bindR (os_resolve os (os_expanduser os (hd argv))) (\<lambda>executable.
     bindR (case cwd of None \<Rightarrow> Inr None | Some d \<Rightarrow> bindR (os_resolve os (os_expanduser os d)) (\<lambda>d. Inr (Some d))) (\<lambda>workdir.
     let normalized = executable # tl argv in
     bindR (mapR (fingerprint_entry os view E workdir) (enumerate 0 normalized)) (\<lambda>entries.
     bindR (canonical_json_bytes E (JObj [(''argv'', JList (map JStr normalized)), (''files'', JList (concat entries))])) (\<lambda>text.
     Inr (sha256 E text)))))))"

section \<open>The aggregate receipt\<close>

fun leaks :: "osenv \<Rightarrow> json \<Rightarrow> bool" where
  \<comment> \<open>\<open>_walk_response_keys\<close> raises\<close>
  "leaks os (JObj kvs) = list_ex (\<lambda>(k, v). os_casefold os k \<in> set FORBIDDEN_RESPONSE_KEYS \<or> leaks os v) kvs"
| "leaks os (JList vs) = list_ex (leaks os) vs"
| "leaks os v = False"

definition exact_object :: "json option \<Rightarrow> string list \<Rightarrow> string \<Rightarrow> json dict result" where
  \<comment> \<open>an object with exactly these keys\<close>
  "exact_object v keys msg = (case v of
      Some (JObj kvs) \<Rightarrow> bindR (guardR (fst ` set kvs = set keys) BenchmarkProtocolError msg) (\<lambda>_. Inr kvs)
    | _ \<Rightarrow> raiseR BenchmarkProtocolError msg)"

definition int_entry :: "json dict \<Rightarrow> string \<Rightarrow> int" where
  "int_entry kvs k = (case map_of kvs k of Some (JInt n) \<Rightarrow> n | _ \<Rightarrow> 0)"

definition check_counters :: "json dict \<Rightarrow> json dict \<Rightarrow> unit result" where
  \<comment> \<open>the arithmetic of the result\<close>
  "check_counters benchmark r =
     bindR (guardR (list_all (\<lambda>k. case map_of r k of Some v \<Rightarrow> int_of v \<noteq> None | None \<Rightarrow> False) RESULT_RECEIPT_KEYS)
              BenchmarkProtocolError ''aggregate counters and scores must be integers'') (\<lambda>_.
     bindR (guardR (list_all (\<lambda>k. 0 \<le> int_entry r k) RESULT_RECEIPT_KEYS) BenchmarkProtocolError
              ''aggregate counters and scores must be non-negative'') (\<lambda>_.
     bindR (guardR (int_entry r ''passed'' + int_entry r ''failed'' = int_entry r ''total'') BenchmarkProtocolError
              ''aggregate case counts are inconsistent'') (\<lambda>_.
     bindR (guardR (case map_of benchmark ''case_count'' of Some v \<Rightarrow> py_eq_int v (int_entry r ''total'') | None \<Rightarrow> False)
              BenchmarkProtocolError ''benchmark case_count does not match result total'') (\<lambda>_.
     bindR (guardR (int_entry r ''weighted_score_micros'' \<le> int_entry r ''max_score_micros'') BenchmarkProtocolError
              ''aggregate weighted score exceeds maximum'') (\<lambda>_.
     bindR (guardR (0 \<le> int_entry r ''normalized_score_ppm'' \<and> int_entry r ''normalized_score_ppm'' \<le> 1000000)
              BenchmarkProtocolError ''normalized score is outside [0, 1_000_000]'') (\<lambda>_.
     guardR (int_entry r ''normalized_score_ppm'' =
              (if int_entry r ''max_score_micros'' \<noteq> 0
               then int_entry r ''weighted_score_micros'' * 1000000 div int_entry r ''max_score_micros'' else 0))
              BenchmarkProtocolError ''normalized score is inconsistent''))))))"

definition validate_aggregate_receipt ::
  "osenv \<Rightarrow> pyenv \<Rightarrow> receipt_verifier \<Rightarrow> int \<Rightarrow> json \<Rightarrow> string \<Rightarrow> string \<Rightarrow> string \<Rightarrow> string \<Rightarrow> json result" where
  "validate_aggregate_receipt os E vr now receipt tenant_id nonce suite_sha256 fingerprint =
     bindR (guardR (is_obj receipt) BenchmarkProtocolError ''worker response must be a JSON object'') (\<lambda>_.
     bindR (guardR (\<not> leaks os receipt) BenchmarkProtocolError ''worker response contains forbidden key'') (\<lambda>_.
     bindR (case authenticate_envelope E vr now receipt (Some ''hidden-benchmark-aggregate'') (Some tenant_id) of
              Inr _ \<Rightarrow> Inr ()
            | Inl e \<Rightarrow> if isinstance_exc e ReceiptError
                       then raiseR BenchmarkProtocolError ''worker receipt authentication failed'' else Inl e) (\<lambda>_.
     bindR (exact_object (Some (field receipt ''payload'')) PAYLOAD_TOP_LEVEL
              ''worker payload has unexpected top-level fields'') (\<lambda>verified.
     bindR (guardR (map_of verified ''receipt_type'' = Some (JStr ''hidden_benchmark.aggregate.v1'')) BenchmarkProtocolError
              ''unexpected worker receipt type'') (\<lambda>_.
     bindR (guardR (map_of verified ''request_nonce'' = Some (JStr nonce)) BenchmarkProtocolError
              ''worker receipt nonce mismatch (replay or cross-talk)'') (\<lambda>_.
     bindR (exact_object (map_of verified ''benchmark'') BENCHMARK_RECEIPT_KEYS ''invalid aggregate benchmark metadata'') (\<lambda>benchmark.
     bindR (exact_object (map_of verified ''candidate'') CANDIDATE_RECEIPT_KEYS ''invalid aggregate candidate metadata'') (\<lambda>candidate.
     bindR (exact_object (map_of verified ''result'') RESULT_RECEIPT_KEYS ''invalid aggregate result'') (\<lambda>r.
     bindR (guardR (map_of benchmark ''suite_sha256'' = Some (JStr suite_sha256)) BenchmarkProtocolError
              ''private suite digest mismatch'') (\<lambda>_.
     bindR (guardR (map_of candidate ''fingerprint_sha256'' = Some (JStr fingerprint)) BenchmarkProtocolError
              ''candidate fingerprint mismatch'') (\<lambda>_.
     bindR (check_counters benchmark r) (\<lambda>_.
     Inr receipt))))))))))))"

section \<open>The client\<close>

record hidden_client =
  hc_worker_script :: string
  hc_benchmark_path :: string
  hc_signing_key_path :: string
  hc_key_id :: string
  hc_python_executable :: string
  hc_allowed_executables :: "string list"
  hc_cwd_roots :: "string list"
  hc_case_timeout_seconds :: pyfloat
  hc_candidate_output_cap_bytes :: int
  hc_worker_timeout_seconds :: pyfloat
  hc_worker_tenant_id :: string

definition validate_private_metadata :: "osenv \<Rightarrow> (string \<Rightarrow> file_view) \<Rightarrow> string \<Rightarrow> int \<Rightarrow> string result" where
  \<comment> \<open>\<open>_validate_private_metadata\<close> on a POSIX system\<close>
  "validate_private_metadata os view raw max_bytes =
     (let path = absolute_path os raw in
      bindR (or_security (fv_lstat (view path)) ''cannot stat protected file'') (\<lambda>st.
      bindR (guardR (fs_kind st = RegularFile) BenchmarkSecurityError ''protected file must be a regular non-symlink'') (\<lambda>_.
      bindR (guardR (fs_size st \<le> max_bytes) BenchmarkSecurityError ''protected file exceeds the byte limit'') (\<lambda>_.
      bindR (guardR (\<not> group_or_world (fs_mode st) \<and> owner_readable (fs_mode st)) BenchmarkSecurityError
               ''protected file must be owner-readable and group/world denied'') (\<lambda>_.
      bindR (guardR (fs_uid st = os_euid os) BenchmarkSecurityError ''protected file owner does not match worker uid'') (\<lambda>_.
      os_resolve os path))))))"

definition new_hidden_client :: "osenv \<Rightarrow> (string \<Rightarrow> file_view) \<Rightarrow> hidden_client \<Rightarrow> hidden_client result" where
  \<comment> \<open>\<open>HiddenBenchmarkClient.__init__\<close> on the fields of its configuration\<close>
  "new_hidden_client os view c =
     (let raw_worker = absolute_path os (hc_worker_script c) in
      bindR (or_security (fv_lstat (view raw_worker)) ''cannot stat worker script'') (\<lambda>st.
      bindR (guardR (fs_kind st = RegularFile) BenchmarkSecurityError ''worker script must be a regular non-symlink'') (\<lambda>_.
      bindR (os_resolve os raw_worker) (\<lambda>worker_script.
      bindR (secure_read os view (hc_benchmark_path c) MAX_BENCHMARK_BYTES True) (\<lambda>(benchmark_path, _).
      bindR (validate_private_metadata os view (hc_signing_key_path c) 4096) (\<lambda>signing_key_path.
      bindR (os_resolve os (os_expanduser os (hc_python_executable c))) (\<lambda>python_executable.
      bindR (guardR (os_executable os python_executable) BenchmarkSecurityError ''worker Python executable is not executable'') (\<lambda>_.
      bindR (guardR (hc_allowed_executables c \<noteq> [] \<and> hc_cwd_roots c \<noteq> []) BenchmarkSecurityError
               ''candidate executable and cwd allowlists are required'') (\<lambda>_.
      bindR (mapR (\<lambda>p. os_resolve os (os_expanduser os p)) (hc_allowed_executables c)) (\<lambda>allowed_executables.
      bindR (mapR (\<lambda>p. os_resolve os (os_expanduser os p)) (hc_cwd_roots c)) (\<lambda>cwd_roots.
      bindR (guardR (\<not> fle (hc_case_timeout_seconds c) (Fin 0) \<and> \<not> fle (hc_worker_timeout_seconds c) (Fin 0))
               BenchmarkSecurityError ''benchmark timeouts must be positive'') (\<lambda>_.
      bindR (guardR (hc_worker_tenant_id c \<noteq> []) BenchmarkSecurityError ''worker_tenant_id must not be empty'') (\<lambda>_.
      bindR (guardR (1024 \<le> hc_candidate_output_cap_bytes c \<and> hc_candidate_output_cap_bytes c \<le> 16 * 1024 * 1024)
               BenchmarkSecurityError ''candidate output cap must be in [1 KiB, 16 MiB]'') (\<lambda>_.
      Inr (c\<lparr>hc_worker_script := worker_script, hc_benchmark_path := benchmark_path, hc_signing_key_path := signing_key_path,
             hc_python_executable := python_executable, hc_allowed_executables := allowed_executables,
             hc_cwd_roots := cwd_roots\<rparr>)))))))))))))))"

definition validate_candidate :: "osenv \<Rightarrow> hidden_client \<Rightarrow> string list \<Rightarrow> string \<Rightarrow> (string list \<times> string) result" where
  \<comment> \<open>\<open>_validate_candidate\<close>\<close>
  "validate_candidate os c argv cwd =
     bindR (guardR (argv \<noteq> []) BenchmarkSecurityError ''candidate argv is empty'') (\<lambda>_.
     bindR (guardR (is_absolute (os_expanduser os (hd argv))) BenchmarkSecurityError ''candidate executable must be absolute'') (\<lambda>_.
     bindR (os_resolve os (os_expanduser os (hd argv))) (\<lambda>executable.
     bindR (guardR (executable \<in> set (hc_allowed_executables c)) BenchmarkSecurityError
              ''candidate executable is not exactly allowlisted'') (\<lambda>_.
     bindR (os_resolve os (os_expanduser os cwd)) (\<lambda>workdir.
     bindR (guardR (os_is_dir os workdir \<and> list_ex (is_within workdir) (hc_cwd_roots c)) BenchmarkSecurityError
              ''candidate cwd is outside allowlisted roots'') (\<lambda>_.
     bindR (guardR (list_all nul_free argv) BenchmarkSecurityError ''candidate argv contains an invalid value'') (\<lambda>_.
     Inr (executable # tl argv, workdir))))))))"

definition worker_command :: "pyenv \<Rightarrow> hidden_client \<Rightarrow> string list" where
  "worker_command E c =
     [hc_python_executable c, hc_worker_script c, ''--benchmark'', hc_benchmark_path c, ''--signing-key'', hc_signing_key_path c,
      ''--key-id'', hc_key_id c, ''--tenant-id'', hc_worker_tenant_id c,
      ''--case-timeout'', float_repr E (hc_case_timeout_seconds c),
      ''--output-cap'', str_of_int (hc_candidate_output_cap_bytes c)]
     @ concat (map (\<lambda>p. [''--candidate-executable'', p]) (hc_allowed_executables c))
     @ concat (map (\<lambda>p. [''--candidate-cwd-root'', p]) (hc_cwd_roots c))"

type_synonym worker = "string list \<Rightarrow> string \<Rightarrow> (string \<times> int \<times> string option) result"

definition run_hidden ::
  "osenv \<Rightarrow> (string \<Rightarrow> file_view) \<Rightarrow> pyenv \<Rightarrow> (string \<Rightarrow> json option) \<Rightarrow> worker \<Rightarrow> receipt_verifier \<Rightarrow> int \<Rightarrow> hidden_client
     \<Rightarrow> string list \<Rightarrow> string \<Rightarrow> string \<Rightarrow> json result" where
  \<comment> \<open>\<open>HiddenBenchmarkClient.run\<close>; \<open>nonce\<close> is the caller's or a fresh one\<close>
  "run_hidden os view E parse worker vr now c candidate_argv candidate_cwd nonce =
     bindR (validate_candidate os c candidate_argv candidate_cwd) (\<lambda>(argv, cwd).
     bindR (guardR (nonce \<noteq> [] \<and> py_len nonce \<le> 256) BenchmarkSecurityError ''invalid request nonce'') (\<lambda>_.
     bindR (opaque_suite_digest os view E (hc_benchmark_path c)) (\<lambda>suite_digest.
     bindR (candidate_fingerprint os view E argv (Some cwd)) (\<lambda>fingerprint.
     bindR (canonical_json_bytes E (JObj [(''protocol_version'', JInt 1), (''request_nonce'', JStr nonce),
              (''candidate_argv'', JList (map JStr argv)), (''candidate_cwd'', JStr cwd)])) (\<lambda>request.
     bindR (worker (worker_command E c) request) (\<lambda>(out, returncode, termination).
     bindR (guardR (termination \<noteq> Some ''timeout'') BenchmarkProtocolError ''hidden benchmark worker timed out'') (\<lambda>_.
     bindR (guardR (termination \<noteq> Some ''output_limit'') BenchmarkProtocolError ''hidden benchmark worker response exceeded cap'') (\<lambda>_.
     bindR (guardR (returncode = 0) BenchmarkProtocolError ''hidden benchmark worker failed'') (\<lambda>_.
     bindR (case strict_json_loads parse out of Inr v \<Rightarrow> Inr v
            | Inl _ \<Rightarrow> raiseR BenchmarkProtocolError ''hidden benchmark worker returned invalid JSON'') (\<lambda>receipt.
     validate_aggregate_receipt os E vr now receipt (hc_worker_tenant_id c) nonce suite_digest fingerprint))))))))))"

section \<open>What an accepted aggregate guarantees\<close>

lemma exact_object_Inr: "exact_object v keys msg = Inr kvs \<longleftrightarrow> v = Some (JObj kvs) \<and> fst ` set kvs = set keys"
  by (auto simp: exact_object_def bindR_Inr_iff split: option.splits json.splits)

lemma check_counters_Inr:
  assumes "check_counters b r = Inr u"
  shows "\<exists>passed failed total score best ppm.
    map_of r ''passed'' = Some (JInt passed) \<and> map_of r ''failed'' = Some (JInt failed) \<and> map_of r ''total'' = Some (JInt total) \<and>
    map_of r ''weighted_score_micros'' = Some (JInt score) \<and> map_of r ''max_score_micros'' = Some (JInt best) \<and>
    map_of r ''normalized_score_ppm'' = Some (JInt ppm) \<and>
    0 \<le> passed \<and> 0 \<le> failed \<and> passed + failed = total \<and> 0 \<le> score \<and> score \<le> best \<and>
    ppm = (if best = 0 then 0 else score * 1000000 div best) \<and> ppm \<le> 1000000"
proof -
  have i: "map_of r k = Some (JInt (int_entry r k))" if "k \<in> set RESULT_RECEIPT_KEYS" for k
  proof -
    from assms have "\<forall>k \<in> set RESULT_RECEIPT_KEYS. case map_of r k of Some v \<Rightarrow> int_of v \<noteq> None | None \<Rightarrow> False"
      by (simp add: check_counters_def bindR_Inr_iff list_all_iff)
    with that obtain v where "map_of r k = Some v" "int_of v \<noteq> None" by (cases "map_of r k") auto
    then show ?thesis by (cases v) (simp_all add: int_entry_def)
  qed
  from assms show ?thesis
    using i [of "''passed''"] i [of "''failed''"] i [of "''total''"] i [of "''weighted_score_micros''"]
      i [of "''max_score_micros''"] i [of "''normalized_score_ppm''"]
    by (auto simp: check_counters_def bindR_Inr_iff RESULT_RECEIPT_KEYS_def)
qed

lemma validate_aggregate_receipt_Inr:
  assumes "validate_aggregate_receipt os E vr t receipt x nonce suite fp = Inr out"
  shows "out = receipt \<and> \<not> leaks os receipt \<and>
    authenticate_envelope E vr t receipt (Some ''hidden-benchmark-aggregate'') (Some x) = Inr () \<and>
    (\<exists>p benchmark candidate r. field receipt ''payload'' = JObj p \<and> map_of p ''request_nonce'' = Some (JStr nonce) \<and>
       map_of p ''benchmark'' = Some (JObj benchmark) \<and> map_of benchmark ''suite_sha256'' = Some (JStr suite) \<and>
       map_of p ''candidate'' = Some (JObj candidate) \<and> map_of candidate ''fingerprint_sha256'' = Some (JStr fp) \<and>
       map_of p ''result'' = Some (JObj r) \<and> check_counters benchmark r = Inr ())"
  using assms
  by (auto simp: validate_aggregate_receipt_def bindR_Inr_iff exact_object_Inr split: sum.splits if_splits)

lemma run_hidden_Inr:
  assumes "run_hidden os view E parse worker vr t c argv cwd nonce = Inr out"
  obtains argv' cwd' suite fp where "validate_candidate os c argv cwd = Inr (argv', cwd')"
    "opaque_suite_digest os view E (hc_benchmark_path c) = Inr suite" "candidate_fingerprint os view E argv' (Some cwd') = Inr fp"
    "validate_aggregate_receipt os E vr t out (hc_worker_tenant_id c) nonce suite fp = Inr out"
proof -
  from assms obtain argv' cwd' suite fp receipt where "validate_candidate os c argv cwd = Inr (argv', cwd')"
    "opaque_suite_digest os view E (hc_benchmark_path c) = Inr suite" "candidate_fingerprint os view E argv' (Some cwd') = Inr fp"
    and v: "validate_aggregate_receipt os E vr t receipt (hc_worker_tenant_id c) nonce suite fp = Inr out"
    by (auto simp: run_hidden_def bindR_Inr_iff)
  with validate_aggregate_receipt_Inr [OF v] show thesis by (auto intro: that)
qed

end
