(* ===== verification/ControlState.thy ===== *)
theory ControlState
  imports Store Learner Artifacts MetricsRegistry HiddenBenchmark
begin

text \<open>
  The state of the control plane (\<open>src/agent_tree_rl/control.py\<close>): the store's world extended by the
  files of the artifact directory, the counters and the draining flag; its configuration; request checks;
  the idempotent execution of an operation; and the content-addressed policy artifacts.

  What is fixed when the service starts is the record \<open>plane\<close>. Its last fields are what the process
  gets from outside: the worker and evidence subprocesses, the parser hooks, the failures of file writes.
  The store, the signer, the verifier and the handlers read the same wall clock.
\<close>

section \<open>Configuration\<close>

record settings =
  st_default_tenant_budget :: int
  st_hidden_benchmark_attempt_limit :: int
  st_hidden_benchmark_quota_window_seconds :: int
  st_lease_seconds :: int
  st_benchmark_receipt_max_age_seconds :: int
  st_minimum_hidden_benchmark_score_ppm :: int
  st_require_separation_of_duties :: bool
  st_allowed_commands :: "string list"
  st_allowed_cwd_roots :: "string list"

record principal =
  pc_tenant_id :: string
  pc_roles :: "string list"
  pc_subject_id :: string

definition allows :: "principal \<Rightarrow> string list \<Rightarrow> bool" where
  "allows pr roles \<longleftrightarrow> list_ex (\<lambda>r. r \<in> set roles) (pc_roles pr)"

record plane =
  pl_env :: pyenv
  pl_math :: pymath
  pl_text :: pytext
  pl_os :: osenv
  pl_gammas :: gammas
  pl_settings :: settings
  pl_grace :: int
  pl_signer :: receipt_signer
  pl_verifier :: receipt_verifier
  pl_hidden :: "hidden_client option"
  pl_artifact_dir :: string
  pl_package_dir :: string
  pl_project_dir :: string
  pl_worker :: worker
  pl_parse :: "string \<Rightarrow> json option"
  pl_evidence :: "string \<Rightarrow> string list \<Rightarrow> string \<Rightarrow> string list \<Rightarrow> string \<Rightarrow> json result"
  pl_write_error :: "string \<Rightarrow> py_error option"

definition POLICY_FAMILY :: string where
  "POLICY_FAMILY = ''agent-decision-routing''"

definition has_runner :: "plane \<Rightarrow> bool" where
  \<comment> \<open>\<open>self.runner_policy is not None\<close>\<close>
  "has_runner P \<longleftrightarrow> st_allowed_commands (pl_settings P) \<noteq> [] \<and> st_allowed_cwd_roots (pl_settings P) \<noteq> []"

section \<open>State\<close>

record stored_file =
  sf_stat :: file_stat
  sf_content :: string

record control = world +
  files :: "string \<Rightarrow> stored_file option"
  meters :: counters
  draining :: bool

type_synonym 'a handler = "(control, 'a) action"

definition view_of :: "(string \<Rightarrow> stored_file option) \<Rightarrow> string \<Rightarrow> file_view" where
  "view_of fs path = (case fs path of
      None \<Rightarrow> \<lparr>fv_lstat = raiseR FileNotFoundError path, fv_open = raiseR FileNotFoundError path\<rparr>
    | Some f \<Rightarrow> \<lparr>fv_lstat = Inr (sf_stat f),
         fv_open = (if fs_kind (sf_stat f) = SymbolicLink then raiseR OSError path else Inr (sf_stat f, sf_content f))\<rparr>)"

definition new_file :: "osenv \<Rightarrow> string \<Rightarrow> stored_file" where
  \<comment> \<open>a file just written with mode \<open>0o640\<close>; device and inode only matter in comparisons of one file
      with itself\<close>
  "new_file os content = \<lparr>sf_stat = \<lparr>fs_kind = RegularFile, fs_dev = 0, fs_ino = 0, fs_size = int (length content),
     fs_mode = 416, fs_uid = os_euid os\<rparr>, sf_content = content\<rparr>"

definition bump :: "plane \<Rightarrow> string \<Rightarrow> (string \<times> string) list \<Rightarrow> unit handler" where
  \<comment> \<open>\<open>self.metrics.increment(name, **labels)\<close>\<close>
  "bump P name labels w = (case increment (pl_env P) name (Fin 1) labels (meters w) of (r, cs) \<Rightarrow> (r, w\<lparr>meters := cs\<rparr>))"

definition sign_now :: "plane \<Rightarrow> json \<Rightarrow> string \<Rightarrow> string \<Rightarrow> json handler" where
  \<comment> \<open>\<open>self.signer.sign(payload, purpose=..., tenant_id=..., ttl_seconds=None)\<close>\<close>
  "sign_now P payload purpose tenant_id =
     bind now (\<lambda>t. bind new_token (\<lambda>tok.
     lift (sign (pl_env P) (pl_signer P) t tok payload purpose tenant_id None None None)))"

definition record_evidence :: "plane \<Rightarrow> string \<Rightarrow> json \<Rightarrow> evidence_row handler" where
  "record_evidence P tenant_id envelope =
     bind now (\<lambda>t. record_evidence_receipt (pl_env P) (pl_grace P) (Some (pl_verifier P)) t tenant_id envelope None)"

definition append_audit :: "plane \<Rightarrow> string \<Rightarrow> string \<Rightarrow> string \<Rightarrow> json \<Rightarrow> event_row handler" where
  "append_audit P tenant_id stream_id event_type payload =
     append_event (pl_env P) tenant_id stream_id event_type payload None None None"

definition catch_exc :: "exc_class list \<Rightarrow> ('s, 'a) action \<Rightarrow> ('s, 'a) action \<Rightarrow> ('s, 'a) action" where
  \<comment> \<open>\<open>try: m  except (C, ...): k\<close>\<close>
  "catch_exc cs m k = catch m (\<lambda>e. if list_ex (isinstance_exc e) cs then k else throw e)"

definition on_error :: "('s, 'a) action \<Rightarrow> ('s, unit) action \<Rightarrow> ('s, 'a) action" where
  \<comment> \<open>\<open>try: m  except Exception: k; raise\<close>\<close>
  "on_error m k = catch m (\<lambda>e. andthen k (throw e))"

section \<open>Request checks\<close>

definition require_allowed_fields :: "json dict \<Rightarrow> string list \<Rightarrow> unit result" where
  \<comment> \<open>\<open>_require_allowed_fields\<close>\<close>
  "require_allowed_fields payload allowed =
     guardR (fst ` set payload \<subseteq> set allowed) ValueError ''unknown request fields''"

definition bounded_int :: "json dict \<Rightarrow> string \<Rightarrow> int \<Rightarrow> int \<Rightarrow> int \<Rightarrow> int result" where
  \<comment> \<open>\<open>_bounded_int\<close>\<close>
  "bounded_int payload name dflt minimum maximum =
     (case dict_get payload name (JInt dflt) of
        JInt v \<Rightarrow> bindR (guardR (minimum \<le> v \<and> v \<le> maximum) ValueError (name @ '' is out of range'')) (\<lambda>_. Inr v)
      | _ \<Rightarrow> raiseR ValueError (name @ '' must be an integer''))"

definition bounded_text :: "json dict \<Rightarrow> string \<Rightarrow> string \<Rightarrow> nat \<Rightarrow> string result" where
  \<comment> \<open>\<open>_bounded_text\<close>\<close>
  "bounded_text payload name dflt maximum_bytes =
     (case dict_get payload name (JStr dflt) of
        JStr v \<Rightarrow> bindR (guardR (nul_free v \<and> length v \<le> maximum_bytes) ValueError (name @ '' must be a bounded string'')) (\<lambda>_. Inr v)
      | _ \<Rightarrow> raiseR ValueError (name @ '' must be a bounded string''))"

section \<open>Idempotent operations\<close>

definition exc_name :: "exc_class \<Rightarrow> string" where
  \<comment> \<open>\<open>type(error).__name__\<close>\<close>
  "exc_name c = (case c of
     ValueError \<Rightarrow> ''ValueError'' | TypeError \<Rightarrow> ''TypeError'' | KeyError \<Rightarrow> ''KeyError'' | RuntimeError \<Rightarrow> ''RuntimeError''
   | ZeroDivisionError \<Rightarrow> ''ZeroDivisionError'' | OverflowError \<Rightarrow> ''OverflowError'' | OSError \<Rightarrow> ''OSError''
   | FileNotFoundError \<Rightarrow> ''FileNotFoundError'' | IntegrityError \<Rightarrow> ''IntegrityError'' | StoreError \<Rightarrow> ''StoreError''
   | StoreConfigurationError \<Rightarrow> ''StoreConfigurationError'' | ConflictError \<Rightarrow> ''ConflictError'' | NotFoundError \<Rightarrow> ''NotFoundError''
   | LeaseUnavailableError \<Rightarrow> ''LeaseUnavailableError'' | BudgetExceededError \<Rightarrow> ''BudgetExceededError''
   | ReceiptError \<Rightarrow> ''ReceiptError'' | InvalidEnvelopeError \<Rightarrow> ''InvalidEnvelopeError'' | UnknownKeyError \<Rightarrow> ''UnknownKeyError''
   | InvalidSignatureError \<Rightarrow> ''InvalidSignatureError'' | ExpiredReceiptError \<Rightarrow> ''ExpiredReceiptError''
   | NotYetValidReceiptError \<Rightarrow> ''NotYetValidReceiptError'' | ReplayDetectedError \<Rightarrow> ''ReplayDetectedError''
   | HiddenBenchmarkError \<Rightarrow> ''HiddenBenchmarkError'' | BenchmarkSecurityError \<Rightarrow> ''BenchmarkSecurityError''
   | BenchmarkSchemaError \<Rightarrow> ''BenchmarkSchemaError'' | BenchmarkProtocolError \<Rightarrow> ''BenchmarkProtocolError''
   | EvidenceError \<Rightarrow> ''EvidenceError'' | PolicyViolation \<Rightarrow> ''PolicyViolation'' | ProcessRegistryClosed \<Rightarrow> ''ProcessRegistryClosed''
   | PermissionError \<Rightarrow> ''PermissionError'' | ProcessLookupError \<Rightarrow> ''ProcessLookupError'' | TimeoutExpired \<Rightarrow> ''TimeoutExpired'')"

definition stored_result :: "idempotency_record \<Rightarrow> json option" where
  \<comment> \<open>\<open>record.status == "COMPLETED" and isinstance(record.result, dict)\<close>\<close>
  "stored_result r = (case (ir_status r, ir_result r) of (COMPLETED, Some (JObj kvs)) \<Rightarrow> Some (JObj kvs) | _ \<Rightarrow> None)"

definition claim_key :: "plane \<Rightarrow> principal \<Rightarrow> string \<Rightarrow> string \<Rightarrow> json dict \<Rightarrow> idempotency_record handler" where
  "claim_key P pr scope key request = claim_idempotency (pl_env P) (pc_tenant_id pr) scope key (JObj request) (Some 86400)"

definition complete_atomic :: "principal \<Rightarrow> string \<Rightarrow> string \<Rightarrow> json \<Rightarrow> unit handler" where
  \<comment> \<open>\<open>_complete_atomic\<close>\<close>
  "complete_atomic pr scope key result = void (complete_idempotency (pc_tenant_id pr) scope key result)"

definition idempotent ::
  "plane \<Rightarrow> principal \<Rightarrow> string \<Rightarrow> string \<Rightarrow> json dict \<Rightarrow> json handler \<Rightarrow> json handler" where
  \<comment> \<open>\<open>_idempotent\<close>\<close>
  "idempotent P pr scope key request operation =
     bind (claim_key P pr scope key request) (\<lambda>r.
     if \<not> ir_is_new r then
       (case stored_result r of
          Some v \<Rightarrow> ret v
        | None \<Rightarrow> raise ConflictError ''idempotent operation is not completed'')
     else
       catch
         (bind operation (\<lambda>result.
          andthen (complete_idempotency (pc_tenant_id pr) scope key result) (ret result)))
         (\<lambda>err.
          bind (claim_key P pr scope key request) (\<lambda>current.
          case stored_result current of
            Some v \<Rightarrow> ret v
          | None \<Rightarrow>
              andthen (fail_idempotency (pc_tenant_id pr) scope key
                         (JObj [(''error_type'', JStr (exc_name (exc_of err)))]))
                (throw err))))"

section \<open>Policy artifacts\<close>

definition load_artifact :: "plane \<Rightarrow> string \<Rightarrow> string \<Rightarrow> json dict handler" where
  \<comment> \<open>\<open>_load_artifact\<close>\<close>
  "load_artifact P tenant_id artifact_id =
     bind (get_policy_artifact tenant_id artifact_id) (\<lambda>row.
     bind (lift (resolve_policy_artifact (pl_env P) (pl_artifact_dir P) tenant_id (ar_content_sha256 row) (ar_artifact_uri row))) (\<lambda>path.
     bind (get (\<lambda>w. read_verified_policy (pl_env P) (view_of (files w) path) (ar_content_sha256 row))) (\<lambda>r.
     bind (lift r) (\<lambda>encoded.
     bind (lift (json_loads (pl_text P) encoded)) (\<lambda>payload.
     case payload of JObj kvs \<Rightarrow> ret kvs | _ \<Rightarrow> raise ValueError ''policy artifact must be an object'')))))"

definition champion_model :: "plane \<Rightarrow> string \<Rightarrow> string \<Rightarrow> model handler" where
  \<comment> \<open>\<open>_champion_model\<close>\<close>
  "champion_model P tenant_id family =
     bind (get_champion tenant_id family) (\<lambda>champion.
     case champion of
       None \<Rightarrow> ret default_model
     | Some (c, _) \<Rightarrow>
         bind (load_artifact P tenant_id (ch_artifact_id c)) (\<lambda>payload.
         lift (model_from_payload (pl_text P) (pl_env P) payload)))"

definition write_file :: "plane \<Rightarrow> string \<Rightarrow> string \<Rightarrow> unit handler" where
  \<comment> \<open>a temporary file renamed over the path; a failure removes it and leaves the path as it was\<close>
  "write_file P path content w =
     (case pl_write_error P path of
        Some e \<Rightarrow> (Inl e, w)
      | None \<Rightarrow> (Inr (), w\<lparr>files := (files w)(path \<mapsto> new_file (pl_os P) content)\<rparr>))"

definition persist_artifact :: "plane \<Rightarrow> string \<Rightarrow> string \<Rightarrow> model \<Rightarrow> json \<Rightarrow> artifact_row handler" where
  \<comment> \<open>\<open>_persist_artifact\<close>\<close>
  "persist_artifact P tenant_id family m metadata =
     bind (lift (model_to_payload (pl_math P) (pl_env P) m family)) (\<lambda>payload.
     bind (lift (canonical_json_bytes (pl_env P) (JObj payload))) (\<lambda>encoded.
     let content_hash = sha256 (pl_env P) encoded; artifact_id = ''policy-'' @ content_hash in
     bind (lift (policy_artifact_path (pl_env P) (pl_artifact_dir P) tenant_id content_hash)) (\<lambda>path.
     bind (get (\<lambda>w. files w path \<noteq> None)) (\<lambda>exists.
     andthen (if exists then ret () else write_file P path encoded)
     (bind (lift (policy_artifact_uri (pl_env P) tenant_id content_hash)) (\<lambda>uri.
      register_policy_artifact tenant_id artifact_id family (model_version (pl_env P) m) content_hash uri (Some metadata)))))))"

section \<open>Lifecycle\<close>

definition health :: "json handler" where
  "health = get (\<lambda>w. JObj [(''status'', JStr (if draining w then ''draining'' else ''ok'')), (''service'', JStr ''agent-tree-rl''),
     (''version'', JStr ''0.1.0'')])"

definition begin_draining :: "bool handler" where
  "begin_draining w = (Inr (\<not> draining w), w\<lparr>draining := True\<rparr>)"

definition readiness :: "plane \<Rightarrow> json dict \<Rightarrow> json handler" where
  \<comment> \<open>\<open>storage\<close> is what \<open>self.store.readiness_check()\<close> returned\<close>
  "readiness P storage = get (\<lambda>w. JObj
     [(''ready'', JBool (\<not> draining w \<and> (case map_of storage ''ok'' of None \<Rightarrow> False | Some v \<Rightarrow> to_bool v)
                        \<and> has_runner P \<and> pl_hidden P \<noteq> None)),
      (''lifecycle'', JStr (if draining w then ''draining'' else ''ready'')), (''accepting_work'', JBool (\<not> draining w)),
      (''storage'', JObj storage), (''evidence_runner'', JBool (has_runner P)), (''hidden_benchmark'', JBool (pl_hidden P \<noteq> None))])"

end
