(* ===== verification/Control.thy ===== *)
theory Control
  imports ControlState
begin

text \<open>
  The operations of the control plane (\<open>src/agent_tree_rl/control.py\<close>): decisions, subprocess
  evidence, hidden benchmarks, training, promotion and rollback. Each handler checks the fields of its
  request and runs one operation under an idempotency key; the operation commits its receipts, events,
  budget and result in one transaction of the store.
\<close>

definition json_get :: "json dict \<Rightarrow> string \<Rightarrow> json" where
  \<comment> \<open>\<open>d.get(k)\<close>\<close>
  "json_get kvs k = dict_get kvs k JNull"

definition json_sub :: "json \<Rightarrow> string \<Rightarrow> json result" where
  \<comment> \<open>\<open>v[k]\<close>\<close>
  "json_sub v k = (case v of
      JObj kvs \<Rightarrow> (case map_of kvs k of None \<Rightarrow> raiseR KeyError k | Some x \<Rightarrow> Inr x)
    | _ \<Rightarrow> raiseR TypeError ''value is not subscriptable by a string'')"

definition record_experience :: "plane \<Rightarrow> string \<Rightarrow> json \<Rightarrow> experience_row handler" where
  "record_experience P tenant_id envelope =
     bind now (\<lambda>t. record_experience_receipt (pl_env P) (pl_grace P) (Some (pl_verifier P)) t tenant_id envelope None)"

section \<open>Decisions\<close>

definition API_BUDGET :: string where "API_BUDGET = ''api-compute''"

definition decision_response :: "string \<Rightarrow> string \<Rightarrow> search_result \<Rightarrow> string \<Rightarrow> json" where
  "decision_response run_id family r receipt_id = JObj
     [(''run_id'', JStr run_id), (''family'', JStr family), (''model_version'', JStr (sr_model_version r)),
      (''trajectory'', JList (map (\<lambda>mv. JStr (mv_id mv)) (sr_trajectory r))), (''reward'', JFloat (sd_reward (sr_score r))),
      (''feasible'', JBool (sd_feasible (sr_score r))), (''abstained'', JBool (sr_abstained r)),
      (''benchmark_evaluations'', JInt (sr_benchmark_evaluations r)), (''experience_receipt_id'', JStr receipt_id)]"

definition commit_decision ::
  "plane \<Rightarrow> principal \<Rightarrow> string \<Rightarrow> string \<Rightarrow> string \<Rightarrow> string \<Rightarrow> search_result \<Rightarrow> json \<Rightarrow> json handler" where
  \<comment> \<open>the \<open>with self.store.transaction()\<close> block\<close>
  "commit_decision P pr key family run_id reservation r envelope =
     (let tenant_id = pc_tenant_id pr in
      transaction
        (bind (record_experience P tenant_id envelope) (\<lambda>stored.
         andthen (append_audit P tenant_id (''run:'' @ run_id) ''DECISION_COMPLETED''
           (JObj [(''family'', JStr family), (''requested_by'', JStr (pc_subject_id pr)), (''reward'', JFloat (sd_reward (sr_score r))),
                  (''feasible'', JBool (sd_feasible (sr_score r))), (''abstained'', JBool (sr_abstained r)),
                  (''experience_receipt_id'', JStr (ex_receipt_id stored))]))
         (andthen (consume_budget tenant_id API_BUDGET reservation)
         (let response = decision_response run_id family r (ex_receipt_id stored) in
          andthen (complete_atomic pr ''decision'' key response) (ret response))))))"

definition decide ::
  "plane \<Rightarrow> principal \<Rightarrow> string \<Rightarrow> string \<Rightarrow> int \<Rightarrow> int \<Rightarrow> string \<Rightarrow> string \<Rightarrow> json handler" where
  \<comment> \<open>the body of the \<open>try\<close>\<close>
  "decide P pr key family sims seed run_id reservation =
     (let E = pl_env P; M = pl_math P; tenant_id = pc_tenant_id pr in
      bind (champion_model P tenant_id family) (\<lambda>m.
      bind (lift (default_scenario E)) (\<lambda>sc.
      bind (lift (default_benchmark M E (Some sc))) (\<lambda>s.
      bind (lift (run_search M E (pl_gammas P) sc s m seed (Fin 0) sims)) (\<lambda>r.
      let experience = search_result_to_experience E r tenant_id family run_id in
      bind (lift (canonical_json_bytes E (json_get experience ''trajectory''))) (\<lambda>trajectory.
      bind (sign_now P (JObj [(''run_id'', JStr run_id), (''episode_id'', JStr run_id),
                             (''trajectory_hash'', JStr (sha256 E trajectory)), (''reward'', JFloat (sd_reward (sr_score r))),
                             (''experience'', JObj experience)]) ''experience'' tenant_id) (\<lambda>envelope.
      bind (commit_decision P pr key family run_id reservation r envelope) (\<lambda>response.
      andthen (bump P ''decisions_total'' [(''tenant'', tenant_id), (''outcome'', if sr_abstained r then ''abstained'' else ''committed'')])
        (ret response)))))))))"

definition decision_operation :: "plane \<Rightarrow> principal \<Rightarrow> json dict \<Rightarrow> string \<Rightarrow> json handler" where
  "decision_operation P pr request key =
     bind (lift (bounded_int request ''simulations'' 128 8 4096)) (\<lambda>sims.
     bind (lift (bounded_int request ''seed'' 7 0 (2 ^ 31 - 1))) (\<lambda>seed.
     bind (lift (bounded_text request ''family'' POLICY_FAMILY 128)) (\<lambda>family.
     andthen (require (family = POLICY_FAMILY) ValueError ''unregistered policy family'')
     (bind new_uuid (\<lambda>run_id.
      let reservation = ''decision-'' @ run_id; tenant_id = pc_tenant_id pr in
      andthen (create_budget tenant_id API_BUDGET (st_default_tenant_budget (pl_settings P)))
      (andthen (reserve_budget tenant_id API_BUDGET reservation sims)
      (on_error (decide P pr key family sims seed run_id reservation)
         (void (release_budget tenant_id API_BUDGET reservation)))))))))"

definition run_decision :: "plane \<Rightarrow> principal \<Rightarrow> json dict \<Rightarrow> string \<Rightarrow> json handler" where
  "run_decision P pr request key =
     andthen (lift (require_allowed_fields request [''simulations'', ''seed'', ''family'']))
     (idempotent P pr ''decision'' key request (decision_operation P pr request key))"

section \<open>Subprocess evidence\<close>

fun text_of :: "json \<Rightarrow> string" where
  "text_of (JStr s) = s" | "text_of v = []"

definition bounded_argument :: "json \<Rightarrow> bool" where
  "bounded_argument v \<longleftrightarrow> (case v of JStr s \<Rightarrow> nul_free s \<and> length s \<le> 4096 | _ \<Rightarrow> False)"

definition bounded_list :: "json \<Rightarrow> bool" where
  "bounded_list v \<longleftrightarrow> (case v of JList vs \<Rightarrow> length vs \<le> 64 \<and> list_all bounded_argument vs | _ \<Rightarrow> False)"

fun list_of :: "json \<Rightarrow> json list" where
  "list_of (JList vs) = vs" | "list_of v = []"

definition command_ids :: "plane \<Rightarrow> string list" where
  "command_ids P = map (\<lambda>i. ''cmd'' @ str_of_int (int i)) [0..<length (st_allowed_commands (pl_settings P))]"

definition evidence_operation :: "plane \<Rightarrow> principal \<Rightarrow> json dict \<Rightarrow> string \<Rightarrow> json handler" where
  "evidence_operation P pr request key =
     (let E = pl_env P; tenant_id = pc_tenant_id pr; command_id = json_get request ''command_id'';
          arguments = dict_get request ''arguments'' (JList []); cwd = json_get request ''cwd'';
          artifacts = dict_get request ''artifacts'' (JList []) in
      andthen (require (has_runner P) ValueError ''evidence runner is not configured'')
      (andthen (require (str_of command_id \<noteq> None \<and> text_of command_id \<in> set (command_ids P) \<and> bounded_list arguments
                         \<and> bounded_argument cwd) ValueError
                 ''allowlisted command_id, bounded arguments list, and cwd are required'')
      (andthen (require (bounded_list artifacts) ValueError ''artifacts must be a bounded list of paths'')
      (bind (lift (pl_evidence P tenant_id (text_of command_id # map text_of (list_of arguments)) (text_of cwd)
                     (map text_of (list_of artifacts)) key)) (\<lambda>receipt.
       bind now (\<lambda>t.
       bind (verify E (pl_verifier P) t receipt (Some ''subprocess-evidence'') (Some tenant_id) None) (\<lambda>raw.
       andthen (require (is_obj raw) ValueError ''subprocess evidence receipt payload must be an object'')
       (bind (lift (json_sub raw ''receipt_id'')) (\<lambda>rid.
        let subject_id = to_str (pl_text P) E rid; outcome = field raw ''outcome'' in
        bind (lift (sha256_hex E receipt)) (\<lambda>content.
        bind (sign_now P (JObj [(''evidence_kind'', JStr ''subprocess''), (''subject_id'', JStr subject_id),
               (''artifact_uri'', JStr (''receipt://subprocess/'' @ subject_id)), (''content_sha256'', JStr content),
               (''outcome'', outcome), (''attestation'', receipt)]) ''evidence'' tenant_id) (\<lambda>normalized.
        bind (transaction
          (bind (record_evidence P tenant_id normalized) (\<lambda>stored.
           andthen (append_audit P tenant_id (''evidence:'' @ subject_id) ''EVIDENCE_RECORDED''
             (JObj [(''receipt_id'', JStr (ed_receipt_id stored)), (''requested_by'', JStr (pc_subject_id pr)), (''outcome'', outcome)]))
           (let response = JObj [(''receipt_id'', JStr (ed_receipt_id stored)), (''subject_id'', JStr subject_id),
                  (''outcome'', outcome), (''duration_ms'', field raw ''duration_ms''), (''output'', field raw ''output'')] in
            andthen (complete_atomic pr ''evidence'' key response) (ret response))))) (\<lambda>response.
        andthen (bump P ''evidence_runs_total'' [(''tenant'', tenant_id), (''outcome'', to_str (pl_text P) E outcome)])
          (ret response)))))))))))))"

definition run_evidence :: "plane \<Rightarrow> principal \<Rightarrow> json dict \<Rightarrow> string \<Rightarrow> json handler" where
  "run_evidence P pr request key =
     andthen (lift (require_allowed_fields request [''command_id'', ''arguments'', ''cwd'', ''artifacts'']))
     (idempotent P pr ''evidence'' key request (evidence_operation P pr request key))"

section \<open>Hidden benchmarks\<close>

definition artifact_file :: "plane \<Rightarrow> string \<Rightarrow> artifact_row \<Rightarrow> string result" where
  \<comment> \<open>\<open>resolve_policy_artifact(...).resolve(strict=True)\<close>\<close>
  "artifact_file P tenant_id row =
     bindR (resolve_policy_artifact (pl_env P) (pl_artifact_dir P) tenant_id (ar_content_sha256 row) (ar_artifact_uri row))
       (os_resolve (pl_os P))"

definition candidate_argv :: "plane \<Rightarrow> hidden_client \<Rightarrow> string \<Rightarrow> string list" where
  "candidate_argv P c artifact_path =
     [hc_python_executable c, pl_package_dir P @ ''/workers/policy_candidate.py'', artifact_path]"

definition floor_div :: "int \<Rightarrow> int \<Rightarrow> int result" where
  \<comment> \<open>\<open>m // n\<close>\<close>
  "floor_div m n = (if n = 0 then raiseR ZeroDivisionError ''integer division or modulo by zero'' else Inr (m div n))"

definition suite_digest :: "plane \<Rightarrow> hidden_client \<Rightarrow> string handler" where
  "suite_digest P c =
     bind (get (\<lambda>w. opaque_suite_digest (pl_os P) (view_of (files w)) (pl_env P) (hc_benchmark_path c))) lift"

definition commit_hidden ::
  "plane \<Rightarrow> principal \<Rightarrow> string \<Rightarrow> string \<Rightarrow> string \<Rightarrow> string \<Rightarrow> json \<Rightarrow> json \<Rightarrow> json \<Rightarrow> json handler" where
  \<comment> \<open>the \<open>with self.store.transaction()\<close> block\<close>
  "commit_hidden P pr key challenger_id budget_id reservation payload r normalized =
     (let tenant_id = pc_tenant_id pr in
      transaction
        (andthen (consume_budget tenant_id budget_id reservation)
        (bind (record_evidence P tenant_id normalized) (\<lambda>stored.
         bind (lift (bindR (json_sub payload ''benchmark'') (\<lambda>b. json_sub b ''suite_sha256''))) (\<lambda>suite.
         bind (lift (json_sub r ''normalized_score_ppm'')) (\<lambda>ppm.
         andthen (append_audit P tenant_id (''policy:'' @ challenger_id) ''HIDDEN_BENCHMARK_COMPLETED''
           (JObj [(''receipt_id'', JStr (ed_receipt_id stored)), (''requested_by'', JStr (pc_subject_id pr)),
                  (''suite_digest'', suite), (''normalized_score_ppm'', ppm)]))
         (bind (lift (bindR (json_sub payload ''candidate'') (\<lambda>c. json_sub c ''fingerprint_sha256''))) (\<lambda>fingerprint.
          bind (lift (json_sub r ''passed'')) (\<lambda>passed.
          bind (lift (json_sub r ''failed'')) (\<lambda>failed.
          bind (lift (json_sub r ''total'')) (\<lambda>total.
          let response = JObj [(''receipt_id'', JStr (ed_receipt_id stored)), (''challenger_id'', JStr challenger_id),
                (''suite_digest'', suite), (''candidate_fingerprint'', fingerprint), (''passed'', passed), (''failed'', failed),
                (''total'', total), (''normalized_score_ppm'', ppm)] in
          andthen (complete_atomic pr ''hidden-benchmark'' key response) (ret response))))))))))))"

definition hidden_operation :: "plane \<Rightarrow> principal \<Rightarrow> json dict \<Rightarrow> string \<Rightarrow> json handler" where
  "hidden_operation P pr request key =
     (let E = pl_env P; tenant_id = pc_tenant_id pr; st = pl_settings P; challenger = json_get request ''challenger_id'' in
      case pl_hidden P of
        None \<Rightarrow> raise ValueError ''hidden benchmark worker is not configured''
      | Some c \<Rightarrow>
          andthen (require (case challenger of JStr s \<Rightarrow> nul_free s \<and> length s \<le> 256 | _ \<Rightarrow> False) ValueError
                     ''challenger_id is required'')
          (let challenger_id = text_of challenger in
           andthen (load_artifact P tenant_id challenger_id)
           (bind (get_policy_artifact tenant_id challenger_id) (\<lambda>artifact.
            bind (lift (artifact_file P tenant_id artifact)) (\<lambda>artifact_path.
            bind (suite_digest P c) (\<lambda>digest.
            bind now (\<lambda>t.
            bind (lift (floor_div t (st_hidden_benchmark_quota_window_seconds st))) (\<lambda>quota_window.
            let budget_id = ''hidden-benchmark:'' @ challenger_id @ '':'' @ take 16 digest @ '':'' @ str_of_int quota_window;
                reservation = ''attempt:'' @ key in
            andthen (create_budget tenant_id budget_id (st_hidden_benchmark_attempt_limit st))
            (andthen (reserve_budget tenant_id budget_id reservation 1)
            (bind (on_error
               (bind now (\<lambda>t.
                bind (get (\<lambda>w. run_hidden (pl_os P) (view_of (files w)) E (pl_parse P) (pl_worker P) (pl_verifier P) t c
                             (candidate_argv P c artifact_path) (pl_project_dir P) key)) (\<lambda>r.
                bind (lift r) (\<lambda>aggregate.
                bind (lift (json_sub aggregate ''payload'')) (\<lambda>payload.
                bind (lift (bindR (json_sub payload ''candidate'') (\<lambda>c. json_sub c ''fingerprint_sha256''))) (\<lambda>fingerprint.
                bind (lift (sha256_hex E aggregate)) (\<lambda>content.
                bind (sign_now P (JObj [(''evidence_kind'', JStr ''hidden-benchmark''),
                       (''subject_id'', JStr (to_str (pl_text P) E fingerprint)),
                       (''artifact_uri'', JStr ''benchmark://hidden/aggregate''), (''content_sha256'', JStr content),
                       (''policy_artifact_id'', JStr challenger_id),
                       (''policy_content_sha256'', JStr (ar_content_sha256 artifact)), (''aggregate'', aggregate)])
                     ''evidence'' tenant_id) (\<lambda>normalized.
                bind (lift (json_sub payload ''result'')) (\<lambda>r.
                commit_hidden P pr key challenger_id budget_id reservation payload r normalized)))))))))
               (catch_exc [ConflictError] (void (release_budget tenant_id budget_id reservation)) (ret ()))) (\<lambda>response.
             andthen (bump P ''hidden_benchmarks_total'' [(''tenant'', tenant_id)]) (ret response))))))))))))"

definition evaluate_hidden_benchmark :: "plane \<Rightarrow> principal \<Rightarrow> json dict \<Rightarrow> string \<Rightarrow> json handler" where
  "evaluate_hidden_benchmark P pr request key =
     andthen (lift (require_allowed_fields request [''challenger_id'']))
     (idempotent P pr ''hidden-benchmark'' key request (hidden_operation P pr request key))"

section \<open>Training\<close>

definition with_lease ::
  "('s, lease_row) action \<Rightarrow> (lease_row \<Rightarrow> ('s, 'a) action) \<Rightarrow> (lease_row option \<Rightarrow> ('s, unit) action) \<Rightarrow> ('s, 'a) action" where
  \<comment> \<open>\<open>lease = None; try: lease = acquire; body  finally: cleanup\<close>\<close>
  "with_lease acquire body cleanup w = (case acquire w of
      (Inl e, w') \<Rightarrow> finally_do (throw e) (cleanup None) w'
    | (Inr l, w') \<Rightarrow> finally_do (body l) (cleanup (Some l)) w')"

definition training_cleanup ::
  "string \<Rightarrow> string \<Rightarrow> string \<Rightarrow> string \<Rightarrow> lease_row option \<Rightarrow> unit handler" where
  \<comment> \<open>the \<open>finally\<close> block\<close>
  "training_cleanup tenant_id resource holder_id reservation lease =
     andthen (catch_exc [ConflictError, NotFoundError]
       (bind (get_budget tenant_id API_BUDGET) (\<lambda>b.
        if bs_reserved_units b \<noteq> 0 then void (release_budget tenant_id API_BUDGET reservation) else ret ())) (ret ()))
     (case lease of
        None \<Rightarrow> ret ()
      | Some l \<Rightarrow> catch_exc [ConflictError] (void (release_lease tenant_id resource holder_id (ls_fencing_token l))) (ret ()))"

definition commit_training ::
  "plane \<Rightarrow> principal \<Rightarrow> string \<Rightarrow> string \<Rightarrow> string \<Rightarrow> string \<Rightarrow> int \<Rightarrow> lease_row \<Rightarrow> model \<Rightarrow> gate_report \<Rightarrow> json handler" where
  \<comment> \<open>the \<open>with self.store.transaction()\<close> block\<close>
  "commit_training P pr key family holder_id reservation ttl l challenger report =
     (let tenant_id = pc_tenant_id pr; report_json = report_payload report in
      transaction
        (andthen (renew_lease tenant_id (''train:'' @ family) holder_id (ls_fencing_token l) ttl None)
        (bind (persist_artifact P tenant_id family challenger (JObj [(''status'', JStr ''challenger'')])) (\<lambda>artifact.
         andthen (record_training_run tenant_id key family (ar_artifact_id artifact) (pc_subject_id pr) (ls_fencing_token l) report_json)
         (andthen (append_audit P tenant_id (''policy:'' @ family) ''CHALLENGER_TRAINED''
            (JObj [(''artifact_id'', JStr (ar_artifact_id artifact)), (''training_id'', JStr key),
                   (''trained_by'', JStr (pc_subject_id pr)), (''lease_fencing_token'', JInt (ls_fencing_token l)),
                   (''promotion_report'', report_json), (''accepted_by_offline_gate'', JBool (rp_accepted report))]))
         (andthen (consume_budget tenant_id API_BUDGET reservation)
         (let response = JObj [(''challenger_id'', JStr (ar_artifact_id artifact)), (''training_id'', JStr key),
                (''model_version'', JStr (model_version (pl_env P) challenger)), (''promotion_report'', report_json)] in
          andthen (complete_atomic pr ''train'' key response) (ret response))))))))"

definition training_operation :: "plane \<Rightarrow> principal \<Rightarrow> json dict \<Rightarrow> string \<Rightarrow> json handler" where
  "training_operation P pr request key =
     bind (lift (bounded_text request ''family'' POLICY_FAMILY 128)) (\<lambda>family.
     andthen (require (family = POLICY_FAMILY) ValueError ''unregistered policy family'')
     (bind (lift (bounded_int request ''episodes'' 12 1 1000)) (\<lambda>episodes.
      bind (lift (bounded_int request ''simulations'' 128 8 4096)) (\<lambda>sims.
      bind new_uuid (\<lambda>holder_id.
      let E = pl_env P; M = pl_math P; tenant_id = pc_tenant_id pr; resource = ''train:'' @ family;
          reservation = ''training-'' @ holder_id;
          ttl = max (st_lease_seconds (pl_settings P)) (min 3600 (episodes * 2)) in
      andthen (create_budget tenant_id API_BUDGET (st_default_tenant_budget (pl_settings P)))
      (andthen (reserve_budget tenant_id API_BUDGET reservation (episodes * sims))
      (with_lease (acquire_lease tenant_id resource holder_id ttl None)
         (\<lambda>l.
          bind (champion_model P tenant_id family) (\<lambda>champion.
          bind (train_challenger M E (pl_gammas P) champion episodes sims 1000
                  (Some (\<lambda>_. renew_lease tenant_id resource holder_id (ls_fencing_token l) ttl None))) (\<lambda>challenger.
          bind (lift (promotion_report M E (pl_gammas P) POLICY_FAMILY default_policy champion challenger)) (\<lambda>report.
          commit_training P pr key family holder_id reservation ttl l challenger report))))
         (training_cleanup tenant_id resource holder_id reservation))))))))"

definition run_training :: "plane \<Rightarrow> principal \<Rightarrow> json dict \<Rightarrow> string \<Rightarrow> json handler" where
  \<comment> \<open>\<open>ControlPlane.train_challenger\<close>\<close>
  "run_training P pr request key =
     andthen (lift (require_allowed_fields request [''family'', ''episodes'', ''simulations'']))
     (idempotent P pr ''train'' key request (training_operation P pr request key))"

section \<open>Promotion\<close>

definition record_promotion_report :: "plane \<Rightarrow> string \<Rightarrow> string \<Rightarrow> json \<Rightarrow> string handler" where
  \<comment> \<open>\<open>_record_promotion_report\<close>\<close>
  "record_promotion_report P tenant_id artifact_id report =
     bind (lift (sha256_hex (pl_env P) report)) (\<lambda>content.
     bind (sign_now P (JObj [(''evidence_kind'', JStr ''promotion-benchmark''), (''subject_id'', JStr artifact_id),
            (''artifact_uri'', JStr (''policy://'' @ artifact_id @ ''/promotion-report'')), (''content_sha256'', JStr content),
            (''report'', report)]) ''evidence'' tenant_id) (\<lambda>envelope.
     bind (record_evidence P tenant_id envelope) (\<lambda>stored. ret (ed_receipt_id stored))))"

record hidden_result =
  hr_receipt_id :: string
  hr_suite_digest :: string
  hr_candidate_fingerprint :: string
  hr_total :: int
  hr_score :: int

definition hidden_payload :: "hidden_result \<Rightarrow> json" where
  "hidden_payload h = JObj [(''receipt_id'', JStr (hr_receipt_id h)), (''suite_digest'', JStr (hr_suite_digest h)),
     (''candidate_fingerprint'', JStr (hr_candidate_fingerprint h)), (''total'', JInt (hr_total h)),
     (''normalized_score_ppm'', JInt (hr_score h))]"

definition obj_of :: "json option \<Rightarrow> json dict option" where
  "obj_of v = (case v of Some (JObj kvs) \<Rightarrow> Some kvs | _ \<Rightarrow> None)"

definition object_or :: "json option \<Rightarrow> string \<Rightarrow> json dict handler" where
  \<comment> \<open>\<open>if not isinstance(v, dict): raise ConflictError(msg)\<close>\<close>
  "object_or v msg = (case obj_of v of Some kvs \<Rightarrow> ret kvs | None \<Rightarrow> raise ConflictError msg)"

definition validate_promotion_benchmark ::
  "plane \<Rightarrow> string \<Rightarrow> string \<Rightarrow> string \<Rightarrow> bool \<Rightarrow> hidden_result handler" where
  \<comment> \<open>\<open>_validate_promotion_benchmark\<close>\<close>
  "validate_promotion_benchmark P tenant_id artifact_id receipt_id enforce_absolute_threshold =
     (let E = pl_env P; st = pl_settings P in
      case pl_hidden P of
        None \<Rightarrow> raise ConflictError ''hidden benchmark worker is not configured''
      | Some c \<Rightarrow>
          bind (get_evidence_receipt tenant_id receipt_id) (\<lambda>row.
          andthen (require (ed_evidence_kind row = ''hidden-benchmark'') ConflictError ''promotion receipt is not a hidden benchmark'')
          (bind (case obj_get (ed_envelope_json row) ''issued_at'' of Some (JInt n) \<Rightarrow> ret n
                 | _ \<Rightarrow> raise ConflictError ''promotion receipt issue time is invalid'') (\<lambda>issued_at.
           bind now (\<lambda>t.
           andthen (require (- 60 \<le> t - issued_at \<and> t - issued_at \<le> st_benchmark_receipt_max_age_seconds st) ConflictError
                      ''hidden benchmark receipt is stale or future-dated'')
           (bind (object_or (obj_get (ed_envelope_json row) ''payload'') ''hidden benchmark is bound to a different challenger'') (\<lambda>payload.
            andthen (require (map_of payload ''policy_artifact_id'' = Some (JStr artifact_id)) ConflictError
                       ''hidden benchmark is bound to a different challenger'')
            (bind (get_policy_artifact tenant_id artifact_id) (\<lambda>artifact.
             andthen (require (map_of payload ''policy_content_sha256'' = Some (JStr (ar_content_sha256 artifact))) ConflictError
                        ''hidden benchmark policy content hash does not match'')
             (bind (object_or (map_of payload ''aggregate'') ''hidden benchmark aggregate is missing'') (\<lambda>aggregate.
              bind now (\<lambda>t.
              bind (catch_exc [ReceiptError]
                     (verify E (pl_verifier P) t (JObj aggregate) (Some ''hidden-benchmark-aggregate'') (Some (hc_worker_tenant_id c)) None)
                     (raise ConflictError ''hidden benchmark aggregate authentication failed'')) (\<lambda>authenticated.
              bind (object_or (map_of aggregate ''payload'') ''hidden benchmark aggregate payload is invalid'') (\<lambda>ap.
              andthen (require (authenticated = JObj ap) ConflictError ''hidden benchmark aggregate payload does not authenticate'')
              (bind (object_or (map_of ap ''benchmark'') ''hidden benchmark aggregate fields are invalid'') (\<lambda>benchmark.
               bind (object_or (map_of ap ''candidate'') ''hidden benchmark aggregate fields are invalid'') (\<lambda>candidate.
               bind (object_or (map_of ap ''result'') ''hidden benchmark aggregate fields are invalid'') (\<lambda>r.
               bind (suite_digest P c) (\<lambda>digest.
               andthen (require (map_of benchmark ''suite_sha256'' = Some (JStr digest)) ConflictError
                          ''hidden benchmark receipt targets an obsolete suite'')
               (bind (lift (artifact_file P tenant_id artifact)) (\<lambda>path.
                bind (get (\<lambda>w. candidate_fingerprint (pl_os P) (view_of (files w)) E (candidate_argv P c path) (Some (pl_project_dir P)))) (\<lambda>f.
                bind (lift f) (\<lambda>expected_fingerprint.
                andthen (require (map_of candidate ''fingerprint_sha256'' = Some (JStr expected_fingerprint)) ConflictError
                           ''hidden benchmark candidate fingerprint does not match'')
                (bind (case map_of r ''total'' of Some (JInt n) \<Rightarrow> if 0 < n then ret n else raise ConflictError ''hidden benchmark contains no evaluated cases''
                       | _ \<Rightarrow> raise ConflictError ''hidden benchmark contains no evaluated cases'') (\<lambda>total.
                 bind (case map_of r ''normalized_score_ppm'' of Some (JInt n) \<Rightarrow> ret n
                       | _ \<Rightarrow> raise ConflictError ''hidden benchmark score is invalid'') (\<lambda>ppm.
                 andthen (require (\<not> (enforce_absolute_threshold \<and> ppm < st_minimum_hidden_benchmark_score_ppm st)) ConflictError
                            ''hidden benchmark score below promotion threshold'')
                 (ret \<lparr>hr_receipt_id = receipt_id, hr_suite_digest = digest, hr_candidate_fingerprint = expected_fingerprint,
                       hr_total = total, hr_score = ppm\<rparr>)))))))))))))))))))))))))))"

definition promotion_payload :: "promotion \<Rightarrow> json" where
  \<comment> \<open>\<open>asdict(promotion)\<close>\<close>
  "promotion_payload p = JObj
     [(''audit_id'', JStr (pr_audit_id p)), (''tenant_id'', JStr (pr_tenant_id p)), (''policy_name'', JStr (pr_policy_name p)),
      (''artifact_id'', JStr (pr_artifact_id p)), (''previous_artifact_id'', json_of_opt (pr_previous_artifact_id p)),
      (''generation'', JInt (pr_generation p)), (''decided_by'', JStr (pr_decided_by p)), (''reason'', JStr (pr_reason p)),
      (''benchmark_receipt_id'', json_of_opt (pr_benchmark_receipt_id p)), (''promoted_at'', JInt (pr_promoted_at p))]"

definition check_duties :: "plane \<Rightarrow> principal \<Rightarrow> string \<Rightarrow> unit handler" where
  "check_duties P pr challenger_id =
     (if st_require_separation_of_duties (pl_settings P) then
        bind (training_producers (pc_tenant_id pr) challenger_id) (\<lambda>producers.
        andthen (require (producers \<noteq> {}) ConflictError ''challenger producer identity is missing'')
          (require (pc_subject_id pr \<notin> producers) ConflictError
             ''challenger producer and promoter must be different subjects''))
      else ret ())"

definition receipt_arg :: "json dict \<Rightarrow> string \<Rightarrow> string handler" where
  "receipt_arg request name = (case map_of request name of
      Some (JStr (c # cs)) \<Rightarrow> ret (c # cs) | _ \<Rightarrow> raise ValueError (name @ '' is required''))"

definition commit_promotion ::
  "plane \<Rightarrow> principal \<Rightarrow> string \<Rightarrow> string \<Rightarrow> string \<Rightarrow> string \<Rightarrow> string option \<Rightarrow> gate_report
     \<Rightarrow> hidden_result \<Rightarrow> hidden_result option \<Rightarrow> string \<Rightarrow> json handler" where
  \<comment> \<open>the \<open>with self.store.transaction()\<close> block\<close>
  "commit_promotion P pr key family challenger_id reason expected report h champion_h benchmark_receipt_id =
     (let tenant_id = pc_tenant_id pr in
      transaction
        (bind (record_promotion_report P tenant_id challenger_id (report_payload report)) (\<lambda>offline.
         bind (promote_policy tenant_id family challenger_id expected (pc_subject_id pr) reason (Some benchmark_receipt_id) None) (\<lambda>p.
         andthen (append_audit P tenant_id (''policy:'' @ family) ''POLICY_PROMOTED'' (promotion_payload p))
         (let response = JObj [(''promotion'', promotion_payload p), (''report'', report_payload report),
                (''hidden_benchmark'', hidden_payload h),
                (''champion_hidden_benchmark'', case champion_h of None \<Rightarrow> JNull | Some c \<Rightarrow> hidden_payload c),
                (''offline_report_receipt_id'', JStr offline)] in
          andthen (complete_atomic pr ''promote'' key response) (ret response))))))"

definition paired_benchmark ::
  "plane \<Rightarrow> string \<Rightarrow> json dict \<Rightarrow> (champion_row \<times> artifact_row) option \<Rightarrow> hidden_result \<Rightarrow> hidden_result option handler" where
  \<comment> \<open>the \<open>if champion_row is not None\<close> block\<close>
  "paired_benchmark P tenant_id request champion_row h = (case champion_row of
      None \<Rightarrow> ret None
    | Some (c, _) \<Rightarrow>
        bind (receipt_arg request ''champion_hidden_benchmark_receipt_id'') (\<lambda>champion_receipt_id.
        bind (validate_promotion_benchmark P tenant_id (ch_artifact_id c) champion_receipt_id False) (\<lambda>ch.
        andthen (require (hr_score ch \<le> hr_score h) ConflictError
                   ''challenger regresses on the paired hidden benchmark'')
          (ret (Some ch)))))"

definition promote_operation :: "plane \<Rightarrow> principal \<Rightarrow> string \<Rightarrow> json dict \<Rightarrow> string \<Rightarrow> json handler" where
  "promote_operation P pr challenger_id request key =
     (let E = pl_env P; M = pl_math P; tenant_id = pc_tenant_id pr in
      bind (lift (bounded_text request ''family'' POLICY_FAMILY 128)) (\<lambda>family.
      bind (lift (bounded_text request ''reason'' ''passed controlled promotion gates'' 2000)) (\<lambda>reason.
      bind (get_policy_artifact tenant_id challenger_id) (\<lambda>row.
      andthen (require (ar_policy_name row = family) ConflictError ''challenger belongs to a different policy'')
      (andthen (check_duties P pr challenger_id)
      (bind (load_artifact P tenant_id challenger_id) (\<lambda>payload.
       bind (lift (model_from_payload (pl_text P) E payload)) (\<lambda>challenger.
       bind (get_champion tenant_id family) (\<lambda>champion_row.
       bind (champion_model P tenant_id family) (\<lambda>champion.
       bind (lift (promotion_report M E (pl_gammas P) POLICY_FAMILY default_policy champion challenger)) (\<lambda>report.
       andthen (require (rp_accepted report) ConflictError ''challenger failed promotion gates'')
       (bind (receipt_arg request ''hidden_benchmark_receipt_id'') (\<lambda>receipt_id.
        bind (validate_promotion_benchmark P tenant_id challenger_id receipt_id True) (\<lambda>h.
        bind (paired_benchmark P tenant_id request champion_row h) (\<lambda>champion_h.
        bind (commit_promotion P pr key family challenger_id reason (map_option (\<lambda>(c, _). ch_artifact_id c) champion_row)
                report h champion_h receipt_id) (\<lambda>response.
        andthen (bump P ''promotions_total'' [(''tenant'', tenant_id)]) (ret response)))))))))))))))))"

definition promote :: "plane \<Rightarrow> principal \<Rightarrow> string \<Rightarrow> json dict \<Rightarrow> string \<Rightarrow> json handler" where
  "promote P pr challenger_id request key =
     andthen (lift (require_allowed_fields request
        [''family'', ''hidden_benchmark_receipt_id'', ''champion_hidden_benchmark_receipt_id'', ''reason'']))
     (idempotent P pr ''promote'' key (dict_set ''challenger_id'' (JStr challenger_id) request)
        (promote_operation P pr challenger_id request key))"

section \<open>Rollback and reads\<close>

definition rollback_operation :: "plane \<Rightarrow> principal \<Rightarrow> string \<Rightarrow> json dict \<Rightarrow> string \<Rightarrow> json handler" where
  "rollback_operation P pr family request key =
     (let tenant_id = pc_tenant_id pr in
      bind (lift (bounded_text request ''reason'' ''operator rollback'' 2000)) (\<lambda>reason.
      bind (get_champion tenant_id family) (\<lambda>current.
      case current of
        None \<Rightarrow> raise NotFoundError ''no champion exists''
      | Some (c, _) \<Rightarrow>
          bind (get_promotion_at_generation tenant_id family (ch_generation c)) (\<lambda>current_promotion.
          case current_promotion of
            None \<Rightarrow> raise ConflictError ''champion promotion audit is missing or inconsistent''
          | Some cp \<Rightarrow>
              andthen (require (pr_artifact_id cp = ch_artifact_id c) ConflictError
                         ''champion promotion audit is missing or inconsistent'')
              (case pr_previous_artifact_id cp of
                 None \<Rightarrow> raise ConflictError ''champion has no rollback target''
               | Some previous \<Rightarrow>
                   bind (transaction
                     (bind (promote_policy tenant_id family previous (Some (ch_artifact_id c)) (pc_subject_id pr) reason None None) (\<lambda>p.
                      andthen (append_audit P tenant_id (''policy:'' @ family) ''POLICY_ROLLED_BACK'' (promotion_payload p))
                      (let response = JObj [(''promotion'', promotion_payload p)] in
                       andthen (complete_atomic pr ''rollback'' key response) (ret response))))) (\<lambda>response.
                   andthen (bump P ''rollbacks_total'' [(''tenant'', tenant_id)]) (ret response)))))))"

definition rollback :: "plane \<Rightarrow> principal \<Rightarrow> string \<Rightarrow> json dict \<Rightarrow> string \<Rightarrow> json handler" where
  "rollback P pr family request key =
     andthen (lift (require_allowed_fields request [''reason'']))
     (idempotent P pr ''rollback'' key (dict_set ''family'' (JStr family) request)
        (rollback_operation P pr family request key))"

definition read_champion :: "principal \<Rightarrow> string \<Rightarrow> (champion_row \<times> artifact_row) option handler" where
  \<comment> \<open>\<open>ControlPlane.get_champion\<close>\<close>
  "read_champion pr family = get_champion (pc_tenant_id pr) family"

definition audit :: "principal \<Rightarrow> int \<Rightarrow> int \<Rightarrow> event_row list handler" where
  "audit pr after limit = list_events (pc_tenant_id pr) None after limit"

end
