(* ===== verification/ControlInvariant.thy ===== *)
theory ControlInvariant
  imports Control
begin

text \<open>
  The control plane as a client of the store. The locale \<open>store_client\<close> holds the contract: a property
  of the database that every method of the store keeps. Every handler of the control plane keeps such a
  property, whatever the subprocesses, the files and the clock do and however the handler ends. It is
  interpreted on the invariant of the store and on the append-only order of its logs.
\<close>

section \<open>Requests\<close>

datatype api_call =
    RunDecision "json dict" string
  | RunEvidence "json dict" string
  | EvaluateHidden "json dict" string
  | TrainChallenger "json dict" string
  | Promote string "json dict" string
  | Rollback string "json dict" string
  | ReadChampion string
  | Audit int int
  | BeginDraining
  | Health

fun serve :: "plane \<Rightarrow> principal \<Rightarrow> api_call \<Rightarrow> unit handler" where
  "serve P pr (RunDecision request key) = void (run_decision P pr request key)"
| "serve P pr (RunEvidence request key) = void (run_evidence P pr request key)"
| "serve P pr (EvaluateHidden request key) = void (evaluate_hidden_benchmark P pr request key)"
| "serve P pr (TrainChallenger request key) = void (run_training P pr request key)"
| "serve P pr (Promote challenger_id request key) = void (promote P pr challenger_id request key)"
| "serve P pr (Rollback family request key) = void (rollback P pr family request key)"
| "serve P pr (ReadChampion family) = void (read_champion pr family)"
| "serve P pr (Audit after limit) = void (audit pr after limit)"
| "serve P pr BeginDraining = void begin_draining"
| "serve P pr Health = void health"

section \<open>Rules for the combinators of the control plane\<close>

lemma keeps_json [keeps_intros]:
  assumes "keeps I n" "\<And>b. keeps I (tb b)" "\<And>i. keeps I (ti i)" "\<And>f. keeps I (tf f)" "\<And>s. keeps I (ts s)"
    "\<And>vs. keeps I (tl' vs)" "\<And>kvs. keeps I (t' kvs)"
  shows "keeps I (case v of JNull \<Rightarrow> n | JBool b \<Rightarrow> tb b | JInt i \<Rightarrow> ti i | JFloat f \<Rightarrow> tf f | JStr s \<Rightarrow> ts s
    | JList vs \<Rightarrow> tl' vs | JObj kvs \<Rightarrow> t' kvs)"
  using assms by (cases v) simp_all

lemma keeps_list [keeps_intros]:
  "keeps I m \<Longrightarrow> (\<And>x xs. keeps I (k x xs)) \<Longrightarrow> keeps I (case p of [] \<Rightarrow> m | x # xs \<Rightarrow> k x xs)"
  by (cases p) simp_all

lemma keeps_pair [keeps_intros]: "(\<And>x y. keeps I (k x y)) \<Longrightarrow> keeps I (case p of (x, y) \<Rightarrow> k x y)"
  by (cases p) simp

lemma keeps_void_iff: "keeps I (void m) \<longleftrightarrow> keeps I m"
  by (auto simp: keeps_def void_def bind_def split: prod.splits sum.splits) (metis sum.exhaust)

lemma keeps_catch_exc [keeps_intros]: "keeps I m \<Longrightarrow> keeps I k \<Longrightarrow> keeps I (catch_exc cs m k)"
  unfolding catch_exc_def by (intro keeps_intros)

lemma keeps_on_error [keeps_intros]: "keeps I m \<Longrightarrow> keeps I k \<Longrightarrow> keeps I (on_error m k)"
  unfolding on_error_def by (intro keeps_intros)

lemma keeps_with_lease [keeps_intros]:
  assumes "keeps I a" "\<And>l. keeps I (body l)" "\<And>l. keeps I (c l)"
  shows "keeps I (with_lease a body c)"
proof (rule keepsI)
  fix s r t assume I: "I s" and run: "with_lease a body c s = (r, t)"
  obtain r' s' where a: "a s = (r', s')" by fastforce
  have I': "I s'" by (rule keepsD [OF assms(1) I a])
  have k: "keeps I (finally_do (throw e) (c None))" "keeps I (finally_do (body l) (c (Some l)))" for e l
    by (intro keeps_intros assms)+
  show "I t"
    using run a k [THEN keepsD, OF I'] by (auto simp: with_lease_def split: sum.splits)
qed

lemma keeps_train_loop:
  "(\<And>h i. heartbeat = Some h \<Longrightarrow> keeps I (h i)) \<Longrightarrow> keeps I (train_loop heartbeat episode is m)"
proof (induction "is" arbitrary: m)
  case Nil
  show ?case unfolding train_loop.simps by (intro keeps_intros)
next
  case (Cons i "is")
  have "keeps I (case heartbeat of None \<Rightarrow> ret () | Some h \<Rightarrow> andthen (h i) (ret ()))"
    using Cons.prems by (cases heartbeat) (simp_all add: keeps_intros)
  then show ?case unfolding train_loop.simps by (intro keeps_andthen keeps_bind keeps_pure Cons)
qed

lemma keeps_train_challenger:
  "(\<And>i. keeps I (h i)) \<Longrightarrow> keeps I (train_challenger M E gm m n k sd (Some h))"
  unfolding train_challenger_def by (intro keeps_intros keeps_train_loop) simp

lemma keeps_control_fields [keeps_intros]:
  "keeps_db J (bump P nm ls)" "keeps_db J (write_file P path content)" "keeps_db J health"
  "keeps_db J begin_draining"
  by (auto simp: keeps_def bump_def write_file_def health_def begin_draining_def split: prod.splits option.splits)

lemma keeps_control_reads [keeps_intros]:
  "keeps_db J (get_policy_artifact x a)" "keeps_db J (training_producers x a)" "keeps_db J (get_champion x p)"
  "keeps_db J (get_promotion_at_generation x p g)" "keeps_db J (get_evidence_receipt x i)"
  "keeps_db J (list_events x sid after limit)"
  by (intro keeps_reads_only aon_intros)+

lemma keeps_verify [keeps_intros]: "keeps I (verify E vr t env p x None)"
  by (auto simp: verify_def intro: keeps_intros)

lemma keeps_sign_now [keeps_intros]: "keeps_db J (sign_now P payload purpose tenant_id)"
  unfolding sign_now_def by (intro keeps_intros)

lemma keeps_load_artifact [keeps_intros]: "keeps_db J (load_artifact P x a)"
  unfolding load_artifact_def by (intro keeps_intros)

lemma keeps_champion_model [keeps_intros]: "keeps_db J (champion_model P x family)"
  unfolding champion_model_def by (intro keeps_intros)

lemma keeps_suite_digest [keeps_intros]: "keeps_db J (suite_digest P c)"
  unfolding suite_digest_def by (intro keeps_intros)

lemma keeps_promotion_checks [keeps_intros]:
  "keeps_db J (check_duties P pr a)" "keeps_db J (receipt_arg request nm)" "keeps_db J (object_or v msg)"
  unfolding check_duties_def receipt_arg_def object_or_def by (intro keeps_intros)+

lemma keeps_validate_promotion [keeps_intros]: "keeps_db J (validate_promotion_benchmark P x a rc b)"
  unfolding validate_promotion_benchmark_def Let_def by (intro keeps_intros)

lemma keeps_paired_benchmark [keeps_intros]: "keeps_db J (paired_benchmark P x request c h)"
  unfolding paired_benchmark_def by (intro keeps_intros)

section \<open>The contract of the store\<close>

locale store_client =
  fixes P :: plane and J :: "db \<Rightarrow> bool"
  assumes calls: "keeps_db J (run_call (pl_env P) (pl_grace P) (Some (pl_verifier P)) c :: unit handler)"
begin

lemma call_keeps:
  "run_call (pl_env P) (pl_grace P) (Some (pl_verifier P)) c = (void m :: unit handler) \<Longrightarrow> keeps_db J m"
  using calls [of c] by (simp add: keeps_void_iff)

lemma store_keeps:
  "keeps_db J (create_budget x y l :: (control, budget_snapshot) action)"
  "keeps_db J (reserve_budget x y i n :: (control, budget_snapshot) action)"
  "keeps_db J (consume_budget x y i :: (control, budget_snapshot) action)"
  "keeps_db J (release_budget x y i :: (control, budget_snapshot) action)"
  "keeps_db J (acquire_lease x y h ttl na :: (control, lease_row) action)"
  "keeps_db J (renew_lease x y h k ttl na :: (control, lease_row) action)"
  "keeps_db J (release_lease x y h k :: (control, lease_row) action)"
  "keeps_db J (claim_idempotency (pl_env P) x y z req ot :: (control, idempotency_record) action)"
  "keeps_db J (complete_idempotency x y z v :: (control, idempotency_record) action)"
  "keeps_db J (fail_idempotency x y z v :: (control, idempotency_record) action)"
  "keeps_db J (append_event (pl_env P) x s ty p oi ver oc :: (control, event_row) action)"
  "keeps_db J (record_evidence_receipt (pl_env P) (pl_grace P) (Some (pl_verifier P)) t x env oi
     :: (control, evidence_row) action)"
  "keeps_db J (record_experience_receipt (pl_env P) (pl_grace P) (Some (pl_verifier P)) t x env oi
     :: (control, experience_row) action)"
  "keeps_db J (register_policy_artifact x a s y z uri m :: (control, artifact_row) action)"
  "keeps_db J (record_training_run x i s a y k v :: (control, training_row) action)"
  "keeps_db J (promote_policy x s a oi y z rc aid :: (control, promotion) action)"
  by (rule call_keeps, rule run_call.simps)+

lemmas client_intros = keeps_intros store_keeps

lemma receipts_keep:
  "keeps_db J (record_evidence P x env)" "keeps_db J (record_experience P x env)"
  "keeps_db J (append_audit P x s ty v)" "keeps_db J (complete_atomic pr s y v)"
  "keeps_db J (claim_key P pr s y req)"
  unfolding record_evidence_def record_experience_def append_audit_def complete_atomic_def claim_key_def
  by (intro client_intros)+

lemma persist_artifact_keeps: "keeps_db J (persist_artifact P x family m meta)"
  unfolding persist_artifact_def Let_def by (intro client_intros)

lemma idempotent_keeps:
  "keeps_db J operation \<Longrightarrow> keeps_db J (idempotent P pr scope key request operation)"
  unfolding idempotent_def by (intro client_intros receipts_keep)

lemma run_decision_keeps: "keeps_db J (run_decision P pr request key)"
  unfolding run_decision_def decision_operation_def decide_def commit_decision_def Let_def
  by (intro client_intros receipts_keep idempotent_keeps)

lemma run_evidence_keeps: "keeps_db J (run_evidence P pr request key)"
  unfolding run_evidence_def evidence_operation_def Let_def
  by (intro client_intros receipts_keep idempotent_keeps)

lemma evaluate_hidden_keeps: "keeps_db J (evaluate_hidden_benchmark P pr request key)"
  unfolding evaluate_hidden_benchmark_def hidden_operation_def commit_hidden_def Let_def
  by (intro client_intros receipts_keep idempotent_keeps)

lemma training_cleanup_keeps: "keeps_db J (training_cleanup x y h i l)"
  unfolding training_cleanup_def by (intro client_intros)

lemma run_training_keeps: "keeps_db J (run_training P pr request key)"
  unfolding run_training_def training_operation_def commit_training_def Let_def
  by (intro client_intros receipts_keep idempotent_keeps persist_artifact_keeps training_cleanup_keeps
      keeps_train_challenger)

lemma promote_keeps_db: "keeps_db J (promote P pr a request key)"
  unfolding promote_def promote_operation_def commit_promotion_def record_promotion_report_def Let_def
  by (intro client_intros receipts_keep idempotent_keeps)

lemma rollback_keeps: "keeps_db J (rollback P pr family request key)"
  unfolding rollback_def rollback_operation_def Let_def
  by (intro client_intros receipts_keep idempotent_keeps)

lemma serve_keeps: "keeps_db J (serve P pr call)"
proof (cases call)
  case (ReadChampion f)
  then show ?thesis by (simp add: read_champion_def) (intro keeps_intros)
next
  case (Audit f l)
  then show ?thesis by (simp add: audit_def) (intro keeps_intros)
qed (simp_all add: keeps_void run_decision_keeps run_evidence_keeps evaluate_hidden_keeps run_training_keeps
    promote_keeps_db rollback_keeps keeps_control_fields)

end

text \<open>The invariant of the store and the order of its logs are such properties.\<close>

interpretation wf: store_client P "\<lambda>d. sha256_ok (pl_env P) \<longrightarrow> store_inv (pl_env P) (Some (pl_verifier P)) d" for P
proof
  fix c
  have "sha256_ok (pl_env P) \<Longrightarrow> keeps_db (store_inv (pl_env P) (Some (pl_verifier P)))
      (run_call (pl_env P) (pl_grace P) (Some (pl_verifier P)) c :: unit handler)"
    by (rule run_call_keeps)
  then show "keeps_db (\<lambda>d. sha256_ok (pl_env P) \<longrightarrow> store_inv (pl_env P) (Some (pl_verifier P)) d)
      (run_call (pl_env P) (pl_grace P) (Some (pl_verifier P)) c :: unit handler)"
    unfolding keeps_def by blast
qed

interpretation history: store_client P "extends d" for P d
  by unfold_locales (rule run_call_extends)

section \<open>The service as a transition system\<close>

inductive service_step :: "plane \<Rightarrow> control \<Rightarrow> control \<Rightarrow> bool" for P where
  serve: "serve P pr call w = (r, w') \<Longrightarrow> service_step P w w'"

inductive_cases service_stepE: "service_step P w w'"

lemma service_step_keeps:
  "sha256_ok (pl_env P) \<Longrightarrow> store_inv (pl_env P) (Some (pl_verifier P)) (db w) \<Longrightarrow> service_step P w w'
     \<Longrightarrow> store_inv (pl_env P) (Some (pl_verifier P)) (db w')"
  by (erule service_stepE) (use wf.serve_keeps [THEN keepsD] in blast)

interpretation service: invariant_system "service_step P"
    "\<lambda>w. sha256_ok (pl_env P) \<longrightarrow> store_inv (pl_env P) (Some (pl_verifier P)) (db w)" for P
  by unfold_locales (auto dest: service_step_keeps)

lemma service_step_extends: "service_step P w w' \<Longrightarrow> extends d (db w) \<Longrightarrow> extends d (db w')"
  by (erule service_stepE) (use history.serve_keeps [THEN keepsD] in blast)

interpretation service_history: invariant_system "service_step P" "\<lambda>w. extends d (db w)" for P d
  by unfold_locales (rule service_step_extends)

end
