(* ===== verification/ControlLemmas.thy ===== *)
theory ControlLemmas
  imports ControlInvariant
begin

text \<open>
  What the handlers of the control plane do: the replay of completed requests, the gates of a promotion,
  the target of a rollback and the accounting of a decision.
\<close>

section \<open>What a method of the store leaves alone\<close>

definition outside :: "control \<Rightarrow> control \<Rightarrow> bool" where
  \<comment> \<open>the clock, the files, the counters and the lifecycle are those of \<open>v\<close>\<close>
  "outside v w \<longleftrightarrow> clock w = clock v \<and> files w = files v \<and> meters w = meters v \<and> draining w = draining v"

lemma outside_refl [simp]: "outside v v"
  by (simp add: outside_def)

lemma keeps_outside [keeps_intros]:
  "keeps (outside v) now" "keeps (outside v) new_uuid" "keeps (outside v) new_token"
  "keeps (outside v) (query f)" "keeps (outside v) (exec h)" "keeps (outside v) (required vs)"
  "keeps (outside v) (bind_ints ns)"
  by (auto simp: keeps_def outside_def required_def bind_ints_def require_apply split: if_splits)

lemma keeps_outside_transaction [keeps_intros]:
  assumes "keeps (outside v) body" shows "keeps (outside v) (transaction body)"
proof (rule keepsI)
  fix w r w' assume "outside v w" and run: "transaction body w = (r, w')"
  moreover obtain r' u where b: "body w = (r', u)" by fastforce
  ultimately have "outside v u" using assms by (auto dest: keepsD)
  with run b show "outside v w'" by (auto simp: transaction_def outside_def split: sum.splits)
qed

lemma claim_key_outside: "keeps (outside v) (claim_key P pr scope key request)"
  unfolding claim_key_def claim_idempotency_def Let_def by (intro keeps_intros)

section \<open>Replay\<close>

lemma idempotent_replays:
  assumes ok: "idempotency_ok (db w)"
    and held: "r \<in> set (idempotency_records (db w))" "idempotency_key r = (pc_tenant_id pr, scope, key)"
    and final: "id_status r = COMPLETED" "id_result_json r = Some (JObj kvs)"
    and live: "\<not> past id_expires_at (clock w (clock_reads w)) r"
    and args: "pc_tenant_id pr \<noteq> []" "scope \<noteq> []" "key \<noteq> []" "sql_int (clock w (clock_reads w))"
      "sha256_hex (pl_env P) (JObj request) = Inr (id_request_hash r)"
    and run: "idempotent P pr scope key request op w = (res, w')"
  shows "res = Inr (JObj kvs) \<and> db w' = drop_expired (clock w (clock_reads w)) (db w) \<and> files w' = files w"
proof -
  obtain c w1 where c: "claim_key P pr scope key request w = (c, w1)" by fastforce
  have "c = Inr (idempotency_record_of r False)"
    using claim_idempotency_held [OF c [unfolded claim_key_def] ok held live args(1-3) _ args(4,5)] by simp
  with c have claim: "claim_idempotency (pl_env P) (pc_tenant_id pr) scope key (JObj request) (Some 86400) w
      = (Inr (idempotency_record_of r False), w1)" by (simp add: claim_key_def)
  from claim_idempotency_Inr [OF claim]
  have "db w1 = drop_expired (clock w (clock_reads w)) (db w)" by (auto split: option.splits simp: idempotency_record_of_def)
  moreover have "files w1 = files w" using keepsD [OF claim_key_outside outside_refl c] by (simp add: outside_def)
  moreover have "res = Inr (JObj kvs)" "w' = w1"
    using run c claim final by (auto simp: idempotent_def bind_apply claim_key_def stored_result_def)
  ultimately show ?thesis by simp
qed

section \<open>The gates of a promotion\<close>

definition hidden_gate :: "plane \<Rightarrow> control \<Rightarrow> string \<Rightarrow> string \<Rightarrow> string \<Rightarrow> hidden_result \<Rightarrow> bool" where
  \<comment> \<open>the recorded receipt \<open>rc\<close> is fresh, holds an authentic aggregate of the worker, and is about the
      artifact \<open>a\<close>, the current suite and the current candidate files\<close>
  "hidden_gate P w x a rc h \<longleftrightarrow> (\<exists>c row artifact issued t t' kvs agg ap benchmark candidate r path.
     pl_hidden P = Some c \<and> row_at evidence_key (x, rc) (evidence_receipts (db w)) = Some row
   \<and> ed_evidence_kind row = ''hidden-benchmark''
   \<and> obj_get (ed_envelope_json row) ''issued_at'' = Some (JInt issued) \<and> t \<in> range (clock w)
   \<and> - 60 \<le> t - issued \<and> t - issued \<le> st_benchmark_receipt_max_age_seconds (pl_settings P)
   \<and> obj_get (ed_envelope_json row) ''payload'' = Some (JObj kvs) \<and> map_of kvs ''policy_artifact_id'' = Some (JStr a)
   \<and> artifact_at x a (db w) = Some artifact
   \<and> map_of kvs ''policy_content_sha256'' = Some (JStr (ar_content_sha256 artifact))
   \<and> map_of kvs ''aggregate'' = Some (JObj agg) \<and> t' \<in> range (clock w)
   \<and> authenticate_envelope (pl_env P) (pl_verifier P) t' (JObj agg) (Some ''hidden-benchmark-aggregate'')
       (Some (hc_worker_tenant_id c)) = Inr ()
   \<and> map_of agg ''payload'' = Some (JObj ap) \<and> map_of ap ''benchmark'' = Some (JObj benchmark)
   \<and> map_of ap ''candidate'' = Some (JObj candidate) \<and> map_of ap ''result'' = Some (JObj r)
   \<and> opaque_suite_digest (pl_os P) (view_of (files w)) (pl_env P) (hc_benchmark_path c) = Inr (hr_suite_digest h)
   \<and> map_of benchmark ''suite_sha256'' = Some (JStr (hr_suite_digest h)) \<and> artifact_file P x artifact = Inr path
   \<and> candidate_fingerprint (pl_os P) (view_of (files w)) (pl_env P) (candidate_argv P c path) (Some (pl_project_dir P))
       = Inr (hr_candidate_fingerprint h)
   \<and> map_of candidate ''fingerprint_sha256'' = Some (JStr (hr_candidate_fingerprint h))
   \<and> map_of r ''total'' = Some (JInt (hr_total h)) \<and> 0 < hr_total h
   \<and> map_of r ''normalized_score_ppm'' = Some (JInt (hr_score h)) \<and> hr_receipt_id h = rc)"

lemma hidden_gate_cong:
  "db w' = db w \<Longrightarrow> outside w w' \<Longrightarrow> hidden_gate P w' x a rc h = hidden_gate P w x a rc h"
  by (simp add: hidden_gate_def outside_def)

lemma control_Inr_iff [result_iff]:
  "object_or v msg w = (Inr kvs, w') \<longleftrightarrow> v = Some (JObj kvs) \<and> w' = w"
  "verify E vr t env p x None w = (Inr j, w') \<longleftrightarrow> w' = w \<and> j = field env ''payload'' \<and> authenticate_envelope E vr t env p x = Inr ()"
  "suite_digest P c w = (Inr s, w') \<longleftrightarrow>
     opaque_suite_digest (pl_os P) (view_of (files w)) (pl_env P) (hc_benchmark_path c) = Inr s \<and> w' = w"
  by (auto simp: object_or_def obj_of_def verify_def suite_digest_def result_iff split: option.splits json.splits)

lemma catch_exc_raise_Inr [result_iff]:
  "catch_exc cs m (raise c msg) w = (Inr x, w') \<longleftrightarrow> m w = (Inr x, w')"
  by (auto simp: catch_exc_def catch_def split: prod.splits sum.splits if_splits)

lemma int_or_Inr [result_iff]:
  "(case v of Some (JInt n) \<Rightarrow> ret n | _ \<Rightarrow> raise c msg) w = (Inr k, w') \<longleftrightarrow> v = Some (JInt k) \<and> w' = w"
  "(case v of Some (JInt n) \<Rightarrow> if 0 < n then ret n else raise c msg | _ \<Rightarrow> raise c msg) w = (Inr k, w')
     \<longleftrightarrow> v = Some (JInt k) \<and> 0 < k \<and> w' = w"
  by (auto split: option.splits json.splits)

lemma validate_promotion_Inr:
  assumes "validate_promotion_benchmark P x a rc b w = (Inr h, w')"
  shows "hidden_gate P w x a rc h" "b \<Longrightarrow> st_minimum_hidden_benchmark_score_ppm (pl_settings P) \<le> hr_score h"
    "db w' = db w" "outside w w'"
proof -
  from assms obtain c where c: "pl_hidden P = Some c" by (cases "pl_hidden P") (auto simp: validate_promotion_benchmark_def)
  note run = assms [unfolded validate_promotion_benchmark_def Let_def c option.case result_iff]
  show "hidden_gate P w x a rc h"
    using run unfolding hidden_gate_def by (clarsimp simp: c) blast
  show "b \<Longrightarrow> st_minimum_hidden_benchmark_score_ppm (pl_settings P) \<le> hr_score h" "db w' = db w" "outside w w'"
    using run by (auto simp: outside_def)
qed

lemma reads_only_control [aon_intros]:
  "reads_only (load_artifact P x a)" "reads_only (champion_model P x family)" "reads_only (check_duties P pr a)"
  "reads_only (receipt_arg request nm)" "reads_only (validate_promotion_benchmark P x a rc b)"
  "reads_only (sign_now P v purpose x)" "reads_only (suite_digest P c)" "reads_only (object_or ov msg)"
  "reads_only (bump P nm ls)" "reads_only (paired_benchmark P x request crow h)"
  unfolding reads_only_keeps by (intro allI keeps_intros)+

lemma bump_run: "\<exists>v. bump P nm ls w = (Inr (), v) \<and> db v = db w"
  by (simp add: bump_def increment_def Let_def)

text \<open>A handler that counts its outcome after the commit.\<close>

lemma aon_counted:
  assumes "all_or_nothing m"
  shows "all_or_nothing (bind m (\<lambda>v. andthen (bump P nm ls) (ret v)))"
proof (rule aon_bind_tail [OF assms])
  fix w x w'
  obtain v where "bump P nm ls w' = (Inr (), v)" using bump_run [of P nm ls w'] by blast
  then show "\<exists>y v. andthen (bump P nm ls) (ret x) w' = (Inr y, v)" by (simp add: andthen_apply)
qed

lemmas control_reads = reads_only_pure reads_only_control policy_reads reads_only_option reads_only_bind
  reads_only_andthen reads_only_if

lemma reads_only_pair [aon_intros]: "(\<And>x y. reads_only (k x y)) \<Longrightarrow> reads_only (case p of (x, y) \<Rightarrow> k x y)"
  by (cases p) simp

lemma promote_operation_aon: "all_or_nothing (promote_operation P pr a request key)"
proof -
  have t: "all_or_nothing (bind (commit_promotion P pr key family a reason e rp h ch rc)
      (\<lambda>v. andthen (bump P nm ls) (ret v)))" for family reason e rp h ch rc nm ls
    unfolding commit_promotion_def Let_def by (intro aon_counted aon_transaction)
  show ?thesis
    unfolding promote_operation_def Let_def
    by (rule t | (rule aon_bind aon_andthen, (intro control_reads reads_only_pair)[1]))+
qed

lemma pure_load_artifact: "load_artifact P x a w = (r, w') \<Longrightarrow> w' = w"
  by (auto simp: load_artifact_def get_policy_artifact_def bind_apply split: sum.splits option.splits json.splits)

lemma pure_champion_model: "champion_model P x family w = (r, w') \<Longrightarrow> w' = w"
  by (auto simp: champion_model_def get_champion_def bind_apply split: sum.splits option.splits prod.splits
      dest: pure_load_artifact)

lemma check_duties_Inr [result_iff]:
  "check_duties P pr a w = (Inr u, w') \<longleftrightarrow> w' = w \<and>
     (if st_require_separation_of_duties (pl_settings P)
      then pc_tenant_id pr \<noteq> [] \<and> a \<noteq> [] \<and>
        (\<exists>r \<in> set (training_runs (db w)). tr_tenant_id r = pc_tenant_id pr \<and> tr_artifact_id r = a) \<and>
        \<not> (\<exists>r \<in> set (training_runs (db w)). tr_tenant_id r = pc_tenant_id pr \<and> tr_artifact_id r = a
             \<and> tr_trained_by r = pc_subject_id pr)
      else True)"
  by (auto simp: check_duties_def training_producers_def result_iff filter_empty_conv image_iff)

lemma receipt_arg_Inr [result_iff]:
  "receipt_arg request nm w = (Inr s, w') \<longleftrightarrow> map_of request nm = Some (JStr s) \<and> s \<noteq> [] \<and> w' = w"
  by (auto simp: receipt_arg_def split: option.splits json.splits list.splits)

lemma champion_at_upsert_same:
  "champion_at x p (d\<lparr>champion_registry := upsert_champion (new_champion x p a g t) (champion_registry d)\<rparr>)
     = Some (new_champion x p a g t)"
proof (cases "row_at champion_key (x, p) (champion_registry d)")
  case None
  then show ?thesis
    by (auto simp: champion_at_def upsert_champion_def champion_rows.row_at_append split: option.splits)
next
  case (Some c)
  have "find (\<lambda>r. champion_key r = (x, p)) (map (\<lambda>r. if champion_key r = (x, p) then new_champion x p a g t else r) T)
      = map_option (\<lambda>_. new_champion x p a g t) (find (\<lambda>r. champion_key r = (x, p)) T)" for T
    by (induction T) auto
  with Some show ?thesis by (simp add: champion_at_def upsert_champion_def update_at_def row_at_def)
qed

lemma outside_policies:
  assumes "\<And>d t u v. J d \<Longrightarrow> J (d\<lparr>receipt_nonces := t, evidence_receipts := u, experience_receipts := v\<rparr>)"
    "\<And>d t n. J d \<Longrightarrow> J (d\<lparr>events := t, last_sequence := n\<rparr>)" "\<And>d t. J d \<Longrightarrow> J (d\<lparr>idempotency_records := t\<rparr>)"
  shows "keeps_db J (record_promotion_report P x a v)" "keeps_db J (append_audit P x s ty v)"
    "keeps_db J (complete_atomic pr s y v)"
  unfolding record_promotion_report_def record_evidence_def append_audit_def complete_atomic_def complete_idempotency_def
  by (intro keeps_intros receipt_ops_frame append_event_frame idempotency_ops_frame assms; assumption)+

text \<open>What a commit leaves under its idempotency key.\<close>

definition completed :: "principal \<Rightarrow> string \<Rightarrow> string \<Rightarrow> json \<Rightarrow> db \<Rightarrow> bool" where
  "completed pr scope key v d \<longleftrightarrow> (\<exists>r. idempotency_at (pc_tenant_id pr) scope key d = Some r
     \<and> id_status r = COMPLETED \<and> id_result_json r = Some (canon v))"

lemma complete_atomic_Inr:
  assumes "complete_atomic pr scope key v w = (Inr u, w')"
  shows "completed pr scope key v (db w')"
proof -
  from assms obtain rec where run: "finish_idempotency (pc_tenant_id pr) scope key COMPLETED v w = (Inr rec, w')"
    by (auto simp: complete_atomic_def complete_idempotency_def void_def result_iff)
  then show ?thesis
    by (cases rule: finish_idempotency_Inr)
       (auto simp: completed_def idempotency_at_finalize json_text_def result_iff)
qed

lemma commit_promotion_Inr:
  assumes "commit_promotion P pr key family a reason expd rp h ch rc w = (Inr v, w')"
  shows "expd = champion_id (pc_tenant_id pr) family (db w)" "champion_id (pc_tenant_id pr) family (db w') = Some a"
    "completed pr ''promote'' key v (db w')"
proof -
  let ?x = "pc_tenant_id pr"
  from assms obtain off w1 p w2 ev w3 u where
    report: "record_promotion_report P ?x a (report_payload rp) w = (Inr off, w1)"
    and promo: "promote_policy ?x family a expd (pc_subject_id pr) reason (Some rc) None w1 = (Inr p, w2)"
    and aud: "append_audit P ?x (''policy:'' @ family) ''POLICY_PROMOTED'' (promotion_payload p) w2 = (Inr ev, w3)"
    and fin: "complete_atomic pr ''promote'' key v w3 = (Inr u, w')"
    by (auto simp: commit_promotion_def Let_def result_iff)
  note reg = outside_policies [where J = "\<lambda>d. champion_registry d = C" for C]
  have same: "champion_id x q d = champion_id x q d'" if "champion_registry d = champion_registry d'" for x q d d'
    using that by (simp add: champion_id_def champion_at_def)
  have w1: "champion_registry (db w1) = champion_registry (db w)" by (rule keepsD [OF reg(1) _ report]) simp_all
  have w3: "champion_registry (db w3) = champion_registry (db w2)" by (rule keepsD [OF reg(2) _ aud]) simp_all
  have w': "champion_registry (db w') = champion_registry (db w3)" by (rule keepsD [OF reg(3) _ fin]) simp_all
  from promo have "expd = champion_id ?x family (db w1) \<and> champion_id ?x family (db w2) = Some a"
  proof (cases rule: promote_Inr)
    case (promoted g t)
    have "champion_at ?x family (db w2) = Some (new_champion ?x family a g t)"
      unfolding promoted(14) using champion_at_upsert_same [where x = ?x and p = family and d = "db w1" and a = a and g = g and t = t]
      by (simp add: champion_at_def)
    with promoted(2) show ?thesis by (simp add: champion_id_def)
  qed simp
  with same [OF w1] same [OF w3] same [OF w'] show "expd = champion_id ?x family (db w)" "champion_id ?x family (db w') = Some a"
    by simp_all
  show "completed pr ''promote'' key v (db w')" by (rule complete_atomic_Inr [OF fin])
qed

definition promotion_gates :: "plane \<Rightarrow> principal \<Rightarrow> string \<Rightarrow> json dict \<Rightarrow> control \<Rightarrow> string \<Rightarrow> bool" where
  \<comment> \<open>what has to hold of the state \<open>w\<close> for \<open>a\<close> to become the champion of \<open>family\<close>\<close>
  "promotion_gates P pr a request w family \<longleftrightarrow> (let x = pc_tenant_id pr in
     registered (db w) x family a
   \<and> (if st_require_separation_of_duties (pl_settings P)
      then (\<exists>r \<in> set (training_runs (db w)). tr_tenant_id r = x \<and> tr_artifact_id r = a)
         \<and> \<not> (\<exists>r \<in> set (training_runs (db w)). tr_tenant_id r = x \<and> tr_artifact_id r = a
               \<and> tr_trained_by r = pc_subject_id pr)
      else True)
   \<and> (\<exists>payload challenger champion report. load_artifact P x a w = (Inr payload, w)
        \<and> model_from_payload (pl_text P) (pl_env P) payload = Inr challenger
        \<and> champion_model P x family w = (Inr champion, w)
        \<and> promotion_report (pl_math P) (pl_env P) (pl_gammas P) POLICY_FAMILY default_policy champion challenger = Inr report
        \<and> rp_accepted report)
   \<and> (\<exists>rc h. map_of request ''hidden_benchmark_receipt_id'' = Some (JStr rc) \<and> hidden_gate P w x a rc h
        \<and> st_minimum_hidden_benchmark_score_ppm (pl_settings P) \<le> hr_score h
        \<and> (case champion_at x family (db w) of
             None \<Rightarrow> True
           | Some c \<Rightarrow> \<exists>rc' h'. map_of request ''champion_hidden_benchmark_receipt_id'' = Some (JStr rc')
               \<and> hidden_gate P w x (ch_artifact_id c) rc' h' \<and> hr_score h' \<le> hr_score h)))"

lemma promote_operation_Inr:
  assumes "promote_operation P pr a request key w = (Inr v, w')"
  shows "\<exists>family. bounded_text request ''family'' POLICY_FAMILY 128 = Inr family \<and> promotion_gates P pr a request w family
    \<and> champion_id (pc_tenant_id pr) family (db w') = Some a \<and> completed pr ''promote'' key v (db w')"
proof -
  let ?x = "pc_tenant_id pr"
  from assms obtain family reason row payload challenger champion report rc h w1 champion_row ch w2 w3 wd wl wc
    where family: "bounded_text request ''family'' POLICY_FAMILY 128 = Inr family"
    and row: "artifact_at ?x a (db w) = Some row" "ar_policy_name row = family"
    and duties: "check_duties P pr a w = (Inr (), wd)"
    and load: "load_artifact P ?x a wd = (Inr payload, wl)" "model_from_payload (pl_text P) (pl_env P) payload = Inr challenger"
    and champ: "get_champion ?x family wl = (Inr champion_row, wl)" "champion_model P ?x family wl = (Inr champion, wc)"
    and report: "promotion_report (pl_math P) (pl_env P) (pl_gammas P) POLICY_FAMILY default_policy champion challenger = Inr report"
      "rp_accepted report"
    and rc: "map_of request ''hidden_benchmark_receipt_id'' = Some (JStr rc)"
    and h: "validate_promotion_benchmark P ?x a rc True wc = (Inr h, w1)"
    and pair: "paired_benchmark P ?x request champion_row h w1 = (Inr ch, w2)"
    and commit: "commit_promotion P pr key family a reason (map_option (\<lambda>(c, _). ch_artifact_id c) champion_row)
                report h ch rc w2 = (Inr v, w3)"
    and w': "db w' = db w3"
    using assms
    by (auto simp: promote_operation_def Let_def result_iff get_champion_def simp del: check_duties_Inr
        dest: reads_onlyD [OF reads_only_control(9)])
  have wd: "wd = w" using duties by (simp add: result_iff)
  have wl: "wl = w" using pure_load_artifact [OF load(1)] wd by simp
  have wc: "wc = w" using pure_champion_model [OF champ(2)] wl by simp
  note states = wd wl wc
  note gate = validate_promotion_Inr [OF h [unfolded states]]
  note committed = commit_promotion_Inr [OF commit]
  have db2: "db w2 = db w" using reads_onlyD [OF reads_only_control(10) pair] gate(3) by simp
  have pairs: "case champion_at ?x family (db w) of
             None \<Rightarrow> True
           | Some c \<Rightarrow> \<exists>rc' h'. map_of request ''champion_hidden_benchmark_receipt_id'' = Some (JStr rc')
               \<and> hidden_gate P w ?x (ch_artifact_id c) rc' h' \<and> hr_score h' \<le> hr_score h"
  proof (cases "champion_at ?x family (db w)")
    case (Some c)
    with committed(1) db2 champ(1) obtain art where "champion_row = Some (c, art)"
      by (auto simp: get_champion_def states champion_id_def split: option.splits)
    with pair obtain rc' h' w4 where rc': "map_of request ''champion_hidden_benchmark_receipt_id'' = Some (JStr rc')"
      and h': "validate_promotion_benchmark P ?x (ch_artifact_id c) rc' False w1 = (Inr h', w4)" "hr_score h' \<le> hr_score h"
      by (auto simp: paired_benchmark_def result_iff)
    have "hidden_gate P w ?x (ch_artifact_id c) rc' h'"
      using validate_promotion_Inr(1) [OF h'(1)] hidden_gate_cong [OF gate(3,4)] by simp
    with Some rc' h'(2) show ?thesis by auto
  qed simp
  have "promotion_gates P pr a request w family"
    unfolding promotion_gates_def Let_def registered_def
    using row duties [unfolded check_duties_Inr] load champ(2) report rc gate(1,2) pairs
    by (simp add: states) blast
  with family committed w' show ?thesis by (auto simp: states)
qed

section \<open>Rollback\<close>

lemma rollback_operation_aon: "all_or_nothing (rollback_operation P pr family request key)"
proof -
  have t: "all_or_nothing (bind (transaction m) (\<lambda>v. andthen (bump P nm ls) (ret v)))" for m :: "json handler" and nm ls
    by (intro aon_counted aon_transaction)
  have o: "all_or_nothing m \<Longrightarrow> (\<And>x. all_or_nothing (k x)) \<Longrightarrow> all_or_nothing (case p of None \<Rightarrow> m | Some x \<Rightarrow> k x)"
    for m :: "json handler" and k :: "'b \<Rightarrow> json handler" and p by (cases p) simp_all
  have q: "(\<And>x y. all_or_nothing (k x y)) \<Longrightarrow> all_or_nothing (case p of (x, y) \<Rightarrow> k x y)"
    for k :: "'b \<Rightarrow> 'c \<Rightarrow> json handler" and p by (cases p) simp
  show ?thesis
    unfolding rollback_operation_def Let_def
    by (rule t o q aon_reads_only [OF reads_only_pure(3)] | (rule aon_bind aon_andthen, (intro control_reads)[1]))+
qed

lemma rollback_operation_Inr:
  assumes "rollback_operation P pr family request key w = (Inr v, w')"
  shows "\<exists>c cp previous. champion_at (pc_tenant_id pr) family (db w) = Some c
    \<and> row_at generation_key (pc_tenant_id pr, family, ch_generation c) (promotion_audit (db w)) = Some cp
    \<and> pr_artifact_id cp = ch_artifact_id c \<and> pr_previous_artifact_id cp = Some previous
    \<and> champion_id (pc_tenant_id pr) family (db w') = Some previous
    \<and> (if previous = ch_artifact_id c then promotion_audit (db w') = promotion_audit (db w)
       else \<exists>p. promotion_audit (db w') = promotion_audit (db w) @ [p] \<and> pr_artifact_id p = previous
         \<and> pr_previous_artifact_id p = Some (ch_artifact_id c) \<and> pr_generation p = ch_generation c + 1
         \<and> pr_decided_by p = pc_subject_id pr)
    \<and> policy_artifacts (db w') = policy_artifacts (db w) \<and> completed pr ''rollback'' key v (db w')"
proof -
  let ?x = "pc_tenant_id pr"
  from assms obtain reason c cp previous p w2 ev w3 u w4 where
    c: "champion_at ?x family (db w) = Some c"
    and cp: "row_at generation_key (?x, family, ch_generation c) (promotion_audit (db w)) = Some cp"
      "pr_artifact_id cp = ch_artifact_id c" "pr_previous_artifact_id cp = Some previous"
    and promo: "promote_policy ?x family previous (Some (ch_artifact_id c)) (pc_subject_id pr) reason None None w = (Inr p, w2)"
    and aud: "append_audit P ?x (''policy:'' @ family) ''POLICY_ROLLED_BACK'' (promotion_payload p) w2 = (Inr ev, w3)"
    and fin: "complete_atomic pr ''rollback'' key v w3 = (Inr u, w4)" and w': "db w' = db w4"
    by (auto simp: rollback_operation_def Let_def result_iff get_champion_def get_promotion_at_generation_def
        split: option.splits dest: reads_onlyD [OF reads_only_control(9)])
  define J where "J d \<longleftrightarrow> champion_registry d = champion_registry (db w2) \<and> promotion_audit d = promotion_audit (db w2)
    \<and> policy_artifacts d = policy_artifacts (db w2)" for d :: db
  have "J (db w3)" by (rule keepsD [OF outside_policies(2) _ aud]) (simp_all add: J_def)
  then have J: "J (db w')" unfolding w' by (rule keepsD [OF outside_policies(3) _ fin, rotated -1]) (simp_all add: J_def)
  have fin': "completed pr ''rollback'' key v (db w')" unfolding w' by (rule complete_atomic_Inr [OF fin])
  from promo show ?thesis
  proof (cases rule: promote_Inr)
    case repeated
    with c cp J fin' show ?thesis by (auto simp: J_def champion_id_def champion_at_def)
  next
    case (promoted g t)
    have "champion_at ?x family (db w2) = Some (new_champion ?x family previous g t)"
      unfolding promoted(14) using champion_at_upsert_same [where x = ?x and p = family and d = "db w" and a = previous and g = g and t = t]
      by (simp add: champion_at_def)
    with J have "champion_id ?x family (db w') = Some previous" by (simp add: J_def champion_id_def champion_at_def)
    with promoted c cp J fin' show ?thesis by (auto simp: J_def)
  qed
qed

section \<open>Decisions\<close>

definition fails_in :: "(db \<Rightarrow> bool) \<Rightarrow> 'a handler \<Rightarrow> bool" where
  \<comment> \<open>an exception keeps \<open>J\<close>\<close>
  "fails_in J m \<longleftrightarrow> (\<forall>w e w'. J (db w) \<longrightarrow> m w = (Inl e, w') \<longrightarrow> J (db w'))"

lemma fails_in_bind: "keeps_db J m \<Longrightarrow> (\<And>x. fails_in J (f x)) \<Longrightarrow> fails_in J (bind m f)"
  unfolding fails_in_def by (auto simp: bind_Inl_iff dest: keepsD)

lemma fails_in_andthen: "keeps_db J m \<Longrightarrow> fails_in J k \<Longrightarrow> fails_in J (andthen m k)"
  unfolding andthen_def by (rule fails_in_bind)

lemma fails_in_aon: "all_or_nothing m \<Longrightarrow> fails_in J m"
  by (auto simp: fails_in_def dest: all_or_nothingD)

lemma fails_in_on_error:
  assumes "fails_in J m" "keeps_db J k" shows "fails_in J (on_error m k)"
  unfolding fails_in_def
proof (intro allI impI)
  fix w e w' assume J: "J (db w)" and run: "on_error m k w = (Inl e, w')"
  obtain r u where m: "m w = (r, u)" by fastforce
  with run obtain e' where e': "m w = (Inl e', u)" by (cases r) (auto simp: on_error_def catch_def)
  with assms(1) J have "J (db u)" by (auto simp: fails_in_def)
  moreover obtain r'' u'' where k: "k u = (r'', u'')" by fastforce
  ultimately have "J (db u'')" using assms(2) by (auto dest: keepsD)
  with run e' k show "J (db w')" by (cases r'') (auto simp: on_error_def catch_def andthen_apply)
qed

lemma on_error_Inr: "on_error m k w = (Inr v, w') \<longleftrightarrow> m w = (Inr v, w')"
  by (auto simp: on_error_def catch_def andthen_apply split: prod.splits sum.splits)

lemma decide_aon: "all_or_nothing (decide P pr key family sims sd run_id i)"
proof -
  have t: "all_or_nothing (bind (commit_decision P pr key family run_id i r env) (\<lambda>v. andthen (bump P nm ls) (ret v)))"
    for r env nm ls
    unfolding commit_decision_def Let_def by (intro aon_counted aon_transaction)
  show ?thesis
    unfolding decide_def Let_def
    by (rule t | (rule aon_bind, (intro control_reads)[1]))+
qed

lemma decision_operation_Inl:
  assumes "decision_operation P pr request key w = (Inl e, w')"
  shows "\<exists>bs rs. db w' = (db w)\<lparr>budgets := bs, budget_reservations := rs\<rparr>"
proof -
  define J where "J d \<longleftrightarrow> (\<exists>bs rs. d = (db w)\<lparr>budgets := bs, budget_reservations := rs\<rparr>)" for d
  have J: "J (d\<lparr>budgets := t, budget_reservations := u\<rparr>)" if "J d" for d t u using that by (auto simp: J_def intro!: exI refl)
  note b = budget_ops_frame [of J, OF J]
  have "fails_in J (decision_operation P pr request key)"
    unfolding decision_operation_def Let_def release_budget_def
    by (intro fails_in_bind fails_in_andthen fails_in_on_error fails_in_aon [OF decide_aon] keeps_void b
        keeps_pure keeps_db_checks)
  moreover have "J (db w)" unfolding J_def by (intro exI [of _ "budgets (db w)"] exI [of _ "budget_reservations (db w)"]) simp
  ultimately have "J (db w')" using assms by (auto simp: fails_in_def)
  then show ?thesis by (simp add: J_def)
qed

lemma consume_budget_Inr:
  assumes "consume_budget x y i w = (Inr s, w')"
  obtains r bs rs where "db w' = (db w)\<lparr>budgets := bs, budget_reservations := rs\<rparr>" "reservation_at x y i (db w') = Some r"
    "rs_status r = CONSUMED" "map_option rs_units (reservation_at x y i (db w)) = Some (rs_units r)"
proof -
  from transition_reservation_Inr [OF assms [unfolded consume_budget_def]] obtain r t where
    r: "reservation_at x y i (db w) = Some r" and w': "if rs_status r = CONSUMED then db w' = db w
      else rs_status r = RESERVED \<and> db w' = ledger_settle x y i CONSUMED (rs_units r) t (db w)" by blast
  show thesis
  proof (cases "rs_status r = CONSUMED")
    case True
    with r w' show thesis by (intro that [where bs = "budgets (db w)" and rs = "budget_reservations (db w)" and r = r]) simp_all
  next
    case False
    with w' have db': "db w' = ledger_settle x y i CONSUMED (rs_units r) t (db w)" by simp
    have "reservation_at x y i (db w') = Some (set_status CONSUMED t r)"
      using r by (simp add: db' ledger_settle_def reservation_at_def reservation_rows.row_at_update)
    with r show thesis
      by (intro that [OF db' [unfolded ledger_settle_def], where r = "set_status CONSUMED t r"]) (simp_all add: set_status_def)
  qed
qed

lemma commit_decision_Inr:
  assumes "commit_decision P pr key family run_id i r env w = (Inr v, w')"
  shows "\<exists>ex ev rv. experience_receipts (db w') = experience_receipts (db w) @ [ex] \<and> events (db w') = events (db w) @ [ev]
    \<and> ev_event_type ev = ''DECISION_COMPLETED'' \<and> ev_stream_id ev = ''run:'' @ run_id \<and> ev_tenant_id ev = pc_tenant_id pr
    \<and> reservation_at (pc_tenant_id pr) API_BUDGET i (db w') = Some rv \<and> rs_status rv = CONSUMED
    \<and> map_option rs_units (reservation_at (pc_tenant_id pr) API_BUDGET i (db w)) = Some (rs_units rv)
    \<and> completed pr ''decision'' key v (db w')"
proof -
  let ?x = "pc_tenant_id pr"
  from assms obtain ex w1 p ev w2 s w3 u where
    rec: "record_experience P ?x env w = (Inr ex, w1)"
    and aud: "append_audit P ?x (''run:'' @ run_id) ''DECISION_COMPLETED'' p w1 = (Inr ev, w2)"
    and use: "consume_budget ?x API_BUDGET i w2 = (Inr s, w3)" and fin: "complete_atomic pr ''decision'' key v w3 = (Inr u, w')"
    by (auto simp: commit_decision_def Let_def result_iff)
  from rec obtain w0 where run0: "record_experience_receipt (pl_env P) (pl_grace P) (Some (pl_verifier P)) (clock w (clock_reads w)) ?x env None w0
      = (Inr ex, w1)" and w0: "db w0 = db w" by (auto simp: record_experience_def result_iff)
  from run0 obtain ns where w1: "db w1 = (db w)\<lparr>receipt_nonces := ns, experience_receipts := experience_receipts (db w) @ [ex]\<rparr>"
    by (rule record_experience_Inr) (use w0 in auto)
  from aud [unfolded append_audit_def] have w2: "db w2 = insert_event ev (db w1)" and ev: "ev_event_type ev = ''DECISION_COMPLETED''"
    "ev_stream_id ev = ''run:'' @ run_id" "ev_tenant_id ev = ?x" "ev_sequence ev = last_sequence (db w1) + 1"
    by (auto elim!: append_event_Inr)
  from use obtain rv bs rs where w3: "db w3 = (db w2)\<lparr>budgets := bs, budget_reservations := rs\<rparr>"
    and rv: "reservation_at ?x API_BUDGET i (db w3) = Some rv" "rs_status rv = CONSUMED"
      "map_option rs_units (reservation_at ?x API_BUDGET i (db w2)) = Some (rs_units rv)" by (rule consume_budget_Inr)
  define J where "J d \<longleftrightarrow> events d = events (db w3) \<and> experience_receipts d = experience_receipts (db w3)
    \<and> budget_reservations d = budget_reservations (db w3)" for d :: db
  have "keeps_db J (complete_atomic pr ''decision'' key v :: (control, unit) action)"
    unfolding complete_atomic_def complete_idempotency_def
    by (intro keeps_void idempotency_ops_frame) (simp add: J_def)
  from keepsD [OF this _ fin] have J: "J (db w')" by (simp add: J_def)
  have "events (db w') = events (db w) @ [ev]" using J ev(4) by (simp add: J_def w3 w2 w1 insert_event_def)
  moreover have "reservation_at ?x API_BUDGET i (db w') = Some rv"
    using J rv(1) by (simp add: J_def reservation_at_def)
  moreover have "reservation_at ?x API_BUDGET i (db w2) = reservation_at ?x API_BUDGET i (db w)"
    by (simp add: w2 w1 insert_event_def reservation_at_def)
  ultimately show ?thesis
    using J ev(1-3) rv(2,3) complete_atomic_Inr [OF fin] by (auto simp: J_def w3 w2 w1 insert_event_def)
qed

lemma reserve_budget_row:
  "reserve_budget x y i units w = (Inr s, w') \<Longrightarrow> \<exists>r. reservation_at x y i (db w') = Some r \<and> rs_units r = units"
  by (drule reserve_budget_Inr)
     (auto simp: ledger_reserve_def reservation_at_def reservation_rows.row_at_append new_reservation_def
        reservation_key_def split: option.splits)

lemma decision_operation_Inr:
  assumes "decision_operation P pr request key w = (Inr v, w')"
  shows "\<exists>sims run_id ex ev rv. bounded_int request ''simulations'' 128 8 4096 = Inr sims
    \<and> experience_receipts (db w') = experience_receipts (db w) @ [ex] \<and> events (db w') = events (db w) @ [ev]
    \<and> ev_event_type ev = ''DECISION_COMPLETED'' \<and> ev_stream_id ev = ''run:'' @ run_id \<and> ev_tenant_id ev = pc_tenant_id pr
    \<and> reservation_at (pc_tenant_id pr) API_BUDGET (''decision-'' @ run_id) (db w') = Some rv \<and> rs_status rv = CONSUMED
    \<and> rs_units rv = sims \<and> completed pr ''decision'' key v (db w')"
proof -
  let ?x = "pc_tenant_id pr"
  define run_id where "run_id = uuid w (uuid_reads w)"
  define w1 where "w1 = w\<lparr>uuid_reads := Suc (uuid_reads w)\<rparr>"
  from assms obtain sims sd family b1 w2 b2 w3 where sims: "bounded_int request ''simulations'' 128 8 4096 = Inr sims"
    and create: "create_budget ?x API_BUDGET (st_default_tenant_budget (pl_settings P)) w1 = (Inr b1, w2)"
    and res: "reserve_budget ?x API_BUDGET (''decision-'' @ run_id) sims w2 = (Inr b2, w3)"
    and dec: "decide P pr key family sims sd run_id (''decision-'' @ run_id) w3 = (Inr v, w')"
    by (auto simp: decision_operation_def Let_def result_iff on_error_Inr run_id_def w1_def)
  from dec obtain m wm p r env w4 w5 nm ls u where m: "champion_model P ?x family w3 = (Inr m, wm)"
    and signed: "sign_now P p ''experience'' ?x wm = (Inr env, w4)"
    and commit: "commit_decision P pr key family run_id (''decision-'' @ run_id) r env w4 = (Inr v, w5)"
    and count: "bump P nm ls w5 = (Inr u, w')"
    by (auto simp: decide_def Let_def result_iff)
  have db4: "db w4 = db w3" using reads_onlyD [OF reads_only_control(6) signed] reads_onlyD [OF reads_only_control(2) m] by simp
  have w': "db w' = db w5" by (rule reads_onlyD [OF reads_only_control(9) count])
  from reserve_budget_row [OF res] obtain row where row: "reservation_at ?x API_BUDGET (''decision-'' @ run_id) (db w3) = Some row"
    "rs_units row = sims" by blast
  define J where "J d \<longleftrightarrow> events d = events (db w) \<and> experience_receipts d = experience_receipts (db w)" for d :: db
  note b = budget_ops_frame [of J]
  have "J (db w2)" by (rule keepsD [OF b(1) _ create]) (simp_all add: J_def w1_def)
  then have "J (db w3)" by (rule keepsD [OF b(2) _ res, rotated -1]) (simp_all add: J_def)
  with commit_decision_Inr [OF commit] row sims db4 show ?thesis by (auto simp: J_def w')
qed

end
