(* ===== verification/ControlInstances.thy ===== *)
theory ControlInstances
  imports ControlLemmas EngineInstances
begin

text \<open>
  Concrete values for the service: path functions of a small file system, a configuration, a principal, a
  service that has just started, one with a completed request, and an aggregate receipt of the worker.
\<close>

definition os0 :: osenv where
  "os0 = \<lparr>os_expanduser = (\<lambda>p. p), os_absolute = (\<lambda>p. p), os_join = (\<lambda>a b. a @ ''/'' @ b), os_resolve = Inr,
     os_is_dir = (\<lambda>_. True), os_executable = (\<lambda>_. True), os_euid = 0, os_casefold = (\<lambda>s. s)\<rparr>"

definition T0 :: pytext where
  "T0 = \<lparr>text_float = (\<lambda>_. raiseR ValueError ''could not convert string to float''),
     text_int = (\<lambda>_. raiseR ValueError ''invalid literal for int()''),
     json_loads = (\<lambda>_. raiseR ValueError ''not JSON''), text_str = (\<lambda>_. [])\<rparr>"

definition settings0 :: settings where
  "settings0 = \<lparr>st_default_tenant_budget = 1000, st_hidden_benchmark_attempt_limit = 3,
     st_hidden_benchmark_quota_window_seconds = 3600, st_lease_seconds = 60, st_benchmark_receipt_max_age_seconds = 3600,
     st_minimum_hidden_benchmark_score_ppm = 500000, st_require_separation_of_duties = True,
     st_allowed_commands = [], st_allowed_cwd_roots = []\<rparr>"

definition plane0 :: plane where
  \<comment> \<open>a service with neither an evidence runner nor a hidden benchmark\<close>
  "plane0 = \<lparr>pl_env = E0, pl_math = M1, pl_text = T0, pl_os = os0, pl_gammas = (\<lambda>_ _. Fin 1), pl_settings = settings0,
     pl_grace = 300, pl_signer = signer0, pl_verifier = verifier0, pl_hidden = None, pl_artifact_dir = ''/var'',
     pl_package_dir = ''/pkg'', pl_project_dir = ''/prj'', pl_worker = (\<lambda>_ _. raiseR OSError ''no worker''),
     pl_parse = (\<lambda>_. None), pl_evidence = (\<lambda>_ _ _ _ _. raiseR EvidenceError ''no runner''), pl_write_error = (\<lambda>_. None)\<rparr>"

lemma plane0_simps [simp]:
  "pl_env plane0 = E0" "pl_verifier plane0 = verifier0" "pl_hidden plane0 = None" "pl_settings plane0 = settings0"
  by (simp_all add: plane0_def)

definition principal0 :: principal where
  "principal0 = \<lparr>pc_tenant_id = ''acme'', pc_roles = [''operator''], pc_subject_id = ''ann''\<rparr>"

definition control0 :: control where
  "control0 = \<lparr>db = empty_db, clock = int, clock_reads = 0, uuid = (\<lambda>n. ''u'' @ digits_of_nat n), uuid_reads = 0,
     token = (\<lambda>n. ''t'' @ digits_of_nat n), token_reads = 0, files = (\<lambda>_. None), meters = [], draining = False\<rparr>"

definition control1 :: control where
  \<comment> \<open>a decision request claimed and completed\<close>
  "control1 = run_calls E0 300 None
     [ClaimIdempotency ''acme'' ''decision'' ''k'' (JObj []) (Some 86400),
      CompleteIdempotency ''acme'' ''decision'' ''k'' (JObj [(''run_id'', JStr ''u0'')])] control0"

definition aggregate_payload0 :: json where
  "aggregate_payload0 = JObj
     [(''receipt_type'', JStr ''hidden_benchmark.aggregate.v1''), (''receipt_id'', JStr ''i''), (''request_nonce'', JStr ''k''),
      (''issued_at'', JInt 0),
      (''benchmark'', JObj (map (\<lambda>k. (k, if k = ''case_count'' then JInt 4 else JStr ''s'')) BENCHMARK_RECEIPT_KEYS)),
      (''candidate'', JObj (map (\<lambda>k. (k, JStr ''f'')) CANDIDATE_RECEIPT_KEYS)),
      (''result'', JObj [(''passed'', JInt 3), (''failed'', JInt 1), (''total'', JInt 4), (''weighted_score_micros'', JInt 3000000),
         (''max_score_micros'', JInt 4000000), (''normalized_score_ppm'', JInt 750000)])]"

definition aggregate0 :: json where
  \<comment> \<open>an aggregate receipt: three of four cases passed\<close>
  "aggregate0 = (case sign E0 signer0 0 ''n'' aggregate_payload0 ''hidden-benchmark-aggregate'' ''worker'' (Some 3600) None (Some ''n1'') of
     Inr env \<Rightarrow> env | Inl _ \<Rightarrow> JNull)"

lemma aggregate0_code [code]:
  "aggregate0 = JObj
  [(''version'', JInt 1), (''algorithm'', JStr ''HS256''), (''key_id'', JStr ''k1''),
   (''purpose'', JStr ''hidden-benchmark-aggregate''), (''tenant_id'', JStr ''worker''), (''issued_at'', JInt 0),
   (''expires_at'', JInt 3600), (''nonce'', JStr ''n1''), (''payload'', aggregate_payload0),
   (''signature'', JStr (replicate 43 CHR ''A''))]"
  by code_simp

lemma aggregate0_accepted: "validate_aggregate_receipt os0 E0 verifier0 0 aggregate0 ''worker'' ''k'' ''s'' ''f'' = Inr aggregate0"
  by code_simp

end
