(* ===== verification/ControlProperties.thy ===== *)
theory ControlProperties
  imports ControlInstances
begin

text \<open>
  The properties of the service built on the store and the engine: its control plane, its learner, its
  policy artifacts and its hidden benchmarks.
\<close>




text \<open>
  C27. A request that completed is answered from its record: while the record of an idempotency key is
  held, a request with the same content returns the stored response and the operation is not run again,
  whatever it is. Only expired records are dropped from the database, and no file changes.
\<close>

theorem completed_request_is_replayed:
  assumes "idempotency_ok (db w)"
    and "r \<in> set (idempotency_records (db w))" "idempotency_key r = (pc_tenant_id pr, scope, key)"
    and "id_status r = COMPLETED" "id_result_json r = Some (JObj kvs)"
    and "\<not> past id_expires_at (clock w (clock_reads w)) r"
    and "pc_tenant_id pr \<noteq> []" "scope \<noteq> []" "key \<noteq> []" "sql_int (clock w (clock_reads w))"
      "sha256_hex (pl_env P) (JObj request) = Inr (id_request_hash r)"
    and "idempotent P pr scope key request operation w = (res, w')"
  shows "res = Inr (JObj kvs) \<and> db w' = drop_expired (clock w (clock_reads w)) (db w) \<and> files w' = files w"
  using assms by (rule idempotent_replays)

theorem completed_request_is_replayed_witness:
  "fst (idempotent plane0 principal0 ''decision'' ''k'' [] (raise ValueError ''not run'') control1)
     = Inr (JObj [(''run_id'', JStr ''u0'')])"
proof -
  define r where "r = \<lparr>id_tenant_id = ''acme'', id_scope = ''decision'', id_key = ''k'',
    id_request_hash = replicate 64 CHR ''0'', id_status = COMPLETED, id_result_json = Some (JObj [(''run_id'', JStr ''u0'')]),
    id_created_at = 0, id_updated_at = 1, id_expires_at = Some 86400\<rparr>"
  have rows: "idempotency_records (db control1) = [r]" unfolding r_def by code_simp
  have time: "clock control1 (clock_reads control1) = 2" by code_simp
  have "sha256_hex E0 (JObj []) = Inr (replicate 64 CHR ''0'')" by code_simp
  moreover obtain res w' where run: "idempotent plane0 principal0 ''decision'' ''k'' [] (raise ValueError ''not run'') control1
      = (res, w')" by fastforce
  ultimately show ?thesis
    using completed_request_is_replayed [OF _ _ _ _ _ _ _ _ _ _ _ run, where r = r]
    by (simp add: rows time r_def idempotency_ok_def uniq_rows_def idem_row_ok_def idempotency_key_def principal0_def
        past_def sql_int_def)
qed

text \<open>
  C28. A decision is all or nothing. When it returns, exactly one experience receipt and one
  \<open>DECISION_COMPLETED\<close> event of its run were added, the simulations it asked for are consumed from the
  budget of the tenant, and the response is stored under its key. When it raises, nothing but the ledger of
  budgets may have changed.
\<close>

theorem decision_commits_once:
  "case decision_operation P pr request key w of
     (Inl e, w') \<Rightarrow> \<exists>bs rs. db w' = (db w)\<lparr>budgets := bs, budget_reservations := rs\<rparr>
   | (Inr response, w') \<Rightarrow> \<exists>sims run_id ex ev rv. bounded_int request ''simulations'' 128 8 4096 = Inr sims
       \<and> experience_receipts (db w') = experience_receipts (db w) @ [ex] \<and> events (db w') = events (db w) @ [ev]
       \<and> ev_event_type ev = ''DECISION_COMPLETED'' \<and> ev_stream_id ev = ''run:'' @ run_id \<and> ev_tenant_id ev = pc_tenant_id pr
       \<and> reservation_at (pc_tenant_id pr) API_BUDGET (''decision-'' @ run_id) (db w') = Some rv
       \<and> rs_status rv = CONSUMED \<and> rs_units rv = sims \<and> completed pr ''decision'' key response (db w')"
proof (cases "decision_operation P pr request key w")
  case (Pair r w')
  then show ?thesis
    using decision_operation_Inl [of P pr request key w] decision_operation_Inr [of P pr request key w]
    by (cases r) simp_all
qed

text \<open>
  C29. A rollback makes the predecessor of the current champion the champion again, with a new entry at the
  end of the audit that names both and the next generation; no artifact is removed. When it raises, the
  database is what it was.
\<close>

theorem rollback_restores_predecessor:
  "case rollback_operation P pr family request key w of
     (Inl e, w') \<Rightarrow> db w' = db w
   | (Inr response, w') \<Rightarrow> \<exists>c cp previous. champion_at (pc_tenant_id pr) family (db w) = Some c
       \<and> row_at generation_key (pc_tenant_id pr, family, ch_generation c) (promotion_audit (db w)) = Some cp
       \<and> pr_artifact_id cp = ch_artifact_id c \<and> pr_previous_artifact_id cp = Some previous
       \<and> champion_id (pc_tenant_id pr) family (db w') = Some previous
       \<and> (if previous = ch_artifact_id c then promotion_audit (db w') = promotion_audit (db w)
          else \<exists>p. promotion_audit (db w') = promotion_audit (db w) @ [p] \<and> pr_artifact_id p = previous
            \<and> pr_previous_artifact_id p = Some (ch_artifact_id c) \<and> pr_generation p = ch_generation c + 1
            \<and> pr_decided_by p = pc_subject_id pr)
       \<and> policy_artifacts (db w') = policy_artifacts (db w) \<and> completed pr ''rollback'' key response (db w')"
proof (cases "rollback_operation P pr family request key w")
  case (Pair r w')
  then show ?thesis
    using all_or_nothingD [OF rollback_operation_aon] rollback_operation_Inr by (cases r) simp_all
qed

text \<open>
  C30. A policy survives storage: the payload written for a model that satisfies its invariant is read back
  as the same model, up to the order of its dictionaries, both as built and with its keys sorted as in the
  canonical file; the version, which names the content, is the same.
\<close>

theorem policy_payload_round_trip:
  assumes "model_to_payload M E m family = Inr p" "model_ok m"
  shows "model_from_payload T E p = Inr (in_key_order m) \<and> model_from_payload T E (canon_entries p) = Inr (in_key_order m)
    \<and> model_version E (in_key_order m) = model_version E m"
  using model_round_trip [OF assms] by simp

theorem policy_payload_round_trip_witness:
  "\<exists>p. model_to_payload M1 E0 default_model ''f'' = Inr p \<and> model_from_payload T0 E0 (canon_entries p) = Inr (in_key_order default_model)"
proof -
  have "case model_to_payload M1 E0 default_model ''f'' of Inl _ \<Rightarrow> False | Inr _ \<Rightarrow> True" by code_simp
  then obtain p where p: "model_to_payload M1 E0 default_model ''f'' = Inr p" by (auto split: sum.splits)
  have "check_model default_model = Inr default_model" by code_simp
  then have "model_ok default_model" by (simp add: check_model_iff)
  from policy_payload_round_trip [OF p this, where T = T0] p show ?thesis by blast
qed

text \<open>
  C31. A worker's answer that the service accepts is authentic, answers this request, is about this suite
  and this candidate, names none of the forbidden fields, and its numbers agree: the counts add up and the
  score is the stated share of the maximum, in parts per million, rounded down.
\<close>

theorem accepted_aggregate_is_bound:
  assumes "validate_aggregate_receipt os E vr t receipt x nonce suite fingerprint = Inr out"
  shows "out = receipt \<and> \<not> leaks os receipt
    \<and> authenticate_envelope E vr t receipt (Some ''hidden-benchmark-aggregate'') (Some x) = Inr ()
    \<and> (\<exists>p benchmark candidate r passed failed total score best ppm.
         field receipt ''payload'' = JObj p \<and> map_of p ''request_nonce'' = Some (JStr nonce)
       \<and> map_of p ''benchmark'' = Some (JObj benchmark) \<and> map_of benchmark ''suite_sha256'' = Some (JStr suite)
       \<and> map_of p ''candidate'' = Some (JObj candidate) \<and> map_of candidate ''fingerprint_sha256'' = Some (JStr fingerprint)
       \<and> map_of p ''result'' = Some (JObj r)
       \<and> map_of r ''passed'' = Some (JInt passed) \<and> map_of r ''failed'' = Some (JInt failed)
       \<and> map_of r ''total'' = Some (JInt total) \<and> map_of r ''weighted_score_micros'' = Some (JInt score)
       \<and> map_of r ''max_score_micros'' = Some (JInt best) \<and> map_of r ''normalized_score_ppm'' = Some (JInt ppm)
       \<and> 0 \<le> passed \<and> 0 \<le> failed \<and> passed + failed = total \<and> 0 \<le> score \<and> score \<le> best
       \<and> ppm = (if best = 0 then 0 else score * 1000000 div best) \<and> ppm \<le> 1000000)"
proof -
  from validate_aggregate_receipt_Inr [OF assms] obtain p benchmark candidate r where
    "field receipt ''payload'' = JObj p \<and> map_of p ''request_nonce'' = Some (JStr nonce)
     \<and> map_of p ''benchmark'' = Some (JObj benchmark) \<and> map_of benchmark ''suite_sha256'' = Some (JStr suite)
     \<and> map_of p ''candidate'' = Some (JObj candidate) \<and> map_of candidate ''fingerprint_sha256'' = Some (JStr fingerprint)
     \<and> map_of p ''result'' = Some (JObj r)" and r: "check_counters benchmark r = Inr ()" by blast
  with check_counters_Inr [OF r] validate_aggregate_receipt_Inr [OF assms] show ?thesis by blast
qed

theorem accepted_aggregate_is_bound_witness:
  "validate_aggregate_receipt os0 E0 verifier0 0 aggregate0 ''worker'' ''k'' ''s'' ''f'' = Inr aggregate0
   \<and> \<not> leaks os0 aggregate0"
  using accepted_aggregate_is_bound [OF aggregate0_accepted] aggregate0_accepted by blast

end
