(* ===== verification/HttpApi.thy ===== *)
theory HttpApi
  imports ControlInvariant PyObjects
begin

text \<open>
  The HTTP adapter (\<open>src/agent_tree_rl/api.py\<close>) and the authentication of its callers
  (\<open>Settings.authenticate\<close> in \<open>src/agent_tree_rl/config.py\<close>): strict JSON bodies, routing,
  roles, dispatch to the control plane, and the mapping of exceptions to status codes.

  A request is what \<open>http.server\<close> hands over: the method, the parts of \<open>urlsplit(self.path)\<close>, the
  headers and the bytes of the body (\<open>rq_split_error\<close> is the exception of \<open>urlsplit\<close>, when it raises);
  \<open>PUT\<close> and \<open>DELETE\<close> are answered with status 405 before
  anything else. \<open>httpenv\<close> holds what is used of the interpreter: \<open>repr\<close> of text, \<open>parse_qs\<close>
  with the options of the call, \<open>json.loads\<close> with the hooks that reject duplicate keys and non-finite
  numbers (\<open>None\<close> when it raises), the number formats of the metrics and the report of the store's
  readiness check.
\<close>

section \<open>Requests\<close>

datatype http_method = GET | POST

record http_request =
  rq_method :: http_method
  rq_split_error :: "py_error option"
  rq_path :: string
  rq_query :: string
  rq_authorization :: string
  rq_idempotency_key :: string
  rq_content_length :: "string option"
  rq_content_type :: string
  rq_body :: string

record httpenv =
  he_repr :: "string \<Rightarrow> string"
  he_parse_qs :: "string \<Rightarrow> (string \<times> string list) list option"
  he_json_loads :: "string \<Rightarrow> json option"
  he_fmt_g :: "pyfloat \<Rightarrow> string"
  he_uptime :: string
  he_storage :: "json dict"

record api_settings =
  as_require_auth :: bool
  as_max_request_bytes :: int
  as_token_digests :: "(string \<times> principal) list"

datatype failure = APIError int string string | Raised py_error

type_synonym 'a checked = "failure + 'a"

definition api_bind :: "'a checked \<Rightarrow> ('a \<Rightarrow> 'b checked) \<Rightarrow> 'b checked" where
  "api_bind r f = (case r of Inl e \<Rightarrow> Inl e | Inr x \<Rightarrow> f x)"

definition api_guard :: "bool \<Rightarrow> int \<Rightarrow> string \<Rightarrow> string \<Rightarrow> unit checked" where
  \<comment> \<open>\<open>if not b: raise APIError(status, code, message)\<close>\<close>
  "api_guard b status code message = (if b then Inr () else Inl (APIError status code message))"

section \<open>Bodies\<close>

definition MAX_BODY_DEPTH :: nat where "MAX_BODY_DEPTH = 64"
definition MAX_BODY_VALUES :: nat where "MAX_BODY_VALUES = 10000"

definition children :: "json \<Rightarrow> json list option" where
  "children v = (case v of JObj kvs \<Rightarrow> Some (map snd kvs) | JList vs \<Rightarrow> Some vs | _ \<Rightarrow> None)"

fun json_values :: "json \<Rightarrow> nat" where
  \<comment> \<open>how many values a JSON value contains, itself included\<close>
  "json_values (JObj kvs) = Suc (sum_list (map (\<lambda>kv. json_values (snd kv)) kvs))"
| "json_values (JList vs) = Suc (sum_list (map json_values vs))"
| "json_values v = 1"

lemma json_values_children:
  "children v = Some vs \<Longrightarrow> json_values v = Suc (sum_list (map json_values vs))" "children v = None \<Longrightarrow> json_values v = 1"
  by (cases v; auto simp: children_def comp_def)+

function limits_loop :: "(json \<times> nat) list \<Rightarrow> nat \<Rightarrow> unit result" where
  \<comment> \<open>the loop of \<open>_validate_json_limits\<close>, the top of the stack first\<close>
  "limits_loop [] value_count = Inr ()"
| "limits_loop ((current, enclosing_depth) # stack) value_count =
     bindR (guardR (Suc value_count \<le> MAX_BODY_VALUES) ValueError ''JSON value limit exceeded'') (\<lambda>_.
     case children current of
       None \<Rightarrow> limits_loop stack (Suc value_count)
     | Some vs \<Rightarrow>
         bindR (guardR (Suc enclosing_depth \<le> MAX_BODY_DEPTH) ValueError ''JSON nesting depth exceeded'') (\<lambda>_.
         limits_loop (rev (map (\<lambda>v. (v, Suc enclosing_depth)) vs) @ stack) (Suc value_count)))"
  by pat_completeness auto
termination
  by (relation "measure (\<lambda>(stack, _). sum_list (map (\<lambda>(v, _). json_values v) stack))")
     (auto simp: json_values_children comp_def rev_map [symmetric] sum_list_rev)

definition validate_json_limits :: "json \<Rightarrow> unit result" where
  "validate_json_limits v = limits_loop [(v, 0)] 0"

definition strict_body_loads :: "httpenv \<Rightarrow> string \<Rightarrow> json result" where
  \<comment> \<open>\<open>_strict_json_loads\<close>\<close>
  "strict_body_loads H text = (case he_json_loads H text of
      None \<Rightarrow> raiseR ValueError ''invalid JSON''
    | Some v \<Rightarrow> bindR (validate_json_limits v) (\<lambda>_. Inr v))"

definition read_body :: "pytext \<Rightarrow> httpenv \<Rightarrow> api_settings \<Rightarrow> http_request \<Rightarrow> json dict checked" where
  \<comment> \<open>\<open>_body\<close>\<close>
  "read_body T H A q = (case rq_content_length q of
      None \<Rightarrow> Inl (APIError 411 ''length_required'' ''Content-Length required'')
    | Some raw \<Rightarrow>
        (case text_int T raw of
           Inl _ \<Rightarrow> Inl (APIError 400 ''invalid_length'' ''invalid Content-Length'')
         | Inr n \<Rightarrow>
             api_bind (api_guard (0 \<le> n \<and> n \<le> as_max_request_bytes A) 413 ''body_too_large'' ''request body exceeds limit'') (\<lambda>_.
             api_bind (api_guard (rq_content_type q = ''application/json'') 415 ''unsupported_media_type''
                         ''application/json required'') (\<lambda>_.
             case strict_body_loads H (take (nat n) (rq_body q)) of
               Inl _ \<Rightarrow> Inl (APIError 400 ''invalid_json'' ''invalid JSON body'')
             | Inr (JObj kvs) \<Rightarrow> Inr kvs
             | Inr _ \<Rightarrow> Inl (APIError 400 ''invalid_body'' ''request JSON must be an object'')))))"

section \<open>Routes\<close>

definition STATIC_ROUTES :: "string list" where
  "STATIC_ROUTES = [''/healthz'', ''/readyz'', ''/metrics'', ''/v1/decisions/run'', ''/v1/evidence/run'',
     ''/v1/benchmarks/evaluate'', ''/v1/challengers/train'', ''/v1/audit'']"

definition OPERATIONAL_ROUTES :: "string list" where
  "OPERATIONAL_ROUTES = [''/healthz'', ''/readyz'', ''/metrics'']"

definition match_route :: "string \<Rightarrow> string \<times> string" where
  \<comment> \<open>\<open>_match_route\<close>: the template and its parameter\<close>
  "match_route path =
     (if path \<in> set STATIC_ROUTES then (path, [])
      else case split_on CHR ''/'' path of
        [r, v, kind, param, verb] \<Rightarrow>
          if r \<noteq> [] \<or> param = [] then (''unmatched'', [])
          else if v = ''v1'' \<and> kind = ''challengers'' \<and> verb = ''promote''
          then (''/v1/challengers/{challenger_id}/promote'', param)
          else if v = ''v1'' \<and> kind = ''families'' \<and> verb = ''rollback'' then (''/v1/families/{family}/rollback'', param)
          else if v = ''v1'' \<and> kind = ''families'' \<and> verb = ''champion'' then (''/v1/families/{family}/champion'', param)
          else (''unmatched'', [])
      | _ \<Rightarrow> (''unmatched'', []))"

definition is_operational :: "http_request \<Rightarrow> bool" where
  "is_operational q \<longleftrightarrow> rq_method q = GET \<and> fst (match_route (rq_path q)) \<in> set OPERATIONAL_ROUTES"

definition digits_value :: "string \<Rightarrow> int" where
  \<comment> \<open>\<open>int(raw, 10)\<close> on ASCII digits\<close>
  "digits_value s = fold (\<lambda>c n. 10 * n + (of_char c - 48)) s 0"

definition query_integer ::
  "httpenv \<Rightarrow> (string \<times> string list) list \<Rightarrow> string \<Rightarrow> int \<Rightarrow> int \<Rightarrow> int \<Rightarrow> int checked" where
  \<comment> \<open>\<open>_query_integer\<close>; the interpreter converts at most 4300 digits\<close>
  "query_integer H qs name dflt minimum maximum = (case map_of qs name of
      None \<Rightarrow> Inr dflt
    | Some vs \<Rightarrow>
        api_bind (api_guard (length vs = 1) 400 ''invalid_query'' ''audit query fields may appear only once'') (\<lambda>_.
        let raw = hd vs in
        api_bind (api_guard (raw \<noteq> [] \<and> list_all is_digit raw) 400 ''invalid_query''
                    (''audit query field '' @ he_repr H name @ '' must contain ASCII digits'')) (\<lambda>_.
        api_bind (api_guard (length raw \<le> 4300) 400 ''invalid_query''
                    (''audit query field '' @ he_repr H name @ '' is outside the supported range'')) (\<lambda>_.
        let n = digits_value raw in
        api_bind (api_guard (minimum \<le> n \<and> n \<le> maximum) 400 ''invalid_query''
                    (''audit query field '' @ he_repr H name @ '' must be between '' @ str_of_int minimum @ '' and '' @ str_of_int maximum)) (\<lambda>_.
        Inr n)))))"

section \<open>Authentication\<close>

definition is_ascii :: "string \<Rightarrow> bool" where
  "is_ascii s \<longleftrightarrow> list_all (\<lambda>c. (of_char c :: nat) < 128) s"

definition authenticate_token :: "pyenv \<Rightarrow> api_settings \<Rightarrow> string \<Rightarrow> principal option result" where
  \<comment> \<open>\<open>Settings.authenticate\<close>: every entry is compared and the last match wins; \<open>compare_digest\<close>
      refuses text that is not ASCII\<close>
  "authenticate_token E A bearer_token =
     (let content = sha256 E bearer_token in
      foldR (\<lambda>(expected, pr) found.
        bindR (guardR (is_ascii expected) TypeError ''comparing strings with non-ASCII characters is not supported'') (\<lambda>_.
        Inr (if expected = content then Some pr else found))) (as_token_digests A) None)"

definition development :: principal where
  "development = \<lparr>pc_tenant_id = ''development'', pc_roles = [''agent'', ''operator'', ''promoter'', ''auditor''],
     pc_subject_id = ''local-development''\<rparr>"

definition authenticate :: "pyenv \<Rightarrow> api_settings \<Rightarrow> http_request \<Rightarrow> principal checked" where
  \<comment> \<open>\<open>_authenticate\<close>\<close>
  "authenticate E A q =
     (if \<not> as_require_auth A then Inr development
      else if \<not> startswith (rq_authorization q) ''Bearer '' then Inl (APIError 401 ''unauthorized'' ''bearer token required'')
      else case authenticate_token E A (drop 7 (rq_authorization q)) of
        Inl e \<Rightarrow> Inl (Raised e)
      | Inr None \<Rightarrow> Inl (APIError 401 ''unauthorized'' ''invalid bearer token'')
      | Inr (Some pr) \<Rightarrow> Inr pr)"

section \<open>Dispatch\<close>

datatype body = JsonBody json | TextBody string

type_synonym 'a served = "control \<Rightarrow> 'a checked \<times> control"

definition fail :: "int \<Rightarrow> string \<Rightarrow> string \<Rightarrow> 'a served" where
  "fail status code message w = (Inl (APIError status code message), w)"

definition run_handler :: "'a handler \<Rightarrow> ('a \<Rightarrow> int \<times> body) \<Rightarrow> (int \<times> body) served" where
  "run_handler m f w = (case m w of (Inl e, w') \<Rightarrow> (Inl (Raised e), w') | (Inr x, w') \<Rightarrow> (Inr (f x), w'))"

definition ok_json :: "json \<Rightarrow> int \<times> body" where
  "ok_json v = (200, JsonBody v)"

definition with_role :: "principal \<Rightarrow> string list \<Rightarrow> (int \<times> body) served \<Rightarrow> (int \<times> body) served" where
  \<comment> \<open>\<open>self._require(principal, *roles)\<close>\<close>
  "with_role pr roles k w = (if allows pr roles then k w else fail 403 ''forbidden'' ''principal lacks required role'' w)"

definition post_route :: "plane \<Rightarrow> principal \<Rightarrow> string \<Rightarrow> string \<Rightarrow> json dict \<Rightarrow> string \<Rightarrow> (int \<times> body) served" where
  \<comment> \<open>the branches of \<open>method == "POST"\<close>\<close>
  "post_route P pr route param body key =
     (if route = ''/v1/decisions/run'' then with_role pr [''agent''] (run_handler (run_decision P pr body key) ok_json)
      else if route = ''/v1/evidence/run'' then with_role pr [''operator''] (run_handler (run_evidence P pr body key) ok_json)
      else if route = ''/v1/benchmarks/evaluate''
      then with_role pr [''promoter''] (run_handler (evaluate_hidden_benchmark P pr body key) ok_json)
      else if route = ''/v1/challengers/train'' then with_role pr [''agent''] (run_handler (run_training P pr body key) ok_json)
      else if route = ''/v1/challengers/{challenger_id}/promote''
      then with_role pr [''promoter''] (run_handler (promote P pr param body key) ok_json)
      else if route = ''/v1/families/{family}/rollback''
      then with_role pr [''promoter''] (run_handler (rollback P pr param body key) ok_json)
      else fail 404 ''not_found'' ''route not found'')"

definition champion_json :: "(champion_row \<times> artifact_row) option \<Rightarrow> json" where
  \<comment> \<open>the row of \<open>get_champion\<close>\<close>
  "champion_json v = JObj [(''champion'', case v of None \<Rightarrow> JNull | Some (c, a) \<Rightarrow> JObj
     [(''tenant_id'', JStr (ch_tenant_id c)), (''policy_name'', JStr (ch_policy_name c)), (''artifact_id'', JStr (ch_artifact_id c)),
      (''generation'', JInt (ch_generation c)), (''promoted_at'', JInt (ch_promoted_at c)), (''version'', JStr (ar_version a)),
      (''content_sha256'', JStr (ar_content_sha256 a)), (''artifact_uri'', JStr (ar_artifact_uri a)),
      (''metadata'', ar_metadata_json a)])]"

definition event_json :: "event_row \<Rightarrow> json" where
  \<comment> \<open>\<open>_event_dict\<close>\<close>
  "event_json r = JObj
     [(''sequence'', JInt (ev_sequence r)), (''tenant_id'', JStr (ev_tenant_id r)), (''event_id'', JStr (ev_event_id r)),
      (''stream_id'', JStr (ev_stream_id r)), (''stream_version'', JInt (ev_stream_version r)),
      (''event_type'', JStr (ev_event_type r)), (''occurred_at'', JInt (ev_occurred_at r)),
      (''payload_sha256'', JStr (ev_payload_sha256 r)), (''payload'', ev_payload_json r)]"

definition events_json :: "event_row list \<Rightarrow> json" where
  "events_json rs = JObj [(''events'', JList (map event_json rs))]"

fun comma_list :: "string list \<Rightarrow> string" where
  \<comment> \<open>\<open>", ".join(names)\<close>\<close>
  "comma_list [] = []"
| "comma_list [x] = x"
| "comma_list (x # xs) = x @ '', '' @ comma_list xs"

definition audit_route :: "httpenv \<Rightarrow> principal \<Rightarrow> string \<Rightarrow> (int \<times> body) served" where
  \<comment> \<open>the branch of \<open>/v1/audit\<close> after its role check\<close>
  "audit_route H pr text w = (case he_parse_qs H text of
      None \<Rightarrow> fail 400 ''invalid_query'' ''invalid audit query'' w
    | Some qs \<Rightarrow>
        (case api_bind (let unknown = sort (filter (\<lambda>k. k \<notin> {''after'', ''limit''}) (map fst qs)) in
                         api_guard (unknown = []) 400 ''invalid_query'' (''unknown audit query fields: '' @ comma_list unknown)) (\<lambda>_.
              api_bind (query_integer H qs ''after'' 0 0 (2 ^ 63 - 1)) (\<lambda>after.
              api_bind (query_integer H qs ''limit'' 100 1 500) (\<lambda>limit. Inr (after, limit)))) of
           Inl e \<Rightarrow> (Inl e, w)
         | Inr (after, limit) \<Rightarrow> run_handler (audit pr after limit) (\<lambda>rs. ok_json (events_json rs)) w))"

definition get_route :: "httpenv \<Rightarrow> principal \<Rightarrow> string \<Rightarrow> string \<Rightarrow> string \<Rightarrow> (int \<times> body) served" where
  "get_route H pr route param text =
     (if route = ''/v1/families/{family}/champion''
      then with_role pr [''operator'', ''promoter'', ''auditor'']
             (run_handler (read_champion pr param) (\<lambda>c. ok_json (champion_json c)))
      else if route = ''/v1/audit'' then with_role pr [''auditor'', ''operator''] (audit_route H pr text)
      else fail 404 ''not_found'' ''route not found'')"

definition ready_status :: "json \<Rightarrow> int" where
  "ready_status payload = (case obj_get payload ''ready'' of Some v \<Rightarrow> if to_bool v then 200 else 503 | None \<Rightarrow> 503)"

definition dispatch :: "plane \<Rightarrow> httpenv \<Rightarrow> api_settings \<Rightarrow> http_request \<Rightarrow> (int \<times> body) served" where
  \<comment> \<open>the \<open>try\<close> of \<open>_dispatch\<close> once the request is admitted\<close>
  "dispatch P H A q w =
     (case match_route (rq_path q) of (route, param) \<Rightarrow>
      if rq_query q \<noteq> [] \<and> \<not> (rq_method q = GET \<and> route = ''/v1/audit'')
      then fail 400 ''invalid_query'' ''route accepts no query'' w
      else if rq_method q = GET \<and> route = ''/healthz'' then run_handler health ok_json w
      else if rq_method q = GET \<and> route = ''/readyz''
      then run_handler (readiness P (he_storage H)) (\<lambda>v. (ready_status v, JsonBody v)) w
      else if rq_method q = GET \<and> route = ''/metrics''
      then (Inr (200, TextBody (render (he_fmt_g H) (he_uptime H) (meters w))), w)
      else case authenticate (pl_env P) A q of
        Inl e \<Rightarrow> (Inl e, w)
      | Inr pr \<Rightarrow>
          if rq_method q = POST then
            (if \<not> (8 \<le> py_len (rq_idempotency_key q) \<and> py_len (rq_idempotency_key q) \<le> 200)
             then fail 400 ''idempotency_required'' ''Idempotency-Key must contain 8-200 characters'' w
             else case read_body (pl_text P) H A q of
               Inl e \<Rightarrow> (Inl e, w)
             | Inr body \<Rightarrow> post_route P pr route param body (rq_idempotency_key q) w)
          else get_route H pr route param (rq_query q) w)"

definition str_error :: "httpenv \<Rightarrow> py_error \<Rightarrow> string" where
  \<comment> \<open>\<open>str(error)\<close>: a \<open>KeyError\<close> shows the \<open>repr\<close> of its key\<close>
  "str_error H e = (if exc_of e = KeyError then he_repr H (msg_of e) else msg_of e)"

definition error_response :: "httpenv \<Rightarrow> failure \<Rightarrow> int \<times> string \<times> string" where
  \<comment> \<open>the \<open>except\<close> clauses of \<open>_dispatch\<close>\<close>
  "error_response H f = (case f of
      APIError status code message \<Rightarrow> (status, code, message)
    | Raised e \<Rightarrow>
        if isinstance_exc e BudgetExceededError then (429, ''budget_exceeded'', str_error H e)
        else if isinstance_exc e ConflictError then (409, ''conflict'', str_error H e)
        else if isinstance_exc e NotFoundError then (404, ''not_found'', str_error H e)
        else if isinstance_exc e ValueError \<or> isinstance_exc e KeyError then (400, ''invalid_request'', str_error H e)
        else (500, ''internal_error'', ''internal server error''))"

definition error_json :: "string \<Rightarrow> string \<Rightarrow> string \<Rightarrow> json" where
  \<comment> \<open>\<open>_error\<close>\<close>
  "error_json code message request_id = JObj
     [(''error'', JObj [(''code'', JStr code), (''message'', JStr message)]), (''request_id'', JStr request_id)]"

definition method_name :: "http_method \<Rightarrow> string" where
  "method_name m = (case m of GET \<Rightarrow> ''GET'' | POST \<Rightarrow> ''POST'')"

definition rejection_message :: "string \<Rightarrow> string" where
  "rejection_message why = (if why = ''draining'' then ''server is draining''
     else if why = ''operational_overloaded'' then ''operational concurrency limit reached''
     else ''worker concurrency limit reached'')"

definition request_route :: "http_request \<Rightarrow> string" where
  \<comment> \<open>\<open>route\<close> as the \<open>finally\<close> finds it\<close>
  "request_route q = (case rq_split_error q of None \<Rightarrow> fst (match_route (rq_path q)) | Some _ \<Rightarrow> ''unmatched'')"

definition attempt :: "plane \<Rightarrow> httpenv \<Rightarrow> api_settings \<Rightarrow> string option \<Rightarrow> http_request \<Rightarrow> (int \<times> body) served" where
  \<comment> \<open>the body of the \<open>try\<close> of \<open>_dispatch\<close>; \<open>rejection\<close> is the answer of \<open>admit_request\<close>\<close>
  "attempt P H A rejection q w = (case rq_split_error q of
      Some e \<Rightarrow> (Inl (Raised e), w)
    | None \<Rightarrow> (case rejection of
         Some why \<Rightarrow> fail 503 why (rejection_message why) w
       | None \<Rightarrow> dispatch P H A q w))"

definition respond ::
  "plane \<Rightarrow> httpenv \<Rightarrow> api_settings \<Rightarrow> string option \<Rightarrow> http_request \<Rightarrow> control \<Rightarrow> (int \<times> body) \<times> control" where
  \<comment> \<open>\<open>_dispatch\<close>: the response sent and the state after its \<open>finally\<close>\<close>
  "respond P H A rejection q w =
     (let request_id = uuid w (uuid_reads w); w0 = w\<lparr>uuid_reads := Suc (uuid_reads w)\<rparr> in
      case attempt P H A rejection q w0 of (r, w1) \<Rightarrow>
      let out = (case r of
                   Inr out \<Rightarrow> out
                 | Inl f \<Rightarrow> (case error_response H f of (status, code, message) \<Rightarrow>
                     (status, JsonBody (error_json code message request_id)))) in
      (out, snd (bump P ''http_requests_total''
               [(''method'', method_name (rq_method q)), (''route'', request_route q),
                (''status'', str_of_int (fst out))] w1)))"

section \<open>The limits of a body\<close>

fun json_depth :: "json \<Rightarrow> nat" where
  \<comment> \<open>how deep objects and lists nest\<close>
  "json_depth (JObj kvs) = Suc (Max (set (0 # map (\<lambda>kv. json_depth (snd kv)) kvs)))"
| "json_depth (JList vs) = Suc (Max (set (0 # map json_depth vs)))"
| "json_depth v = 0"

lemma json_depth_children:
  "children v = Some vs \<Longrightarrow> json_depth v \<le> n \<longleftrightarrow> 0 < n \<and> (\<forall>u \<in> set vs. json_depth u \<le> n - 1)"
  "children v = None \<Longrightarrow> json_depth v = 0"
  by (cases v; auto simp: children_def Suc_le_eq)+

text \<open>The loop accepts a stack when it holds few enough values and none nests too deep.\<close>

lemma limits_loop_iff:
  "limits_loop stack n = Inr () \<longleftrightarrow>
     (stack = [] \<or> n + sum_list (map (\<lambda>(v, _). json_values v) stack) \<le> MAX_BODY_VALUES)
     \<and> (\<forall>(v, d) \<in> set stack. json_depth v = 0 \<or> d + json_depth v \<le> MAX_BODY_DEPTH)"
proof (induction stack n rule: limits_loop.induct)
  case (2 current d stack n)
  show ?case
  proof (cases "children current")
    case None
    with "2.IH"(1) [of "()"] show ?thesis
      by (auto simp: bindR_Inr_iff json_values_children json_depth_children)
  next
    case (Some vs)
    let ?new = "rev (map (\<lambda>v. (v, Suc d)) vs)"
    have sum: "sum_list (map (\<lambda>(v, _). json_values v) (?new @ stack)) = sum_list (map json_values vs)
        + sum_list (map (\<lambda>(v, _). json_values v) stack)"
      by (simp add: comp_def rev_map [symmetric] sum_list_rev)
    have depth: "(json_depth current = 0 \<or> d + json_depth current \<le> MAX_BODY_DEPTH) \<longleftrightarrow>
        Suc d \<le> MAX_BODY_DEPTH \<and> (\<forall>u \<in> set vs. json_depth u = 0 \<or> Suc d + json_depth u \<le> MAX_BODY_DEPTH)"
      using json_depth_children(1) [OF Some, of "MAX_BODY_DEPTH - d"] json_depth_children(1) [OF Some, of 0] by auto
    have new: "(\<forall>(v, e) \<in> set (?new @ stack). json_depth v = 0 \<or> e + json_depth v \<le> MAX_BODY_DEPTH) \<longleftrightarrow>
        (\<forall>u \<in> set vs. json_depth u = 0 \<or> Suc d + json_depth u \<le> MAX_BODY_DEPTH)
        \<and> (\<forall>(v, e) \<in> set stack. json_depth v = 0 \<or> e + json_depth v \<le> MAX_BODY_DEPTH)"
      by (simp add: ball_Un)
    show ?thesis
    proof (cases "Suc n \<le> MAX_BODY_VALUES \<and> Suc d \<le> MAX_BODY_DEPTH")
      case True
      then have "limits_loop ((current, d) # stack) n = limits_loop (?new @ stack) (Suc n)" using Some by simp
      moreover have "?new @ stack = [] \<Longrightarrow> sum_list (map json_values vs) = 0 \<and> sum_list (map (\<lambda>(v, _). json_values v) stack) = 0"
        by simp
      ultimately show ?thesis
        using "2.IH"(2) [of "()", OF _ Some, of "()"] True unfolding sum new
        by (auto simp: depth json_values_children(1) [OF Some])
    next
      case False
      then show ?thesis using Some depth by (auto simp: bindR_Inr_iff json_values_children(1) [OF Some])
    qed
  qed
qed simp

lemma validate_json_limits_iff:
  "validate_json_limits v = Inr () \<longleftrightarrow> json_values v \<le> MAX_BODY_VALUES \<and> json_depth v \<le> MAX_BODY_DEPTH"
  unfolding validate_json_limits_def limits_loop_iff by auto

section \<open>Who may change the state\<close>

definition WRITE_ROUTES :: "(string \<times> string list) list" where
  \<comment> \<open>the routes that change the state, with the roles they ask for\<close>
  "WRITE_ROUTES =
     [(''/v1/decisions/run'', [''agent'']), (''/v1/evidence/run'', [''operator'']),
      (''/v1/benchmarks/evaluate'', [''promoter'']), (''/v1/challengers/train'', [''agent'']),
      (''/v1/challengers/{challenger_id}/promote'', [''promoter'']), (''/v1/families/{family}/rollback'', [''promoter''])]"

definition may_post :: "pyenv \<Rightarrow> api_settings \<Rightarrow> http_request \<Rightarrow> bool" where
  \<comment> \<open>an authenticated \<open>POST\<close> by a caller with the role the route asks for, with a key of 8 to 200 characters\<close>
  "may_post E A q \<longleftrightarrow> rq_method q = POST
     \<and> 8 \<le> py_len (rq_idempotency_key q) \<and> py_len (rq_idempotency_key q) \<le> 200
     \<and> (\<exists>pr roles. authenticate E A q = Inr pr \<and> allows pr roles \<and> (fst (match_route (rq_path q)), roles) \<in> set WRITE_ROUTES)"

lemma run_handler_reads: "reads_only m \<Longrightarrow> run_handler m f w = (r, w') \<Longrightarrow> db w' = db w"
  by (auto simp: run_handler_def split: prod.splits sum.splits dest: reads_onlyD)

lemma control_reads_only:
  "reads_only health" "reads_only (readiness P st)" "reads_only (read_champion pr p)" "reads_only (audit pr a l)"
  unfolding health_def readiness_def read_champion_def audit_def by (intro aon_intros)+

lemma get_route_reads: "get_route H pr route p t w = (r, w') \<Longrightarrow> db w' = db w"
  by (auto simp: get_route_def with_role_def audit_route_def fail_def split: if_splits option.splits sum.splits
      dest: run_handler_reads [OF control_reads_only(3)] run_handler_reads [OF control_reads_only(4)])

lemma post_route_writes:
  "post_route P pr route p body key w = (r, w') \<Longrightarrow> db w' \<noteq> db w \<Longrightarrow>
     \<exists>roles. allows pr roles \<and> (route, roles) \<in> set WRITE_ROUTES"
  by (auto simp: post_route_def with_role_def fail_def WRITE_ROUTES_def split: if_splits)

definition writes_if :: "control \<Rightarrow> bool \<Rightarrow> 'a \<times> control \<Rightarrow> bool" where
  \<comment> \<open>the database is unchanged, or the condition holds\<close>
  "writes_if w C z \<longleftrightarrow> db (snd z) = db w \<or> C"

lemma writes_if_intros:
  "(b \<Longrightarrow> writes_if w C x) \<Longrightarrow> (\<not> b \<Longrightarrow> writes_if w C y) \<Longrightarrow> writes_if w C (if b then x else y)"
  "(\<And>e. s = Inl e \<Longrightarrow> writes_if w C (f e)) \<Longrightarrow> (\<And>v. s = Inr v \<Longrightarrow> writes_if w C (g v)) \<Longrightarrow>
     writes_if w C (case s of Inl e \<Rightarrow> f e | Inr v \<Rightarrow> g v)"
  "(\<And>u v. p = (u, v) \<Longrightarrow> writes_if w C (h u v)) \<Longrightarrow> writes_if w C (case p of (u, v) \<Rightarrow> h u v)"
  "writes_if w C (t, w)" "writes_if w C (fail c k m w)" "writes_if w C (get_route H pr route pa te w)"
  "writes_if w C (run_handler health f1 w)" "writes_if w C (run_handler (readiness P st) f2 w)"
  by (auto simp: writes_if_def fail_def split: sum.splits prod.splits)
     (metis get_route_reads run_handler_reads control_reads_only(1, 2) prod.collapse)+

lemma post_route_may:
  assumes "match_route (rq_path q) = (route, p)" "rq_method q = POST" "authenticate E A q = Inr pr"
    "\<not> \<not> (8 \<le> py_len (rq_idempotency_key q) \<and> py_len (rq_idempotency_key q) \<le> 200)"
  shows "writes_if w (may_post E A q) (post_route P pr route p body key w)"
proof (cases "db (snd (post_route P pr route p body key w)) = db w")
  case True
  then show ?thesis unfolding writes_if_def by (rule disjI1)
next
  case False
  have "post_route P pr route p body key w = (fst (post_route P pr route p body key w), snd (post_route P pr route p body key w))"
    by (rule prod.collapse [symmetric])
  from post_route_writes [OF this False] obtain roles where "allows pr roles" "(route, roles) \<in> set WRITE_ROUTES"
    by (elim exE conjE)
  moreover have "fst (match_route (rq_path q)) = route" unfolding assms(1) by (rule fst_conv)
  ultimately have "may_post E A q" using assms(2-4) unfolding may_post_def by blast
  then show ?thesis unfolding writes_if_def by (rule disjI2)
qed

lemma dispatch_writes: "writes_if w (may_post (pl_env P) A q) (dispatch P H A q w)"
  unfolding dispatch_def by (intro writes_if_intros; (rule post_route_may; assumption)?)

lemma bump_db: "db (snd (bump P name labels w)) = db w"
  by (auto simp: bump_def split: prod.splits)

lemma respond_writes:
  assumes "respond P H A rejection q w = (out, w')" "db w' \<noteq> db w"
  shows "rq_split_error q = None \<and> rejection = None \<and> may_post (pl_env P) A q"
proof -
  obtain r w1 where d: "attempt P H A rejection q (w\<lparr>uuid_reads := Suc (uuid_reads w)\<rparr>) = (r, w1)" by fastforce
  from assms(1) have "db w' = db w1"
    by (auto simp: respond_def Let_def d bump_db)
  with assms(2) have changed: "db w1 \<noteq> db (w\<lparr>uuid_reads := Suc (uuid_reads w)\<rparr>)" by simp
  with d show ?thesis using dispatch_writes [of "w\<lparr>uuid_reads := Suc (uuid_reads w)\<rparr>" P A q H]
    unfolding attempt_def writes_if_def by (auto simp: fail_def split: option.splits)
qed

end
