(* ===== verification/ProcessRegistry.thy ===== *)
theory ProcessRegistry
  imports Prelude
begin

text \<open>
  Ownership and cancellation of subprocess groups (\<open>src/agent_tree_rl/process_registry.py\<close>). The lock of
  the registry makes each method one step; a signal handler may re-enter it while \<open>Popen\<close> starts a child.

  A \<open>Popen\<close> object is a number, its identity. What the kernel answers to \<open>fork\<close>, \<open>kill\<close> and
  \<open>wait\<close> is given by streams; how long a call may wait only shows in these answers. \<open>Popen\<close> is as
  CPython documents it: \<open>send_signal\<close> (and \<open>terminate\<close>, \<open>kill\<close>) polls first and does nothing when the
  child has been reaped. Every signal is recorded with whether its leader had been reaped before, since the
  process id of a reaped leader may belong to another process.
\<close>

section \<open>The operating system\<close>

datatype signum = SIGTERM | SIGKILL
datatype kill_answer = Delivered | NoSuchProcess | NotPermitted
datatype wait_answer = Exited int | StillRunning
datatype popen_answer =
    NotStarted
  | Started
  | Interrupted \<comment> \<open>started, and a signal handler called \<open>cancel_all\<close> meanwhile\<close>

record kernel =
  kn_posix :: bool
  kn_popen :: "nat \<Rightarrow> popen_answer"
  kn_popens :: nat
  kn_kill :: "nat \<Rightarrow> kill_answer"
  kn_kills :: nat
  kn_wait :: "nat \<Rightarrow> wait_answer"
  kn_waits :: nat
  kn_returncode :: "nat \<Rightarrow> int option"
  kn_sent :: "(nat \<times> signum \<times> bool) list"

record registry = kernel +
  rg_entries :: "(nat \<times> bool) list" \<comment> \<open>the \<open>Popen\<close> object and whether its group id is set\<close>
  rg_accepting :: bool

type_synonym 'a registry_action = "(registry, 'a) action"

definition kill_call :: "nat \<Rightarrow> signum \<Rightarrow> unit registry_action" where
  \<comment> \<open>\<open>os.killpg\<close> or \<open>os.kill\<close> with the process id of \<open>p\<close>\<close>
  "kill_call p sg s =
     (case kn_kill s (kn_kills s) of
        Delivered \<Rightarrow> Inr ()
      | NoSuchProcess \<Rightarrow> raiseR ProcessLookupError ''no such process''
      | NotPermitted \<Rightarrow> raiseR PermissionError ''operation not permitted'',
      s\<lparr>kn_kills := Suc (kn_kills s), kn_sent := kn_sent s @ [(p, sg, kn_returncode s p \<noteq> None)]\<rparr>)"

definition try_wait :: "nat \<Rightarrow> int option registry_action" where
  \<comment> \<open>\<open>poll\<close>, and \<open>wait\<close> up to its time limit\<close>
  "try_wait p s = (case kn_returncode s p of
      Some c \<Rightarrow> (Inr (Some c), s)
    | None \<Rightarrow>
        (case kn_wait s (kn_waits s) of
           Exited c \<Rightarrow> (Inr (Some c), s\<lparr>kn_waits := Suc (kn_waits s), kn_returncode := (kn_returncode s)(p \<mapsto> c)\<rparr>)
         | StillRunning \<Rightarrow> (Inr None, s\<lparr>kn_waits := Suc (kn_waits s)\<rparr>)))"

definition wait_for :: "nat \<Rightarrow> int registry_action" where
  "wait_for p = bind (try_wait p) (\<lambda>c. case c of None \<Rightarrow> raise TimeoutExpired ''timed out'' | Some c \<Rightarrow> ret c)"

definition send_signal :: "nat \<Rightarrow> signum \<Rightarrow> unit registry_action" where
  \<comment> \<open>\<open>Popen.send_signal\<close>\<close>
  "send_signal p sg =
     bind (try_wait p) (\<lambda>c.
     case c of
       Some _ \<Rightarrow> ret ()
     | None \<Rightarrow> catch (kill_call p sg) (\<lambda>e. if exc_of e = ProcessLookupError then ret () else throw e))"

section \<open>The registry\<close>

record cancellation_report =
  cr_registered :: nat
  cr_term_signalled :: nat
  cr_kill_signalled :: nat
  cr_remaining :: nat

definition signal_entry :: "nat \<times> bool \<Rightarrow> signum \<Rightarrow> unit registry_action" where
  \<comment> \<open>\<open>_signal\<close>\<close>
  "signal_entry = (\<lambda>(p, grouped) sg.
     catch (if grouped then kill_call p sg else send_signal p sg) (\<lambda>e.
       if exc_of e = ProcessLookupError then ret ()
       else if exc_of e = PermissionError then
         catch (send_signal p sg) (\<lambda>e. if exc_of e = ProcessLookupError then ret () else throw e)
       else throw e))"

definition entry_of :: "nat \<Rightarrow> (nat \<times> bool) option registry_action" where
  "entry_of p = get (\<lambda>s. map_option (\<lambda>g. (p, g)) (map_of (rg_entries s) p))"

definition without :: "nat \<Rightarrow> registry \<Rightarrow> registry" where
  \<comment> \<open>\<open>self._entries.pop(id(process), None)\<close>\<close>
  "without p s = s\<lparr>rg_entries := filter (\<lambda>e. fst e \<noteq> p) (rg_entries s)\<rparr>"

fun reap_all :: "(nat \<times> bool) list \<Rightarrow> nat registry_action" where
  \<comment> \<open>the last loop of \<open>cancel_all\<close>: how many stay\<close>
  "reap_all [] = ret 0"
| "reap_all (e # es) =
     bind (try_wait (fst e)) (\<lambda>c.
     case c of
       Some _ \<Rightarrow> andthen (modify (without (fst e))) (reap_all es)
     | None \<Rightarrow> bind (reap_all es) (\<lambda>n. ret (Suc n)))"

definition close_registry :: "unit registry_action" where
  "close_registry = modify (\<lambda>s. s\<lparr>rg_accepting := False\<rparr>)"

definition cancel_all :: "int \<Rightarrow> cancellation_report registry_action" where
  \<comment> \<open>the time limit in any unit\<close>
  "cancel_all timeout =
     andthen (require (0 < timeout) ValueError ''cancellation timeout must be positive'')
     (andthen close_registry
     (bind (get rg_entries) (\<lambda>entries.
      andthen (for_each (\<lambda>e. signal_entry e SIGTERM) entries)
      (andthen (for_each (\<lambda>e. signal_entry e SIGKILL) entries)
      (bind (reap_all entries) (\<lambda>n.
       ret \<lparr>cr_registered = length entries, cr_term_signalled = length entries, cr_kill_signalled = length entries,
            cr_remaining = n\<rparr>))))))"

definition cancel_active_processes :: "int \<Rightarrow> cancellation_report registry_action" where
  \<comment> \<open>\<open>ControlPlane.cancel_active_processes\<close>\<close>
  "cancel_active_processes timeout = cancel_all timeout"

definition popen :: "popen_answer registry_action" where
  "popen s = (case kn_popen s (kn_popens s) of
      NotStarted \<Rightarrow> (raiseR OSError ''cannot start process'', s\<lparr>kn_popens := Suc (kn_popens s)\<rparr>)
    | r \<Rightarrow> (Inr r, s\<lparr>kn_popens := Suc (kn_popens s)\<rparr>))"

definition spawn :: "bool \<Rightarrow> nat registry_action" where
  \<comment> \<open>\<open>owns_session\<close>: the caller passed \<open>start_new_session\<close>\<close>
  "spawn owns_session =
     bind (get rg_accepting) (\<lambda>accepting.
     andthen (require accepting ProcessRegistryClosed ''subprocess registry is draining'')
     (andthen (require (\<not> owns_session) ValueError ''process registry owns start_new_session'')
     (bind (get kn_popens) (\<lambda>p.
      bind (get kn_posix) (\<lambda>isolated.
      bind popen (\<lambda>r.
      andthen (if r = Interrupted then bind (cancel_all 1) (\<lambda>_. ret ()) else ret ())
      (bind (get rg_accepting) (\<lambda>accepting.
       if \<not> accepting then
         andthen (signal_entry (p, isolated) SIGKILL)
         (andthen (wait_for p)
         (raise ProcessRegistryClosed ''subprocess registry is draining''))
       else
         andthen (modify (\<lambda>s. s\<lparr>rg_entries := rg_entries s @ [(p, isolated)]\<rparr>)) (ret p)))))))))"

definition kill_and_reap :: "nat \<Rightarrow> int registry_action" where
  "kill_and_reap p =
     bind (entry_of p) (\<lambda>entry.
     case entry of
       None \<Rightarrow> get (\<lambda>s. case kn_returncode s p of Some c \<Rightarrow> c | None \<Rightarrow> - 1)
     | Some e \<Rightarrow>
         andthen (signal_entry e SIGKILL)
         (bind (wait_for p) (\<lambda>returncode.
          andthen (modify (without p)) (ret returncode))))"

definition signal :: "nat \<Rightarrow> signum \<Rightarrow> unit registry_action" where
  "signal p sg =
     bind (entry_of p) (\<lambda>entry. case entry of None \<Rightarrow> ret () | Some e \<Rightarrow> signal_entry e sg)"

section \<open>The registry as a transition system\<close>

definition new_registry :: "bool \<Rightarrow> (nat \<Rightarrow> popen_answer) \<Rightarrow> (nat \<Rightarrow> kill_answer) \<Rightarrow> (nat \<Rightarrow> wait_answer) \<Rightarrow> registry" where
  \<comment> \<open>\<open>__init__\<close>\<close>
  "new_registry posix popens kills waits =
     \<lparr>kn_posix = posix, kn_popen = popens, kn_popens = 0, kn_kill = kills, kn_kills = 0, kn_wait = waits, kn_waits = 0,
      kn_returncode = Map.empty, kn_sent = [], rg_entries = [], rg_accepting = True\<rparr>"

datatype registry_call = Spawn bool | KillAndReap nat | Signal nat signum | CancelAll int

fun registry_op :: "registry_call \<Rightarrow> registry \<Rightarrow> registry" where
  "registry_op (Spawn b) s = snd (spawn b s)"
| "registry_op (KillAndReap p) s = snd (kill_and_reap p s)"
| "registry_op (Signal p sg) s = snd (signal p sg s)"
| "registry_op (CancelAll n) s = snd (cancel_all n s)"

inductive registry_step :: "registry \<Rightarrow> registry \<Rightarrow> bool" where
  call: "registry_step s (registry_op c s)"

inductive_cases registry_stepE: "registry_step s t"

text \<open>
  Groups are isolated and \<open>killpg\<close> on an owned group is never refused: then no owned leader is reaped,
  and no signal went to a reaped one.
\<close>

definition quiet :: "registry \<Rightarrow> bool" where
  "quiet s \<longleftrightarrow> kn_posix s \<and> (\<forall>n. kn_kill s n \<noteq> NotPermitted)"

definition registry_ok :: "registry \<Rightarrow> bool" where
  "registry_ok s \<longleftrightarrow> quiet s \<and> distinct (map fst (rg_entries s))
     \<and> (\<forall>(p, g) \<in> set (rg_entries s). g \<and> p < kn_popens s \<and> kn_returncode s p = None)
     \<and> (\<forall>p \<ge> kn_popens s. kn_returncode s p = None)
     \<and> (\<forall>(p, sg, reaped) \<in> set (kn_sent s). \<not> reaped)"

definition signalled :: "registry \<Rightarrow> registry \<Rightarrow> bool" where
  \<comment> \<open>nothing but signals to leaders that were not reaped\<close>
  "signalled s t \<longleftrightarrow> (\<exists>k l. t = s\<lparr>kn_kills := k, kn_sent := kn_sent s @ l\<rparr> \<and> (\<forall>(p, sg, reaped) \<in> set l. \<not> reaped))"

lemma signalled_refl: "signalled s s"
  unfolding signalled_def by (rule exI [of _ "kn_kills s"], rule exI [of _ "[]"]) simp

lemma signalled_trans: "signalled s t \<Longrightarrow> signalled t u \<Longrightarrow> signalled s u"
  unfolding signalled_def by (elim exE conjE, intro exI conjI) (simp, auto)

lemma signalled_same:
  "signalled s t \<Longrightarrow> rg_entries t = rg_entries s \<and> rg_accepting t = rg_accepting s \<and> kn_returncode t = kn_returncode s
     \<and> kn_popens t = kn_popens s \<and> quiet t = quiet s"
  by (auto simp: signalled_def quiet_def)

lemma signalled_ok: "signalled s t \<Longrightarrow> registry_ok s \<Longrightarrow> registry_ok t"
  by (auto simp: signalled_def registry_ok_def quiet_def)

lemma signal_entry_quiet:
  assumes "quiet s" "kn_returncode s p = None"
  shows "\<exists>t. signal_entry (p, True) sg s = (Inr (), t) \<and> signalled s t"
proof -
  let ?t = "s\<lparr>kn_kills := Suc (kn_kills s), kn_sent := kn_sent s @ [(p, sg, False)]\<rparr>"
  have "signalled s ?t" unfolding signalled_def by (intro exI conjI, rule refl) simp
  moreover have "signal_entry (p, True) sg s = (Inr (), ?t)"
    using assms by (cases "kn_kill s (kn_kills s)") (auto simp: signal_entry_def kill_call_def catch_def quiet_def raiseR_def)
  ultimately show ?thesis by blast
qed

lemma for_each_signal:
  assumes "quiet s" "\<And>p g. (p, g) \<in> set es \<Longrightarrow> g \<and> kn_returncode s p = None"
  shows "\<exists>t. for_each (\<lambda>e. signal_entry e sg) es s = (Inr (), t) \<and> signalled s t"
  using assms
proof (induction es arbitrary: s)
  case Nil
  then show ?case by (simp add: signalled_refl)
next
  case (Cons e es)
  obtain p g where "e = (p, g)" by (cases e)
  with Cons.prems(2) [of p g] have e: "e = (p, True)" "kn_returncode s p = None" by simp_all
  from signal_entry_quiet [OF Cons.prems(1) e(2)] obtain t
    where t: "signal_entry (p, True) sg s = (Inr (), t)" "signalled s t" by blast
  note same = signalled_same [OF t(2)]
  obtain u where u: "for_each (\<lambda>e. signal_entry e sg) es t = (Inr (), u)" "signalled t u"
  proof -
    have "g \<and> kn_returncode t p = None" if "(p, g) \<in> set es" for p g
      using same Cons.prems(2) [of p g] that by simp
    moreover have "quiet t" using same Cons.prems(1) by simp
    ultimately show thesis using Cons.IH [of t] that by blast
  qed
  have "for_each (\<lambda>e. signal_entry e sg) (e # es) s = (Inr (), u)" by (simp add: e andthen_apply t(1) u(1))
  with signalled_trans [OF t(2) u(2)] show ?case by blast
qed

text \<open>Waiting for a leader gives it up.\<close>

lemma without_same [simp]:
  "kn_popens (without p s) = kn_popens s" "rg_accepting (without p s) = rg_accepting s"
  "kn_returncode (without p s) = kn_returncode s" "set (rg_entries (without p s)) \<subseteq> set (rg_entries s)"
  by (auto simp: without_def)

lemma without_id: "p \<notin> fst ` set (rg_entries s) \<Longrightarrow> without p s = s"
proof -
  assume "p \<notin> fst ` set (rg_entries s)"
  then have "filter (\<lambda>e. fst e \<noteq> p) (rg_entries s) = rg_entries s" by (auto simp: filter_id_conv)
  then show ?thesis by (simp add: without_def)
qed

lemma reap_step:
  assumes "registry_ok s" "p < kn_popens s" "try_wait p s = (Inr (Some c), t)"
  shows "registry_ok (without p t) \<and> kn_popens t = kn_popens s \<and> rg_accepting t = rg_accepting s
    \<and> (\<forall>q. q \<noteq> p \<longrightarrow> kn_returncode t q = kn_returncode s q) \<and> rg_entries t = rg_entries s"
  using assms
  by (auto simp: registry_ok_def quiet_def try_wait_def without_def distinct_map_filter
      split: option.splits wait_answer.splits)

lemma wait_nothing:
  "registry_ok s \<Longrightarrow> try_wait p s = (Inr None, t) \<Longrightarrow> registry_ok t \<and> kn_popens t = kn_popens s \<and> rg_accepting t = rg_accepting s
     \<and> rg_entries t = rg_entries s \<and> kn_returncode t = kn_returncode s"
  by (auto simp: registry_ok_def quiet_def try_wait_def split: option.splits wait_answer.splits)

lemma try_wait_Inr: "\<exists>c t. try_wait p s = (Inr c, t)"
  by (auto simp: try_wait_def split: option.split wait_answer.split)

definition reaped_from :: "nat set \<Rightarrow> registry \<Rightarrow> registry \<Rightarrow> bool" where
  \<comment> \<open>only leaders in \<open>ps\<close> were reaped, and no entry was added\<close>
  "reaped_from ps s t \<longleftrightarrow> kn_popens t = kn_popens s \<and> rg_accepting t = rg_accepting s
     \<and> set (rg_entries t) \<subseteq> set (rg_entries s) \<and> (\<forall>q. q \<notin> ps \<longrightarrow> kn_returncode t q = kn_returncode s q)"

lemma reap_all_ok:
  assumes "registry_ok s" "\<And>e. e \<in> set es \<Longrightarrow> fst e < kn_popens s"
  shows "\<exists>n t. reap_all es s = (Inr n, t) \<and> registry_ok t \<and> reaped_from (fst ` set es) s t"
  using assms
proof (induction es arbitrary: s)
  case Nil
  then show ?case by (simp add: reaped_from_def)
next
  case (Cons e es)
  obtain c t where w: "try_wait (fst e) s = (Inr c, t)" using try_wait_Inr by blast
  show ?case
  proof (cases c)
    case None
    note t = wait_nothing [OF Cons.prems(1) w [unfolded None]]
    then obtain n u where "reap_all es t = (Inr n, u)" "registry_ok u" "reaped_from (fst ` set es) t u"
      using Cons.IH [of t] Cons.prems(2) by auto
    with w None t show ?thesis by (auto simp: bind_apply reaped_from_def)
  next
    case (Some c')
    let ?t = "without (fst e) t"
    have t: "registry_ok ?t" "kn_popens t = kn_popens s" "rg_accepting t = rg_accepting s"
      "\<forall>q. q \<noteq> fst e \<longrightarrow> kn_returncode t q = kn_returncode s q" "rg_entries t = rg_entries s"
      using reap_step [OF Cons.prems(1) _ w [unfolded Some]] Cons.prems(2) by auto
    have d: "kn_popens ?t = kn_popens t" "rg_accepting ?t = rg_accepting t" "set (rg_entries ?t) \<subseteq> set (rg_entries t)"
      "kn_returncode ?t = kn_returncode t"
      by (auto simp: without_def)
    obtain n u where u: "reap_all es ?t = (Inr n, u)" "registry_ok u" "reaped_from (fst ` set es) ?t u"
      using Cons.IH [OF t(1)] d t(2) Cons.prems(2) by auto
    have "reap_all (e # es) s = (Inr n, u)" using w Some u(1) by (simp add: bind_apply andthen_apply)
    moreover have "reaped_from (fst ` set (e # es)) s u"
      using u(3) d t(2-5) unfolding reaped_from_def by auto
    ultimately show ?thesis using u(2) by blast
  qed
qed

lemma cancel_all_ok:
  assumes "registry_ok s" "0 < n"
  shows "\<exists>r t. cancel_all n s = (Inr r, t) \<and> registry_ok t
    \<and> reaped_from (fst ` set (rg_entries s)) (s\<lparr>rg_accepting := False\<rparr>) t"
proof -
  let ?s = "s\<lparr>rg_accepting := False\<rparr>" and ?es = "rg_entries s"
  have ok: "registry_ok ?s" using assms(1) by (simp add: registry_ok_def quiet_def)
  have es: "g \<and> kn_returncode s p = None \<and> p < kn_popens s" if "(p, g) \<in> set ?es" for p g
    using assms(1) that by (auto simp: registry_ok_def)
  obtain t where t: "for_each (\<lambda>e. signal_entry e SIGTERM) ?es ?s = (Inr (), t)" "signalled ?s t"
    using for_each_signal [of ?s ?es SIGTERM] ok es by (auto simp: registry_ok_def)
  note same = signalled_same [OF t(2)]
  obtain u where u: "for_each (\<lambda>e. signal_entry e SIGKILL) ?es t = (Inr (), u)" "signalled t u"
    using for_each_signal [of t ?es SIGKILL] signalled_ok [OF t(2) ok] es same by (auto simp: registry_ok_def)
  have u_ok: "registry_ok u" by (rule signalled_ok [OF u(2) signalled_ok [OF t(2) ok]])
  obtain k v where v: "reap_all ?es u = (Inr k, v)" "registry_ok v" "reaped_from (fst ` set ?es) u v"
    using reap_all_ok [OF u_ok, of ?es] es same signalled_same [OF u(2)] by fastforce
  have "reaped_from (fst ` set ?es) ?s v"
    using v(3) same signalled_same [OF u(2)] by (simp add: reaped_from_def)
  with assms(2) t(1) u(1) v show ?thesis
    by (simp add: cancel_all_def andthen_apply bind_apply require_apply close_registry_def)
qed

lemma kill_and_reap_ok: "registry_ok s \<Longrightarrow> registry_ok (snd (kill_and_reap p s)) \<and> rg_accepting (snd (kill_and_reap p s)) = rg_accepting s"
proof (cases "map_of (rg_entries s) p")
  case None
  then show "registry_ok s \<Longrightarrow> ?thesis" by (simp add: kill_and_reap_def entry_of_def bind_apply)
next
  case (Some g)
  assume ok: "registry_ok s"
  from map_of_SomeD [OF Some] ok have p: "g" "p < kn_popens s" "kn_returncode s p = None" "quiet s"
    by (auto simp: registry_ok_def)
  from signal_entry_quiet [OF p(4,3)] obtain t where t: "signal_entry (p, True) SIGKILL s = (Inr (), t)" "signalled s t" by blast
  note t_ok = signalled_ok [OF t(2) ok] and same = signalled_same [OF t(2)]
  obtain c u where w: "try_wait p t = (Inr c, u)" using try_wait_Inr by blast
  show ?thesis
  proof (cases c)
    case None
    with wait_nothing [OF t_ok w [unfolded None]] Some p(1) t(1) w same show ?thesis
      by (simp add: kill_and_reap_def entry_of_def bind_apply andthen_apply wait_for_def)
  next
    case (Some c')
    with reap_step [OF t_ok _ w [unfolded Some]] \<open>map_of (rg_entries s) p = Some g\<close> p(1,2) t(1) w same show ?thesis
      by (simp add: kill_and_reap_def entry_of_def bind_apply andthen_apply wait_for_def)
  qed
qed

lemma signal_ok: "registry_ok s \<Longrightarrow> registry_ok (snd (signal p sg s)) \<and> rg_accepting (snd (signal p sg s)) = rg_accepting s"
proof (cases "map_of (rg_entries s) p")
  case None
  then show "registry_ok s \<Longrightarrow> ?thesis" by (simp add: signal_def entry_of_def bind_apply)
next
  case (Some g)
  assume ok: "registry_ok s"
  from map_of_SomeD [OF Some] ok have p: "g" "kn_returncode s p = None" "quiet s" by (auto simp: registry_ok_def)
  from signal_entry_quiet [OF p(3,2)] obtain t where t: "signal_entry (p, True) sg s = (Inr (), t)" "signalled s t" by blast
  with signalled_ok [OF t(2) ok] signalled_same [OF t(2)] Some p(1) show ?thesis
    by (simp add: signal_def entry_of_def bind_apply)
qed

text \<open>A child that starts while the registry closes is killed before it is known to anyone.\<close>

lemma spawn_ok:
  assumes ok: "registry_ok s" and run: "spawn b s = (r, t)"
  shows "registry_ok t \<and> (rg_accepting t \<longrightarrow> rg_accepting s) \<and> (\<forall>p. r = Inr p \<longrightarrow> rg_accepting t)"
proof (cases "rg_accepting s \<and> \<not> b")
  case False
  with run ok show ?thesis by (auto simp: spawn_def bind_apply andthen_apply require_apply split: if_splits)
next
  case True
  let ?p = "kn_popens s" and ?s = "s\<lparr>kn_popens := Suc (kn_popens s)\<rparr>"
  have s_ok: "registry_ok ?s" "quiet s" using ok by (auto simp: registry_ok_def quiet_def)
  have fresh: "kn_returncode s ?p = None" "?p \<notin> fst ` set (rg_entries s)" using ok by (auto simp: registry_ok_def)
  show ?thesis
  proof (cases "kn_popen s (kn_popens s)")
    case NotStarted
    with True run s_ok show ?thesis
      by (auto simp: spawn_def bind_apply andthen_apply require_apply popen_def raiseR_def)
  next
    case Started
    have "t = ?s\<lparr>rg_entries := rg_entries s @ [(?p, True)]\<rparr>" "r = Inr ?p"
      using Started True run s_ok(2)
      by (auto simp: spawn_def bind_apply andthen_apply require_apply popen_def quiet_def)
    with ok fresh True show ?thesis by (auto simp: registry_ok_def quiet_def)
  next
    case Interrupted
    from cancel_all_ok [OF s_ok(1), of 1] obtain rep u where u: "cancel_all 1 ?s = (Inr rep, u)" "registry_ok u"
      "reaped_from (fst ` set (rg_entries s)) (?s\<lparr>rg_accepting := False\<rparr>) u" by auto
    then have late: "kn_returncode u ?p = None" "\<not> rg_accepting u" "?p \<notin> fst ` set (rg_entries u)" "?p < kn_popens u"
      using fresh by (auto simp: reaped_from_def)
    from signal_entry_quiet [of u ?p SIGKILL] u(2) late(1) obtain v
      where v: "signal_entry (?p, True) SIGKILL u = (Inr (), v)" "signalled u v" by (auto simp: registry_ok_def)
    note v_ok = signalled_ok [OF v(2) u(2)] and same = signalled_same [OF v(2)]
    obtain c x where w: "try_wait ?p v = (Inr c, x)" using try_wait_Inr by blast
    have x: "registry_ok x \<and> \<not> rg_accepting x"
    proof (cases c)
      case None
      with wait_nothing [OF v_ok w [unfolded None]] same late(2) show ?thesis by simp
    next
      case (Some c')
      have r: "registry_ok (without ?p x)" "rg_accepting x = rg_accepting v" "rg_entries x = rg_entries v"
        using reap_step [OF v_ok _ w [unfolded Some]] same late(4) by auto
      have "without ?p x = x" using late(3) same r(3) by (intro without_id) simp
      with r same late(2) show ?thesis by simp
    qed
    have "t = x \<and> (\<exists>e. r = Inl e)"
      using Interrupted True run s_ok(2) u(1) v(1) w late(2)
      by (cases c) (auto simp: spawn_def bind_apply andthen_apply require_apply popen_def quiet_def wait_for_def)
    with x True show ?thesis by auto
  qed
qed

lemma registry_op_ok:
  assumes "registry_ok s"
  shows "registry_ok (registry_op c s) \<and> (rg_accepting (registry_op c s) \<longrightarrow> rg_accepting s)"
proof (cases c)
  case (Spawn b)
  with spawn_ok [OF assms, of b "fst (spawn b s)" "snd (spawn b s)"] show ?thesis by simp
next
  case (CancelAll n)
  then show ?thesis
    using cancel_all_ok [OF assms, of n] assms
    by (cases "0 < n") (auto simp: cancel_all_def andthen_apply require_apply reaped_from_def)
qed (use kill_and_reap_ok [OF assms] signal_ok [OF assms] in auto)

interpretation registry: invariant_system registry_step registry_ok
  by unfold_locales (auto elim!: registry_stepE simp: registry_op_ok)

interpretation closing: invariant_system registry_step "\<lambda>s. registry_ok s \<and> \<not> rg_accepting s"
  by unfold_locales (use registry_op_ok in \<open>auto elim!: registry_stepE\<close>)

lemma new_registry_ok: "(\<And>n. kills n \<noteq> NotPermitted) \<Longrightarrow> registry_ok (new_registry True popens kills waits)"
  by (simp add: new_registry_def registry_ok_def quiet_def)

text \<open>
  When \<open>killpg\<close> is refused, the fallback polls the leader and may reap it while it is still registered:
  a later signal then goes to the group of a reaped leader.
\<close>

definition refused :: registry where
  "refused = fold registry_op [Spawn False, Signal 0 SIGTERM, KillAndReap 0]
     (new_registry True (\<lambda>_. Started) (\<lambda>n. if n = 0 then NotPermitted else Delivered) (\<lambda>_. Exited 0))"

lemma refused_signal_reaches_reaped: "kn_sent refused = [(0, SIGTERM, False), (0, SIGKILL, True)]"
  by code_simp

end
