(* ===== verification/Admission.thy ===== *)
theory Admission
  imports Prelude
begin

text \<open>
  Admission and draining of the HTTP server (\<open>ProductionHTTPServer\<close> in
  \<open>src/agent_tree_rl/api.py\<close>). Every request runs in its own thread. A step is one critical section of
  the lifecycle lock or one operation of a semaphore, so the steps of different requests interleave as
  those of the threads do: between the first look at the drain flag and the second, and between giving
  back a slot and counting it.
\<close>

section \<open>State\<close>

datatype phase =
    Arrived bool     \<comment> \<open>\<open>admit_request\<close> is called; operational or not\<close>
  | Checked bool     \<comment> \<open>passed the first look at the drain flag\<close>
  | Acquired bool    \<comment> \<open>holds a slot of its semaphore\<close>
  | Serving bool     \<comment> \<open>\<open>admit_request\<close> returned \<open>None\<close>\<close>
  | Releasing bool   \<comment> \<open>gave its slot back, still counted\<close>
  | Rejected string  \<comment> \<open>\<open>admit_request\<close> returned this code\<close>
  | Finished

record server =
  sv_max_workers :: nat
  sv_max_operational :: nat
  sv_work_slots :: nat
  sv_operational_slots :: nat
  sv_draining :: bool
  sv_active :: int
  sv_requests :: "phase list"

definition new_server :: "nat \<Rightarrow> nat \<Rightarrow> server" where
  \<comment> \<open>\<open>__init__\<close>\<close>
  "new_server workers operational =
     \<lparr>sv_max_workers = workers, sv_max_operational = operational, sv_work_slots = workers,
      sv_operational_slots = operational, sv_draining = False, sv_active = 0, sv_requests = []\<rparr>"

section \<open>The critical sections\<close>

definition begin_drain :: "server \<Rightarrow> bool \<times> server" where
  \<comment> \<open>\<open>begin_draining\<close>\<close>
  "begin_drain s = (\<not> sv_draining s, s\<lparr>sv_draining := True\<rparr>)"

definition look :: "bool \<Rightarrow> server \<Rightarrow> phase" where
  \<comment> \<open>the first critical section of \<open>admit_request\<close>\<close>
  "look operational s = (if sv_draining s \<and> \<not> operational then Rejected ''draining'' else Checked operational)"

definition slots :: "bool \<Rightarrow> server \<Rightarrow> nat" where
  "slots operational s = (if operational then sv_operational_slots s else sv_work_slots s)"

definition set_slots :: "bool \<Rightarrow> nat \<Rightarrow> server \<Rightarrow> server" where
  "set_slots operational n s =
     (if operational then s\<lparr>sv_operational_slots := n\<rparr> else s\<lparr>sv_work_slots := n\<rparr>)"

definition acquire_slot :: "bool \<Rightarrow> server \<Rightarrow> phase \<times> server" where
  \<comment> \<open>\<open>semaphore.acquire(blocking=False)\<close>\<close>
  "acquire_slot operational s =
     (if slots operational s = 0
      then (Rejected (if operational then ''operational_overloaded'' else ''overloaded''), s)
      else (Acquired operational, set_slots operational (slots operational s - 1) s))"

definition limit_of :: "bool \<Rightarrow> server \<Rightarrow> nat" where
  "limit_of operational s = (if operational then sv_max_operational s else sv_max_workers s)"

definition release_slot :: "bool \<Rightarrow> (server, unit) action" where
  \<comment> \<open>\<open>BoundedSemaphore.release\<close>\<close>
  "release_slot operational s =
     (if slots operational s \<ge> limit_of operational s
      then (raiseR ValueError ''Semaphore released too many times'', s)
      else (Inr (), set_slots operational (Suc (slots operational s)) s))"

definition enter :: "bool \<Rightarrow> (server, phase) action" where
  \<comment> \<open>the second critical section of \<open>admit_request\<close>\<close>
  "enter operational s =
     (if sv_draining s \<and> \<not> operational then andthen (release_slot operational) (ret (Rejected ''draining'')) s
      else (Inr (Serving operational), if operational then s else s\<lparr>sv_active := sv_active s + 1\<rparr>))"

definition count_out :: "bool \<Rightarrow> (server, unit) action" where
  \<comment> \<open>the critical section of \<open>release_admission\<close>\<close>
  "count_out operational s =
     (if operational then (Inr (), s)
      else let n = sv_active s - 1; t = s\<lparr>sv_active := n\<rparr>
           in if n < 0 then (raiseR RuntimeError ''HTTP active work request count underflow'', t) else (Inr (), t))"

definition drained :: "server \<Rightarrow> bool" where
  \<comment> \<open>what \<open>wait_for_drain\<close> waits for\<close>
  "drained s \<longleftrightarrow> sv_active s = 0"

section \<open>Interleavings\<close>

definition set_phase :: "nat \<Rightarrow> phase \<Rightarrow> server \<Rightarrow> server" where
  "set_phase i p s = s\<lparr>sv_requests := (sv_requests s)[i := p]\<rparr>"

definition at_phase :: "server \<Rightarrow> nat \<Rightarrow> phase \<Rightarrow> bool" where
  "at_phase s i p \<longleftrightarrow> i < length (sv_requests s) \<and> sv_requests s ! i = p"

inductive server_step :: "server \<Rightarrow> server \<Rightarrow> bool" where
  arrive: "server_step s (s\<lparr>sv_requests := sv_requests s @ [Arrived operational]\<rparr>)"
| drain: "server_step s (snd (begin_drain s))"
| look: "at_phase s i (Arrived operational) \<Longrightarrow> server_step s (set_phase i (look operational s) s)"
| acquire: "at_phase s i (Checked operational) \<Longrightarrow> acquire_slot operational s = (p, t) \<Longrightarrow> server_step s (set_phase i p t)"
| enter: "at_phase s i (Acquired operational) \<Longrightarrow> enter operational s = (Inr p, t) \<Longrightarrow> server_step s (set_phase i p t)"
| release: "at_phase s i (Serving operational) \<Longrightarrow> release_slot operational s = (Inr (), t) \<Longrightarrow>
    server_step s (set_phase i (Releasing operational) t)"
| count: "at_phase s i (Releasing operational) \<Longrightarrow> count_out operational s = (Inr (), t) \<Longrightarrow>
    server_step s (set_phase i Finished t)"

inductive_cases server_stepE: "server_step s t"

definition in_phases :: "(phase \<Rightarrow> bool) \<Rightarrow> server \<Rightarrow> nat" where
  "in_phases Q s = length (filter Q (sv_requests s))"

definition holds_slot :: "bool \<Rightarrow> phase \<Rightarrow> bool" where
  "holds_slot operational p \<longleftrightarrow> p = Acquired operational \<or> p = Serving operational"

definition counted :: "phase \<Rightarrow> bool" where
  "counted p \<longleftrightarrow> p = Serving False \<or> p = Releasing False"

definition server_ok :: "server \<Rightarrow> bool" where
  \<comment> \<open>slots and requests that hold one add up; the counter is the number of admitted work requests\<close>
  "server_ok s \<longleftrightarrow> sv_work_slots s + in_phases (holds_slot False) s = sv_max_workers s
     \<and> sv_operational_slots s + in_phases (holds_slot True) s = sv_max_operational s
     \<and> sv_active s = int (in_phases counted s)"

lemma filter_update:
  assumes "i < length xs"
  shows "length (filter Q (xs[i := y])) + (if Q (xs ! i) then 1 else 0) = length (filter Q xs) + (if Q y then 1 else 0)"
  using assms
proof (induction xs arbitrary: i)
  case (Cons x xs)
  then show ?case by (cases i) auto
qed simp

lemma in_phases_set:
  assumes "at_phase s i p" "sv_requests t = sv_requests s"
  shows "in_phases Q (set_phase i q t) + (if Q p then 1 else 0) = in_phases Q s + (if Q q then 1 else 0)"
  using assms filter_update [of i "sv_requests s" Q q] by (auto simp: in_phases_def set_phase_def at_phase_def)

lemma set_phase_fields [simp]:
  "sv_work_slots (set_phase i p s) = sv_work_slots s" "sv_operational_slots (set_phase i p s) = sv_operational_slots s"
  "sv_max_workers (set_phase i p s) = sv_max_workers s" "sv_max_operational (set_phase i p s) = sv_max_operational s"
  "sv_active (set_phase i p s) = sv_active s" "sv_draining (set_phase i p s) = sv_draining s"
  by (simp_all add: set_phase_def)

lemmas phase_defs = holds_slot_def counted_def look_def acquire_slot_def slots_def set_slots_def limit_of_def
  release_slot_def enter_def count_out_def andthen_apply raiseR_def Let_def

lemma server_ok_move:
  assumes ok: "server_ok s" and p: "at_phase s i p" and t: "sv_requests t = sv_requests s"
    "sv_max_workers t = sv_max_workers s" "sv_max_operational t = sv_max_operational s"
    and work: "int (sv_work_slots t) = int (sv_work_slots s) + of_bool (holds_slot False p) - of_bool (holds_slot False q)"
    and oper: "int (sv_operational_slots t) = int (sv_operational_slots s) + of_bool (holds_slot True p) - of_bool (holds_slot True q)"
    and active: "sv_active t = sv_active s + of_bool (counted q) - of_bool (counted p)"
  shows "server_ok (set_phase i q t)"
proof -
  note c = in_phases_set [OF p t(1), of "holds_slot False" q] in_phases_set [OF p t(1), of "holds_slot True" q]
    in_phases_set [OF p t(1), of counted q]
  show ?thesis
    using ok work oper active c t(2,3)
    by (simp add: server_ok_def of_bool_def split: if_splits)
qed

lemma server_step_ok:
  assumes "server_step s t" "server_ok s"
  shows "server_ok t"
  using assms
proof (induction rule: server_step.induct)
  case (arrive s operational)
  then show ?case by (simp add: server_ok_def in_phases_def holds_slot_def counted_def)
next
  case (drain s)
  then show ?case by (simp add: server_ok_def in_phases_def begin_drain_def)
next
  case (look s i operational)
  show ?case by (rule server_ok_move [OF look(2,1)]) (auto simp: phase_defs)
next
  case (acquire s i operational p t)
  show ?case by (rule server_ok_move [OF acquire(3,1)]) (use acquire(2) in \<open>auto simp: phase_defs split: if_splits\<close>)
next
  case (enter s i operational p t)
  show ?case by (rule server_ok_move [OF enter(3,1)]) (use enter(2) in \<open>auto simp: phase_defs split: if_splits\<close>)
next
  case (release s i operational t)
  show ?case by (rule server_ok_move [OF release(3,1)]) (use release(2) in \<open>auto simp: phase_defs split: if_splits\<close>)
next
  case (count s i operational t)
  show ?case by (rule server_ok_move [OF count(3,1)]) (use count(2) in \<open>auto simp: phase_defs split: if_splits\<close>)
qed

interpretation admission: invariant_system server_step server_ok
  by unfold_locales (rule server_step_ok)

lemma new_server_ok: "server_ok (new_server m k)"
  by (simp add: server_ok_def new_server_def in_phases_def)

section \<open>What the server promises\<close>

lemma server_step_limits:
  "server_step s t \<Longrightarrow> sv_max_workers t = sv_max_workers s \<and> sv_max_operational t = sv_max_operational s"
  by (induction rule: server_step.induct) (auto simp: begin_drain_def phase_defs split: if_splits)

interpretation limits: invariant_system server_step "\<lambda>s. sv_max_workers s = m \<and> sv_max_operational s = k" for m k
  by unfold_locales (simp add: server_step_limits)

lemma filter_le: "(\<And>x. Q x \<Longrightarrow> R x) \<Longrightarrow> length (filter Q xs) \<le> length (filter R xs)"
  by (induction xs) auto

lemma serving_bounded:
  assumes "server_ok s"
  shows "in_phases (\<lambda>p. p = Serving operational) s \<le> limit_of operational s"
proof -
  have "in_phases (\<lambda>p. p = Serving operational) s \<le> in_phases (holds_slot operational) s"
    unfolding in_phases_def by (rule filter_le) (simp add: holds_slot_def)
  with assms show ?thesis by (cases operational) (auto simp: server_ok_def limit_of_def)
qed

lemma phase_counted: "at_phase s i p \<Longrightarrow> Q p \<Longrightarrow> 0 < in_phases Q s"
  by (auto simp: at_phase_def in_phases_def filter_empty_conv dest: nth_mem)

text \<open>No critical section raises: a bounded semaphore is never released too often, the count never underflows.\<close>

lemma sections_return:
  assumes "server_ok s"
  shows "at_phase s i (Acquired operational) \<Longrightarrow> \<exists>p t. enter operational s = (Inr p, t)"
    "at_phase s i (Serving operational) \<Longrightarrow> \<exists>t. release_slot operational s = (Inr (), t)"
    "at_phase s i (Releasing operational) \<Longrightarrow> \<exists>t. count_out operational s = (Inr (), t)"
proof -
  have slot: "slots operational s < limit_of operational s"
    if "at_phase s i p" "holds_slot operational p" for p
    using assms phase_counted [where Q = "holds_slot operational", OF that] by (cases operational) (auto simp: server_ok_def slots_def limit_of_def)
  then show "at_phase s i (Acquired operational) \<Longrightarrow> \<exists>p t. enter operational s = (Inr p, t)"
    "at_phase s i (Serving operational) \<Longrightarrow> \<exists>t. release_slot operational s = (Inr (), t)"
    by (auto simp: enter_def release_slot_def andthen_apply holds_slot_def leD dest!: slot)
  assume p: "at_phase s i (Releasing operational)"
  have "\<not> operational \<Longrightarrow> 0 < sv_active s"
    using assms phase_counted [where Q = counted, OF p] by (simp add: server_ok_def counted_def)
  then show "\<exists>t. count_out operational s = (Inr (), t)" by (cases operational) (simp_all add: count_out_def Let_def)
qed

lemma no_entry_after_drain:
  assumes "server_step s t" "sv_draining s"
  shows "sv_draining t \<and> sv_active t \<le> sv_active s \<and> (at_phase t i (Serving False) \<longrightarrow> at_phase s i (Serving False))"
  using assms
proof (induction rule: server_step.induct)
  case (arrive s operational)
  then show ?case by (auto simp: at_phase_def nth_append split: if_splits)
next
  case (acquire s j operational p t)
  then show ?case by (cases "j = i") (auto simp: at_phase_def set_phase_def phase_defs split: if_splits)
next
  case (enter s j operational p t)
  then show ?case by (cases "j = i") (auto simp: at_phase_def set_phase_def phase_defs split: if_splits)
next
  case (release s j operational t)
  then show ?case by (cases "j = i") (auto simp: at_phase_def set_phase_def phase_defs split: if_splits)
next
  case (count s j operational t)
  then show ?case by (cases "j = i") (auto simp: at_phase_def set_phase_def phase_defs split: if_splits)
next
  case (look s j operational)
  then show ?case by (cases "j = i") (auto simp: at_phase_def set_phase_def phase_defs split: if_splits)
qed (simp add: begin_drain_def at_phase_def)

interpretation drained: invariant_system server_step "\<lambda>s. server_ok s \<and> sv_draining s \<and> drained s"
proof
  fix s t assume s: "server_ok s \<and> sv_draining s \<and> drained s" and step: "server_step s t"
  have "server_ok t" using server_step_ok [OF step] s by blast
  moreover from this have "0 \<le> sv_active t" by (simp add: server_ok_def)
  ultimately show "server_ok t \<and> sv_draining t \<and> drained t"
    using no_entry_after_drain [OF step] s by (auto simp: drained_def)
qed

lemma drained_serves_none: "server_ok s \<Longrightarrow> drained s \<Longrightarrow> in_phases counted s = 0"
  by (simp add: server_ok_def drained_def)

end
