(* ===== verification/Evidence.thy ===== *)
theory Evidence
  imports ControlState ProcessRegistry
begin

text \<open>
  The evidence runner (\<open>src/agent_tree_rl/evidence.py\<close>): a command from an allowlist, in an allowed directory,
  with an allowed environment, runs under limits of time and output; its outcome, output digests and
  artifacts become a signed receipt.

  The world of a run is a record of streams: the readings of \<open>time.monotonic()\<close> (seconds, as exact
  numbers), the answers of the selector and of \<open>os.read\<close> on the two pipes, what the calls on a file answer
  each time it is hashed, and the process registry with the answers of the kernel. \<open>os.read(fd, n)\<close>
  returns at most the \<open>n\<close> bytes it was asked for. \<open>runenv\<close> adds the path functions used here to \<open>osenv\<close>:
  \<open>re_parent\<close>, \<open>re_name\<close>, \<open>os.access(p, os.X_OK)\<close>, and the description of the host.
\<close>

section \<open>Policy\<close>

record runenv = osenv +
  re_parent :: "string \<Rightarrow> string"
  re_name :: "string \<Rightarrow> string"
  re_may_execute :: "string \<Rightarrow> bool"
  re_host :: "json dict"

record runner_policy =
  rp_allowed_executables :: "(string \<times> string) list"
  rp_allowed_cwd_roots :: "string list"
  rp_timeout_seconds :: rat
  rp_output_cap_bytes :: int
  rp_stdin_cap_bytes :: int
  rp_artifact_file_cap_bytes :: int
  rp_artifact_total_cap_bytes :: int
  rp_artifact_hash_timeout_seconds :: rat
  rp_allowed_environment :: "string list"
  rp_fixed_environment :: "(string \<times> string) list"

definition tenth :: rat where
  \<comment> \<open>the double closest to \<open>0.1\<close>\<close>
  "tenth = 3602879701896397 / 36028797018963968"

definition check_policy :: "runner_policy \<Rightarrow> unit result" where
  \<comment> \<open>\<open>RunnerPolicy.__post_init__\<close>\<close>
  "check_policy rp =
     bindR (guardR (rp_allowed_executables rp \<noteq> []) ValueError ''at least one executable must be allowlisted'') (\<lambda>_.
     bindR (guardR (rp_allowed_cwd_roots rp \<noteq> []) ValueError ''at least one cwd root must be allowlisted'') (\<lambda>_.
     bindR (guardR (0 < rp_timeout_seconds rp \<and> rp_timeout_seconds rp \<le> 3600) ValueError
              ''timeout_seconds must be in (0, 3600]'') (\<lambda>_.
     bindR (guardR (1024 \<le> rp_output_cap_bytes rp \<and> rp_output_cap_bytes rp \<le> 64 * 1024 * 1024) ValueError
              ''output_cap_bytes must be in [1024, 64 MiB]'') (\<lambda>_.
     bindR (guardR (0 \<le> rp_stdin_cap_bytes rp \<and> rp_stdin_cap_bytes rp \<le> 64 * 1024 * 1024) ValueError
              ''stdin_cap_bytes must be in [0, 64 MiB]'') (\<lambda>_.
     bindR (guardR (1024 \<le> rp_artifact_file_cap_bytes rp \<and> rp_artifact_file_cap_bytes rp \<le> 1024 * 1024 * 1024) ValueError
              ''artifact_file_cap_bytes must be in [1 KiB, 1 GiB]'') (\<lambda>_.
     bindR (guardR (rp_artifact_file_cap_bytes rp \<le> rp_artifact_total_cap_bytes rp
                    \<and> rp_artifact_total_cap_bytes rp \<le> 4 * 1024 * 1024 * 1024) ValueError
              ''artifact_total_cap_bytes must cover one file and be at most 4 GiB'') (\<lambda>_.
     guardR (tenth \<le> rp_artifact_hash_timeout_seconds rp \<and> rp_artifact_hash_timeout_seconds rp \<le> 300) ValueError
       ''artifact_hash_timeout_seconds must be in [0.1, 300]'')))))))"

definition SAFE_DEFAULT_ENV :: "(string \<times> string) list" where
  "SAFE_DEFAULT_ENV = [(''LANG'', ''C''), (''LC_ALL'', ''C''), (''TZ'', ''UTC''), (''PYTHONDONTWRITEBYTECODE'', ''1'')]"
definition MAX_ENV_VALUE_BYTES :: int where "MAX_ENV_VALUE_BYTES = 16384"
definition MAX_EXECUTABLE_BYTES :: int where "MAX_EXECUTABLE_BYTES = 256 * 1024 * 1024"
definition EXECUTABLE_HASH_TIMEOUT_SECONDS :: rat where "EXECUTABLE_HASH_TIMEOUT_SECONDS = 10"

definition or_policy :: "'a result \<Rightarrow> string \<Rightarrow> 'a result" where
  \<comment> \<open>\<open>except OSError\<close> around a call of the operating system\<close>
  "or_policy r msg = (case r of Inr x \<Rightarrow> Inr x | Inl e \<Rightarrow>
     if isinstance_exc e OSError then raiseR PolicyViolation msg else Inl e)"

definition within_any :: "string \<Rightarrow> string list \<Rightarrow> bool" where
  \<comment> \<open>\<open>_is_within\<close>\<close>
  "within_any path roots \<longleftrightarrow> list_ex (is_within path) roots"

definition existing_directory :: "runenv \<Rightarrow> string \<Rightarrow> string result" where
  \<comment> \<open>\<open>_resolved_existing_directory\<close>\<close>
  "existing_directory os raw =
     bindR (os_resolve os (os_expanduser os raw)) (\<lambda>path.
     bindR (guardR (os_is_dir os path) PolicyViolation ''not a directory'') (\<lambda>_. Inr path))"

record exec_view =
  xv_before :: "file_stat result" \<comment> \<open>\<open>os.lstat(raw)\<close>\<close>
  xv_info :: "file_stat result" \<comment> \<open>\<open>path.stat()\<close>\<close>
  xv_current :: "file_stat result" \<comment> \<open>\<open>os.lstat(raw)\<close> again\<close>

definition resolve_executable :: "runenv \<Rightarrow> (string \<Rightarrow> exec_view) \<Rightarrow> string \<Rightarrow> string result" where
  \<comment> \<open>\<open>_resolve_executable\<close>\<close>
  "resolve_executable os xv value =
     (let raw = os_expanduser os value in
      bindR (guardR (is_absolute raw) PolicyViolation ''allowlisted executable must be absolute'') (\<lambda>_.
      bindR (or_policy (xv_before (xv raw)) ''cannot inspect allowlisted executable'') (\<lambda>before.
      bindR (guardR (fs_kind before \<noteq> SymbolicLink) PolicyViolation ''allowlisted executable must not be a symlink'') (\<lambda>_.
      bindR (guardR (fs_kind before = RegularFile) PolicyViolation ''executable is not a regular file'') (\<lambda>_.
      bindR (or_policy (bindR (os_resolve os raw) (\<lambda>path.
                        bindR (xv_info (xv raw)) (\<lambda>info.
                        bindR (xv_current (xv raw)) (\<lambda>current. Inr (path, info, current)))))
               ''cannot resolve allowlisted executable'') (\<lambda>(path, info, current).
      bindR (guardR (fs_kind current \<noteq> SymbolicLink \<and> same_file before current) PolicyViolation
               ''allowlisted executable changed while resolving'') (\<lambda>_.
      bindR (guardR (same_file before info) PolicyViolation ''allowlisted executable resolved to a different file'') (\<lambda>_.
      bindR (guardR (fs_kind info = RegularFile) PolicyViolation ''executable is not a regular file'') (\<lambda>_.
      bindR (guardR (re_may_execute os path) PolicyViolation ''executable is not executable'') (\<lambda>_.
      Inr path))))))))))"

definition is_letter :: "char \<Rightarrow> bool" where
  "is_letter c \<longleftrightarrow> (let n = of_char c :: int in 65 \<le> n \<and> n \<le> 90 \<or> 97 \<le> n \<and> n \<le> 122)"

definition valid_env_name :: "string \<Rightarrow> bool" where
  \<comment> \<open>\<open>_ENV_NAME\<close>\<close>
  "valid_env_name s = (case s of [] \<Rightarrow> False
     | c # cs \<Rightarrow> (is_letter c \<or> c = CHR ''_'') \<and> list_all (\<lambda>c. is_letter c \<or> is_digit c \<or> c = CHR ''_'') cs)"

definition valid_alias :: "string \<Rightarrow> bool" where
  \<comment> \<open>\<open>_KEY_ID\<close>\<close>
  "valid_alias s \<longleftrightarrow> 1 \<le> length s \<and> length s \<le> 128
     \<and> list_all (\<lambda>c. is_letter c \<or> is_digit c \<or> c \<in> set ''._:-'') s"

definition validate_executables :: "runenv \<Rightarrow> (string \<Rightarrow> exec_view) \<Rightarrow> (string \<times> string) list \<Rightarrow> (string \<times> string) list result" where
  "validate_executables os xv entries =
     foldR (\<lambda>(alias, raw) resolved.
       bindR (guardR (valid_alias alias) PolicyViolation ''invalid executable alias'') (\<lambda>_.
       bindR (resolve_executable os xv raw) (\<lambda>path.
       bindR (guardR (path \<notin> snd ` set resolved) PolicyViolation ''executable appears under multiple aliases'') (\<lambda>_.
       Inr (dict_set alias path resolved))))) entries []"

definition valid_env_value :: "string \<Rightarrow> bool" where
  "valid_env_value v \<longleftrightarrow> CHR 0x00 \<notin> set v"

definition set_variable :: "string \<Rightarrow> string \<times> string \<Rightarrow> (string \<times> string) list \<Rightarrow> (string \<times> string) list result" where
  \<comment> \<open>the checks on a name and a value that both kinds of variable share\<close>
  "set_variable what = (\<lambda>(name, v) env.
     bindR (guardR (valid_env_value v) PolicyViolation (''invalid '' @ what @ '' value'')) (\<lambda>_.
     bindR (guardR (int (length v) \<le> MAX_ENV_VALUE_BYTES) PolicyViolation (what @ '' value too large'')) (\<lambda>_.
     Inr (dict_set name v env))))"

definition validate_env_name :: "string \<Rightarrow> unit result" where
  "validate_env_name name = guardR (valid_env_name name) PolicyViolation ''invalid environment name''"

definition sanitize_fixed_env :: "(string \<times> string) list \<Rightarrow> (string \<times> string) list result" where
  "sanitize_fixed_env entries = foldR (\<lambda>kv env.
     bindR (validate_env_name (fst kv)) (\<lambda>_. set_variable ''fixed environment'' kv env)) entries []"

section \<open>Runners\<close>

record runner =
  rn_policy :: runner_policy
  rn_signer :: receipt_signer
  rn_tenant_id :: string
  rn_receipt_ttl_seconds :: int
  rn_executables :: "(string \<times> string) list"
  rn_roots :: "string list"
  rn_allowed_env :: "string list"
  rn_fixed_env :: "(string \<times> string) list"

definition new_runner ::
  "runenv \<Rightarrow> (string \<Rightarrow> exec_view) \<Rightarrow> runner_policy \<Rightarrow> receipt_signer \<Rightarrow> string \<Rightarrow> int \<Rightarrow> runner result" where
  \<comment> \<open>\<open>EvidenceRunner.__init__\<close> on a policy that its constructor accepted\<close>
  "new_runner os xv rp sg tenant_id ttl =
     bindR (guardR (tenant_id \<noteq> []) ValueError ''tenant_id must not be empty'') (\<lambda>_.
     bindR (guardR (0 < ttl) ValueError ''receipt_ttl_seconds must be a positive integer'') (\<lambda>_.
     bindR (validate_executables os xv (rp_allowed_executables rp)) (\<lambda>executables.
     bindR (mapR (existing_directory os) (rp_allowed_cwd_roots rp)) (\<lambda>roots.
     bindR (mapR validate_env_name (rp_allowed_environment rp)) (\<lambda>_.
     bindR (sanitize_fixed_env (rp_fixed_environment rp)) (\<lambda>fixed.
     Inr \<lparr>rn_policy = rp, rn_signer = sg, rn_tenant_id = tenant_id, rn_receipt_ttl_seconds = ttl, rn_executables = executables,
          rn_roots = roots, rn_allowed_env = rp_allowed_environment rp, rn_fixed_env = fixed\<rparr>))))))"

definition environment_for :: "runner \<Rightarrow> (string \<times> string) list \<Rightarrow> (string \<times> string) list result" where
  \<comment> \<open>\<open>_environment\<close>\<close>
  "environment_for R supplied = foldR (\<lambda>kv env.
     bindR (validate_env_name (fst kv)) (\<lambda>_.
     bindR (guardR (fst kv \<in> set (rn_allowed_env R)) PolicyViolation ''environment key is not allowlisted'') (\<lambda>_.
     set_variable ''environment'' kv env))) supplied (rn_fixed_env R)"

definition command_for :: "runenv \<Rightarrow> runner \<Rightarrow> string list \<Rightarrow> (string list \<times> string \<times> string) result" where
  \<comment> \<open>\<open>_command\<close>: the command line, the executable and its alias\<close>
  "command_for os R argv =
     bindR (guardR (argv \<noteq> []) PolicyViolation ''argv must not be empty'') (\<lambda>_.
     bindR (guardR (list_all nul_free argv) PolicyViolation ''argv entries must be non-empty NUL-free strings'') (\<lambda>_.
     bindR (case map_of (rn_executables R) (hd argv) of
              Some executable \<Rightarrow> Inr (executable, hd argv)
            | None \<Rightarrow>
                let raw = os_expanduser os (hd argv) in
                bindR (guardR (is_absolute raw) PolicyViolation
                         ''executable must be an allowlisted alias or exact absolute path'') (\<lambda>_.
                bindR (os_resolve os raw) (\<lambda>executable.
                case filter (\<lambda>(_, path). path = executable) (rn_executables R) of
                  [(alias, _)] \<Rightarrow> Inr (executable, alias)
                | _ \<Rightarrow> raiseR PolicyViolation ''executable is not allowlisted''))) (\<lambda>(executable, alias).
     Inr (executable # tl argv, executable, alias))))"

definition cwd_for :: "runenv \<Rightarrow> runner \<Rightarrow> string \<Rightarrow> string result" where
  \<comment> \<open>\<open>_cwd\<close>\<close>
  "cwd_for os R supplied =
     bindR (existing_directory os supplied) (\<lambda>cwd.
     bindR (guardR (within_any cwd (rn_roots R)) PolicyViolation ''cwd is outside allowlisted roots'') (\<lambda>_. Inr cwd))"

definition artifact_paths :: "runenv \<Rightarrow> runner \<Rightarrow> string \<Rightarrow> string list \<Rightarrow> string list result" where
  \<comment> \<open>\<open>_artifact_paths\<close>\<close>
  "artifact_paths os R cwd artifacts = foldR (\<lambda>raw paths.
     let p = os_expanduser os raw; candidate = (if is_absolute p then p else os_join os cwd p) in
     bindR (os_resolve os (re_parent os candidate)) (\<lambda>parent.
     let normalized = os_join os parent (re_name os candidate) in
     bindR (guardR (within_any normalized (rn_roots R)) PolicyViolation ''artifact is outside allowlisted roots'') (\<lambda>_.
     bindR (guardR (normalized \<notin> set paths) PolicyViolation ''duplicate artifact request'') (\<lambda>_.
     Inr (paths @ [normalized]))))) artifacts []"

section \<open>The world of a run\<close>

datatype channel = Stdout | Stderr

datatype read_answer = Chunk string | WouldBlock

record select_answer =
  \<comment> \<open>what is ready: the order of the two pipes and what \<open>os.read\<close> returns for each\<close>
  sa_first :: channel
  sa_stdout :: "read_answer option"
  sa_stderr :: "read_answer option"

record timed_stat = file_stat +
  ts_mtime :: int
  ts_ctime :: int

record artifact_view =
  av_lstat :: "file_stat result"
  av_open :: "timed_stat result" \<comment> \<open>\<open>os.open\<close> and the first \<open>os.fstat\<close>\<close>
  av_read :: "nat \<Rightarrow> string result"
  av_final :: "timed_stat result" \<comment> \<open>the last \<open>os.fstat\<close>\<close>

record run_world =
  rw_registry :: registry
  rw_clock :: "nat \<Rightarrow> rat"
  rw_ticks :: nat
  rw_select :: "nat \<Rightarrow> select_answer"
  rw_selects :: nat
  rw_view :: "nat \<Rightarrow> string \<Rightarrow> artifact_view"
  rw_views :: nat
  rw_utc :: "nat \<Rightarrow> string"
  rw_utcs :: nat
  rw_uuid :: "nat \<Rightarrow> string"
  rw_uuids :: nat
  rw_wall :: "nat \<Rightarrow> int"
  rw_walls :: nat
  rw_token :: "nat \<Rightarrow> string"
  rw_tokens :: nat
  rw_stdin_error :: "py_error option" \<comment> \<open>of the temporary file for the input\<close>

type_synonym 'a run_action = "(run_world, 'a) action"

definition in_registry :: "'a registry_action \<Rightarrow> 'a run_action" where
  "in_registry m w = (case m (rw_registry w) of (r, g) \<Rightarrow> (r, w\<lparr>rw_registry := g\<rparr>))"

definition monotonic :: "rat run_action" where
  \<comment> \<open>\<open>time.monotonic()\<close>\<close>
  "monotonic w = (Inr (rw_clock w (rw_ticks w)), w\<lparr>rw_ticks := Suc (rw_ticks w)\<rparr>)"

definition next_select :: "select_answer run_action" where
  "next_select w = (Inr (rw_select w (rw_selects w)), w\<lparr>rw_selects := Suc (rw_selects w)\<rparr>)"

definition utc_now :: "string run_action" where
  \<comment> \<open>\<open>_utc_now\<close>\<close>
  "utc_now w = (Inr (rw_utc w (rw_utcs w)), w\<lparr>rw_utcs := Suc (rw_utcs w)\<rparr>)"

definition fresh_uuid :: "string run_action" where
  \<comment> \<open>\<open>str(uuid.uuid4())\<close>\<close>
  "fresh_uuid w = (Inr (rw_uuid w (rw_uuids w)), w\<lparr>rw_uuids := Suc (rw_uuids w)\<rparr>)"

definition sign_with :: "pyenv \<Rightarrow> receipt_signer \<Rightarrow> json \<Rightarrow> string \<Rightarrow> string \<Rightarrow> int \<Rightarrow> string option \<Rightarrow> json run_action" where
  \<comment> \<open>\<open>signer.sign(payload, purpose=..., tenant_id=..., ttl_seconds=..., nonce=...)\<close>\<close>
  "sign_with E sg payload purpose tenant_id ttl nonce w =
     (sign E sg (rw_wall w (rw_walls w)) (rw_token w (rw_tokens w)) payload purpose tenant_id (Some ttl) None nonce,
      w\<lparr>rw_walls := Suc (rw_walls w), rw_tokens := Suc (rw_tokens w)\<rparr>)"

section \<open>Hashing files\<close>

datatype artifact_receipt =
    Unhashed string string \<comment> \<open>path and status\<close>
  | Hashed string nat string \<comment> \<open>path, size and SHA-256\<close>

definition artifact_json :: "artifact_receipt \<Rightarrow> json" where
  "artifact_json a = (case a of
      Unhashed path status \<Rightarrow> JObj [(''path'', JStr path), (''status'', JStr status)]
    | Hashed path bytes content \<Rightarrow> JObj [(''path'', JStr path), (''status'', JStr ''hashed''),
        (''size_bytes'', JInt (int bytes)), (''sha256'', JStr content)])"

definition is_hashed :: "artifact_receipt \<Rightarrow> bool" where
  "is_hashed a = (case a of Unhashed _ _ \<Rightarrow> False | Hashed _ _ _ \<Rightarrow> True)"

definition sha_of :: "artifact_receipt \<Rightarrow> string option" where
  \<comment> \<open>\<open>artifact.get("sha256")\<close>\<close>
  "sha_of a = (case a of Unhashed _ _ \<Rightarrow> None | Hashed _ _ h \<Rightarrow> Some h)"

function hash_loop :: "(nat \<Rightarrow> string result) \<Rightarrow> rat \<Rightarrow> nat \<Rightarrow> nat \<Rightarrow> string \<Rightarrow> run_world \<Rightarrow> string option result \<times> run_world" where
  \<comment> \<open>\<open>while remaining\<close>: the bytes read, \<open>None\<close> when the deadline passed\<close>
  "hash_loop reads deadline i remaining acc w =
     (if remaining = 0 then (Inr (Some acc), w)
      else let t = rw_clock w (rw_ticks w); w' = w\<lparr>rw_ticks := Suc (rw_ticks w)\<rparr> in
           if deadline \<le> t then (Inr None, w')
           else case reads i of
             Inl e \<Rightarrow> (Inl e, w')
           | Inr answer \<Rightarrow>
               let chunk = take (min SMALL_READ_SIZE remaining) answer in
               if chunk = [] then (Inr (Some acc), w')
               else hash_loop reads deadline (Suc i) (remaining - length chunk) (acc @ chunk) w')"
  by pat_completeness auto
termination
  by (relation "measure (\<lambda>(reads, deadline, i, remaining, acc, w). remaining)") (auto simp: SMALL_READ_SIZE_def)

declare hash_loop.simps [simp del]

definition unchanged :: "nat \<Rightarrow> timed_stat \<Rightarrow> timed_stat \<Rightarrow> bool" where
  "unchanged bytes opened final \<longleftrightarrow> int bytes = fs_size opened \<and> fs_size final = fs_size opened
     \<and> ts_mtime final = ts_mtime opened \<and> ts_ctime final = ts_ctime opened"

definition hash_opened :: "pyenv \<Rightarrow> string \<Rightarrow> artifact_view \<Rightarrow> file_stat \<Rightarrow> int \<Rightarrow> rat \<Rightarrow> artifact_receipt run_action" where
  \<comment> \<open>the body of the outer \<open>try\<close>\<close>
  "hash_opened E path v before max_bytes deadline =
     bind (lift (av_open v)) (\<lambda>after.
     if (fs_dev before, fs_ino before) \<noteq> (fs_dev after, fs_ino after) then ret (Unhashed path ''changed_while_opening'')
     else if fs_kind after \<noteq> RegularFile then ret (Unhashed path ''rejected_non_regular'')
     else if max_bytes < fs_size after then ret (Unhashed path ''size_limit'')
     else bind (hash_loop (av_read v) deadline 0 (nat (max_bytes + 1)) []) (\<lambda>content.
       case content of
         None \<Rightarrow> ret (Unhashed path ''hash_timeout'')
       | Some data \<Rightarrow>
           if max_bytes < int (length data) then ret (Unhashed path ''size_limit'')
           else bind (lift (av_final v)) (\<lambda>final.
             if \<not> unchanged (length data) after final then ret (Unhashed path ''changed_while_hashing'')
             else ret (Hashed path (length data) (sha256 E data)))))"

definition hash_at :: "pyenv \<Rightarrow> int \<Rightarrow> rat \<Rightarrow> string \<Rightarrow> artifact_receipt run_action" where
  \<comment> \<open>\<open>_hash_artifact\<close> from \<open>os.lstat\<close> on\<close>
  "hash_at E max_bytes deadline path w =
     (let v = rw_view w (rw_views w) path; w = w\<lparr>rw_views := Suc (rw_views w)\<rparr> in
      case av_lstat v of
        Inl e \<Rightarrow> if isinstance_exc e FileNotFoundError then (Inr (Unhashed path ''missing''), w) else (Inl e, w)
      | Inr before \<Rightarrow>
          if fs_kind before = SymbolicLink then (Inr (Unhashed path ''rejected_symlink''), w)
          else if fs_kind before \<noteq> RegularFile then (Inr (Unhashed path ''rejected_non_regular''), w)
          else if max_bytes < fs_size before then (Inr (Unhashed path ''size_limit''), w)
          else catch_exc [OSError] (hash_opened E path v before max_bytes deadline) (ret (Unhashed path ''unreadable'')) w)"

definition hash_artifact :: "runenv \<Rightarrow> pyenv \<Rightarrow> string list \<Rightarrow> int \<Rightarrow> rat \<Rightarrow> string \<Rightarrow> artifact_receipt run_action" where
  \<comment> \<open>\<open>_hash_artifact\<close> with \<open>allowed_roots\<close> and \<open>deadline\<close>\<close>
  "hash_artifact os E roots max_bytes deadline path =
     (case os_resolve os (re_parent os path) of
        Inl e \<Rightarrow> if isinstance_exc e OSError then ret (Unhashed path ''unresolvable_parent'') else throw e
      | Inr parent \<Rightarrow>
          let path = os_join os parent (re_name os path) in
          if \<not> within_any path roots then ret (Unhashed path ''rejected_escape'')
          else hash_at E max_bytes deadline path)"

definition hash_executable :: "pyenv \<Rightarrow> string \<Rightarrow> artifact_receipt run_action" where
  \<comment> \<open>\<open>_hash_artifact(executable)\<close>\<close>
  "hash_executable E path =
     bind monotonic (\<lambda>t. hash_at E MAX_EXECUTABLE_BYTES (t + EXECUTABLE_HASH_TIMEOUT_SECONDS) path)"

fun hash_artifacts :: "runenv \<Rightarrow> pyenv \<Rightarrow> runner \<Rightarrow> rat \<Rightarrow> string list \<Rightarrow> int \<Rightarrow> artifact_receipt list run_action" where
  \<comment> \<open>the loop over \<open>expected_artifacts\<close>, with the bytes that remain\<close>
  "hash_artifacts os E R deadline [] remaining = ret []"
| "hash_artifacts os E R deadline (path # paths) remaining =
     (if remaining \<le> 0
      then bind (hash_artifacts os E R deadline paths remaining) (\<lambda>rs. ret (Unhashed path ''aggregate_size_limit'' # rs))
      else let file_cap = rp_artifact_file_cap_bytes (rn_policy R); per_file_limit = min file_cap remaining in
        bind (hash_artifact os E (rn_roots R) per_file_limit deadline path) (\<lambda>artifact.
        let artifact = (case artifact of
              Unhashed p status \<Rightarrow> if status = ''size_limit'' \<and> per_file_limit < file_cap
                                  then Unhashed p ''aggregate_size_limit'' else artifact
            | _ \<Rightarrow> artifact);
            used = (case artifact of Hashed _ bytes _ \<Rightarrow> int bytes | _ \<Rightarrow> 0) in
        bind (hash_artifacts os E R deadline paths (remaining - used)) (\<lambda>rs. ret (artifact # rs))))"

section \<open>Collecting the output\<close>

datatype cutoff = Timeout | OutputLimit

record collected =
  co_open :: "channel list" \<comment> \<open>the registered pipes\<close>
  co_stdout :: string
  co_stderr :: string
  co_total :: int
  co_termination :: "cutoff option"
  co_kill_deadline :: "rat option"

definition captured :: "collected \<Rightarrow> int" where
  "captured c = int (length (co_stdout c)) + int (length (co_stderr c))"

definition terminate :: "nat \<Rightarrow> unit run_action" where
  \<comment> \<open>\<open>_terminate\<close>\<close>
  "terminate p = in_registry (signal p SIGKILL)"

definition ready :: "select_answer \<Rightarrow> channel list \<Rightarrow> (channel \<times> read_answer) list" where
  \<comment> \<open>\<open>selector.select\<close>: the registered pipes that are ready\<close>
  "ready a open_pipes =
     (let out = (case sa_stdout a of None \<Rightarrow> [] | Some r \<Rightarrow> [(Stdout, r)]);
          err = (case sa_stderr a of None \<Rightarrow> [] | Some r \<Rightarrow> [(Stderr, r)]) in
      filter (\<lambda>(c, _). c \<in> set open_pipes) (if sa_first a = Stdout then out @ err else err @ out))"

definition keep_bytes :: "channel \<Rightarrow> string \<Rightarrow> collected \<Rightarrow> collected" where
  "keep_bytes ch s c = (case ch of Stdout \<Rightarrow> c\<lparr>co_stdout := co_stdout c @ s\<rparr> | Stderr \<Rightarrow> c\<lparr>co_stderr := co_stderr c @ s\<rparr>)"

definition take_chunk :: "runner \<Rightarrow> channel \<Rightarrow> string \<Rightarrow> collected \<Rightarrow> collected" where
  \<comment> \<open>count a chunk and keep what there is room for\<close>
  "take_chunk R ch chunk c =
     (let c = c\<lparr>co_total := co_total c + int (length chunk)\<rparr>;
          room = max 0 (rp_output_cap_bytes (rn_policy R) - captured c) in
      if room \<noteq> 0 then keep_bytes ch (take (nat room) chunk) c else c)"

definition stop_now :: "nat \<Rightarrow> cutoff \<Rightarrow> rat run_action \<Rightarrow> collected \<Rightarrow> collected run_action" where
  "stop_now p why reading c =
     andthen (terminate p) (bind reading (\<lambda>t.
     ret (c\<lparr>co_termination := Some why, co_kill_deadline := Some (t + 2)\<rparr>)))"

record collector =
  \<comment> \<open>the byte limit of a loop over two pipes, whether it tries again when a read would block, and how it
      counts and keeps a chunk\<close>
  cl_cap :: int
  cl_retry :: bool
  cl_keep :: "channel \<Rightarrow> string \<Rightarrow> collected \<Rightarrow> collected"

fun read_ready :: "collector \<Rightarrow> nat \<Rightarrow> (channel \<times> read_answer) list \<Rightarrow> collected \<Rightarrow> collected run_action" where
  \<comment> \<open>the loop over the ready pipes\<close>
  "read_ready L p [] c = ret c"
| "read_ready L p ((ch, WouldBlock) # rs) c = (if cl_retry L then read_ready L p rs c else raise OSError ''read would block'')"
| "read_ready L p ((ch, Chunk answer) # rs) c =
     (let chunk = take SMALL_READ_SIZE answer in
      if chunk = [] then read_ready L p rs (c\<lparr>co_open := remove1 ch (co_open c)\<rparr>)
      else let c = cl_keep L ch chunk c in
        if cl_cap L < co_total c \<and> co_termination c = None
        then bind (stop_now p OutputLimit monotonic c) (read_ready L p rs)
        else read_ready L p rs c)"

definition collect_step :: "collector \<Rightarrow> nat \<Rightarrow> rat \<Rightarrow> collected \<Rightarrow> (bool \<times> collected) run_action" where
  \<comment> \<open>one turn of the \<open>while\<close>; \<open>False\<close> for its \<open>break\<close>\<close>
  "collect_step L p deadline c =
     bind monotonic (\<lambda>t.
     bind (if co_termination c = None \<and> deadline \<le> t then stop_now p Timeout (ret t) c else ret c) (\<lambda>c.
     if (case co_kill_deadline c of None \<Rightarrow> False | Some k \<Rightarrow> k \<le> t) then ret (False, c)
     else bind next_select (\<lambda>a.
       bind (read_ready L p (ready a (co_open c)) c) (\<lambda>c. ret (True, c)))))"

partial_function (option) collect_loop ::
  "collector \<Rightarrow> nat \<Rightarrow> rat \<Rightarrow> collected \<Rightarrow> run_world \<Rightarrow> (collected result \<times> run_world) option" where
  "collect_loop L p deadline c w =
     (if co_open c = [] then Some (Inr c, w)
      else case collect_step L p deadline c w of
        (r, w') \<Rightarrow> (case r of
           Inl e \<Rightarrow> Some (Inl e, w')
         | Inr (go, c') \<Rightarrow> if go then collect_loop L p deadline c' w' else Some (Inr c', w')))"

definition evidence_collector :: "runner \<Rightarrow> collector" where
  "evidence_collector R = \<lparr>cl_cap = rp_output_cap_bytes (rn_policy R), cl_retry = True, cl_keep = take_chunk R\<rparr>"

definition new_collected :: collected where
  "new_collected = \<lparr>co_open = [Stdout, Stderr], co_stdout = [], co_stderr = [], co_total = 0, co_termination = None,
     co_kill_deadline = None\<rparr>"

definition reap_collected :: "nat \<Rightarrow> int run_action" where
  \<comment> \<open>the end of \<open>_collect_bounded\<close>: the exit code\<close>
  "reap_collected p =
     andthen (terminate p)
     (catch_exc [TimeoutExpired] (in_registry (kill_and_reap p))
        (andthen (terminate p) (in_registry (kill_and_reap p))))"

definition collect_bounded :: "runner \<Rightarrow> nat \<Rightarrow> rat \<Rightarrow> run_world \<Rightarrow> ((collected \<times> int) result \<times> run_world) option" where
  \<comment> \<open>\<open>_collect_bounded\<close>\<close>
  "collect_bounded R p deadline w =
     map_option (\<lambda>(r, w'). case r of
         Inl e \<Rightarrow> (Inl e, w')
       | Inr c \<Rightarrow> bind (reap_collected p) (\<lambda>code. ret (c, code)) w')
       (collect_loop (evidence_collector R) p deadline new_collected w)"

section \<open>Running a command\<close>

record finished =
  fi_stdout :: string
  fi_stderr :: string
  fi_termination :: "cutoff option"
  fi_total :: int
  fi_returncode :: int
  fi_spawn_error :: "string option"

definition not_run :: "py_error \<Rightarrow> finished" where
  \<comment> \<open>what \<open>except OSError\<close> leaves\<close>
  "not_run e = \<lparr>fi_stdout = [], fi_stderr = [], fi_termination = None, fi_total = 0, fi_returncode = - 1,
     fi_spawn_error = Some (exc_name (exc_of e))\<rparr>"

definition process_ended :: "collected \<Rightarrow> int \<Rightarrow> finished" where
  "process_ended c returncode = \<lparr>fi_stdout = co_stdout c, fi_stderr = co_stderr c, fi_termination = co_termination c,
     fi_total = co_total c, fi_returncode = returncode, fi_spawn_error = None\<rparr>"

definition or_not_run :: "finished result \<Rightarrow> finished result" where
  "or_not_run r = (case r of Inr x \<Rightarrow> Inr x | Inl e \<Rightarrow> if isinstance_exc e OSError then Inr (not_run e) else Inl e)"

definition start :: "string \<Rightarrow> nat run_action" where
  \<comment> \<open>the temporary file for the input and the child\<close>
  "start input w = (case (if input \<noteq> [] then rw_stdin_error w else None) of
      Some e \<Rightarrow> (Inl e, w)
    | None \<Rightarrow> in_registry (spawn False) w)"

definition execute :: "runner \<Rightarrow> rat \<Rightarrow> string \<Rightarrow> run_world \<Rightarrow> (finished result \<times> run_world) option" where
  \<comment> \<open>the \<open>try\<close> of \<open>run\<close> with its \<open>except\<close> and \<open>finally\<close>\<close>
  "execute R started input w = (case start input w of
      (Inl e, w') \<Rightarrow> Some (or_not_run (Inl e), w')
    | (Inr p, w') \<Rightarrow>
        map_option (\<lambda>(r, w').
          finally_do (lift (or_not_run (case r of Inl e \<Rightarrow> Inl e | Inr (c, returncode) \<Rightarrow> Inr (process_ended c returncode))))
            (andthen (in_registry (kill_and_reap p)) (ret ())) w')
          (collect_bounded R p (started + rp_timeout_seconds (rn_policy R)) w'))"

record prepared =
  pp_command :: "string list"
  pp_executable :: string
  pp_alias :: string
  pp_initial_sha256 :: string
  pp_workdir :: string
  pp_environment :: "(string \<times> string) list"
  pp_artifacts :: "string list"
  pp_input :: string

definition prepare ::
  "runenv \<Rightarrow> pyenv \<Rightarrow> runner \<Rightarrow> string list \<Rightarrow> string \<Rightarrow> (string \<times> string) list \<Rightarrow> string option \<Rightarrow> string list
     \<Rightarrow> string option \<Rightarrow> prepared run_action" where
  \<comment> \<open>\<open>run\<close> up to the start of the clock\<close>
  "prepare os E R argv cwd env stdin artifacts correlation_id =
     bind (lift (command_for os R argv)) (\<lambda>(command, executable, alias).
     bind (hash_executable E executable) (\<lambda>initial.
     case sha_of initial of
       None \<Rightarrow> raise PolicyViolation ''allowlisted executable could not be fingerprinted''
     | Some initial_sha256 \<Rightarrow>
         bind (lift (cwd_for os R cwd)) (\<lambda>workdir.
         bind (lift (environment_for R env)) (\<lambda>environment.
         bind (lift (artifact_paths os R workdir artifacts)) (\<lambda>expected.
         let input = (case stdin of None \<Rightarrow> [] | Some b \<Rightarrow> b) in
         andthen (require (int (length input) \<le> rp_stdin_cap_bytes (rn_policy R)) PolicyViolation ''stdin exceeds configured byte cap'')
         (andthen (require (case correlation_id of None \<Rightarrow> True | Some c \<Rightarrow> py_len c \<le> 256) PolicyViolation ''invalid correlation_id'')
         (ret \<lparr>pp_command = command, pp_executable = executable, pp_alias = alias, pp_initial_sha256 = initial_sha256,
               pp_workdir = workdir, pp_environment = environment, pp_artifacts = expected, pp_input = input\<rparr>)))))))"

definition opt_text :: "string option \<Rightarrow> json" where
  "opt_text x = (case x of None \<Rightarrow> JNull | Some s \<Rightarrow> JStr s)"

record fingerprints =
  fp_host_sha256 :: string
  fp_environment_sha256 :: string
  fp_environment_keys :: "string list"
  fp_executable_sha256 :: "string option"
  fp_executable_stable :: bool

definition fingerprints_for :: "runenv \<Rightarrow> pyenv \<Rightarrow> string \<Rightarrow> (string \<times> string) list \<Rightarrow> string \<Rightarrow> fingerprints run_action" where
  \<comment> \<open>\<open>_fingerprints\<close>\<close>
  "fingerprints_for os E executable environment initial_sha256 =
     bind (hash_executable E executable) (\<lambda>current.
     bind (lift (canonical_json_bytes E (JObj (re_host os)))) (\<lambda>host.
     bind (lift (canonical_json_bytes E (JObj (map (\<lambda>(k, v). (k, JStr v)) environment)))) (\<lambda>variables.
     ret \<lparr>fp_host_sha256 = sha256 E host, fp_environment_sha256 = sha256 E variables,
          fp_environment_keys = sort (map fst environment), fp_executable_sha256 = sha_of current,
          fp_executable_stable = (sha_of current = Some initial_sha256)\<rparr>)))"

definition fingerprints_json :: "fingerprints \<Rightarrow> json" where
  "fingerprints_json f = JObj
     [(''host_sha256'', JStr (fp_host_sha256 f)), (''environment_sha256'', JStr (fp_environment_sha256 f)),
      (''environment_keys'', JList (map JStr (fp_environment_keys f))), (''executable_sha256'', opt_text (fp_executable_sha256 f)),
      (''executable_stable'', JBool (fp_executable_stable f))]"

definition outcome_of :: "finished \<Rightarrow> artifact_receipt list \<Rightarrow> fingerprints \<Rightarrow> string" where
  "outcome_of x artifacts f =
     (if \<not> fp_executable_stable f then ''executable_changed''
      else if fi_spawn_error x \<noteq> None then ''spawn_error''
      else if fi_termination x = Some Timeout then ''timeout''
      else if fi_termination x = Some OutputLimit then ''output_limit''
      else if fi_returncode x \<noteq> 0 then ''failed''
      else if list_ex (\<lambda>a. \<not> is_hashed a) artifacts then ''artifact_error''
      else ''passed'')"

definition termination_text :: "cutoff option \<Rightarrow> string option" where
  "termination_text x = (case x of None \<Rightarrow> None | Some Timeout \<Rightarrow> Some ''timeout'' | Some OutputLimit \<Rightarrow> Some ''output_limit'')"

definition milliseconds :: "rat \<Rightarrow> int" where
  "milliseconds t = round_half_even (t * 1000)"

definition evidence_payload ::
  "pyenv \<Rightarrow> runner \<Rightarrow> prepared \<Rightarrow> string option \<Rightarrow> string \<Rightarrow> string \<Rightarrow> string \<Rightarrow> int \<Rightarrow> string \<Rightarrow> finished
     \<Rightarrow> artifact_receipt list \<Rightarrow> fingerprints \<Rightarrow> json" where
  "evidence_payload E R pp correlation_id receipt_id issued_at started_at duration_ms argv_sha256 x artifacts f =
     (let rp = rn_policy R; kept = int (length (fi_stdout x)) + int (length (fi_stderr x)) in
      JObj
       [(''receipt_type'', JStr ''subprocess_evidence.v1''), (''receipt_id'', JStr receipt_id),
        (''correlation_id'', opt_text correlation_id), (''issued_at'', JStr issued_at), (''started_at'', JStr started_at),
        (''duration_ms'', JInt duration_ms), (''outcome'', JStr (outcome_of x artifacts f)),
        (''command'', JObj [(''alias'', JStr (pp_alias pp)), (''argv'', JList (map JStr (pp_command pp))),
           (''argv_sha256'', JStr argv_sha256), (''cwd'', JStr (pp_workdir pp)), (''shell'', JBool False)]),
        (''limits'', JObj [(''timeout_ms'', JInt (milliseconds (rp_timeout_seconds rp))),
           (''output_cap_bytes'', JInt (rp_output_cap_bytes rp)), (''stdin_cap_bytes'', JInt (rp_stdin_cap_bytes rp)),
           (''artifact_file_cap_bytes'', JInt (rp_artifact_file_cap_bytes rp)),
           (''artifact_total_cap_bytes'', JInt (rp_artifact_total_cap_bytes rp)),
           (''artifact_hash_timeout_ms'', JInt (milliseconds (rp_artifact_hash_timeout_seconds rp)))]),
        (''process'', JObj [(''returncode'', JInt (fi_returncode x)), (''termination'', opt_text (termination_text (fi_termination x))),
           (''spawn_error'', opt_text (fi_spawn_error x))]),
        (''input'', JObj [(''size_bytes'', JInt (int (length (pp_input pp)))), (''sha256'', JStr (sha256 E (pp_input pp)))]),
        (''output'', JObj [(''observed_bytes'', JInt (fi_total x)), (''captured_bytes'', JInt kept),
           (''truncated'', JBool (kept < fi_total x)), (''stdout_size_bytes'', JInt (int (length (fi_stdout x)))),
           (''stderr_size_bytes'', JInt (int (length (fi_stderr x)))), (''stdout_sha256'', JStr (sha256 E (fi_stdout x))),
           (''stderr_sha256'', JStr (sha256 E (fi_stderr x)))]),
        (''artifacts'', JList (map artifact_json artifacts)), (''fingerprints'', fingerprints_json f)])"

record run_result =
  rr_receipt :: json
  rr_stdout :: string
  rr_stderr :: string

definition report ::
  "runenv \<Rightarrow> pyenv \<Rightarrow> runner \<Rightarrow> prepared \<Rightarrow> string option \<Rightarrow> string \<Rightarrow> rat \<Rightarrow> finished \<Rightarrow> run_result run_action" where
  \<comment> \<open>\<open>run\<close> after the \<open>finally\<close>\<close>
  "report os E R pp correlation_id started_at started x =
     bind monotonic (\<lambda>t.
     bind monotonic (\<lambda>t'.
     bind (hash_artifacts os E R (t' + rp_artifact_hash_timeout_seconds (rn_policy R)) (pp_artifacts pp)
             (rp_artifact_total_cap_bytes (rn_policy R))) (\<lambda>artifacts.
     bind (fingerprints_for os E (pp_executable pp) (pp_environment pp) (pp_initial_sha256 pp)) (\<lambda>f.
     bind fresh_uuid (\<lambda>receipt_id.
     bind utc_now (\<lambda>issued_at.
     bind (lift (canonical_json_bytes E (JList (map JStr (pp_command pp))))) (\<lambda>argv.
     bind (sign_with E (rn_signer R)
             (evidence_payload E R pp correlation_id receipt_id issued_at started_at (max 0 (milliseconds (t - started)))
                (sha256 E argv) x artifacts f)
             ''subprocess-evidence'' (rn_tenant_id R) (rn_receipt_ttl_seconds R) None) (\<lambda>envelope.
     ret \<lparr>rr_receipt = envelope, rr_stdout = fi_stdout x, rr_stderr = fi_stderr x\<rparr>))))))))"

definition run_command ::
  "runenv \<Rightarrow> pyenv \<Rightarrow> runner \<Rightarrow> string list \<Rightarrow> string \<Rightarrow> (string \<times> string) list \<Rightarrow> string option \<Rightarrow> string list
     \<Rightarrow> string option \<Rightarrow> run_world \<Rightarrow> (run_result result \<times> run_world) option" where
  \<comment> \<open>\<open>EvidenceRunner.run\<close>; \<open>None\<close> when it does not return\<close>
  "run_command os E R argv cwd env stdin artifacts correlation_id w =
     (case prepare os E R argv cwd env stdin artifacts correlation_id w of
        (Inl e, w) \<Rightarrow> Some (Inl e, w)
      | (Inr pp, w) \<Rightarrow>
          (case bind utc_now (\<lambda>started_at. bind monotonic (\<lambda>started. ret (started_at, started))) w of
             (Inl e, w) \<Rightarrow> Some (Inl e, w)
           | (Inr (started_at, started), w) \<Rightarrow>
               map_option (\<lambda>(r, w). case r of
                   Inl e \<Rightarrow> (Inl e, w)
                 | Inr x \<Rightarrow> report os E R pp correlation_id started_at started x w)
                 (execute R started (pp_input pp) w)))"

definition passed :: "run_result \<Rightarrow> bool" where
  \<comment> \<open>\<open>RunResult.ok\<close>\<close>
  "passed r = (case obj_get (rr_receipt r) ''payload'' of
      Some (JObj kvs) \<Rightarrow> map_of kvs ''outcome'' = Some (JStr ''passed'')
    | _ \<Rightarrow> False)"

end
