(* ===== verification/EvidenceLemmas.thy ===== *)
theory EvidenceLemmas
  imports Evidence
begin

text \<open>
  Lemmas on the evidence runner: collecting the output ends when time passes and keeps exactly what the
  cap allows; the checks before a run; the budget of hashed bytes; what a receipt says.
\<close>

section \<open>The clock\<close>

definition after :: "(nat \<Rightarrow> rat) \<Rightarrow> nat \<Rightarrow> run_world \<Rightarrow> bool" where
  \<comment> \<open>the readings are those of \<open>clk\<close> and at least \<open>n\<close> of them were taken\<close>
  "after clk n w \<longleftrightarrow> rw_clock w = clk \<and> n \<le> rw_ticks w"

definition ticking :: "(nat \<Rightarrow> rat) \<Rightarrow> bool" where
  \<comment> \<open>time passes: every moment is behind all but finitely many readings\<close>
  "ticking clk \<longleftrightarrow> (\<forall>x. \<exists>n. \<forall>m \<ge> n. x \<le> clk m)"

lemma keeps_in_registry: "keeps (after clk n) (in_registry m)"
  by (rule keepsI) (auto simp: in_registry_def after_def split: prod.splits)

lemma keeps_readings:
  "keeps (after clk n) monotonic" "keeps (after clk n) next_select" "keeps (after clk n) utc_now" "keeps (after clk n) fresh_uuid"
  by (rule keepsI, auto simp: monotonic_def next_select_def utc_now_def fresh_uuid_def after_def)+

lemma keeps_stop: "keeps (after clk n) (terminate p)" "keeps (after clk n) m \<Longrightarrow> keeps (after clk n) (stop_now p why m c)"
  unfolding stop_now_def terminate_def by (intro keeps_intros keeps_in_registry; assumption)+

lemma keeps_read_ready: "keeps (after clk n) (read_ready L p rs c)"
proof (induction rs arbitrary: c)
  case (Cons r rs)
  obtain ch a where "r = (ch, a)" by (cases r)
  with Cons show ?case by (cases a) (auto simp: Let_def intro!: keeps_bind keeps_pure keeps_stop keeps_readings)
qed (auto intro: keeps_pure)

lemma keeps_collect_step: "keeps (after clk n) (collect_step L p deadline c)"
  unfolding collect_step_def
  by (intro keeps_bind keeps_readings keeps_if keeps_stop keeps_read_ready keeps_pure)

lemma collect_step_ticks:
  assumes "collect_step L p deadline c w = (r, w')"
  shows "after (rw_clock w) (Suc (rw_ticks w)) w'"
proof -
  let ?w = "w\<lparr>rw_ticks := Suc (rw_ticks w)\<rparr>"
  have "after (rw_clock w) (Suc (rw_ticks w)) ?w" by (simp add: after_def)
  moreover have "keeps (after (rw_clock w) (Suc (rw_ticks w)))
      (bind (if co_termination c = None \<and> deadline \<le> rw_clock w (rw_ticks w) then stop_now p Timeout (ret (rw_clock w (rw_ticks w))) c
         else ret c) (\<lambda>c. if (case co_kill_deadline c of None \<Rightarrow> False | Some k \<Rightarrow> k \<le> rw_clock w (rw_ticks w)) then ret (False, c)
         else bind next_select (\<lambda>a. bind (read_ready L p (ready a (co_open c)) c) (\<lambda>c. ret (True, c)))))"
    by (intro keeps_bind keeps_readings keeps_if keeps_stop keeps_read_ready keeps_pure)
  ultimately show ?thesis using assms
    by (auto simp: collect_step_def bind_apply [of monotonic] monotonic_def dest: keepsD)
qed

section \<open>Collecting the output\<close>

lemma keep_bytes_fields [simp]:
  "captured (keep_bytes ch s c) = captured c + int (length s)" "co_total (keep_bytes ch s c) = co_total c"
  "co_termination (keep_bytes ch s c) = co_termination c" "co_kill_deadline (keep_bytes ch s c) = co_kill_deadline c"
  by (cases ch; simp add: keep_bytes_def captured_def)+

lemma captured_total [simp]: "captured (c\<lparr>co_total := n\<rparr>) = captured c"
  by (simp add: captured_def)

lemma take_chunk_fields:
  "co_total (take_chunk R ch s c) = co_total c + int (length s)"
  "co_termination (take_chunk R ch s c) = co_termination c"
  "co_kill_deadline (take_chunk R ch s c) = co_kill_deadline c"
  "captured (take_chunk R ch s c) = captured c + min (int (length s)) (max 0 (rp_output_cap_bytes (rn_policy R) - captured c))"
  by (auto simp: take_chunk_def Let_def)

lemma take_chunk_captured:
  assumes "captured c = min (co_total c) cap" "0 \<le> co_total c" "cap = rp_output_cap_bytes (rn_policy R)"
  shows "captured (take_chunk R ch s c) = min (co_total (take_chunk R ch s c)) cap"
  using assms unfolding take_chunk_fields by linarith

lemma stop_now_Inr: "stop_now p why m c w = (Inr c', w') \<Longrightarrow>
    \<exists>t w1. m w1 = (Inr t, w') \<and> c' = c\<lparr>co_termination := Some why, co_kill_deadline := Some (t + 2)\<rparr>"
  by (auto simp: stop_now_def bind_Inr_iff andthen_Inr_iff)

text \<open>
  A loop over the pipes promises its clients two things, whatever it keeps of a chunk: it ends, and what
  holds of the kept bytes after every chunk holds at the end. The two users of such a loop, the evidence runner
  and the client of the benchmark worker, interpret this locale.
\<close>

definition collected_ok :: "collector \<Rightarrow> (collected \<Rightarrow> bool) \<Rightarrow> collected \<Rightarrow> bool" where
  \<comment> \<open>the kept bytes are as they should be; a child that wrote more than the cap was told to stop\<close>
  "collected_ok L kept c \<longleftrightarrow> kept c \<and> (cl_cap L < co_total c \<longrightarrow> co_termination c \<noteq> None)
     \<and> (co_kill_deadline c = None \<longleftrightarrow> co_termination c = None)"

lemma collect_loop_unfold:
  "co_open c \<noteq> [] \<Longrightarrow> collect_step L p deadline c w = (r, w') \<Longrightarrow>
   collect_loop L p deadline c w = (case r of Inl e \<Rightarrow> Some (Inl e, w')
     | Inr (go, c') \<Rightarrow> if go then collect_loop L p deadline c' w' else Some (Inr c', w'))"
  by (subst collect_loop.simps) simp

locale output_collection =
  fixes L :: collector and kept :: "collected \<Rightarrow> bool"
  assumes keep_stops: "co_termination (cl_keep L ch s c) = co_termination c" "co_kill_deadline (cl_keep L ch s c) = co_kill_deadline c"
    and keep_kept: "kept c \<Longrightarrow> kept (cl_keep L ch s c)"
    and kept_frame: "kept (c\<lparr>co_open := pipes\<rparr>) = kept c" "kept (c\<lparr>co_termination := why, co_kill_deadline := k\<rparr>) = kept c"
begin

lemma stopped_ok:
  "stop_now p why m c w = (Inr d, w') \<Longrightarrow> kept c \<Longrightarrow> collected_ok L kept d \<and> co_termination d \<noteq> None"
  by (auto simp: collected_ok_def kept_frame dest!: stop_now_Inr)

lemma read_ready_ok:
  assumes "collected_ok L kept c" "read_ready L p rs c w = (Inr c', w')"
  shows "collected_ok L kept c' \<and> (\<forall>k. co_kill_deadline c = Some k \<longrightarrow> co_kill_deadline c' = Some k)
    \<and> (co_termination c \<noteq> None \<longrightarrow> co_termination c' \<noteq> None)"
  using assms
proof (induction rs arbitrary: c w)
  case (Cons r rs)
  obtain ch a where r: "r = (ch, a)" by (cases r)
  show ?case
  proof (cases a)
    case WouldBlock
    with Cons show ?thesis by (simp add: r split: if_splits)
  next
    case (Chunk answer)
    let ?chunk = "take SMALL_READ_SIZE answer"
    let ?c = "cl_keep L ch ?chunk c"
    note run = Cons.prems(2) [unfolded r Chunk read_ready.simps Let_def]
    note ok = Cons.prems(1) [unfolded collected_ok_def]
    have c: "kept ?c" using ok by (simp add: keep_kept)
    consider "?chunk = []" | "?chunk \<noteq> []" "cl_cap L < co_total ?c \<and> co_termination ?c = None"
      | "?chunk \<noteq> []" "\<not> (cl_cap L < co_total ?c \<and> co_termination ?c = None)" by blast
    then show ?thesis
    proof cases
      case 1
      have "collected_ok L kept (c\<lparr>co_open := remove1 ch (co_open c)\<rparr>)"
        using Cons.prems(1) by (simp add: collected_ok_def kept_frame)
      from Cons.IH [OF this] run 1 show ?thesis by simp
    next
      case 2
      from run 2 obtain d w1 where d: "stop_now p OutputLimit monotonic ?c w = (Inr d, w1)"
        and next_run: "read_ready L p rs d w1 = (Inr c', w')"
        by (auto simp: bind_Inr_iff)
      note d_ok = stopped_ok [OF d c]
      from Cons.IH [OF _ next_run] d_ok 2 ok show ?thesis by (auto simp: keep_stops)
    next
      case 3
      have "collected_ok L kept ?c" using ok c 3(2) by (auto simp: collected_ok_def keep_stops)
      moreover have "read_ready L p rs ?c w = (Inr c', w')"
        using run unfolding if_not_P [OF 3(1)] if_not_P [OF 3(2)] .
      ultimately show ?thesis using Cons.IH by (simp add: keep_stops)
    qed
  qed
qed simp

lemma collect_step_ok:
  assumes ok: "collected_ok L kept c" and run: "collect_step L p deadline c w = (Inr (go, c'), w')"
  shows "collected_ok L kept c'"
    and "co_kill_deadline c = Some k \<Longrightarrow> co_kill_deadline c' = Some k \<and> (k \<le> rw_clock w (rw_ticks w) \<longrightarrow> \<not> go)"
    and "deadline \<le> rw_clock w (rw_ticks w) \<Longrightarrow> co_termination c' \<noteq> None"
proof -
  let ?t = "rw_clock w (rw_ticks w)"
  let ?m = "if co_termination c = None \<and> deadline \<le> ?t then stop_now p Timeout (ret ?t) c else ret c"
  from run obtain d w1 where m: "?m (w\<lparr>rw_ticks := Suc (rw_ticks w)\<rparr>) = (Inr d, w1)" and
    rest: "(if (case co_kill_deadline d of None \<Rightarrow> False | Some k \<Rightarrow> k \<le> ?t) then ret (False, d)
       else bind next_select (\<lambda>a. bind (read_ready L p (ready a (co_open d)) d) (\<lambda>c. ret (True, c)))) w1 = (Inr (go, c'), w')"
    by (auto simp: collect_step_def bind_Inr_iff monotonic_def)
  have d: "collected_ok L kept d" "\<forall>k. co_kill_deadline c = Some k \<longrightarrow> co_kill_deadline d = Some k"
    "deadline \<le> ?t \<longrightarrow> co_termination d \<noteq> None"
    using m ok by (auto simp: collected_ok_def kept_frame split: if_splits dest!: stop_now_Inr)
  have "collected_ok L kept c' \<and> (\<forall>k. co_kill_deadline d = Some k \<longrightarrow> co_kill_deadline c' = Some k \<and> (k \<le> ?t \<longrightarrow> \<not> go))
      \<and> (co_termination d \<noteq> None \<longrightarrow> co_termination c' \<noteq> None)"
  proof (cases "case co_kill_deadline d of None \<Rightarrow> False | Some k \<Rightarrow> k \<le> ?t")
    case True
    with rest d(1) show ?thesis by simp
  next
    case False
    with rest obtain a w2 where "read_ready L p (ready a (co_open d)) d w2 = (Inr c', w')" by (auto simp: bind_Inr_iff)
    from read_ready_ok [OF d(1) this] False show ?thesis by auto
  qed
  with d show "collected_ok L kept c'"
    "co_kill_deadline c = Some k \<Longrightarrow> co_kill_deadline c' = Some k \<and> (k \<le> ?t \<longrightarrow> \<not> go)"
    "deadline \<le> ?t \<Longrightarrow> co_termination c' \<noteq> None" by auto
qed

text \<open>Once a child was told to stop, the loop ends when the grace period is over.\<close>

lemma stopped_loop_returns:
  assumes "collected_ok L kept c" "co_kill_deadline c = Some k" "rw_clock w = clk" "\<forall>m \<ge> n. k \<le> clk m"
  shows "\<exists>x. collect_loop L p deadline c w = Some x"
  using assms
proof (induction "n - rw_ticks w" arbitrary: c w rule: less_induct)
  case less
  obtain r w' where step: "collect_step L p deadline c w = (r, w')" by fastforce
  note ticks = collect_step_ticks [OF step, unfolded after_def]
  show ?case
  proof (cases "co_open c = []")
    case True
    then show ?thesis by (subst collect_loop.simps) simp
  next
    case False
    note unfold = collect_loop_unfold [OF False step]
    show ?thesis
    proof (cases "\<exists>c'. r = Inr (True, c')")
      case True
      then obtain c' where r: "r = Inr (True, c')" by blast
      note ok = collect_step_ok [OF less.prems(1) step [unfolded r]]
      have "\<not> k \<le> clk (rw_ticks w)" using ok(2) [OF less.prems(2)] less.prems(3) by simp
      then have "rw_ticks w < n" using less.prems(4) by (meson not_le)
      then have "n - rw_ticks w' < n - rw_ticks w" using ticks by linarith
      from less.hyps [OF this ok(1)] ok(2) [OF less.prems(2)] ticks less.prems(3,4) unfold r show ?thesis by simp
    next
      case no: False
      with unfold show ?thesis by (auto split: sum.splits)
    qed
  qed
qed

lemma collect_loop_returns:
  assumes "ticking (rw_clock w)" "collected_ok L kept c"
  shows "\<exists>x. collect_loop L p deadline c w = Some x"
proof -
  obtain n where "\<forall>m \<ge> n. deadline \<le> rw_clock w m" using assms(1) unfolding ticking_def by blast
  with assms show ?thesis
  proof (induction "n - rw_ticks w" arbitrary: c w rule: less_induct)
    case less
    obtain r w' where step: "collect_step L p deadline c w = (r, w')" by fastforce
    note ticks = collect_step_ticks [OF step, unfolded after_def]
    show ?case
    proof (cases "co_open c \<noteq> [] \<and> (\<exists>c'. r = Inr (True, c'))")
      case False
      then show ?thesis using step by (subst collect_loop.simps) (auto split: sum.splits)
    next
      case True
      then obtain c' where r: "r = Inr (True, c')" by blast
      have unfold: "collect_loop L p deadline c w = collect_loop L p deadline c' w'"
        using collect_loop_unfold [OF _ step] True r by simp
      note ok = collect_step_ok [OF less.prems(2) step [unfolded r]]
      show ?thesis
      proof (cases "co_kill_deadline c'")
        case None
        then have "co_termination c' = None" using ok(1) by (simp add: collected_ok_def)
        then have "\<not> deadline \<le> rw_clock w (rw_ticks w)" using ok(3) by blast
        then have "n - rw_ticks w' < n - rw_ticks w" using ticks less.prems(3) by (metis diff_less_mono2 linorder_not_le Suc_le_lessD)
        from less.hyps [OF this] ok(1) ticks less.prems(1,3) unfold show ?thesis by simp
      next
        case (Some k)
        from less.prems(1) obtain j where "\<forall>m \<ge> j. k \<le> rw_clock w m" unfolding ticking_def by blast
        with stopped_loop_returns [where clk = "rw_clock w" and n = j, OF ok(1) Some] ticks unfold show ?thesis by simp
      qed
    qed
  qed
qed

lemma collect_loop_ok:
  assumes "collect_loop L p deadline c w = Some (Inr c', w')" "collected_ok L kept c"
  shows "collected_ok L kept c'"
proof -
  let ?P = "\<lambda>M p deadline c w x. M = L \<longrightarrow> (\<forall>d. fst x = Inr d \<longrightarrow> collected_ok L kept c \<longrightarrow> collected_ok L kept d)"
  have "?P L p deadline c w x" if "collect_loop L p deadline c w = Some x" for x
  proof (rule collect_loop.raw_induct [where P = ?P, OF _ that], intro impI allI)
    fix f M p deadline c w x d
    assume IH: "\<And>M p deadline c w x. f M p deadline c w = Some x \<Longrightarrow> ?P M p deadline c w x"
      and eq: "(if co_open c = [] then Some (Inr c, w) else case collect_step M p deadline c w of (r, w') \<Rightarrow>
          (case r of Inl e \<Rightarrow> Some (Inl e, w') | Inr (go, c') \<Rightarrow> if go then f M p deadline c' w' else Some (Inr c', w'))) = Some x"
      and M: "M = L" and d: "fst x = Inr d" and ok: "collected_ok L kept c"
    obtain r w' where step: "collect_step L p deadline c w = (r, w')" by fastforce
    show "collected_ok L kept d"
    proof (cases r)
      case (Inl e)
      with eq d ok step M show ?thesis by (auto split: if_splits)
    next
      case (Inr gc)
      obtain go c' where gc: "gc = (go, c')" by (cases gc)
      note step_ok = collect_step_ok(1) [OF ok step [unfolded Inr gc]]
      with eq d ok step Inr gc IH M show ?thesis by (cases "co_open c = []"; cases go) auto
    qed
  qed
  from this [OF assms(1)] assms(2) show ?thesis by simp
qed

end

definition captured_ok :: "int \<Rightarrow> collected \<Rightarrow> bool" where
  \<comment> \<open>what was kept is what was seen, up to the cap\<close>
  "captured_ok cap c \<longleftrightarrow> captured c = min (co_total c) cap \<and> 0 \<le> co_total c"

interpretation evidence_output: output_collection "evidence_collector R" "captured_ok (rp_output_cap_bytes (rn_policy R))" for R
proof
  fix ch s c pipes why k
  show "co_termination (cl_keep (evidence_collector R) ch s c) = co_termination c"
    "co_kill_deadline (cl_keep (evidence_collector R) ch s c) = co_kill_deadline c"
    by (simp_all add: evidence_collector_def take_chunk_fields)
  show "captured_ok (rp_output_cap_bytes (rn_policy R)) c \<Longrightarrow>
      captured_ok (rp_output_cap_bytes (rn_policy R)) (cl_keep (evidence_collector R) ch s c)"
    using take_chunk_captured [OF _ _ refl, of c R ch s]
    by (auto simp: captured_ok_def evidence_collector_def take_chunk_fields(1))
qed (simp_all add: captured_ok_def captured_def)

lemma new_collected_ok:
  "0 \<le> rp_output_cap_bytes (rn_policy R) \<Longrightarrow>
     collected_ok (evidence_collector R) (captured_ok (rp_output_cap_bytes (rn_policy R))) new_collected"
  by (simp add: collected_ok_def captured_ok_def new_collected_def captured_def evidence_collector_def)

section \<open>Runs end\<close>

lemma keeps_run_catch: "keeps I m \<Longrightarrow> keeps I k \<Longrightarrow> keeps I (catch_exc cs m k)"
  unfolding catch_exc_def by (intro keeps_catch keeps_if keeps_pure)

lemma hash_loop_clock: "hash_loop reads deadline i remaining acc w = (r, w') \<Longrightarrow> after (rw_clock w) (rw_ticks w) w'"
proof (induction reads deadline i remaining acc w rule: hash_loop.induct)
  case (1 reads deadline i remaining acc w)
  show ?case
  proof (cases "remaining = 0 \<or> deadline \<le> rw_clock w (rw_ticks w)")
    case True
    with 1(2) show ?thesis by (subst (asm) hash_loop.simps) (auto simp: after_def Let_def split: if_splits)
  next
    case no: False
    show ?thesis
    proof (cases "reads i")
      case (Inl e)
      with 1(2) no show ?thesis by (subst (asm) hash_loop.simps) (auto simp: after_def Let_def)
    next
      case (Inr answer)
      let ?chunk = "take (min SMALL_READ_SIZE remaining) answer" and ?w = "w\<lparr>rw_ticks := Suc (rw_ticks w)\<rparr>"
      show ?thesis
      proof (cases "?chunk = []")
        case True
        with 1(2) no Inr show ?thesis by (subst (asm) hash_loop.simps) (auto simp: after_def Let_def)
      next
        case False
        then have "hash_loop reads deadline (Suc i) (remaining - length ?chunk) (acc @ ?chunk) ?w = (r, w')"
          using 1(2) no Inr by (subst (asm) hash_loop.simps) (simp add: Let_def del: take_eq_Nil)
        with 1(1) [OF _ refl refl _ Inr refl False] no have "after (rw_clock ?w) (rw_ticks ?w) w'" by simp
        then show ?thesis by (simp add: after_def)
      qed
    qed
  qed
qed

lemma keeps_hash_loop: "keeps (after clk n) (hash_loop reads deadline i remaining acc)"
  by (rule keepsI) (auto dest!: hash_loop_clock simp: after_def)

lemma keeps_hash_opened: "keeps (after clk n) (hash_opened E path v before max_bytes deadline)"
  unfolding hash_opened_def by (intro keeps_bind keeps_if keeps_option keeps_pure keeps_hash_loop)

lemma keeps_hash_at: "keeps (after clk n) (hash_at E max_bytes deadline path)"
proof (rule keepsI)
  fix w r w' assume w: "after clk n w" and run: "hash_at E max_bytes deadline path w = (r, w')"
  let ?w = "w\<lparr>rw_views := Suc (rw_views w)\<rparr>"
  have k: "keeps (after clk n) (catch_exc [OSError] (hash_opened E path v before max_bytes deadline) (ret (Unhashed path ''unreadable'')))"
    for v before by (intro keeps_run_catch keeps_hash_opened keeps_pure)
  have "after clk n ?w" using w by (simp add: after_def)
  with run keepsD [OF k] show "after clk n w'"
    unfolding hash_at_def Let_def by (auto split: sum.splits if_splits)
qed

lemma keeps_hash_executable: "keeps (after clk n) (hash_executable E path)"
  unfolding hash_executable_def by (intro keeps_bind keeps_readings keeps_hash_at)

lemma keeps_prepare: "keeps (after clk n) (prepare os E R argv cwd env stdin artifacts correlation_id)"
  unfolding prepare_def Let_def
  by (auto simp: split_def intro!: keeps_bind keeps_andthen keeps_pure keeps_hash_executable keeps_option)

lemma collect_bounded_returns:
  assumes "ticking (rw_clock w)" "0 \<le> rp_output_cap_bytes (rn_policy R)"
  shows "collect_bounded R p deadline w \<noteq> None"
proof -
  obtain x where "collect_loop (evidence_collector R) p deadline new_collected w = Some x"
    using evidence_output.collect_loop_returns [OF assms(1) new_collected_ok [OF assms(2)]] by blast
  then show ?thesis by (simp add: collect_bounded_def)
qed

lemma start_clock: "start input w = (r, w') \<Longrightarrow> rw_clock w' = rw_clock w"
  by (auto simp: start_def in_registry_def split: option.splits prod.splits if_splits)

lemma execute_returns:
  assumes "ticking (rw_clock w)" "0 \<le> rp_output_cap_bytes (rn_policy R)"
  shows "execute R started input w \<noteq> None"
proof (cases "start input w")
  case (Pair r w')
  show ?thesis
  proof (cases r)
    case (Inl e)
    with Pair show ?thesis by (simp add: execute_def)
  next
    case (Inr p)
    have "ticking (rw_clock w')" using start_clock [OF Pair] assms(1) by simp
    from collect_bounded_returns [OF this assms(2)] Pair Inr show ?thesis by (simp add: execute_def)
  qed
qed

lemma start_readings:
  "bind utc_now (\<lambda>started_at. bind monotonic (\<lambda>started. ret (started_at, started))) w
     = (Inr (rw_utc w (rw_utcs w), rw_clock w (rw_ticks w)), w\<lparr>rw_utcs := Suc (rw_utcs w), rw_ticks := Suc (rw_ticks w)\<rparr>)"
  by (simp add: bind_apply utc_now_def monotonic_def)

lemma run_command_returns:
  assumes "ticking (rw_clock w)" "0 \<le> rp_output_cap_bytes (rn_policy R)"
  shows "run_command os E R argv cwd env stdin artifacts correlation_id w \<noteq> None"
proof (cases "prepare os E R argv cwd env stdin artifacts correlation_id w")
  case (Pair r w1)
  have "rw_clock w1 = rw_clock w"
    using keepsD [OF keeps_prepare _ Pair, of "rw_clock w" 0] by (simp add: after_def)
  with assms(1) have "ticking (rw_clock (w1\<lparr>rw_utcs := Suc (rw_utcs w1), rw_ticks := Suc (rw_ticks w1)\<rparr>))" by simp
  from execute_returns [OF this assms(2)] Pair show ?thesis
    unfolding run_command_def by (cases r) (simp_all add: start_readings)
qed

section \<open>What a run establishes\<close>

definition finished_ok :: "runner \<Rightarrow> finished \<Rightarrow> bool" where
  "finished_ok R x \<longleftrightarrow> (let cap = rp_output_cap_bytes (rn_policy R) in
     int (length (fi_stdout x)) + int (length (fi_stderr x)) = min (fi_total x) cap
     \<and> (fi_termination x = None \<longrightarrow> fi_total x \<le> cap))"

lemma or_not_run_ok:
  assumes "or_not_run r = Inr x" "0 \<le> rp_output_cap_bytes (rn_policy R)" "\<And>y. r = Inr y \<Longrightarrow> finished_ok R y"
  shows "finished_ok R x"
  using assms by (auto simp: or_not_run_def not_run_def finished_ok_def split: sum.splits if_splits)

lemma collect_bounded_ok:
  assumes "collect_bounded R p deadline w = Some (Inr (c, code), w')" "0 \<le> rp_output_cap_bytes (rn_policy R)"
  shows "finished_ok R (process_ended c code)"
proof -
  from assms(1) obtain q w1 where q: "collect_loop (evidence_collector R) p deadline new_collected w = Some (q, w1)"
    and run: "(case q of Inl e \<Rightarrow> (Inl e, w1) | Inr c \<Rightarrow> bind (reap_collected p) (\<lambda>code. ret (c, code)) w1) = (Inr (c, code), w')"
    by (auto simp: collect_bounded_def)
  from run have "q = Inr c" by (cases q) (auto simp: bind_Inr_iff)
  from evidence_output.collect_loop_ok [OF q [unfolded this] new_collected_ok [OF assms(2)]] show ?thesis
    by (auto simp: finished_ok_def collected_ok_def captured_ok_def captured_def process_ended_def evidence_collector_def Let_def)
qed

lemma finally_do_Inr: "finally_do m k w = (Inr x, w') \<Longrightarrow> fst (m w) = Inr x"
  by (auto simp: finally_do_def split: prod.splits sum.splits)

lemma execute_ok:
  assumes "execute R started input w = Some (Inr x, w')" "0 \<le> rp_output_cap_bytes (rn_policy R)"
  shows "finished_ok R x"
proof (cases "start input w")
  case (Pair r w1)
  show ?thesis
  proof (cases r)
    case (Inl e)
    with assms(1) Pair have "or_not_run (Inl e) = Inr x" by (simp add: execute_def)
    from or_not_run_ok [OF this assms(2)] show ?thesis by simp
  next
    case (Inr p)
    from assms(1) Pair Inr obtain q w2 where q: "collect_bounded R p (started + rp_timeout_seconds (rn_policy R)) w1 = Some (q, w2)"
      and "or_not_run (case q of Inl e \<Rightarrow> Inl e | Inr (c, returncode) \<Rightarrow> Inr (process_ended c returncode)) = Inr x"
      by (auto simp: execute_def dest!: finally_do_Inr)
    show ?thesis
    proof (rule or_not_run_ok [OF \<open>or_not_run _ = Inr x\<close> assms(2)])
      fix y assume "(case q of Inl e \<Rightarrow> Inl e | Inr (c, returncode) \<Rightarrow> Inr (process_ended c returncode)) = Inr y"
      then obtain c code where "q = Inr (c, code)" "y = process_ended c code" by (auto split: sum.splits)
      with collect_bounded_ok [OF _ assms(2)] q show "finished_ok R y" by blast
    qed
  qed
qed

subsection \<open>Hashed files\<close>

definition hashed_within :: "runner \<Rightarrow> artifact_receipt \<Rightarrow> bool" where
  "hashed_within R a = (case a of Unhashed _ _ \<Rightarrow> True
     | Hashed p n _ \<Rightarrow> within_any p (rn_roots R) \<and> int n \<le> rp_artifact_file_cap_bytes (rn_policy R))"

definition hashed_bytes :: "artifact_receipt \<Rightarrow> int" where
  "hashed_bytes a = (case a of Unhashed _ _ \<Rightarrow> 0 | Hashed _ n _ \<Rightarrow> int n)"

lemma hash_at_Hashed:
  assumes "hash_at E max_bytes deadline path w = (Inr (Hashed p n h), w')"
  shows "p = path \<and> int n \<le> max_bytes"
proof -
  have "p = path \<and> int n \<le> max_bytes" if "hash_opened E path v before max_bytes deadline w = (Inr (Hashed p n h), w')" for v before w w'
    using that by (auto simp: hash_opened_def bind_Inr_iff split: if_splits option.splits)
  with assms show ?thesis
    by (auto simp: hash_at_def Let_def catch_exc_def catch_Inr_iff split: sum.splits if_splits)
qed

lemma hash_artifact_Hashed:
  assumes "hash_artifact os E roots max_bytes deadline path w = (Inr (Hashed p n h), w')"
  shows "within_any p roots \<and> int n \<le> max_bytes"
  using assms by (auto simp: hash_artifact_def Let_def split: sum.splits if_splits dest!: hash_at_Hashed)

lemma hash_artifacts_ok:
  assumes "hash_artifacts os E R deadline paths remaining w = (Inr rs, w')"
  shows "length rs = length paths \<and> (\<forall>a \<in> set rs. hashed_within R a) \<and> sum_list (map hashed_bytes rs) \<le> max 0 remaining"
  using assms
proof (induction paths arbitrary: remaining w rs)
  case Nil
  then show ?case by simp
next
  case (Cons path paths)
  let ?cap = "rp_artifact_file_cap_bytes (rn_policy R)"
  show ?case
  proof (cases "remaining \<le> 0")
    case True
    with Cons.prems obtain qs where "hash_artifacts os E R deadline paths remaining w = (Inr qs, w')"
      "rs = Unhashed path ''aggregate_size_limit'' # qs" by (auto simp: bind_Inr_iff)
    with Cons.IH [OF this(1)] show ?thesis by (simp add: hashed_within_def hashed_bytes_def)
  next
    case False
    with Cons.prems obtain b a w1 qs where
      b: "hash_artifact os E (rn_roots R) (min ?cap remaining) deadline path w = (Inr b, w1)"
      and a: "a = (case b of Unhashed p status \<Rightarrow> if status = ''size_limit'' \<and> min ?cap remaining < ?cap
                     then Unhashed p ''aggregate_size_limit'' else b | _ \<Rightarrow> b)"
      and qs: "hash_artifacts os E R deadline paths (remaining - hashed_bytes a) w1 = (Inr qs, w')" and rs: "rs = a # qs"
      by (auto simp: bind_Inr_iff Let_def hashed_bytes_def)
    have "hashed_within R a \<and> 0 \<le> hashed_bytes a \<and> hashed_bytes a \<le> remaining"
    proof (cases b)
      case (Hashed p n h)
      with hash_artifact_Hashed [OF b [unfolded Hashed]] a show ?thesis by (simp add: hashed_within_def hashed_bytes_def)
    qed (use a False in \<open>simp add: hashed_within_def hashed_bytes_def\<close>)
    with Cons.IH [OF qs] rs False show ?thesis by simp
  qed
qed

subsection \<open>The checks before a run\<close>

definition prepared_ok :: "runner \<Rightarrow> string list \<Rightarrow> prepared \<Rightarrow> bool" where
  \<comment> \<open>the command is allowlisted, the directory and the artifacts are inside the roots, no variable but
      the fixed and the allowed ones is set\<close>
  "prepared_ok R argv pp \<longleftrightarrow> pp_executable pp \<in> snd ` set (rn_executables R) \<and> pp_command pp = pp_executable pp # tl argv
     \<and> within_any (pp_workdir pp) (rn_roots R)
     \<and> fst ` set (pp_environment pp) \<subseteq> fst ` set (rn_fixed_env R) \<union> set (rn_allowed_env R)
     \<and> (\<forall>p \<in> set (pp_artifacts pp). within_any p (rn_roots R)) \<and> distinct (pp_artifacts pp)
     \<and> int (length (pp_input pp)) \<le> rp_stdin_cap_bytes (rn_policy R)"

lemma the_only_entry:
  assumes "(case filter (\<lambda>(_, path). path = x) d of [(alias, _)] \<Rightarrow> Inr (x, alias) | _ \<Rightarrow> raiseR c m) = Inr (y, a)"
  shows "y = x \<and> x \<in> snd ` set d"
proof -
  from assms obtain b rest where f: "filter (\<lambda>(_, path). path = x) d = (a, b) # rest" and "y = x"
    by (auto split: list.splits)
  then have "(a, b) \<in> set (filter (\<lambda>(_, path). path = x) d)" by simp
  with \<open>y = x\<close> show ?thesis by force
qed

lemma command_for_ok:
  assumes "command_for os R argv = Inr (command, executable, alias)"
  shows "executable \<in> snd ` set (rn_executables R) \<and> command = executable # tl argv"
proof (cases "map_of (rn_executables R) (hd argv)")
  case None
  with assms show ?thesis
    by (auto simp: command_for_def bindR_Inr_iff Let_def dest: the_only_entry)
next
  case (Some path)
  with assms show ?thesis
    by (auto simp: command_for_def bindR_Inr_iff dest!: map_of_SomeD intro: rev_image_eqI)
qed

lemma environment_for_ok:
  assumes "environment_for R supplied = Inr env"
  shows "fst ` set env \<subseteq> fst ` set (rn_fixed_env R) \<union> set (rn_allowed_env R)"
  using assms unfolding environment_for_def
proof (rule foldR_invariant)
  fix kv t t' assume "fst ` set t \<subseteq> fst ` set (rn_fixed_env R) \<union> set (rn_allowed_env R)"
    and "bindR (validate_env_name (fst kv)) (\<lambda>_.
      bindR (guardR (fst kv \<in> set (rn_allowed_env R)) PolicyViolation ''environment key is not allowlisted'') (\<lambda>_.
      set_variable ''environment'' kv t)) = Inr t'"
  moreover from this(2) have "t' = dict_set (fst kv) (snd kv) t" "fst kv \<in> set (rn_allowed_env R)"
    by (cases kv; simp add: bindR_Inr_iff set_variable_def)+
  ultimately show "fst ` set t' \<subseteq> fst ` set (rn_fixed_env R) \<union> set (rn_allowed_env R)"
    by (simp add: keys_dict_set)
qed simp

lemma artifact_paths_ok:
  assumes "artifact_paths os R cwd artifacts = Inr paths"
  shows "(\<forall>p \<in> set paths. within_any p (rn_roots R)) \<and> distinct paths"
  using assms unfolding artifact_paths_def
  by (rule foldR_invariant) (auto simp: bindR_Inr_iff Let_def)

lemma prepare_ok:
  assumes "prepare os E R argv cwd env stdin artifacts correlation_id w = (Inr pp, w')"
  shows "prepared_ok R argv pp"
proof -
  from assms obtain command executable al workdir environment expected where
    "command_for os R argv = Inr (command, executable, al)" "cwd_for os R cwd = Inr workdir"
    "environment_for R env = Inr environment" "artifact_paths os R workdir artifacts = Inr expected"
    "pp_command pp = command" "pp_executable pp = executable" "pp_workdir pp = workdir" "pp_environment pp = environment"
    "pp_artifacts pp = expected" "int (length (pp_input pp)) \<le> rp_stdin_cap_bytes (rn_policy R)"
    unfolding prepare_def by (auto simp: bind_Inr_iff andthen_Inr_iff Let_def split: option.splits)
  moreover from this(2) have "within_any workdir (rn_roots R)" by (auto simp: cwd_for_def bindR_Inr_iff)
  ultimately show ?thesis unfolding prepared_ok_def
    using command_for_ok environment_for_ok artifact_paths_ok by metis
qed

subsection \<open>The receipt\<close>

lemma report_Inr:
  assumes "report os E R pp correlation_id started_at started x w = (Inr r, w')"
  obtains arts f receipt_id issued_at ms argv_sha256 wall tok where
    "length arts = length (pp_artifacts pp)" "\<forall>a \<in> set arts. hashed_within R a"
    "sum_list (map hashed_bytes arts) \<le> max 0 (rp_artifact_total_cap_bytes (rn_policy R))"
    "fp_executable_stable f \<longleftrightarrow> fp_executable_sha256 f = Some (pp_initial_sha256 pp)"
    "sign E (rn_signer R) wall tok
       (evidence_payload E R pp correlation_id receipt_id issued_at started_at ms argv_sha256 x arts f)
       ''subprocess-evidence'' (rn_tenant_id R) (Some (rn_receipt_ttl_seconds R)) None None = Inr (rr_receipt r)"
    "rr_stdout r = fi_stdout x" "rr_stderr r = fi_stderr x"
proof -
  from assms obtain deadline w1 w2 w3 arts f receipt_id issued_at ms argv_sha256 wall tok where
    arts: "hash_artifacts os E R deadline (pp_artifacts pp) (rp_artifact_total_cap_bytes (rn_policy R)) w1 = (Inr arts, w2)"
    and f: "fingerprints_for os E (pp_executable pp) (pp_environment pp) (pp_initial_sha256 pp) w2 = (Inr f, w3)"
    and rest: "sign E (rn_signer R) wall tok
       (evidence_payload E R pp correlation_id receipt_id issued_at started_at ms argv_sha256 x arts f)
       ''subprocess-evidence'' (rn_tenant_id R) (Some (rn_receipt_ttl_seconds R)) None None = Inr (rr_receipt r)"
    "rr_stdout r = fi_stdout x" "rr_stderr r = fi_stderr x"
    unfolding report_def bind_Inr_iff sign_with_def by fastforce
  from f have "fp_executable_stable f \<longleftrightarrow> fp_executable_sha256 f = Some (pp_initial_sha256 pp)"
    by (auto simp: fingerprints_for_def bind_Inr_iff)
  from that [OF _ _ _ this rest] hash_artifacts_ok [OF arts] show thesis by blast
qed

lemma run_command_Inr:
  assumes "run_command os E R argv cwd env stdin artifacts correlation_id w = Some (Inr r, w')"
  obtains pp w1 x w2 started_at started where
    "prepare os E R argv cwd env stdin artifacts correlation_id w = (Inr pp, w1)"
    "execute R started (pp_input pp) (w1\<lparr>rw_utcs := Suc (rw_utcs w1), rw_ticks := Suc (rw_ticks w1)\<rparr>) = Some (Inr x, w2)"
    "report os E R pp correlation_id started_at started x w2 = (Inr r, w')"
proof -
  obtain q w1 where q: "prepare os E R argv cwd env stdin artifacts correlation_id w = (q, w1)" by fastforce
  from assms q obtain pp where pp: "q = Inr pp" by (cases q) (auto simp: run_command_def)
  from assms q pp obtain y w2 where
    y: "execute R (rw_clock w1 (rw_ticks w1)) (pp_input pp) (w1\<lparr>rw_utcs := Suc (rw_utcs w1), rw_ticks := Suc (rw_ticks w1)\<rparr>) = Some (y, w2)"
    and run: "(case y of Inl e \<Rightarrow> (Inl e, w2)
       | Inr x \<Rightarrow> report os E R pp correlation_id (rw_utc w1 (rw_utcs w1)) (rw_clock w1 (rw_ticks w1)) x w2) = (Inr r, w')"
    by (auto simp: run_command_def start_readings)
  from run obtain x where "y = Inr x" by (cases y) auto
  with that [OF q [unfolded pp]] y run show thesis by simp
qed

lemma passed_outcome:
  assumes "sign E sg wall tok (evidence_payload E R pp c i s st ms a x arts f) purpose tenant ttl None None = Inr (rr_receipt r)"
  shows "passed r \<longleftrightarrow> outcome_of x arts f = ''passed''"
  using assms
  by (elim sign_Inr) (simp add: passed_def unsigned_envelope_def evidence_payload_def Let_def)

lemma outcome_passed:
  "outcome_of x arts f = ''passed'' \<longleftrightarrow> fp_executable_stable f \<and> fi_spawn_error x = None \<and> fi_termination x = None
     \<and> fi_returncode x = 0 \<and> list_all is_hashed arts"
proof -
  have "fi_termination x = None \<longleftrightarrow> fi_termination x \<noteq> Some Timeout \<and> fi_termination x \<noteq> Some OutputLimit"
    by (cases "fi_termination x"; simp) (metis cutoff.exhaust)
  then show ?thesis unfolding outcome_of_def by (auto simp: list_all_iff list_ex_iff)
qed

lemma policy_cap: "check_policy rp = Inr () \<Longrightarrow> 0 \<le> rp_output_cap_bytes rp \<and> 0 \<le> rp_artifact_total_cap_bytes rp"
  by (auto simp: check_policy_def bindR_Inr_iff)

end
