(* ===== verification/BenchmarkWorker.thy ===== *)
theory BenchmarkWorker
  imports EvidenceLemmas PyObjects
begin

text \<open>
  The private side of the hidden benchmark: the loader of a suite and the process client in
  \<open>src/agent_tree_rl/hidden_benchmark.py\<close>, key files (\<open>load_hmac_key\<close> in \<open>evidence.py\<close>), and the worker
  program \<open>src/agent_tree_rl/workers/benchmark_worker.py\<close>, which runs a candidate on every case through an
  evidence runner and signs the aggregate.

  \<open>view 0\<close>, \<open>view 1\<close> and \<open>view 2\<close> are the files when the worker reads its suite and key, and before and after it
  runs the cases; \<open>xv\<close> is what it sees of the executables. The command-line arguments are the fields of
  \<open>worker_args\<close> after \<open>argparse\<close>; time limits are finite numbers.
\<close>

section \<open>Private suites\<close>

definition MAX_WORKER_RESPONSE_BYTES :: int where "MAX_WORKER_RESPONSE_BYTES = 64 * 1024"
definition MAX_CASES :: int where "MAX_CASES = 10000"
definition MAX_REQUEST_BYTES :: int where "MAX_REQUEST_BYTES = 128 * 1024"

record benchmark_case =
  bc_case_id :: string
  bc_input_value :: json
  bc_expected_value :: json
  bc_weight_micros :: int

record private_benchmark =
  pb_benchmark_id :: string
  pb_version :: json
  pb_suite_sha256 :: string
  pb_cases :: "benchmark_case list"

definition safe_identifier :: "json \<Rightarrow> bool" where
  \<comment> \<open>\<open>_SAFE_IDENTIFIER.fullmatch\<close>\<close>
  "safe_identifier v = (case v of JStr s \<Rightarrow> valid_alias s | _ \<Rightarrow> False)"

definition load_case :: "json \<Rightarrow> benchmark_case list \<Rightarrow> benchmark_case list result" where
  \<comment> \<open>the body of the loop over \<open>raw_cases\<close>\<close>
  "load_case raw_case cases =
     bindR (with_keys raw_case [''id'', ''input'', ''expected'', ''weight_micros''] BenchmarkSchemaError
              ''each case must contain exactly id, input, expected, and weight_micros'') (\<lambda>kvs.
     bindR (guardR (safe_identifier (entry kvs ''id'')) BenchmarkSchemaError ''invalid case id'') (\<lambda>_.
     let case_id = (case entry kvs ''id'' of JStr s \<Rightarrow> s | _ \<Rightarrow> []) in
     bindR (guardR (case_id \<notin> bc_case_id ` set cases) BenchmarkSchemaError ''duplicate case id'') (\<lambda>_.
     bindR (case entry kvs ''weight_micros'' of
              JInt n \<Rightarrow> bindR (guardR (1 \<le> n \<and> n \<le> 10 ^ 12) BenchmarkSchemaError
                               ''weight_micros must be an integer in [1, 10^12]'') (\<lambda>_. Inr n)
            | _ \<Rightarrow> raiseR BenchmarkSchemaError ''weight_micros must be an integer in [1, 10^12]'') (\<lambda>weight.
     Inr (cases @ [\<lparr>bc_case_id = case_id, bc_input_value = entry kvs ''input'', bc_expected_value = entry kvs ''expected'',
                    bc_weight_micros = weight\<rparr>])))))"

definition load_private_benchmark ::
  "osenv \<Rightarrow> (string \<Rightarrow> file_view) \<Rightarrow> pyenv \<Rightarrow> (string \<Rightarrow> json option) \<Rightarrow> string \<Rightarrow> private_benchmark result" where
  \<comment> \<open>\<open>load_private_benchmark_for_worker\<close>\<close>
  "load_private_benchmark os view E parse path =
     bindR (secure_read os view path MAX_BENCHMARK_BYTES True) (\<lambda>(_, raw).
     bindR (strict_json_loads parse raw) (\<lambda>top_level.
     bindR (with_keys top_level [''schema_version'', ''benchmark_id'', ''cases''] BenchmarkSchemaError
              ''suite must contain exactly schema_version, benchmark_id, and cases'') (\<lambda>kvs.
     bindR (guardR (py_eq_int (entry kvs ''schema_version'') 1) BenchmarkSchemaError ''unsupported benchmark schema_version'') (\<lambda>_.
     bindR (guardR (safe_identifier (entry kvs ''benchmark_id'')) BenchmarkSchemaError ''invalid benchmark_id'') (\<lambda>_.
     bindR (case entry kvs ''cases'' of
              JList vs \<Rightarrow> bindR (guardR (vs \<noteq> [] \<and> int (length vs) \<le> MAX_CASES) BenchmarkSchemaError
                                 ''cases must contain 1..10000 entries'') (\<lambda>_. Inr vs)
            | _ \<Rightarrow> raiseR BenchmarkSchemaError ''cases must contain 1..10000 entries'') (\<lambda>raw_cases.
     bindR (foldR load_case raw_cases []) (\<lambda>cases.
     Inr \<lparr>pb_benchmark_id = (case entry kvs ''benchmark_id'' of JStr s \<Rightarrow> s | _ \<Rightarrow> []), pb_version = entry kvs ''schema_version'',
          pb_suite_sha256 = sha256 E raw, pb_cases = cases\<rparr>)))))))"

section \<open>Keys\<close>

definition read_private_regular_file ::
  "osenv \<Rightarrow> (string \<Rightarrow> file_view) \<Rightarrow> string \<Rightarrow> int \<Rightarrow> bool \<Rightarrow> string result" where
  \<comment> \<open>\<open>_read_private_regular_file\<close> on a POSIX system\<close>
  "read_private_regular_file os view raw max_bytes require_private =
     (let v = view (absolute_path os raw) in
      bindR (or_policy (fv_lstat v) ''cannot stat private file'') (\<lambda>before.
      bindR (guardR (fs_kind before = RegularFile) PolicyViolation ''private file must be a regular non-symlink'') (\<lambda>_.
      bindR (if require_private then
               bindR (guardR (\<not> group_or_world (fs_mode before)) PolicyViolation ''private file must deny group/world access'') (\<lambda>_.
               bindR (guardR (owner_readable (fs_mode before)) PolicyViolation ''private file is not owner-readable'') (\<lambda>_.
               guardR (fs_uid before = os_euid os) PolicyViolation ''private file is not owned by the worker uid''))
             else Inr ()) (\<lambda>_.
      bindR (or_policy (fv_open v) ''cannot securely open private file'') (\<lambda>(opened, content).
      bindR (guardR (same_file before opened) PolicyViolation ''private file changed while opening'') (\<lambda>_.
      bindR (guardR (fs_size opened \<le> max_bytes) PolicyViolation ''private file exceeds byte limit'') (\<lambda>_.
      let data = read_bounded (nat (max_bytes + 1)) [] content in
      bindR (guardR (int (length data) \<le> max_bytes) PolicyViolation ''private file exceeds byte limit'') (\<lambda>_.
      Inr data))))))))"

definition load_hmac_key :: "osenv \<Rightarrow> (string \<Rightarrow> file_view) \<Rightarrow> string \<Rightarrow> string result" where
  "load_hmac_key os view path =
     bindR (read_private_regular_file os view path 4096 True) (\<lambda>key.
     bindR (guardR (32 \<le> length key) PolicyViolation ''HMAC key must contain at least 32 bytes'') (\<lambda>_. Inr key))"

section \<open>The client of the worker process\<close>

definition keep_stdout :: "channel \<Rightarrow> string \<Rightarrow> collected \<Rightarrow> collected" where
  \<comment> \<open>both pipes count, only standard output is kept\<close>
  "keep_stdout ch chunk c =
     (let c = c\<lparr>co_total := co_total c + int (length chunk)\<rparr>; room = MAX_WORKER_RESPONSE_BYTES - int (length (co_stdout c)) in
      if ch = Stdout \<and> 0 < room then c\<lparr>co_stdout := co_stdout c @ take (nat room) chunk\<rparr> else c)"

definition worker_collector :: collector where
  "worker_collector = \<lparr>cl_cap = MAX_WORKER_RESPONSE_BYTES, cl_retry = False, cl_keep = keep_stdout\<rparr>"

definition run_worker_bounded ::
  "rat \<Rightarrow> run_world \<Rightarrow> ((string \<times> int \<times> string option) result \<times> run_world) option" where
  \<comment> \<open>\<open>_run_worker_bounded\<close>\<close>
  "run_worker_bounded timeout_seconds w = (case rw_stdin_error w of
      Some e \<Rightarrow> Some (Inl e, w)
    | None \<Rightarrow>
        (case in_registry (spawn False) w of
           (Inl e, w') \<Rightarrow> Some (Inl e, w')
         | (Inr p, w') \<Rightarrow>
             map_option (\<lambda>(r, w'). finally_do (\<lambda>w. case r of
                   Inl e \<Rightarrow> (Inl e, w)
                 | Inr c \<Rightarrow> andthen (terminate p) (bind (in_registry (kill_and_reap p)) (\<lambda>returncode.
                     ret (co_stdout c, returncode, termination_text (co_termination c)))) w)
                 (andthen (in_registry (kill_and_reap p)) (ret ())) w')
               (case monotonic w' of (_, w'') \<Rightarrow>
                  collect_loop worker_collector p (rw_clock w' (rw_ticks w') + timeout_seconds) new_collected w'')))"

section \<open>The worker\<close>

record worker_args =
  wa_benchmark :: string
  wa_signing_key :: string
  wa_key_id :: string
  wa_tenant_id :: string
  wa_candidate_executable :: "string list"
  wa_candidate_cwd_root :: "string list"
  wa_case_timeout :: rat
  wa_output_cap :: int

record worker_request =
  wq_nonce :: string
  wq_argv :: "string list"
  wq_cwd :: string

definition resolve_candidate :: "runenv \<Rightarrow> (string \<Rightarrow> exec_view) \<Rightarrow> string \<Rightarrow> string result" where
  \<comment> \<open>\<open>_resolve_executable\<close> of the worker\<close>
  "resolve_candidate os xv raw =
     (let path = os_expanduser os raw in
      bindR (guardR (is_absolute path) BenchmarkSecurityError ''candidate executable allowlist must be absolute'') (\<lambda>_.
      bindR (or_security (bindR (xv_before (xv path)) (\<lambda>before.
                          bindR (os_resolve os path) (\<lambda>resolved.
                          bindR (xv_info (xv path)) (\<lambda>target.
                          bindR (xv_current (xv path)) (\<lambda>current. Inr (before, resolved, target, current))))))
               ''candidate executable allowlist entry cannot be inspected'') (\<lambda>(before, resolved, target, current).
      bindR (guardR (fs_kind before \<noteq> SymbolicLink \<and> fs_kind current \<noteq> SymbolicLink) BenchmarkSecurityError
               ''candidate executable allowlist rejects symlinks'') (\<lambda>_.
      bindR (guardR (fs_kind before = RegularFile \<and> fs_kind target = RegularFile) BenchmarkSecurityError
               ''candidate executable allowlist entry must be a regular file'') (\<lambda>_.
      bindR (guardR (same_file before current \<and> same_file before target) BenchmarkSecurityError
               ''candidate executable allowlist entry changed while resolving'') (\<lambda>_.
      bindR (guardR (re_may_execute os resolved) BenchmarkSecurityError
               ''candidate executable allowlist entry is not executable'') (\<lambda>_.
      Inr resolved)))))))"

definition text_items :: "json list \<Rightarrow> string list" where
  "text_items vs = map (\<lambda>v. case v of JStr s \<Rightarrow> s | _ \<Rightarrow> []) vs"

definition read_request :: "(string \<Rightarrow> json option) \<Rightarrow> string \<Rightarrow> worker_request result" where
  \<comment> \<open>\<open>_request\<close> on the bytes of standard input\<close>
  "read_request parse input =
     (let raw = take (nat (MAX_REQUEST_BYTES + 1)) input in
      bindR (guardR (int (length raw) \<le> MAX_REQUEST_BYTES) BenchmarkSecurityError ''worker request exceeds byte cap'') (\<lambda>_.
      bindR (strict_json_loads parse raw) (\<lambda>v.
      bindR (with_keys v [''protocol_version'', ''request_nonce'', ''candidate_argv'', ''candidate_cwd''] BenchmarkSecurityError
               ''worker request shape is invalid'') (\<lambda>kvs.
      bindR (guardR (py_eq_int (entry kvs ''protocol_version'') 1) BenchmarkSecurityError ''worker protocol version is unsupported'') (\<lambda>_.
      bindR (case entry kvs ''request_nonce'' of
               JStr nonce \<Rightarrow> bindR (guardR (nonce \<noteq> [] \<and> py_len nonce \<le> 256) BenchmarkSecurityError ''worker request nonce is invalid'')
                               (\<lambda>_. Inr nonce)
             | _ \<Rightarrow> raiseR BenchmarkSecurityError ''worker request nonce is invalid'') (\<lambda>nonce.
      bindR (case entry kvs ''candidate_argv'' of
               JList vs \<Rightarrow> bindR (guardR (vs \<noteq> []) BenchmarkSecurityError ''worker candidate argv is invalid'') (\<lambda>_.
                           bindR (guardR (list_all nul_free (text_items vs)) BenchmarkSecurityError
                                    ''worker candidate argv contains an invalid item'') (\<lambda>_. Inr (text_items vs)))
             | _ \<Rightarrow> raiseR BenchmarkSecurityError ''worker candidate argv is invalid'') (\<lambda>argv.
      bindR (case entry kvs ''candidate_cwd'' of
               JStr cwd \<Rightarrow> bindR (guardR (nul_free cwd) BenchmarkSecurityError ''worker candidate cwd is invalid'') (\<lambda>_. Inr cwd)
             | _ \<Rightarrow> raiseR BenchmarkSecurityError ''worker candidate cwd is invalid'') (\<lambda>cwd.
      Inr \<lparr>wq_nonce = nonce, wq_argv = argv, wq_cwd = cwd\<rparr>))))))))"

definition worker_policy :: "worker_args \<Rightarrow> string \<Rightarrow> string list \<Rightarrow> runner_policy" where
  "worker_policy a executable roots =
     \<lparr>rp_allowed_executables = [(''candidate'', executable)], rp_allowed_cwd_roots = roots, rp_timeout_seconds = wa_case_timeout a,
      rp_output_cap_bytes = wa_output_cap a, rp_stdin_cap_bytes = 16 * 1024 * 1024, rp_artifact_file_cap_bytes = 64 * 1024 * 1024,
      rp_artifact_total_cap_bytes = 256 * 1024 * 1024, rp_artifact_hash_timeout_seconds = 10, rp_allowed_environment = [],
      rp_fixed_environment = SAFE_DEFAULT_ENV\<rparr>"

record worker_job =
  wj_suite :: private_benchmark
  wj_signer :: receipt_signer
  wj_request :: worker_request
  wj_argv :: "string list"
  wj_cwd :: string
  wj_fingerprint :: string
  wj_runner :: runner

definition open_suite ::
  "runenv \<Rightarrow> (string \<Rightarrow> file_view) \<Rightarrow> pyenv \<Rightarrow> (string \<Rightarrow> json option) \<Rightarrow> worker_args \<Rightarrow> (private_benchmark \<times> receipt_signer) result" where
  \<comment> \<open>the start of \<open>_evaluate\<close>\<close>
  "open_suite os view E parse a =
     bindR (guardR (0 < wa_case_timeout a \<and> wa_case_timeout a \<le> 3600) BenchmarkSecurityError ''case timeout is outside safe bounds'') (\<lambda>_.
     bindR (guardR (1024 \<le> wa_output_cap a \<and> wa_output_cap a \<le> 16 * 1024 * 1024) BenchmarkSecurityError
              ''candidate output cap is outside safe bounds'') (\<lambda>_.
     bindR (load_private_benchmark (osenv.truncate os) view E parse (wa_benchmark a)) (\<lambda>s.
     bindR (load_hmac_key (osenv.truncate os) view (wa_signing_key a)) (\<lambda>key.
     bindR (new_signer [(wa_key_id a, key)] (wa_key_id a)) (\<lambda>sg. Inr (s, sg))))))"

definition open_candidate ::
  "runenv \<Rightarrow> (string \<Rightarrow> exec_view) \<Rightarrow> (string \<Rightarrow> json option) \<Rightarrow> worker_args \<Rightarrow> string
     \<Rightarrow> (worker_request \<times> string \<times> string \<times> string list) result" where
  \<comment> \<open>the request, the executable, the directory and the roots\<close>
  "open_candidate os xv parse a input =
     bindR (mapR (resolve_candidate os xv) (wa_candidate_executable a)) (\<lambda>allowlisted.
     bindR (guardR (distinct allowlisted) BenchmarkSecurityError ''duplicate candidate executable allowlist entry'') (\<lambda>_.
     bindR (mapR (\<lambda>p. os_resolve os (os_expanduser os p)) (wa_candidate_cwd_root a)) (\<lambda>roots.
     bindR (guardR (list_all (os_is_dir os) roots) BenchmarkSecurityError ''candidate cwd allowlist entry is not a directory'') (\<lambda>_.
     bindR (read_request parse input) (\<lambda>q.
     bindR (os_resolve os (os_expanduser os (wq_cwd q))) (\<lambda>cwd.
     bindR (guardR (is_absolute (os_expanduser os (hd (wq_argv q)))) BenchmarkSecurityError ''candidate executable must be absolute'') (\<lambda>_.
     bindR (os_resolve os (os_expanduser os (hd (wq_argv q)))) (\<lambda>executable.
     bindR (guardR (executable \<in> set allowlisted) BenchmarkSecurityError ''candidate executable is not exactly allowlisted'') (\<lambda>_.
     bindR (guardR (os_is_dir os cwd \<and> list_ex (is_within cwd) roots) BenchmarkSecurityError
              ''candidate cwd is outside allowlisted roots'') (\<lambda>_.
     Inr (q, executable, cwd, roots)))))))))))"

definition receipt_ttl :: "rat \<Rightarrow> int" where
  "receipt_ttl case_timeout = max 60 (min 3600 (round_half_even (case_timeout * 2)))"

definition open_job ::
  "runenv \<Rightarrow> (nat \<Rightarrow> string \<Rightarrow> file_view) \<Rightarrow> (string \<Rightarrow> exec_view) \<Rightarrow> pyenv \<Rightarrow> (string \<Rightarrow> json option) \<Rightarrow> worker_args \<Rightarrow> string
     \<Rightarrow> worker_job result" where
  \<comment> \<open>\<open>_evaluate\<close> up to the loop over the cases\<close>
  "open_job os view xv E parse a input =
     bindR (open_suite os (view 0) E parse a) (\<lambda>(s, sg).
     bindR (open_candidate os xv parse a input) (\<lambda>(q, executable, cwd, roots).
     let argv = executable # tl (wq_argv q) in
     bindR (candidate_fingerprint (osenv.truncate os) (view 1) E argv (Some cwd)) (\<lambda>fingerprint.
     let policy = worker_policy a executable roots in
     bindR (check_policy policy) (\<lambda>_.
     bindR (new_runner os xv policy sg (wa_tenant_id a) (receipt_ttl (wa_case_timeout a))) (\<lambda>R.
     Inr \<lparr>wj_suite = s, wj_signer = sg, wj_request = q, wj_argv = argv, wj_cwd = cwd, wj_fingerprint = fingerprint, wj_runner = R\<rparr>)))))"

definition answer_matches :: "pyenv \<Rightarrow> (string \<Rightarrow> json option) \<Rightarrow> json \<Rightarrow> run_result \<Rightarrow> bool result" where
  \<comment> \<open>whether the candidate's output is the expected value\<close>
  "answer_matches E parse expected r =
     (if \<not> passed r then Inr False
      else case strict_json_loads parse (rr_stdout r) of
        Inr (JObj kvs) \<Rightarrow>
          if fst ` set kvs = {''output''}
          then bindR (canonical_json_bytes E (entry kvs ''output'')) (\<lambda>out.
               bindR (canonical_json_bytes E expected) (\<lambda>want. Inr (out = want)))
          else Inr False
      | _ \<Rightarrow> Inr False)"

fun run_cases ::
  "runenv \<Rightarrow> pyenv \<Rightarrow> (string \<Rightarrow> json option) \<Rightarrow> worker_job \<Rightarrow> benchmark_case list \<Rightarrow> int \<Rightarrow> int \<Rightarrow> run_world
     \<Rightarrow> ((int \<times> int) result \<times> run_world) option" where
  \<comment> \<open>the loop over the cases, with \<open>passed\<close> and \<open>weighted_score\<close>\<close>
  "run_cases os E parse j [] n points w = Some (Inr (n, points), w)"
| "run_cases os E parse j (c # cs) n points w =
     (case bind (lift (canonical_json_bytes E (JObj [(''input'', bc_input_value c)]))) (\<lambda>input.
           bind fresh_uuid (\<lambda>correlation_id. ret (input, correlation_id))) w of
        (Inl e, w) \<Rightarrow> Some (Inl e, w)
      | (Inr (input, correlation_id), w) \<Rightarrow>
          (case run_command os E (wj_runner j) (''candidate'' # tl (wj_argv j)) (wj_cwd j) [] (Some input) [] (Some correlation_id) w of
             None \<Rightarrow> None
           | Some (Inl e, w) \<Rightarrow> Some (Inl e, w)
           | Some (Inr r, w) \<Rightarrow>
               (case answer_matches E parse (bc_expected_value c) r of
                  Inl e \<Rightarrow> Some (Inl e, w)
                | Inr ok \<Rightarrow> if ok then run_cases os E parse j cs (n + 1) (points + bc_weight_micros c) w
                           else run_cases os E parse j cs n points w)))"

definition maximum_score :: "private_benchmark \<Rightarrow> int" where
  "maximum_score s = sum_list (map bc_weight_micros (pb_cases s))"

definition aggregate_benchmark :: "private_benchmark \<Rightarrow> json dict" where
  "aggregate_benchmark s = [(''id'', JStr (pb_benchmark_id s)), (''version'', pb_version s),
     (''suite_sha256'', JStr (pb_suite_sha256 s)), (''case_count'', JInt (int (length (pb_cases s))))]"

definition aggregate_result :: "private_benchmark \<Rightarrow> int \<Rightarrow> int \<Rightarrow> json dict" where
  "aggregate_result s n points = [(''passed'', JInt n), (''failed'', JInt (int (length (pb_cases s)) - n)),
     (''total'', JInt (int (length (pb_cases s)))), (''weighted_score_micros'', JInt points),
     (''max_score_micros'', JInt (maximum_score s)), (''normalized_score_ppm'', JInt (points * 1000000 div maximum_score s))]"

definition aggregate_payload :: "worker_job \<Rightarrow> string \<Rightarrow> string \<Rightarrow> int \<Rightarrow> int \<Rightarrow> json" where
  "aggregate_payload j receipt_id issued_at n points =
     JObj [(''receipt_type'', JStr ''hidden_benchmark.aggregate.v1''), (''receipt_id'', JStr receipt_id),
           (''request_nonce'', JStr (wq_nonce (wj_request j))), (''issued_at'', JStr issued_at),
           (''benchmark'', JObj (aggregate_benchmark (wj_suite j))),
           (''candidate'', JObj [(''fingerprint_sha256'', JStr (wj_fingerprint j))]),
           (''result'', JObj (aggregate_result (wj_suite j) n points))]"

definition sign_aggregate ::
  "runenv \<Rightarrow> (string \<Rightarrow> file_view) \<Rightarrow> pyenv \<Rightarrow> worker_args \<Rightarrow> worker_job \<Rightarrow> int \<Rightarrow> int \<Rightarrow> json run_action" where
  \<comment> \<open>\<open>_evaluate\<close> after the loop\<close>
  "sign_aggregate os view E a j n points =
     bind (lift (candidate_fingerprint (osenv.truncate os) view E (wj_argv j) (Some (wj_cwd j)))) (\<lambda>now_fingerprint.
     andthen (require (now_fingerprint = wj_fingerprint j) BenchmarkSecurityError ''candidate changed during benchmark execution'')
     (bind fresh_uuid (\<lambda>receipt_id.
      bind utc_now (\<lambda>issued_at.
      andthen (require (maximum_score (wj_suite j) \<noteq> 0) ZeroDivisionError ''integer division or modulo by zero'')
      (sign_with E (wj_signer j) (aggregate_payload j receipt_id issued_at n points) ''hidden-benchmark-aggregate''
         (wa_tenant_id a) 300 (Some (wq_nonce (wj_request j))))))))"

definition evaluate_worker ::
  "runenv \<Rightarrow> (nat \<Rightarrow> string \<Rightarrow> file_view) \<Rightarrow> (string \<Rightarrow> exec_view) \<Rightarrow> pyenv \<Rightarrow> (string \<Rightarrow> json option) \<Rightarrow> worker_args \<Rightarrow> string
     \<Rightarrow> run_world \<Rightarrow> (json result \<times> run_world) option" where
  \<comment> \<open>\<open>_evaluate\<close>\<close>
  "evaluate_worker os view xv E parse a input w = (case open_job os view xv E parse a input of
      Inl e \<Rightarrow> Some (Inl e, w)
    | Inr j \<Rightarrow>
        map_option (\<lambda>(r, w). case r of
            Inl e \<Rightarrow> (Inl e, w)
          | Inr (n, points) \<Rightarrow> sign_aggregate os (view 2) E a j n points w)
          (run_cases os E parse j (pb_cases (wj_suite j)) 0 0 w))"

definition worker_main ::
  "runenv \<Rightarrow> (nat \<Rightarrow> string \<Rightarrow> file_view) \<Rightarrow> (string \<Rightarrow> exec_view) \<Rightarrow> pyenv \<Rightarrow> (string \<Rightarrow> json option) \<Rightarrow> worker_args \<Rightarrow> bool \<Rightarrow> string
     \<Rightarrow> run_world \<Rightarrow> (string \<times> int) option" where
  \<comment> \<open>\<open>main\<close>: standard output and exit code; \<open>cancelled\<close> tells whether a signal arrived\<close>
  "worker_main os view xv E parse a cancelled input w =
     map_option (\<lambda>(r, _). case r of
         Inl e \<Rightarrow> ([], 2)
       | Inr receipt \<Rightarrow>
           if cancelled then ([], 2)
           else case canonical_json_bytes E receipt of Inl e \<Rightarrow> ([], 2) | Inr text \<Rightarrow> (text @ [CHR 0x0A], 0))
       (evaluate_worker os view xv E parse a input w)"

section \<open>The collection of the worker's response\<close>

interpretation worker_output: output_collection worker_collector "\<lambda>c. int (length (co_stdout c)) \<le> MAX_WORKER_RESPONSE_BYTES"
  by unfold_locales (auto simp: worker_collector_def keep_stdout_def Let_def)

lemma new_response_ok:
  "collected_ok worker_collector (\<lambda>c. int (length (co_stdout c)) \<le> MAX_WORKER_RESPONSE_BYTES) new_collected"
  by (simp add: collected_ok_def new_collected_def worker_collector_def MAX_WORKER_RESPONSE_BYTES_def)

text \<open>The client returns if time passes, and keeps a bounded response.\<close>

lemma run_worker_bounded_returns:
  assumes "ticking (rw_clock w)"
  shows "run_worker_bounded timeout_seconds w \<noteq> None"
proof (cases "rw_stdin_error w")
  case None
  obtain r w' where s: "in_registry (spawn False) w = (r, w')" by fastforce
  then have clk: "rw_clock w' = rw_clock w" by (auto simp: in_registry_def split: prod.splits)
  show ?thesis
  proof (cases r)
    case (Inl e)
    with None s show ?thesis by (simp add: run_worker_bounded_def)
  next
    case (Inr p)
    let ?w = "w'\<lparr>rw_ticks := Suc (rw_ticks w')\<rparr>"
    have "ticking (rw_clock ?w)" using assms clk by simp
    from worker_output.collect_loop_returns [OF this new_response_ok] obtain x where
      "collect_loop worker_collector p (rw_clock w' (rw_ticks w') + timeout_seconds) new_collected ?w = Some x" by blast
    with None s Inr show ?thesis by (simp add: run_worker_bounded_def monotonic_def)
  qed
qed (simp add: run_worker_bounded_def)

lemma run_worker_bounded_capped:
  assumes "run_worker_bounded timeout_seconds w = Some (Inr (out, returncode, why), w')"
  shows "int (length out) \<le> MAX_WORKER_RESPONSE_BYTES"
proof -
  from assms obtain p w1 d w2 q w3 where
    loop: "collect_loop worker_collector p d new_collected w2 = Some (q, w3)"
    and run: "finally_do (\<lambda>w. case q of Inl e \<Rightarrow> (Inl e, w)
       | Inr c \<Rightarrow> andthen (terminate p) (bind (in_registry (kill_and_reap p)) (\<lambda>returncode.
           ret (co_stdout c, returncode, termination_text (co_termination c)))) w)
       (andthen (in_registry (kill_and_reap p)) (ret ())) w3 = (Inr (out, returncode, why), w')"
    by (auto simp: run_worker_bounded_def monotonic_def split: option.splits prod.splits sum.splits)
  from finally_do_Inr [OF run] obtain c where c: "q = Inr c" "out = co_stdout c"
    by (cases q) (auto simp: andthen_apply bind_apply split: prod.splits sum.splits)
  from worker_output.collect_loop_ok [OF loop [unfolded c] new_response_ok] c show ?thesis by (simp add: collected_ok_def)
qed

section \<open>Scores\<close>

lemma run_cases_Cons:
  assumes "run_cases os E parse j (c # cs) n s w = Some (Inr (m, t), w')"
  obtains (matched) w1 where "run_cases os E parse j cs (n + 1) (s + bc_weight_micros c) w1 = Some (Inr (m, t), w')"
  | (missed) w1 where "run_cases os E parse j cs n s w1 = Some (Inr (m, t), w')"
  using assms by (auto split: prod.splits sum.splits option.splits if_splits)

lemma run_cases_bounds:
  assumes "run_cases os E parse j cs n s w = Some (Inr (m, t), w')" "\<forall>c \<in> set cs. 0 \<le> bc_weight_micros c"
  shows "n \<le> m \<and> m \<le> n + int (length cs) \<and> s \<le> t \<and> t \<le> s + sum_list (map bc_weight_micros cs)"
  using assms
proof (induction cs arbitrary: n s w)
  case (Cons c cs)
  from Cons.prems(2) have w: "0 \<le> bc_weight_micros c" "\<forall>c \<in> set cs. 0 \<le> bc_weight_micros c" by simp_all
  from Cons.prems(1) show ?case
  proof (cases rule: run_cases_Cons)
    case (matched w1)
    from Cons.IH [OF this w(2)] w(1) show ?thesis by simp
  next
    case (missed w1)
    from Cons.IH [OF this w(2)] w(1) show ?thesis by simp
  qed
qed simp

lemma load_case_weights:
  assumes "load_case v cs = Inr ds" "\<forall>c \<in> set cs. 1 \<le> bc_weight_micros c"
  shows "(\<forall>c \<in> set ds. 1 \<le> bc_weight_micros c) \<and> length ds = Suc (length cs)"
proof -
  from assms(1) obtain kvs case_id weight where
    w: "(case entry kvs ''weight_micros'' of
           JInt n \<Rightarrow> bindR (guardR (1 \<le> n \<and> n \<le> 10 ^ 12) BenchmarkSchemaError
                            ''weight_micros must be an integer in [1, 10^12]'') (\<lambda>_. Inr n)
         | _ \<Rightarrow> raiseR BenchmarkSchemaError ''weight_micros must be an integer in [1, 10^12]'') = Inr weight"
    and ds: "ds = cs @ [\<lparr>bc_case_id = case_id, bc_input_value = entry kvs ''input'', bc_expected_value = entry kvs ''expected'',
                    bc_weight_micros = weight\<rparr>]"
    unfolding load_case_def Let_def bindR_Inr_iff by blast
  from w have "1 \<le> weight" by (cases "entry kvs ''weight_micros''") (simp_all add: bindR_Inr_iff)
  with ds assms(2) show ?thesis by simp
qed

lemma load_cases_weights:
  assumes "foldR load_case vs cs = Inr ds" "\<forall>c \<in> set cs. 1 \<le> bc_weight_micros c"
  shows "(\<forall>c \<in> set ds. 1 \<le> bc_weight_micros c) \<and> length ds = length vs + length cs"
  using assms
proof (induction vs arbitrary: cs)
  case (Cons v vs)
  then obtain es where e: "load_case v cs = Inr es" "foldR load_case vs es = Inr ds" by (auto simp: bindR_Inr_iff)
  note es = load_case_weights [OF e(1) Cons.prems(2)]
  from Cons.IH [OF e(2) conjunct1 [OF es]] es show ?case by simp
qed simp

lemma load_private_benchmark_ok:
  assumes "load_private_benchmark os view E parse path = Inr s"
  shows "opaque_suite_digest os view E path = Inr (pb_suite_sha256 s)" "py_eq_int (pb_version s) 1"
    "\<forall>c \<in> set (pb_cases s). 1 \<le> bc_weight_micros c" "pb_cases s \<noteq> []"
proof -
  from assms obtain resolved raw kvs vs cs where
    r: "secure_read os view path MAX_BENCHMARK_BYTES True = Inr (resolved, raw)"
    and v: "py_eq_int (entry kvs ''schema_version'') 1"
    and vs: "(case entry kvs ''cases'' of
              JList vs \<Rightarrow> bindR (guardR (vs \<noteq> [] \<and> int (length vs) \<le> MAX_CASES) BenchmarkSchemaError
                                 ''cases must contain 1..10000 entries'') (\<lambda>_. Inr vs)
            | _ \<Rightarrow> raiseR BenchmarkSchemaError ''cases must contain 1..10000 entries'') = Inr vs"
    and cs: "foldR load_case vs [] = Inr cs"
    and s: "pb_suite_sha256 s = sha256 E raw" "pb_cases s = cs" "pb_version s = entry kvs ''schema_version''"
    unfolding load_private_benchmark_def bindR_Inr_iff split_paired_Ex prod.case guardR_Inr_iff by fastforce
  from r v s show "opaque_suite_digest os view E path = Inr (pb_suite_sha256 s)" "py_eq_int (pb_version s) 1"
    by (simp_all add: opaque_suite_digest_def)
  from vs have "vs \<noteq> []" by (cases "entry kvs ''cases''") (simp_all add: bindR_Inr_iff)
  with load_cases_weights [OF cs] s show "\<forall>c \<in> set (pb_cases s). 1 \<le> bc_weight_micros c" "pb_cases s \<noteq> []" by auto
qed

lemma sum_list_pos: "(\<forall>x \<in> set xs. (1 :: int) \<le> f x) \<Longrightarrow> xs \<noteq> [] \<Longrightarrow> 1 \<le> sum_list (map f xs)"
proof (induction xs)
  case (Cons x xs)
  have "0 \<le> sum_list (map f xs)" using Cons.prems(1) by (intro sum_list_nonneg) auto
  with Cons.prems(1) show ?case by simp
qed simp

lemma loaded_maximum_positive:
  assumes "load_private_benchmark os view E parse path = Inr s"
  shows "1 \<le> maximum_score s"
  using load_private_benchmark_ok(3,4) [OF assms] by (simp add: maximum_score_def sum_list_pos)

section \<open>A finished evaluation\<close>

lemma open_suite_Inr:
  assumes "open_suite os view E parse a = Inr (s, sg)"
  obtains key where "load_private_benchmark (osenv.truncate os) view E parse (wa_benchmark a) = Inr s"
    "load_hmac_key (osenv.truncate os) view (wa_signing_key a) = Inr key"
    "sg = \<lparr>sg_keys = [(wa_key_id a, key)], sg_active_key_id = wa_key_id a\<rparr>" "wa_key_id a \<noteq> []"
proof -
  from assms obtain key where
    "load_private_benchmark (osenv.truncate os) view E parse (wa_benchmark a) = Inr s"
    "load_hmac_key (osenv.truncate os) view (wa_signing_key a) = Inr key" "new_signer [(wa_key_id a, key)] (wa_key_id a) = Inr sg"
    unfolding open_suite_def bindR_Inr_iff by blast
  then show thesis by (intro that) (auto simp: new_signer_def validate_keyring_def bindR_Inr_iff)
qed

lemma open_candidate_Inr:
  assumes "open_candidate os xv parse a input = Inr (q, executable, cwd, roots)"
  shows "read_request parse input = Inr q" "os_resolve os (os_expanduser os (hd (wq_argv q))) = Inr executable"
    "os_resolve os (os_expanduser os (wq_cwd q)) = Inr cwd"
  using assms unfolding open_candidate_def bindR_Inr_iff by auto

lemma read_request_nonce:
  assumes "read_request parse input = Inr q"
  shows "wq_nonce q \<noteq> []"
proof -
  from assms obtain v nonce where
    v: "(case v of JStr nonce \<Rightarrow> bindR (guardR (nonce \<noteq> [] \<and> py_len nonce \<le> 256) BenchmarkSecurityError ''worker request nonce is invalid'')
                               (\<lambda>_. Inr nonce)
             | _ \<Rightarrow> raiseR BenchmarkSecurityError ''worker request nonce is invalid'') = Inr nonce" "wq_nonce q = nonce"
    unfolding read_request_def bindR_Inr_iff Let_def by fastforce
  then show ?thesis by (cases v) (simp_all add: bindR_Inr_iff)
qed

lemma open_job_Inr:
  assumes "open_job os view xv E parse a input = Inr j"
  obtains key executable where
    "load_private_benchmark (osenv.truncate os) (view 0) E parse (wa_benchmark a) = Inr (wj_suite j)"
    "load_hmac_key (osenv.truncate os) (view 0) (wa_signing_key a) = Inr key"
    "wj_signer j = \<lparr>sg_keys = [(wa_key_id a, key)], sg_active_key_id = wa_key_id a\<rparr>" "wa_key_id a \<noteq> []"
    "read_request parse input = Inr (wj_request j)"
    "os_resolve os (os_expanduser os (hd (wq_argv (wj_request j)))) = Inr executable"
    "os_resolve os (os_expanduser os (wq_cwd (wj_request j))) = Inr (wj_cwd j)"
    "wj_argv j = executable # tl (wq_argv (wj_request j))"
    "candidate_fingerprint (osenv.truncate os) (view 1) E (wj_argv j) (Some (wj_cwd j)) = Inr (wj_fingerprint j)"
proof -
  from assms obtain s sg q executable cwd roots where
    s: "open_suite os (view 0) E parse a = Inr (s, sg)" and c: "open_candidate os xv parse a input = Inr (q, executable, cwd, roots)"
    and f: "candidate_fingerprint (osenv.truncate os) (view 1) E (executable # tl (wq_argv q)) (Some cwd) = Inr (wj_fingerprint j)"
    and j: "wj_suite j = s" "wj_signer j = sg" "wj_request j = q" "wj_argv j = executable # tl (wq_argv q)" "wj_cwd j = cwd"
    unfolding open_job_def Let_def by (auto simp: bindR_Inr_iff)
  from open_suite_Inr [OF s] obtain key where
    "load_private_benchmark (osenv.truncate os) (view 0) E parse (wa_benchmark a) = Inr s"
    "load_hmac_key (osenv.truncate os) (view 0) (wa_signing_key a) = Inr key"
    "sg = \<lparr>sg_keys = [(wa_key_id a, key)], sg_active_key_id = wa_key_id a\<rparr>" "wa_key_id a \<noteq> []" .
  with open_candidate_Inr [OF c] f j show thesis by (intro that) simp_all
qed

lemma sign_aggregate_Inr:
  assumes "sign_aggregate os view E a j n points w = (Inr receipt, w')"
  obtains receipt_id issued_at wall tok where
    "candidate_fingerprint (osenv.truncate os) view E (wj_argv j) (Some (wj_cwd j)) = Inr (wj_fingerprint j)"
    "sign E (wj_signer j) wall tok (aggregate_payload j receipt_id issued_at n points) ''hidden-benchmark-aggregate''
       (wa_tenant_id a) (Some 300) None (Some (wq_nonce (wj_request j))) = Inr receipt"
proof -
  from assms obtain receipt_id issued_at w1 w2 fp where
    "candidate_fingerprint (osenv.truncate os) view E (wj_argv j) (Some (wj_cwd j)) = Inr fp" "fp = wj_fingerprint j"
    "sign_with E (wj_signer j) (aggregate_payload j receipt_id issued_at n points) ''hidden-benchmark-aggregate''
       (wa_tenant_id a) 300 (Some (wq_nonce (wj_request j))) w1 = (Inr receipt, w2)"
    unfolding sign_aggregate_def bind_Inr_iff andthen_Inr_iff require_Inr_iff by (auto simp: lift_def)
  then show thesis by (intro that) (auto simp: sign_with_def)
qed

lemma evaluate_worker_Inr:
  assumes "evaluate_worker os view xv E parse a input w = Some (Inr receipt, w')"
  obtains j n points w1 where "open_job os view xv E parse a input = Inr j"
    "run_cases os E parse j (pb_cases (wj_suite j)) 0 0 w = Some (Inr (n, points), w1)"
    "sign_aggregate os (view 2) E a j n points w1 = (Inr receipt, w')"
proof -
  from assms obtain j where j: "open_job os view xv E parse a input = Inr j"
    by (cases "open_job os view xv E parse a input") (simp_all add: evaluate_worker_def)
  with assms obtain r w1 where r: "run_cases os E parse j (pb_cases (wj_suite j)) 0 0 w = Some (r, w1)"
    "(case r of Inl e \<Rightarrow> (Inl e, w1) | Inr (n, points) \<Rightarrow> sign_aggregate os (view 2) E a j n points w1) = (Inr receipt, w')"
    by (auto simp: evaluate_worker_def)
  then obtain n points where "r = Inr (n, points)" by (cases r) auto
  with r j show thesis by (intro that) simp_all
qed

section \<open>The controller accepts what the worker signs\<close>

definition folded :: "string \<Rightarrow> bool" where
  \<comment> \<open>ASCII without capital letters\<close>
  "folded s = list_all (\<lambda>c. of_char c < (128 :: nat) \<and> \<not> (65 \<le> (of_char c :: nat) \<and> (of_char c :: nat) \<le> 90)) s"

definition casefold_ok :: "osenv \<Rightarrow> bool" where
  \<comment> \<open>\<open>str.casefold\<close> leaves such text alone\<close>
  "casefold_ok os \<longleftrightarrow> (\<forall>s. folded s \<longrightarrow> os_casefold os s = s)"

definition plain_keys :: "string list \<Rightarrow> bool" where
  "plain_keys ks = list_all (\<lambda>k. folded k \<and> k \<notin> set FORBIDDEN_RESPONSE_KEYS) ks"

lemma leaks_plain:
  assumes "casefold_ok os" "plain_keys (map fst kvs)"
  shows "leaks os (JObj kvs) \<longleftrightarrow> (\<exists>v \<in> snd ` set kvs. leaks os v)"
proof -
  have "os_casefold os k \<notin> set FORBIDDEN_RESPONSE_KEYS" if "(k, v) \<in> set kvs" for k v
    using assms that by (auto simp: plain_keys_def list_all_iff casefold_ok_def)
  then show ?thesis by (force simp: list_ex_iff)
qed

lemma version_harmless: "py_eq_int v n \<Longrightarrow> \<not> leaks os v"
  by (cases v) auto

lemma plain_receipt_keys:
  "plain_keys [''version'', ''algorithm'', ''key_id'', ''purpose'', ''tenant_id'', ''issued_at'', ''expires_at'', ''nonce'', ''payload'', ''signature'']"
  "plain_keys PAYLOAD_TOP_LEVEL" "plain_keys BENCHMARK_RECEIPT_KEYS" "plain_keys CANDIDATE_RECEIPT_KEYS" "plain_keys RESULT_RECEIPT_KEYS"
  by code_simp+

lemma aggregate_harmless:
  assumes "casefold_ok os" "py_eq_int (pb_version (wj_suite j)) 1"
  shows "\<not> leaks os (aggregate_payload j receipt_id issued_at n points)"
proof -
  let ?kvs = "case aggregate_payload j receipt_id issued_at n points of JObj kvs \<Rightarrow> kvs | _ \<Rightarrow> []"
  have obj: "aggregate_payload j receipt_id issued_at n points = JObj ?kvs" by (simp add: aggregate_payload_def)
  have "map fst ?kvs = PAYLOAD_TOP_LEVEL"
    "map fst (aggregate_benchmark (wj_suite j)) = BENCHMARK_RECEIPT_KEYS"
    "map fst (aggregate_result (wj_suite j) n points) = RESULT_RECEIPT_KEYS"
    "map fst [(''fingerprint_sha256'', JStr (wj_fingerprint j))] = CANDIDATE_RECEIPT_KEYS"
    by (simp_all add: aggregate_payload_def aggregate_benchmark_def aggregate_result_def PAYLOAD_TOP_LEVEL_def
        BENCHMARK_RECEIPT_KEYS_def RESULT_RECEIPT_KEYS_def CANDIDATE_RECEIPT_KEYS_def)
  note plain = plain_receipt_keys(2-) [folded this]
  have "\<not> leaks os (JObj (aggregate_benchmark (wj_suite j)))" "\<not> leaks os (JObj (aggregate_result (wj_suite j) n points))"
    "\<not> leaks os (JObj [(''fingerprint_sha256'', JStr (wj_fingerprint j))])"
    unfolding plain(2-) [THEN leaks_plain [OF assms(1)]]
    by (simp_all add: aggregate_benchmark_def aggregate_result_def version_harmless [OF assms(2)])
  then show ?thesis
    by (subst obj, subst leaks_plain [OF assms(1) plain(1)]) (simp add: aggregate_payload_def)
qed

lemma aggregate_counters:
  assumes "0 \<le> n" "n \<le> int (length (pb_cases s))" "0 \<le> points" "points \<le> maximum_score s" "1 \<le> maximum_score s"
  shows "check_counters (aggregate_benchmark s) (aggregate_result s n points) = Inr ()"
proof -
  have "points * 1000000 div maximum_score s \<le> maximum_score s * 1000000 div maximum_score s"
    using assms by (intro zdiv_mono1) simp_all
  then have "points * 1000000 div maximum_score s \<le> 1000000" "0 \<le> points * 1000000 div maximum_score s"
    using assms by (simp_all add: pos_imp_zdiv_nonneg_iff)
  with assms show ?thesis
    by (simp add: check_counters_def aggregate_benchmark_def aggregate_result_def RESULT_RECEIPT_KEYS_def int_entry_def)
qed

lemma signed_harmless:
  assumes "casefold_ok os" "sign E sg clk tok payload purpose tenant ttl issued nonce_arg = Inr env" "\<not> leaks os payload"
  shows "is_obj env" "\<not> leaks os env" "field env ''payload'' = payload"
    "int_field env ''issued_at'' = (case issued of None \<Rightarrow> clk | Some t \<Rightarrow> t)"
proof -
  from sign_Inr [OF assms(2)] obtain i nonce sig where
    env: "env = JObj (unsigned_envelope (sg_active_key_id sg) purpose tenant i ttl nonce payload @ [(''signature'', JStr sig)])"
    and i: "i = (case issued of None \<Rightarrow> clk | Some t \<Rightarrow> t)" by metis
  then show "is_obj env" "field env ''payload'' = payload" "int_field env ''issued_at'' = (case issued of None \<Rightarrow> clk | Some t \<Rightarrow> t)"
    by (simp_all add: field_def unsigned_envelope_def int_field_def)
  have keys: "plain_keys (map fst (unsigned_envelope (sg_active_key_id sg) purpose tenant i ttl nonce payload @ [(''signature'', JStr sig)]))"
    using plain_receipt_keys(1) by (simp add: unsigned_envelope_def)
  have "\<not> leaks os (json_of_opt_int x)" for x by (cases x) simp_all
  then show "\<not> leaks os env"
    unfolding env leaks_plain [OF assms(1) keys] using assms(3) by (simp add: unsigned_envelope_def)
qed

lemma aggregate_accepted:
  assumes signed: "sign E (wj_signer j) wall tok (aggregate_payload j receipt_id issued_at n points) ''hidden-benchmark-aggregate''
       tenant (Some 300) None (Some (wq_nonce (wj_request j))) = Inr receipt"
    and E: "hmac_ok E" "casefold_ok os"
    and key: "sg_active_key_id (wj_signer j) \<noteq> []"
      "map_of (vr_keys vr) (sg_active_key_id (wj_signer j)) = map_of (sg_keys (wj_signer j)) (sg_active_key_id (wj_signer j))"
    and time: "int_field receipt ''issued_at'' \<le> t + vr_clock_skew_seconds vr"
      "t \<le> int_field receipt ''issued_at'' + 300 + vr_clock_skew_seconds vr"
    and suite: "py_eq_int (pb_version (wj_suite j)) 1" "check_counters (aggregate_benchmark (wj_suite j)) (aggregate_result (wj_suite j) n points) = Inr ()"
  shows "validate_aggregate_receipt os E vr t receipt tenant (wq_nonce (wj_request j)) (pb_suite_sha256 (wj_suite j)) (wj_fingerprint j)
    = Inr receipt"
proof -
  note env = signed_harmless [OF E(2) signed aggregate_harmless [OF E(2) suite(1)]]
  have "verify E vr t receipt (Some ''hidden-benchmark-aggregate'') (Some tenant) None ()
      = (Inr (aggregate_payload j receipt_id issued_at n points), ())"
    using time env(4) by (intro sign_verify_roundtrip [OF signed E(1) key]) auto
  then have auth: "authenticate_envelope E vr t receipt (Some ''hidden-benchmark-aggregate'') (Some tenant) = Inr ()"
    by (auto simp: verify_def bind_def lift_def split: sum.splits prod.splits)
  have keys: "fst ` set (aggregate_benchmark (wj_suite j)) = set BENCHMARK_RECEIPT_KEYS"
    "fst ` set (aggregate_result (wj_suite j) n points) = set RESULT_RECEIPT_KEYS"
    "map_of (aggregate_benchmark (wj_suite j)) ''suite_sha256'' = Some (JStr (pb_suite_sha256 (wj_suite j)))"
    by (simp_all add: aggregate_benchmark_def aggregate_result_def BENCHMARK_RECEIPT_KEYS_def RESULT_RECEIPT_KEYS_def)
  show ?thesis
    unfolding validate_aggregate_receipt_def env(3) auth
    using env keys suite(2) by (simp add: aggregate_payload_def exact_object_def PAYLOAD_TOP_LEVEL_def CANDIDATE_RECEIPT_KEYS_def)
qed

end
