(* ===== verification/EvidenceInstances.thy ===== *)
theory EvidenceInstances
  imports EvidenceLemmas Instances
begin

text \<open>A concrete runner, its world and one run of a command, for the witnesses.\<close>

section \<open>A concrete run\<close>

definition re0 :: runenv where
  "re0 = \<lparr>os_expanduser = (\<lambda>p. p), os_absolute = (\<lambda>p. p), os_join = (\<lambda>a b. a @ ''/'' @ b), os_resolve = Inr,
     os_is_dir = (\<lambda>_. True), os_executable = (\<lambda>_. True), os_euid = 0, os_casefold = (\<lambda>s. s),
     re_parent = (\<lambda>_. ''/w''), re_name = (\<lambda>_. ''out''), re_may_execute = (\<lambda>_. True), re_host = [(''system'', JStr ''Linux'')]\<rparr>"

definition policy0 :: runner_policy where
  "policy0 = \<lparr>rp_allowed_executables = [(''cmd0'', ''/bin/echo'')], rp_allowed_cwd_roots = [''/w''], rp_timeout_seconds = 30,
     rp_output_cap_bytes = 1024, rp_stdin_cap_bytes = 0, rp_artifact_file_cap_bytes = 1024, rp_artifact_total_cap_bytes = 1024,
     rp_artifact_hash_timeout_seconds = 10, rp_allowed_environment = [], rp_fixed_environment = SAFE_DEFAULT_ENV\<rparr>"

definition stat0 :: file_stat where
  "stat0 = \<lparr>fs_kind = RegularFile, fs_dev = 1, fs_ino = 2, fs_size = 2, fs_mode = 448, fs_uid = 0\<rparr>"

definition timed0 :: timed_stat where
  "timed0 = file_stat.extend stat0 \<lparr>ts_mtime = 5, ts_ctime = 5\<rparr>"

definition view0 :: artifact_view where
  "view0 = \<lparr>av_lstat = Inr stat0, av_open = Inr timed0, av_read = (\<lambda>i. Inr (if i = 0 then ''ok'' else [])), av_final = Inr timed0\<rparr>"

definition exec0 :: exec_view where
  "exec0 = \<lparr>xv_before = Inr stat0, xv_info = Inr stat0, xv_current = Inr stat0\<rparr>"

definition world0 :: run_world where
  \<comment> \<open>one second passes between two readings; the child prints two bytes and ends\<close>
  "world0 = \<lparr>rw_registry = new_registry True (\<lambda>_. Started) (\<lambda>_. Delivered) (\<lambda>_. Exited 0),
     rw_clock = (\<lambda>n. of_nat n), rw_ticks = 0,
     rw_select = (\<lambda>i. if i = 0 then \<lparr>sa_first = Stdout, sa_stdout = Some (Chunk ''hi''), sa_stderr = Some (Chunk [])\<rparr>
        else \<lparr>sa_first = Stdout, sa_stdout = Some (Chunk []), sa_stderr = None\<rparr>), rw_selects = 0,
     rw_view = (\<lambda>_ _. view0), rw_views = 0, rw_utc = (\<lambda>_. ''2025-01-01T00:00:00.000Z''), rw_utcs = 0,
     rw_uuid = (\<lambda>_. ''u1''), rw_uuids = 0, rw_wall = (\<lambda>_. 100), rw_walls = 0,
     rw_token = (\<lambda>_. ''t1''), rw_tokens = 0, rw_stdin_error = None\<rparr>"

lemma world0_ticking: "ticking (rw_clock world0)"
proof -
  have clk: "rw_clock world0 m = of_nat m" for m by (simp add: world0_def)
  have "\<exists>n. \<forall>m \<ge> n. x \<le> rw_clock world0 m" for x
  proof -
    obtain n :: nat where "x < of_nat n" using reals_Archimedean2 [of x] by blast
    then have "\<forall>m \<ge> n. x \<le> of_nat m" by (meson of_nat_mono order_trans less_imp_le)
    then show ?thesis unfolding clk by blast
  qed
  then show ?thesis unfolding ticking_def by blast
qed

definition runner0 :: runner where
  "runner0 = \<lparr>rn_policy = policy0, rn_signer = signer0, rn_tenant_id = ''acme'', rn_receipt_ttl_seconds = 300,
     rn_executables = [(''cmd0'', ''/bin/echo'')], rn_roots = [''/w''], rn_allowed_env = [], rn_fixed_env = SAFE_DEFAULT_ENV\<rparr>"

lemma policy0_accepted: "check_policy policy0 = Inr ()"
  by (simp add: check_policy_def policy0_def tenth_def SAFE_DEFAULT_ENV_def)

lemma runner0_created: "new_runner re0 (\<lambda>_. exec0) policy0 signer0 ''acme'' 300 = Inr runner0"
  by code_simp

lemma hash_view0:
  assumes "rw_view w = (\<lambda>_ _. view0)" "2 \<le> cap" "rw_clock w (rw_ticks w) < d" "rw_clock w (Suc (rw_ticks w)) < d"
  shows "hash_at E cap d path w = (Inr (Hashed path 2 (sha256 E ''ok'')),
     w\<lparr>rw_views := Suc (rw_views w), rw_ticks := Suc (Suc (rw_ticks w))\<rparr>)"
proof -
  have "nat (cap + 1) = Suc (Suc (Suc (nat (cap - 2))))" using assms(2) by simp
  then obtain k where k: "nat (cap + 1) = Suc (Suc (Suc k))" ..
  show ?thesis
    using assms
    by (simp add: hash_at_def view0_def stat0_def timed0_def file_stat.extend_def hash_opened_def catch_exc_def catch_def bind_apply k
        hash_loop.simps Let_def SMALL_READ_SIZE_def unchanged_def)
qed

definition prepared0 :: prepared where
  "prepared0 = \<lparr>pp_command = [''/bin/echo'', ''hi''], pp_executable = ''/bin/echo'', pp_alias = ''cmd0'',
     pp_initial_sha256 = sha256 E0 ''ok'', pp_workdir = ''/w'', pp_environment = SAFE_DEFAULT_ENV, pp_artifacts = [''/w/out''],
     pp_input = []\<rparr>"

lemma hash_executable0:
  assumes "rw_view w = (\<lambda>_ _. view0)" "rw_clock w = of_nat"
  shows "hash_executable E path w = (Inr (Hashed path 2 (sha256 E ''ok'')),
     w\<lparr>rw_views := Suc (rw_views w), rw_ticks := rw_ticks w + 3\<rparr>)"
  using assms hash_view0 [of "w\<lparr>rw_ticks := Suc (rw_ticks w)\<rparr>" MAX_EXECUTABLE_BYTES "rw_clock w (rw_ticks w) + 10" E path]
  by (simp add: hash_executable_def bind_apply monotonic_def MAX_EXECUTABLE_BYTES_def EXECUTABLE_HASH_TIMEOUT_SECONDS_def
      numeral_3_eq_3)

lemma prepare0:
  "prepare re0 E0 runner0 [''cmd0'', ''hi''] ''/w'' [] None [''out''] (Some ''c1'') world0
     = (Inr prepared0, world0\<lparr>rw_views := 1, rw_ticks := 3\<rparr>)"
proof -
  have c: "command_for re0 runner0 [''cmd0'', ''hi''] = Inr ([''/bin/echo'', ''hi''], ''/bin/echo'', ''cmd0'')" by code_simp
  have d: "cwd_for re0 runner0 ''/w'' = Inr ''/w''" by code_simp
  have e: "environment_for runner0 [] = Inr SAFE_DEFAULT_ENV" by code_simp
  have a: "artifact_paths re0 runner0 ''/w'' [''out''] = Inr [''/w/out'']" by code_simp
  have l: "py_len ''c1'' \<le> 256" by code_simp
  have h: "hash_executable E0 ''/bin/echo'' world0 = (Inr (Hashed ''/bin/echo'' 2 (sha256 E0 ''ok'')), world0\<lparr>rw_views := 1, rw_ticks := 3\<rparr>)"
    using hash_executable0 [of world0 E0 "''/bin/echo''"] by (simp add: world0_def)
  have s: "rp_stdin_cap_bytes (rn_policy runner0) = 0" by (simp add: runner0_def policy0_def)
  show ?thesis
    unfolding prepare_def bind_apply lift_def c d e a prod.case sum.case h sha_of_def artifact_receipt.case option.case Let_def
    by (simp add: l s andthen_apply require_apply prepared0_def)
qed

definition started0 :: run_world where
  "started0 = world0\<lparr>rw_views := 1, rw_utcs := 1, rw_ticks := 4\<rparr>"

definition finished0 :: finished where
  "finished0 = \<lparr>fi_stdout = ''hi'', fi_stderr = [], fi_termination = None, fi_total = 2, fi_returncode = 0, fi_spawn_error = None\<rparr>"

lemma take_read [simp]: "length s \<le> 2 \<Longrightarrow> take SMALL_READ_SIZE s = s"
  by (simp add: SMALL_READ_SIZE_def)

lemma collect0:
  assumes "rp_output_cap_bytes (rn_policy R) = 1024"
  shows "collect_loop (evidence_collector R) 0 33 new_collected (started0\<lparr>rw_uuids := u, rw_registry := r\<rparr>) = Some
     (Inr \<lparr>co_open = [], co_stdout = ''hi'', co_stderr = [], co_total = 2, co_termination = None, co_kill_deadline = None\<rparr>,
      started0\<lparr>rw_uuids := u, rw_registry := r, rw_ticks := 6, rw_selects := 2\<rparr>)"
  using assms
  by (simp add: collect_loop.simps collect_step_def bind_apply monotonic_def next_select_def new_collected_def started0_def
      world0_def ready_def Let_def take_chunk_def captured_def keep_bytes_def evidence_collector_def)

definition registry0 :: registry where
  "registry0 = new_registry True (\<lambda>_. Started) (\<lambda>_. Delivered) (\<lambda>_. Exited 0)"
definition spawned0 :: registry where "spawned0 = snd (spawn False registry0)"
definition killed0 :: registry where "killed0 = snd (signal 0 SIGKILL spawned0)"
definition reaped0 :: registry where "reaped0 = snd (kill_and_reap 0 killed0)"
definition gone0 :: registry where "gone0 = snd (kill_and_reap 0 reaped0)"

lemma registry_answers:
  "spawn False registry0 = (Inr 0, spawned0)" "signal 0 SIGKILL spawned0 = (Inr (), killed0)"
  "kill_and_reap 0 killed0 = (Inr 0, reaped0)" "kill_and_reap 0 reaped0 = (Inr 0, gone0)"
proof -
  have "fst (spawn False registry0) = Inr 0" "fst (signal 0 SIGKILL spawned0) = Inr ()"
    "fst (kill_and_reap 0 killed0) = Inr 0" "fst (kill_and_reap 0 reaped0) = Inr 0" by code_simp+
  then show "spawn False registry0 = (Inr 0, spawned0)" "signal 0 SIGKILL spawned0 = (Inr (), killed0)"
    "kill_and_reap 0 killed0 = (Inr 0, reaped0)" "kill_and_reap 0 reaped0 = (Inr 0, gone0)"
    by (simp_all add: spawned0_def killed0_def reaped0_def gone0_def prod_eq_iff)
qed

definition ended0 :: run_world where
  "ended0 = started0\<lparr>rw_registry := gone0, rw_ticks := 6, rw_selects := 2\<rparr>"

lemma execute0:
  assumes "rp_output_cap_bytes (rn_policy R) = 1024" "rp_timeout_seconds (rn_policy R) = 30"
  shows "execute R 3 input (started0\<lparr>rw_uuids := u\<rparr>) = Some (Inr finished0, ended0\<lparr>rw_uuids := u\<rparr>)"
proof -
  let ?w = "started0\<lparr>rw_uuids := u\<rparr>"
  have s: "start input ?w = (Inr 0, ?w\<lparr>rw_registry := spawned0\<rparr>)"
    using registry_answers(1) by (simp add: start_def in_registry_def started0_def world0_def registry0_def)
  have t: "3 + rp_timeout_seconds (rn_policy R) = 33" using assms(2) by simp
  have b: "collect_bounded R 0 33 (?w\<lparr>rw_registry := spawned0\<rparr>) = Some (Inr
      (\<lparr>co_open = [], co_stdout = ''hi'', co_stderr = [], co_total = 2, co_termination = None, co_kill_deadline = None\<rparr>, 0),
      ?w\<lparr>rw_registry := reaped0, rw_ticks := 6, rw_selects := 2\<rparr>)"
    by (simp add: collect_bounded_def collect0 [OF assms(1)] reap_collected_def bind_apply andthen_apply catch_exc_def catch_def terminate_def
        in_registry_def registry_answers)
  show ?thesis
    by (simp add: execute_def s t b finally_do_def or_not_run_def andthen_apply in_registry_def registry_answers(4) ended0_def
        process_ended_def finished0_def)
qed

definition artifact0 :: artifact_receipt where
  "artifact0 = Hashed ''/w/out'' 2 (sha256 E0 ''ok'')"

lemma hash_artifacts0:
  "hash_artifacts re0 E0 runner0 17 [''/w/out''] 1024 (ended0\<lparr>rw_ticks := 8\<rparr>)
     = (Inr [artifact0], ended0\<lparr>rw_ticks := 10, rw_views := 2\<rparr>)"
proof -
  have r: "rn_roots runner0 = [''/w'']" "rp_artifact_file_cap_bytes (rn_policy runner0) = 1024" by (simp_all add: runner0_def policy0_def)
  have p: "os_resolve re0 (re_parent re0 ''/w/out'') = Inr ''/w''" "os_join re0 ''/w'' (re_name re0 ''/w/out'') = ''/w/out''"
    by (simp_all add: re0_def)
  have i: "within_any ''/w/out'' [''/w'']" by code_simp
  have h: "hash_at E0 1024 17 ''/w/out'' (ended0\<lparr>rw_ticks := 8\<rparr>) = (Inr artifact0, ended0\<lparr>rw_ticks := 10, rw_views := 2\<rparr>)"
    using hash_view0 [of "ended0\<lparr>rw_ticks := 8\<rparr>" 1024 17 E0 "''/w/out''"]
    by (simp add: ended0_def started0_def world0_def artifact0_def numeral_2_eq_2)
  show ?thesis
    by (simp add: r p i h bind_apply hash_artifact_def Let_def) (simp add: artifact0_def)
qed

definition fingerprints0 :: fingerprints where
  "fingerprints0 = \<lparr>fp_host_sha256 = sha256 E0 [], fp_environment_sha256 = sha256 E0 [],
     fp_environment_keys = [''LANG'', ''LC_ALL'', ''PYTHONDONTWRITEBYTECODE'', ''TZ''],
     fp_executable_sha256 = Some (sha256 E0 ''ok''), fp_executable_stable = True\<rparr>"

lemma not_isl: "\<not> isl r \<Longrightarrow> \<exists>x. r = Inr x"
  by (cases r) auto

lemma fingerprints_for0:
  assumes "rw_view w = (\<lambda>_ _. view0)" "rw_clock w = of_nat"
  shows "fingerprints_for re0 E0 ''/bin/echo'' SAFE_DEFAULT_ENV (sha256 E0 ''ok'') w
     = (Inr fingerprints0, w\<lparr>rw_views := Suc (rw_views w), rw_ticks := rw_ticks w + 3\<rparr>)"
proof -
  have "\<not> isl (canonical_json_bytes E0 (JObj (re_host re0)))"
    "\<not> isl (canonical_json_bytes E0 (JObj (map (\<lambda>(k, v). (k, JStr v)) SAFE_DEFAULT_ENV)))" by code_simp+
  then obtain a b where c: "canonical_json_bytes E0 (JObj (re_host re0)) = Inr a"
    "canonical_json_bytes E0 (JObj (map (\<lambda>(k, v). (k, JStr v)) SAFE_DEFAULT_ENV)) = Inr b" by (meson not_isl)
  have k: "sort (map fst SAFE_DEFAULT_ENV) = [''LANG'', ''LC_ALL'', ''PYTHONDONTWRITEBYTECODE'', ''TZ'']" by code_simp
  have sha: "sha256 E0 x = sha256 E0 y" for x y by (simp add: E0_def)
  show ?thesis
    unfolding fingerprints_for_def bind_apply hash_executable0 [OF assms] prod.case sum.case lift_def c k sha_of_def artifact_receipt.case
    by (simp add: fingerprints0_def sha [of a "[]"] sha [of b "[]"])
qed

definition payload0 :: json where
  "payload0 = evidence_payload E0 runner0 prepared0 (Some ''c1'') ''u1'' ''2025-01-01T00:00:00.000Z''
     ''2025-01-01T00:00:00.000Z'' 3000 (sha256 E0 []) finished0 [artifact0] fingerprints0"

definition receipt0 :: json where
  "receipt0 = (case sign E0 signer0 100 ''t1'' payload0 ''subprocess-evidence'' ''acme'' (Some 300) None None of Inr v \<Rightarrow> v | _ \<Rightarrow> JNull)"

lemma sign0: "sign E0 signer0 100 ''t1'' payload0 ''subprocess-evidence'' ''acme'' (Some 300) None None = Inr receipt0"
proof -
  have "\<not> isl (sign E0 signer0 100 ''t1'' payload0 ''subprocess-evidence'' ''acme'' (Some 300) None None)" by code_simp
  then show ?thesis by (auto simp: receipt0_def isl_def split: sum.splits)
qed

definition reported0 :: run_world where
  "reported0 = ended0\<lparr>rw_ticks := 13, rw_views := 3, rw_uuids := 1, rw_utcs := 2, rw_walls := 1, rw_tokens := 1\<rparr>"

lemma report0:
  "report re0 E0 runner0 prepared0 (Some ''c1'') ''2025-01-01T00:00:00.000Z'' 3 finished0 ended0
     = (Inr \<lparr>rr_receipt = receipt0, rr_stdout = ''hi'', rr_stderr = []\<rparr>, reported0)"
proof -
  have m: "monotonic ended0 = (Inr 6, ended0\<lparr>rw_ticks := 7\<rparr>)"
    "monotonic (ended0\<lparr>rw_ticks := 7\<rparr>) = (Inr 7, ended0\<lparr>rw_ticks := 8\<rparr>)"
    by (simp_all add: monotonic_def ended0_def started0_def world0_def)
  have R: "rp_artifact_hash_timeout_seconds (rn_policy runner0) = 10" "rp_artifact_total_cap_bytes (rn_policy runner0) = 1024"
    "rn_signer runner0 = signer0" "rn_tenant_id runner0 = ''acme''" "rn_receipt_ttl_seconds runner0 = 300"
    by (simp_all add: runner0_def policy0_def)
  have P: "pp_artifacts prepared0 = [''/w/out'']" "pp_executable prepared0 = ''/bin/echo''" "pp_environment prepared0 = SAFE_DEFAULT_ENV"
    "pp_initial_sha256 prepared0 = sha256 E0 ''ok''" "pp_command prepared0 = [''/bin/echo'', ''hi'']" by (simp_all add: prepared0_def)
  have "\<not> isl (canonical_json_bytes E0 (JList (map JStr [''/bin/echo'', ''hi''])))" by code_simp
  then obtain a where a: "canonical_json_bytes E0 (JList (map JStr [''/bin/echo'', ''hi''])) = Inr a" by (meson not_isl)
  have sha: "sha256 E0 a = sha256 E0 []" by (simp add: E0_def)
  have ms: "max 0 (milliseconds (6 - 3)) = 3000" by code_simp
  have ten: "(7 :: rat) + 10 = 17" by simp
  let ?w = "ended0\<lparr>rw_ticks := 13, rw_views := 3\<rparr>"
  have f: "fingerprints_for re0 E0 ''/bin/echo'' SAFE_DEFAULT_ENV (sha256 E0 ''ok'') (ended0\<lparr>rw_ticks := 10, rw_views := 2\<rparr>)
      = (Inr fingerprints0, ?w)"
    using fingerprints_for0 [of "ended0\<lparr>rw_ticks := 10, rw_views := 2\<rparr>"] by (simp add: ended0_def started0_def world0_def)
  have u: "fresh_uuid ?w = (Inr ''u1'', ?w\<lparr>rw_uuids := 1\<rparr>)"
    "utc_now (?w\<lparr>rw_uuids := 1\<rparr>) = (Inr ''2025-01-01T00:00:00.000Z'', ?w\<lparr>rw_uuids := 1, rw_utcs := 2\<rparr>)"
    "sign_with E0 signer0 payload0 ''subprocess-evidence'' ''acme'' 300 None (?w\<lparr>rw_uuids := 1, rw_utcs := 2\<rparr>)
       = (Inr receipt0, reported0)"
    using sign0 by (simp_all add: utc_now_def fresh_uuid_def sign_with_def ended0_def started0_def world0_def reported0_def)
  show ?thesis
    unfolding report_def bind_apply m prod.case sum.case R P ten hash_artifacts0 f u lift_def a sha ms
      payload0_def [symmetric]
    by (simp add: finished0_def)
qed

lemma run0: "run_command re0 E0 runner0 [''cmd0'', ''hi''] ''/w'' [] None [''out''] (Some ''c1'') world0
   = Some (Inr \<lparr>rr_receipt = receipt0, rr_stdout = ''hi'', rr_stderr = []\<rparr>, reported0)"
proof -
  let ?w = "world0\<lparr>rw_views := 1, rw_ticks := 3\<rparr>"
  have w: "rw_utc ?w (rw_utcs ?w) = ''2025-01-01T00:00:00.000Z''" "rw_clock ?w (rw_ticks ?w) = 3"
    "?w\<lparr>rw_utcs := Suc (rw_utcs ?w), rw_ticks := Suc (rw_ticks ?w)\<rparr> = started0" "pp_input prepared0 = []"
    by (simp_all add: world0_def started0_def prepared0_def)
  have x: "execute runner0 3 [] started0 = Some (Inr finished0, ended0)"
    using execute0 [of runner0 "[]" 0] by (simp add: runner0_def policy0_def started0_def ended0_def world0_def)
  show ?thesis
    unfolding run_command_def prepare0 prod.case sum.case start_readings w x option.map report0 by simp
qed

lemma run0_passed: "passed \<lparr>rr_receipt = receipt0, rr_stdout = s, rr_stderr = e\<rparr>"
proof -
  have "outcome_of finished0 [artifact0] fingerprints0 = ''passed''" by code_simp
  then show ?thesis using sign0 unfolding payload0_def
    using passed_outcome [of E0 signer0 100 "''t1''" runner0 prepared0 _ _ _ _ _ _ finished0 "[artifact0]" fingerprints0 _ _ _
        "\<lparr>rr_receipt = receipt0, rr_stdout = s, rr_stderr = e\<rparr>"] by simp
qed

end
