(* ===== verification/WorkerInstances.thy ===== *)
theory WorkerInstances
  imports BenchmarkWorker EvidenceInstances
begin

text \<open>A worker with a suite of one case and a candidate that solves it, for the witnesses.\<close>

definition args1 :: worker_args where
  "args1 = \<lparr>wa_benchmark = ''/b'', wa_signing_key = ''/k'', wa_key_id = ''k1'', wa_tenant_id = ''acme'',
     wa_candidate_executable = [''/bin/echo''], wa_candidate_cwd_root = [''/w''], wa_case_timeout = 30, wa_output_cap = 1024\<rparr>"

definition key1 :: string where "key1 = replicate 32 CHR ''k''"

definition files1 :: "nat \<Rightarrow> string \<Rightarrow> file_view" where
  "files1 n path = \<lparr>fv_lstat = Inr stat0, fv_open = Inr (stat0, if path = ''/b'' then ''suite'' else key1)\<rparr>"

definition parse1 :: "string \<Rightarrow> json option" where
  \<comment> \<open>the three texts that are read: the suite, the request and the candidate's output\<close>
  "parse1 text =
     (if text = ''suite'' then Some (JObj [(''schema_version'', JInt 1), (''benchmark_id'', JStr ''b1''), (''cases'', JList
         [JObj [(''id'', JStr ''c1''), (''input'', JInt 4), (''expected'', JInt 2), (''weight_micros'', JInt 5)]])])
      else if text = ''request'' then Some (JObj [(''protocol_version'', JInt 1), (''request_nonce'', JStr ''n1''),
         (''candidate_argv'', JList [JStr ''/bin/echo'']), (''candidate_cwd'', JStr ''/w'')])
      else if text = ''hi'' then Some (JObj [(''output'', JInt 2)]) else None)"

definition suite1 :: private_benchmark where
  "suite1 = \<lparr>pb_benchmark_id = ''b1'', pb_version = JInt 1, pb_suite_sha256 = sha256 E0 ''suite'',
     pb_cases = [\<lparr>bc_case_id = ''c1'', bc_input_value = JInt 4, bc_expected_value = JInt 2, bc_weight_micros = 5\<rparr>]\<rparr>"

definition signer1 :: receipt_signer where
  "signer1 = \<lparr>sg_keys = [(''k1'', key1)], sg_active_key_id = ''k1''\<rparr>"

definition request1 :: worker_request where
  "request1 = \<lparr>wq_nonce = ''n1'', wq_argv = [''/bin/echo''], wq_cwd = ''/w''\<rparr>"

definition policy1 :: runner_policy where
  "policy1 = worker_policy args1 ''/bin/echo'' [''/w'']"

definition runner1 :: runner where
  "runner1 = \<lparr>rn_policy = policy1, rn_signer = signer1, rn_tenant_id = ''acme'', rn_receipt_ttl_seconds = 60,
     rn_executables = [(''candidate'', ''/bin/echo'')], rn_roots = [''/w''], rn_allowed_env = [], rn_fixed_env = SAFE_DEFAULT_ENV\<rparr>"

definition job1 :: worker_job where
  "job1 = \<lparr>wj_suite = suite1, wj_signer = signer1, wj_request = request1, wj_argv = [''/bin/echo''], wj_cwd = ''/w'',
     wj_fingerprint = sha256 E0 [], wj_runner = runner1\<rparr>"

abbreviation os1 :: osenv where "os1 \<equiv> osenv.truncate re0"

lemma stat0_simps [simp]:
  "fs_kind stat0 = RegularFile" "fs_size stat0 = 2" "group_or_world (fs_mode stat0) = False" "owner_readable (fs_mode stat0)"
  "fs_uid stat0 = 0" "same_file stat0 stat0"
  by (simp_all add: stat0_def group_or_world_def owner_readable_def same_file_def)

lemma os1_simps [simp]:
  "os_expanduser os1 p = p" "os_euid os1 = 0" "os_resolve os1 p = Inr p"
  by (simp_all add: re0_def osenv.truncate_def)

lemma files1_simps [simp]:
  "fv_lstat (files1 n path) = Inr stat0" "fv_open (files1 n path) = Inr (stat0, if path = ''/b'' then ''suite'' else key1)"
  by (simp_all add: files1_def)

lemma short_read: "length text \<le> m \<Longrightarrow> read_bounded m [] text = text"
  by (simp add: read_bounded_eq)

lemma load_private_benchmark1: "load_private_benchmark os1 (files1 0) E0 parse1 ''/b'' = Inr suite1"
proof -
  have r: "read_bounded (nat (MAX_BENCHMARK_BYTES + 1)) [] ''suite'' = ''suite''"
    by (rule short_read) (simp add: MAX_BENCHMARK_BYTES_def)
  have b: "secure_read os1 (files1 0) ''/b'' MAX_BENCHMARK_BYTES True = Inr (''/b'', ''suite'')"
    by (simp add: secure_read_def absolute_path_def is_absolute_def or_security_def r Let_def)
      (simp add: MAX_BENCHMARK_BYTES_def)
  show ?thesis unfolding load_private_benchmark_def b bindR_simps prod.case by code_simp
qed

lemma load_hmac_key1: "load_hmac_key os1 (files1 0) ''/k'' = Inr key1"
proof -
  have "read_bounded (nat (4096 + 1)) [] key1 = key1" by (rule short_read) (simp add: key1_def)
  then show ?thesis
    by (simp add: load_hmac_key_def read_private_regular_file_def absolute_path_def is_absolute_def or_policy_def Let_def)
      (simp add: key1_def)
qed

lemma open_suite1: "open_suite re0 (files1 0) E0 parse1 args1 = Inr (suite1, signer1)"
proof -
  have "new_signer [(''k1'', key1)] ''k1'' = Inr signer1" by code_simp
  then show ?thesis by (simp add: open_suite_def args1_def load_private_benchmark1 load_hmac_key1)
qed

lemma open_candidate1: "open_candidate re0 (\<lambda>_. exec0) parse1 args1 ''request'' = Inr (request1, ''/bin/echo'', ''/w'', [''/w''])"
proof -
  have t: "take (nat (MAX_REQUEST_BYTES + 1)) ''request'' = ''request''" by (simp add: MAX_REQUEST_BYTES_def)
  have q: "read_request parse1 ''request'' = Inr request1"
    unfolding read_request_def t Let_def by code_simp
  show ?thesis unfolding open_candidate_def q by code_simp
qed

lemma fingerprint1: "candidate_fingerprint os1 (files1 n) E0 [''/bin/echo''] (Some ''/w'') = Inr (sha256 E0 [])"
proof -
  have r: "read_capped MAX_CANDIDATE_FILE_BYTES e 0 [] key1 = Inr key1" for e
    by (simp add: read_capped_eq MAX_CANDIDATE_FILE_BYTES_def key1_def)
  let ?entries = "[[JObj [(''argv_index'', JInt 0), (''path'', JStr ''/bin/echo''), (''size_bytes'', JInt 32),
     (''sha256'', JStr (sha256 E0 key1))]]]"
  have e: "mapR (fingerprint_entry os1 (files1 n) E0 (Some ''/w'')) (enumerate 0 [''/bin/echo'']) = Inr ?entries"
    by (simp add: fingerprint_entry_def is_absolute_def r Let_def) (simp add: MAX_CANDIDATE_FILE_BYTES_def key1_def)
  have "\<not> isl (canonical_json_bytes E0 (JObj [(''argv'', JList (map JStr [''/bin/echo''])), (''files'', JList (concat ?entries))]))"
    by code_simp
  then obtain c where c: "canonical_json_bytes E0 (JObj [(''argv'', JList (map JStr [''/bin/echo''])), (''files'', JList (concat ?entries))]) = Inr c"
    by (meson not_isl)
  have "sha256 E0 c = sha256 E0 []" by (simp add: E0_def)
  with e c show ?thesis by (simp add: candidate_fingerprint_def is_absolute_def Let_def nul_free_def)
qed

lemma open_job1: "open_job re0 files1 (\<lambda>_. exec0) E0 parse1 args1 ''request'' = Inr job1"
proof -
  have p: "check_policy policy1 = Inr ()"
    by (simp add: check_policy_def policy1_def worker_policy_def args1_def tenth_def SAFE_DEFAULT_ENV_def)
  have r: "new_runner re0 (\<lambda>_. exec0) policy1 signer1 ''acme'' 60 = Inr runner1" by code_simp
  have a: "receipt_ttl (wa_case_timeout args1) = 60" "wa_tenant_id args1 = ''acme''" by code_simp+
  have q: "tl (wq_argv request1) = []" by (simp add: request1_def)
  show ?thesis
    unfolding open_job_def open_suite1 open_candidate1 bindR_simps prod.case Let_def a q fingerprint1 policy1_def [symmetric] p r
    by (simp add: job1_def)
qed

section \<open>The run of its case\<close>

definition input1 :: string where
  "input1 = [CHR ''{'', CHR 0x22] @ ''input'' @ [CHR 0x22] @ '':4}''"

definition world1 :: run_world where "world1 = world0\<lparr>rw_uuids := 1\<rparr>"

definition prepared1 :: prepared where
  "prepared1 = \<lparr>pp_command = [''/bin/echo''], pp_executable = ''/bin/echo'', pp_alias = ''candidate'',
     pp_initial_sha256 = sha256 E0 ''ok'', pp_workdir = ''/w'', pp_environment = SAFE_DEFAULT_ENV, pp_artifacts = [],
     pp_input = input1\<rparr>"

lemma prepare1:
  "prepare re0 E0 runner1 [''candidate''] ''/w'' [] (Some input1) [] (Some ''u1'') world1
     = (Inr prepared1, world1\<lparr>rw_views := 1, rw_ticks := 3\<rparr>)"
proof -
  have c: "command_for re0 runner1 [''candidate''] = Inr ([''/bin/echo''], ''/bin/echo'', ''candidate'')" by code_simp
  have d: "cwd_for re0 runner1 ''/w'' = Inr ''/w''" by code_simp
  have e: "environment_for runner1 [] = Inr SAFE_DEFAULT_ENV" by code_simp
  have a: "artifact_paths re0 runner1 ''/w'' [] = Inr []" by code_simp
  have l: "py_len ''u1'' \<le> 256" by code_simp
  have h: "hash_executable E0 ''/bin/echo'' world1 = (Inr (Hashed ''/bin/echo'' 2 (sha256 E0 ''ok'')), world1\<lparr>rw_views := 1, rw_ticks := 3\<rparr>)"
    using hash_executable0 [of world1 E0 "''/bin/echo''"] by (simp add: world1_def world0_def)
  have s: "int (length input1) \<le> rp_stdin_cap_bytes (rn_policy runner1)"
    by (simp add: runner1_def policy1_def worker_policy_def input1_def)
  show ?thesis
    unfolding prepare_def bind_apply lift_def c d e a prod.case sum.case h sha_of_def artifact_receipt.case option.case Let_def
    using s by (simp add: l andthen_apply require_apply prepared1_def)
qed

definition ended1 :: run_world where "ended1 = ended0\<lparr>rw_uuids := 1\<rparr>"

definition payload1 :: json where
  "payload1 = evidence_payload E0 runner1 prepared1 (Some ''u1'') ''u1'' ''2025-01-01T00:00:00.000Z''
     ''2025-01-01T00:00:00.000Z'' 3000 (sha256 E0 []) finished0 [] fingerprints0"

definition receipt1 :: json where
  "receipt1 = (case sign E0 signer1 100 ''t1'' payload1 ''subprocess-evidence'' ''acme'' (Some 60) None None of Inr v \<Rightarrow> v | _ \<Rightarrow> JNull)"

lemma sign1: "sign E0 signer1 100 ''t1'' payload1 ''subprocess-evidence'' ''acme'' (Some 60) None None = Inr receipt1"
proof -
  have "\<not> isl (sign E0 signer1 100 ''t1'' payload1 ''subprocess-evidence'' ''acme'' (Some 60) None None)" by code_simp
  then show ?thesis by (auto simp: receipt1_def isl_def split: sum.splits)
qed

definition reported1 :: run_world where
  "reported1 = ended1\<lparr>rw_ticks := 11, rw_views := 2, rw_uuids := 2, rw_utcs := 2, rw_walls := 1, rw_tokens := 1\<rparr>"

lemma report1:
  "report re0 E0 runner1 prepared1 (Some ''u1'') ''2025-01-01T00:00:00.000Z'' 3 finished0 ended1
     = (Inr \<lparr>rr_receipt = receipt1, rr_stdout = ''hi'', rr_stderr = []\<rparr>, reported1)"
proof -
  have m: "monotonic ended1 = (Inr 6, ended1\<lparr>rw_ticks := 7\<rparr>)"
    "monotonic (ended1\<lparr>rw_ticks := 7\<rparr>) = (Inr 7, ended1\<lparr>rw_ticks := 8\<rparr>)"
    by (simp_all add: monotonic_def ended1_def ended0_def started0_def world0_def)
  have R: "rp_artifact_hash_timeout_seconds (rn_policy runner1) = 10" "rn_signer runner1 = signer1"
    "rn_tenant_id runner1 = ''acme''" "rn_receipt_ttl_seconds runner1 = 60"
    by (simp_all add: runner1_def policy1_def worker_policy_def)
  have P: "pp_artifacts prepared1 = []" "pp_executable prepared1 = ''/bin/echo''" "pp_environment prepared1 = SAFE_DEFAULT_ENV"
    "pp_initial_sha256 prepared1 = sha256 E0 ''ok''" "pp_command prepared1 = [''/bin/echo'']" by (simp_all add: prepared1_def)
  let ?w = "ended1\<lparr>rw_ticks := 11, rw_views := 2\<rparr>"
  have f: "fingerprints_for re0 E0 ''/bin/echo'' SAFE_DEFAULT_ENV (sha256 E0 ''ok'') (ended1\<lparr>rw_ticks := 8\<rparr>) = (Inr fingerprints0, ?w)"
    using fingerprints_for0 [of "ended1\<lparr>rw_ticks := 8\<rparr>"] by (simp add: ended1_def ended0_def started0_def world0_def)
  have "\<not> isl (canonical_json_bytes E0 (JList (map JStr [''/bin/echo''])))" by code_simp
  then obtain a where a: "canonical_json_bytes E0 (JList (map JStr [''/bin/echo''])) = Inr a" by (meson not_isl)
  have sha: "sha256 E0 a = sha256 E0 []" by (simp add: E0_def)
  have ms: "max 0 (milliseconds (6 - 3)) = 3000" by code_simp
  have u: "fresh_uuid ?w = (Inr ''u1'', ?w\<lparr>rw_uuids := 2\<rparr>)"
    "utc_now (?w\<lparr>rw_uuids := 2\<rparr>) = (Inr ''2025-01-01T00:00:00.000Z'', ?w\<lparr>rw_uuids := 2, rw_utcs := 2\<rparr>)"
    "sign_with E0 signer1 payload1 ''subprocess-evidence'' ''acme'' 60 None (?w\<lparr>rw_uuids := 2, rw_utcs := 2\<rparr>) = (Inr receipt1, reported1)"
    using sign1 by (simp_all add: utc_now_def fresh_uuid_def sign_with_def ended1_def ended0_def started0_def world0_def reported1_def)
  show ?thesis
    unfolding report_def bind_apply m prod.case sum.case R P hash_artifacts.simps ret_def f u lift_def a sha ms
      payload1_def [symmetric]
    by (simp add: finished0_def)
qed

lemma run1: "run_command re0 E0 runner1 [''candidate''] ''/w'' [] (Some input1) [] (Some ''u1'') world1
   = Some (Inr \<lparr>rr_receipt = receipt1, rr_stdout = ''hi'', rr_stderr = []\<rparr>, reported1)"
proof -
  let ?w = "world1\<lparr>rw_views := 1, rw_ticks := 3\<rparr>"
  have w: "rw_utc ?w (rw_utcs ?w) = ''2025-01-01T00:00:00.000Z''" "rw_clock ?w (rw_ticks ?w) = 3"
    "?w\<lparr>rw_utcs := Suc (rw_utcs ?w), rw_ticks := Suc (rw_ticks ?w)\<rparr> = started0\<lparr>rw_uuids := 1\<rparr>" "pp_input prepared1 = input1"
    by (simp_all add: world1_def world0_def started0_def prepared1_def)
  have x: "execute runner1 3 input1 (started0\<lparr>rw_uuids := 1\<rparr>) = Some (Inr finished0, ended1)"
    using execute0 [of runner1 input1 1] by (simp add: runner1_def policy1_def worker_policy_def args1_def ended1_def)
  show ?thesis
    unfolding run_command_def prepare1 prod.case sum.case start_readings w x option.map report1 by simp
qed

lemma run1_passed: "passed \<lparr>rr_receipt = receipt1, rr_stdout = s, rr_stderr = e\<rparr>"
proof -
  have "outcome_of finished0 [] fingerprints0 = ''passed''" by code_simp
  then show ?thesis using sign1 unfolding payload1_def
    using passed_outcome [of E0 signer1 100 "''t1''" runner1 prepared1 _ _ _ _ _ _ finished0 "[]" fingerprints0 _ _ _
        "\<lparr>rr_receipt = receipt1, rr_stdout = s, rr_stderr = e\<rparr>"] by simp
qed

lemma run_cases1: "run_cases re0 E0 parse1 job1 (pb_cases suite1) 0 0 world0 = Some (Inr (1, 5), reported1)"
proof -
  have i: "canonical_json_bytes E0 (JObj [(''input'', JInt 4)]) = Inr input1" by code_simp
  have u: "fresh_uuid world0 = (Inr ''u1'', world1)" by (simp add: fresh_uuid_def world1_def world0_def)
  have j: "wj_runner job1 = runner1" "wj_argv job1 = [''/bin/echo'']" "wj_cwd job1 = ''/w''" by (simp_all add: job1_def)
  have "strict_json_loads parse1 ''hi'' = Inr (JObj [(''output'', JInt 2)])" by code_simp
  moreover have "canonical_json_bytes E0 (JInt 2) = Inr ''2''" by code_simp
  ultimately have m: "answer_matches E0 parse1 (JInt 2) \<lparr>rr_receipt = receipt1, rr_stdout = ''hi'', rr_stderr = []\<rparr> = Inr True"
    by (simp add: answer_matches_def run1_passed entry_def)
  show ?thesis
    by (simp add: suite1_def bind_apply lift_def i u j run1 m)
qed

definition aggregate1 :: json where
  "aggregate1 = (case sign E0 signer1 100 ''t1'' (aggregate_payload job1 ''u1'' ''2025-01-01T00:00:00.000Z'' 1 5)
     ''hidden-benchmark-aggregate'' ''acme'' (Some 300) None (Some ''n1'') of Inr v \<Rightarrow> v | _ \<Rightarrow> JNull)"

lemma aggregate1: "sign E0 signer1 100 ''t1'' (aggregate_payload job1 ''u1'' ''2025-01-01T00:00:00.000Z'' 1 5)
     ''hidden-benchmark-aggregate'' ''acme'' (Some 300) None (Some ''n1'') = Inr aggregate1"
proof -
  have "\<not> isl (sign E0 signer1 100 ''t1'' (aggregate_payload job1 ''u1'' ''2025-01-01T00:00:00.000Z'' 1 5)
     ''hidden-benchmark-aggregate'' ''acme'' (Some 300) None (Some ''n1''))" by code_simp
  then show ?thesis by (auto simp: aggregate1_def isl_def split: sum.splits)
qed

definition signed1 :: run_world where
  "signed1 = reported1\<lparr>rw_uuids := 3, rw_utcs := 3, rw_walls := 2, rw_tokens := 2\<rparr>"

lemma evaluate1: "evaluate_worker re0 files1 (\<lambda>_. exec0) E0 parse1 args1 ''request'' world0 = Some (Inr aggregate1, signed1)"
proof -
  have j: "wj_suite job1 = suite1" "wj_signer job1 = signer1" "wj_argv job1 = [''/bin/echo'']" "wj_cwd job1 = ''/w''"
    "wj_fingerprint job1 = sha256 E0 []" "wq_nonce (wj_request job1) = ''n1''" by (simp_all add: job1_def request1_def)
  have m: "maximum_score suite1 \<noteq> 0" "wa_tenant_id args1 = ''acme''" by code_simp+
  have w: "fresh_uuid reported1 = (Inr ''u1'', reported1\<lparr>rw_uuids := 3\<rparr>)"
    "utc_now (reported1\<lparr>rw_uuids := 3\<rparr>) = (Inr ''2025-01-01T00:00:00.000Z'', reported1\<lparr>rw_uuids := 3, rw_utcs := 3\<rparr>)"
    "sign_with E0 signer1 (aggregate_payload job1 ''u1'' ''2025-01-01T00:00:00.000Z'' 1 5) ''hidden-benchmark-aggregate'' ''acme''
       300 (Some ''n1'') (reported1\<lparr>rw_uuids := 3, rw_utcs := 3\<rparr>) = (Inr aggregate1, signed1)"
    using aggregate1
    by (simp_all add: utc_now_def fresh_uuid_def sign_with_def reported1_def ended1_def ended0_def started0_def world0_def signed1_def)
  show ?thesis
    by (simp add: evaluate_worker_def open_job1 j run_cases1 sign_aggregate_def bind_apply lift_def fingerprint1 andthen_apply
        require_apply m w)
qed

end
