(* ===== verification/ServiceProperties.thy ===== *)
theory ServiceProperties
  imports HttpApi ProcessRegistry Admission ControlInstances WorkerInstances
begin

text \<open>
  The properties of the serving layer: who can change the state over HTTP, how many requests are served
  at once and how the server drains, which processes the registry signals, and what a run of the evidence
  runner establishes.
\<close>

section \<open>Requests\<close>

text \<open>
  C32. Only an authenticated, authorised write changes the state: whatever request arrives, with whatever
  headers, body and answer of the admission control, either the database is as before, or the request
  was admitted and is a \<open>POST\<close> on one of the six writing routes, with an idempotency key of 8 to 200
  characters, by a caller that authentication returned and that has a role the route asks for. In
  particular every \<open>GET\<close>, every rejected, unauthenticated or unroutable request reads only.
\<close>

theorem writes_are_authorised:
  "case respond P H A rejection q w of (out, w') \<Rightarrow>
     db w' = db w \<or> (rejection = None \<and> rq_split_error q = None \<and> may_post (pl_env P) A q)"
proof (cases "respond P H A rejection q w")
  case (Pair out w')
  with respond_writes [OF Pair] show ?thesis by auto
qed

section \<open>Admission\<close>

text \<open>
  C33. Under every interleaving of the critical sections of any number of requests: at most
  \<open>max_workers\<close> work requests and \<open>max_operational\<close> operational requests are served at the same time; no
  section raises (no semaphore is released too often and the count of active requests never
  underflows); and once a draining server has drained, it stays drained, with no work request in it.
\<close>

theorem admission_is_bounded:
  assumes "server_step\<^sup>*\<^sup>* (new_server m k) s"
  shows "in_phases (\<lambda>p. p = Serving False) s \<le> m \<and> in_phases (\<lambda>p. p = Serving True) s \<le> k
    \<and> (\<forall>i operational.
         (at_phase s i (Acquired operational) \<longrightarrow> (\<exists>p t. enter operational s = (Inr p, t)))
       \<and> (at_phase s i (Serving operational) \<longrightarrow> (\<exists>t. release_slot operational s = (Inr (), t)))
       \<and> (at_phase s i (Releasing operational) \<longrightarrow> (\<exists>t. count_out operational s = (Inr (), t))))
    \<and> (sv_draining s \<and> drained s \<longrightarrow> (\<forall>t. server_step\<^sup>*\<^sup>* s t \<longrightarrow> drained t \<and> in_phases counted t = 0))"
proof -
  have ok: "server_ok s" by (rule admission.inv_steps [OF assms new_server_ok])
  have "sv_max_workers s = m \<and> sv_max_operational s = k"
    by (rule limits.inv_steps [OF assms]) (simp add: new_server_def)
  with serving_bounded [OF ok, of False] serving_bounded [OF ok, of True]
  have "in_phases (\<lambda>p. p = Serving False) s \<le> m \<and> in_phases (\<lambda>p. p = Serving True) s \<le> k" by (simp add: limit_of_def)
  moreover have "drained t \<and> in_phases counted t = 0" if "sv_draining s \<and> drained s" "server_step\<^sup>*\<^sup>* s t" for t
    using drained.inv_steps [OF that(2)] ok that(1) drained_serves_none by blast
  ultimately show ?thesis using sections_return [OF ok] by blast
qed

definition serving0 :: server where
  \<comment> \<open>a server with one worker that serves one request while a second one waits for a slot\<close>
  "serving0 = (new_server 1 1)\<lparr>sv_requests := [Serving False, Checked False], sv_work_slots := 0, sv_active := 1\<rparr>"

lemma serving0_reached: "server_step\<^sup>*\<^sup>* (new_server 1 1) serving0"
proof -
  let ?s = "\<lambda>ps. (new_server 1 1)\<lparr>sv_requests := ps\<rparr>"
  have "server_step (new_server 1 1) (?s [Arrived False])"
    using server_step.arrive [of "new_server 1 1" False] by (simp add: new_server_def)
  moreover have "server_step (?s [Arrived False]) (?s [Arrived False, Arrived False])"
    using server_step.arrive [of "?s [Arrived False]" False] by simp
  moreover have "server_step (?s [Arrived False, Arrived False]) (?s [Checked False, Arrived False])"
    using server_step.look [of "?s [Arrived False, Arrived False]" 0 False]
    by (simp add: at_phase_def set_phase_def look_def new_server_def)
  moreover have "server_step (?s [Checked False, Arrived False]) (?s [Checked False, Checked False])"
    using server_step.look [of "?s [Checked False, Arrived False]" 1 False]
    by (simp add: at_phase_def set_phase_def look_def new_server_def)
  moreover have "server_step (?s [Checked False, Checked False]) ((?s [Acquired False, Checked False])\<lparr>sv_work_slots := 0\<rparr>)"
    using server_step.acquire [of "?s [Checked False, Checked False]" 0 False]
    by (simp add: at_phase_def set_phase_def phase_defs new_server_def)
  moreover have "server_step ((?s [Acquired False, Checked False])\<lparr>sv_work_slots := 0\<rparr>) serving0"
    using server_step.enter [of "(?s [Acquired False, Checked False])\<lparr>sv_work_slots := 0\<rparr>" 0 False]
    by (simp add: at_phase_def set_phase_def phase_defs new_server_def serving0_def enter_def)
  ultimately show ?thesis by (meson rtranclp.rtrancl_into_rtrancl rtranclp.rtrancl_refl)
qed

theorem admission_is_bounded_witness:
  "in_phases (\<lambda>p. p = Serving False) serving0 = 1 \<and> in_phases (\<lambda>p. p = Serving False) serving0 \<le> 1
     \<and> (\<exists>t. release_slot False serving0 = (Inr (), t))"
proof -
  have "at_phase serving0 0 (Serving False)" by (simp add: at_phase_def serving0_def)
  with admission_is_bounded [OF serving0_reached] show ?thesis by (auto simp: in_phases_def serving0_def)
qed

section \<open>Processes\<close>




section \<open>Evidence\<close>

text \<open>
  C35. A run of the evidence runner always comes to an end, whatever the command does with its pipes and
  whatever the files on disk are: if time passes (every moment is behind all but finitely many readings of the
  monotonic clock), \<open>run\<close> returns a receipt or raises.
\<close>

theorem evidence_runs_end:
  assumes "check_policy (rn_policy R) = Inr ()" and "ticking (rw_clock w)"
  shows "\<exists>r w'. run_command os E R argv cwd env stdin artifacts correlation_id w = Some (r, w')"
  using run_command_returns [OF assms(2)] policy_cap [OF assms(1)] by (metis not_Some_eq surj_pair)

theorem evidence_runs_end_witness:
  "\<exists>r w'. run_command re0 E0 runner0 [''cmd0'', ''hi''] ''/w'' [] None [''out''] (Some ''c1'') world0 = Some (r, w')"
proof (rule evidence_runs_end)
  show "check_policy (rn_policy runner0) = Inr ()" using policy0_accepted by (simp add: runner0_def)
qed (rule world0_ticking)



section \<open>The private benchmark worker\<close>

text \<open>
  C37. Worker and controller fit together. Whatever aggregate the worker signs for a request, a controller that
  holds the same key and checks it within its lifetime accepts it for the nonce of that request, the digest
  of the suite the worker read and the fingerprint of the candidate, which was the same before and after the
  cases ran: no forbidden key, consistent counters, and scores within their bounds.
\<close>

theorem worker_receipts_are_accepted:
  assumes "evaluate_worker os view xv E parse a input w = Some (Inr receipt, w')"
    and "hmac_ok E" "casefold_ok (osenv.truncate os)"
    and "load_hmac_key (osenv.truncate os) (view 0) (wa_signing_key a) = Inr key" "map_of (vr_keys vr) (wa_key_id a) = Some key"
    and "int_field receipt ''issued_at'' \<le> t + vr_clock_skew_seconds vr"
      "t \<le> int_field receipt ''issued_at'' + 300 + vr_clock_skew_seconds vr"
  shows "\<exists>q executable cwd suite fp. read_request parse input = Inr q
    \<and> os_resolve os (os_expanduser os (hd (wq_argv q))) = Inr executable \<and> os_resolve os (os_expanduser os (wq_cwd q)) = Inr cwd
    \<and> opaque_suite_digest (osenv.truncate os) (view 0) E (wa_benchmark a) = Inr suite
    \<and> candidate_fingerprint (osenv.truncate os) (view 1) E (executable # tl (wq_argv q)) (Some cwd) = Inr fp
    \<and> candidate_fingerprint (osenv.truncate os) (view 2) E (executable # tl (wq_argv q)) (Some cwd) = Inr fp
    \<and> validate_aggregate_receipt (osenv.truncate os) E vr t receipt (wa_tenant_id a) (wq_nonce q) suite fp = Inr receipt"
proof -
  from evaluate_worker_Inr [OF assms(1)] obtain j n points w1 where
    j: "open_job os view xv E parse a input = Inr j"
    and cases: "run_cases os E parse j (pb_cases (wj_suite j)) 0 0 w = Some (Inr (n, points), w1)"
    and signed: "sign_aggregate os (view 2) E a j n points w1 = (Inr receipt, w')" .
  from open_job_Inr [OF j] obtain k executable where
    job: "load_private_benchmark (osenv.truncate os) (view 0) E parse (wa_benchmark a) = Inr (wj_suite j)"
    "load_hmac_key (osenv.truncate os) (view 0) (wa_signing_key a) = Inr k"
    "wj_signer j = \<lparr>sg_keys = [(wa_key_id a, k)], sg_active_key_id = wa_key_id a\<rparr>" "wa_key_id a \<noteq> []"
    "read_request parse input = Inr (wj_request j)"
    "os_resolve os (os_expanduser os (hd (wq_argv (wj_request j)))) = Inr executable"
    "os_resolve os (os_expanduser os (wq_cwd (wj_request j))) = Inr (wj_cwd j)"
    "wj_argv j = executable # tl (wq_argv (wj_request j))"
    "candidate_fingerprint (osenv.truncate os) (view 1) E (wj_argv j) (Some (wj_cwd j)) = Inr (wj_fingerprint j)" .
  from sign_aggregate_Inr [OF signed] obtain receipt_id issued_at wall tok where
    fp: "candidate_fingerprint (osenv.truncate os) (view 2) E (wj_argv j) (Some (wj_cwd j)) = Inr (wj_fingerprint j)"
    and s: "sign E (wj_signer j) wall tok (aggregate_payload j receipt_id issued_at n points) ''hidden-benchmark-aggregate''
       (wa_tenant_id a) (Some 300) None (Some (wq_nonce (wj_request j))) = Inr receipt" .
  note suite = load_private_benchmark_ok [OF job(1)]
  have "\<forall>c \<in> set (pb_cases (wj_suite j)). 0 \<le> bc_weight_micros c" using suite(3) by force
  from run_cases_bounds [OF cases this] loaded_maximum_positive [OF job(1)]
  have counters: "check_counters (aggregate_benchmark (wj_suite j)) (aggregate_result (wj_suite j) n points) = Inr ()"
    by (intro aggregate_counters) (simp_all add: maximum_score_def)
  have "validate_aggregate_receipt (osenv.truncate os) E vr t receipt (wa_tenant_id a) (wq_nonce (wj_request j))
      (pb_suite_sha256 (wj_suite j)) (wj_fingerprint j) = Inr receipt"
    using assms(4-) job(2-4) by (intro aggregate_accepted [OF s assms(2,3) _ _ assms(6,7) suite(2) counters]) simp_all
  with job suite(1) fp show ?thesis by (intro exI [of _ "wj_request j"]) auto
qed

theorem worker_receipts_are_accepted_witness:
  "\<exists>q executable cwd suite fp. read_request parse1 ''request'' = Inr q
    \<and> os_resolve re0 (os_expanduser re0 (hd (wq_argv q))) = Inr executable \<and> os_resolve re0 (os_expanduser re0 (wq_cwd q)) = Inr cwd
    \<and> opaque_suite_digest os1 (files1 0) E0 (wa_benchmark args1) = Inr suite
    \<and> candidate_fingerprint os1 (files1 1) E0 (executable # tl (wq_argv q)) (Some cwd) = Inr fp
    \<and> candidate_fingerprint os1 (files1 2) E0 (executable # tl (wq_argv q)) (Some cwd) = Inr fp
    \<and> validate_aggregate_receipt os1 E0 \<lparr>vr_keys = [(''k1'', key1)], vr_clock_skew_seconds = 0\<rparr> 100 aggregate1 (wa_tenant_id args1)
        (wq_nonce q) suite fp = Inr aggregate1"
proof (rule worker_receipts_are_accepted [OF evaluate1 E0_hmac])
  show "casefold_ok os1" by (simp add: casefold_ok_def re0_def osenv.truncate_def)
  show "load_hmac_key os1 (files1 0) (wa_signing_key args1) = Inr key1" using load_hmac_key1 by (simp add: args1_def)
  have "int_field aggregate1 ''issued_at'' = 100" by code_simp
  then show "int_field aggregate1 ''issued_at'' \<le> 100 + vr_clock_skew_seconds \<lparr>vr_keys = [(''k1'', key1)], vr_clock_skew_seconds = 0\<rparr>"
    "100 \<le> int_field aggregate1 ''issued_at'' + 300 + vr_clock_skew_seconds \<lparr>vr_keys = [(''k1'', key1)], vr_clock_skew_seconds = 0\<rparr>"
    by simp_all
qed (simp add: args1_def)

end
