(* ===== verification/Backup.thy ===== *)
theory Backup
  imports Artifacts PyObjects Store "HOL-Library.Product_Lexorder"
begin

text \<open>
  Backup bundles and their restoration (\<open>src/agent_tree_rl/backup.py\<close>).

  An archive is the list of its ZIP members. \<open>bk_sqlite\<close> opens a database file: the answers of the two
  pragmas that check it, its schema version and its tables. \<open>bk_parse\<close> is \<open>json.loads\<close> with the hook that
  rejects duplicate keys. \<open>disk\<close> holds what a restore reads and writes: the database, the artifact
  tree, the recovery marker and the stage directories by their paths. Every change of the disk is an
  \<open>effect\<close>: it may fail (\<open>rs_faults\<close>), and the disk it leaves is appended to \<open>rs_trace\<close>, so a crash of
  the process leaves one of the disks of the trace. Changes reach the disk in order; permission bits and
  parent directories are left out. No other process writes these paths.
\<close>

definition FORMAT :: string where "FORMAT = ''agent-tree-rl-backup''"
definition FORMAT_VERSION :: int where "FORMAT_VERSION = 1"
definition DATABASE_MEMBER :: string where "DATABASE_MEMBER = ''state.sqlite3''"
definition MANIFEST_MEMBER :: string where "MANIFEST_MEMBER = ''manifest.json''"
definition SIGNATURE_MEMBER :: string where "SIGNATURE_MEMBER = ''manifest.hmac.json''"
definition MAX_MANIFEST_BYTES :: int where "MAX_MANIFEST_BYTES = 1024 * 1024"
definition MAX_DATABASE_BYTES :: int where "MAX_DATABASE_BYTES = 64 * 1024 * 1024 * 1024"
definition MAX_BUNDLE_CONTENT_BYTES :: int where "MAX_BUNDLE_CONTENT_BYTES = 128 * 1024 * 1024 * 1024"
definition MAX_SIGNATURE_BYTES :: int where "MAX_SIGNATURE_BYTES = 16 * 1024"

record db_snapshot =
  sn_integrity :: "string list"
  sn_foreign_keys :: nat
  sn_user_version :: int
  sn_db :: db

record backup_env =
  bk_sqlite :: "string \<Rightarrow> db_snapshot result"
  bk_parse :: "string \<Rightarrow> json option"
  bk_service_version :: string

section \<open>Snapshots of the database\<close>

type_synonym inspected = "int \<times> artifact_row list \<times> champion_row list"

definition inspect_snapshot :: "backup_env \<Rightarrow> string \<Rightarrow> inspected result" where
  \<comment> \<open>\<open>_inspect_snapshot\<close>; of an artifact row only the tenant, the ID, the digest and the URI are used\<close>
  "inspect_snapshot B bytes =
     bindR (bk_sqlite B bytes) (\<lambda>s.
     bindR (guardR (sn_integrity s = [''ok'']) BackupError ''database integrity failed'') (\<lambda>_.
     bindR (guardR (sn_foreign_keys s = 0) BackupError ''database foreign-key check failed'') (\<lambda>_.
     bindR (guardR (sn_user_version s = SCHEMA_VERSION) BackupError ''unsupported schema version'') (\<lambda>_.
     Inr (sn_user_version s, sort_key ar_tenant_id (sort_key ar_artifact_id (policy_artifacts (sn_db s))),
          sort_key ch_tenant_id (sort_key ch_policy_name (champion_registry (sn_db s))))))))"

definition champion_value :: "champion_row \<Rightarrow> json" where
  "champion_value r = JObj [(''tenant_id'', JStr (ch_tenant_id r)), (''policy_name'', JStr (ch_policy_name r)),
     (''artifact_id'', JStr (ch_artifact_id r)), (''generation'', JInt (ch_generation r))]"

definition champion_matches :: "champion_row \<Rightarrow> json \<Rightarrow> bool" where
  \<comment> \<open>\<open>dict(row) == value\<close>\<close>
  "champion_matches r v = (case v of
      JObj kvs \<Rightarrow> fst ` set kvs = {''tenant_id'', ''policy_name'', ''artifact_id'', ''generation''}
        \<and> entry kvs ''tenant_id'' = JStr (ch_tenant_id r) \<and> entry kvs ''policy_name'' = JStr (ch_policy_name r)
        \<and> entry kvs ''artifact_id'' = JStr (ch_artifact_id r) \<and> py_eq_int (entry kvs ''generation'') (ch_generation r)
    | _ \<Rightarrow> False)"

definition champions_match :: "champion_row list \<Rightarrow> json \<Rightarrow> bool" where
  "champions_match rows v = (case v of JList vs \<Rightarrow> list_all2 champion_matches rows vs | _ \<Rightarrow> False)"

section \<open>The manifest\<close>

definition hex_digest :: "json \<Rightarrow> string result" where
  \<comment> \<open>\<open>_hex_digest\<close>\<close>
  "hex_digest v = (case v of
      JStr s \<Rightarrow> bindR (guardR (is_sha256 s) BackupError ''manifest SHA-256 is invalid'') (\<lambda>_. Inr s)
    | _ \<Rightarrow> raiseR BackupError ''manifest SHA-256 is invalid'')"

definition size_digest :: "json dict \<Rightarrow> int \<Rightarrow> (int \<times> string) result" where
  \<comment> \<open>\<open>_size_digest\<close>\<close>
  "size_digest kvs cap = (case entry kvs ''size_bytes'' of
      JInt n \<Rightarrow> bindR (guardR (0 \<le> n \<and> n \<le> cap) BackupError ''manifest size is invalid'') (\<lambda>_.
                bindR (hex_digest (entry kvs ''sha256'')) (\<lambda>d. Inr (n, d)))
    | _ \<Rightarrow> raiseR BackupError ''manifest size is invalid'')"

definition object_member :: "string \<Rightarrow> string result" where
  \<comment> \<open>\<open>_object_member\<close>\<close>
  "object_member d = bindR (hex_digest (JStr d)) (\<lambda>d. Inr (''objects/sha256/'' @ take 2 d @ ''/'' @ d @ ''.json''))"

record object_entry =
  oe_member :: string
  oe_size_bytes :: int
  oe_sha256 :: string

record manifest =
  mf_value :: json
  mf_database :: object_entry
  mf_objects :: "object_entry list"
  mf_artifacts :: "(json \<times> string) list"

definition iterate :: "json \<Rightarrow> json list result" where
  \<comment> \<open>\<open>for item in value\<close>\<close>
  "iterate v = (case v of
      JList vs \<Rightarrow> Inr vs
    | JObj kvs \<Rightarrow> Inr (map (JStr \<circ> fst) kvs)
    | JStr s \<Rightarrow> Inr (map (\<lambda>c. JStr [c]) s)
    | _ \<Rightarrow> raiseR TypeError ''object is not iterable'')"

definition object_item :: "json \<Rightarrow> object_entry list \<Rightarrow> object_entry list result" where
  \<comment> \<open>the body of the loop over \<open>objects\<close>\<close>
  "object_item item seen =
     bindR (with_keys item [''member'', ''size_bytes'', ''sha256''] BackupError ''object manifest entry is invalid'') (\<lambda>kvs.
     bindR (size_digest kvs MAX_POLICY_BYTES) (\<lambda>(n, d).
     bindR (object_member d) (\<lambda>member.
     bindR (guardR (entry kvs ''member'' = JStr member) BackupError ''object member is not canonical'') (\<lambda>_.
     bindR (guardR (member \<notin> oe_member ` set seen \<and> d \<notin> oe_sha256 ` set seen) BackupError ''duplicate object manifest entry'') (\<lambda>_.
     Inr (seen @ [\<lparr>oe_member = member, oe_size_bytes = n, oe_sha256 = d\<rparr>]))))))"

definition sized :: "json \<Rightarrow> int result" where
  \<comment> \<open>\<open>len(value)\<close>\<close>
  "sized v = (case v of
      JStr s \<Rightarrow> Inr (py_len s)
    | JList vs \<Rightarrow> Inr (int (length vs))
    | JObj kvs \<Rightarrow> Inr (int (length kvs))
    | _ \<Rightarrow> raiseR TypeError ''object has no len()'')"

definition artifact_item :: "json \<Rightarrow> (json \<times> string) result" where
  \<comment> \<open>the body of the loop over \<open>artifacts\<close>\<close>
  "artifact_item item =
     bindR (with_keys item [''tenant_namespace'', ''content_sha256''] BackupError ''artifact manifest entry is invalid'') (\<lambda>kvs.
     bindR (sized (entry kvs ''tenant_namespace'')) (\<lambda>n.
     bindR (guardR (n = 20) BackupError ''tenant namespace is invalid'') (\<lambda>_.
     bindR (hex_digest (entry kvs ''content_sha256'')) (\<lambda>d. Inr (entry kvs ''tenant_namespace'', d)))))"

definition MANIFEST_KEYS :: "string list" where
  "MANIFEST_KEYS = [''format'', ''format_version'', ''created_at'', ''service_version'', ''schema_version'', ''database'',
     ''objects'', ''artifacts'', ''champions'']"

definition is_list :: "json \<Rightarrow> bool" where
  "is_list v = (case v of JList _ \<Rightarrow> True | _ \<Rightarrow> False)"

definition validate_manifest :: "json \<Rightarrow> manifest result" where
  \<comment> \<open>\<open>_validate_manifest\<close>; the fields that later steps use are returned beside the value\<close>
  "validate_manifest v =
     bindR (with_keys v MANIFEST_KEYS BackupError ''backup manifest shape is invalid'') (\<lambda>kvs.
     bindR (guardR (entry kvs ''format'' = JStr FORMAT \<and> py_eq_int (entry kvs ''format_version'') FORMAT_VERSION) BackupError
              ''unsupported backup format'') (\<lambda>_.
     bindR (guardR (py_eq_int (entry kvs ''schema_version'') SCHEMA_VERSION) BackupError ''unsupported manifest schema'') (\<lambda>_.
     bindR (with_keys (entry kvs ''database'') [''member'', ''size_bytes'', ''sha256''] BackupError ''database manifest is invalid'') (\<lambda>database.
     bindR (guardR (entry database ''member'' = JStr DATABASE_MEMBER) BackupError ''database member is invalid'') (\<lambda>_.
     bindR (size_digest database MAX_DATABASE_BYTES) (\<lambda>(n, d).
     bindR (iterate (entry kvs ''objects'')) (\<lambda>items.
     bindR (guardR (list_all is_obj items) BackupError ''object manifest is invalid'') (\<lambda>_.
     bindR (foldR object_item items []) (\<lambda>objects.
     bindR (iterate (entry kvs ''artifacts'')) (\<lambda>artifacts.
     bindR (mapR artifact_item artifacts) (\<lambda>artifacts.
     bindR (guardR (is_list (entry kvs ''champions'')) BackupError ''champion manifest is invalid'') (\<lambda>_.
     Inr \<lparr>mf_value = v, mf_database = \<lparr>oe_member = DATABASE_MEMBER, oe_size_bytes = n, oe_sha256 = d\<rparr>,
          mf_objects = objects, mf_artifacts = artifacts\<rparr>))))))))))))"

definition manifest_entry :: "manifest \<Rightarrow> string \<Rightarrow> json" where
  "manifest_entry m k = (case mf_value m of JObj kvs \<Rightarrow> entry kvs k | _ \<Rightarrow> JNull)"

section \<open>Signatures\<close>

definition strict_json :: "backup_env \<Rightarrow> string \<Rightarrow> json result" where
  \<comment> \<open>\<open>_strict_json\<close>\<close>
  "strict_json B raw = (case bk_parse B raw of Some v \<Rightarrow> Inr v | None \<Rightarrow> raiseR BackupError ''bundle JSON is invalid'')"

definition b64_unpadded :: "string \<Rightarrow> string result" where
  \<comment> \<open>\<open>b64decode(s + padding, altchars=b"-_", validate=True)\<close>\<close>
  "b64_unpadded s = b64_decode_strict (s @ replicate ((4 - length s mod 4) mod 4) CHR ''='')"

definition authentication :: "string \<Rightarrow> string \<Rightarrow> json" where
  \<comment> \<open>the object that carries a signature\<close>
  "authentication key_id sig = JObj [(''algorithm'', JStr ''HMAC-SHA256''), (''key_id'', JStr key_id),
     (''signature'', JStr (b64url_encode sig))]"

definition check_authentication :: "pyenv \<Rightarrow> string \<times> string \<times> string \<Rightarrow> string result \<Rightarrow> json dict \<Rightarrow> keyring \<Rightarrow> string result" where
  \<comment> \<open>the key, the decoded signature and the comparison, with their three messages; returns the key ID\<close>
  "check_authentication E = (\<lambda>(no_key, no_signature, mismatch) raw kvs keys.
     (case entry kvs ''key_id'' of
        JStr key_id \<Rightarrow>
          bindR (guardR (entry kvs ''algorithm'' = JStr ''HMAC-SHA256'' \<and> map_of keys key_id \<noteq> None) BackupError no_key) (\<lambda>_.
          bindR (case entry kvs ''signature'' of
                   JStr s \<Rightarrow> (case b64_unpadded s of Inr b \<Rightarrow> Inr b | Inl _ \<Rightarrow> raiseR BackupError no_signature)
                 | _ \<Rightarrow> raiseR BackupError no_signature) (\<lambda>supplied.
          bindR raw (\<lambda>bytes.
          bindR (guardR (supplied = hmac256 E (the (map_of keys key_id)) bytes) BackupError mismatch) (\<lambda>_.
          Inr key_id))))
      | _ \<Rightarrow> raiseR BackupError no_key))"

definition verify_manifest_signature :: "pyenv \<Rightarrow> string \<Rightarrow> json \<Rightarrow> keyring \<Rightarrow> string result" where
  \<comment> \<open>\<open>_verify_manifest_signature\<close>\<close>
  "verify_manifest_signature E raw v keys =
     bindR (with_keys v [''algorithm'', ''key_id'', ''signature''] BackupError ''backup signature shape is invalid'') (\<lambda>kvs.
     check_authentication E (''backup signature key is unsupported'', ''backup signature is invalid base64url'',
       ''backup manifest authentication failed'') (Inr raw) kvs keys)"

definition authenticated_marker :: "pyenv \<Rightarrow> json dict \<Rightarrow> string \<Rightarrow> string \<Rightarrow> string result" where
  \<comment> \<open>\<open>_authenticated_marker\<close>\<close>
  "authenticated_marker E payload key_id key =
     bindR (canonical_json_bytes E (JObj payload)) (\<lambda>bytes.
     canonical_json_bytes E (JObj [(''payload'', JObj payload), (''authentication'', authentication key_id (hmac256 E key bytes))]))"

definition verify_recovery_marker :: "pyenv \<Rightarrow> backup_env \<Rightarrow> string \<Rightarrow> keyring \<Rightarrow> json dict result" where
  \<comment> \<open>\<open>_verify_recovery_marker\<close>\<close>
  "verify_recovery_marker E B raw keys =
     bindR (strict_json B raw) (\<lambda>envelope.
     bindR (with_keys envelope [''payload'', ''authentication''] BackupError ''restore recovery marker envelope is invalid'') (\<lambda>kvs.
     case (entry kvs ''payload'', entry kvs ''authentication'') of
       (JObj payload, JObj auth) \<Rightarrow>
         bindR (with_keys (JObj auth) [''algorithm'', ''key_id'', ''signature''] BackupError
                  ''restore recovery marker authentication is invalid'') (\<lambda>auth.
         bindR (check_authentication E (''restore recovery marker key is unsupported'', ''restore recovery marker signature is invalid'',
                  ''restore recovery marker authentication failed'') (canonical_json_bytes E (JObj payload)) auth keys) (\<lambda>_.
         Inr payload))
     | _ \<Rightarrow> raiseR BackupError ''restore recovery marker fields are invalid''))"

section \<open>The archive\<close>

record zip_member =
  zm_filename :: string
  zm_stored :: bool
  zm_flag_bits :: int
  zm_external_attr :: int
  zm_file_size :: int
  zm_data :: "string result"

type_synonym infos = "(string \<times> zip_member) list"

definition regular_member :: "zip_member \<Rightarrow> bool" where
  \<comment> \<open>\<open>S_IFMT\<close> of the upper half of the attributes is 0 or \<open>S_IFREG\<close>\<close>
  "regular_member z = (let unix_mode = zm_external_attr z div 65536 mod 65536; file_type = unix_mode div 4096 * 4096
     in file_type = 0 \<or> file_type = 32768)"

definition safe_name :: "string \<Rightarrow> bool" where
  "safe_name name \<longleftrightarrow> name \<noteq> [] \<and> CHR 0x5C \<notin> set name \<and> CHR 0x00 \<notin> set name \<and> \<not> is_absolute name
     \<and> ''..'' \<notin> set (split_on CHR ''/'' name) \<and> last name \<noteq> CHR ''/''"

definition header_item :: "zip_member \<Rightarrow> infos \<Rightarrow> infos result" where
  "header_item z infos =
     bindR (guardR (safe_name (zm_filename z)) BackupError ''unsafe bundle member'') (\<lambda>_.
     bindR (guardR (zm_filename z \<notin> fst ` set infos) BackupError ''duplicate bundle member'') (\<lambda>_.
     bindR (guardR (zm_stored z) BackupError ''unsupported bundle compression'') (\<lambda>_.
     bindR (guardR (even (zm_flag_bits z)) BackupError ''encrypted ZIP members are unsupported'') (\<lambda>_.
     bindR (guardR (regular_member z) BackupError ''bundle members must be regular files'') (\<lambda>_.
     Inr (infos @ [(zm_filename z, z)]))))))"

definition validate_zip_headers :: "zip_member list \<Rightarrow> infos result" where
  \<comment> \<open>\<open>_validate_zip_headers\<close>\<close>
  "validate_zip_headers archive =
     bindR (foldR header_item archive []) (\<lambda>infos.
     bindR (guardR (MANIFEST_MEMBER \<in> fst ` set infos \<and> SIGNATURE_MEMBER \<in> fst ` set infos) BackupError
              ''bundle manifest or signature is missing'') (\<lambda>_.
     Inr infos))"

definition member_named :: "infos \<Rightarrow> string \<Rightarrow> zip_member result" where
  \<comment> \<open>\<open>infos[name]\<close>\<close>
  "member_named infos name = (case map_of infos name of Some z \<Rightarrow> Inr z | None \<Rightarrow> raiseR KeyError ''name'')"

definition read_member :: "zip_member \<Rightarrow> int \<Rightarrow> string result" where
  \<comment> \<open>\<open>_read_member\<close>\<close>
  "read_member z cap =
     bindR (guardR (0 \<le> zm_file_size z \<and> zm_file_size z \<le> cap) BackupError ''bundle member exceeds size cap'') (\<lambda>_.
     bindR (zm_data z) (\<lambda>content.
     let data = take (nat (cap + 1)) content in
     bindR (guardR (int (length data) = zm_file_size z \<and> int (length data) \<le> cap) BackupError
              ''bundle member size is inconsistent'') (\<lambda>_.
     Inr data)))"

definition authenticated_bundle_manifest ::
  "pyenv \<Rightarrow> backup_env \<Rightarrow> keyring \<Rightarrow> zip_member list result \<Rightarrow> (infos \<times> string \<times> manifest) result" where
  \<comment> \<open>\<open>_authenticated_bundle_manifest\<close>, and the same steps of \<open>restore_bundle\<close>, which also keeps the members and the key ID\<close>
  "authenticated_bundle_manifest E B keys bundle =
     bindR bundle (\<lambda>archive.
     bindR (validate_zip_headers archive) (\<lambda>infos.
     bindR (member_named infos MANIFEST_MEMBER) (\<lambda>z.
     bindR (read_member z MAX_MANIFEST_BYTES) (\<lambda>manifest_bytes.
     bindR (member_named infos SIGNATURE_MEMBER) (\<lambda>z.
     bindR (read_member z MAX_SIGNATURE_BYTES) (\<lambda>raw.
     bindR (strict_json B raw) (\<lambda>signature.
     bindR (verify_manifest_signature E manifest_bytes signature keys) (\<lambda>key_id.
     bindR (strict_json B manifest_bytes) (\<lambda>v.
     bindR (validate_manifest v) (\<lambda>m.
     bindR (guardR (fst ` set infos = {MANIFEST_MEMBER, SIGNATURE_MEMBER, DATABASE_MEMBER} \<union> oe_member ` set (mf_objects m))
              BackupError ''bundle members do not exactly match the manifest'') (\<lambda>_.
     Inr (infos, key_id, m))))))))))))"

section \<open>Creating a bundle\<close>

definition check_row :: "pyenv \<Rightarrow> string \<Rightarrow> string \<Rightarrow> artifact_row \<Rightarrow> unit result" where
  \<comment> \<open>the two checks of a row that every loop over the rows makes\<close>
  "check_row E bad_id bad_uri r =
     bindR (guardR (ar_artifact_id r = ''policy-'' @ ar_content_sha256 r) BackupError bad_id) (\<lambda>_.
     bindR (policy_artifact_uri E (ar_tenant_id r) (ar_content_sha256 r)) (\<lambda>uri.
     guardR (ar_artifact_uri r = uri) BackupError bad_uri))"

definition collect_artifact ::
  "pyenv \<Rightarrow> (string \<Rightarrow> file_view) \<Rightarrow> string \<Rightarrow> artifact_row \<Rightarrow> (string \<times> string) list \<times> (string \<times> string) list
     \<Rightarrow> ((string \<times> string) list \<times> (string \<times> string) list) result" where
  \<comment> \<open>the body of the loop of \<open>create_bundle\<close>: the objects by digest and the entries of the manifest\<close>
  "collect_artifact E view artifact_root r = (\<lambda>(objects, entries).
     bindR (check_row E ''policy artifact ID is not content-addressed'' ''policy artifact URI is not canonical'' r) (\<lambda>_.
     let d = ar_content_sha256 r in
     bindR (if d \<in> fst ` set objects then Inr objects
            else bindR (policy_artifact_path E artifact_root (ar_tenant_id r) d) (\<lambda>path.
                 bindR (read_verified_policy E (view path) d) (\<lambda>data.
                 Inr (objects @ [(d, data)])))) (\<lambda>objects.
     bindR (tenant_namespace E (ar_tenant_id r)) (\<lambda>ns.
     Inr (objects, entries @ [(ns, d)])))))"

definition object_json :: "object_entry \<Rightarrow> json" where
  "object_json e = JObj [(''member'', JStr (oe_member e)), (''size_bytes'', JInt (oe_size_bytes e)), (''sha256'', JStr (oe_sha256 e))]"

definition object_entry_for :: "string \<times> string \<Rightarrow> object_entry result" where
  "object_entry_for = (\<lambda>(d, data). bindR (object_member d) (\<lambda>member.
     Inr \<lparr>oe_member = member, oe_size_bytes = int (length data), oe_sha256 = d\<rparr>))"

definition artifact_entry_json :: "string \<times> string \<Rightarrow> json" where
  "artifact_entry_json = (\<lambda>(ns, d). JObj [(''tenant_namespace'', JStr ns), (''content_sha256'', JStr d)])"

definition manifest_json ::
  "string \<Rightarrow> int \<Rightarrow> int \<Rightarrow> object_entry \<Rightarrow> object_entry list \<Rightarrow> (string \<times> string) list \<Rightarrow> champion_row list \<Rightarrow> json dict" where
  "manifest_json service_version created_at schema database objects artifacts champions =
     [(''format'', JStr FORMAT), (''format_version'', JInt FORMAT_VERSION), (''created_at'', JInt created_at),
      (''service_version'', JStr service_version), (''schema_version'', JInt schema), (''database'', object_json database),
      (''objects'', JList (map object_json objects)), (''artifacts'', JList (map artifact_entry_json artifacts)),
      (''champions'', JList (map champion_value champions))]"

definition written :: "string \<Rightarrow> int \<Rightarrow> string \<Rightarrow> zip_member" where
  \<comment> \<open>a member as \<open>zipfile\<close> writes it\<close>
  "written name attr data = \<lparr>zm_filename = name, zm_stored = True, zm_flag_bits = 0, zm_external_attr = attr,
     zm_file_size = int (length data), zm_data = Inr data\<rparr>"

definition WRITESTR_ATTR :: int where "WRITESTR_ATTR = 384 * 65536" \<comment> \<open>\<open>0o600 << 16\<close>\<close>
definition FILE_ATTR :: int where "FILE_ATTR = 33152 * 65536" \<comment> \<open>\<open>(S_IFREG | 0o600) << 16\<close>\<close>

definition sign_bytes :: "pyenv \<Rightarrow> string \<Rightarrow> string \<Rightarrow> string \<Rightarrow> string result" where
  "sign_bytes E key_id key bytes = canonical_json_bytes E (authentication key_id (hmac256 E key bytes))"

definition create_bundle ::
  "pyenv \<Rightarrow> backup_env \<Rightarrow> (string \<Rightarrow> file_view) \<Rightarrow> string \<Rightarrow> string \<Rightarrow> keyring \<Rightarrow> string \<Rightarrow> int \<Rightarrow> bool \<Rightarrow> zip_member list result" where
  \<comment> \<open>\<open>create_bundle\<close> on the bytes of the snapshot; the archive is published by one rename at the end, so a failure leaves no bundle\<close>
  "create_bundle E B view artifact_root data keys active_key_id created_at target_exists =
     bindR (guardR (\<not> target_exists) FileExistsError ''refusing to overwrite backup'') (\<lambda>_.
     bindR (case map_of keys active_key_id of Some k \<Rightarrow> Inr k | None \<Rightarrow> raiseR BackupError ''active backup key is unavailable'') (\<lambda>key.
     bindR (inspect_snapshot B data) (\<lambda>(schema, rows, champions).
     bindR (foldR (collect_artifact E view artifact_root) rows ([], [])) (\<lambda>(objects, artifacts).
     let objects = sort_key fst objects in
     bindR (mapR object_entry_for objects) (\<lambda>entries.
     bindR (guardR (int (length data) + sum_list (map oe_size_bytes entries) \<le> MAX_BUNDLE_CONTENT_BYTES) BackupError
              ''backup content exceeds cumulative size cap'') (\<lambda>_.
     bindR (guardR (int (length data) \<le> MAX_DATABASE_BYTES) BackupError ''database snapshot exceeds size cap'') (\<lambda>_.
     bindR (canonical_json_bytes E (JObj (manifest_json (bk_service_version B) created_at schema
              \<lparr>oe_member = DATABASE_MEMBER, oe_size_bytes = int (length data), oe_sha256 = sha256 E data\<rparr>
              entries (sort artifacts) champions))) (\<lambda>manifest_bytes.
     bindR (sign_bytes E active_key_id key manifest_bytes) (\<lambda>signature_bytes.
     Inr ([written MANIFEST_MEMBER WRITESTR_ATTR manifest_bytes, written SIGNATURE_MEMBER WRITESTR_ATTR signature_bytes,
           written DATABASE_MEMBER FILE_ATTR data]
          @ map (\<lambda>(e, (_, content)). written (oe_member e) FILE_ATTR content) (zip entries objects)))))))))))"

section \<open>The disk of a restore\<close>

datatype tree_node = TreeFile string | TreeUnsafe \<comment> \<open>a regular file, or a link or special file\<close>
type_synonym tree = "(string \<times> tree_node) list" \<comment> \<open>by the path below the root\<close>
datatype tree_root = Directory tree | OtherRoot bool \<comment> \<open>no directory or a link; whether \<open>is_dir()\<close>\<close>

record stage =
  sd_database :: "string option"
  sd_objects :: "(string \<times> string) list"
  sd_artifacts :: "tree option"

record disk =
  dk_database :: "string option"
  dk_sidecars :: bool \<comment> \<open>a \<open>-wal\<close> or \<open>-shm\<close> file exists\<close>
  dk_artifacts :: "tree_root option"
  dk_marker :: "string option"
  dk_stages :: "(string \<times> stage) list"

record restore_world =
  rs_disk :: disk
  rs_trace :: "disk list"
  rs_faults :: "nat \<Rightarrow> py_error option"
  rs_effects :: nat
  rs_temp :: "nat \<Rightarrow> string" \<comment> \<open>the random ends of the names of \<open>mkdtemp\<close>\<close>
  rs_temps :: nat

record restore_target =
  rt_parent :: string \<comment> \<open>\<open>database_path.parent\<close>\<close>
  rt_database_path :: string
  rt_artifact_root :: string

type_synonym 'a restoring = "(restore_world, 'a) action"

definition effect :: "(disk \<Rightarrow> disk) \<Rightarrow> unit restoring" where
  "effect f w = (case rs_faults w (rs_effects w) of
      Some e \<Rightarrow> (Inl e, w\<lparr>rs_effects := Suc (rs_effects w)\<rparr>)
    | None \<Rightarrow> (Inr (), w\<lparr>rs_effects := Suc (rs_effects w), rs_disk := f (rs_disk w), rs_trace := rs_trace w @ [f (rs_disk w)]\<rparr>))"

definition discard :: "(disk \<Rightarrow> disk) \<Rightarrow> unit restoring" where
  \<comment> \<open>\<open>rmtree(..., ignore_errors=True)\<close>\<close>
  "discard f = catch (effect f) (\<lambda>_. ret ())"

definition sync :: "unit restoring" where
  \<comment> \<open>\<open>fsync\<close> of a file or of a directory, \<open>chmod\<close>\<close>
  "sync = effect (\<lambda>d. d)"

definition disk_get :: "(disk \<Rightarrow> 'a) \<Rightarrow> 'a restoring" where
  "disk_get f = get (\<lambda>w. f (rs_disk w))"

datatype place = Marker | StagedDatabase string | StagedObject string string | StagedArtifact string string

definition on_stage :: "string \<Rightarrow> (stage \<Rightarrow> stage) \<Rightarrow> disk \<Rightarrow> disk" where
  "on_stage p f d = d\<lparr>dk_stages := map (\<lambda>(q, s). (q, if q = p then f s else s)) (dk_stages d)\<rparr>"

definition stage_of :: "string \<Rightarrow> disk \<Rightarrow> stage" where
  "stage_of p d = (case map_of (dk_stages d) p of Some s \<Rightarrow> s | None \<Rightarrow> \<lparr>sd_database = None, sd_objects = [], sd_artifacts = None\<rparr>)"

definition put_entry :: "string \<Rightarrow> 'v option \<Rightarrow> (string \<times> 'v) list \<Rightarrow> (string \<times> 'v) list" where
  "put_entry k v xs = filter (\<lambda>(q, _). q \<noteq> k) xs @ (case v of Some x \<Rightarrow> [(k, x)] | None \<Rightarrow> [])"

fun content_at :: "place \<Rightarrow> disk \<Rightarrow> string option" where
  "content_at Marker d = dk_marker d"
| "content_at (StagedDatabase p) d = sd_database (stage_of p d)"
| "content_at (StagedObject p k) d = map_of (sd_objects (stage_of p d)) k"
| "content_at (StagedArtifact p k) d = (case sd_artifacts (stage_of p d) of
     Some t \<Rightarrow> (case map_of t k of Some (TreeFile c) \<Rightarrow> Some c | _ \<Rightarrow> None) | None \<Rightarrow> None)"

fun put_at :: "place \<Rightarrow> string option \<Rightarrow> disk \<Rightarrow> disk" where
  "put_at Marker v d = d\<lparr>dk_marker := v\<rparr>"
| "put_at (StagedDatabase p) v d = on_stage p (\<lambda>s. s\<lparr>sd_database := v\<rparr>) d"
| "put_at (StagedObject p k) v d = on_stage p (\<lambda>s. s\<lparr>sd_objects := put_entry k v (sd_objects s)\<rparr>) d"
| "put_at (StagedArtifact p k) v d = on_stage p (\<lambda>s. s\<lparr>sd_artifacts := map_option (put_entry k (map_option TreeFile v)) (sd_artifacts s)\<rparr>) d"

definition create_file :: "place \<Rightarrow> unit restoring" where
  \<comment> \<open>\<open>os.open(path, O_CREAT | O_EXCL | O_WRONLY)\<close>\<close>
  "create_file x = bind (disk_get (content_at x)) (\<lambda>c.
     andthen (require (c = None) FileExistsError ''File exists'') (effect (put_at x (Some []))))"

definition unlink_present :: "place \<Rightarrow> unit restoring" where
  \<comment> \<open>\<open>unlink()\<close> that passes on \<open>FileNotFoundError\<close>\<close>
  "unlink_present x = bind (disk_get (content_at x)) (\<lambda>c. if c = None then ret () else effect (put_at x None))"

definition filled :: "place \<Rightarrow> unit restoring \<Rightarrow> unit restoring" where
  \<comment> \<open>a new file that is removed again if its contents fail\<close>
  "filled x body = andthen (create_file x) (catch body (\<lambda>e. andthen (unlink_present x) (throw e)))"

definition write_private :: "place \<Rightarrow> string \<Rightarrow> unit restoring" where
  \<comment> \<open>\<open>_write_private\<close>\<close>
  "write_private x data = filled x (andthen (effect (put_at x (Some data))) sync)"

definition copy_verified_member :: "pyenv \<Rightarrow> zip_member \<Rightarrow> place \<Rightarrow> int \<Rightarrow> string \<Rightarrow> int \<Rightarrow> unit restoring" where
  \<comment> \<open>\<open>_copy_verified_member\<close>\<close>
  "copy_verified_member E z x expected_size expected_digest cap =
     andthen (require (0 \<le> zm_file_size z \<and> zm_file_size z \<le> cap \<and> zm_file_size z = expected_size) BackupError
                ''bundle member size is inconsistent'')
     (filled x (bind (lift (zm_data z)) (\<lambda>data.
        andthen (require (int (length data) \<le> cap) BackupError ''bundle member exceeds size cap'')
        (andthen (effect (put_at x (Some data)))
        (andthen sync
        (require (int (length data) = expected_size \<and> sha256 E data = expected_digest) BackupError
           ''bundle member hash or size mismatch''))))))"

definition copy_private_file :: "place \<Rightarrow> place \<Rightarrow> unit restoring" where
  \<comment> \<open>\<open>_copy_private_file\<close>\<close>
  "copy_private_file source x = filled x (bind (disk_get (content_at source)) (\<lambda>c. case c of
      Some data \<Rightarrow> andthen (effect (put_at x (Some data))) sync
    | None \<Rightarrow> raise FileNotFoundError ''No such file or directory''))"

section \<open>Artifact trees\<close>

definition artifact_name :: "pyenv \<Rightarrow> artifact_row \<Rightarrow> string result" where
  \<comment> \<open>\<open>policy_artifact_path(...)\<close> relative to the root\<close>
  "artifact_name E r = bindR (policy_artifact_path E [] (ar_tenant_id r) (ar_content_sha256 r)) (\<lambda>p. Inr (tl p))"

definition tree_view :: "tree \<Rightarrow> string \<Rightarrow> file_view" where
  \<comment> \<open>what the calls on a path of the tree answer\<close>
  "tree_view t k = (case map_of t k of
      Some (TreeFile c) \<Rightarrow>
        (let st = \<lparr>fs_kind = RegularFile, fs_dev = 0, fs_ino = 0, fs_size = int (length c), fs_mode = 416, fs_uid = 0\<rparr>
         in \<lparr>fv_lstat = Inr st, fv_open = Inr (st, c)\<rparr>)
    | Some TreeUnsafe \<Rightarrow>
        \<lparr>fv_lstat = Inr \<lparr>fs_kind = OtherFile, fs_dev = 0, fs_ino = 0, fs_size = 0, fs_mode = 0, fs_uid = 0\<rparr>,
         fv_open = raiseR OSError ''cannot open''\<rparr>
    | None \<Rightarrow> \<lparr>fv_lstat = raiseR FileNotFoundError ''No such file or directory'', fv_open = raiseR FileNotFoundError ''No such file or directory''\<rparr>)"

definition tree_item :: "pyenv \<Rightarrow> tree \<Rightarrow> artifact_row \<Rightarrow> string result" where
  "tree_item E t r =
     bindR (check_row E ''policy artifact ID is not canonical'' ''policy artifact URI is not canonical'' r) (\<lambda>_.
     bindR (artifact_name E r) (\<lambda>name.
     bindR (read_verified_policy E (tree_view t name) (ar_content_sha256 r)) (\<lambda>_.
     Inr name)))"

definition validate_artifact_tree :: "pyenv \<Rightarrow> tree_root \<Rightarrow> artifact_row list \<Rightarrow> unit result" where
  \<comment> \<open>\<open>_validate_artifact_tree\<close>\<close>
  "validate_artifact_tree E dir rows = (case dir of
      OtherRoot _ \<Rightarrow> raiseR BackupError ''artifact root must be a regular directory''
    | Directory t \<Rightarrow>
        bindR (mapR (tree_item E t) rows) (\<lambda>expected.
        bindR (guardR (TreeUnsafe \<notin> snd ` set t) BackupError ''artifact tree contains an unsafe'') (\<lambda>_.
        guardR (fst ` set t = set expected) BackupError ''artifact tree contains missing or unexpected objects'')))"

section \<open>Restoring a bundle\<close>

record restored =
  rd_restored :: string
  rd_schema_version :: int
  rd_artifacts :: int
  rd_objects :: json
  rd_champions :: int
  rd_resumed :: bool

definition artifact_pairs :: "pyenv \<Rightarrow> artifact_row list \<Rightarrow> (string \<times> string) list result" where
  \<comment> \<open>\<open>sorted((tenant_namespace(row["tenant_id"]), row["content_sha256"]) for row in rows)\<close>\<close>
  "artifact_pairs E rows =
     bindR (mapR (\<lambda>r. bindR (tenant_namespace E (ar_tenant_id r)) (\<lambda>ns. Inr (ns, ar_content_sha256 r))) rows) (\<lambda>ps.
     Inr (sort ps))"

definition declared_pairs :: "manifest \<Rightarrow> (string \<times> string) list option" where
  \<comment> \<open>the sorted pairs of the manifest; a namespace that is no string equals none of the database\<close>
  "declared_pairs m =
     (if list_all (\<lambda>(v, _). str_of v \<noteq> None) (mf_artifacts m)
      then Some (sort (map (\<lambda>(v, d). (the (str_of v), d)) (mf_artifacts m))) else None)"

definition stage_bundle :: "pyenv \<Rightarrow> backup_env \<Rightarrow> keyring \<Rightarrow> zip_member list result \<Rightarrow> string \<Rightarrow> (string \<times> manifest) restoring" where
  \<comment> \<open>the \<open>with zipfile.ZipFile\<close> of \<open>restore_bundle\<close>\<close>
  "stage_bundle E B keys bundle p =
     bind (lift (authenticated_bundle_manifest E B keys bundle)) (\<lambda>(infos, key_id, m).
     bind (lift (member_named infos DATABASE_MEMBER)) (\<lambda>z.
     andthen (copy_verified_member E z (StagedDatabase p) (oe_size_bytes (mf_database m)) (oe_sha256 (mf_database m)) MAX_DATABASE_BYTES)
     (andthen (require (oe_size_bytes (mf_database m) + sum_list (map oe_size_bytes (mf_objects m)) \<le> MAX_BUNDLE_CONTENT_BYTES)
                 BackupError ''bundle content exceeds cumulative size cap'')
     (andthen sync
     (andthen (for_each (\<lambda>e. bind (lift (member_named infos (oe_member e))) (\<lambda>z.
          copy_verified_member E z (StagedObject p (oe_sha256 e)) (oe_size_bytes e) (oe_sha256 e) MAX_POLICY_BYTES)) (mf_objects m))
     (ret (key_id, m)))))))"

definition check_staged :: "pyenv \<Rightarrow> backup_env \<Rightarrow> string \<Rightarrow> manifest \<Rightarrow> inspected restoring" where
  \<comment> \<open>the staged database against the manifest\<close>
  "check_staged E B p m =
     bind (disk_get (content_at (StagedDatabase p))) (\<lambda>c. case c of
       None \<Rightarrow> raise OSError ''unable to open database file''
     | Some bytes \<Rightarrow>
         bind (lift (inspect_snapshot B bytes)) (\<lambda>(schema, rows, champions).
         andthen (require (py_eq_int (manifest_entry m ''schema_version'') schema) BackupError ''database schema does not match manifest'')
         (andthen (require (champions_match champions (manifest_entry m ''champions'')) BackupError
                     ''champion registry does not match manifest'')
         (bind (lift (artifact_pairs E rows)) (\<lambda>expected.
          andthen (require (declared_pairs m = Some expected) BackupError ''artifact manifest does not match database rows'')
         (andthen (require (snd ` set expected = oe_sha256 ` set (mf_objects m)) BackupError
                     ''object set does not match database artifacts'')
         (ret (schema, rows, champions))))))))"

definition stage_artifact :: "pyenv \<Rightarrow> string \<Rightarrow> artifact_row \<Rightarrow> unit restoring" where
  "stage_artifact E p r =
     andthen (lift (check_row E ''restored policy artifact ID is not canonical'' ''restored policy artifact URI is not canonical'' r))
     (bind (lift (artifact_name E r)) (\<lambda>name.
      copy_private_file (StagedObject p (ar_content_sha256 r)) (StagedArtifact p name)))"

definition stage_artifacts :: "pyenv \<Rightarrow> string \<Rightarrow> artifact_row list \<Rightarrow> unit restoring" where
  "stage_artifacts E p rows =
     andthen (effect (on_stage p (\<lambda>s. s\<lparr>sd_artifacts := Some []\<rparr>)))
     (andthen (for_each (stage_artifact E p) rows)
     (bind (disk_get (\<lambda>d. sd_artifacts (stage_of p d))) (\<lambda>t.
      lift (validate_artifact_tree E (case t of Some t \<Rightarrow> Directory t | None \<Rightarrow> OtherRoot False) rows))))"

definition MARKER_FORMAT :: string where "MARKER_FORMAT = ''agent-tree-rl-restore/v1''"

definition marker_payload :: "restore_target \<Rightarrow> string \<Rightarrow> string \<Rightarrow> int \<Rightarrow> int \<Rightarrow> int \<Rightarrow> int \<Rightarrow> json dict" where
  "marker_payload rt manifest_sha256 p artifacts objects champions schema =
     [(''format'', JStr MARKER_FORMAT), (''manifest_sha256'', JStr manifest_sha256), (''database_path'', JStr (rt_database_path rt)),
      (''artifact_root'', JStr (rt_artifact_root rt)), (''stage'', JStr p), (''artifacts'', JInt artifacts), (''objects'', JInt objects),
      (''champions'', JInt champions), (''schema_version'', JInt schema)]"

definition install_artifacts :: "string \<Rightarrow> disk \<Rightarrow> disk" where
  \<comment> \<open>\<open>os.replace(staged_artifacts, artifact_root)\<close>\<close>
  "install_artifacts p d = (on_stage p (\<lambda>s. s\<lparr>sd_artifacts := None\<rparr>) d)
     \<lparr>dk_artifacts := map_option Directory (sd_artifacts (stage_of p d))\<rparr>"

definition install_database :: "string \<Rightarrow> disk \<Rightarrow> disk" where
  \<comment> \<open>\<open>os.replace(staged_database, database_path)\<close>\<close>
  "install_database p d = (on_stage p (\<lambda>s. s\<lparr>sd_database := None\<rparr>) d)\<lparr>dk_database := sd_database (stage_of p d)\<rparr>"

definition remove_stage :: "string \<Rightarrow> disk \<Rightarrow> disk" where
  "remove_stage p d = d\<lparr>dk_stages := filter (\<lambda>(q, _). q \<noteq> p) (dk_stages d)\<rparr>"

definition publish_stage :: "string \<Rightarrow> string \<Rightarrow> unit restoring" where
  \<comment> \<open>the marker, the two renames and the end of the marker; the handler undoes the first rename if the second did not happen\<close>
  "publish_stage p marker_bytes =
     andthen (write_private Marker marker_bytes)
     (andthen sync
     (andthen (effect (install_artifacts p))
     (catch (andthen sync (andthen sync (andthen (effect (install_database p)) (andthen sync
              (andthen (effect (put_at Marker None)) sync)))))
        (\<lambda>e. bind (disk_get dk_database) (\<lambda>db.
             andthen (if db = None then discard (\<lambda>d. d\<lparr>dk_artifacts := None\<rparr>) else ret ()) (throw e))))))"

definition restore_staged ::
  "pyenv \<Rightarrow> backup_env \<Rightarrow> keyring \<Rightarrow> restore_target \<Rightarrow> zip_member list result \<Rightarrow> string \<Rightarrow> restored restoring" where
  \<comment> \<open>the \<open>try\<close> of \<open>restore_bundle\<close>\<close>
  "restore_staged E B keys rt bundle p =
     bind (stage_bundle E B keys bundle p) (\<lambda>(key_id, m).
     bind (check_staged E B p m) (\<lambda>(schema, rows, champions).
     andthen (stage_artifacts E p rows)
     (bind (lift (sha256_hex E (mf_value m))) (\<lambda>manifest_sha256.
      bind (lift (case map_of keys key_id of Some k \<Rightarrow> Inr k | None \<Rightarrow> raiseR KeyError ''key_id'')) (\<lambda>key.
      bind (lift (authenticated_marker E (marker_payload rt manifest_sha256 p (int (length rows)) (int (length (mf_objects m)))
                    (int (length champions)) schema) key_id key)) (\<lambda>marker_bytes.
      andthen (publish_stage p marker_bytes)
      (ret \<lparr>rd_restored = rt_database_path rt, rd_schema_version = schema, rd_artifacts = int (length rows),
            rd_objects = JInt (int (length (mf_objects m))), rd_champions = int (length champions), rd_resumed = False\<rparr>)))))))"

definition MARKER_KEYS :: "string list" where
  "MARKER_KEYS = [''format'', ''manifest_sha256'', ''database_path'', ''artifact_root'', ''stage'', ''artifacts'', ''objects'',
     ''champions'', ''schema_version'']"

definition STAGE_PREFIX :: string where "STAGE_PREFIX = ''restore-stage.''"

definition stage_path_ok :: "restore_target \<Rightarrow> string \<Rightarrow> bool" where
  \<comment> \<open>\<open>stage.parent == database_path.parent and stage.name.startswith("restore-stage.")\<close>\<close>
  "stage_path_ok rt p \<longleftrightarrow> prefix (rt_parent rt @ ''/'' @ STAGE_PREFIX) p
     \<and> CHR ''/'' \<notin> set (drop (length (rt_parent rt @ ''/'' @ STAGE_PREFIX)) p)"

definition is_dir_root :: "tree_root \<Rightarrow> bool" where
  "is_dir_root dir = (case dir of Directory _ \<Rightarrow> True | OtherRoot b \<Rightarrow> b)"

definition check_recovery ::
  "pyenv \<Rightarrow> backup_env \<Rightarrow> keyring \<Rightarrow> restore_target \<Rightarrow> zip_member list result \<Rightarrow> string \<Rightarrow> disk \<Rightarrow> (string \<times> json) result" where
  \<comment> \<open>\<open>_resume_restore\<close> up to the first rename: the stage and the number of objects of the marker\<close>
  "check_recovery E B keys rt bundle raw d =
     bindR (guardR (int (length raw) \<le> 16 * 1024) BackupError ''restore recovery marker exceeds size cap'') (\<lambda>_.
     bindR (verify_recovery_marker E B raw keys) (\<lambda>payload.
     bindR (with_keys (JObj payload) MARKER_KEYS BackupError ''restore recovery marker is invalid'') (\<lambda>value.
     bindR (guardR (entry value ''format'' = JStr MARKER_FORMAT \<and> entry value ''database_path'' = JStr (rt_database_path rt)
                    \<and> entry value ''artifact_root'' = JStr (rt_artifact_root rt)) BackupError
              ''restore recovery marker does not match this request'') (\<lambda>_.
     bindR (authenticated_bundle_manifest E B keys bundle) (\<lambda>(_, _, m).
     bindR (sha256_hex E (mf_value m)) (\<lambda>manifest_sha256.
     bindR (guardR (entry value ''manifest_sha256'' = JStr manifest_sha256) BackupError
              ''restore recovery marker targets a different manifest'') (\<lambda>_.
     bindR (case entry value ''stage'' of
              JStr p \<Rightarrow> bindR (guardR (map_of (dk_stages d) p \<noteq> None) FileNotFoundError ''No such file or directory'') (\<lambda>_. Inr p)
            | _ \<Rightarrow> raiseR TypeError ''expected str, bytes or os.PathLike object'') (\<lambda>p.
     bindR (guardR (stage_path_ok rt p) BackupError ''restore recovery stage is outside the data directory'') (\<lambda>_.
     let s = stage_of p d;
         database_candidate = (case dk_database d of Some b \<Rightarrow> Some b | None \<Rightarrow> sd_database s);
         artifact_candidate = (case dk_artifacts d of Some t \<Rightarrow> Some t | None \<Rightarrow> map_option Directory (sd_artifacts s)) in
     case (database_candidate, artifact_candidate) of
       (Some bytes, Some dir) \<Rightarrow>
         bindR (guardR (is_dir_root dir) BackupError ''restore recovery stage is incomplete'') (\<lambda>_.
         bindR (guardR (int (length bytes) = oe_size_bytes (mf_database m)) BackupError ''restore recovery database does not match bundle'') (\<lambda>_.
         bindR (guardR (int (length bytes) \<le> MAX_DATABASE_BYTES) BackupError ''database snapshot exceeds size cap'') (\<lambda>_.
         bindR (guardR (sha256 E bytes = oe_sha256 (mf_database m)) BackupError ''restore recovery database does not match bundle'') (\<lambda>_.
         bindR (inspect_snapshot B bytes) (\<lambda>(schema, rows, champions).
         bindR (guardR (py_eq_int (manifest_entry m ''schema_version'') schema \<and> champions_match champions (manifest_entry m ''champions'')
                        \<and> py_eq_int (entry value ''artifacts'') (int (length rows))
                        \<and> py_eq_int (entry value ''champions'') (int (length champions))) BackupError
                  ''restore recovery database does not match manifest'') (\<lambda>_.
         bindR (artifact_pairs E rows) (\<lambda>actual.
         bindR (guardR (declared_pairs m = Some actual) BackupError ''restore recovery artifacts do not match manifest'') (\<lambda>_.
         bindR (validate_artifact_tree E dir rows) (\<lambda>_.
         Inr (p, entry value ''objects''))))))))))
     | _ \<Rightarrow> raiseR BackupError ''restore recovery stage is incomplete'')))))))))"

definition resume_restore ::
  "pyenv \<Rightarrow> backup_env \<Rightarrow> keyring \<Rightarrow> restore_target \<Rightarrow> zip_member list result \<Rightarrow> restored option restoring" where
  \<comment> \<open>\<open>_resume_restore\<close>\<close>
  "resume_restore E B keys rt bundle =
     bind (disk_get (\<lambda>d. d)) (\<lambda>d. case dk_marker d of
       None \<Rightarrow> ret None
     | Some raw \<Rightarrow>
         bind (lift (check_recovery E B keys rt bundle raw d)) (\<lambda>(p, objects).
         andthen (if dk_artifacts d = None then andthen (effect (install_artifacts p)) sync else ret ())
         (andthen (if dk_database d = None then andthen sync (andthen (effect (install_database p)) sync) else ret ())
         (bind (disk_get dk_database) (\<lambda>db.
          bind (lift (inspect_snapshot B (case db of Some b \<Rightarrow> b | None \<Rightarrow> []))) (\<lambda>(schema, rows, champions).
          andthen (effect (put_at Marker None))
         (andthen sync
         (andthen (discard (remove_stage p))
         (ret (Some \<lparr>rd_restored = rt_database_path rt, rd_schema_version = schema, rd_artifacts = int (length rows), rd_objects = objects,
                     rd_champions = int (length champions), rd_resumed = True\<rparr>))))))))))"

definition mkdtemp :: "restore_target \<Rightarrow> string restoring" where
  \<comment> \<open>\<open>tempfile.mkdtemp(prefix="restore-stage.", dir=database_path.parent)\<close>\<close>
  "mkdtemp rt = bind (get (\<lambda>w. rt_parent rt @ ''/'' @ STAGE_PREFIX @ rs_temp w (rs_temps w))) (\<lambda>p.
     andthen (modify (\<lambda>w. w\<lparr>rs_temps := Suc (rs_temps w)\<rparr>))
     (andthen (effect (\<lambda>d. d\<lparr>dk_stages := dk_stages d @ [(p, \<lparr>sd_database = None, sd_objects = [], sd_artifacts = None\<rparr>)]\<rparr>))
     (ret p)))"

definition restore_bundle ::
  "pyenv \<Rightarrow> backup_env \<Rightarrow> keyring \<Rightarrow> restore_target \<Rightarrow> zip_member list result \<Rightarrow> restored restoring" where
  "restore_bundle E B keys rt bundle =
     bind (resume_restore E B keys rt bundle) (\<lambda>resumed. case resumed of
       Some r \<Rightarrow> ret r
     | None \<Rightarrow>
         bind (disk_get (\<lambda>d. dk_database d = None \<and> \<not> dk_sidecars d \<and> dk_artifacts d = None)) (\<lambda>absent.
         andthen (require absent FileExistsError ''restore target must be absent'')
         (bind (mkdtemp rt) (\<lambda>p.
          finally_do
            (catch (restore_staged E B keys rt bundle p) (\<lambda>e. andthen (unlink_present Marker) (throw e)))
            (bind (disk_get dk_marker) (\<lambda>marker. if marker = None then discard (remove_stage p) else ret ()))))))"

end
