(* ===== verification/BackupLemmas.thy ===== *)
theory BackupLemmas
  imports Backup
begin

text \<open>Lemmas on backup bundles: undisturbed runs of the effects, the bundles that are created, staging and recovery.\<close>

section \<open>Undisturbed runs\<close>

definition calm :: "restore_world \<Rightarrow> bool" where
  "calm w \<longleftrightarrow> rs_faults w = (\<lambda>_. None)"

definition does :: "'a restoring \<Rightarrow> disk \<Rightarrow> 'a \<Rightarrow> disk \<Rightarrow> disk list \<Rightarrow> bool" where
  \<comment> \<open>without faults \<open>m\<close> returns \<open>x\<close>, passes through the disks \<open>tr\<close> and ends with \<open>d'\<close>\<close>
  "does m d x d' tr \<longleftrightarrow> (\<forall>w. calm w \<longrightarrow> rs_disk w = d \<longrightarrow> (\<exists>w'. m w = (Inr x, w') \<and> calm w' \<and> rs_disk w' = d'
     \<and> rs_trace w' = rs_trace w @ tr \<and> rs_temp w' = rs_temp w \<and> rs_temps w' = rs_temps w))"

named_theorems does_intros \<open>undisturbed runs of the combinators\<close>

lemma doesD:
  assumes "does m d x d' tr" "calm w" "rs_disk w = d"
  obtains w' where "m w = (Inr x, w')" "calm w'" "rs_disk w' = d'" "rs_trace w' = rs_trace w @ tr"
    "rs_temp w' = rs_temp w" "rs_temps w' = rs_temps w"
  using assms unfolding does_def by metis

lemma does_effect [does_intros]: "does (effect f) d () (f d) [f d]"
  by (auto simp: does_def effect_def calm_def)

lemma does_sync [does_intros]: "does sync d () d [d]"
  unfolding sync_def by (rule does_effect)

lemma does_ret [does_intros]: "does (ret x) d x d []"
  by (auto simp: does_def)

lemma does_lift: "r = Inr x \<Longrightarrow> does (lift r) d x d []"
  by (auto simp: does_def)

lemma does_get [does_intros]: "does (disk_get f) d (f d) d []"
  by (auto simp: does_def disk_get_def)

lemma does_require: "b \<Longrightarrow> does (require b c msg) d () d []"
  by (auto simp: does_def require_apply)

lemma does_bind:
  assumes "does m d x d1 tr" "does (f x) d1 y d2 tr'"
  shows "does (bind m f) d y d2 (tr @ tr')"
  unfolding does_def
proof (intro allI impI)
  fix w assume "calm w" "rs_disk w = d"
  from doesD [OF assms(1) this] obtain w1 where 1: "m w = (Inr x, w1)" "calm w1" "rs_disk w1 = d1" "rs_trace w1 = rs_trace w @ tr"
    "rs_temp w1 = rs_temp w" "rs_temps w1 = rs_temps w" .
  from doesD [OF assms(2) 1(2,3)] obtain w2 where "f x w1 = (Inr y, w2)" "calm w2" "rs_disk w2 = d2" "rs_trace w2 = rs_trace w1 @ tr'"
    "rs_temp w2 = rs_temp w1" "rs_temps w2 = rs_temps w1" .
  with 1 show "\<exists>w'. bind m f w = (Inr y, w') \<and> calm w' \<and> rs_disk w' = d2 \<and> rs_trace w' = rs_trace w @ tr @ tr'
     \<and> rs_temp w' = rs_temp w \<and> rs_temps w' = rs_temps w" by (simp add: bind_apply)
qed

lemma does_andthen:
  assumes "does m d x d1 tr" "does k d1 y d2 tr'"
  shows "does (andthen m k) d y d2 (tr @ tr')"
  unfolding andthen_def by (rule does_bind [OF assms])

lemma does_catch [does_intros]: "does m d x d' tr \<Longrightarrow> does (catch m h) d x d' tr"
  unfolding does_def catch_def by fastforce

lemma does_finally:
  assumes "does m d x d1 tr" "does k d1 () d2 tr'"
  shows "does (finally_do m k) d x d2 (tr @ tr')"
  unfolding does_def
proof (intro allI impI)
  fix w assume "calm w" "rs_disk w = d"
  from doesD [OF assms(1) this] obtain w1 where 1: "m w = (Inr x, w1)" "calm w1" "rs_disk w1 = d1" "rs_trace w1 = rs_trace w @ tr"
    "rs_temp w1 = rs_temp w" "rs_temps w1 = rs_temps w" .
  from doesD [OF assms(2) 1(2,3)] obtain w2 where "k w1 = (Inr (), w2)" "calm w2" "rs_disk w2 = d2" "rs_trace w2 = rs_trace w1 @ tr'"
    "rs_temp w2 = rs_temp w1" "rs_temps w2 = rs_temps w1" .
  with 1 show "\<exists>w'. finally_do m k w = (Inr x, w') \<and> calm w' \<and> rs_disk w' = d2 \<and> rs_trace w' = rs_trace w @ tr @ tr'
     \<and> rs_temp w' = rs_temp w \<and> rs_temps w' = rs_temps w" by (simp add: finally_do_def)
qed

lemma does_discard [does_intros]: "does (discard f) d () (f d) [f d]"
  unfolding discard_def by (intro does_intros)

lemma does_create:
  assumes "content_at x d = None"
  shows "does (create_file x) d () (put_at x (Some []) d) [put_at x (Some []) d]"
proof -
  have "does (create_file x) d () (put_at x (Some []) d) ([] @ [] @ [put_at x (Some []) d])"
    unfolding create_file_def by (rule does_bind [OF does_get]) (rule does_andthen [OF does_require does_effect], rule assms)
  then show ?thesis by simp
qed

lemma does_filled:
  assumes "content_at x d = None" "does body (put_at x (Some []) d) () d' tr"
  shows "does (filled x body) d () d' (put_at x (Some []) d # tr)"
  unfolding filled_def using does_andthen [OF does_create [OF assms(1)] does_catch [OF assms(2)]] by simp

section \<open>Files of a stage\<close>

lemma put_entry_twice [simp]: "put_entry k v (put_entry k u xs) = put_entry k v xs"
  by (auto simp: put_entry_def filter_filter split: option.splits)

lemma put_entry_fresh: "k \<notin> fst ` set xs \<Longrightarrow> put_entry k (Some v) xs = xs @ [(k, v)]"
  by (force simp: put_entry_def filter_id_conv)

lemma on_stage_twice [simp]: "on_stage p f (on_stage p g d) = on_stage p (f \<circ> g) d"
  by (simp add: on_stage_def comp_def case_prod_beta cong: if_cong)

lemma put_at_twice [simp]: "put_at x v (put_at x u d) = put_at x v d"
  by (cases x) (simp_all add: comp_def option.map_comp)

lemma does_write:
  assumes "content_at x d = None"
  shows "does (write_private x data) d () (put_at x (Some data) d)
    [put_at x (Some []) d, put_at x (Some data) d, put_at x (Some data) d]"
proof -
  have "does (andthen (effect (put_at x (Some data))) sync) (put_at x (Some []) d) () (put_at x (Some data) d)
      ([put_at x (Some data) d] @ [put_at x (Some data) d])"
    using does_andthen [OF does_effect does_sync, of "put_at x (Some data)" "put_at x (Some []) d"] by simp
  from does_filled [OF assms this] show ?thesis unfolding write_private_def by simp
qed

lemma does_copy_member:
  assumes "content_at x d = None" "zm_data z = Inr data" "zm_file_size z = int (length data)" "int (length data) \<le> cap"
    "n = int (length data)" "sha256 E data = h"
  shows "does (copy_verified_member E z x n h cap) d () (put_at x (Some data) d)
    [put_at x (Some []) d, put_at x (Some data) d, put_at x (Some data) d]"
proof -
  let ?body = "bind (lift (zm_data z)) (\<lambda>data.
        andthen (require (int (length data) \<le> cap) BackupError ''bundle member exceeds size cap'')
        (andthen (effect (put_at x (Some data)))
        (andthen sync
        (require (int (length data) = n \<and> sha256 E data = h) BackupError ''bundle member hash or size mismatch''))))"
  have e: "does (effect (put_at x (Some data))) (put_at x (Some []) d) () (put_at x (Some data) d) [put_at x (Some data) d]"
    using does_effect [of "put_at x (Some data)" "put_at x (Some []) d"] by simp
  have r: "does (require (int (length data) = n \<and> sha256 E data = h) BackupError ''bundle member hash or size mismatch'')
      (put_at x (Some data) d) () (put_at x (Some data) d) []"
    using assms by (intro does_require) simp
  have body: "does ?body (put_at x (Some []) d) () (put_at x (Some data) d) ([] @ [] @ [put_at x (Some data) d] @ [put_at x (Some data) d] @ [])"
    by (rule does_bind [OF does_lift [OF assms(2)]])
      (rule does_andthen [OF does_require [OF assms(4)] does_andthen [OF e does_andthen [OF does_sync r]]])
  from does_filled [OF assms(1) body] have
    "does (filled x ?body) d () (put_at x (Some data) d) [put_at x (Some []) d, put_at x (Some data) d, put_at x (Some data) d]" by simp
  from does_andthen [OF does_require this, of _ BackupError "''bundle member size is inconsistent''"] assms show ?thesis
    unfolding copy_verified_member_def by simp
qed

lemma does_copy_file:
  assumes "content_at x d = None" "content_at y (put_at x (Some []) d) = Some data"
  shows "does (copy_private_file y x) d () (put_at x (Some data) d)
    [put_at x (Some []) d, put_at x (Some data) d, put_at x (Some data) d]"
proof -
  have e: "does (effect (put_at x (Some data))) (put_at x (Some []) d) () (put_at x (Some data) d) [put_at x (Some data) d]"
    using does_effect [of "put_at x (Some data)" "put_at x (Some []) d"] by simp
  have "does (bind (disk_get (content_at y)) (\<lambda>c. case c of
      Some data \<Rightarrow> andthen (effect (put_at x (Some data))) sync
    | None \<Rightarrow> raise FileNotFoundError ''No such file or directory'')) (put_at x (Some []) d) () (put_at x (Some data) d)
     ([] @ [put_at x (Some data) d] @ [put_at x (Some data) d])"
    by (rule does_bind [OF does_get]) (simp add: assms(2) does_andthen [OF e does_sync, simplified])
  from does_filled [OF assms(1) this] show ?thesis unfolding copy_private_file_def by simp
qed

section \<open>Rows and objects\<close>

definition row_ok :: "pyenv \<Rightarrow> artifact_row \<Rightarrow> bool" where
  "row_ok E r \<longleftrightarrow> ar_artifact_id r = ''policy-'' @ ar_content_sha256 r \<and> is_sha256 (ar_content_sha256 r) \<and> ar_tenant_id r \<noteq> []
     \<and> ar_artifact_uri r = ''policy-artifact://'' @ take 20 (sha256 E (ar_tenant_id r)) @ ''/'' @ ar_content_sha256 r @ ''.json''"

definition row_pair :: "pyenv \<Rightarrow> artifact_row \<Rightarrow> string \<times> string" where
  "row_pair E r = (take 20 (sha256 E (ar_tenant_id r)), ar_content_sha256 r)"

definition row_name :: "pyenv \<Rightarrow> artifact_row \<Rightarrow> string" where
  "row_name E r = take 20 (sha256 E (ar_tenant_id r)) @ ''/'' @ ar_content_sha256 r @ ''.json''"

definition object_ok :: "pyenv \<Rightarrow> string \<times> string \<Rightarrow> bool" where
  "object_ok E = (\<lambda>(d, data). is_sha256 d \<and> sha256 E data = d \<and> int (length data) \<le> MAX_POLICY_BYTES)"

definition member_name :: "string \<Rightarrow> string" where
  "member_name d = ''objects/sha256/'' @ take 2 d @ ''/'' @ d @ ''.json''"

definition object_entry_of :: "string \<times> string \<Rightarrow> object_entry" where
  "object_entry_of = (\<lambda>(d, data). \<lparr>oe_member = member_name d, oe_size_bytes = int (length data), oe_sha256 = d\<rparr>)"

lemma check_row_Inr_iff: "check_row E a b r = Inr u \<longleftrightarrow> row_ok E r"
  by (auto simp: check_row_def row_ok_def policy_artifact_uri_def check_digest_def tenant_namespace_def bindR_Inr_iff)

lemma check_row_ok: "row_ok E r \<Longrightarrow> check_row E a b r = Inr ()"
  using check_row_Inr_iff by blast

lemma artifact_name_ok: "row_ok E r \<Longrightarrow> artifact_name E r = Inr (row_name E r)"
  by (simp add: row_ok_def artifact_name_def policy_artifact_path_def check_digest_def tenant_namespace_def row_name_def)

lemma object_member_ok: "is_sha256 d \<Longrightarrow> object_member d = Inr (member_name d)"
  by (simp add: object_member_def hex_digest_def member_name_def)

lemma object_entries: "list_all (object_ok E) xs \<Longrightarrow> mapR object_entry_for xs = Inr (map object_entry_of xs)"
  by (induction xs) (auto simp: object_ok_def object_entry_for_def object_entry_of_def object_member_ok)

lemma collect_artifact_Inr:
  assumes "collect_artifact E view artifact_root r (objects, entries) = Inr (objects', entries')"
  shows "row_ok E r" "entries' = entries @ [row_pair E r]" "fst ` set objects' = insert (ar_content_sha256 r) (fst ` set objects)"
    "distinct (map fst objects) \<Longrightarrow> distinct (map fst objects')" "list_all (object_ok E) objects \<Longrightarrow> list_all (object_ok E) objects'"
proof -
  from assms have row: "row_ok E r" and e: "entries' = entries @ [row_pair E r]"
    and o: "ar_content_sha256 r \<in> fst ` set objects \<and> objects' = objects
      \<or> ar_content_sha256 r \<notin> fst ` set objects \<and> (\<exists>path data. read_verified_policy E (view path) (ar_content_sha256 r) = Inr data
          \<and> objects' = objects @ [(ar_content_sha256 r, data)])"
    by (auto simp: collect_artifact_def bindR_Inr_iff check_row_Inr_iff tenant_namespace_def row_pair_def Let_def split: if_splits)
  show "row_ok E r" "entries' = entries @ [row_pair E r]" by (fact row, fact e)
  from o show "fst ` set objects' = insert (ar_content_sha256 r) (fst ` set objects)"
    "distinct (map fst objects) \<Longrightarrow> distinct (map fst objects')" "list_all (object_ok E) objects \<Longrightarrow> list_all (object_ok E) objects'"
    by (auto simp: object_ok_def read_verified_policy_Inr)
qed

lemma collect_artifacts_Inr:
  assumes "foldR (collect_artifact E view artifact_root) rows (objects, entries) = Inr (objects', entries')"
    and "distinct (map fst objects)" "list_all (object_ok E) objects"
  shows "list_all (row_ok E) rows \<and> entries' = entries @ map (row_pair E) rows
    \<and> fst ` set objects' = ar_content_sha256 ` set rows \<union> fst ` set objects \<and> distinct (map fst objects') \<and> list_all (object_ok E) objects'"
  using assms
proof (induction rows arbitrary: objects entries)
  case (Cons r rows)
  from Cons.prems(1) obtain o1 e1 where step: "collect_artifact E view artifact_root r (objects, entries) = Inr (o1, e1)"
    and rest: "foldR (collect_artifact E view artifact_root) rows (o1, e1) = Inr (objects', entries')"
    by (auto simp: bindR_Inr_iff)
  note s = collect_artifact_Inr [OF step]
  from Cons.IH [OF rest s(4,5)] Cons.prems(2,3) s(1-3) show ?case by auto
qed auto

section \<open>The bundle that is created\<close>

definition bundle_of :: "string \<Rightarrow> string \<Rightarrow> string \<Rightarrow> (string \<times> string) list \<Rightarrow> zip_member list" where
  "bundle_of manifest_bytes signature_bytes data objects =
     [written MANIFEST_MEMBER WRITESTR_ATTR manifest_bytes, written SIGNATURE_MEMBER WRITESTR_ATTR signature_bytes,
      written DATABASE_MEMBER FILE_ATTR data] @ map (\<lambda>(d, content). written (member_name d) FILE_ATTR content) objects"

definition database_entry :: "pyenv \<Rightarrow> string \<Rightarrow> object_entry" where
  "database_entry E data = \<lparr>oe_member = DATABASE_MEMBER, oe_size_bytes = int (length data), oe_sha256 = sha256 E data\<rparr>"

lemma create_bundle_Inr:
  assumes "create_bundle E B view artifact_root data keys active_key_id created_at target_exists = Inr archive"
  obtains key schema rows champions objects manifest_bytes signature_bytes where
    "map_of keys active_key_id = Some key" "inspect_snapshot B data = Inr (schema, rows, champions)"
    "list_all (row_ok E) rows" "fst ` set objects = ar_content_sha256 ` set rows" "distinct (map fst objects)" "sorted (map fst objects)"
    "list_all (object_ok E) objects"
    "int (length data) + sum_list (map (oe_size_bytes \<circ> object_entry_of) objects) \<le> MAX_BUNDLE_CONTENT_BYTES"
    "int (length data) \<le> MAX_DATABASE_BYTES"
    "canonical_json_bytes E (JObj (manifest_json (bk_service_version B) created_at schema (database_entry E data)
       (map object_entry_of objects) (sort (map (row_pair E) rows)) champions)) = Inr manifest_bytes"
    "sign_bytes E active_key_id key manifest_bytes = Inr signature_bytes"
    "archive = bundle_of manifest_bytes signature_bytes data objects"
proof -
  from assms obtain key schema rows champions objs artifacts entries manifest_bytes signature_bytes where
    key: "map_of keys active_key_id = Some key" and snap: "inspect_snapshot B data = Inr (schema, rows, champions)"
    and col: "foldR (collect_artifact E view artifact_root) rows ([], []) = Inr (objs, artifacts)"
    and ent: "mapR object_entry_for (sort_key fst objs) = Inr entries"
    and rest: "int (length data) + sum_list (map oe_size_bytes entries) \<le> MAX_BUNDLE_CONTENT_BYTES"
    "int (length data) \<le> MAX_DATABASE_BYTES"
    "canonical_json_bytes E (JObj (manifest_json (bk_service_version B) created_at schema (database_entry E data)
       entries (sort artifacts) champions)) = Inr manifest_bytes"
    "sign_bytes E active_key_id key manifest_bytes = Inr signature_bytes"
    and arch: "archive = [written MANIFEST_MEMBER WRITESTR_ATTR manifest_bytes, written SIGNATURE_MEMBER WRITESTR_ATTR signature_bytes,
      written DATABASE_MEMBER FILE_ATTR data]
      @ map (\<lambda>(e, (_, content)). written (oe_member e) FILE_ATTR content) (zip entries (sort_key fst objs))"
    unfolding create_bundle_def Let_def by (auto simp: bindR_Inr_iff database_entry_def split: option.splits)
  from collect_artifacts_Inr [OF col] have c: "list_all (row_ok E) rows" "artifacts = map (row_pair E) rows"
    "fst ` set objs = ar_content_sha256 ` set rows" "distinct (map fst objs)" "list_all (object_ok E) objs" by simp_all
  let ?o = "sort_key fst objs"
  have o: "fst ` set ?o = ar_content_sha256 ` set rows" "distinct (map fst ?o)" "sorted (map fst ?o)" "list_all (object_ok E) ?o"
    using c distinct_sort_key [OF c(4)] by (simp_all add: list_all_iff)
  from object_entries [OF o(4)] ent have e: "entries = map object_entry_of ?o" by simp
  have "map (\<lambda>(e, (_, content)). written (oe_member e) FILE_ATTR content) (zip (map object_entry_of xs) xs)
      = map (\<lambda>(d, content). written (member_name d) FILE_ATTR content) xs" for xs
    by (induction xs) (auto simp: object_entry_of_def)
  with arch e have "archive = bundle_of manifest_bytes signature_bytes data ?o" by (simp add: bundle_of_def)
  with key snap c o rest e show thesis by (intro that) simp_all
qed

section \<open>Reading a created bundle\<close>

lemma split_on_nonempty [simp]: "split_on c xs \<noteq> []"
  by (cases xs) (auto split: list.splits)

lemma split_on_append: "split_on c (xs @ c # ys) = split_on c xs @ split_on c ys"
proof (induction xs)
  case (Cons x xs)
  then show ?case using split_on_nonempty [of c xs] by (cases "split_on c xs") (auto simp del: split_on_nonempty)
qed simp

lemma split_on_none: "c \<notin> set xs \<Longrightarrow> split_on c xs = [xs]"
  by (induction xs) auto

lemma sha256_chars:
  assumes "is_sha256 d"
  shows "CHR ''/'' \<notin> set d" "CHR 0x5C \<notin> set d" "CHR 0x00 \<notin> set d" "CHR ''.'' \<notin> set d" "length d = 64"
proof -
  have n: "\<not> lower_hex CHR ''/''" "\<not> lower_hex CHR 0x5C" "\<not> lower_hex CHR 0x00" "\<not> lower_hex CHR ''.''" by code_simp+
  have "c \<notin> set d" if "\<not> lower_hex c" for c using assms that by (auto simp: is_sha256_def list_all_iff)
  with n show "CHR ''/'' \<notin> set d" "CHR 0x5C \<notin> set d" "CHR 0x00 \<notin> set d" "CHR ''.'' \<notin> set d" by blast+
  from assms show "length d = 64" by (simp add: is_sha256_def)
qed

lemma member_name_safe:
  assumes "is_sha256 d"
  shows "safe_name (member_name d)"
proof -
  note c = sha256_chars [OF assms]
  have t: "CHR ''/'' \<notin> set (take 2 d)" "CHR 0x5C \<notin> set (take 2 d)" "CHR 0x00 \<notin> set (take 2 d)" "CHR ''.'' \<notin> set (take 2 d)"
    using c by (auto dest: in_set_takeD)
  have "member_name d = ''objects'' @ CHR ''/'' # ''sha256'' @ CHR ''/'' # take 2 d @ CHR ''/'' # (d @ ''.json'')"
    by (simp add: member_name_def)
  then have "split_on CHR ''/'' (member_name d) = [''objects'', ''sha256'', take 2 d, d @ ''.json'']"
    using c t by (simp only: split_on_append) (simp add: split_on_none)
  moreover have "''..'' \<noteq> take 2 d" "''..'' \<noteq> d @ ''.json''"
    using t(4) arg_cong [of "''..''" "d @ ''.json''" length] by (metis list.set_intros(1), simp)
  ultimately show ?thesis
    using c t by (simp add: safe_name_def) (simp add: member_name_def is_absolute_def)
qed

lemma member_name_inject: "is_sha256 d \<Longrightarrow> is_sha256 d' \<Longrightarrow> member_name d = member_name d' \<longleftrightarrow> d = d'"
  using sha256_chars(5) [of d] sha256_chars(5) [of d'] by (auto simp: member_name_def)

lemma member_name_fresh:
  "member_name d \<noteq> MANIFEST_MEMBER" "member_name d \<noteq> SIGNATURE_MEMBER" "member_name d \<noteq> DATABASE_MEMBER"
  "MANIFEST_MEMBER \<noteq> SIGNATURE_MEMBER" "MANIFEST_MEMBER \<noteq> DATABASE_MEMBER" "SIGNATURE_MEMBER \<noteq> DATABASE_MEMBER"
  by (simp_all add: member_name_def MANIFEST_MEMBER_def SIGNATURE_MEMBER_def DATABASE_MEMBER_def)

definition header_ok :: "zip_member \<Rightarrow> bool" where
  "header_ok z \<longleftrightarrow> safe_name (zm_filename z) \<and> zm_stored z \<and> even (zm_flag_bits z) \<and> regular_member z"

lemma headers_ok:
  assumes "list_all header_ok zs" "distinct (map zm_filename zs)" "\<forall>z \<in> set zs. zm_filename z \<notin> fst ` set infos"
  shows "foldR header_item zs infos = Inr (infos @ map (\<lambda>z. (zm_filename z, z)) zs)"
  using assms
proof (induction zs arbitrary: infos)
  case (Cons z zs)
  then have "header_item z infos = Inr (infos @ [(zm_filename z, z)])" by (simp add: header_item_def header_ok_def)
  moreover have "foldR header_item zs (infos @ [(zm_filename z, z)]) = Inr ((infos @ [(zm_filename z, z)]) @ map (\<lambda>z. (zm_filename z, z)) zs)"
    using Cons.prems by (intro Cons.IH) (auto simp: image_iff)
  ultimately show ?case by simp
qed simp

definition named :: "zip_member list \<Rightarrow> infos" where
  "named zs = map (\<lambda>z. (zm_filename z, z)) zs"

lemma written_header: "safe_name name \<Longrightarrow> header_ok (written name WRITESTR_ATTR data)" "safe_name name \<Longrightarrow> header_ok (written name FILE_ATTR data)"
  by (simp_all add: header_ok_def written_def regular_member_def WRITESTR_ATTR_def FILE_ATTR_def)

lemma fixed_names_safe: "safe_name MANIFEST_MEMBER" "safe_name SIGNATURE_MEMBER" "safe_name DATABASE_MEMBER"
  by code_simp+

lemma written_simps [simp]:
  "zm_filename (written name attr data) = name" "zm_file_size (written name attr data) = int (length data)"
  "zm_data (written name attr data) = Inr data"
  by (simp_all add: written_def)

lemma bundle_names: "map zm_filename (bundle_of mb sb data objects) = [MANIFEST_MEMBER, SIGNATURE_MEMBER, DATABASE_MEMBER] @ map (member_name \<circ> fst) objects"
  by (simp add: bundle_of_def comp_def case_prod_beta)

lemma bundle_names_distinct:
  assumes "distinct (map fst objects)" "list_all (object_ok E) objects"
  shows "distinct (map zm_filename (bundle_of mb sb data objects))"
proof -
  have "inj_on member_name (fst ` set objects)"
  proof (rule inj_onI)
    fix d d' assume "d \<in> fst ` set objects" "d' \<in> fst ` set objects" "member_name d = member_name d'"
    moreover have "is_sha256 d" if "d \<in> fst ` set objects" for d using assms(2) that by (auto simp: list_all_iff object_ok_def)
    ultimately show "d = d'" using member_name_inject by blast
  qed
  then have "distinct (map member_name (map fst objects))" using assms(1) by (simp add: distinct_map comp_inj_on)
  then show ?thesis unfolding bundle_names by (auto simp: member_name_fresh member_name_fresh [symmetric])
qed

lemma bundle_headers:
  assumes "distinct (map fst objects)" "list_all (object_ok E) objects"
  shows "validate_zip_headers (bundle_of mb sb data objects) = Inr (named (bundle_of mb sb data objects))"
proof -
  have "list_all header_ok (bundle_of mb sb data objects)"
    using assms(2) by (auto simp: bundle_of_def list_all_iff object_ok_def written_header fixed_names_safe member_name_safe)
  from headers_ok [OF this bundle_names_distinct [OF assms], of "[]"] show ?thesis
    by (simp add: validate_zip_headers_def named_def) (simp add: bundle_of_def image_Un)
qed

lemma map_of_named: "distinct (map zm_filename zs) \<Longrightarrow> z \<in> set zs \<Longrightarrow> map_of (named zs) (zm_filename z) = Some z"
  unfolding named_def by (intro map_of_is_SomeI) (auto simp: comp_def)

lemma bundle_member:
  assumes "distinct (map fst objects)" "list_all (object_ok E) objects" "z \<in> set (bundle_of mb sb data objects)"
  shows "member_named (named (bundle_of mb sb data objects)) (zm_filename z) = Inr z"
  by (simp add: member_named_def map_of_named [OF bundle_names_distinct [OF assms(1,2)] assms(3)])

lemma read_written: "int (length data) \<le> cap \<Longrightarrow> read_member (written name attr data) cap = Inr data"
  by (simp add: read_member_def Let_def)

definition reads_back :: "pyenv \<Rightarrow> backup_env \<Rightarrow> string \<Rightarrow> bool" where
  \<comment> \<open>\<open>json.loads\<close> inverts the canonical text of a value\<close>
  "reads_back E B text \<longleftrightarrow> (\<forall>v. json_finite v \<longrightarrow> dumps E (canon v) = text \<longrightarrow> bk_parse B text = Some (canon v))"

lemma read_canonical:
  assumes "canonical_json_bytes E v = Inr text" "reads_back E B text"
  shows "strict_json B text = Inr (canon v)"
proof -
  have "json_finite v" "dumps E (canon v) = text" using assms(1) by (auto simp: canonical_json_bytes_def validate_json_def bindR_Inr_iff)
  with assms(2) show ?thesis by (simp add: reads_back_def strict_json_def)
qed

definition authentication_entries :: "string \<Rightarrow> string \<Rightarrow> json dict" where
  "authentication_entries key_id sig = canon_entries [(''algorithm'', JStr ''HMAC-SHA256''), (''key_id'', JStr key_id),
     (''signature'', JStr (b64url_encode sig))]"

lemma canon_authentication: "canon (authentication key_id sig) = JObj (authentication_entries key_id sig)"
  by (simp only: authentication_def authentication_entries_def canon_obj)

lemma authentication_keys: "fst ` set (authentication_entries key_id sig) = {''algorithm'', ''key_id'', ''signature''}"
  by (simp add: authentication_entries_def canon_entries_keys)

lemma authentication_entry:
  "entry (authentication_entries key_id sig) ''algorithm'' = JStr ''HMAC-SHA256''"
  "entry (authentication_entries key_id sig) ''key_id'' = JStr key_id"
  "entry (authentication_entries key_id sig) ''signature'' = JStr (b64url_encode sig)"
  by (simp_all add: authentication_entries_def canon_entry)

lemma b64_unpadded_ok: "length sig = 32 \<Longrightarrow> b64_unpadded (b64url_encode sig) = Inr sig"
  using b64url_roundtrip [of sig] by (auto simp: b64url_decode_def b64_unpadded_def bindR_Inr_iff split: sum.splits)

lemma check_authentication_ok:
  assumes "map_of keys key_id = Some key" "hmac_ok E"
  shows "check_authentication E msgs (Inr bytes) (authentication_entries key_id (hmac256 E key bytes)) keys = Inr key_id"
proof -
  have "length (hmac256 E key bytes) = 32" using assms(2) by (simp add: hmac_ok_def)
  from b64_unpadded_ok [OF this] assms(1) show ?thesis
    by (cases msgs) (simp add: check_authentication_def authentication_entry)
qed

lemma verify_signed_bytes:
  assumes "map_of keys key_id = Some key" "hmac_ok E" "sign_bytes E key_id key bytes = Inr text" "reads_back E B text"
  shows "bindR (strict_json B text) (\<lambda>v. verify_manifest_signature E bytes v keys) = Inr key_id"
proof -
  have "strict_json B text = Inr (JObj (authentication_entries key_id (hmac256 E key bytes)))"
    using read_canonical [OF assms(3) [unfolded sign_bytes_def] assms(4)] by (simp add: canon_authentication)
  then show ?thesis
    by (simp add: verify_manifest_signature_def with_keys_def authentication_keys check_authentication_ok [OF assms(1,2)])
qed

lemma object_json_item:
  assumes "0 \<le> oe_size_bytes e" "oe_size_bytes e \<le> cap" "is_sha256 (oe_sha256 e)"
  obtains kvs where "canon (object_json e) = JObj kvs" "fst ` set kvs = {''member'', ''size_bytes'', ''sha256''}"
    "entry kvs ''member'' = JStr (oe_member e)" "size_digest kvs cap = Inr (oe_size_bytes e, oe_sha256 e)"
proof
  let ?kvs = "canon_entries [(''member'', JStr (oe_member e)), (''size_bytes'', JInt (oe_size_bytes e)), (''sha256'', JStr (oe_sha256 e))]"
  show "canon (object_json e) = JObj ?kvs" by (simp only: object_json_def canon_obj)
  show "fst ` set ?kvs = {''member'', ''size_bytes'', ''sha256''}" by (simp add: canon_entries_keys)
  show "entry ?kvs ''member'' = JStr (oe_member e)" by (simp add: canon_entry)
  have "entry ?kvs ''size_bytes'' = JInt (oe_size_bytes e)" "entry ?kvs ''sha256'' = JStr (oe_sha256 e)" by (simp_all add: canon_entry)
  with assms show "size_digest ?kvs cap = Inr (oe_size_bytes e, oe_sha256 e)" by (simp add: size_digest_def hex_digest_def)
qed

lemma object_items:
  assumes "list_all (object_ok E) xs" "distinct (map fst xs)" "list_all (object_ok E) ys" "fst ` set xs \<inter> fst ` set ys = {}"
  shows "foldR object_item (map (canon \<circ> object_json \<circ> object_entry_of) xs) (map object_entry_of ys) = Inr (map object_entry_of (ys @ xs))"
  using assms
proof (induction xs arbitrary: ys)
  case (Cons x xs)
  obtain d data where x: "x = (d, data)" by (cases x)
  with Cons.prems(1) have ok: "is_sha256 d" "int (length data) \<le> MAX_POLICY_BYTES" by (simp_all add: object_ok_def)
  from object_json_item [of "object_entry_of x" MAX_POLICY_BYTES] ok x obtain kvs where
    kvs: "canon (object_json (object_entry_of x)) = JObj kvs" "fst ` set kvs = {''member'', ''size_bytes'', ''sha256''}"
    "entry kvs ''member'' = JStr (member_name d)" "size_digest kvs MAX_POLICY_BYTES = Inr (int (length data), d)"
    by (auto simp: object_entry_of_def)
  have y: "d' \<noteq> d \<and> is_sha256 d'" if "d' \<in> fst ` set ys" for d'
    using Cons.prems(3,4) that x by (auto simp: list_all_iff object_ok_def)
  have "oe_member ` set (map object_entry_of ys) = member_name ` fst ` set ys" "oe_sha256 ` set (map object_entry_of ys) = fst ` set ys"
    by (simp_all add: image_image object_entry_of_def case_prod_beta)
  then have "member_name d \<notin> oe_member ` set (map object_entry_of ys)" "d \<notin> oe_sha256 ` set (map object_entry_of ys)"
    using y member_name_inject [OF ok(1)] by (metis imageE, metis)
  with kvs have "object_item (canon (object_json (object_entry_of x))) (map object_entry_of ys) = Inr (map object_entry_of (ys @ [x]))"
    by (simp add: object_item_def with_keys_def object_member_ok [OF ok(1)] x object_entry_of_def)
  moreover have "foldR object_item (map (canon \<circ> object_json \<circ> object_entry_of) xs) (map object_entry_of (ys @ [x])) = Inr (map object_entry_of ((ys @ [x]) @ xs))"
    using Cons.prems by (intro Cons.IH) auto
  ultimately show ?case by (simp add: comp_def)
qed simp

lemma artifact_items:
  assumes "\<forall>(ns, d) \<in> set xs. py_len ns = 20 \<and> is_sha256 d"
  shows "mapR artifact_item (map (canon \<circ> artifact_entry_json) xs) = Inr (map (\<lambda>(ns, d). (JStr ns, d)) xs)"
  using assms
proof (induction xs)
  case (Cons x xs)
  obtain ns d where x: "x = (ns, d)" by (cases x)
  let ?kvs = "canon_entries [(''tenant_namespace'', JStr ns), (''content_sha256'', JStr d)]"
  have "canon (artifact_entry_json x) = JObj ?kvs" by (simp only: artifact_entry_json_def canon_obj x prod.case)
  moreover have "fst ` set ?kvs = {''tenant_namespace'', ''content_sha256''}" by (simp add: canon_entries_keys)
  moreover have "entry ?kvs ''tenant_namespace'' = JStr ns" "entry ?kvs ''content_sha256'' = JStr d" by (simp_all add: canon_entry)
  ultimately have "artifact_item (canon (artifact_entry_json x)) = Inr (JStr ns, d)"
    using Cons.prems x by (simp add: artifact_item_def with_keys_def sized_def hex_digest_def)
  with Cons x show ?case by simp
qed simp

definition manifest_of :: "pyenv \<Rightarrow> backup_env \<Rightarrow> int \<Rightarrow> int \<Rightarrow> string \<Rightarrow> (string \<times> string) list \<Rightarrow> (string \<times> string) list \<Rightarrow> champion_row list \<Rightarrow> manifest" where
  \<comment> \<open>the manifest that a restore reads from a created bundle\<close>
  "manifest_of E B created_at schema data objects pairs champions =
     \<lparr>mf_value = canon (JObj (manifest_json (bk_service_version B) created_at schema (database_entry E data) (map object_entry_of objects) pairs champions)),
      mf_database = database_entry E data, mf_objects = map object_entry_of objects, mf_artifacts = map (\<lambda>(ns, d). (JStr ns, d)) pairs\<rparr>"

lemma manifest_entries:
  fixes version :: string and created_at schema :: int and e :: object_entry and es :: "object_entry list"
    and pairs :: "(string \<times> string) list" and champions :: "champion_row list"
  defines "kvs \<equiv> canon_entries (manifest_json version created_at schema e es pairs champions)"
  shows "fst ` set kvs = set MANIFEST_KEYS"
    "entry kvs ''format'' = JStr FORMAT" "entry kvs ''format_version'' = JInt FORMAT_VERSION" "entry kvs ''schema_version'' = JInt schema"
    "entry kvs ''database'' = canon (object_json e)" "entry kvs ''objects'' = JList (map (canon \<circ> object_json) es)"
    "entry kvs ''artifacts'' = JList (map (canon \<circ> artifact_entry_json) pairs)"
    "entry kvs ''champions'' = JList (map (canon \<circ> champion_value) champions)"
proof -
  show "fst ` set kvs = set MANIFEST_KEYS" unfolding kvs_def by (simp add: canon_entries_keys manifest_json_def MANIFEST_KEYS_def)
  have d: "distinct (map fst (manifest_json version created_at schema e es pairs champions))" by (simp add: manifest_json_def)
  show "entry kvs ''format'' = JStr FORMAT" "entry kvs ''format_version'' = JInt FORMAT_VERSION" "entry kvs ''schema_version'' = JInt schema"
    "entry kvs ''database'' = canon (object_json e)" "entry kvs ''objects'' = JList (map (canon \<circ> object_json) es)"
    "entry kvs ''artifacts'' = JList (map (canon \<circ> artifact_entry_json) pairs)"
    "entry kvs ''champions'' = JList (map (canon \<circ> champion_value) champions)"
    unfolding kvs_def canon_entry [OF d] by (simp_all add: manifest_json_def)
qed

lemma validate_created_manifest:
  assumes "int (length data) \<le> MAX_DATABASE_BYTES" "is_sha256 (sha256 E data)" "schema = SCHEMA_VERSION"
    "list_all (object_ok E) objects" "distinct (map fst objects)" "\<forall>(ns, d) \<in> set pairs. py_len ns = 20 \<and> is_sha256 d"
  shows "validate_manifest (mf_value (manifest_of E B created_at schema data objects pairs champions))
    = Inr (manifest_of E B created_at schema data objects pairs champions)"
proof -
  let ?kvs = "canon_entries (manifest_json (bk_service_version B) created_at schema (database_entry E data) (map object_entry_of objects) pairs champions)"
  have v: "mf_value (manifest_of E B created_at schema data objects pairs champions) = JObj ?kvs"
    by (simp only: manifest_of_def manifest.simps canon_obj)
  note e = manifest_entries [of "bk_service_version B" created_at schema "database_entry E data" "map object_entry_of objects" pairs champions]
  from object_json_item [of "database_entry E data" MAX_DATABASE_BYTES] assms(1,2) obtain db where
    db: "canon (object_json (database_entry E data)) = JObj db" "fst ` set db = {''member'', ''size_bytes'', ''sha256''}"
    "entry db ''member'' = JStr DATABASE_MEMBER" "size_digest db MAX_DATABASE_BYTES = Inr (int (length data), sha256 E data)"
    by (auto simp: database_entry_def)
  have o: "foldR object_item (map (canon \<circ> object_json \<circ> object_entry_of) objects) [] = Inr (map object_entry_of objects)"
    using object_items [OF assms(4,5), of "[]"] by simp
  have "list_all is_obj (map (canon \<circ> object_json \<circ> object_entry_of) objects)" by (simp add: list_all_iff object_json_def)
  with e db o artifact_items [OF assms(6)] assms(3) show ?thesis
    unfolding v validate_manifest_def
    by (simp add: with_keys_def iterate_def is_list_def SCHEMA_VERSION_def FORMAT_VERSION_def comp_assoc)
      (simp add: manifest_of_def database_entry_def canon_obj del: canon.simps)
qed

text \<open>A created bundle is authenticated and its manifest is read back.\<close>

lemma authenticate_created:
  assumes key: "map_of keys key_id = Some key" and E: "hmac_ok E"
    and mb: "canonical_json_bytes E (JObj (manifest_json (bk_service_version B) created_at schema (database_entry E data)
       (map object_entry_of objects) pairs champions)) = Inr mb"
    and sb: "sign_bytes E key_id key mb = Inr sb"
    and fits: "int (length mb) \<le> MAX_MANIFEST_BYTES" "int (length sb) \<le> MAX_SIGNATURE_BYTES" "reads_back E B mb" "reads_back E B sb"
    and data: "int (length data) \<le> MAX_DATABASE_BYTES" "is_sha256 (sha256 E data)" "schema = SCHEMA_VERSION"
    and objects: "list_all (object_ok E) objects" "distinct (map fst objects)" and pairs: "\<forall>(ns, d) \<in> set pairs. py_len ns = 20 \<and> is_sha256 d"
  shows "authenticated_bundle_manifest E B keys (Inr (bundle_of mb sb data objects))
    = Inr (named (bundle_of mb sb data objects), key_id, manifest_of E B created_at schema data objects pairs champions)"
proof -
  let ?m = "manifest_of E B created_at schema data objects pairs champions" and ?zs = "bundle_of mb sb data objects"
  have "written MANIFEST_MEMBER WRITESTR_ATTR mb \<in> set ?zs" "written SIGNATURE_MEMBER WRITESTR_ATTR sb \<in> set ?zs"
    by (simp_all add: bundle_of_def)
  from this [THEN bundle_member [OF objects(2,1)]] have
    z: "member_named (named ?zs) MANIFEST_MEMBER = Inr (written MANIFEST_MEMBER WRITESTR_ATTR mb)"
    "member_named (named ?zs) SIGNATURE_MEMBER = Inr (written SIGNATURE_MEMBER WRITESTR_ATTR sb)" by simp_all
  from verify_signed_bytes [OF key E sb fits(4)] obtain v where
    v: "strict_json B sb = Inr v" "verify_manifest_signature E mb v keys = Inr key_id" by (auto simp: bindR_Inr_iff)
  have m: "strict_json B mb = Inr (mf_value ?m)"
    using read_canonical [OF mb fits(3)] by (simp only: manifest_of_def manifest.simps)
  have names: "fst ` set (named ?zs) = {MANIFEST_MEMBER, SIGNATURE_MEMBER, DATABASE_MEMBER} \<union> oe_member ` set (mf_objects ?m)"
    by (simp add: named_def bundle_of_def manifest_of_def object_entry_of_def image_image case_prod_beta)
  show ?thesis
    unfolding authenticated_bundle_manifest_def
    by (simp only: bindR_simps bundle_headers [OF objects(2,1)] z read_written [OF fits(1)] read_written [OF fits(2)] v m
        validate_created_manifest [OF data objects pairs] names guardR_simps simp_thms)
qed

section \<open>Staging a created bundle\<close>

definition with_stage :: "disk \<Rightarrow> string \<Rightarrow> stage \<Rightarrow> disk" where
  "with_stage d p s = d\<lparr>dk_stages := dk_stages d @ [(p, s)]\<rparr>"

definition new_stage :: stage where
  "new_stage = \<lparr>sd_database = None, sd_objects = [], sd_artifacts = None\<rparr>"

lemma with_stage_simps [simp]:
  "dk_database (with_stage d p s) = dk_database d" "dk_artifacts (with_stage d p s) = dk_artifacts d"
  "dk_marker (with_stage d p s) = dk_marker d" "dk_sidecars (with_stage d p s) = dk_sidecars d"
  by (simp_all add: with_stage_def)


lemma on_with_stage:
  assumes "p \<notin> fst ` set (dk_stages d)"
  shows "on_stage p f (with_stage d p s) = with_stage d p (f s)"
proof -
  have "map (\<lambda>(q, s). (q, if q = p then f s else s)) (dk_stages d) = dk_stages d"
    using assms by (intro map_idI) (auto simp: image_iff)
  then show ?thesis by (simp add: on_stage_def with_stage_def)
qed

lemma stage_of_with:
  assumes "p \<notin> fst ` set (dk_stages d)"
  shows "stage_of p (with_stage d p s) = s"
proof -
  have "map_of (dk_stages d) p = None" using assms by (simp add: map_of_eq_None_iff)
  then show ?thesis by (simp add: stage_of_def with_stage_def map_of_append map_add_def)
qed

text \<open>\<open>stages m d p s x s'\<close>: undisturbed, \<open>m\<close> only changes the new stage \<open>p\<close>, from \<open>s\<close> to \<open>s'\<close>.\<close>

definition staging :: "disk \<Rightarrow> string \<Rightarrow> disk list \<Rightarrow> bool" where
  "staging d p tr \<longleftrightarrow> (\<forall>e \<in> set tr. \<exists>u. e = with_stage d p u)"

definition stages :: "'a restoring \<Rightarrow> disk \<Rightarrow> string \<Rightarrow> stage \<Rightarrow> 'a \<Rightarrow> stage \<Rightarrow> bool" where
  "stages m d p s x s' \<longleftrightarrow> (\<exists>tr. does m (with_stage d p s) x (with_stage d p s') tr \<and> staging d p tr)"

lemma stages_does: "does m (with_stage d p s) x (with_stage d p s') tr \<Longrightarrow> staging d p tr \<Longrightarrow> stages m d p s x s'"
  by (auto simp: stages_def)

lemma stages_bind: "stages m d p s x s1 \<Longrightarrow> stages (f x) d p s1 y s2 \<Longrightarrow> stages (bind m f) d p s y s2"
  unfolding stages_def staging_def by (metis (no_types, lifting) does_bind Un_iff set_append)

lemma stages_andthen: "stages m d p s x s1 \<Longrightarrow> stages k d p s1 y s2 \<Longrightarrow> stages (andthen m k) d p s y s2"
  unfolding andthen_def by (rule stages_bind)

lemma stages_pure: "does m (with_stage d p s) x (with_stage d p s) [] \<Longrightarrow> stages m d p s x s"
  by (erule stages_does) (simp add: staging_def)

lemmas stages_lift = stages_pure [OF does_lift]
lemmas stages_require = stages_pure [OF does_require]
lemmas stages_ret = stages_pure [OF does_ret]
lemmas stages_get = stages_pure [OF does_get]

lemma stages_sync: "stages sync d p s () s"
  by (rule stages_does [OF does_sync]) (auto simp: staging_def)

lemma stages_three:
  assumes "does m (with_stage d p s) () (put_at x (Some c) (with_stage d p s))
      [put_at x (Some []) (with_stage d p s), put_at x (Some c) (with_stage d p s), put_at x (Some c) (with_stage d p s)]"
    and "\<And>v. \<exists>u. put_at x v (with_stage d p s) = with_stage d p u" "put_at x (Some c) (with_stage d p s) = with_stage d p s'"
  shows "stages m d p s () s'"
proof (rule stages_does)
  show "does m (with_stage d p s) () (with_stage d p s')
      [put_at x (Some []) (with_stage d p s), put_at x (Some c) (with_stage d p s), put_at x (Some c) (with_stage d p s)]"
    using assms(1) unfolding assms(3) .
  show "staging d p [put_at x (Some []) (with_stage d p s), put_at x (Some c) (with_stage d p s), put_at x (Some c) (with_stage d p s)]"
    using assms(2) by (simp add: staging_def)
qed

lemma put_with_stage:
  assumes "p \<notin> fst ` set (dk_stages d)"
  shows "put_at (StagedDatabase p) v (with_stage d p s) = with_stage d p (s\<lparr>sd_database := v\<rparr>)"
    "put_at (StagedObject p k) v (with_stage d p s) = with_stage d p (s\<lparr>sd_objects := put_entry k v (sd_objects s)\<rparr>)"
    "put_at (StagedArtifact p k) v (with_stage d p s)
      = with_stage d p (s\<lparr>sd_artifacts := map_option (put_entry k (map_option TreeFile v)) (sd_artifacts s)\<rparr>)"
  by (simp_all add: on_with_stage [OF assms])

lemma content_with_stage:
  assumes "p \<notin> fst ` set (dk_stages d)"
  shows "content_at (StagedDatabase p) (with_stage d p s) = sd_database s"
    "content_at (StagedObject p k) (with_stage d p s) = map_of (sd_objects s) k"
    "content_at (StagedArtifact p k) (with_stage d p s) = (case sd_artifacts s of
       Some t \<Rightarrow> (case map_of t k of Some (TreeFile c) \<Rightarrow> Some c | _ \<Rightarrow> None) | None \<Rightarrow> None)"
  by (simp_all add: stage_of_with [OF assms])

lemma stages_objects:
  assumes p: "p \<notin> fst ` set (dk_stages d)" and xs: "list_all (object_ok E) xs" "distinct (map fst xs)"
    "fst ` set xs \<inter> fst ` set (sd_objects s) = {}"
    and z: "\<And>k c. (k, c) \<in> set xs \<Longrightarrow> member_named infos (member_name k) = Inr (written (member_name k) FILE_ATTR c)"
  shows "stages (for_each (\<lambda>e. bind (lift (member_named infos (oe_member e))) (\<lambda>z.
      copy_verified_member E z (StagedObject p (oe_sha256 e)) (oe_size_bytes e) (oe_sha256 e) MAX_POLICY_BYTES)) (map object_entry_of xs))
    d p s () (s\<lparr>sd_objects := sd_objects s @ xs\<rparr>)"
  using xs z
proof (induction xs arbitrary: s)
  case Nil
  have "s\<lparr>sd_objects := sd_objects s @ []\<rparr> = s" by simp
  then show ?case by (simp only: list.map for_each.simps) (rule stages_ret)
next
  case (Cons x xs)
  obtain k c where x: "x = (k, c)" by (cases x)
  let ?s = "s\<lparr>sd_objects := sd_objects s @ [(k, c)]\<rparr>"
  have k: "k \<notin> fst ` set (sd_objects s)" using Cons.prems(3) x by auto
  then have n: "content_at (StagedObject p k) (with_stage d p s) = None"
    by (simp only: content_with_stage [OF p]) (simp add: map_of_eq_None_iff)
  have ok: "sha256 E c = k" "int (length c) \<le> MAX_POLICY_BYTES" using Cons.prems(1) x by (simp_all add: object_ok_def)
  have "stages (copy_verified_member E (written (member_name k) FILE_ATTR c) (StagedObject p k) (int (length c)) k MAX_POLICY_BYTES) d p s () ?s"
    using ok by (intro stages_three [OF does_copy_member [OF n]]) (auto simp: put_with_stage [OF p] put_entry_fresh [OF k] simp del: put_at.simps)
  then have one: "stages (bind (lift (member_named infos (member_name k))) (\<lambda>z.
      copy_verified_member E z (StagedObject p k) (int (length c)) k MAX_POLICY_BYTES)) d p s () ?s"
    using Cons.prems(4) [of k c] x by (intro stages_bind [OF stages_lift]) simp_all
  have "stages (for_each (\<lambda>e. bind (lift (member_named infos (oe_member e))) (\<lambda>z.
      copy_verified_member E z (StagedObject p (oe_sha256 e)) (oe_size_bytes e) (oe_sha256 e) MAX_POLICY_BYTES)) (map object_entry_of xs))
      d p ?s () (?s\<lparr>sd_objects := sd_objects ?s @ xs\<rparr>)"
    using Cons.prems x by (intro Cons.IH) auto
  from stages_andthen [OF one this] show ?case by (simp add: x object_entry_of_def del: action_simps)
qed

definition staged_files :: "string \<Rightarrow> (string \<times> string) list \<Rightarrow> stage" where
  "staged_files data objects = \<lparr>sd_database = Some data, sd_objects = objects, sd_artifacts = None\<rparr>"

lemma stages_bundle:
  assumes p: "p \<notin> fst ` set (dk_stages d)"
    and auth: "authenticated_bundle_manifest E B keys bundle
      = Inr (named (bundle_of mb sb data objects), key_id, manifest_of E B created_at schema data objects pairs champions)"
    and data: "int (length data) \<le> MAX_DATABASE_BYTES"
    and total: "int (length data) + sum_list (map (oe_size_bytes \<circ> object_entry_of) objects) \<le> MAX_BUNDLE_CONTENT_BYTES"
    and objects: "list_all (object_ok E) objects" "distinct (map fst objects)"
  shows "stages (stage_bundle E B keys bundle p) d p new_stage (key_id, manifest_of E B created_at schema data objects pairs champions)
    (staged_files data objects)"
proof -
  let ?zs = "bundle_of mb sb data objects" and ?m = "manifest_of E B created_at schema data objects pairs champions"
  let ?s = "new_stage\<lparr>sd_database := Some data\<rparr>"
  have m: "oe_size_bytes (mf_database ?m) = int (length data)" "oe_sha256 (mf_database ?m) = sha256 E data" "mf_objects ?m = map object_entry_of objects"
    by (simp_all add: manifest_of_def database_entry_def)
  have "written DATABASE_MEMBER FILE_ATTR data \<in> set ?zs" by (simp add: bundle_of_def)
  from bundle_member [OF objects(2,1) this] have z: "member_named (named ?zs) DATABASE_MEMBER = Inr (written DATABASE_MEMBER FILE_ATTR data)" by simp
  have n: "content_at (StagedDatabase p) (with_stage d p new_stage) = None"
    by (simp only: content_with_stage [OF p]) (simp add: new_stage_def)
  have db: "stages (copy_verified_member E (written DATABASE_MEMBER FILE_ATTR data) (StagedDatabase p) (int (length data)) (sha256 E data)
      MAX_DATABASE_BYTES) d p new_stage () ?s"
    using data by (intro stages_three [OF does_copy_member [OF n]]) (auto simp: put_with_stage [OF p] simp del: put_at.simps)
  have "member_named (named ?zs) (member_name k) = Inr (written (member_name k) FILE_ATTR c)" if "(k, c) \<in> set objects" for k c
  proof -
    have "written (member_name k) FILE_ATTR c \<in> set ?zs" using that by (auto simp: bundle_of_def image_iff)
    from bundle_member [OF objects(2,1) this] show ?thesis by simp
  qed
  from stages_objects [OF p objects _ this, of ?s] have
    obs: "stages (for_each (\<lambda>e. bind (lift (member_named (named ?zs) (oe_member e))) (\<lambda>z.
      copy_verified_member E z (StagedObject p (oe_sha256 e)) (oe_size_bytes e) (oe_sha256 e) MAX_POLICY_BYTES)) (map object_entry_of objects))
      d p ?s () (staged_files data objects)"
    by (simp add: new_stage_def staged_files_def)
  show ?thesis
    unfolding stage_bundle_def
    apply (rule stages_bind [OF stages_lift [OF auth]], unfold prod.case m, rule stages_bind [OF stages_lift [OF z]])
    apply (rule stages_andthen [OF db], rule stages_andthen [OF stages_require])
    using total apply (simp add: comp_def)
    by (rule stages_andthen [OF stages_sync], rule stages_andthen [OF obs], rule stages_ret)
qed

lemma champion_matches_canon: "champion_matches r (canon (champion_value r))"
proof -
  let ?kvs = "[(''tenant_id'', JStr (ch_tenant_id r)), (''policy_name'', JStr (ch_policy_name r)),
     (''artifact_id'', JStr (ch_artifact_id r)), (''generation'', JInt (ch_generation r))]"
  have "canon (champion_value r) = JObj (canon_entries ?kvs)" by (simp only: champion_value_def canon_obj)
  moreover have "fst ` set (canon_entries ?kvs) = {''tenant_id'', ''policy_name'', ''artifact_id'', ''generation''}"
    by (simp add: canon_entries_keys)
  moreover have "entry (canon_entries ?kvs) k = canon (entry ?kvs k)" for k by (rule canon_entry) simp
  ultimately show ?thesis by (simp add: champion_matches_def)
qed

lemma champions_match_canon: "champions_match rows (JList (map (canon \<circ> champion_value) rows))"
  by (simp add: champions_match_def list_all2_conv_all_nth champion_matches_canon)

lemma manifest_of_entry:
  "manifest_entry (manifest_of E B created_at schema data objects pairs champions) ''schema_version'' = JInt schema"
  "manifest_entry (manifest_of E B created_at schema data objects pairs champions) ''champions'' = JList (map (canon \<circ> champion_value) champions)"
proof -
  have "mf_value (manifest_of E B created_at schema data objects pairs champions) = JObj (canon_entries (manifest_json
      (bk_service_version B) created_at schema (database_entry E data) (map object_entry_of objects) pairs champions))"
    by (simp only: manifest_of_def manifest.simps canon_obj)
  then show "manifest_entry (manifest_of E B created_at schema data objects pairs champions) ''schema_version'' = JInt schema"
    "manifest_entry (manifest_of E B created_at schema data objects pairs champions) ''champions'' = JList (map (canon \<circ> champion_value) champions)"
    by (simp_all only: manifest_entry_def json.case manifest_entries)
qed

lemma declared_pairs_of: "declared_pairs (manifest_of E B created_at schema data objects pairs champions) = Some (sort pairs)"
  by (simp add: declared_pairs_def manifest_of_def list_all_iff case_prod_beta comp_def)

lemma artifact_pairs_ok: "list_all (row_ok E) rows \<Longrightarrow> artifact_pairs E rows = Inr (sort (map (row_pair E) rows))"
proof -
  assume "list_all (row_ok E) rows"
  then have "mapR (\<lambda>r. bindR (tenant_namespace E (ar_tenant_id r)) (\<lambda>ns. Inr (ns, ar_content_sha256 r))) rows = Inr (map (row_pair E) rows)"
    by (induction rows) (simp_all add: tenant_namespace_def row_ok_def row_pair_def)
  then show ?thesis by (simp add: artifact_pairs_def)
qed

lemma stages_checked:
  assumes p: "p \<notin> fst ` set (dk_stages d)" and snap: "inspect_snapshot B data = Inr (schema, rows, champions)"
    and rows: "list_all (row_ok E) rows" "fst ` set objects = ar_content_sha256 ` set rows"
  shows "stages (check_staged E B p (manifest_of E B created_at schema data objects (sort (map (row_pair E) rows)) champions))
    d p (staged_files data objects) (schema, rows, champions) (staged_files data objects)"
proof -
  let ?m = "manifest_of E B created_at schema data objects (sort (map (row_pair E) rows)) champions"
  have c: "content_at (StagedDatabase p) (with_stage d p (staged_files data objects)) = Some data"
    by (simp only: content_with_stage [OF p]) (simp add: staged_files_def)
  have o: "snd ` set (sort (map (row_pair E) rows)) = oe_sha256 ` set (mf_objects ?m)"
    using rows(2) by (simp add: manifest_of_def row_pair_def object_entry_of_def image_image case_prod_beta)
  have "stages (check_staged E B p ?m) d p (staged_files data objects) (schema, rows, champions) (staged_files data objects)"
    unfolding check_staged_def
    apply (rule stages_bind [OF stages_get], unfold c option.case, rule stages_bind [OF stages_lift [OF snap]], unfold prod.case)
    apply (rule stages_andthen [OF stages_require], simp add: manifest_of_entry)
    apply (rule stages_andthen [OF stages_require], simp only: manifest_of_entry champions_match_canon)
    apply (rule stages_bind [OF stages_lift [OF artifact_pairs_ok [OF rows(1)]]])
    apply (rule stages_andthen [OF stages_require], simp add: declared_pairs_of sorted_sort_id)
    by (rule stages_andthen [OF stages_require], rule o, rule stages_ret)
  then show ?thesis .
qed

definition tree_of :: "pyenv \<Rightarrow> (string \<times> string) list \<Rightarrow> artifact_row list \<Rightarrow> tree" where
  \<comment> \<open>the artifact tree of a restored bundle\<close>
  "tree_of E objects rows = map (\<lambda>r. (row_name E r, TreeFile (the (map_of objects (ar_content_sha256 r))))) rows"

lemma stages_artifact:
  assumes p: "p \<notin> fst ` set (dk_stages d)" and r: "row_ok E r" and o: "map_of (sd_objects s) (ar_content_sha256 r) = Some c"
    and t: "sd_artifacts s = Some t" "row_name E r \<notin> fst ` set t"
  shows "stages (stage_artifact E p r) d p s () (s\<lparr>sd_artifacts := Some (t @ [(row_name E r, TreeFile c)])\<rparr>)"
proof -
  let ?x = "StagedArtifact p (row_name E r)" and ?y = "StagedObject p (ar_content_sha256 r)"
  have "map_of t (row_name E r) = None" using t(2) by (simp add: map_of_eq_None_iff)
  then have n: "content_at ?x (with_stage d p s) = None" by (simp only: content_with_stage [OF p] t(1) option.case)
  have y: "content_at ?y (put_at ?x (Some []) (with_stage d p s)) = Some c"
    unfolding put_with_stage [OF p] content_with_stage [OF p] using o by simp
  have "stages (copy_private_file ?y ?x) d p s () (s\<lparr>sd_artifacts := Some (t @ [(row_name E r, TreeFile c)])\<rparr>)"
    by (rule stages_three [OF does_copy_file [OF n y]])
      (auto simp: put_with_stage [OF p] t(1) put_entry_fresh [OF t(2)] simp del: put_at.simps)
  then show ?thesis
    unfolding stage_artifact_def
    by (intro stages_andthen [OF stages_lift [OF check_row_ok [OF r]]] stages_bind [OF stages_lift [OF artifact_name_ok [OF r]]])
qed

lemma stages_rows:
  assumes p: "p \<notin> fst ` set (dk_stages d)" and "list_all (row_ok E) rows" "distinct (map (row_name E) rows)"
    "\<And>r. r \<in> set rows \<Longrightarrow> map_of (sd_objects s) (ar_content_sha256 r) \<noteq> None"
    "sd_artifacts s = Some t" "row_name E ` set rows \<inter> fst ` set t = {}"
  shows "stages (for_each (stage_artifact E p) rows) d p s () (s\<lparr>sd_artifacts := Some (t @ tree_of E (sd_objects s) rows)\<rparr>)"
  using assms(2-)
proof (induction rows arbitrary: s t)
  case Nil
  have "s\<lparr>sd_artifacts := Some (t @ tree_of E (sd_objects s) [])\<rparr> = s" using Nil by (cases s) (simp add: tree_of_def)
  then show ?case by (simp only: for_each.simps) (rule stages_ret)
next
  case (Cons r rows)
  from Cons.prems(3) [of r] obtain c where c: "map_of (sd_objects s) (ar_content_sha256 r) = Some c" by auto
  let ?t = "t @ [(row_name E r, TreeFile c)]"
  have one: "stages (stage_artifact E p r) d p s () (s\<lparr>sd_artifacts := Some ?t\<rparr>)"
    using Cons.prems c by (intro stages_artifact [OF p]) auto
  have "stages (for_each (stage_artifact E p) rows) d p (s\<lparr>sd_artifacts := Some ?t\<rparr>) ()
      (s\<lparr>sd_artifacts := Some ?t\<rparr>\<lparr>sd_artifacts := Some (?t @ tree_of E (sd_objects (s\<lparr>sd_artifacts := Some ?t\<rparr>)) rows)\<rparr>)"
    using Cons.prems by (intro Cons.IH) auto
  from stages_andthen [OF one this] c show ?case by (simp add: tree_of_def)
qed

lemma read_tree:
  assumes "map_of t k = Some (TreeFile c)" "object_ok E (h, c)"
  shows "read_verified_policy E (tree_view t k) h = Inr c"
  using assms by (simp add: read_verified_policy_Inr tree_view_def object_ok_def same_file_def Let_def)

lemma validate_tree_of:
  assumes rows: "list_all (row_ok E) rows" "distinct (map (row_name E) rows)" and objects: "list_all (object_ok E) objects"
    "ar_content_sha256 ` set rows \<subseteq> fst ` set objects"
  shows "validate_artifact_tree E (Directory (tree_of E objects rows)) rows = Inr ()"
proof -
  let ?t = "tree_of E objects rows"
  have keys: "map fst ?t = map (row_name E) rows" by (simp add: tree_of_def comp_def)
  have "tree_item E ?t r = Inr (row_name E r)" if r: "r \<in> set rows" for r
  proof -
    from objects(2) r have "ar_content_sha256 r \<in> fst ` set objects" by blast
    then have "map_of objects (ar_content_sha256 r) \<noteq> None" by (simp add: map_of_eq_None_iff)
    then obtain c where c: "map_of objects (ar_content_sha256 r) = Some c" by auto
    then have "object_ok E (ar_content_sha256 r, c)" using objects(1) by (auto simp: list_all_iff dest: map_of_SomeD)
    moreover have "map_of ?t (row_name E r) = Some (TreeFile c)"
      using r c rows(2) keys by (intro map_of_is_SomeI) (auto simp: tree_of_def comp_def image_iff)
    ultimately have "read_verified_policy E (tree_view ?t (row_name E r)) (ar_content_sha256 r) = Inr c" by (intro read_tree)
    with rows(1) r show ?thesis by (simp add: tree_item_def list_all_iff check_row_ok artifact_name_ok)
  qed
  then have "mapR (tree_item E ?t) rows = Inr (map (row_name E) rows)"
    by (simp add: mapR_Inr_iff list_all2_conv_all_nth)
  moreover have "fst ` set ?t = set (map (row_name E) rows)" using keys by (metis set_map)
  moreover have "TreeUnsafe \<notin> snd ` set ?t" by (auto simp: tree_of_def)
  ultimately show ?thesis by (simp add: validate_artifact_tree_def)
qed

definition staged_all :: "pyenv \<Rightarrow> string \<Rightarrow> (string \<times> string) list \<Rightarrow> artifact_row list \<Rightarrow> stage" where
  "staged_all E data objects rows = \<lparr>sd_database = Some data, sd_objects = objects, sd_artifacts = Some (tree_of E objects rows)\<rparr>"

lemma stages_artifacts:
  assumes p: "p \<notin> fst ` set (dk_stages d)" and rows: "list_all (row_ok E) rows" "distinct (map (row_name E) rows)"
    and objects: "list_all (object_ok E) objects" "fst ` set objects = ar_content_sha256 ` set rows"
  shows "stages (stage_artifacts E p rows) d p (staged_files data objects) () (staged_all E data objects rows)"
proof -
  let ?s = "staged_files data objects\<lparr>sd_artifacts := Some []\<rparr>"
  have "does (effect (on_stage p (\<lambda>s. s\<lparr>sd_artifacts := Some []\<rparr>))) (with_stage d p (staged_files data objects)) ()
      (with_stage d p ?s) [with_stage d p ?s]"
    using does_effect [of "on_stage p (\<lambda>s. s\<lparr>sd_artifacts := Some []\<rparr>)" "with_stage d p (staged_files data objects)"]
    by (simp add: on_with_stage [OF p])
  then have made: "stages (effect (on_stage p (\<lambda>s. s\<lparr>sd_artifacts := Some []\<rparr>))) d p (staged_files data objects) () ?s"
    by (rule stages_does) (auto simp: staging_def)
  have "map_of objects (ar_content_sha256 r) \<noteq> None" if "r \<in> set rows" for r
    using that objects(2) by (auto simp: map_of_eq_None_iff)
  then have filled: "stages (for_each (stage_artifact E p) rows) d p ?s () (staged_all E data objects rows)"
    using stages_rows [OF p rows, of ?s "[]"] by (simp add: staged_files_def staged_all_def)
  have t: "sd_artifacts (stage_of p (with_stage d p (staged_all E data objects rows))) = Some (tree_of E objects rows)"
    by (simp add: stage_of_with [OF p] staged_all_def)
  have ok: "validate_artifact_tree E (Directory (tree_of E objects rows)) rows = Inr ()"
    using rows objects by (intro validate_tree_of) simp_all
  show ?thesis
    unfolding stage_artifacts_def
    by (rule stages_andthen [OF made], rule stages_andthen [OF filled], rule stages_bind [OF stages_get], unfold t option.case)
      (rule stages_lift [OF ok])
qed

section \<open>Publishing\<close>

definition clean :: "disk \<Rightarrow> bool" where
  "clean d \<longleftrightarrow> dk_database d = None \<and> \<not> dk_sidecars d \<and> dk_artifacts d = None \<and> dk_marker d = None"

definition finished_disk :: "disk \<Rightarrow> string \<Rightarrow> tree \<Rightarrow> disk" where
  "finished_disk d data t = d\<lparr>dk_database := Some data, dk_artifacts := Some (Directory t)\<rparr>"

definition torn :: "disk \<Rightarrow> bool" where
  \<comment> \<open>the marker was created and not yet written\<close>
  "torn d \<longleftrightarrow> dk_marker d = Some []"

datatype restore_phase = Marked | ArtifactsInstalled | DatabaseInstalled

definition phase_disk :: "disk \<Rightarrow> string \<Rightarrow> string \<Rightarrow> stage \<Rightarrow> restore_phase \<Rightarrow> disk" where
  \<comment> \<open>the disk after the marker \<open>raw\<close> was written, after the first rename and after the second\<close>
  "phase_disk d p raw s ph = (case ph of
      Marked \<Rightarrow> with_stage (d\<lparr>dk_marker := Some raw\<rparr>) p s
    | ArtifactsInstalled \<Rightarrow> with_stage (d\<lparr>dk_marker := Some raw, dk_artifacts := map_option Directory (sd_artifacts s)\<rparr>) p (s\<lparr>sd_artifacts := None\<rparr>)
    | DatabaseInstalled \<Rightarrow> with_stage (d\<lparr>dk_marker := Some raw, dk_artifacts := map_option Directory (sd_artifacts s), dk_database := sd_database s\<rparr>) p
        (s\<lparr>sd_artifacts := None, sd_database := None\<rparr>))"

lemma marker_with_stage [simp]: "(with_stage d p s)\<lparr>dk_marker := v\<rparr> = with_stage (d\<lparr>dk_marker := v\<rparr>) p s"
  by (simp add: with_stage_def)

lemma installs:
  assumes "p \<notin> fst ` set (dk_stages d)"
  shows "install_artifacts p (phase_disk d p raw s Marked) = phase_disk d p raw s ArtifactsInstalled"
    "install_database p (phase_disk d p raw s ArtifactsInstalled) = phase_disk d p raw s DatabaseInstalled"
proof -
  have p: "p \<notin> fst ` set (dk_stages (d\<lparr>dk_marker := m\<rparr>))" "p \<notin> fst ` set (dk_stages (d\<lparr>dk_marker := m, dk_artifacts := a\<rparr>))" for m a
    using assms by simp_all
  show "install_artifacts p (phase_disk d p raw s Marked) = phase_disk d p raw s ArtifactsInstalled"
    unfolding install_artifacts_def phase_disk_def restore_phase.case stage_of_with [OF p(1)] on_with_stage [OF p(1)] by (simp add: with_stage_def)
  show "install_database p (phase_disk d p raw s ArtifactsInstalled) = phase_disk d p raw s DatabaseInstalled"
    unfolding install_database_def phase_disk_def restore_phase.case stage_of_with [OF p(2)] on_with_stage [OF p(2)] by (simp add: with_stage_def)
qed

definition left_over :: "stage \<Rightarrow> stage" where
  "left_over s = s\<lparr>sd_artifacts := None, sd_database := None\<rparr>"

lemma does_publish:
  assumes p: "p \<notin> fst ` set (dk_stages d)" and d: "clean d" and s: "sd_database s = Some data" "sd_artifacts s = Some t"
  shows "\<exists>tr. does (publish_stage p raw) (with_stage d p s) () (with_stage (finished_disk d data t) p (left_over s)) tr
    \<and> (\<forall>e \<in> set tr. torn e \<or> (\<exists>ph. e = phase_disk d p raw s ph) \<or> e = with_stage (finished_disk d data t) p (left_over s))
    \<and> (\<forall>ph. phase_disk d p raw s ph \<in> set tr)"
proof -
  let ?f = "with_stage (finished_disk d data t) p (left_over s)" and ?A = "phase_disk d p raw s"
  have m: "content_at Marker (with_stage d p s) = None" using d by (simp add: clean_def)
  have w: "does (write_private Marker raw) (with_stage d p s) () (?A Marked) [put_at Marker (Some []) (with_stage d p s), ?A Marked, ?A Marked]"
    using does_write [OF m, of raw] by (simp add: phase_disk_def)
  have a: "does (effect (install_artifacts p)) (?A Marked) () (?A ArtifactsInstalled) [?A ArtifactsInstalled]"
    using does_effect [of "install_artifacts p" "?A Marked"] by (simp add: installs [OF p])
  have b: "does (effect (install_database p)) (?A ArtifactsInstalled) () (?A DatabaseInstalled) [?A DatabaseInstalled]"
    using does_effect [of "install_database p" "?A ArtifactsInstalled"] by (simp add: installs [OF p])
  have u: "put_at Marker None (?A DatabaseInstalled) = ?f"
    using d s by (simp add: phase_disk_def finished_disk_def left_over_def clean_def with_stage_def)
  have c: "does (effect (put_at Marker None)) (?A DatabaseInstalled) () ?f [?f]"
    using does_effect [of "put_at Marker None" "?A DatabaseInstalled"] by (simp only: u)
  note rest = does_catch [OF does_andthen [OF does_sync does_andthen [OF does_sync does_andthen [OF b does_andthen [OF does_sync does_andthen [OF c does_sync]]]]]]
  have run: "does (publish_stage p raw) (with_stage d p s) () ?f ([put_at Marker (Some []) (with_stage d p s), ?A Marked, ?A Marked] @ [?A Marked]
      @ [?A ArtifactsInstalled] @ [?A ArtifactsInstalled] @ [?A ArtifactsInstalled] @ [?A DatabaseInstalled] @ [?A DatabaseInstalled] @ [?f] @ [?f])"
    unfolding publish_stage_def by (rule does_andthen [OF w does_andthen [OF does_sync does_andthen [OF a rest]]])
  have torn: "torn (put_at Marker (Some []) (with_stage d p s))" by (simp add: torn_def)
  have phases: "?A ph \<in> {?A Marked, ?A ArtifactsInstalled, ?A DatabaseInstalled}" for ph by (cases ph) simp_all
  show ?thesis
  proof (intro exI conjI allI, rule run, goal_cases)
    case 1
    show ?case using torn by (auto simp del: put_at.simps)
  next
    case (2 ph)
    show ?case using phases [of ph] by (simp del: put_at.simps) blast
  qed
qed

section \<open>A restore from the beginning\<close>

text \<open>What a restore needs to know about a created bundle: the run of \<open>create_bundle\<close> in one predicate.\<close>

definition bundle_ok :: "pyenv \<Rightarrow> backup_env \<Rightarrow> keyring \<Rightarrow> zip_member list \<Rightarrow> string \<Rightarrow> manifest \<Rightarrow> string
    \<Rightarrow> (string \<times> string) list \<Rightarrow> artifact_row list \<Rightarrow> champion_row list \<Rightarrow> bool" where
  "bundle_ok E B keys archive key_id m data objects rows champions \<longleftrightarrow>
     (\<exists>mb sb created_at. m = manifest_of E B created_at SCHEMA_VERSION data objects (sort (map (row_pair E) rows)) champions
        \<and> archive = bundle_of mb sb data objects
        \<and> authenticated_bundle_manifest E B keys (Inr archive) = Inr (named archive, key_id, m))
   \<and> map_of keys key_id \<noteq> None \<and> inspect_snapshot B data = Inr (SCHEMA_VERSION, rows, champions)
   \<and> list_all (row_ok E) rows \<and> distinct (map (row_name E) rows)
   \<and> list_all (object_ok E) objects \<and> distinct (map fst objects) \<and> fst ` set objects = ar_content_sha256 ` set rows
   \<and> int (length data) \<le> MAX_DATABASE_BYTES
   \<and> int (length data) + sum_list (map (oe_size_bytes \<circ> object_entry_of) objects) \<le> MAX_BUNDLE_CONTENT_BYTES"

definition report_of :: "restore_target \<Rightarrow> (string \<times> string) list \<Rightarrow> artifact_row list \<Rightarrow> champion_row list \<Rightarrow> bool \<Rightarrow> restored" where
  "report_of rt objects rows champions resumed = \<lparr>rd_restored = rt_database_path rt, rd_schema_version = SCHEMA_VERSION,
     rd_artifacts = int (length rows), rd_objects = JInt (int (length objects)), rd_champions = int (length champions), rd_resumed = resumed\<rparr>"

definition marker_of :: "pyenv \<Rightarrow> restore_target \<Rightarrow> string \<Rightarrow> manifest \<Rightarrow> (string \<times> string) list \<Rightarrow> artifact_row list \<Rightarrow> champion_row list \<Rightarrow> json dict" where
  "marker_of E rt p m objects rows champions = marker_payload rt (sha256 E (dumps E (canon (mf_value m)))) p (int (length rows))
     (int (length objects)) (int (length champions)) SCHEMA_VERSION"

lemma manifest_json_finite: "json_finite (JObj (manifest_json version created_at schema e es pairs champions))"
  by (simp add: manifest_json_def object_json_def artifact_entry_json_def champion_value_def list_all_iff case_prod_beta)

lemma manifest_digest: "sha256_hex E (mf_value (manifest_of E B created_at schema data objects pairs champions))
    = Inr (sha256 E (dumps E (canon (mf_value (manifest_of E B created_at schema data objects pairs champions)))))"
proof -
  have "json_finite (mf_value (manifest_of E B created_at schema data objects pairs champions))"
    by (simp only: manifest_of_def manifest.simps canon_finite manifest_json_finite)
  then show ?thesis by (simp add: sha256_hex_def canonical_json_bytes_def validate_json_def)
qed

lemma marker_written:
  obtains raw where "authenticated_marker E (marker_payload rt h p n k c v) key_id key = Inr raw"
proof -
  have f: "json_finite (JObj (marker_payload rt h p n k c v))" by (simp add: marker_payload_def)
  then show thesis
    by (intro that) (simp add: authenticated_marker_def canonical_json_bytes_def validate_json_def authentication_def)
qed

lemma does_restore_staged:
  assumes p: "p \<notin> fst ` set (dk_stages d)" and d: "clean d" and ok: "bundle_ok E B keys archive key_id m data objects rows champions"
  obtains raw key tr where "map_of keys key_id = Some key" "authenticated_marker E (marker_of E rt p m objects rows champions) key_id key = Inr raw"
    "does (restore_staged E B keys rt (Inr archive) p) (with_stage d p new_stage) (report_of rt objects rows champions False)
       (with_stage (finished_disk d data (tree_of E objects rows)) p (left_over (staged_all E data objects rows))) tr"
    "\<forall>e \<in> set tr. (\<exists>u. e = with_stage d p u) \<or> torn e \<or> (\<exists>ph. e = phase_disk d p raw (staged_all E data objects rows) ph)
       \<or> e = with_stage (finished_disk d data (tree_of E objects rows)) p (left_over (staged_all E data objects rows))"
    "\<forall>ph. phase_disk d p raw (staged_all E data objects rows) ph \<in> set tr"
proof -
  let ?s = "staged_all E data objects rows" and ?t = "tree_of E objects rows"
  from ok obtain mb sb created_at where m: "m = manifest_of E B created_at SCHEMA_VERSION data objects (sort (map (row_pair E) rows)) champions"
    and arch: "archive = bundle_of mb sb data objects"
    and auth: "authenticated_bundle_manifest E B keys (Inr archive) = Inr (named archive, key_id, m)" unfolding bundle_ok_def by blast
  from ok obtain key where key: "map_of keys key_id = Some key" unfolding bundle_ok_def by blast
  from ok have facts: "inspect_snapshot B data = Inr (SCHEMA_VERSION, rows, champions)" "list_all (row_ok E) rows" "distinct (map (row_name E) rows)"
    "list_all (object_ok E) objects" "distinct (map fst objects)" "fst ` set objects = ar_content_sha256 ` set rows"
    "int (length data) \<le> MAX_DATABASE_BYTES" "int (length data) + sum_list (map (oe_size_bytes \<circ> object_entry_of) objects) \<le> MAX_BUNDLE_CONTENT_BYTES"
    unfolding bundle_ok_def by blast+
  from marker_written obtain raw where raw: "authenticated_marker E (marker_of E rt p m objects rows champions) key_id key = Inr raw"
    unfolding marker_of_def .
  from stages_bundle [OF p auth [unfolded arch m] facts(7,8,4,5)] obtain tr1 where
    1: "does (stage_bundle E B keys (Inr archive) p) (with_stage d p new_stage) (key_id, m) (with_stage d p (staged_files data objects)) tr1"
    "staging d p tr1" unfolding stages_def arch m by blast
  from stages_checked [OF p facts(1,2,6)] obtain tr2 where
    2: "does (check_staged E B p m) (with_stage d p (staged_files data objects)) (SCHEMA_VERSION, rows, champions) (with_stage d p (staged_files data objects)) tr2"
    "staging d p tr2" unfolding stages_def m by blast
  from stages_artifacts [OF p facts(2,3,4,6)] obtain tr3 where
    3: "does (stage_artifacts E p rows) (with_stage d p (staged_files data objects)) () (with_stage d p ?s) tr3" "staging d p tr3" unfolding stages_def by blast
  from does_publish [OF p d, of ?s data ?t raw] obtain tr4 where
    4: "does (publish_stage p raw) (with_stage d p ?s) () (with_stage (finished_disk d data ?t) p (left_over ?s)) tr4"
    "\<forall>e \<in> set tr4. torn e \<or> (\<exists>ph. e = phase_disk d p raw ?s ph) \<or> e = with_stage (finished_disk d data ?t) p (left_over ?s)"
    "\<forall>ph. phase_disk d p raw ?s ph \<in> set tr4"
    by (auto simp: staged_all_def)
  have o: "length (mf_objects m) = length objects" by (simp add: m manifest_of_def)
  have h: "sha256_hex E (mf_value m) = Inr (sha256 E (dumps E (canon (mf_value m))))" unfolding m by (rule manifest_digest)
  have k: "(case map_of keys key_id of Some k \<Rightarrow> Inr k | None \<Rightarrow> raiseR KeyError ''key_id'') = Inr key" using key by simp
  have run: "does (restore_staged E B keys rt (Inr archive) p) (with_stage d p new_stage) (report_of rt objects rows champions False)
      (with_stage (finished_disk d data ?t) p (left_over ?s)) (tr1 @ tr2 @ tr3 @ [] @ [] @ [] @ tr4 @ [])"
    unfolding restore_staged_def
    apply (rule does_bind [OF 1(1)], unfold prod.case, rule does_bind [OF 2(1)], unfold prod.case, rule does_andthen [OF 3(1)])
    apply (rule does_bind [OF does_lift [OF h]], rule does_bind [OF does_lift [OF k]])
    apply (unfold o, rule does_bind [OF does_lift [OF raw [unfolded marker_of_def]]], rule does_andthen [OF 4(1)])
    unfolding report_of_def by (rule does_ret)
  have "staging d p (tr1 @ tr2 @ tr3)" using 1(2) 2(2) 3(2) unfolding staging_def set_append by (intro ballI) (elim UnE; rule bspec)
  with 4(2) have "\<forall>e \<in> set (tr1 @ tr2 @ tr3 @ [] @ [] @ [] @ tr4 @ []). (\<exists>u. e = with_stage d p u) \<or> torn e \<or> (\<exists>ph. e = phase_disk d p raw ?s ph)
      \<or> e = with_stage (finished_disk d data ?t) p (left_over ?s)"
    unfolding staging_def by (simp add: ball_Un)
  then show thesis by (rule that [OF key raw run]) (use 4(3) in simp)
qed

lemma remove_with_stage: "p \<notin> fst ` set (dk_stages d) \<Longrightarrow> remove_stage p (with_stage d p s) = d"
proof -
  assume "p \<notin> fst ` set (dk_stages d)"
  then have "filter (\<lambda>(q, _). q \<noteq> p) (dk_stages d) = dk_stages d" by (intro filter_True) force
  then show ?thesis by (simp add: remove_stage_def with_stage_def)
qed

definition stage_path :: "restore_target \<Rightarrow> restore_world \<Rightarrow> string" where
  \<comment> \<open>the directory the next \<open>mkdtemp\<close> creates\<close>
  "stage_path rt w = rt_parent rt @ ''/'' @ STAGE_PREFIX @ rs_temp w (rs_temps w)"

lemma fresh_restore:
  assumes w: "calm w" "clean (rs_disk w)" "stage_path rt w \<notin> fst ` set (dk_stages (rs_disk w))"
    and ok: "bundle_ok E B keys archive key_id m data objects rows champions"
  obtains raw key w' tr where "map_of keys key_id = Some key"
    "authenticated_marker E (marker_of E rt (stage_path rt w) m objects rows champions) key_id key = Inr raw"
    "restore_bundle E B keys rt (Inr archive) w = (Inr (report_of rt objects rows champions False), w')"
    "calm w'" "rs_disk w' = finished_disk (rs_disk w) data (tree_of E objects rows)" "rs_trace w' = rs_trace w @ tr"
    "\<forall>e \<in> set tr. (\<exists>u. e = with_stage (rs_disk w) (stage_path rt w) u) \<or> torn e
       \<or> (\<exists>ph. e = phase_disk (rs_disk w) (stage_path rt w) raw (staged_all E data objects rows) ph)
       \<or> (\<exists>ds. e = (finished_disk (rs_disk w) data (tree_of E objects rows))\<lparr>dk_stages := ds\<rparr>)"
    "\<forall>ph. phase_disk (rs_disk w) (stage_path rt w) raw (staged_all E data objects rows) ph \<in> set tr"
proof -
  let ?d = "rs_disk w" and ?p = "stage_path rt w" and ?s = "staged_all E data objects rows" and ?f = "finished_disk (rs_disk w) data (tree_of E objects rows)"
  from does_restore_staged [OF w(3,2) ok] obtain raw key tr where
    key: "map_of keys key_id = Some key" "authenticated_marker E (marker_of E rt ?p m objects rows champions) key_id key = Inr raw"
    and run: "does (restore_staged E B keys rt (Inr archive) ?p) (with_stage ?d ?p new_stage) (report_of rt objects rows champions False)
       (with_stage ?f ?p (left_over ?s)) tr"
    and tr: "\<forall>e \<in> set tr. (\<exists>u. e = with_stage ?d ?p u) \<or> torn e \<or> (\<exists>ph. e = phase_disk ?d ?p raw ?s ph) \<or> e = with_stage ?f ?p (left_over ?s)"
    and marked: "\<forall>ph. phase_disk ?d ?p raw ?s ph \<in> set tr" .
  have fp: "?p \<notin> fst ` set (dk_stages ?f)" using w(3) by (simp add: finished_disk_def)
  have fm: "dk_marker (with_stage ?f ?p (left_over ?s)) = None" using w(2) by (simp add: finished_disk_def clean_def)
  have c: "does (discard (remove_stage ?p)) (with_stage ?f ?p (left_over ?s)) () ?f [?f]"
    using does_discard [of "remove_stage ?p" "with_stage ?f ?p (left_over ?s)"] by (simp add: remove_with_stage [OF fp])
  have cleanup: "does (bind (disk_get dk_marker) (\<lambda>marker. if marker = None then discard (remove_stage ?p) else ret ()))
      (with_stage ?f ?p (left_over ?s)) () ?f ([] @ [?f])"
    by (rule does_bind [OF does_get]) (simp only: fm simp_thms if_True c)
  define body where "body = finally_do (catch (restore_staged E B keys rt (Inr archive) ?p) (\<lambda>e. andthen (unlink_present Marker) (throw e)))
    (bind (disk_get dk_marker) (\<lambda>marker. if marker = None then discard (remove_stage ?p) else ret ()))"
  let ?w = "w\<lparr>rs_temps := Suc (rs_temps w), rs_effects := Suc (rs_effects w), rs_disk := with_stage ?d ?p new_stage,
    rs_trace := rs_trace w @ [with_stage ?d ?p new_stage]\<rparr>"
  have "does body (with_stage ?d ?p new_stage) (report_of rt objects rows champions False) ?f (tr @ [] @ [?f])"
    unfolding body_def by (rule does_finally [OF does_catch [OF run] cleanup])
  moreover have "calm ?w" "rs_disk ?w = with_stage ?d ?p new_stage" using w(1) by (simp_all add: calm_def)
  ultimately obtain w' where w': "body ?w = (Inr (report_of rt objects rows champions False), w')" "calm w'" "rs_disk w' = ?f"
    "rs_trace w' = rs_trace ?w @ tr @ [] @ [?f]" by (rule doesD)
  have tmp: "mkdtemp rt w = (Inr ?p, ?w)"
    using w(1) by (simp add: mkdtemp_def bind_apply andthen_apply effect_def calm_def stage_path_def with_stage_def new_stage_def)
  have start: "resume_restore E B keys rt (Inr archive) w = (Inr None, w)"
    "disk_get (\<lambda>d. dk_database d = None \<and> \<not> dk_sidecars d \<and> dk_artifacts d = None) w = (Inr True, w)"
    using w(2) by (simp_all add: resume_restore_def disk_get_def bind_apply clean_def)
  have res: "restore_bundle E B keys rt (Inr archive) w = (Inr (report_of rt objects rows champions False), w')"
    using w'(1) unfolding restore_bundle_def body_def
    by (simp only: bind_apply andthen_apply start require_apply tmp prod.case sum.case option.case if_True)
  have last: "with_stage ?f ?p (left_over ?s) = ?f\<lparr>dk_stages := dk_stages ?f @ [(?p, left_over ?s)]\<rparr>" "?f = ?f\<lparr>dk_stages := dk_stages ?f\<rparr>"
    by (simp_all add: with_stage_def)
  have t: "rs_trace w' = rs_trace w @ ([with_stage ?d ?p new_stage] @ tr @ [?f])" using w'(4) by simp
  show thesis
  proof (rule that [OF key res w'(2,3) t])
    show "\<forall>e \<in> set ([with_stage ?d ?p new_stage] @ tr @ [?f]). (\<exists>u. e = with_stage ?d ?p u) \<or> torn e \<or> (\<exists>ph. e = phase_disk ?d ?p raw ?s ph)
        \<or> (\<exists>ds. e = ?f\<lparr>dk_stages := ds\<rparr>)"
      using tr last by (auto, metis+)
    show "\<forall>ph. phase_disk ?d ?p raw ?s ph \<in> set ([with_stage ?d ?p new_stage] @ tr @ [?f])" using marked by simp
  qed
qed

section \<open>Resuming\<close>

lemma canon_idem [simp]: "canon (canon v) = canon v"
proof (induction v rule: canon.induct)
  case (2 kvs)
  have "map (\<lambda>(k, v). (k, canon v)) (canon_entries kvs) = canon_entries kvs"
    using 2 by (intro map_idI) (auto simp: canon_entries_def)
  moreover have "sort_key fst (canon_entries kvs) = canon_entries kvs"
    unfolding canon_entries_def by (rule sort_key_id_if_sorted) simp
  ultimately have "canon_entries (canon_entries kvs) = canon_entries kvs" by (simp add: canon_entries_def)
  then show ?case by (simp only: canon_obj)
qed auto

lemma verify_marker:
  assumes raw: "authenticated_marker E payload key_id key = Inr raw" "reads_back E B raw" and key: "map_of keys key_id = Some key" and E: "hmac_ok E"
  shows "verify_recovery_marker E B raw keys = Inr (canon_entries payload)"
proof -
  from raw(1) obtain bytes where bytes: "canonical_json_bytes E (JObj payload) = Inr bytes"
    and env: "canonical_json_bytes E (JObj [(''payload'', JObj payload), (''authentication'', authentication key_id (hmac256 E key bytes))]) = Inr raw"
    by (auto simp: authenticated_marker_def bindR_Inr_iff)
  let ?kvs = "canon_entries [(''payload'', JObj payload), (''authentication'', authentication key_id (hmac256 E key bytes))]"
  have s: "strict_json B raw = Inr (JObj ?kvs)" using read_canonical [OF env raw(2)] by (simp only: canon_obj)
  have k: "fst ` set ?kvs = {''payload'', ''authentication''}" by (simp add: canon_entries_keys)
  have "entry ?kvs x = canon (entry [(''payload'', JObj payload), (''authentication'', authentication key_id (hmac256 E key bytes))] x)" for x
    by (rule canon_entry) simp
  then have e: "entry ?kvs ''payload'' = JObj (canon_entries payload)"
    "entry ?kvs ''authentication'' = JObj (authentication_entries key_id (hmac256 E key bytes))"
    by (simp_all add: canon_obj canon_authentication del: canon.simps)
  have "canonical_json_bytes E (JObj (canon_entries payload)) = canonical_json_bytes E (canon (JObj payload))" by (simp only: canon_obj)
  also have "\<dots> = Inr bytes" using bytes by (simp add: canonical_json_bytes_def validate_json_def del: canon.simps)
  finally have c: "canonical_json_bytes E (JObj (canon_entries payload)) = Inr bytes" .
  show ?thesis
    unfolding verify_recovery_marker_def s
    by (simp add: with_keys_def k e c authentication_keys check_authentication_ok [OF key E])
qed

lemma marker_entries:
  fixes rt :: restore_target and h p :: string and n k c v :: int
  defines "kvs \<equiv> canon_entries (marker_payload rt h p n k c v)"
  shows "fst ` set kvs = set MARKER_KEYS" "entry kvs ''format'' = JStr MARKER_FORMAT" "entry kvs ''manifest_sha256'' = JStr h"
    "entry kvs ''database_path'' = JStr (rt_database_path rt)" "entry kvs ''artifact_root'' = JStr (rt_artifact_root rt)"
    "entry kvs ''stage'' = JStr p" "entry kvs ''artifacts'' = JInt n" "entry kvs ''objects'' = JInt k" "entry kvs ''champions'' = JInt c"
proof -
  show "fst ` set kvs = set MARKER_KEYS" unfolding kvs_def by (simp add: canon_entries_keys marker_payload_def MARKER_KEYS_def)
  have d: "distinct (map fst (marker_payload rt h p n k c v))" by (simp add: marker_payload_def)
  show "entry kvs ''format'' = JStr MARKER_FORMAT" "entry kvs ''manifest_sha256'' = JStr h"
    "entry kvs ''database_path'' = JStr (rt_database_path rt)" "entry kvs ''artifact_root'' = JStr (rt_artifact_root rt)"
    "entry kvs ''stage'' = JStr p" "entry kvs ''artifacts'' = JInt n" "entry kvs ''objects'' = JInt k" "entry kvs ''champions'' = JInt c"
    unfolding kvs_def canon_entry [OF d] by (simp_all add: marker_payload_def)
qed

lemma phase_stage:
  assumes "p \<notin> fst ` set (dk_stages d)"
  shows "stage_of p (phase_disk d p raw s ph) = (case ph of Marked \<Rightarrow> s | ArtifactsInstalled \<Rightarrow> s\<lparr>sd_artifacts := None\<rparr> | DatabaseInstalled \<Rightarrow> left_over s)"
    "map_of (dk_stages (phase_disk d p raw s ph)) p \<noteq> None" "dk_marker (phase_disk d p raw s ph) = Some raw"
proof -
  have "p \<notin> fst ` set (dk_stages (d\<lparr>dk_marker := m\<rparr>))" "p \<notin> fst ` set (dk_stages (d\<lparr>dk_marker := m, dk_artifacts := a\<rparr>))"
    "p \<notin> fst ` set (dk_stages (d\<lparr>dk_marker := m, dk_artifacts := a, dk_database := b\<rparr>))" for m a b using assms by simp_all
  note st = this [THEN stage_of_with]
  show "stage_of p (phase_disk d p raw s ph) = (case ph of Marked \<Rightarrow> s | ArtifactsInstalled \<Rightarrow> s\<lparr>sd_artifacts := None\<rparr> | DatabaseInstalled \<Rightarrow> left_over s)"
    by (cases ph) (simp_all only: phase_disk_def restore_phase.case st left_over_def)
  show "map_of (dk_stages (phase_disk d p raw s ph)) p \<noteq> None" "dk_marker (phase_disk d p raw s ph) = Some raw"
    by (cases ph; simp add: phase_disk_def with_stage_def map_of_eq_None_iff)+
qed

lemma recovery_accepted:
  assumes p: "p \<notin> fst ` set (dk_stages d)" "stage_path_ok rt p" and d: "clean d"
    and ok: "bundle_ok E B keys archive key_id m data objects rows champions" and E: "hmac_ok E"
    and key: "map_of keys key_id = Some key" and raw: "authenticated_marker E (marker_of E rt p m objects rows champions) key_id key = Inr raw"
    "reads_back E B raw" "int (length raw) \<le> 16 * 1024"
  shows "check_recovery E B keys rt (Inr archive) raw (phase_disk d p raw (staged_all E data objects rows) ph) = Inr (p, JInt (int (length objects)))"
proof -
  let ?e = "phase_disk d p raw (staged_all E data objects rows) ph" and ?t = "tree_of E objects rows"
  from ok obtain created_at where m: "m = manifest_of E B created_at SCHEMA_VERSION data objects (sort (map (row_pair E) rows)) champions"
    and auth: "authenticated_bundle_manifest E B keys (Inr archive) = Inr (named archive, key_id, m)" unfolding bundle_ok_def by blast
  from ok have facts: "inspect_snapshot B data = Inr (SCHEMA_VERSION, rows, champions)" "list_all (row_ok E) rows" "distinct (map (row_name E) rows)"
    "list_all (object_ok E) objects" "fst ` set objects = ar_content_sha256 ` set rows" "int (length data) \<le> MAX_DATABASE_BYTES"
    unfolding bundle_ok_def by blast+
  have h: "sha256_hex E (mf_value m) = Inr (sha256 E (dumps E (canon (mf_value m))))" unfolding m by (rule manifest_digest)
  have db: "oe_size_bytes (mf_database m) = int (length data)" "oe_sha256 (mf_database m) = sha256 E data"
    by (simp_all add: m manifest_of_def database_entry_def)
  have mm: "py_eq_int (manifest_entry m ''schema_version'') SCHEMA_VERSION" "champions_match champions (manifest_entry m ''champions'')"
    "declared_pairs m = Some (sort (map (row_pair E) rows))"
    unfolding m by (simp_all only: manifest_of_entry champions_match_canon declared_pairs_of sorted_sort_id sorted_sort py_eq_int.simps)
  have cand: "(case dk_database ?e of Some b \<Rightarrow> Some b | None \<Rightarrow> sd_database (stage_of p ?e)) = Some data"
    "(case dk_artifacts ?e of Some t \<Rightarrow> Some t | None \<Rightarrow> map_option Directory (sd_artifacts (stage_of p ?e))) = Some (Directory ?t)"
    unfolding phase_stage [OF p(1)] using d by (cases ph; simp add: phase_disk_def staged_all_def clean_def)+
  have tree: "validate_artifact_tree E (Directory ?t) rows = Inr ()" using facts by (intro validate_tree_of) simp_all
  note v = verify_marker [OF raw(1,2) key E, unfolded marker_of_def]
  show ?thesis
    unfolding check_recovery_def v with_keys_def json.case Let_def
    using raw(3) p(2) phase_stage(2) [OF p(1)] db mm
    by (simp add: marker_entries auth h cand facts(1,6) artifact_pairs_ok [OF facts(2)] tree is_dir_root_def del: canon.simps)
qed

lemma resumed_restore:
  assumes p: "p \<notin> fst ` set (dk_stages d)" "stage_path_ok rt p" and d: "clean d"
    and ok: "bundle_ok E B keys archive key_id m data objects rows champions" and E: "hmac_ok E"
    and key: "map_of keys key_id = Some key" and raw: "authenticated_marker E (marker_of E rt p m objects rows champions) key_id key = Inr raw"
    "reads_back E B raw" "int (length raw) \<le> 16 * 1024"
  shows "\<exists>tr. does (restore_bundle E B keys rt (Inr archive)) (phase_disk d p raw (staged_all E data objects rows) ph)
    (report_of rt objects rows champions True) (finished_disk d data (tree_of E objects rows)) tr"
proof -
  let ?s = "staged_all E data objects rows" and ?f = "finished_disk d data (tree_of E objects rows)"
  let ?A = "phase_disk d p raw ?s"
  from ok have snap: "inspect_snapshot B data = Inr (SCHEMA_VERSION, rows, champions)" unfolding bundle_ok_def by blast
  note checked = recovery_accepted [OF p d ok E key raw]
  have a: "does (effect (install_artifacts p)) (?A Marked) () (?A ArtifactsInstalled) [?A ArtifactsInstalled]"
    using does_effect [of "install_artifacts p" "?A Marked"] by (simp add: installs [OF p(1)])
  have b: "does (effect (install_database p)) (?A ArtifactsInstalled) () (?A DatabaseInstalled) [?A DatabaseInstalled]"
    using does_effect [of "install_database p" "?A ArtifactsInstalled"] by (simp add: installs [OF p(1)])
  have installed: "dk_artifacts (?A Marked) = None" "dk_artifacts (?A ArtifactsInstalled) \<noteq> None" "dk_artifacts (?A DatabaseInstalled) \<noteq> None"
    "dk_database (?A Marked) = None" "dk_database (?A ArtifactsInstalled) = None" "dk_database (?A DatabaseInstalled) = Some data"
    using d by (simp_all add: phase_disk_def clean_def staged_all_def)
  have both: "\<exists>tr. does (andthen (if dk_artifacts (?A ph) = None then andthen (effect (install_artifacts p)) sync else ret ())
      (andthen (if dk_database (?A ph) = None then andthen sync (andthen (effect (install_database p)) sync) else ret ()) k)) (?A ph) x e' tr"
    if "does k (?A DatabaseInstalled) x e' tr'" for k :: "restored option restoring" and x e' tr'
  proof (cases ph)
    case Marked
    show ?thesis unfolding Marked installed if_P [OF refl]
      by (rule exI, rule does_andthen [OF does_andthen [OF a does_sync]], rule does_andthen [OF does_andthen [OF does_sync does_andthen [OF b does_sync]] that])
  next
    case ArtifactsInstalled
    show ?thesis unfolding ArtifactsInstalled if_not_P [OF installed(2)] installed(5) if_P [OF refl]
      by (rule exI, rule does_andthen [OF does_ret], rule does_andthen [OF does_andthen [OF does_sync does_andthen [OF b does_sync]] that])
  next
    case DatabaseInstalled
    have n: "dk_database (?A DatabaseInstalled) \<noteq> None" using installed(6) by simp
    show ?thesis unfolding DatabaseInstalled if_not_P [OF installed(3)] if_not_P [OF n]
      by (rule exI, rule does_andthen [OF does_ret], rule does_andthen [OF does_ret that])
  qed
  let ?g = "with_stage ?f p (left_over ?s)"
  have fp: "p \<notin> fst ` set (dk_stages ?f)" using p(1) by (simp add: finished_disk_def)
  have "put_at Marker None (?A DatabaseInstalled) = ?g"
    using d by (simp add: phase_disk_def finished_disk_def left_over_def clean_def with_stage_def staged_all_def)
  then have u: "does (effect (put_at Marker None)) (?A DatabaseInstalled) () ?g [?g]"
    using does_effect [of "put_at Marker None" "?A DatabaseInstalled"] by (simp del: put_at.simps)
  have c: "does (discard (remove_stage p)) ?g () ?f [?f]"
    using does_discard [of "remove_stage p" ?g] by (simp add: remove_with_stage [OF fp])
  let ?r = "report_of rt objects rows champions True"
  have tail: "does (bind (disk_get dk_database) (\<lambda>db.
      bind (lift (inspect_snapshot B (case db of Some b \<Rightarrow> b | None \<Rightarrow> []))) (\<lambda>(schema, rows, champions).
      andthen (effect (put_at Marker None)) (andthen sync (andthen (discard (remove_stage p))
      (ret (Some \<lparr>rd_restored = rt_database_path rt, rd_schema_version = schema, rd_artifacts = int (length rows), rd_objects = JInt (int (length objects)),
                     rd_champions = int (length champions), rd_resumed = True\<rparr>))))))) (?A DatabaseInstalled) (Some ?r) ?f
      ([] @ [] @ [?g] @ [?g] @ [?f] @ [])"
    apply (rule does_bind [OF does_get], unfold installed option.case, rule does_bind [OF does_lift [OF snap]], unfold prod.case)
    unfolding report_of_def by (rule does_andthen [OF u does_andthen [OF does_sync does_andthen [OF c does_ret]]])
  from both [OF tail] obtain tr where
    tr: "does (andthen (if dk_artifacts (?A ph) = None then andthen (effect (install_artifacts p)) sync else ret ())
      (andthen (if dk_database (?A ph) = None then andthen sync (andthen (effect (install_database p)) sync) else ret ())
       (bind (disk_get dk_database) (\<lambda>db.
      bind (lift (inspect_snapshot B (case db of Some b \<Rightarrow> b | None \<Rightarrow> []))) (\<lambda>(schema, rows, champions).
      andthen (effect (put_at Marker None)) (andthen sync (andthen (discard (remove_stage p))
      (ret (Some \<lparr>rd_restored = rt_database_path rt, rd_schema_version = schema, rd_artifacts = int (length rows), rd_objects = JInt (int (length objects)),
                     rd_champions = int (length champions), rd_resumed = True\<rparr>))))))))) (?A ph) (Some ?r) ?f tr" by blast
  have "does (resume_restore E B keys rt (Inr archive)) (?A ph) (Some ?r) ?f ([] @ [] @ tr)"
    unfolding resume_restore_def
    by (rule does_bind [OF does_get], unfold phase_stage(3) [OF p(1)] option.case, rule does_bind [OF does_lift [OF checked]], unfold prod.case, rule tr)
  from does_bind [OF this, of "\<lambda>resumed. case resumed of Some r \<Rightarrow> ret r | None \<Rightarrow> _" ?r ?f "[]"] show ?thesis
    unfolding restore_bundle_def using does_ret [of ?r ?f] by auto
qed

end
