(* ===== verification/BackupProperties.thy ===== *)
theory BackupProperties
  imports BackupLemmas Instances
begin

text \<open>The properties of backup and restore, with an instance of one policy and one champion.\<close>

section \<open>Created bundles\<close>

lemma hex_py_len: "list_all lower_hex s \<Longrightarrow> py_len s = length s"
proof -
  have c: "\<forall>c \<in> set ''0123456789abcdef''. \<not> continuation_byte c" by code_simp
  assume "list_all lower_hex s"
  then have "\<forall>x \<in> set s. x \<in> set ''0123456789abcdef''" unfolding list_all_iff lower_hex_def .
  with c have "filter (\<lambda>c. \<not> continuation_byte c) s = s" by (intro filter_True) blast
  then show ?thesis by (simp add: py_len_def)
qed

text \<open>The parameters behave as documented on a bundle: digests are digests, the texts it holds read back and fit.\<close>

definition readable :: "pyenv \<Rightarrow> backup_env \<Rightarrow> zip_member list \<Rightarrow> bool" where
  "readable E B archive \<longleftrightarrow> (\<forall>z \<in> set archive.
     (zm_filename z = MANIFEST_MEMBER \<longrightarrow> zm_file_size z \<le> MAX_MANIFEST_BYTES \<and> (\<exists>text. zm_data z = Inr text \<and> reads_back E B text))
   \<and> (zm_filename z = SIGNATURE_MEMBER \<longrightarrow> zm_file_size z \<le> MAX_SIGNATURE_BYTES \<and> (\<exists>text. zm_data z = Inr text \<and> reads_back E B text)))"

lemma created_bundle_ok:
  assumes created: "create_bundle E B view artifact_root data keys key_id created_at target_exists = Inr archive"
    and E: "sha256_ok E" "hmac_ok E" and readable: "readable E B archive"
    and snap: "inspect_snapshot B data = Inr (schema, rows, champions)" "distinct (map (artifact_name E) rows)"
  obtains m objects where "bundle_ok E B keys archive key_id m data objects rows champions"
proof -
  from create_bundle_Inr [OF created] obtain key schema' rows' champions' objects mb sb where
    key: "map_of keys key_id = Some key" and snap': "inspect_snapshot B data = Inr (schema', rows', champions')"
    and rows: "list_all (row_ok E) rows'" "fst ` set objects = ar_content_sha256 ` set rows'"
    and objects: "distinct (map fst objects)" "list_all (object_ok E) objects"
    and size: "int (length data) + sum_list (map (oe_size_bytes \<circ> object_entry_of) objects) \<le> MAX_BUNDLE_CONTENT_BYTES"
    "int (length data) \<le> MAX_DATABASE_BYTES"
    and mb: "canonical_json_bytes E (JObj (manifest_json (bk_service_version B) created_at schema' (database_entry E data)
       (map object_entry_of objects) (sort (map (row_pair E) rows')) champions')) = Inr mb"
    and sb: "sign_bytes E key_id key mb = Inr sb" and archive: "archive = bundle_of mb sb data objects" by metis
  from snap snap' have eq: "schema' = schema" "rows' = rows" "champions' = champions" by simp_all
  from snap(1) have schema: "schema = SCHEMA_VERSION" by (auto simp: inspect_snapshot_def bindR_Inr_iff)
  have fits: "int (length mb) \<le> MAX_MANIFEST_BYTES" "int (length sb) \<le> MAX_SIGNATURE_BYTES" "reads_back E B mb" "reads_back E B sb"
    using readable unfolding archive readable_def bundle_of_def by (simp_all add: member_name_fresh)
  have pairs: "\<forall>(ns, d) \<in> set (sort (map (row_pair E) rows)). py_len ns = 20 \<and> is_sha256 d"
  proof -
    have "py_len (take 20 (sha256 E x)) = 20" for x
    proof -
      have "list_all lower_hex (take 20 (sha256 E x))" "length (sha256 E x) = 64"
        using E(1) by (auto simp: sha256_ok_def is_sha256_def list_all_iff dest: in_set_takeD)
      then show ?thesis by (simp add: hex_py_len)
    qed
    with rows(1) show ?thesis by (auto simp: row_pair_def list_all_iff eq row_ok_def)
  qed
  have digest: "is_sha256 (sha256 E data)" using E(1) by (simp add: sha256_ok_def)
  note auth = authenticate_created [OF key E(2) mb [unfolded eq] sb fits size(2) digest schema objects(2,1) pairs]
  have "map (artifact_name E) rows = map (\<lambda>r. Inr (row_name E r)) rows"
    using rows(1) by (auto simp: eq list_all_iff artifact_name_ok)
  with snap(2) have "distinct (map Inr (map (row_name E) rows) :: string result list)" by (simp add: comp_def)
  then have names: "distinct (map (row_name E) rows)" unfolding distinct_map by blast
  have "bundle_ok E B keys archive key_id (manifest_of E B created_at SCHEMA_VERSION data objects (sort (map (row_pair E) rows)) champions)
      data objects rows champions"
    unfolding bundle_ok_def using auth key snap(1) rows objects size names schema by (auto simp: eq archive)
  then show thesis by (rule that)
qed

section \<open>Round trip\<close>

text \<open>
  C39. A bundle that \<open>create_bundle\<close> wrote can be restored: on a disk without database, artifacts and marker, and
  without faults of the operating system, \<open>restore_bundle\<close> with the same keys succeeds, installs the very
  bytes of the snapshot and an artifact tree that holds exactly the policies the snapshot names, each with
  the content of its digest, and leaves neither marker nor stage. The texts of the bundle must fit the limits of the
  reader, which the writer does not check, and no two artifacts may share a file name.
\<close>

theorem backup_restores:
  assumes "create_bundle E B view artifact_root data keys key_id created_at target_exists = Inr archive"
    and "sha256_ok E" "hmac_ok E" "readable E B archive"
    and "inspect_snapshot B data = Inr (schema, rows, champions)" "distinct (map (artifact_name E) rows)"
    and "calm w" "clean (rs_disk w)" "stage_path rt w \<notin> fst ` set (dk_stages (rs_disk w))"
  shows "\<exists>r w' t. restore_bundle E B keys rt (Inr archive) w = (Inr r, w')
    \<and> dk_database (rs_disk w') = Some data \<and> dk_artifacts (rs_disk w') = Some (Directory t)
    \<and> validate_artifact_tree E (Directory t) rows = Inr ()
    \<and> dk_marker (rs_disk w') = None \<and> dk_stages (rs_disk w') = dk_stages (rs_disk w)"
proof -
  from created_bundle_ok [OF assms(1-6)] obtain m objects where ok: "bundle_ok E B keys archive key_id m data objects rows champions" .
  from fresh_restore [OF assms(7-9) ok] obtain w' where
    "restore_bundle E B keys rt (Inr archive) w = (Inr (report_of rt objects rows champions False), w')"
    "rs_disk w' = finished_disk (rs_disk w) data (tree_of E objects rows)" by metis
  moreover have "validate_artifact_tree E (Directory (tree_of E objects rows)) rows = Inr ()"
    using ok by (intro validate_tree_of) (auto simp: bundle_ok_def)
  ultimately show ?thesis using assms(8) by (auto simp: finished_disk_def clean_def)
qed

section \<open>Crashes\<close>

lemma stage_path_ok_new: "CHR ''/'' \<notin> set (rs_temp w (rs_temps w)) \<Longrightarrow> stage_path_ok rt (stage_path rt w)"
  by (simp add: stage_path_ok_def stage_path_def prefix_def)

lemma torn_refused:
  assumes "torn (rs_disk w)" "bk_parse B [] = None"
  shows "restore_bundle E B keys rt bundle w = (Inl (Exc BackupError ''bundle JSON is invalid''), w)"
  using assms
  by (simp add: torn_def restore_bundle_def resume_restore_def disk_get_def bind_apply check_recovery_def verify_recovery_marker_def
      strict_json_def raiseR_def)

definition restored_to :: "string \<Rightarrow> tree_root option \<Rightarrow> disk \<Rightarrow> bool" where
  \<comment> \<open>the database and the artifacts are installed and no restore is pending\<close>
  "restored_to data artifacts d \<longleftrightarrow> dk_database d = Some data \<and> dk_artifacts d = artifacts \<and> dk_marker d = None"

lemma recovers_from:
  fixes E B rt objects rows data
  defines "restored d \<equiv> restored_to data (Some (Directory (tree_of E objects rows))) d"
  assumes d: "clean d" "p \<notin> fst ` set (dk_stages d)" "stage_path_ok rt p" and E: "hmac_ok E"
    and ok: "bundle_ok E B keys archive key_id m data objects rows champions"
    and key: "map_of keys key_id = Some key" "authenticated_marker E (marker_of E rt p m objects rows champions) key_id key = Inr raw"
    and w: "calm w" "stage_path rt w \<notin> fst ` set (dk_stages (rs_disk w))"
    and readable: "\<And>raw. dk_marker (rs_disk w) = Some raw \<Longrightarrow> reads_back E B raw \<and> int (length raw) \<le> 16 * 1024"
    and at: "(\<exists>u. rs_disk w = with_stage d p u) \<or> (\<exists>ph. rs_disk w = phase_disk d p raw (staged_all E data objects rows) ph)
      \<or> (\<exists>ds. rs_disk w = (finished_disk d data (tree_of E objects rows))\<lparr>dk_stages := ds\<rparr>)"
  shows "restored (rs_disk w) \<or> (\<exists>r w'. restore_bundle E B keys rt (Inr archive) w = (Inr r, w') \<and> restored (rs_disk w'))"
proof -
  have reached: "restored ((finished_disk d2 data (tree_of E objects rows))\<lparr>dk_stages := ds\<rparr>)"
    "restored (finished_disk d2 data (tree_of E objects rows))" if "clean d2" for d2 ds
    using that by (simp_all add: restored_def finished_disk_def clean_def restored_to_def)
  from at consider (staging) u where "rs_disk w = with_stage d p u"
    | (marked) ph where "rs_disk w = phase_disk d p raw (staged_all E data objects rows) ph"
    | (finished) ds where "rs_disk w = (finished_disk d data (tree_of E objects rows))\<lparr>dk_stages := ds\<rparr>" by blast
  then show ?thesis
  proof cases
    case staging
    then have "clean (rs_disk w)" using d(1) by (simp add: clean_def)
    with fresh_restore [OF w(1) this w(2) ok] reached(2) show ?thesis by metis
  next
    case marked
    have "reads_back E B raw \<and> int (length raw) \<le> 16 * 1024" by (rule readable) (simp add: marked phase_stage(3) [OF d(2)])
    with resumed_restore [OF d(2,3,1) ok E key] obtain tr where "does (restore_bundle E B keys rt (Inr archive))
        (phase_disk d p raw (staged_all E data objects rows) ph) (report_of rt objects rows champions True)
        (finished_disk d data (tree_of E objects rows)) tr" by blast
    from doesD [OF this w(1) marked] reached(2) [OF d(1)] show ?thesis by metis
  next
    case finished
    with reached(1) [OF d(1)] show ?thesis by simp
  qed
qed

text \<open>
  C40. A crash during a restore loses nothing. Whatever disk the process leaves behind when it dies, restoring the
  same bundle again ends with the same database and the same artifacts as an undisturbed restore, or that
  state was already reached: from the recovery marker once it is written, and from the beginning before. The
  one exception is a marker that was created and not yet written: such a disk refuses every later restore.
\<close>

theorem interrupted_restore_recovers:
  assumes "create_bundle E B view artifact_root data keys key_id created_at target_exists = Inr archive"
    and "sha256_ok E" "hmac_ok E" "readable E B archive"
    and "inspect_snapshot B data = Inr (schema, rows, champions)" "distinct (map (artifact_name E) rows)"
    and "calm w" "clean (rs_disk w)" "stage_path rt w \<notin> fst ` set (dk_stages (rs_disk w))" "CHR ''/'' \<notin> set (rs_temp w (rs_temps w))"
    and "restore_bundle E B keys rt (Inr archive) w = (r, w')" "rs_trace w' = rs_trace w @ tr" "e \<in> set tr"
    and "calm w2" "rs_disk w2 = e" "stage_path rt w2 \<notin> fst ` set (dk_stages e)"
    and "\<And>raw. dk_marker e = Some raw \<Longrightarrow> reads_back E B raw \<and> int (length raw) \<le> 16 * 1024"
  shows "restored_to data (dk_artifacts (rs_disk w')) (rs_disk w')
    \<and> (\<not> torn e \<longrightarrow> restored_to data (dk_artifacts (rs_disk w')) e
        \<or> (\<exists>r2 w2'. restore_bundle E B keys rt (Inr archive) w2 = (Inr r2, w2') \<and> restored_to data (dk_artifacts (rs_disk w')) (rs_disk w2')))
    \<and> (torn e \<longrightarrow> bk_parse B [] = None \<longrightarrow>
        restore_bundle E B keys rt (Inr archive) w2 = (Inl (Exc BackupError ''bundle JSON is invalid''), w2))"
proof -
  let ?p = "stage_path rt w" and ?d = "rs_disk w"
  from created_bundle_ok [OF assms(1-6)] obtain m objects where ok: "bundle_ok E B keys archive key_id m data objects rows champions" .
  let ?t = "tree_of E objects rows" and ?s = "staged_all E data objects rows"
  from fresh_restore [OF assms(7-9) ok] obtain raw key w1 tr1 where
    key: "map_of keys key_id = Some key" "authenticated_marker E (marker_of E rt ?p m objects rows champions) key_id key = Inr raw"
    and run: "restore_bundle E B keys rt (Inr archive) w = (Inr (report_of rt objects rows champions False), w1)"
      "rs_disk w1 = finished_disk ?d data ?t" "rs_trace w1 = rs_trace w @ tr1"
    and tr1: "\<forall>e \<in> set tr1. (\<exists>u. e = with_stage ?d ?p u) \<or> torn e \<or> (\<exists>ph. e = phase_disk ?d ?p raw ?s ph)
       \<or> (\<exists>ds. e = (finished_disk ?d data ?t)\<lparr>dk_stages := ds\<rparr>)" .
  from run assms(11,12) have w': "w' = w1" "tr1 = tr" by auto
  have artifacts: "dk_artifacts (rs_disk w') = Some (Directory ?t)" by (simp add: w' run(2) finished_disk_def)
  have reached: "restored_to data (dk_artifacts (rs_disk w')) (rs_disk w')"
    using assms(8) by (simp add: w' run(2) finished_disk_def clean_def restored_to_def)
  have "restored_to data (dk_artifacts (rs_disk w')) e
      \<or> (\<exists>r2 w2'. restore_bundle E B keys rt (Inr archive) w2 = (Inr r2, w2') \<and> restored_to data (dk_artifacts (rs_disk w')) (rs_disk w2'))"
    if "\<not> torn e"
  proof -
    from tr1 assms(13) that have "(\<exists>u. rs_disk w2 = with_stage ?d ?p u) \<or> (\<exists>ph. rs_disk w2 = phase_disk ?d ?p raw ?s ph)
        \<or> (\<exists>ds. rs_disk w2 = (finished_disk ?d data ?t)\<lparr>dk_stages := ds\<rparr>)" unfolding assms(15) w'(2) by blast
    from recovers_from [OF assms(8,9) stage_path_ok_new [OF assms(10)] assms(3) ok key assms(14) _ _ this] show ?thesis
      using assms(16,17) unfolding artifacts assms(15) by blast
  qed
  with torn_refused [of w2] assms(15) reached show ?thesis by blast
qed

end
