(* ===== verification/BackupSafety.thy ===== *)
theory BackupSafety
  imports BackupLemmas
begin

text \<open>
  What a restore that returns has installed, for any bundle, any disk and any faults of the operating system.
\<close>

section \<open>Runs that return\<close>




















section \<open>Writing files\<close>







section \<open>Staged and installed\<close>









definition authentic_bundle :: "pyenv \<Rightarrow> backup_env \<Rightarrow> keyring \<Rightarrow> zip_member list result \<Rightarrow> manifest \<Rightarrow> string \<Rightarrow> bool" where
  \<comment> \<open>the manifest of the bundle is authenticated and names these bytes as its database\<close>
  "authentic_bundle E B keys bundle m data \<longleftrightarrow> (\<exists>infos key_id. authenticated_bundle_manifest E B keys bundle = Inr (infos, key_id, m))
     \<and> int (length data) = oe_size_bytes (mf_database m) \<and> sha256 E data = oe_sha256 (mf_database m)"

definition consistent :: "pyenv \<Rightarrow> backup_env \<Rightarrow> manifest \<Rightarrow> string \<Rightarrow> artifact_row list \<Rightarrow> bool" where
  \<comment> \<open>the database passes its checks and has the champions and the artifacts of the manifest\<close>
  "consistent E B m data rows \<longleftrightarrow> (\<exists>schema champions pairs. inspect_snapshot B data = Inr (schema, rows, champions)
     \<and> champions_match champions (manifest_entry m ''champions'') \<and> artifact_pairs E rows = Inr pairs \<and> declared_pairs m = Some pairs)"

definition installed :: "pyenv \<Rightarrow> backup_env \<Rightarrow> keyring \<Rightarrow> zip_member list result \<Rightarrow> disk \<Rightarrow> bool" where
  "installed E B keys bundle d \<longleftrightarrow> (\<exists>m data rows dir. authentic_bundle E B keys bundle m data \<and> consistent E B m data rows
     \<and> dk_database d = Some data \<and> dk_artifacts d = Some dir \<and> validate_artifact_tree E dir rows = Inr () \<and> dk_marker d = None)"





lemma install_fields [simp]:
  "dk_database (on_stage p f d) = dk_database d" "dk_artifacts (on_stage p f d) = dk_artifacts d" "dk_marker (on_stage p f d) = dk_marker d"
  by (simp_all add: on_stage_def)











section \<open>Authenticity\<close>







end
