(* ===== verification/BackupInstances.thy ===== *)
theory BackupInstances
  imports BackupProperties BackupSafety
begin

text \<open>
  An instance of backup and restore: a snapshot with one policy and its champion, the bundle that is made of
  it, and an empty machine that it is restored to. JSON texts are read by a table of the canonical texts of
  known values. The witnesses of the properties close the theory.
\<close>

section \<open>Reading canonical texts\<close>

definition read_text :: "json list \<Rightarrow> string \<Rightarrow> json option" where
  "read_text vs text = map_option canon (find (\<lambda>v. dumps E0 (canon v) = text) vs)"

lemma read_text_reads_back:
  assumes "bk_parse B = read_text vs" "list_all json_finite vs" "v \<in> set vs"
  shows "reads_back E0 B (dumps E0 (canon v))"
  unfolding reads_back_def
proof (intro allI impI)
  fix u assume u: "json_finite u" "dumps E0 (canon u) = dumps E0 (canon v)"
  from assms(3) obtain x where x: "find (\<lambda>x. dumps E0 (canon x) = dumps E0 (canon v)) vs = Some x"
    by (cases "find (\<lambda>x. dumps E0 (canon x) = dumps E0 (canon v)) vs") (auto simp: find_None_iff)
  then have m: "x \<in> set vs" "dumps E0 (canon x) = dumps E0 (canon v)" by (auto simp: find_Some_iff)
  with assms(2) u have "canonical_json_bytes E0 x = Inr (dumps E0 (canon v))" "canonical_json_bytes E0 u = Inr (dumps E0 (canon v))"
    by (simp_all add: canonical_json_bytes_def validate_json_def list_all_iff)
  then have "canon x = canon u" by (rule canonical_bytes_inject [OF E0_float_repr])
  with x show "bk_parse B (dumps E0 (canon v)) = Some (canon u)" by (simp add: assms(1) read_text_def)
qed

section \<open>A snapshot\<close>

definition zeros64 :: string where "zeros64 = replicate 64 CHR ''0''"

definition row0 :: artifact_row where
  "row0 = \<lparr>ar_tenant_id = ''acme'', ar_artifact_id = ''policy-'' @ zeros64, ar_policy_name = ''pol'', ar_version = ''v1'',
     ar_content_sha256 = zeros64, ar_artifact_uri = ''policy-artifact://'' @ take 20 zeros64 @ ''/'' @ zeros64 @ ''.json'',
     ar_metadata_json = JObj [], ar_registered_at = 5\<rparr>"

definition champion0 :: champion_row where
  "champion0 = \<lparr>ch_tenant_id = ''acme'', ch_policy_name = ''pol'', ch_artifact_id = ''policy-'' @ zeros64, ch_generation = 1, ch_promoted_at = 6\<rparr>"

definition snapshot0 :: db_snapshot where
  "snapshot0 = \<lparr>sn_integrity = [''ok''], sn_foreign_keys = 0, sn_user_version = 1,
     sn_db = empty_db\<lparr>policy_artifacts := [row0], champion_registry := [champion0]\<rparr>\<rparr>"

definition data0 :: string where "data0 = ''SQLite''"
definition objects0 :: "(string \<times> string) list" where "objects0 = [(zeros64, ''policy'')]"
definition backup_keys0 :: keyring where "backup_keys0 = [(''k1'', replicate 32 CHR ''x'')]"

definition target0 :: restore_target where
  "target0 = \<lparr>rt_parent = ''/d'', rt_database_path = ''/d/state.sqlite3'', rt_artifact_root = ''/d/artifacts''\<rparr>"

definition manifest0 :: json where
  "manifest0 = JObj (manifest_json ''1.0'' 7 SCHEMA_VERSION (database_entry E0 data0) (map object_entry_of objects0)
     (sort (map (row_pair E0) [row0])) [champion0])"

definition signature0 :: json where "signature0 = authentication ''k1'' (replicate 32 (CHR 0x00))"

definition marker0 :: json where
  "marker0 = JObj [(''payload'', JObj (marker_payload target0 zeros64 ''/d/restore-stage.x'' 1 1 1 SCHEMA_VERSION)), (''authentication'', signature0)]"

definition backup_env0 :: backup_env where
  "backup_env0 = \<lparr>bk_sqlite = (\<lambda>b. if b = data0 then Inr snapshot0 else raiseR OSError ''file is not a database''),
     bk_parse = read_text [manifest0, signature0, marker0], bk_service_version = ''1.0''\<rparr>"

definition policy_view0 :: "string \<Rightarrow> file_view" where
  "policy_view0 path = (let st = \<lparr>fs_kind = RegularFile, fs_dev = 0, fs_ino = 1, fs_size = 6, fs_mode = 384, fs_uid = 0\<rparr>
     in \<lparr>fv_lstat = Inr st, fv_open = Inr (st, ''policy'')\<rparr>)"

definition archive0 :: "zip_member list" where
  "archive0 = bundle_of (dumps E0 (canon manifest0)) (dumps E0 (canon signature0)) data0 objects0"

lemma zeros64 [simp]: "is_sha256 zeros64" "sha256 E0 m = zeros64" "hmac256 E0 k m = replicate 32 (CHR 0x00)"
  by (simp_all add: zeros64_def E0_def is_sha256_def lower_hex_def list_all_iff)

lemma row0_ok: "row_ok E0 row0"
  by (simp add: row_ok_def row0_def)

lemma snapshot0: "inspect_snapshot backup_env0 data0 = Inr (SCHEMA_VERSION, [row0], [champion0])"
  by (simp add: inspect_snapshot_def backup_env0_def snapshot0_def SCHEMA_VERSION_def)

lemma policy_view0: "read_verified_policy E0 (policy_view0 path) zeros64 = Inr ''policy''"
  by (simp add: read_verified_policy_Inr policy_view0_def Let_def same_file_def MAX_POLICY_BYTES_def)

lemma collected0: "foldR (collect_artifact E0 policy_view0 ''/a'') [row0] ([], []) = Inr (objects0, [row_pair E0 row0])"
proof -
  have r: "ar_content_sha256 row0 = zeros64" "ar_tenant_id row0 = ''acme''" by (simp_all add: row0_def)
  show ?thesis
    by (simp add: collect_artifact_def check_row_ok [OF row0_ok] Let_def r policy_artifact_path_def check_digest_def tenant_namespace_def
        policy_view0 objects0_def row_pair_def)
qed

lemma finite0: "json_finite manifest0" "json_finite signature0" "json_finite marker0"
  by (simp only: manifest0_def manifest_json_finite) (simp_all add: signature0_def authentication_def marker0_def marker_payload_def)

lemma created0: "create_bundle E0 backup_env0 policy_view0 ''/a'' data0 backup_keys0 ''k1'' 7 False = Inr archive0"
proof -
  have e: "mapR object_entry_for objects0 = Inr (map object_entry_of objects0)"
    by (rule object_entries [where E = E0]) (simp add: objects0_def object_ok_def MAX_POLICY_BYTES_def)
  have s: "sort_key fst objects0 = objects0" by (simp add: objects0_def)
  have n: "int (length data0) + sum_list (map oe_size_bytes (map object_entry_of objects0)) \<le> MAX_BUNDLE_CONTENT_BYTES"
    "int (length data0) \<le> MAX_DATABASE_BYTES" by code_simp+
  have m: "canonical_json_bytes E0 (JObj (manifest_json (bk_service_version backup_env0) 7 SCHEMA_VERSION
      \<lparr>oe_member = DATABASE_MEMBER, oe_size_bytes = int (length data0), oe_sha256 = sha256 E0 data0\<rparr>
      (map object_entry_of objects0) (sort [row_pair E0 row0]) [champion0])) = Inr (dumps E0 (canon manifest0))"
    using finite0(1) by (simp add: canonical_json_bytes_def validate_json_def manifest0_def database_entry_def backup_env0_def del: canon.simps)
  have g: "sign_bytes E0 ''k1'' key mb = Inr (dumps E0 (canon signature0))" for key mb
    using finite0(2) by (simp add: sign_bytes_def canonical_json_bytes_def validate_json_def signature0_def del: canon.simps)
  have a: "map (\<lambda>(e, (_, content)). written (oe_member e) FILE_ATTR content) (zip (map object_entry_of objects0) objects0)
      = map (\<lambda>(d, content). written (member_name d) FILE_ATTR content) objects0" by (simp add: objects0_def object_entry_of_def)
  show ?thesis
    unfolding create_bundle_def snapshot0 bindR_simps guardR_simps prod.case collected0 Let_def s e
    by (simp only: not_False_eq_True guardR_simps bindR_simps n m g a archive0_def bundle_of_def)
      (simp add: backup_keys0_def n m g)
qed

section \<open>A machine\<close>

definition machine0 :: restore_world where
  "machine0 = \<lparr>rs_disk = \<lparr>dk_database = None, dk_sidecars = False, dk_artifacts = None, dk_marker = None, dk_stages = []\<rparr>,
     rs_trace = [], rs_faults = (\<lambda>_. None), rs_effects = 0, rs_temp = (\<lambda>n. ''x''), rs_temps = 0\<rparr>"

lemma machine0: "calm machine0" "clean (rs_disk machine0)" "dk_stages (rs_disk machine0) = []" "rs_trace machine0 = []"
  "stage_path target0 machine0 = ''/d/restore-stage.x''"
  by (simp_all add: machine0_def calm_def clean_def stage_path_def target0_def STAGE_PREFIX_def)

lemma reads0: "v \<in> {manifest0, signature0, marker0} \<Longrightarrow> reads_back E0 backup_env0 (dumps E0 (canon v))"
  using finite0 by (intro read_text_reads_back [where vs = "[manifest0, signature0, marker0]"]) (simp_all add: backup_env0_def)

lemma lengths0:
  "int (length (dumps E0 (canon manifest0))) \<le> MAX_MANIFEST_BYTES" "int (length (dumps E0 (canon signature0))) \<le> MAX_SIGNATURE_BYTES"
  "int (length (dumps E0 (canon marker0))) \<le> 16 * 1024"
  by code_simp+

lemma readable0: "readable E0 backup_env0 archive0"
proof -
  have d: "set archive0 = {written MANIFEST_MEMBER WRITESTR_ATTR (dumps E0 (canon manifest0)), written SIGNATURE_MEMBER WRITESTR_ATTR (dumps E0 (canon signature0)),
      written DATABASE_MEMBER FILE_ATTR data0, written (member_name zeros64) FILE_ATTR ''policy''}"
    by (simp add: archive0_def bundle_of_def objects0_def)
  show ?thesis
    unfolding readable_def d using lengths0(1,2) by (simp add: member_name_fresh member_name_fresh [symmetric] reads0)
qed

lemma names0: "distinct (map (artifact_name E0) [row0])"
  by simp

lemma marker_text0:
  assumes "authenticated_marker E0 (marker_of E0 target0 ''/d/restore-stage.x'' m objects [row0] [champion0]) ''k1'' key = Inr raw" "length objects = 1"
  shows "raw = dumps E0 (canon marker0)"
  using assms finite0(3)
  by (simp add: authenticated_marker_def marker_of_def canonical_json_bytes_def validate_json_def marker0_def signature0_def bindR_Inr_iff del: canon.simps)

lemma marker_text_nonempty: "dumps E0 (canon marker0) \<noteq> []"
  by code_simp

lemma restore0:
  obtains t s w' where
    "restore_bundle E0 backup_env0 backup_keys0 target0 (Inr archive0) machine0 = (Inr (report_of target0 objects0 [row0] [champion0] False), w')"
    "rs_disk w' = finished_disk (rs_disk machine0) data0 t"
    "phase_disk (rs_disk machine0) ''/d/restore-stage.x'' (dumps E0 (canon marker0)) s Marked \<in> set (rs_trace w')"
proof -
  from created_bundle_ok [OF created0 E0_sha256 E0_hmac readable0 snapshot0 names0] obtain m objects where
    ok: "bundle_ok E0 backup_env0 backup_keys0 archive0 ''k1'' m data0 objects [row0] [champion0]" .
  then obtain mb sb where "archive0 = bundle_of mb sb data0 objects" unfolding bundle_ok_def by blast
  then have "map zm_filename archive0 = map zm_filename (bundle_of mb sb data0 objects)" by simp
  then have one: "length objects = 1" using arg_cong [of _ _ length] by (force simp: archive0_def bundle_of_def objects0_def)
  have fresh: "stage_path target0 machine0 \<notin> fst ` set (dk_stages (rs_disk machine0))" by (simp add: machine0)
  from fresh_restore [OF machine0(1,2) fresh ok] obtain raw key w' tr where r: "map_of backup_keys0 ''k1'' = Some key"
    "authenticated_marker E0 (marker_of E0 target0 (stage_path target0 machine0) m objects [row0] [champion0]) ''k1'' key = Inr raw"
    "restore_bundle E0 backup_env0 backup_keys0 target0 (Inr archive0) machine0 = (Inr (report_of target0 objects [row0] [champion0] False), w')"
    "rs_disk w' = finished_disk (rs_disk machine0) data0 (tree_of E0 objects [row0])" "rs_trace w' = rs_trace machine0 @ tr"
    "\<forall>ph. phase_disk (rs_disk machine0) (stage_path target0 machine0) raw (staged_all E0 data0 objects [row0]) ph \<in> set tr" by metis
  have "report_of target0 objects [row0] [champion0] False = report_of target0 objects0 [row0] [champion0] False"
    by (simp add: report_of_def one objects0_def)
  note this [simp]
  have raw: "raw = dumps E0 (canon marker0)" by (rule marker_text0 [OF r(2) [unfolded machine0] one])
  have "phase_disk (rs_disk machine0) ''/d/restore-stage.x'' raw (staged_all E0 data0 objects [row0]) Marked \<in> set (rs_trace w')"
    using spec [OF r(6), of Marked] unfolding r(5) machine0 by simp
  with r(3,4) show thesis unfolding raw by (intro that) simp_all
qed

section \<open>Witnesses\<close>

theorem backup_restores_witness:
  "\<exists>r w' t. restore_bundle E0 backup_env0 backup_keys0 target0 (Inr archive0) machine0 = (Inr r, w')
    \<and> dk_database (rs_disk w') = Some data0 \<and> dk_artifacts (rs_disk w') = Some (Directory t)
    \<and> validate_artifact_tree E0 (Directory t) [row0] = Inr ()"
proof -
  have "stage_path target0 machine0 \<notin> fst ` set (dk_stages (rs_disk machine0))" by (simp add: machine0)
  from backup_restores [OF created0 E0_sha256 E0_hmac readable0 snapshot0 names0 machine0(1,2) this] show ?thesis by blast
qed

theorem interrupted_restore_recovers_witness:
  "\<exists>r w' e r2 w2. restore_bundle E0 backup_env0 backup_keys0 target0 (Inr archive0) machine0 = (r, w')
    \<and> e \<in> set (rs_trace w') \<and> dk_database e = None \<and> dk_marker e = Some (dumps E0 (canon marker0))
    \<and> restore_bundle E0 backup_env0 backup_keys0 target0 (Inr archive0) (machine0\<lparr>rs_disk := e, rs_temp := (\<lambda>n. ''y'')\<rparr>) = (Inr r2, w2)
    \<and> restored_to data0 (dk_artifacts (rs_disk w')) (rs_disk w2)"
proof -
  let ?d = "rs_disk machine0"
  from restore0 obtain s r w' where run: "restore_bundle E0 backup_env0 backup_keys0 target0 (Inr archive0) machine0 = (r, w')"
    and e: "phase_disk ?d ''/d/restore-stage.x'' (dumps E0 (canon marker0)) s Marked \<in> set (rs_trace w')" by metis
  let ?e = "phase_disk ?d ''/d/restore-stage.x'' (dumps E0 (canon marker0)) s Marked"
  let ?w2 = "machine0\<lparr>rs_disk := ?e, rs_temp := (\<lambda>n. ''y'')\<rparr>"
  have disk: "dk_database ?e = None" "dk_marker ?e = Some (dumps E0 (canon marker0))" "dk_stages ?e = [(''/d/restore-stage.x'', s)]" "\<not> torn ?e"
    using marker_text_nonempty by (simp_all add: phase_disk_def machine0_def with_stage_def torn_def)
  have slash: "CHR ''/'' \<notin> set (rs_temp machine0 (rs_temps machine0))" by (simp add: machine0_def)
  have fresh: "stage_path target0 machine0 \<notin> fst ` set (dk_stages ?d)" by (simp add: machine0)
  have w2: "calm ?w2" "stage_path target0 ?w2 \<notin> fst ` set (dk_stages ?e)"
    by (simp_all add: disk calm_def stage_path_def target0_def STAGE_PREFIX_def) (simp_all add: machine0_def)
  have tr: "rs_trace w' = rs_trace machine0 @ rs_trace w'" by (simp add: machine0)
  have parsed: "reads_back E0 backup_env0 raw \<and> int (length raw) \<le> 16 * 1024" if "dk_marker ?e = Some raw" for raw
    using that reads0 [of marker0] lengths0(3) unfolding disk by simp
  from interrupted_restore_recovers [OF created0 E0_sha256 E0_hmac readable0 snapshot0 names0 machine0(1,2) fresh slash run tr e w2(1) _ w2(2) parsed]
  have "restored_to data0 (dk_artifacts (rs_disk w')) ?e
     \<or> (\<exists>r2 w2'. restore_bundle E0 backup_env0 backup_keys0 target0 (Inr archive0) ?w2 = (Inr r2, w2')
        \<and> restored_to data0 (dk_artifacts (rs_disk w')) (rs_disk w2'))"
    using disk(4) by simp
  moreover have "\<not> restored_to data0 (dk_artifacts (rs_disk w')) ?e" by (simp add: restored_to_def disk)
  ultimately show ?thesis using run e disk(1,2) by blast
qed


end
