(* ===== verification/Spec2Isabelle.thy ===== *)
theory Spec2Isabelle
  imports StoreProperties EngineProperties ControlProperties ServiceProperties BackupInstances
begin

text \<open>
  A verification library for \<^verbatim>\<open>agent-tree-rl\<close>, a service that improves the decisions of a team of
  agents: a PUCT search plays a typed discussion game against a governed benchmark, a learner trains
  challenger policies from its results, and a control plane promotes a challenger only through offline
  gates and a hidden benchmark. A SQLite store keeps budgets, leases, receipts, events and policies, and
  every receipt is signed.

  \<^bold>\<open>The program and its theories.\<close> All sources are under \<^verbatim>\<open>src/agent_tree_rl/\<close>.

  \<^item> \<open>Prelude\<close>: exceptions as values, the state-and-exception monad, the preservation calculus
    \<open>keeps\<close>, Python dictionaries and sorting. \<open>PyFloat\<close>: double-precision floats (finite values as
    rationals with rounding, infinities, NaN). \<open>Json\<close>: JSON values, canonical order and text.
    \<open>PyObjects\<close>: checked access to the keys of an object, canonical objects.
  \<^item> \<open>Crypto\<close> (\<^verbatim>\<open>crypto.py\<close>): canonical bytes, base64url, signing and verification of receipt envelopes.
  \<^item> \<open>StoreSchema\<close>, \<open>StoreRetention\<close>, \<open>StoreBudgets\<close>, \<open>StoreLeases\<close>, \<open>StoreIdempotency\<close>,
    \<open>StoreEvents\<close>, \<open>StoreReceipts\<close>, \<open>StorePolicies\<close>, \<open>Store\<close> (\<^verbatim>\<open>store.py\<close>): the tables as lists of
    rows in a record \<open>db\<close>, the world with its clock and identifiers, transactions that roll back, one
    definition per method, and the store as a transition system \<open>store_step\<close>.
  \<^item> \<open>EngineMoves\<close>, \<open>EngineBenchmark\<close>, \<open>EngineModel\<close>, \<open>EngineSearch\<close>, \<open>EngineTree\<close>,
    \<open>EngineLearn\<close>, \<open>EngineFixture\<close> (\<^verbatim>\<open>engine.py\<close>): the game, the evaluator, the policy and value model,
    the search and its tree, learning from results, the built-in scenario and benchmark.
  \<^item> \<open>Serde\<close> (\<^verbatim>\<open>serde.py\<close>), \<open>Learner\<close> (\<^verbatim>\<open>learner.py\<close>), \<open>Files\<close> and \<open>Artifacts\<close>
    (\<^verbatim>\<open>artifacts.py\<close>), \<open>MetricsRegistry\<close> (\<^verbatim>\<open>metrics.py\<close>), \<open>HiddenBenchmark\<close>
    (\<^verbatim>\<open>hidden_benchmark.py\<close>, the controller's side): payloads of models, training and promotion gates,
    verified files, counters, fingerprints and aggregate receipts.
  \<^item> \<open>Evidence\<close> (\<^verbatim>\<open>evidence.py\<close>) with \<open>EvidenceLemmas\<close>: the evidence runner, its policy, the collection of output
    under the limits of time and size, the hashing of artifacts and the receipt of a run.
    \<open>BenchmarkWorker\<close> (\<^verbatim>\<open>workers/benchmark_worker.py\<close> and the worker's side of \<^verbatim>\<open>hidden_benchmark.py\<close>): the private
    suite, the request, the runs of all cases and the signed aggregate.
  \<^item> \<open>ControlState\<close> and \<open>Control\<close> (\<^verbatim>\<open>control.py\<close>): the world of the store extended by the files, the
    counters and the lifecycle; request checks, idempotent execution, and one handler per endpoint.
    \<open>ControlInvariant\<close> and \<open>ControlLemmas\<close> hold their lemmas.
  \<^item> \<open>HttpApi\<close> and \<open>Admission\<close> (\<^verbatim>\<open>api.py\<close>, with \<^verbatim>\<open>Settings.authenticate\<close>): routing, authentication, bodies
    and responses of a request; the semaphores and the drain of the server as interleaved critical
    sections. \<open>ProcessRegistry\<close> (\<^verbatim>\<open>process_registry.py\<close>): ownership and cancellation of process groups.
  \<^item> \<open>Backup\<close> (\<^verbatim>\<open>backup.py\<close>): bundles as lists of ZIP members, the checks of a manifest and of its signature, and
    restore and recovery as a sequence of effects on a disk, each of which may fail or be the last before a crash.
    \<open>BackupLemmas\<close>: undisturbed runs (\<open>does\<close>) and the phases of a restore. \<open>BackupSafety\<close>: runs that return under
    any faults (\<open>wins\<close>). \<open>BackupProperties\<close> and \<open>BackupInstances\<close>: properties and an instance.
  \<^item> \<open>Instances\<close>, \<open>EngineInstances\<close>, \<open>ControlInstances\<close>, \<open>EvidenceInstances\<close>, \<open>WorkerInstances\<close>: concrete parameters
    and states for witnesses.
  \<^item> \<open>StoreProperties\<close>, \<open>EngineProperties\<close>, \<open>ControlProperties\<close>, \<open>ServiceProperties\<close>: the other properties, each with a
    witness where it has hypotheses.

  \<^bold>\<open>How the parts interact.\<close> A handler of the control plane checks its request, claims an idempotency key,
  reserves budget or takes a lease, runs the engine or a worker, and commits receipts, events, budget and
  response in one transaction of the store. The locale \<open>store_client\<close> is the contract between the two:
  every property of the database that all methods of the store keep is kept by every handler. It is
  interpreted on the invariant of the store and on the order of its logs. The locale \<open>output_collection\<close> is the
  contract of a process client, to read a child's output within limits and to end; it is interpreted on the evidence
  runner and on the client of the benchmark worker. A worker runs every case through an evidence runner and its aggregate
  is checked by the controller; a restored bundle holds a snapshot of the store and its policy files. The other locales are
  \<open>keyed_rows\<close> (tables with a key), \<open>expiring\<close> (rows that are retained until they expire),
  \<open>invariant_system\<close> and \<open>append_log\<close> (transition systems: the store, the service, the admission control
  and the process registry), each interpreted on the model.

  \<^bold>\<open>What the lemmas show.\<close> For the store: the invariant of reachable databases, budgets that are never
  overspent, fencing tokens, exactly-once claims, replay protection, authenticity of stored receipts,
  append-only logs, promotion as compare-and-swap, isolation of tenants, recovery, and that a failing call
  changes nothing. For the engine: the invariant of positions, canonical moves, totality and bounds of the
  evaluator and its equivalence with weighted means, termination of greedy completion, soundness and
  accounting of a search, and learning that keeps a model valid. For the service: handlers keep the store,
  promotions pass every gate, completed requests are replayed, decisions and rollbacks are all or nothing,
  policies survive storage, and accepted benchmark results are bound to their request. For the serving
  layer: only authorised writes change the state, admission is bounded under every interleaving and a
  drained server stays drained, and signals only reach process groups whose leader is not reaped. For the
  runners: a run ends whatever the child does, a passed receipt means what it says, and the controller accepts what
  the worker signs. For backups: what is created can be restored, a crash can be recovered from, and a restore that
  returns has installed the state of a signed manifest.

  \<^bold>\<open>Parameters.\<close> Code outside the repository is an argument of the definitions: SHA-256, HMAC-SHA-256 and
  the text of a float (\<open>pyenv\<close>); log, exp, tanh, sqrt, pow and the built-in sum (\<open>pymath\<close>); the readers
  of numbers and JSON text (\<open>pytext\<close>); the query and body parsers of HTTP (\<open>httpenv\<close>); the answers of
  the kernel to fork, kill and wait (\<open>kernel\<close>); paths, permissions and files (\<open>osenv\<close>, \<open>file_view\<close>); the gamma
  variates of the seeded generator; the clock, UUIDs and tokens (fields of \<open>world\<close>); the worker and
  evidence subprocesses of the control plane (fields of \<open>plane\<close>); clock readings, selector and pipe answers and exit
  statuses of a run (\<open>run_world\<close>, \<open>runenv\<close>); SQLite's reading of a database file and JSON texts of a bundle
  (\<open>backup_env\<close>), and the faults of the disk (\<open>restore_world\<close>). What the code relies on is a named hypothesis
  (\<open>sha256_ok\<close>, \<open>hmac_ok\<close>, \<open>float_repr_ok\<close>, \<open>readable\<close>), and the instances show that each can hold.

  \<^bold>\<open>Bounds.\<close> No loop needs fuel: each recursion is structural or has a measure (the remaining phases of a
  game, the bytes left in a file, the simulations left), except the loop that collects the output of a child
  (\<open>collect_loop\<close>), which is a \<open>partial_function\<close> and is proved to return whenever time passes. SQLite integers are bounded where a statement
  binds them (\<open>sql_int\<close>). Strings are their UTF-8 bytes; \<open>0.0\<close> and \<open>-0.0\<close> are identified. Messages of
  exceptions are kept without interpolated values.

  \<^bold>\<open>Not modelled.\<close> The probe and candidate programs (what a subprocess prints is a parameter), sockets, headers and the
  shutdown sequence of the HTTP server, configuration, secrets, logging and the command line (environment
  variables, file permissions and argument parsing around the modelled components), scripts and examples.
  Connection management of SQLite (pragmas, checkpoints, integrity checks) is left out of the store, and permission
  bits and parent directories are left out of the disk of a restore.
\<close>

end
